(* ===== verification/Prelude.thy ===== *)
theory Prelude
  imports
    Main
    "HOL-Library.AList"
    "HOL-Library.Char_ord"
    "HOL-Library.List_Lexorder"
    "HOL-Library.Multiset"
begin

text \<open>
  The prelude of the development: the error values and the result type that carry every
  \<^verbatim>\<open>throw\<close> of the TypeScript sources, the sequencing of fallible list traversals, the
  truthiness of optional strings, the stable comparator sort of
  \<^verbatim>\<open>Array.prototype.sort\<close>, and insertion-ordered maps. The collections
  \<open>res_simps\<close> and \<open>order_simps\<close> gather what the component proofs simplify with.
\<close>

named_theorems res_simps \<open>rewriting fallible computations\<close>
named_theorems order_simps \<open>comparators and the orders they decide\<close>

section \<open>Errors and results\<close>

text \<open>
  A JavaScript exception is a value of \<open>js_error\<close>. \<open>TimestampInvalid\<close> is the
  \<^verbatim>\<open>TimestampInvalidError\<close> of the evaluator, which \<^verbatim>\<open>evaluate\<close> catches;
  \<open>JsError\<close> carries the message of a plain \<^verbatim>\<open>Error\<close>; \<open>TypeError\<close>,
  \<open>RangeError\<close> and \<open>SyntaxError\<close> are those the language itself raises.
\<close>

datatype js_error =
    TimestampInvalid string "string option"
  | JsError string
  | TypeError
  | RangeError
  | SyntaxError

type_synonym 'a res = "js_error + 'a"

definition bindR :: "'a res \<Rightarrow> ('a \<Rightarrow> 'b res) \<Rightarrow> 'b res" where
  "bindR m f = (case m of Inl e \<Rightarrow> Inl e | Inr a \<Rightarrow> f a)"

definition throwIf :: "bool \<Rightarrow> js_error \<Rightarrow> unit res" where
  "throwIf b e = (if b then Inl e else Inr ())"

lemma bindR_simps [simp, res_simps]:
  "bindR (Inl e) f = Inl e"
  "bindR (Inr a) f = f a"
  by (simp_all add: bindR_def)

lemma bindR_Inr_iff [res_simps]: "bindR m f = Inr b \<longleftrightarrow> (\<exists>a. m = Inr a \<and> f a = Inr b)"
  by (cases m) simp_all

lemma bindR_Inl_iff [res_simps]:
  "bindR m f = Inl e \<longleftrightarrow> m = Inl e \<or> (\<exists>a. m = Inr a \<and> f a = Inl e)"
  by (cases m) simp_all

lemma bindR_return [simp]: "bindR m Inr = m"
  by (cases m) simp_all

lemma bindR_assoc: "bindR (bindR m f) g = bindR m (\<lambda>x. bindR (f x) g)"
  by (cases m) simp_all

lemma bindR_cong [fundef_cong]:
  "m = m' \<Longrightarrow> (\<And>a. m' = Inr a \<Longrightarrow> f a = f' a) \<Longrightarrow> bindR m f = bindR m' f'"
  by (cases m') simp_all

lemma throwIf_Inr_iff [res_simps]: "throwIf b e = Inr u \<longleftrightarrow> \<not> b"
  by (simp add: throwIf_def)

lemma throwIf_Inl_iff [res_simps]: "throwIf b e = Inl e' \<longleftrightarrow> b \<and> e' = e"
  by (auto simp: throwIf_def)

lemma throwIf_simps [simp]:
  "throwIf True e = Inl e" "throwIf False e = Inr ()"
  by (simp_all add: throwIf_def)

section \<open>Fallible traversals, left to right, stopping at the first error\<close>

fun mapR :: "('a \<Rightarrow> 'b res) \<Rightarrow> 'a list \<Rightarrow> 'b list res" where
  "mapR f [] = Inr []"
| "mapR f (x # xs) = bindR (f x) (\<lambda>y. bindR (mapR f xs) (\<lambda>ys. Inr (y # ys)))"

fun filterR :: "('a \<Rightarrow> bool res) \<Rightarrow> 'a list \<Rightarrow> 'a list res" where
  "filterR p [] = Inr []"
| "filterR p (x # xs) =
     bindR (p x) (\<lambda>b. bindR (filterR p xs) (\<lambda>ys. Inr (if b then x # ys else ys)))"

fun foldR :: "('b \<Rightarrow> 'a \<Rightarrow> 'b res) \<Rightarrow> 'b \<Rightarrow> 'a list \<Rightarrow> 'b res" where
  "foldR f b [] = Inr b"
| "foldR f b (x # xs) = bindR (f b x) (\<lambda>b'. foldR f b' xs)"

fun findR :: "('a \<Rightarrow> bool res) \<Rightarrow> 'a list \<Rightarrow> 'a option res" where
  "findR p [] = Inr None"
| "findR p (x # xs) = bindR (p x) (\<lambda>b. if b then Inr (Some x) else findR p xs)"

definition forR :: "('a \<Rightarrow> unit res) \<Rightarrow> 'a list \<Rightarrow> unit res" where
  "forR f xs = foldR (\<lambda>_. f) () xs"

definition flatMapR :: "('a \<Rightarrow> 'b list res) \<Rightarrow> 'a list \<Rightarrow> 'b list res" where
  "flatMapR f xs = bindR (mapR f xs) (\<lambda>yss. Inr (concat yss))"

definition andR :: "bool res \<Rightarrow> bool res \<Rightarrow> bool res" where
  "andR p q = bindR p (\<lambda>b. if b then q else Inr False)"

lemma mapR_Inr [simp]: "mapR (\<lambda>x. Inr (f x)) xs = Inr (map f xs)"
  by (induction xs) simp_all

lemma filterR_Inr [simp]: "filterR (\<lambda>x. Inr (p x)) xs = Inr (filter p xs)"
  by (induction xs) simp_all

lemma findR_Inr [simp]: "findR (\<lambda>x. Inr (p x)) xs = Inr (List.find p xs)"
  by (induction xs) simp_all

lemma mapR_cong [fundef_cong]:
  "xs = ys \<Longrightarrow> (\<And>x. x \<in> set ys \<Longrightarrow> f x = g x) \<Longrightarrow> mapR f xs = mapR g ys"
  by (induction ys arbitrary: xs) auto

lemma filterR_cong [fundef_cong]:
  "xs = ys \<Longrightarrow> (\<And>x. x \<in> set ys \<Longrightarrow> p x = q x) \<Longrightarrow> filterR p xs = filterR q ys"
  by (induction ys arbitrary: xs) auto

lemma findR_cong [fundef_cong]:
  "xs = ys \<Longrightarrow> (\<And>x. x \<in> set ys \<Longrightarrow> p x = q x) \<Longrightarrow> findR p xs = findR q ys"
proof (induction ys arbitrary: xs)
  case (Cons y ys)
  then have "findR p ys = findR q ys" by simp
  with Cons.prems show ?case by (simp cong: if_cong)
qed simp

lemma foldR_cong [fundef_cong]:
  "xs = ys \<Longrightarrow> b = c \<Longrightarrow> (\<And>a x. x \<in> set ys \<Longrightarrow> f a x = g a x) \<Longrightarrow> foldR f b xs = foldR g c ys"
proof (induction ys arbitrary: xs b c)
  case Nil
  then show ?case by simp
next
  case (Cons y ys)
  have "f c y = g c y" by (rule Cons.prems(3)) simp
  moreover have "foldR f b' ys = foldR g b' ys" for b'
    by (rule Cons.IH) (auto intro: Cons.prems(3))
  ultimately show ?case using Cons.prems(1,2) by (simp cong: bindR_cong)
qed

lemma forR_cong [fundef_cong]:
  "xs = ys \<Longrightarrow> (\<And>x. x \<in> set ys \<Longrightarrow> f x = g x) \<Longrightarrow> forR f xs = forR g ys"
  unfolding forR_def by (rule foldR_cong) auto

lemma mapR_all_Inr:
  "(\<And>x. x \<in> set xs \<Longrightarrow> f x = Inr (g x)) \<Longrightarrow> mapR f xs = Inr (map g xs)"
  by (induction xs) auto

lemma filterR_all_Inr:
  "(\<And>x. x \<in> set xs \<Longrightarrow> p x = Inr (q x)) \<Longrightarrow> filterR p xs = Inr (filter q xs)"
  by (induction xs) auto

lemma findR_all_Inr:
  "(\<And>x. x \<in> set xs \<Longrightarrow> p x = Inr (q x)) \<Longrightarrow> findR p xs = Inr (List.find q xs)"
  by (induction xs) auto

lemma mapR_Inr_length: "mapR f xs = Inr ys \<Longrightarrow> length ys = length xs"
  by (induction xs arbitrary: ys) (auto simp: res_simps)

lemma mapR_Inr_nth:
  "mapR f xs = Inr ys \<Longrightarrow> i < length xs \<Longrightarrow> f (xs ! i) = Inr (ys ! i)"
  by (induction xs arbitrary: ys i) (auto simp: res_simps nth_Cons split: nat.splits)

lemma mapR_Inr_set:
  "mapR f xs = Inr ys \<Longrightarrow> y \<in> set ys \<Longrightarrow> \<exists>x \<in> set xs. f x = Inr y"
  by (induction xs arbitrary: ys) (auto simp: res_simps)

lemma mapR_Inr_set':
  "mapR f xs = Inr ys \<Longrightarrow> x \<in> set xs \<Longrightarrow> \<exists>y \<in> set ys. f x = Inr y"
  by (induction xs arbitrary: ys) (auto simp: res_simps)

lemma filterR_Inr_set:
  "filterR p xs = Inr ys \<Longrightarrow> set ys = {x \<in> set xs. p x = Inr True}"
  by (induction xs arbitrary: ys) (auto simp: res_simps split: if_splits)

lemma foldR_Nil_iff [simp]: "foldR f b [] = Inr c \<longleftrightarrow> c = b"
  by auto

lemma forR_Inr_iff: "forR f xs = Inr u \<longleftrightarrow> (\<forall>x \<in> set xs. f x = Inr ())"
  unfolding forR_def by (induction xs) (auto simp: res_simps)

lemma forR_simps [simp]:
  "forR f [] = Inr ()"
  "forR f (x # xs) = bindR (f x) (\<lambda>_. forR f xs)"
  by (simp_all add: forR_def)

lemma flatMapR_Inr [simp]: "flatMapR (\<lambda>x. Inr (f x)) xs = Inr (concat (map f xs))"
  by (simp add: flatMapR_def)

lemma flatMapR_simps [simp]:
  "flatMapR f [] = Inr []"
  "flatMapR f (x # xs) = bindR (f x) (\<lambda>ys. bindR (flatMapR f xs) (\<lambda>zs. Inr (ys @ zs)))"
  by (simp_all add: flatMapR_def bindR_assoc)

lemma flatMapR_Inr_set:
  "flatMapR f xs = Inr ys \<Longrightarrow> y \<in> set ys \<Longrightarrow> \<exists>x \<in> set xs. \<exists>zs. f x = Inr zs \<and> y \<in> set zs"
  by (induction xs arbitrary: ys) (auto simp: res_simps)

lemma andR_simps [simp]:
  "andR (Inr True) q = q" "andR (Inr False) q = Inr False" "andR (Inl e) q = Inl e"
  by (simp_all add: andR_def)

lemma andR_Inr [simp]: "andR (Inr p) (Inr q) = Inr (p \<and> q)"
  by (simp add: andR_def)

lemma find_Some_iff_set: "List.find p xs = Some x \<Longrightarrow> x \<in> set xs \<and> p x"
  by (induction xs) (auto split: if_splits)

lemma find_None_iff_all: "List.find p xs = None \<longleftrightarrow> (\<forall>x \<in> set xs. \<not> p x)"
  by (induction xs) auto

lemma find_filter: "List.find p (filter q xs) = List.find (\<lambda>x. q x \<and> p x) xs"
  by (induction xs) auto

lemma findR_Some: "findR p xs = Inr (Some x) \<Longrightarrow> x \<in> set xs \<and> p x = Inr True"
  by (induction xs) (auto simp: res_simps split: if_splits)

lemma findR_None: "findR p xs = Inr None \<Longrightarrow> x \<in> set xs \<Longrightarrow> p x = Inr False"
  by (induction xs) (auto simp: res_simps split: if_splits)

section \<open>Lists without repetition of a key\<close>

lemma filter_filter_length_le: "length (filter q (filter p xs)) \<le> length (filter q xs)"
  by (induction xs) auto

lemma distinct_map_if_single:
  "(\<And>y. y \<in> set ys \<Longrightarrow> length (filter (\<lambda>c. f c = f y) ys) \<le> 1) \<Longrightarrow> distinct (map f ys)"
proof (induction ys)
  case Nil
  then show ?case by simp
next
  case (Cons y ys)
  have "filter (\<lambda>c. f c = f y) ys = []" using Cons.prems[of y] by simp
  then have "f y \<notin> f ` set ys" by (auto simp: filter_empty_conv)
  moreover have "distinct (map f ys)"
  proof (rule Cons.IH)
    fix z assume "z \<in> set ys"
    then show "length (filter (\<lambda>c. f c = f z) ys) \<le> 1" using Cons.prems[of z] by (simp split: if_splits)
  qed
  ultimately show ?case by simp
qed

lemma distinct_map_finer:
  "distinct (map f ys) \<Longrightarrow> (\<And>x y. x \<in> set ys \<Longrightarrow> y \<in> set ys \<Longrightarrow> g x = g y \<Longrightarrow> f x = f y) \<Longrightarrow> distinct (map g ys)"
proof (induction ys)
  case (Cons y ys)
  have "g y \<notin> g ` set ys"
  proof
    assume "g y \<in> g ` set ys"
    then obtain z where "z \<in> set ys" "g y = g z" by auto
    with Cons.prems(2)[of y z] have "f y = f z" by simp
    with \<open>z \<in> set ys\<close> Cons.prems(1) show False by auto
  qed
  with Cons show ?case by auto
qed simp

lemma single_filter_eq:
  "length (filter p xs) \<le> 1 \<Longrightarrow> x \<in> set xs \<Longrightarrow> y \<in> set xs \<Longrightarrow> p x \<Longrightarrow> p y \<Longrightarrow> x = y"
  by (induction xs) (auto simp: filter_empty_conv split: if_splits)

section \<open>Truthiness\<close>

text \<open>
  \<^verbatim>\<open>x ? { f: x } : {}\<close> on an optional string keeps a non-empty string only.
\<close>

fun truthy :: "string option \<Rightarrow> bool" where
  "truthy None = False"
| "truthy (Some s) = (s \<noteq> [])"

definition keepTruthy :: "string option \<Rightarrow> string option" where
  "keepTruthy x = (if truthy x then x else None)"

definition orElse :: "'a option \<Rightarrow> 'a \<Rightarrow> 'a" where
  "orElse x d = (case x of None \<Rightarrow> d | Some v \<Rightarrow> v)"

lemma orElse_simps [simp]: "orElse None d = d" "orElse (Some v) d = v"
  by (simp_all add: orElse_def)

lemma keepTruthy_truthy: "truthy x \<Longrightarrow> keepTruthy x = x"
  by (simp add: keepTruthy_def)

section \<open>The stable comparator sort\<close>

text \<open>
  \<^verbatim>\<open>Array.prototype.sort\<close> is stable; \<open>js_sort cmp\<close> is the stable insertion sort with
  a comparator that returns a negative, zero or positive number.
\<close>

fun js_insert :: "('a \<Rightarrow> 'a \<Rightarrow> int) \<Rightarrow> 'a \<Rightarrow> 'a list \<Rightarrow> 'a list" where
  "js_insert cmp x [] = [x]"
| "js_insert cmp x (y # ys) = (if cmp x y \<le> 0 then x # y # ys else y # js_insert cmp x ys)"

definition js_sort :: "('a \<Rightarrow> 'a \<Rightarrow> int) \<Rightarrow> 'a list \<Rightarrow> 'a list" where
  "js_sort cmp xs = foldr (js_insert cmp) xs []"

lemma js_sort_simps [simp]:
  "js_sort cmp [] = []"
  "js_sort cmp (x # xs) = js_insert cmp x (js_sort cmp xs)"
  by (simp_all add: js_sort_def)

lemma mset_js_insert [simp]: "mset (js_insert cmp x ys) = add_mset x (mset ys)"
  by (induction ys) auto

lemma mset_js_sort [simp]: "mset (js_sort cmp xs) = mset xs"
  by (induction xs) auto

lemma set_js_sort [simp]: "set (js_sort cmp xs) = set xs"
  by (metis mset_js_sort set_mset_mset)

lemma length_js_sort [simp]: "length (js_sort cmp xs) = length xs"
  by (metis mset_js_sort size_mset)

lemma js_insert_insort_key:
  assumes "\<And>y. y \<in> set ys \<Longrightarrow> (cmp x y \<le> 0) = (key x \<le> key y)"
  shows "js_insert cmp x ys = insort_key key x ys"
  using assms by (induction ys) auto

lemma js_sort_sort_key:
  assumes "\<And>x y. x \<in> set xs \<Longrightarrow> y \<in> set xs \<Longrightarrow> (cmp x y \<le> 0) = (key x \<le> key y)"
  shows "js_sort cmp xs = sort_key key xs"
  using assms
proof (induction xs)
  case Nil
  then show ?case by simp
next
  case (Cons x xs)
  have "js_sort cmp xs = sort_key key xs" by (rule Cons.IH) (simp add: Cons.prems)
  moreover have "js_insert cmp x (sort_key key xs) = insort_key key x (sort_key key xs)"
    by (rule js_insert_insort_key) (simp add: Cons.prems)
  ultimately show ?case by simp
qed

text \<open>
  Two lists with the same elements sort to the same list when the key tells the elements
  apart: this is what makes a run independent of the order its input arrives in.
\<close>

lemma sort_key_mset_eq:
  fixes key :: "'a \<Rightarrow> 'k::linorder"
  assumes eq: "mset xs = mset ys" and inj: "inj_on key (set xs)"
  shows "sort_key key xs = sort_key key ys"
proof (rule map_inj_on[where f = key])
  have sets: "set xs = set ys" by (rule mset_eq_setD[OF eq])
  have "mset (map key (sort_key key xs)) = mset (map key (sort_key key ys))"
    by (simp add: eq)
  then show "map key (sort_key key xs) = map key (sort_key key ys)"
    by (metis properties_for_sort sorted_sort_key)
  show "inj_on key (set (sort_key key xs) \<union> set (sort_key key ys))"
    using inj sets by simp
qed

lemma sort_key_filter: "sort_key key (filter p xs) = filter p (sort_key key xs)"
  by (simp add: filter_sort)

section \<open>Text comparison\<close>

text \<open>
  \<^verbatim>\<open>compareText\<close> of the evaluator: the order of the code units, as \<^verbatim>\<open><\<close>
  on JavaScript strings.
\<close>

definition compareText :: "string \<Rightarrow> string \<Rightarrow> int" where
  "compareText a b = (if a < b then -1 else if a > b then 1 else 0)"

lemma compareText_le_zero [order_simps]: "(compareText a b \<le> 0) = (a \<le> b)"
  by (auto simp: compareText_def)

lemma compareText_eq_zero [order_simps]: "(compareText a b = 0) = (a = b)"
  by (auto simp: compareText_def)

lemma compareText_pos [order_simps]: "(compareText a b > 0) = (b < a)"
  by (auto simp: compareText_def)

text \<open>
  The comparison of two sort keys, index by index. A key that is shorter than the other
  compares its end with \<^verbatim>\<open>undefined\<close>, which is neither smaller nor greater.
\<close>

fun compareSortKeys :: "string list \<Rightarrow> string list \<Rightarrow> int" where
  "compareSortKeys [] bs = 0"
| "compareSortKeys (a # as) [] = 0"
| "compareSortKeys (a # as) (b # bs) =
     (if compareText a b \<noteq> 0 then compareText a b else compareSortKeys as bs)"

lemma compareSortKeys_le_zero [order_simps]:
  "length as = length bs \<Longrightarrow> (compareSortKeys as bs \<le> 0) = (as \<le> bs)"
  by (induction as bs rule: compareSortKeys.induct)
     (auto simp: compareText_eq_zero compareText_le_zero)

lemma compareSortKeys_eq_zero [order_simps]:
  "length as = length bs \<Longrightarrow> (compareSortKeys as bs = 0) = (as = bs)"
  by (induction as bs rule: compareSortKeys.induct) (auto simp: compareText_eq_zero)

section \<open>Insertion-ordered maps\<close>

text \<open>
  A JavaScript \<^verbatim>\<open>Map\<close> keeps its keys in the order they were first set:
  \<open>AList.update\<close> replaces the value in place or appends the new key, and
  \<open>mapFromPairs\<close> is \<^verbatim>\<open>new Map(pairs)\<close>, where a later pair replaces the value
  of an earlier one.
\<close>

definition mapFromPairs :: "('k \<times> 'v) list \<Rightarrow> ('k \<times> 'v) list" where
  "mapFromPairs ps = foldl (\<lambda>m p. AList.update (fst p) (snd p) m) [] ps"

lemma map_of_foldl_update:
  "map_of (foldl (\<lambda>m p. AList.update (fst p) (snd p) m) m ps) =
     map_of m ++ map_of (rev ps)"
proof (induction ps arbitrary: m)
  case Nil
  then show ?case by simp
next
  case (Cons p ps)
  have "map_of (AList.update (fst p) (snd p) m) = (map_of m)(fst p \<mapsto> snd p)"
    by (rule AList.update_conv')
  then show ?case by (cases p) (simp add: Cons.IH map_add_upd_left del: fun_upd_apply)
qed

lemma map_of_mapFromPairs: "map_of (mapFromPairs ps) = map_of (rev ps)"
  by (simp add: mapFromPairs_def map_of_foldl_update)

lemma map_of_mapFromPairs_distinct:
  "distinct (map fst ps) \<Longrightarrow> map_of (mapFromPairs ps) = map_of ps"
  by (simp add: map_of_mapFromPairs) (metis distinct_rev map_of_inject_set rev_map set_rev)

end
