(* ===== verification/JsText.thy ===== *)
theory JsText
  imports Prelude
begin

text \<open>
  The string library of the language, as far as the sources use it: JSON text of a string
  array (the evaluator's composite keys), decimal digits, prefixes and slices, splitting,
  trimming and ASCII case. A character is a code unit below 256; every identifier and
  timestamp of the contract is ASCII.
\<close>

section \<open>JSON text of strings\<close>

definition hexDigit :: "nat \<Rightarrow> char" where
  "hexDigit n = ''0123456789abcdef'' ! n"

definition jsonEscape :: "char \<Rightarrow> string" where
  "jsonEscape c =
     (let n = of_char c :: nat in
      if n = 34 then [CHR 0x5C, CHR 0x22]
      else if n = 92 then [CHR 0x5C, CHR 0x5C]
      else if n = 8 then [CHR 0x5C, CHR ''b'']
      else if n = 12 then [CHR 0x5C, CHR ''f'']
      else if n = 10 then [CHR 0x5C, CHR ''n'']
      else if n = 13 then [CHR 0x5C, CHR ''r'']
      else if n = 9 then [CHR 0x5C, CHR ''t'']
      else if n < 32 then [CHR 0x5C, CHR ''u'', CHR ''0'', CHR ''0'', hexDigit (n div 16), hexDigit (n mod 16)]
      else [c])"

definition jsonQuote :: "string \<Rightarrow> string" where
  "jsonQuote s = CHR 0x22 # concat (map jsonEscape s) @ [CHR 0x22]"

fun jsonPart :: "string option \<Rightarrow> string" where
  "jsonPart None = ''null''"
| "jsonPart (Some s) = jsonQuote s"

fun joinWith :: "string \<Rightarrow> string list \<Rightarrow> string" where
  "joinWith sep [] = []"
| "joinWith sep [x] = x"
| "joinWith sep (x # y # ys) = x @ sep @ joinWith sep (y # ys)"

text \<open>
  \<^verbatim>\<open>compositeKey(parts) = JSON.stringify(parts)\<close>; an \<^verbatim>\<open>undefined\<close> part
  is written \<^verbatim>\<open>null\<close>.
\<close>

definition compositeKey :: "string option list \<Rightarrow> string" where
  "compositeKey parts = CHR ''['' # joinWith '','' (map jsonPart parts) @ '']''"

text \<open>A reader of one escaped character, the left inverse of \<open>jsonEscape\<close>.\<close>

definition hexValue :: "char \<Rightarrow> nat" where
  "hexValue c = (let n = of_char c :: nat in if n < 58 then n - 48 else n - 87)"

fun unescape :: "string \<Rightarrow> (char \<times> string) option" where
  "unescape [] = None"
| "unescape [c] = Some (c, [])"
| "unescape (b # c # cs) =
     (if b = CHR 0x5C then
        (if c = CHR ''b'' then Some (CHR 0x08, cs)
         else if c = CHR ''f'' then Some (CHR 0x0C, cs)
         else if c = CHR ''n'' then Some (CHR 0x0A, cs)
         else if c = CHR ''r'' then Some (CHR 0x0D, cs)
         else if c = CHR ''t'' then Some (CHR 0x09, cs)
         else if c = CHR ''u'' then
           (case cs of z0 # z1 # h # l # rest \<Rightarrow> Some (char_of (hexValue h * 16 + hexValue l), rest)
            | _ \<Rightarrow> None)
         else Some (c, cs))
      else Some (b, c # cs))"

lemma char_of_codes:
  "char_of (34::nat) = CHR 0x22" "char_of (92::nat) = CHR 0x5C" "char_of (8::nat) = CHR 0x08"
  "char_of (9::nat) = CHR 0x09" "char_of (10::nat) = CHR 0x0A" "char_of (12::nat) = CHR 0x0C"
  "char_of (13::nat) = CHR 0x0D"
  by code_simp+

lemma of_char_eqI: "(of_char c :: nat) = n \<Longrightarrow> c = char_of n"
  by auto

lemma hexValue_hexDigit [simp]: "n < 16 \<Longrightarrow> hexValue (hexDigit n) = n"
proof -
  have "\<forall>n \<in> set [0..<16]. hexValue (hexDigit n) = n" by code_simp
  then show "n < 16 \<Longrightarrow> hexValue (hexDigit n) = n" by simp
qed

lemma unescape_control:
  assumes "(of_char c :: nat) < 32"
  shows "unescape (jsonEscape c @ rest) = Some (c, rest)"
proof -
  define n :: nat where "n = of_char c"
  then have c: "c = char_of n" and n: "n < 32" using assms by simp_all
  consider "n = 8" | "n = 9" | "n = 10" | "n = 12" | "n = 13"
    | "n \<noteq> 8" "n \<noteq> 9" "n \<noteq> 10" "n \<noteq> 12" "n \<noteq> 13" by blast
  then show ?thesis
  proof cases
    case 6
    with n have "jsonEscape c = [CHR 0x5C, CHR ''u'', CHR ''0'', CHR ''0'', hexDigit (n div 16), hexDigit (n mod 16)]"
      by (simp add: jsonEscape_def n_def Let_def)
    moreover from n have "n div 16 < 16" "n mod 16 < 16" by auto
    ultimately show ?thesis using c by simp
  qed (simp_all add: c jsonEscape_def char_of_codes)
qed

lemma unescape_jsonEscape: "unescape (jsonEscape c @ rest) = Some (c, rest)"
proof (cases "(of_char c :: nat) < 32")
  case True
  then show ?thesis by (rule unescape_control)
next
  case False
  consider "(of_char c :: nat) = 34" | "(of_char c :: nat) = 92"
    | "(of_char c :: nat) \<noteq> 34" "(of_char c :: nat) \<noteq> 92" by blast
  then show ?thesis
  proof cases
    case 1
    then have "c = char_of (34::nat)" by (rule of_char_eqI)
    then have "c = CHR 0x22" by (simp add: char_of_codes)
    then show ?thesis by (simp add: jsonEscape_def)
  next
    case 2
    then have "c = char_of (92::nat)" by (rule of_char_eqI)
    then have "c = CHR 0x5C" by (simp add: char_of_codes)
    then show ?thesis by (simp add: jsonEscape_def)
  next
    case 3
    with False have "jsonEscape c = [c]" by (simp add: jsonEscape_def Let_def)
    moreover from 3 have "c \<noteq> CHR 0x5C" by auto
    ultimately show ?thesis by (cases rest) auto
  qed
qed

lemma jsonEscape_not_quote: "\<exists>b bs. jsonEscape c = b # bs \<and> b \<noteq> CHR 0x22"
proof (cases "(of_char c :: nat) = 34")
  case True
  then show ?thesis by (simp add: jsonEscape_def Let_def)
next
  case False
  then have "c \<noteq> CHR 0x22" by auto
  then show ?thesis by (simp add: jsonEscape_def Let_def)
qed

lemma jsonEscape_prefix_free: "jsonEscape c @ x = jsonEscape d @ y \<Longrightarrow> c = d \<and> x = y"
  by (metis option.inject prod.inject unescape_jsonEscape)

lemma escaped_prefix_free:
  "concat (map jsonEscape s) @ CHR 0x22 # x = concat (map jsonEscape t) @ CHR 0x22 # y \<Longrightarrow> s = t \<and> x = y"
proof (induction s arbitrary: t)
  case Nil
  then show ?case
  proof (cases t)
    case (Cons d ds)
    then show ?thesis using Nil jsonEscape_not_quote[of d] by auto
  qed simp
next
  case (Cons c cs)
  show ?case
  proof (cases t)
    case Nil
    then show ?thesis using Cons.prems jsonEscape_not_quote[of c] by auto
  next
    case t: (Cons d ds)
    with Cons.prems have "jsonEscape c @ (concat (map jsonEscape cs) @ CHR 0x22 # x) =
        jsonEscape d @ (concat (map jsonEscape ds) @ CHR 0x22 # y)" by simp
    then have "c = d" "concat (map jsonEscape cs) @ CHR 0x22 # x = concat (map jsonEscape ds) @ CHR 0x22 # y"
      by (auto dest: jsonEscape_prefix_free)
    then show ?thesis using Cons.IH[of ds] t by simp
  qed
qed

lemma jsonQuote_prefix_free: "jsonQuote s @ x = jsonQuote t @ y \<Longrightarrow> s = t \<and> x = y"
  using escaped_prefix_free[of s x t y] by (simp add: jsonQuote_def)

lemma jsonPart_prefix_free: "jsonPart p @ x = jsonPart q @ y \<Longrightarrow> p = q \<and> x = y"
  by (cases p; cases q) (auto simp: jsonQuote_def dest!: escaped_prefix_free)

lemma jsonParts_prefix_free:
  "joinWith '','' (map jsonPart ps) @ '']'' @ x = joinWith '','' (map jsonPart qs) @ '']'' @ y \<Longrightarrow> ps = qs"
proof (induction ps arbitrary: qs rule: induct_list012)
  case 1
  then show ?case
  proof (cases qs)
    case (Cons q rest)
    with 1 show ?thesis by (cases rest; cases q) (auto simp: jsonQuote_def)
  qed simp
next
  case (2 p)
  then show ?case
  proof (cases qs)
    case Nil
    with 2 show ?thesis by (cases p) (auto simp: jsonQuote_def)
  next
    case (Cons q rest)
    with 2 show ?thesis by (cases rest) (auto dest: jsonPart_prefix_free)
  qed
next
  case (3 p p' ps)
  show ?case
  proof (cases qs)
    case Nil
    with "3.prems" show ?thesis by (cases p) (auto simp: jsonQuote_def)
  next
    case qs: (Cons q rest)
    show ?thesis
    proof (cases rest)
      case Nil
      with "3.prems" qs show ?thesis by (auto dest: jsonPart_prefix_free)
    next
      case (Cons q' rest')
      with "3.prems" qs have "p = q \<and> joinWith '','' (map jsonPart (p' # ps)) @ '']'' @ x =
          joinWith '','' (map jsonPart (q' # rest')) @ '']'' @ y"
        by (auto dest: jsonPart_prefix_free)
      then show ?thesis using "3.IH"(2)[of "q' # rest'"] qs Cons by simp
    qed
  qed
qed

lemma compositeKey_eq_iff [simp]: "compositeKey ps = compositeKey qs \<longleftrightarrow> ps = qs"
  by (auto simp: compositeKey_def dest: jsonParts_prefix_free[where x = "[]" and y = "[]", simplified])

section \<open>Decimal digits\<close>

definition digitChar :: "nat \<Rightarrow> char" where
  "digitChar n = char_of (48 + n)"

definition isDigit :: "char \<Rightarrow> bool" where
  "isDigit c = (let n = of_char c :: nat in 48 \<le> n \<and> n \<le> 57)"

definition digitValue :: "char \<Rightarrow> nat" where
  "digitValue c = (of_char c :: nat) - 48"

fun showNat :: "nat \<Rightarrow> string" where
  "showNat n = (if n < 10 then [digitChar n] else showNat (n div 10) @ [digitChar (n mod 10)])"

definition showInt :: "int \<Rightarrow> string" where
  "showInt i = (if i < 0 then CHR ''-'' # showNat (nat (- i)) else showNat (nat i))"

definition readNat :: "string \<Rightarrow> nat" where
  "readNat s = foldl (\<lambda>n c. n * 10 + digitValue c) 0 s"

text \<open>Exactly \<open>k\<close> digits, padded with zeros on the left (\<^verbatim>\<open>padStart\<close>).\<close>

fun fixedDigits :: "nat \<Rightarrow> nat \<Rightarrow> string" where
  "fixedDigits 0 n = []"
| "fixedDigits (Suc k) n = fixedDigits k (n div 10) @ [digitChar (n mod 10)]"

declare showNat.simps [simp del]

lemma of_char_digitChar [simp]: "n < 10 \<Longrightarrow> (of_char (digitChar n) :: nat) = 48 + n"
  by (simp add: digitChar_def)

lemma digit_digitChar [simp]: "n < 10 \<Longrightarrow> digitValue (digitChar n) = n" "n < 10 \<Longrightarrow> isDigit (digitChar n)"
  by (simp_all add: digitValue_def isDigit_def)

lemma digitChar_less_iff [simp]: "m < 10 \<Longrightarrow> n < 10 \<Longrightarrow> digitChar m < digitChar n \<longleftrightarrow> m < n"
  by (simp add: less_char_def)

lemma digitChar_eq_iff [simp]: "m < 10 \<Longrightarrow> n < 10 \<Longrightarrow> digitChar m = digitChar n \<longleftrightarrow> m = n"
  by (metis digit_digitChar(1))

lemma digitChar_digitValue [simp]: "isDigit c \<Longrightarrow> digitChar (digitValue c) = c"
  by (auto simp: digitChar_def digitValue_def isDigit_def Let_def)

lemma digitValue_less [simp]: "isDigit c \<Longrightarrow> digitValue c < 10"
  by (auto simp: digitValue_def isDigit_def Let_def)

lemma readNat_snoc [simp]: "readNat (s @ [c]) = readNat s * 10 + digitValue c"
  by (simp add: readNat_def)

lemma readNat_Nil [simp]: "readNat [] = 0"
  by (simp add: readNat_def)

lemma readNat_showNat [simp]: "readNat (showNat n) = n"
proof (induction n rule: showNat.induct)
  case (1 n)
  show ?case
  proof (cases "n < 10")
    case True
    then show ?thesis by (simp add: showNat.simps[of n] readNat_def)
  next
    case False
    then show ?thesis using 1 by (simp add: showNat.simps[of n])
  qed
qed

lemma showNat_digits: "\<forall>c \<in> set (showNat n). isDigit c"
  by (induction n rule: showNat.induct) (subst showNat.simps, auto)

lemma showNat_not_Nil [simp]: "showNat n \<noteq> []"
  by (subst showNat.simps) simp

lemma length_fixedDigits [simp]: "length (fixedDigits k n) = k"
  by (induction k arbitrary: n) auto

lemma fixedDigits_digits: "\<forall>c \<in> set (fixedDigits k n). isDigit c"
  by (induction k arbitrary: n) auto

lemma readNat_fixedDigits: "readNat (fixedDigits k n) = n mod 10 ^ k"
proof (induction k arbitrary: n)
  case 0
  then show ?case by simp
next
  case (Suc k)
  have "n mod (10 * 10 ^ k) = 10 * (n div 10 mod 10 ^ k) + n mod 10"
    by (rule mod_mult2_eq)
  then show ?case by (simp add: Suc.IH)
qed

lemma readNat_fixedDigits_bounded [simp]: "n < 10 ^ k \<Longrightarrow> readNat (fixedDigits k n) = n"
  by (simp add: readNat_fixedDigits)

lemma fixedDigits_readNat:
  "\<forall>c \<in> set s. isDigit c \<Longrightarrow> fixedDigits (length s) (readNat s) = s"
  by (induction s rule: rev_induct) simp_all

lemma readNat_bound: "\<forall>c \<in> set s. isDigit c \<Longrightarrow> readNat s < 10 ^ length s"
proof (induction s rule: rev_induct)
  case Nil
  then show ?case by simp
next
  case (snoc c s)
  then have "readNat s < 10 ^ length s" "digitValue c < 10" by simp_all
  then show ?case by simp
qed

section \<open>Order of padded digits\<close>

text \<open>Strings of equal length compare block by block.\<close>

lemma append_less_same_length:
  fixes a b :: "'a::linorder list"
  assumes "length a = length b"
  shows "a @ x < b @ y \<longleftrightarrow> a < b \<or> a = b \<and> x < y"
  using assms by (induction a b rule: list_induct2) auto

lemma append_le_same_length:
  fixes a b :: "'a::linorder list"
  assumes "length a = length b"
  shows "a @ x \<le> b @ y \<longleftrightarrow> a < b \<or> a = b \<and> x \<le> y"
  using assms by (induction a b rule: list_induct2) auto

lemma less_div_mod_iff:
  "(m::nat) < n \<longleftrightarrow> m div 10 < n div 10 \<or> m div 10 = n div 10 \<and> m mod 10 < n mod 10"
proof -
  define a b c d where "a = m div 10" "b = m mod 10" "c = n div 10" "d = n mod 10"
  then have "m = 10 * a + b" "n = 10 * c + d" "b < 10" "d < 10" by simp_all
  then show ?thesis unfolding a_b_c_d_def[symmetric] by linarith
qed

lemma fixedDigits_less:
  "m < 10 ^ k \<Longrightarrow> n < 10 ^ k \<Longrightarrow> fixedDigits k m < fixedDigits k n \<longleftrightarrow> m < n"
proof (induction k arbitrary: m n)
  case 0
  then show ?case by simp
next
  case (Suc k)
  then have "m div 10 < 10 ^ k" "n div 10 < 10 ^ k" by auto
  with Suc.IH have lt: "fixedDigits k (m div 10) < fixedDigits k (n div 10) \<longleftrightarrow> m div 10 < n div 10"
    by blast
  have eq: "fixedDigits k (m div 10) = fixedDigits k (n div 10) \<longleftrightarrow> m div 10 = n div 10"
    using \<open>m div 10 < 10 ^ k\<close> \<open>n div 10 < 10 ^ k\<close> by (metis readNat_fixedDigits_bounded)
  have "m < n \<longleftrightarrow> m div 10 < n div 10 \<or> m div 10 = n div 10 \<and> m mod 10 < n mod 10"
    by (rule less_div_mod_iff)
  then show ?case by (simp add: append_less_same_length lt eq)
qed

lemma fixedDigits_eq:
  "m < 10 ^ k \<Longrightarrow> n < 10 ^ k \<Longrightarrow> fixedDigits k m = fixedDigits k n \<longleftrightarrow> m = n"
  by (metis readNat_fixedDigits_bounded)

section \<open>Prefixes, slices, splitting, case\<close>

definition startsWith :: "string \<Rightarrow> string \<Rightarrow> bool" where
  "startsWith s p = (take (length p) s = p)"

fun includesText :: "string \<Rightarrow> string \<Rightarrow> bool" where
  "includesText [] p = (p = [])"
| "includesText (c # cs) p = (startsWith (c # cs) p \<or> includesText cs p)"

definition lowerChar :: "char \<Rightarrow> char" where
  "lowerChar c = (let n = of_char c :: nat in if 65 \<le> n \<and> n \<le> 90 then char_of (n + 32) else c)"

definition upperChar :: "char \<Rightarrow> char" where
  "upperChar c = (let n = of_char c :: nat in if 97 \<le> n \<and> n \<le> 122 then char_of (n - 32) else c)"

definition isSpace :: "char \<Rightarrow> bool" where
  "isSpace c = (let n = of_char c :: nat in n = 32 \<or> (9 \<le> n \<and> n \<le> 13) \<or> n = 160)"

definition trim :: "string \<Rightarrow> string" where
  "trim s = rev (dropWhile isSpace (rev (dropWhile isSpace s)))"

fun splitOn :: "char \<Rightarrow> string \<Rightarrow> string list" where
  "splitOn d [] = [[]]"
| "splitOn d (c # cs) =
     (case splitOn d cs of
        [] \<Rightarrow> [[c]]
      | w # ws \<Rightarrow> if c = d then [] # w # ws else (c # w) # ws)"

lemma startsWith_append [simp]: "startsWith (p @ s) p"
  by (simp add: startsWith_def)

lemma startsWith_iff: "startsWith s p \<longleftrightarrow> (\<exists>r. s = p @ r)"
  by (metis append_eq_conv_conj append_take_drop_id startsWith_def)

lemma splitOn_not_Nil [simp]: "splitOn d s \<noteq> []"
  by (induction s) (auto split: list.splits)

end
