(* ===== verification/JsTime.thy ===== *)
theory JsTime
  imports JsText
begin

text \<open>
  Time values of the evaluator (\<^verbatim>\<open>packages/attribution-core/src/evaluator.ts\<close>):
  the proleptic Gregorian calendar of ECMAScript's \<^verbatim>\<open>Date\<close> on integer milliseconds,
  \<^verbatim>\<open>toISOString\<close>, and the strict readers \<^verbatim>\<open>time\<close> and
  \<^verbatim>\<open>dateAt\<close>, which accept a timestamp only in its canonical form. The main facts:
  \<open>time\<close> accepts exactly the texts \<^verbatim>\<open>toISOString\<close> writes, and on years of
  four digits the order of the texts is the order of time.
\<close>

section \<open>The calendar\<close>

definition dayMs :: int where "dayMs = 86400000"

definition dayFromYear :: "int \<Rightarrow> int" where
  "dayFromYear y = 365 * (y - 1970) + (y - 1969) div 4 - (y - 1901) div 100 + (y - 1601) div 400"

definition leapYear :: "int \<Rightarrow> bool" where
  "leapYear y = (y mod 4 = 0 \<and> (y mod 100 \<noteq> 0 \<or> y mod 400 = 0))"

text \<open>The year that holds a day: an estimate that is off by one at most, corrected.\<close>

definition yearFromDay :: "int \<Rightarrow> int" where
  "yearFromDay z =
     (let y = 1970 + (z * 400) div 146097 in
      if z < dayFromYear y then y - 1
      else if dayFromYear (y + 1) \<le> z then y + 1 else y)"

definition daysBeforeMonth :: "bool \<Rightarrow> int \<Rightarrow> int" where
  "daysBeforeMonth leap m =
     (if m \<le> 1 then 0 else if m = 2 then 31 else
      (if leap then 1 else 0) +
      (if m = 3 then 59 else if m = 4 then 90 else if m = 5 then 120 else if m = 6 then 151
       else if m = 7 then 181 else if m = 8 then 212 else if m = 9 then 243 else if m = 10 then 273
       else if m = 11 then 304 else if m = 12 then 334 else 365))"

definition monthFromDay :: "bool \<Rightarrow> int \<Rightarrow> int" where
  "monthFromDay leap d =
     (let l = (if leap then 1 else 0) in
      if d < 31 then 1 else if d < 59 + l then 2 else if d < 90 + l then 3 else if d < 120 + l then 4
      else if d < 151 + l then 5 else if d < 181 + l then 6 else if d < 212 + l then 7
      else if d < 243 + l then 8 else if d < 273 + l then 9 else if d < 304 + l then 10
      else if d < 334 + l then 11 else 12)"

text \<open>Year, month and day of month of a day number, and the day number of a date.\<close>

definition civilFromDay :: "int \<Rightarrow> int \<times> int \<times> int" where
  "civilFromDay z =
     (let y = yearFromDay z; d = z - dayFromYear y; m = monthFromDay (leapYear y) d
      in (y, m, d - daysBeforeMonth (leapYear y) m + 1))"

definition dayFromCivil :: "int \<Rightarrow> int \<Rightarrow> int \<Rightarrow> int" where
  "dayFromCivil y m d = dayFromYear y + daysBeforeMonth (leapYear y) m + d - 1"

lemma div_step: "0 < (k::int) \<Longrightarrow> (x + 1) div k = x div k + (if (x + 1) mod k = 0 then 1 else 0)"
proof -
  assume k: "0 < k"
  show ?thesis
  proof (cases "x mod k = k - 1")
    case True
    then have "x + 1 = k * (x div k + 1)"
      using mult_div_mod_eq[of k x] by (simp only: distrib_left)
    then have "(x + 1) div k = x div k + 1" "(x + 1) mod k = 0" using k by simp_all
    then show ?thesis by simp
  next
    case False
    then have r: "0 \<le> x mod k + 1" "x mod k + 1 < k"
      using k pos_mod_bound[OF k, of x] pos_mod_sign[OF k, of x] by linarith+
    have e: "x + 1 = (x mod k + 1) + k * (x div k)" using mult_div_mod_eq[of k x] by simp
    have "(x + 1) div k = x div k" unfolding e using k r by (simp only: div_mult_self2) simp
    moreover have "(x + 1) mod k = x mod k + 1" unfolding e using k r by (simp only: mod_mult_self2) simp
    ultimately show ?thesis using r pos_mod_sign[OF k, of x] by auto
  qed
qed

lemma mod_shift: "k dvd c \<Longrightarrow> (y - c) mod k = y mod (k::int)"
  by (metis dvd_imp_mod_0 diff_zero mod_diff_right_eq)

lemma dayFromYear_step: "dayFromYear (y + 1) = dayFromYear y + (if leapYear y then 366 else 365)"
proof -
  have a: "(y + 1 - 1969) div 4 = (y - 1969) div 4 + (if y mod 4 = 0 then 1 else 0)"
    using div_step[of 4 "y - 1969"] mod_shift[of 4 1968 y] by (simp add: algebra_simps)
  have b: "(y + 1 - 1901) div 100 = (y - 1901) div 100 + (if y mod 100 = 0 then 1 else 0)"
    using div_step[of 100 "y - 1901"] mod_shift[of 100 1900 y] by (simp add: algebra_simps)
  have c: "(y + 1 - 1601) div 400 = (y - 1601) div 400 + (if y mod 400 = 0 then 1 else 0)"
    using div_step[of 400 "y - 1601"] mod_shift[of 400 1600 y] by (simp add: algebra_simps)
  have "y mod 400 = 0 \<Longrightarrow> y mod 100 = 0" using mod_mod_cancel[of 100 400 y] by simp
  moreover have "y mod 100 = 0 \<Longrightarrow> y mod 4 = 0" using mod_mod_cancel[of 4 100 y] by simp
  ultimately show ?thesis unfolding dayFromYear_def leapYear_def a b c
    by (cases "y mod 4 = 0"; cases "y mod 100 = 0"; cases "y mod 400 = 0") simp_all
qed

lemma dayFromYear_mono: "a < b \<Longrightarrow> dayFromYear (a + 1) \<le> dayFromYear b"
proof -
  have *: "dayFromYear c \<le> dayFromYear (c + int n)" for c n
  proof (induction n)
    case (Suc n)
    have "dayFromYear (c + int n) \<le> dayFromYear (c + int n + 1)" by (simp add: dayFromYear_step)
    with Suc show ?case by (simp add: algebra_simps)
  qed simp
  assume "a < b"
  then have "b = a + 1 + int (nat (b - a - 1))" by simp
  then show ?thesis using *[of "a + 1" "nat (b - a - 1)"] by simp
qed

lemma div_bounds: "0 < (k::int) \<Longrightarrow> k * (x div k) \<le> x \<and> x < k * (x div k) + k"
  using pos_mod_sign[of k x] pos_mod_bound[of k x] by (simp add: minus_mod_eq_mult_div[symmetric] algebra_simps)

lemma dayFromYear_bounds:
  "400 * dayFromYear y < 146097 * y - 287810500"
  "146097 * y - 287811597 < 400 * dayFromYear y"
proof -
  define a b c where "a = (y - 1969) div 4" "b = (y - 1901) div 100" "c = (y - 1601) div 400"
  have "4 * a \<le> y - 1969" "y - 1969 < 4 * a + 4" "100 * b \<le> y - 1901" "y - 1901 < 100 * b + 100"
    "400 * c \<le> y - 1601" "y - 1601 < 400 * c + 400"
    using div_bounds[of 4 "y - 1969"] div_bounds[of 100 "y - 1901"] div_bounds[of 400 "y - 1601"]
    unfolding a_b_c_def by simp_all
  moreover have "dayFromYear y = 365 * y - 719050 + a - b + c"
    unfolding a_b_c_def dayFromYear_def by simp
  ultimately show "400 * dayFromYear y < 146097 * y - 287810500"
    "146097 * y - 287811597 < 400 * dayFromYear y" by linarith+
qed

lemma yearFromDay_bounds:
  "dayFromYear (yearFromDay z) \<le> z \<and> z < dayFromYear (yearFromDay z + 1)"
proof -
  define q where "q = (z * 400) div 146097"
  have q: "146097 * q \<le> z * 400" "z * 400 < 146097 * q + 146097"
    using div_bounds[of 146097 "z * 400"] by (simp_all add: q_def)
  have lo: "dayFromYear (1970 + q - 1) \<le> z" using dayFromYear_bounds(1)[of "1970 + q - 1"] q(1) by (simp add: algebra_simps)
  have hi: "z < dayFromYear (1970 + q + 1 + 1)" using dayFromYear_bounds(2)[of "1970 + q + 1 + 1"] q(2) by (simp add: algebra_simps)
  show ?thesis using lo hi by (auto simp: yearFromDay_def q_def[symmetric] Let_def)
qed

lemma yearFromDay_unique:
  assumes "dayFromYear y \<le> z" "z < dayFromYear (y + 1)"
  shows "yearFromDay z = y"
proof (rule ccontr)
  assume "yearFromDay z \<noteq> y"
  then consider "yearFromDay z < y" | "y < yearFromDay z" by linarith
  then show False using yearFromDay_bounds[of z] assms dayFromYear_mono by cases fastforce+
qed

text \<open>The month table: the month of a day starts at or before it and ends after it.\<close>

lemma monthFromDay_bounds:
  assumes "0 \<le> d" "d < (if leap then 366 else 365)"
  defines "m \<equiv> monthFromDay leap d"
  shows "1 \<le> m" "m \<le> 12" "daysBeforeMonth leap m \<le> d" "d < daysBeforeMonth leap (m + 1)"
    "d - daysBeforeMonth leap m < 31"
  using assms by (auto simp: monthFromDay_def daysBeforeMonth_def Let_def)

lemma monthFromDay_mono:
  assumes "d < d'" "0 \<le> d" "d' < (if leap then 366 else 365)"
  shows "monthFromDay leap d \<le> monthFromDay leap d'"
  using assms by (auto simp: monthFromDay_def Let_def)

lemma dayFromCivil_civilFromDay:
  "civilFromDay z = (y, m, d) \<Longrightarrow> dayFromCivil y m d = z"
  by (auto simp: civilFromDay_def dayFromCivil_def Let_def)

lemma civilFromDay_bounds:
  assumes "civilFromDay z = (y, m, d)"
  shows "1 \<le> m" "m \<le> 12" "1 \<le> d" "d \<le> 31"
proof -
  let ?e = "z - dayFromYear y"
  have y: "y = yearFromDay z" and m: "m = monthFromDay (leapYear y) ?e"
    and d: "d = ?e - daysBeforeMonth (leapYear y) m + 1"
    using assms by (auto simp: civilFromDay_def Let_def)
  have "0 \<le> ?e" "?e < (if leapYear y then 366 else 365)"
    using yearFromDay_bounds[of z] by (auto simp: y dayFromYear_step split: if_splits)
  from monthFromDay_bounds[OF this] show "1 \<le> m" "m \<le> 12" "1 \<le> d" "d \<le> 31"
    by (simp_all add: m d)
qed

text \<open>Later days have lexicographically later dates.\<close>

lemma civilFromDay_less:
  assumes "civilFromDay z = (y, m, d)" "civilFromDay z' = (y', m', d')" "z < z'"
  shows "y < y' \<or> y = y' \<and> (m < m' \<or> m = m' \<and> d < d')"
proof -
  have y: "y = yearFromDay z" "y' = yearFromDay z'" using assms by (auto simp: civilFromDay_def Let_def)
  have "y \<le> y'"
  proof (rule ccontr)
    assume "\<not> y \<le> y'"
    then have "dayFromYear (y' + 1) \<le> dayFromYear y" by (intro dayFromYear_mono) simp
    then show False using yearFromDay_bounds[of z] yearFromDay_bounds[of z'] assms(3) y by simp
  qed
  moreover have "m < m' \<or> m = m' \<and> d < d'" if eq: "y = y'"
  proof -
    have m: "m = monthFromDay (leapYear y) (z - dayFromYear y)"
      "m' = monthFromDay (leapYear y) (z' - dayFromYear y)"
      using assms(1,2) eq by (auto simp: civilFromDay_def Let_def)
    have "m \<le> m'" unfolding m
      using assms(3) yearFromDay_bounds[of z] yearFromDay_bounds[of z'] y eq
      by (intro monthFromDay_mono) (auto simp: dayFromYear_step split: if_splits)
    moreover have "d < d'" if "m = m'"
      using assms eq that by (auto simp: civilFromDay_def Let_def)
    ultimately show ?thesis by auto
  qed
  ultimately show ?thesis by auto
qed

section \<open>Canonical timestamps\<close>

text \<open>The range of a time value, \<^verbatim>\<open>TimeClip\<close>.\<close>

definition timeClip :: "int \<Rightarrow> bool" where
  "timeClip t = (\<bar>t\<bar> \<le> 8640000000000000)"

definition yearText :: "int \<Rightarrow> string" where
  "yearText y =
     (if 0 \<le> y \<and> y \<le> 9999 then fixedDigits 4 (nat y)
      else (if y < 0 then CHR ''-'' else CHR ''+'') # fixedDigits 6 (nat \<bar>y\<bar>))"

definition clockText :: "int \<Rightarrow> string" where
  "clockText r =
     ''T'' @ fixedDigits 2 (nat (r div 3600000)) @ '':'' @ fixedDigits 2 (nat (r div 60000 mod 60)) @
     '':'' @ fixedDigits 2 (nat (r div 1000 mod 60)) @ ''.'' @ fixedDigits 3 (nat (r mod 1000)) @ ''Z''"

definition dateText :: "int \<Rightarrow> string" where
  "dateText z =
     (case civilFromDay z of (y, m, d) \<Rightarrow>
        yearText y @ ''-'' @ fixedDigits 2 (nat m) @ ''-'' @ fixedDigits 2 (nat d))"

definition toISOText :: "int \<Rightarrow> string" where
  "toISOText t = dateText (t div dayMs) @ clockText (t mod dayMs)"

text \<open>\<^verbatim>\<open>new Date(t).toISOString()\<close>, which throws outside the range.\<close>

definition toISOString :: "int \<Rightarrow> string res" where
  "toISOString t = (if timeClip t then Inr (toISOText t) else Inl RangeError)"

text \<open>
  The time value of a text in the layout of \<^verbatim>\<open>toISOString\<close>, read by position. The
  fields are not checked here: the caller compares the text with what the time value
  prints, as the source does.
\<close>

definition parseClock :: "string \<Rightarrow> int" where
  "parseClock r =
     int (readNat (take 2 (drop 1 r))) * 3600000 + int (readNat (take 2 (drop 4 r))) * 60000 +
     int (readNat (take 2 (drop 7 r))) * 1000 + int (readNat (take 3 (drop 10 r)))"

definition parseMonthDay :: "int \<Rightarrow> string \<Rightarrow> int" where
  "parseMonthDay y r =
     dayFromCivil y (int (readNat (take 2 (drop 1 r)))) (int (readNat (take 2 (drop 4 r)))) * dayMs +
     parseClock (drop 6 r)"

definition parseDate :: "string \<Rightarrow> int" where
  "parseDate s =
     (if startsWith s ''+'' then parseMonthDay (int (readNat (take 6 (drop 1 s)))) (drop 7 s)
      else if startsWith s ''-'' then parseMonthDay (- int (readNat (take 6 (drop 1 s)))) (drop 7 s)
      else parseMonthDay (int (readNat (take 4 s))) (drop 4 s))"

text \<open>
  \<^verbatim>\<open>time(value, field)\<close>: a missing or empty value, a value that is no date and a
  value that is not in canonical form all throw \<^verbatim>\<open>TimestampInvalidError\<close>.
\<close>

definition canonicalTime :: "string \<Rightarrow> int option" where
  "canonicalTime s =
     (let t = parseDate s in if timeClip t \<and> toISOText t = s then Some t else None)"

definition time :: "string option \<Rightarrow> string \<Rightarrow> int res" where
  "time value field =
     (case value of
        None \<Rightarrow> Inl (TimestampInvalid field None)
      | Some s \<Rightarrow>
          if s = [] then Inl (TimestampInvalid field value)
          else case canonicalTime s of
                 None \<Rightarrow> Inl (TimestampInvalid field value)
               | Some t \<Rightarrow> Inr t)"

datatype zone = UTC | AsiaTokyo

definition zoneOffset :: "zone \<Rightarrow> int" where
  "zoneOffset z = (case z of AsiaTokyo \<Rightarrow> 9 * 3600000 | UTC \<Rightarrow> 0)"

definition dateAt :: "string option \<Rightarrow> zone \<Rightarrow> string \<Rightarrow> string res" where
  "dateAt value zone field =
     bindR (time value field) (\<lambda>t.
       bindR (toISOString (t + zoneOffset zone)) (\<lambda>s. Inr (take 10 s)))"

section \<open>Reading back what is printed\<close>

lemma int_mod_mod_split: "0 < (a::int) \<Longrightarrow> 0 < b \<Longrightarrow> r div (a * b) * (a * b) + (r div a mod b) * a + r mod a = r"
proof -
  assume "0 < a" "0 < b"
  then have "r div (a * b) = r div a div b" by (simp add: zdiv_zmult2_eq)
  then have "r div (a * b) * (a * b) + (r div a mod b) * a = (r div a div b * b + r div a mod b) * a"
    by (simp only: distrib_right mult.assoc mult.commute[of a b])
  then show ?thesis by (simp only: div_mult_mod_eq)
qed

lemma clock_fields:
  assumes "0 \<le> r" "r < dayMs"
  shows "0 \<le> r div 3600000" "r div 3600000 < 24" "0 \<le> r div 60000 mod 60" "r div 60000 mod 60 < 60"
    "0 \<le> r div 1000 mod 60" "r div 1000 mod 60 < 60" "0 \<le> r mod 1000" "r mod 1000 < 1000"
  using assms by (auto simp: dayMs_def div_less_iff_less_mult pos_imp_zdiv_nonneg_iff)

lemma join_splits:
  "(a::int) + b + m = r \<Longrightarrow> q + c + e = r \<Longrightarrow> q + m = r \<Longrightarrow> a + b + c + e = r"
  by linarith

lemma clock_split:
  "r div 3600000 * 3600000 + (r div 60000 mod 60) * 60000 + (r div 1000 mod 60) * 1000 + r mod 1000 = (r::int)"
  by (rule join_splits[OF int_mod_mod_split[of 60000 60 r, simplified]
        int_mod_mod_split[of 1000 60 r, simplified] div_mult_mod_eq])

lemma clock_positions:
  assumes "length h = 2" "length m = 2" "length c = 2" "length ms = 3"
  defines "s \<equiv> ''T'' @ h @ '':'' @ m @ '':'' @ c @ ''.'' @ ms @ ''Z''"
  shows "take 2 (drop 1 s) = h" "take 2 (drop 4 s) = m" "take 2 (drop 7 s) = c" "take 3 (drop 10 s) = ms"
  using assms by (simp_all add: take_append drop_append)

lemma date_positions:
  fixes rest :: string
  assumes "length m = 2" "length d = 2"
  defines "s \<equiv> ''-'' @ m @ ''-'' @ d @ rest"
  shows "take 2 (drop 1 s) = m" "take 2 (drop 4 s) = d" "drop 6 s = rest"
  using assms by (simp_all add: take_append drop_append)

lemma parseClock_clockText:
  assumes "0 \<le> r" "r < dayMs"
  shows "parseClock (clockText r) = r"
proof -
  note b = clock_fields[OF assms]
  have "nat (r div 3600000) < 10 ^ 2" "nat (r div 60000 mod 60) < 10 ^ 2"
    "nat (r div 1000 mod 60) < 10 ^ 2" "nat (r mod 1000) < 10 ^ 3" using b by auto
  note read = this[THEN readNat_fixedDigits_bounded]
  show ?thesis
    unfolding parseClock_def clockText_def
    using b(1,3,5,7) clock_split[of r]
    by (simp only: clock_positions length_fixedDigits read int_nat_eq if_True)
qed

lemma length_clockText [simp]: "length (clockText r) = 14"
  by (simp add: clockText_def)

lemma parseMonthDay_dateText:
  assumes "civilFromDay z = (y, m, d)" "0 \<le> r" "r < dayMs"
  shows "parseMonthDay y (''-'' @ fixedDigits 2 (nat m) @ ''-'' @ fixedDigits 2 (nat d) @ clockText r) =
    z * dayMs + r"
proof -
  have b: "0 \<le> m" "nat m < 10 ^ 2" "0 \<le> d" "nat d < 10 ^ 2" using civilFromDay_bounds[OF assms(1)] by auto
  then show ?thesis
    unfolding parseMonthDay_def
    by (simp only: date_positions length_fixedDigits readNat_fixedDigits_bounded int_nat_eq if_True
        dayFromCivil_civilFromDay[OF assms(1)] parseClock_clockText[OF assms(2,3)])
qed

lemma yearFromDay_range:
  assumes "\<bar>z\<bar> \<le> 100000001"
  shows "\<bar>yearFromDay z\<bar> < 1000000"
proof -
  let ?y = "yearFromDay z"
  have "400 * dayFromYear ?y \<le> 400 * z" "400 * z < 400 * dayFromYear (?y + 1)"
    using yearFromDay_bounds[of z] by simp_all
  then have "146097 * ?y - 287811597 < 400 * z" "400 * z < 146097 * (?y + 1) - 287810500"
    using dayFromYear_bounds(2)[of ?y] dayFromYear_bounds(1)[of "?y + 1"] by linarith+
  with assms show ?thesis by (simp add: abs_le_iff abs_less_iff)
qed

lemma timeClip_day: "timeClip t \<Longrightarrow> \<bar>t div dayMs\<bar> \<le> 100000001"
  using div_bounds[of dayMs t] by (auto simp: timeClip_def dayMs_def)

lemma startsWith_fixedDigits:
  assumes "0 < k" "\<not> isDigit c"
  shows "\<not> startsWith (fixedDigits k n @ s) [c]"
proof -
  obtain x xs where x: "fixedDigits k n = x # xs"
    using assms(1) by (metis length_fixedDigits length_0_conv less_irrefl list.exhaust)
  then have "isDigit x" using fixedDigits_digits[of k n] by simp
  with assms(2) have "x \<noteq> c" by auto
  then show ?thesis by (simp add: x startsWith_def)
qed

lemma parseDate_toISOText:
  assumes "timeClip t"
  shows "parseDate (toISOText t) = t"
proof -
  define z r where "z = t div dayMs" "r = t mod dayMs"
  have t: "t = z * dayMs + r" and r: "0 \<le> r" "r < dayMs" by (simp_all add: z_r_def dayMs_def)
  obtain y m d where c: "civilFromDay z = (y, m, d)" by (cases "civilFromDay z")
  have "y = yearFromDay z" using c by (auto simp: civilFromDay_def Let_def)
  then have y: "\<bar>y\<bar> < 1000000" using yearFromDay_range timeClip_day[OF assms] by (simp add: z_r_def)
  have nd: "\<not> isDigit (CHR ''+'')" "\<not> isDigit (CHR ''-'')" by code_simp+
  note body = parseMonthDay_dateText[OF c r]
  let ?b = "''-'' @ fixedDigits 2 (nat m) @ ''-'' @ fixedDigits 2 (nat d) @ clockText r"
  have iso: "toISOText t = yearText y @ ?b"
    by (simp add: toISOText_def dateText_def c z_r_def[symmetric])
  consider "0 \<le> y \<and> y \<le> 9999" | "y < 0" | "9999 < y" by linarith
  then have "parseDate (yearText y @ ?b) = z * dayMs + r"
  proof cases
    case 1
    then have "nat y < 10 ^ 4" by (simp add: nat_less_iff)
    then show ?thesis using 1 body
      by (simp add: yearText_def parseDate_def startsWith_fixedDigits nd)
  next
    case 2
    with y have "nat (- y) < 10 ^ 6" by simp
    then show ?thesis using 2 body
      by (simp add: yearText_def parseDate_def startsWith_def)
  next
    case 3
    with y have "nat y < 10 ^ 6" by simp
    then show ?thesis using 3 body
      by (simp add: yearText_def parseDate_def startsWith_def)
  qed
  then show ?thesis unfolding iso by (simp add: t)
qed

lemma canonicalTime_Some_iff: "canonicalTime s = Some t \<longleftrightarrow> timeClip t \<and> s = toISOText t"
  using parseDate_toISOText[of t] by (auto simp: canonicalTime_def Let_def)

lemma toISOText_not_Nil [simp]: "toISOText t \<noteq> []"
  by (simp add: toISOText_def clockText_def)

lemma time_Inr_iff:
  "time v field = Inr t \<longleftrightarrow> timeClip t \<and> v = Some (toISOText t)"
proof
  assume "time v field = Inr t"
  then show "timeClip t \<and> v = Some (toISOText t)"
    by (auto simp: time_def canonicalTime_Some_iff split: option.splits if_splits)
next
  assume t: "timeClip t \<and> v = Some (toISOText t)"
  then have "canonicalTime (toISOText t) = Some t" by (simp add: canonicalTime_Some_iff)
  with t show "time v field = Inr t" by (simp add: time_def)
qed

lemma time_Inl_iff:
  "time v field = Inl e \<longleftrightarrow> e = TimestampInvalid field v \<and> (\<forall>t. timeClip t \<longrightarrow> v \<noteq> Some (toISOText t))"
proof (cases "\<exists>t. timeClip t \<and> v = Some (toISOText t)")
  case True
  then obtain t where "time v field = Inr t" by (auto simp: time_Inr_iff)
  with True show ?thesis by auto
next
  case False
  then have "\<And>t. time v field \<noteq> Inr t" by (auto simp: time_Inr_iff)
  then obtain e' where e': "time v field = Inl e'" by (cases "time v field") auto
  moreover have "e' = TimestampInvalid field v"
    using e' by (auto simp: time_def split: option.splits if_splits)
  ultimately show ?thesis using False by auto
qed

lemma toISOText_inj: "timeClip t \<Longrightarrow> timeClip u \<Longrightarrow> toISOText t = toISOText u \<longleftrightarrow> t = u"
  by (metis parseDate_toISOText)

section \<open>Text order is time order\<close>

definition isoYear :: "int \<Rightarrow> int" where
  "isoYear t = yearFromDay (t div dayMs)"

text \<open>Time values whose year is written with four digits.\<close>

definition fourDigitYear :: "int \<Rightarrow> bool" where
  "fourDigitYear t = (0 \<le> isoYear t \<and> isoYear t \<le> 9999)"

lemma less_div_mod_step:
  "0 < (k::int) \<Longrightarrow> x < y \<Longrightarrow> x div k < y div k \<or> x div k = y div k \<and> x mod k < y mod k"
proof -
  assume k: "0 < k" and lt: "x < y"
  have "x div k \<le> y div k" using zdiv_mono1[of x y k] k lt by simp
  moreover have "x div k = y div k \<Longrightarrow> x mod k < y mod k"
    using lt div_mult_mod_eq[of x k] div_mult_mod_eq[of y k] by (metis add_less_cancel_left)
  ultimately show ?thesis by auto
qed

lemma fixedDigits_nat_less:
  "0 \<le> a \<Longrightarrow> 0 \<le> b \<Longrightarrow> a < 10 ^ k \<Longrightarrow> b < 10 ^ k \<Longrightarrow> fixedDigits k (nat a) < fixedDigits k (nat b) \<longleftrightarrow> a < b"
  by (subst fixedDigits_less) (auto simp: nat_less_iff)

lemma less_pow: "(x::int) < 24 \<Longrightarrow> x < 10 ^ 2" "(x::int) < 60 \<Longrightarrow> x < 10 ^ 2" "(x::int) < 1000 \<Longrightarrow> x < 10 ^ 3"
  by simp_all

lemma lex_three:
  fixes a b c :: string
  assumes "length a = length a'" "length b = length b'" "length c = length c'"
    and "a < a' \<or> a = a' \<and> (b < b' \<or> b = b' \<and> c < c')"
  shows "a @ ''-'' @ b @ ''-'' @ c < a' @ ''-'' @ b' @ ''-'' @ c'"
  using assms by (auto simp: append_less_same_length)

lemma lex_four:
  fixes a b c d :: string
  assumes "length a = length a'" "length b = length b'" "length c = length c'" "length d = length d'"
    and "a < a' \<or> a = a' \<and> (b < b' \<or> b = b' \<and> (c < c' \<or> c = c' \<and> d < d'))"
  shows "''T'' @ a @ '':'' @ b @ '':'' @ c @ ''.'' @ d @ ''Z'' < ''T'' @ a' @ '':'' @ b' @ '':'' @ c' @ ''.'' @ d' @ ''Z''"
  using assms by (auto simp: append_less_same_length)

lemma clockText_less:
  assumes "0 \<le> r" "r < r'" "r' < dayMs"
  shows "clockText r < clockText r'"
proof -
  have b: "0 \<le> r" "r < dayMs" and b': "0 \<le> r'" "r' < dayMs" using assms by simp_all
  note f = clock_fields[OF b] clock_fields[OF b']
  have h: "r div 60000 div 60 = r div 3600000" "r' div 60000 div 60 = r' div 3600000"
    using zdiv_zmult2_eq[of 60 r 60000] zdiv_zmult2_eq[of 60 r' 60000] by simp_all
  have m: "r div 1000 div 60 = r div 60000" "r' div 1000 div 60 = r' div 60000"
    using zdiv_zmult2_eq[of 60 r 1000] zdiv_zmult2_eq[of 60 r' 1000] by simp_all
  have eq: "r div 60000 = r' div 60000 \<Longrightarrow> r div 3600000 = r' div 3600000 \<and> r div 60000 mod 60 = r' div 60000 mod 60"
    "r div 1000 = r' div 1000 \<Longrightarrow> r div 60000 = r' div 60000 \<and> r div 1000 mod 60 = r' div 1000 mod 60"
    using h m by metis+
  have pos: "0 < (60::int)" "0 < (1000::int)" by simp_all
  have lex: "r div 3600000 < r' div 3600000 \<or> r div 3600000 = r' div 3600000 \<and>
      (r div 60000 mod 60 < r' div 60000 mod 60 \<or> r div 60000 mod 60 = r' div 60000 mod 60 \<and>
       (r div 1000 mod 60 < r' div 1000 mod 60 \<or> r div 1000 mod 60 = r' div 1000 mod 60 \<and>
        r mod 1000 < r' mod 1000))"
    using less_div_mod_step[OF pos(2) assms(2)] less_div_mod_step[OF pos(1), of "r div 1000" "r' div 1000"]
      less_div_mod_step[OF pos(1), of "r div 60000" "r' div 60000"] eq unfolding h m by blast
  have le: "fixedDigits 2 (nat (r div 3600000)) < fixedDigits 2 (nat (r' div 3600000)) \<longleftrightarrow> r div 3600000 < r' div 3600000"
    "fixedDigits 2 (nat (r div 60000 mod 60)) < fixedDigits 2 (nat (r' div 60000 mod 60)) \<longleftrightarrow>
      r div 60000 mod 60 < r' div 60000 mod 60"
    "fixedDigits 2 (nat (r div 1000 mod 60)) < fixedDigits 2 (nat (r' div 1000 mod 60)) \<longleftrightarrow>
      r div 1000 mod 60 < r' div 1000 mod 60"
    "fixedDigits 3 (nat (r mod 1000)) < fixedDigits 3 (nat (r' mod 1000)) \<longleftrightarrow> r mod 1000 < r' mod 1000"
    by (fact fixedDigits_nat_less[OF f(1) f(9) less_pow(1)[OF f(2)] less_pow(1)[OF f(10)]]
        fixedDigits_nat_less[OF f(3) f(11) less_pow(2)[OF f(4)] less_pow(2)[OF f(12)]]
        fixedDigits_nat_less[OF f(5) f(13) less_pow(2)[OF f(6)] less_pow(2)[OF f(14)]]
        fixedDigits_nat_less[OF f(7) f(15) less_pow(3)[OF f(8)] less_pow(3)[OF f(16)]])+
  show ?thesis unfolding clockText_def
    by (rule lex_four) (simp only: length_fixedDigits, simp only: length_fixedDigits,
        simp only: length_fixedDigits, simp only: length_fixedDigits, insert lex, unfold le, metis)
qed

lemma dateText_less:
  assumes "z < z'" "0 \<le> yearFromDay z" "yearFromDay z' \<le> 9999" "yearFromDay z \<le> 9999" "0 \<le> yearFromDay z'"
  shows "dateText z < dateText z'"
proof -
  obtain y m d where c: "civilFromDay z = (y, m, d)" by (cases "civilFromDay z")
  obtain y' m' d' where c': "civilFromDay z' = (y', m', d')" by (cases "civilFromDay z'")
  have y: "0 \<le> y" "y < 10 ^ 4" "0 \<le> y'" "y' < 10 ^ 4"
    using c c' assms by (auto simp: civilFromDay_def Let_def)
  note b = civilFromDay_bounds[OF c] civilFromDay_bounds[OF c']
  note lex = civilFromDay_less[OF c c' assms(1)]
  have le: "fixedDigits 4 (nat y) < fixedDigits 4 (nat y') \<longleftrightarrow> y < y'"
    "fixedDigits 2 (nat m) < fixedDigits 2 (nat m') \<longleftrightarrow> m < m'"
    "fixedDigits 2 (nat d) < fixedDigits 2 (nat d') \<longleftrightarrow> d < d'"
    by (rule fixedDigits_nat_less; use y b in simp)+
  have "yearText y = fixedDigits 4 (nat y)" "yearText y' = fixedDigits 4 (nat y')"
    using y by (simp_all add: yearText_def)
  then show ?thesis unfolding dateText_def c c' prod.case
    by (simp only:) (rule lex_three; (simp only: length_fixedDigits)?; insert lex; unfold le; metis)
qed

lemma length_dateText: "0 \<le> yearFromDay z \<Longrightarrow> yearFromDay z \<le> 9999 \<Longrightarrow> length (dateText z) = 10"
  by (auto simp: dateText_def civilFromDay_def Let_def yearText_def)

lemma toISOText_mono:
  assumes "t < u" "fourDigitYear t" "fourDigitYear u"
  shows "toISOText t < toISOText u"
proof -
  have y: "0 \<le> yearFromDay (t div dayMs)" "yearFromDay (t div dayMs) \<le> 9999"
    "0 \<le> yearFromDay (u div dayMs)" "yearFromDay (u div dayMs) \<le> 9999"
    using assms by (simp_all add: fourDigitYear_def isoYear_def)
  have r: "0 \<le> t mod dayMs" "u mod dayMs < dayMs" by (simp_all add: dayMs_def)
  have "t div dayMs < u div dayMs \<or> t div dayMs = u div dayMs \<and> t mod dayMs < u mod dayMs"
    using less_div_mod_step[of dayMs t u] assms(1) by (simp add: dayMs_def)
  then show ?thesis
    using dateText_less[of "t div dayMs" "u div dayMs"] clockText_less[OF r(1) _ r(2)] y
    by (auto simp: toISOText_def append_less_same_length length_dateText)
qed

lemma toISOText_less_iff:
  assumes "fourDigitYear t" "fourDigitYear u"
  shows "toISOText t < toISOText u \<longleftrightarrow> t < u"
  using toISOText_mono[of t u] toISOText_mono[of u t] assms by (cases t u rule: linorder_cases) auto

lemma dateAt_toISOText:
  "timeClip t \<Longrightarrow> timeClip (t + zoneOffset zn) \<Longrightarrow>
     dateAt (Some (toISOText t)) zn f = Inr (take 10 (toISOText (t + zoneOffset zn)))"
  by (simp add: dateAt_def time_Inr_iff[THEN iffD2] toISOString_def)

lemma take_10_toISOText: "fourDigitYear t \<Longrightarrow> take 10 (toISOText t) = dateText (t div dayMs)"
  by (simp add: toISOText_def length_dateText fourDigitYear_def isoYear_def)

text \<open>
  Text order on accepted timestamps is time order, so the evaluator's
  \<^verbatim>\<open>compareText\<close> on \<^verbatim>\<open>received_at\<close>, \<^verbatim>\<open>as_of\<close> and watermarks is
  chronological.
\<close>

lemma compareText_time:
  assumes "time (Some a) f = Inr t" "time (Some b) g = Inr u" "fourDigitYear t" "fourDigitYear u"
  shows "compareText a b = sgn (t - u)"
proof -
  have "a = toISOText t" "b = toISOText u" using assms(1,2) by (simp_all add: time_Inr_iff)
  then show ?thesis using assms(3,4) by (auto simp: compareText_def toISOText_less_iff sgn_if)
qed

end
