(* ===== verification/JsNumber.thy ===== *)
theory JsNumber
  imports Prelude Complex_Main "HOL-Library.Log_Nat"
begin

text \<open>
  The numbers of the language, as far as the fraud rules use them: IEEE 754 doubles with
  round-half-even after every operation, \<^verbatim>\<open>NaN\<close>, the infinities, and comparisons that are
  false on \<^verbatim>\<open>NaN\<close>. The two zeros are identified, which no operation below can tell
  apart.
\<close>

datatype number = NaN | PInf | NInf | Fin rat

section \<open>Rounding a rational to a double\<close>

definition roundEvenRat :: "rat \<Rightarrow> int" where
  "roundEvenRat x =
     (let q = \<lfloor>x\<rfloor>; d = 2 * (x - of_int q) in
      if d > 1 \<or> (d = 1 \<and> odd q) then q + 1 else q)"

text \<open>\<open>2\<close> to an integer power.\<close>

definition pow2 :: "int \<Rightarrow> rat" where
  "pow2 e = (if 0 \<le> e then 2 ^ nat e else 1 / 2 ^ nat (- e))"

text \<open>The binary exponent of a positive fraction \<open>p / q\<close>.\<close>

definition ratExponent :: "int \<Rightarrow> int \<Rightarrow> int" where
  "ratExponent p q =
     (let e = int (floorlog 2 (nat p)) - int (floorlog 2 (nat q)) in
      if pow2 e * of_int q \<le> of_int p then e else e - 1)"

definition doubleUlp :: "rat \<Rightarrow> rat" where
  "doubleUlp x = (case quotient_of \<bar>x\<bar> of (p, q) \<Rightarrow> pow2 (max (ratExponent p q) (- 1022) - 52))"

definition roundDouble :: "rat \<Rightarrow> number" where
  "roundDouble x =
     (if x = 0 then Fin 0
      else let y = of_int (roundEvenRat (x / doubleUlp x)) * doubleUlp x in
           if \<bar>y\<bar> < 2 ^ 1024 then Fin y else if 0 < x then PInf else NInf)"

section \<open>Arithmetic and comparison\<close>

fun addN :: "number \<Rightarrow> number \<Rightarrow> number" where
  "addN (Fin x) (Fin y) = roundDouble (x + y)"
| "addN NaN _ = NaN"
| "addN _ NaN = NaN"
| "addN PInf NInf = NaN"
| "addN NInf PInf = NaN"
| "addN PInf _ = PInf"
| "addN _ PInf = PInf"
| "addN NInf _ = NInf"
| "addN _ NInf = NInf"

fun negN :: "number \<Rightarrow> number" where
  "negN NaN = NaN"
| "negN PInf = NInf"
| "negN NInf = PInf"
| "negN (Fin x) = Fin (- x)"

definition subN :: "number \<Rightarrow> number \<Rightarrow> number" where
  "subN a b = addN a (negN b)"

fun signN :: "number \<Rightarrow> int" where
  "signN NaN = 0"
| "signN PInf = 1"
| "signN NInf = -1"
| "signN (Fin x) = (if x < 0 then -1 else if 0 < x then 1 else 0)"

definition infN :: "int \<Rightarrow> number" where
  "infN s = (if s = 0 then NaN else if 0 < s then PInf else NInf)"

fun mulN :: "number \<Rightarrow> number \<Rightarrow> number" where
  "mulN (Fin x) (Fin y) = roundDouble (x * y)"
| "mulN NaN _ = NaN"
| "mulN _ NaN = NaN"
| "mulN a b = infN (signN a * signN b)"

text \<open>
  Division by zero gives an infinity with the sign of the dividend (the divisor is a count
  or a duration, whose zero is positive).
\<close>

fun divN :: "number \<Rightarrow> number \<Rightarrow> number" where
  "divN NaN _ = NaN"
| "divN _ NaN = NaN"
| "divN (Fin x) (Fin y) = (if y = 0 then infN (signN (Fin x)) else roundDouble (x / y))"
| "divN (Fin x) _ = Fin 0"
| "divN a (Fin y) = (if y < 0 then negN a else a)"
| "divN _ _ = NaN"

fun absN :: "number \<Rightarrow> number" where
  "absN NaN = NaN"
| "absN PInf = PInf"
| "absN NInf = PInf"
| "absN (Fin x) = Fin \<bar>x\<bar>"

fun lessN :: "number \<Rightarrow> number \<Rightarrow> bool" where
  "lessN (Fin x) (Fin y) = (x < y)"
| "lessN NaN _ = False"
| "lessN _ NaN = False"
| "lessN PInf _ = False"
| "lessN _ NInf = False"
| "lessN NInf _ = True"
| "lessN _ PInf = True"

definition leN :: "number \<Rightarrow> number \<Rightarrow> bool" where
  "leN a b = (a \<noteq> NaN \<and> b \<noteq> NaN \<and> \<not> lessN b a)"

fun isFiniteN :: "number \<Rightarrow> bool" where
  "isFiniteN (Fin x) = True"
| "isFiniteN _ = False"

definition numN :: "int \<Rightarrow> number" where
  "numN i = Fin (of_int i)"

text \<open>
  The number value of a decimal literal and of an integer computed as a number: the
  nearest double.
\<close>

definition literalN :: "rat \<Rightarrow> number" where
  "literalN x = roundDouble x"

text \<open>\<^verbatim>\<open>ToIntegerOrInfinity\<close> of a finite number, as the \<^verbatim>\<open>Date\<close> constructor applies it.\<close>

definition truncateRat :: "rat \<Rightarrow> int" where
  "truncateRat x = (if 0 \<le> x then \<lfloor>x\<rfloor> else \<lceil>x\<rceil>)"

section \<open>Exactness on integers\<close>

lemma roundEvenRat_of_int [simp]: "roundEvenRat (of_int n) = n"
  by (simp add: roundEvenRat_def)

lemma pow2_pos [simp]: "0 < pow2 e"
  by (simp add: pow2_def)

lemma roundEvenRat_close: "\<bar>of_int (roundEvenRat x) - x\<bar> \<le> 1 / 2"
proof -
  have "of_int \<lfloor>x\<rfloor> \<le> x" "x < of_int \<lfloor>x\<rfloor> + 1" by linarith+
  then show ?thesis by (auto simp: roundEvenRat_def Let_def abs_le_iff)
qed

text \<open>Below \<open>2 ^ 53\<close> the unit in the last place of an integer divides it.\<close>

lemma ratExponent_one_less:
  assumes "0 < n" "n < 2 ^ 53"
  shows "ratExponent n 1 < 53"
proof -
  have f1: "floorlog 2 (Suc 0) = 1" by (simp add: floorlog_def)
  have "floorlog 2 (nat n) \<le> 53"
    using assms by (intro floorlog_leI) (simp_all add: nat_less_iff)
  then show ?thesis using f1 by (auto simp: ratExponent_def Let_def)
qed

lemma ratExponent_one_nonneg:
  assumes "0 < n"
  shows "0 \<le> ratExponent n 1"
proof -
  have f1: "floorlog 2 (Suc 0) = 1" by (simp add: floorlog_def)
  have pos: "0 < floorlog 2 (nat n)" using assms by (simp add: floorlog_def)
  define e where "e = int (floorlog 2 (nat n)) - 1"
  have e0: "0 \<le> e" using pos by (simp add: e_def)
  have ne: "nat e = floorlog 2 (nat n) - 1" by (simp add: e_def nat_diff_distrib)
  have "2 ^ (floorlog 2 (nat n) - 1) \<le> nat n"
    using floorlog_bounds[of "nat n" 2] assms by simp
  then have "int (2 ^ nat e) \<le> n" unfolding ne using assms by linarith
  then have le: "(2::int) ^ nat e \<le> n" by simp
  have "(of_int (2 ^ nat e) :: rat) \<le> of_int n" using le by (rule of_int_le_iff[THEN iffD2])
  then have "pow2 e * of_int 1 \<le> of_int n" using e0 by (simp add: pow2_def)
  then show ?thesis using e0 by (simp add: ratExponent_def f1 Let_def e_def)
qed

lemma quotient_of_int [simp]: "quotient_of (of_int n) = (n, 1)"
  by (simp add: of_int_rat quotient_of_Fract normalize_def)

lemma doubleUlp_int:
  assumes "n \<noteq> 0" "\<bar>n\<bar> < 2 ^ 53"
  obtains k where "doubleUlp (of_int n) = 1 / 2 ^ k"
proof -
  define e where "e = ratExponent \<bar>n\<bar> 1"
  have e: "0 \<le> e" "e < 53"
    using ratExponent_one_nonneg[of "\<bar>n\<bar>"] ratExponent_one_less[of "\<bar>n\<bar>"] assms by (simp_all add: e_def)
  have "doubleUlp (of_int n) = pow2 (e - 52)"
    using e(1) by (simp add: doubleUlp_def e_def of_int_abs[symmetric] del: of_int_abs)
  moreover have "pow2 (e - 52) = 1 / 2 ^ nat (52 - e)"
    using e by (cases "e = 52") (simp_all add: pow2_def)
  ultimately show ?thesis using that by metis
qed

lemma roundDouble_int:
  assumes "\<bar>n\<bar> < 2 ^ 53"
  shows "roundDouble (of_int n) = Fin (of_int n)"
proof (cases "n = 0")
  case True
  then show ?thesis by (simp add: roundDouble_def)
next
  case False
  obtain k where u: "doubleUlp (of_int n) = 1 / 2 ^ k" using doubleUlp_int[OF False assms] by blast
  have "roundEvenRat (of_int n / doubleUlp (of_int n)) = roundEvenRat (of_int (n * 2 ^ k))"
    by (simp add: u)
  then have y: "of_int (roundEvenRat (of_int n / doubleUlp (of_int n))) * doubleUlp (of_int n) = (of_int n :: rat)"
    by (simp only: roundEvenRat_of_int) (simp add: u)
  have "(of_int \<bar>n\<bar> :: rat) < of_int (2 ^ 53)" using assms by (rule of_int_less_iff[THEN iffD2])
  then have "\<bar>of_int n :: rat\<bar> < 2 ^ 53" by simp
  also have "(2::rat) ^ 53 < 2 ^ 1024" by (rule power_strict_increasing) simp_all
  finally show ?thesis using False by (simp add: roundDouble_def y)
qed

text \<open>Rounding keeps the sign of an integer.\<close>

lemma ratExponent_one_le:
  assumes "0 < n"
  shows "pow2 (ratExponent n 1) \<le> of_int n"
proof -
  have f1: "floorlog 2 (Suc 0) = 1" by (simp add: floorlog_def)
  define e where "e = int (floorlog 2 (nat n)) - 1"
  have "0 < floorlog 2 (nat n)" using assms by (simp add: floorlog_def)
  then have e0: "0 \<le> e" and ne: "nat e = floorlog 2 (nat n) - 1" by (simp_all add: e_def nat_diff_distrib)
  have "2 ^ (floorlog 2 (nat n) - 1) \<le> nat n" using floorlog_bounds[of "nat n" 2] assms by simp
  then have "int (2 ^ nat e) \<le> n" unfolding ne using assms by linarith
  then have le: "(2::int) ^ nat e \<le> n" by simp
  have "(of_int (2 ^ nat e) :: rat) \<le> of_int n" using le by (rule of_int_le_iff[THEN iffD2])
  then show ?thesis using e0 by (simp add: pow2_def ratExponent_def f1 Let_def e_def)
qed

lemma doubleUlp_int_le:
  assumes "n \<noteq> 0"
  shows "0 < doubleUlp (of_int n)" "doubleUlp (of_int n) \<le> \<bar>of_int n\<bar>"
proof -
  define e where "e = ratExponent \<bar>n\<bar> 1"
  have e: "0 \<le> e" "pow2 e \<le> of_int \<bar>n\<bar>"
    using ratExponent_one_nonneg[of "\<bar>n\<bar>"] ratExponent_one_le[of "\<bar>n\<bar>"] assms by (simp_all add: e_def)
  have u: "doubleUlp (of_int n) = pow2 (e - 52)"
    using e(1) by (simp add: doubleUlp_def e_def of_int_abs[symmetric] del: of_int_abs)
  have "pow2 (e - 52) \<le> pow2 e"
  proof (cases "52 \<le> e")
    case True
    then show ?thesis by (simp add: pow2_def power_increasing)
  next
    case False
    then have "pow2 (e - 52) \<le> 1" by (simp add: pow2_def)
    also have "1 \<le> pow2 e" using e(1) by (simp add: pow2_def)
    finally show ?thesis .
  qed
  with e(2) u show "0 < doubleUlp (of_int n)" "doubleUlp (of_int n) \<le> \<bar>of_int n\<bar>" by simp_all
qed

lemma roundEvenRat_sign: "1 \<le> x \<Longrightarrow> 0 < roundEvenRat x" "x \<le> -1 \<Longrightarrow> roundEvenRat x < 0"
proof -
  have c: "of_int (roundEvenRat x) - x \<le> 1 / 2" "- (of_int (roundEvenRat x) - x) \<le> 1 / 2"
    using roundEvenRat_close[of x] by (simp_all only: abs_le_iff)
  show "1 \<le> x \<Longrightarrow> 0 < roundEvenRat x"
  proof -
    assume "1 \<le> x"
    with c have "0 < (of_int (roundEvenRat x) :: rat)" by linarith
    then show ?thesis by simp
  qed
  show "x \<le> -1 \<Longrightarrow> roundEvenRat x < 0"
  proof -
    assume "x \<le> -1"
    with c have "(of_int (roundEvenRat x) :: rat) < 0" by linarith
    then show ?thesis by simp
  qed
qed

lemma roundDouble_int_sign:
  "lessN (roundDouble (of_int n)) (Fin 0) \<longleftrightarrow> n < 0"
proof -
  define u where "u = doubleUlp (of_int n)"
  consider "n = 0" | "0 < n" | "n < 0" by linarith
  then show ?thesis
  proof cases
    case 1
    then show ?thesis by (simp add: roundDouble_def)
  next
    case 2
    then have u: "0 < u" "u \<le> of_int n" using doubleUlp_int_le[of n] by (simp_all add: u_def)
    then have "0 < roundEvenRat (of_int n / u)" by (intro roundEvenRat_sign) simp
    then have "0 < of_int (roundEvenRat (of_int n / u)) * u" using u by simp
    then show ?thesis using 2 by (simp add: roundDouble_def u_def[symmetric] Let_def)
  next
    case 3
    then have u: "0 < u" "u \<le> - of_int n" using doubleUlp_int_le[of n] by (simp_all add: u_def)
    then have "roundEvenRat (of_int n / u) < 0" by (intro roundEvenRat_sign) (simp add: divide_le_eq)
    then have "of_int (roundEvenRat (of_int n / u)) * u < 0" using u by (simp add: mult_less_0_iff)
    then show ?thesis using 3 by (simp add: roundDouble_def u_def[symmetric] Let_def)
  qed
qed

lemma addN_int:
  "\<bar>a + b\<bar> < 2 ^ 53 \<Longrightarrow> addN (numN a) (numN b) = numN (a + b)"
  using roundDouble_int[of "a + b"] by (simp add: numN_def)

lemma subN_int:
  "\<bar>a - b\<bar> < 2 ^ 53 \<Longrightarrow> subN (numN a) (numN b) = numN (a - b)"
  using roundDouble_int[of "a - b"] by (simp add: numN_def subN_def)

lemma mulN_int:
  "\<bar>a * b\<bar> < 2 ^ 53 \<Longrightarrow> mulN (numN a) (numN b) = numN (a * b)"
  using roundDouble_int[of "a * b"] by (simp add: numN_def)

lemma lessN_int [simp]: "lessN (numN a) (numN b) \<longleftrightarrow> a < b"
  by (simp add: numN_def)

lemma leN_int [simp]: "leN (numN a) (numN b) \<longleftrightarrow> a \<le> b"
  by (auto simp: leN_def numN_def)

lemma leN_NaN [simp]: "\<not> leN NaN b" "\<not> leN a NaN"
  by (simp_all add: leN_def)

lemma lessN_NaN [simp]: "\<not> lessN a NaN"
  by (cases a) simp_all

lemma absN_int [simp]: "absN (numN a) = numN \<bar>a\<bar>"
  by (simp add: numN_def)

lemma isFiniteN_numN [simp]: "isFiniteN (numN a)"
  by (simp add: numN_def)

lemma isFiniteN_iff: "isFiniteN n \<longleftrightarrow> (\<exists>x. n = Fin x)"
  by (cases n) simp_all

text \<open>Comparisons are trichotomous off \<^verbatim>\<open>NaN\<close> and false on it.\<close>

lemma leN_total: "a \<noteq> NaN \<Longrightarrow> b \<noteq> NaN \<Longrightarrow> leN a b \<or> lessN b a"
  by (simp add: leN_def)

end
