(* ===== verification/Inputs.thy ===== *)
theory Inputs
  imports JsTime JsNumber
begin

text \<open>
  The data the evaluator reads: the server context, event records with their payload, the
  fraud rule bundle, FX policy, metric definitions and evaluations, cost records, privacy
  requests, corrections, reconciliation inputs, and the whole input. A property the schema
  makes optional is an \<open>option\<close>; enumerated strings that the evaluator only copies or
  compares with literals stay strings. Properties of a payload that neither the evaluator nor
  the ingestion worker reads enter it through its digest only, as the text \<open>p_unread\<close>.
\<close>

section \<open>Enumerations shared by inputs and outputs\<close>

datatype lifecycle_status = Available | Redacted | Purged

datatype attribution_status = Organic | NonOrganic | Unattributed

datatype attribution_model = LastClick | ViewThrough | AggregateModel | ProviderReported | NoModel

datatype consent_reason =
    ConsentNotRequired
  | ConsentValidBeforeWithdrawal
  | DocumentedAlternativeLegalBasis
  | ConsentWithdrawn

datatype reject_reason =
    ClientScopeMismatch
  | ConsentWithdrawnReject
  | AggregateInstallationJoinForbidden
  | EventIdConflictReject
  | RecordIdCollisionReject
  | PayloadSchemaInvalid
  | TimestampInvalidReject
  | TimestampStale

datatype fraud_action = Allow | Flag | Exclude | Quarantine

datatype correction_type = CorrectionType | Retraction | Redaction

datatype correction_reason = Refund | PrivacyDeletion | RetentionExpiry | DuplicateSource

datatype freshness = FreshCurrent | FreshStale | FreshRecalculated

fun attributionStatusText :: "attribution_status \<Rightarrow> string" where
  "attributionStatusText Organic = ''organic''"
| "attributionStatusText NonOrganic = ''non_organic''"
| "attributionStatusText Unattributed = ''unattributed''"

fun lifecycleText :: "lifecycle_status \<Rightarrow> string" where
  "lifecycleText Available = ''available''"
| "lifecycleText Redacted = ''redacted''"
| "lifecycleText Purged = ''purged''"

lemma attributionStatusText_inj [simp]: "attributionStatusText a = attributionStatusText b \<longleftrightarrow> a = b"
  by (cases a; cases b) simp_all

section \<open>Event payload\<close>

record import_context =
  ic_provider :: string
  ic_provider_attributed :: bool
  ic_provider_attribution_strategy :: string
  ic_provider_install_ref :: "string option"
  ic_provider_click_ref :: "string option"
  ic_provider_campaign_ref :: "string option"
  ic_provider_network :: "string option"
  ic_provider_country :: "string option"
  ic_provider_confirmed_at :: "string option"
  ic_unread :: string

text \<open>
  One record for the payloads of all event kinds: a property that an event kind does not
  have is \<open>None\<close>. The integer \<^verbatim>\<open>campaign_id\<close> of a SKAdNetwork postback is never read by
  the evaluator and belongs to the unread properties.
\<close>

record payload =
  p_installation_id :: "string option"
  p_prior_installation_id :: "string option"
  p_install_type :: "string option"
  p_click_id :: "string option"
  p_referrer_status :: "string option"
  p_third_party_referrer_classification :: "string option"
  p_referrer_click_at_server :: "string option"
  p_referrer_click_at_server_status :: "string option"
  p_install_begin_at_server :: "string option"
  p_install_begin_at_server_status :: "string option"
  p_meta_referrer_status :: "string option"
  p_meta_attribution_model :: "attribution_model option"
  p_adservices_status :: "string option"
  p_import_context :: "import_context option"
  p_remote_click_ref :: "string option"
  p_redirector_click_at :: "string option"
  p_redirector_time_status :: "string option"
  p_bot_prefetch :: "bool option"
  p_replay_suspected :: "bool option"
  p_campaign_id :: "string option"
  p_network :: "string option"
  p_ad_network :: "string option"
  p_country :: "string option"
  p_subject_scope :: "string option"
  p_anchor_source :: "string option"
  p_amount_unscaled :: "string option"
  p_amount_scale :: "int option"
  p_currency :: "string option"
  p_correction_target_record_id :: "string option"
  p_open_source :: "string option"
  p_signature_verified :: "bool option"
  p_did_win :: "bool option"
  p_source_identifier :: "string option"
  p_conversion_value :: "int option"
  p_coarse_conversion_value :: "string option"
  p_session_id :: "string option"
  p_transaction_id :: "string option"
  p_event_key :: "string option"
  p_link_slug :: "string option"
  p_site_id :: "string option"
  p_tracking_link_id :: "string option"
  p_source_rate_class :: "string option"
  p_client_class :: "string option"
  p_impression_id :: "string option"
  p_ad_unit_id :: "string option"
  p_revenue_source :: "string option"
  p_consent_state :: "string option"
  p_unread :: string

section \<open>Event record and server context\<close>

record integrity_verdict =
  iv_provider :: string
  iv_verdict :: string
  iv_evaluated_at :: string
  iv_policy_version :: string
  iv_evidence_ref :: "string option"

record event_record =
  r_record_id :: string
  r_delivery_id :: string
  r_tenant_id :: string
  r_app_id :: string
  r_producer :: string
  r_producer_version :: string
  r_producer_variant :: "string option"
  r_wrapper_version :: "string option"
  r_event_id :: string
  r_event_name :: string
  r_schema_version :: string
  r_occurred_at :: string
  r_occurred_at_source :: string
  r_received_at :: string
  r_payload :: payload
  r_late :: "bool option"
  r_subject_scope :: "string option"
  r_processing_purpose_id :: "string option"
  r_processing_sequence :: int
  r_integrity_verdict :: "integrity_verdict option"
  r_alternative_legal_basis_id :: "string option"

record processing_purpose =
  pp_processing_purpose_id :: string
  pp_consent_required :: bool
  pp_policy_version :: string

record withdrawal =
  w_processing_purpose_id :: string
  w_withdrawal_recognized_at :: string
  w_withdrawal_recognized_sequence :: int

record legal_basis =
  lb_alternative_legal_basis_id :: string
  lb_processing_purpose_id :: string
  lb_policy_version :: string
  lb_effective_at :: string

record stale_policy =
  sp_before :: string
  sp_authority :: string
  sp_policy_version :: string
  sp_policy_digest :: string

record click_injection_policy =
  cp_threshold_seconds :: number
  cp_authority :: string
  cp_policy_version :: string
  cp_policy_digest :: string

datatype base_value = NumValue number | TextValue string | BoolValue bool

record fraud_rule =
  fr_id :: string
  fr_inputs :: "string list"
  fr_action :: fraud_action

record fraud_bundle =
  fb_id :: string
  fb_version :: string
  fb_base :: "(string \<times> base_value) list"
  fb_operator :: "(string \<times> base_value) list option"
  fb_private :: "(string \<times> string) list option"
  fb_rules :: "fraud_rule list"

record bundle_context =
  bc_rule_bundle_id :: string
  bc_rule_bundle_version :: string
  bc_rule_bundle_hash :: string
  bc_definition_digest :: string
  bc_definition :: fraud_bundle

record deep_link_resolution =
  dr_status :: string
  dr_tracking_link_id :: "string option"
  dr_campaign_id :: "string option"
  dr_install_attribution_click_id :: "string option"

record server_context =
  s_tenant_id :: string
  s_app_id :: string
  s_received_at :: string
  s_policy_digest :: string
  s_deep_link_resolution :: "deep_link_resolution option"
  s_processing_purposes :: "processing_purpose list"
  s_withdrawals :: "withdrawal list"
  s_alternative_legal_bases :: "legal_basis list"
  s_timestamp_stale_policy :: "stale_policy option"
  s_click_injection_policy :: "click_injection_policy option"
  s_fraud_enabled :: "bool option"
  s_fraud_rule_bundle :: "bundle_context option"
  s_fraud_actions_enabled :: "bool option"

text \<open>\<^verbatim>\<open>CandidateAttempt\<close>: one delivery of a record with the context it was received in.\<close>

record attempt =
  at_server :: server_context
  at_record :: event_record
  at_batch_id :: string

section \<open>Privacy, corrections, retention\<close>

record affected_record =
  af_record_id :: string
  af_lifecycle_status :: lifecycle_status

record privacy_request =
  pr_tenant_id :: string
  pr_app_id :: string
  pr_privacy_request_id :: string
  pr_deletion_subject_ref :: "string option"
  pr_deletion_subject_digest :: "string option"
  pr_deletion_scope :: string
  pr_requested_via :: string
  pr_requester_auth_ref :: string
  pr_requested_at :: string
  pr_completed_at :: "string option"
  pr_status :: string
  pr_reason_code :: correction_reason
  pr_policy_version :: string
  pr_affected_records :: "affected_record list"

record correction =
  co_contract_version :: string
  co_tenant_id :: string
  co_app_id :: string
  co_correction_id :: string
  co_corrects_record_id :: "string option"
  co_correction_type :: correction_type
  co_correction_reason :: correction_reason
  co_effective_at :: "string option"

record retention_expiration =
  re_tenant_id :: string
  re_app_id :: string
  re_record_id :: string

record pre_ingestion_rejection =
  pi_record_id :: string
  pi_delivery_id :: string
  pi_tenant_id :: string
  pi_app_id :: string
  pi_received_at :: string
  pi_reason_code :: reject_reason
  pi_processing_purpose_id :: "string option"
  pi_consent_evaluation_policy_version :: string
  pi_consent_decision_reason_code :: consent_reason

section \<open>Money, costs, metrics\<close>

record fx_rate =
  fx_currency :: string
  fx_rate_unscaled :: string
  fx_rate_scale :: int
  fx_source :: string
  fx_as_of :: string

record fx_policy =
  fp_policy_version :: string
  fp_target_currency :: string
  fp_target_scale :: int
  fp_rounding_mode :: string
  fp_rates :: "fx_rate list"

record cost_record =
  c_contract_version :: string
  c_cost_record_id :: string
  c_tenant_id :: string
  c_app_id :: string
  c_network :: string
  c_campaign_id :: string
  c_ad_group_id :: "string option"
  c_country :: "string option"
  c_date :: string
  c_amount_unscaled :: string
  c_amount_scale :: int
  c_currency :: string
  c_as_of :: string
  c_report_snapshot_digest :: string
  c_dimension_digest :: string

datatype window_type = Elapsed | CalendarDay | ActivityDay

datatype calculation =
    RevenueSum
  | RevenueOverCost
  | ActiveInstallationsOverCohort
  | RevenueOverCohort
  | CohortSize
  | EventCount
  | OtherCalculation string

datatype value_type = MoneyValue | RatioValue | CountValue

datatype fraud_policy = Gross | Net

record metric_definition =
  md_metric_name :: string
  md_metric_definition_version :: string
  md_anchor_event :: string
  md_aggregation_time_zone :: zone
  md_value_type :: value_type
  md_currency :: "string option"
  md_amount_scale :: "int option"
  md_ratio_scale :: "int option"
  md_calculation :: calculation
  md_window_type :: window_type
  md_window_day :: int
  md_numerator :: string
  md_denominator :: "string option"
  md_cost_basis :: "string option"
  md_activity_events :: "string list option"
  md_event_names :: "string list option"
  md_grouping_dimensions :: "string list option"
  md_fraud_policy :: "fraud_policy option"
  md_rule_bundle_id :: string
  md_rule_bundle_version :: string
  md_rule_bundle_hash :: string

text \<open>A grouping is the object's properties in the order they stand in it.\<close>

type_synonym grouping = "(string \<times> string) list"

record metric_evaluation =
  me_metric_run_id_prefix :: string
  me_input_received_at_watermark :: string
  me_computed_at :: string
  me_data_freshness :: string
  me_privacy_state :: string
  me_supersedes_metric_run_id_prefix :: "string option"
  me_metric_names :: "string list option"
  me_grouping :: "grouping option"

record source_day_aggregate =
  sd_tenant_id :: string
  sd_app_id :: string
  sd_metric_date :: string
  sd_campaign_id :: string
  sd_network :: string
  sd_site_id :: string
  sd_clicks :: number
  sd_installs :: number
  sd_medianCvr :: number
  sd_ctitP50Ms :: "number option"
  sd_ctitP95Ms :: "number option"
  sd_ctitNegativeCount :: "number option"
  sd_input_snapshot_id :: string
  sd_computed_at :: string

section \<open>Reconciliation inputs\<close>

record matching_key =
  mk_type :: string
  mk_value :: string
  mk_scope :: string
  mk_normalization :: string
  mk_cardinality :: string
  mk_protected :: bool
  mk_value_encoding :: "string option"
  mk_access_class :: "string option"

record recon_candidate =
  rc_candidate_id :: string
  rc_tenant_id :: string
  rc_app_id :: string
  rc_matching_keys :: "matching_key list"
  rc_window_status :: string
  rc_freshness :: freshness
  rc_excluded :: bool
  rc_exclusion_reason :: "string option"

record recon_input =
  ri_reconciliation_id :: string
  ri_tenant_id :: string
  ri_app_id :: string
  ri_input_snapshot_id :: string
  ri_external_snapshot_id :: string
  ri_matching_keys :: "matching_key list"
  ri_candidates :: "recon_candidate list"
  ri_freshness :: freshness
  ri_privacy_effect :: "string option"
  ri_provider_modeled_without_candidate :: bool

section \<open>The evaluation input\<close>

record batch =
  b_batch_id :: string
  b_server_context :: server_context
  b_records :: "event_record list"

text \<open>
  The records come in batches, or as one list with one server context, or there are none
  (an input of pre-ingestion rejections only).
\<close>

record evaluation_input =
  in_batches :: "batch list option"
  in_single :: "(server_context \<times> event_record list) option"
  in_fx_policy :: fx_policy
  in_cost_records :: "cost_record list"
  in_source_day_aggregates :: "source_day_aggregate list"
  in_metric_definitions :: "metric_definition list"
  in_metric_evaluations :: "metric_evaluation list"
  in_reconciliation_inputs :: "recon_input list"
  in_privacy_requests :: "privacy_request list"
  in_correction_inputs :: "correction list"
  in_pre_ingestion_rejections :: "pre_ingestion_rejection list"
  in_retention_expirations :: "retention_expiration list"

end
