(* ===== verification/Outputs.thy ===== *)
theory Outputs
  imports Inputs
begin

text \<open>
  The evaluation output, record for record as the generated contract types have it, the
  internal decision record of the evaluator, and the type of the values the sources hash.
\<close>

section \<open>Enumerations of the output\<close>

datatype ingestion_status = Accepted | Rejected

datatype duplicate_resolution =
    UniqueDelivery
  | DuplicateDelivery
  | EventIdConflict
  | RecordIdCollision

datatype timeliness = OnTime | Late

datatype payload_disposition = ProtectedPayload | DiscardedPayload | RedactedPayload

datatype access_class = PublicAccess | ProtectedAccess | PrivateAccess

datatype subject_scope = InstallationLevel | AggregateScope | EngagementLevel

datatype attribution_method =
    InstallReferrer
  | AggregatePrivacy
  | Imported
  | SkAdNetwork
  | AdAttributionKit
  | MetaInstallReferrer
  | AppleAdServices
  | DeepLink
  | NoMethod

datatype attribution_reason =
    ValidInstallReferrer
  | NoReferrer
  | NoFirstPartyReferrer
  | ForeignReferrerUnresolved
  | UnknownClickId
  | WindowExpired
  | AuthoritativeTimeMissing
  | AuthoritativeTimeInvalid
  | InstallReferrerUnsupported
  | InstallReferrerUnavailable
  | PlatformReferrerNotAvailable
  | AmbiguousClickId
  | BotPrefetch
  | ProviderAttributed
  | ProviderOrganic
  | ProviderUnattributed
  | ProviderTimeAuthorityUnavailable
  | ProviderModeledConversion
  | MetaReferrerDecrypted
  | MetaReferrerDecryptFailed
  | AdServicesAttributed
  | AdServicesTokenExpired
  | AdServicesNotAttributed
  | AdServicesLookupUnavailable
  | SkanPostbackVerified
  | SkanSignatureInvalid
  | PostbackNotWinner
  | CrowdAnonymitySuppressed
  | ConversionValueNull
  | FraudExcluded
  | DeepLinkOpenAttributed
  | DeepLinkUnknownLink
  | DeepLinkLinkInactive
  | DeepLinkInstallClickReused

datatype finality = Pending | Provisional | Final | Superseded | Retracted

datatype fraud_verdict = Clear | Suspected | Confirmed

datatype fraud_reason =
    BotPrefetchReason
  | ReplaySuspected
  | ClickInjectionSuspected
  | CtitClockAnomaly
  | ClickFloodingSuspected
  | ReferrerTimeInconsistent
  | DeviceIntegrityFailed

datatype reproducibility = FullyReproducible | RedactionAffected | RetentionAffected

datatype undefined_reason = NoAttributedCost | NoActivityEvents | EmptyCohort

datatype difference_reason =
    Matched
  | CandidateMissing
  | CandidateExcluded
  | WindowMismatch
  | JoinKeyMissing
  | JoinKeyAmbiguous
  | FreshnessMismatch
  | ExternalRowUnmatched
  | RedactionCausedRecalculation
  | CurrencyPolicyMismatch
  | ScopeMismatch
  | ProviderModeledWithoutCandidate

datatype retained = NonIdentifyingMetadata | ProtectedConflictEvidence

section \<open>The decision on one delivery\<close>

text \<open>What \<^verbatim>\<open>consentDecision\<close> returns.\<close>

record consent =
  k_processing_purpose_id :: "string option"
  k_consent_evaluation_policy_version :: string
  k_withdrawal_recognized_at :: "string option"
  k_allowed :: bool
  k_consent_decision_reason_code :: consent_reason
  k_alternative_legal_basis_id :: "string option"
  k_alternative_legal_basis_policy_version :: "string option"

record decision =
  d_record_id :: string
  d_canonical_record_id :: "string option"
  d_delivery_id :: string
  d_event_name :: "string option"
  d_tenant_id :: string
  d_app_id :: string
  d_received_at :: "string option"
  d_ingestion_status :: ingestion_status
  d_duplicate_resolution :: duplicate_resolution
  d_timeliness :: timeliness
  d_clock_skew_suspected :: bool
  d_payload_disposition :: payload_disposition
  d_processing_purpose_id :: "string option"
  d_consent_evaluation_policy_version :: string
  d_consent_decision_reason_code :: consent_reason
  d_withdrawal_recognized_at :: "string option"
  d_alternative_legal_basis_id :: "string option"
  d_alternative_legal_basis_policy_version :: "string option"
  d_staleness_policy_version :: "string option"
  d_staleness_policy_digest :: "string option"
  d_staleness_authority :: "string option"
  d_reason_code :: "reject_reason option"

section \<open>Output records\<close>

record evidence_ref =
  ev_tenant_id :: string
  ev_app_id :: string
  ev_ref :: string
  ev_lifecycle_status :: lifecycle_status
  ev_access_class :: access_class

record raw_record =
  rr_contract_version :: string
  rr_record_id :: string
  rr_tenant_id :: string
  rr_app_id :: string
  rr_producer :: string
  rr_producer_version :: string
  rr_producer_variant :: "string option"
  rr_wrapper_version :: "string option"
  rr_event_id :: string
  rr_delivery_id :: string
  rr_event_name :: string
  rr_schema_version :: string
  rr_payload_sha256 :: string
  rr_occurred_at :: string
  rr_occurred_at_source :: string
  rr_received_at :: string
  rr_payload_lifecycle_status :: lifecycle_status
  rr_raw_payload_ref :: string
  rr_integrity_verdict :: "integrity_verdict option"
  rr_processing_purpose_id :: "string option"
  rr_consent_evaluation_policy_version :: string
  rr_consent_decision_reason_code :: consent_reason
  rr_withdrawal_recognized_at :: "string option"
  rr_alternative_legal_basis_id :: "string option"
  rr_alternative_legal_basis_policy_version :: "string option"

record delivery =
  dl_contract_version :: string
  dl_delivery_id :: string
  dl_record_id :: string
  dl_canonical_record_id :: "string option"
  dl_tenant_id :: string
  dl_app_id :: string
  dl_received_at :: string
  dl_ingestion_status :: ingestion_status
  dl_duplicate_resolution :: duplicate_resolution
  dl_timeliness :: timeliness
  dl_clock_skew_suspected :: bool
  dl_payload_disposition :: payload_disposition
  dl_processing_purpose_id :: "string option"
  dl_consent_evaluation_policy_version :: string
  dl_consent_decision_reason_code :: consent_reason
  dl_withdrawal_recognized_at :: "string option"
  dl_alternative_legal_basis_id :: "string option"
  dl_alternative_legal_basis_policy_version :: "string option"
  dl_reason_code :: "reject_reason option"
  dl_staleness_policy_version :: "string option"
  dl_staleness_policy_digest :: "string option"
  dl_staleness_authority :: "string option"

record logical_event =
  le_contract_version :: string
  le_logical_event_id :: string
  le_record_id :: string
  le_tenant_id :: string
  le_app_id :: string
  le_producer :: string
  le_event_id :: string
  le_event_name :: string
  le_record_lifecycle :: string
  le_timeliness :: timeliness

record privacy_tombstone =
  pt_contract_version :: string
  pt_tenant_id :: string
  pt_app_id :: string
  pt_privacy_request_id :: string
  pt_record_id :: string
  pt_lifecycle_status :: lifecycle_status
  pt_reason_code :: correction_reason
  pt_policy_version :: string
  pt_provenance_digest :: string
  pt_created_at :: "string option"

text \<open>
  \<^verbatim>\<open>a_model\<close> and \<^verbatim>\<open>a_subject_ref\<close> are copied from a payload in two branches, so they are
  absent when the payload lacks the property.
\<close>

record attribution =
  a_attribution_id :: string
  a_tenant_id :: string
  a_app_id :: string
  a_subject_scope :: subject_scope
  a_subject_ref :: "string option"
  a_status :: attribution_status
  a_method :: attribution_method
  a_model :: attribution_model
  a_reason_code :: attribution_reason
  a_reason_code_version :: string
  a_evidence_refs :: "evidence_ref list"
  a_effective_at :: string
  a_decided_at :: string
  a_input_cutoff_at :: string
  a_finality :: finality
  a_rule_bundle_id :: string
  a_rule_bundle_version :: string
  a_rule_bundle_hash :: string
  a_fraud_decision_ref :: "string option"
  a_supersedes_attribution_id :: "string option"

record grouping_result =
  gr_dimensions :: grouping
  gr_dimension_digest :: string

record metric_run =
  mr_metric_run_id :: string
  mr_metric_name :: string
  mr_metric_definition_version :: string
  mr_input_snapshot_id :: string
  mr_input_received_at_watermark :: string
  mr_input_ledger_position :: string
  mr_computed_at :: string
  mr_data_freshness :: string
  mr_aggregation_time_zone :: zone
  mr_rule_bundle_id :: string
  mr_rule_bundle_version :: string
  mr_rule_bundle_hash :: string
  mr_rounding_mode :: string
  mr_reproducibility_status :: reproducibility
  mr_value_type :: value_type
  mr_fraud_policy :: "fraud_policy option"
  mr_value_state :: "string option"
  mr_value_unscaled :: "string option"
  mr_undefined_reason :: "undefined_reason option"
  mr_fx :: "(fx_rate \<times> string \<times> string) option"
  mr_amount_scale :: "int option"
  mr_currency :: "string option"
  mr_ratio_scale :: "int option"
  mr_grouping :: "grouping_result option"
  mr_evidence_refs :: "evidence_ref list"
  mr_supersedes_metric_run_id :: "string option"

record fraud_evidence =
  fe_type :: string
  fe_captured_at :: string
  fe_digest :: string
  fe_access_class :: access_class

record fraud_decision =
  f_fraud_decision_id :: string
  f_subject_scope :: "string option"
  f_subject_ref :: string
  f_decision :: fraud_verdict
  f_action :: fraud_action
  f_reason_code :: fraud_reason
  f_reason_code_version :: string
  f_evidence :: "fraud_evidence list"
  f_rule_bundle_id :: string
  f_rule_bundle_version :: string
  f_rule_bundle_hash :: string
  f_rule_id :: string
  f_evaluated_at :: string
  f_resolution_deadline_at :: "string option"

record rejection =
  rj_contract_version :: string
  rj_delivery_id :: string
  rj_record_id :: string
  rj_tenant_id :: string
  rj_app_id :: string
  rj_reason_code :: "reject_reason option"
  rj_reason_code_version :: string
  rj_payload_disposition :: payload_disposition
  rj_retained :: retained
  rj_processing_purpose_id :: "string option"
  rj_consent_evaluation_policy_version :: string
  rj_consent_decision_reason_code :: consent_reason
  rj_withdrawal_recognized_at :: "string option"
  rj_staleness_policy_version :: "string option"
  rj_staleness_policy_digest :: "string option"
  rj_staleness_authority :: "string option"

record reconciliation =
  rs_reconciliation_id :: string
  rs_tenant_id :: string
  rs_app_id :: string
  rs_input_snapshot_id :: string
  rs_external_snapshot_id :: string
  rs_difference_reason_code :: difference_reason
  rs_difference_reason_version :: string
  rs_matching_keys :: "matching_key list"
  rs_candidates :: "string list"
  rs_exclusions :: "string option list"
  rs_windows :: "string list"
  rs_joins :: "string list"
  rs_freshness :: freshness

record evaluation_output =
  o_raw_records :: "raw_record list"
  o_deliveries :: "delivery list"
  o_logical_events :: "logical_event list"
  o_corrections :: "correction list"
  o_privacy_requests :: "privacy_request list"
  o_privacy_tombstones :: "privacy_tombstone list"
  o_attributions :: "attribution list"
  o_cost_records :: "cost_record list"
  o_metric_definitions :: "metric_definition list"
  o_metric_runs :: "metric_run list"
  o_fraud_decisions :: "fraud_decision list"
  o_rejections :: "rejection list"
  o_reconciliation :: "reconciliation list"

section \<open>Hashed values\<close>

text \<open>
  \<^verbatim>\<open>sha256(value)\<close> is the SHA-256 digest of the canonical JSON text of the value, computed
  by \<^verbatim>\<open>node:crypto\<close> and \<^verbatim>\<open>json-canonicalize\<close>. The development takes it as a parameter
  \<open>H\<close>, a function from the values the sources hash to texts; no property of it is
  assumed except where a theorem names one. An object enters with its properties sorted by
  name, as the canonical form has them.
\<close>

datatype hashable =
    HPayload payload
  | HEventRecord event_record
  | HStalePolicy string string string
  | HClickPolicy number string string
  | HFraudBundle fraud_bundle
  | HObject "(string \<times> string) list"
  | HTexts "string option list"
  | HRows "string list list"
  | HRates "fx_rate list"
  | HRawRecord raw_record
  | HDelivery delivery
  | HLogicalEvent logical_event
  | HCorrection correction
  | HPrivacyRequest privacy_request
  | HTombstone privacy_tombstone
  | HAttribution attribution
  | HCostRecord cost_record
  | HMetricDefinition metric_definition
  | HMetricRun metric_run
  | HFraudDecision fraud_decision
  | HRejection rejection
  | HReconciliation reconciliation
  | HEvidence evidence_ref

type_synonym digest = "hashable \<Rightarrow> string"

definition hashObject :: "(string \<times> string) list \<Rightarrow> hashable" where
  "hashObject kvs = HObject (sort_key fst kvs)"

end
