(* ===== verification/FraudRules.thy ===== *)
theory FraudRules
  imports Outputs
begin

text \<open>
  The fraud rule package: the default rule bundle, bundle validation and hashing, parameter
  and action lookup, the install rules (referrer order, click-to-install time, divergence)
  and the source-day click-flooding rule. Instants and thresholds are numbers of the
  language, so a malformed timestamp is \<^verbatim>\<open>NaN\<close> and fails every comparison.
\<close>

section \<open>Rule hits\<close>

datatype fraud_evidence_type =
    CtitCategory
  | CtitClockDiagnostic
  | ServerClockOrder
  | SourceDayDistribution

record fraud_rule_hit =
  h_ruleId :: string
  h_decision :: fraud_verdict
  h_action :: fraud_action
  h_reasonCode :: fraud_reason
  h_evidenceType :: fraud_evidence_type

record install_rule_input =
  ii_installBeginAtServer :: "string option"
  ii_referrerClickAtServer :: "string option"
  ii_referrerClickAtServerStatus :: "string option"
  ii_redirectorClickAt :: "string option"
  ii_policy :: click_injection_policy
  ii_bundle :: "fraud_bundle option"

record source_day_input =
  si_clicks :: number
  si_installs :: number
  si_medianCvr :: number
  si_ctitP50Ms :: "number option"
  si_ctitP95Ms :: "number option"

section \<open>The default bundle\<close>

definition mkRule :: "string \<Rightarrow> string list \<Rightarrow> fraud_action \<Rightarrow> fraud_rule" where
  "mkRule i ins act = \<lparr>fr_id = i, fr_inputs = ins, fr_action = act\<rparr>"

definition DEFAULT_FRAUD_BUNDLE :: fraud_bundle where
  "DEFAULT_FRAUD_BUNDLE = \<lparr>
     fb_id = ''fraud-conservative'',
     fb_version = ''1.0.0'',
     fb_base = [
       (''ctit_lower_bound_seconds'', NumValue (numN 10)),
       (''ctit_negative_rate_threshold'', NumValue (literalN (5 / 100))),
       (''referrer_redirector_divergence_seconds'', NumValue (numN 300)),
       (''source_day_min_clicks'', NumValue (numN 1000)),
       (''source_day_cvr_median_multiplier'', NumValue (literalN (2 / 10))),
       (''source_day_ctit_p50_min_seconds'', NumValue (numN 86400)),
       (''source_day_ctit_p95_p50_max_ratio'', NumValue (numN 3)),
       (''quarantine_hours'', NumValue (numN 72))],
     fb_operator = None,
     fb_private = None,
     fb_rules = [
       mkRule ''transport-bot-prefetch-v1'' [''prefetch_signal''] Exclude,
       mkRule ''transport-replay-v1'' [''replay_signal''] Exclude,
       mkRule ''referrer-server-order-v1'' [''referrer_click_at_server'', ''install_begin_at_server''] Flag,
       mkRule ''ctit-lower-bound-v1'' [''redirector_click_at'', ''install_begin_at_server''] Flag,
       mkRule ''ctit-clock-anomaly-v1'' [''redirector_click_at'', ''install_begin_at_server''] Allow,
       mkRule ''referrer-redirector-divergence-v1'' [''referrer_click_at_server'', ''redirector_click_at''] Flag,
       mkRule ''source-day-click-flooding-v1'' [''source_day_aggregate''] Flag,
       mkRule ''device-integrity-combination-v1'' [''integrity_verdict'', ''ctit''] Flag]\<rparr>"

section \<open>Policies and parameters\<close>

definition clickInjectionPolicyDigest :: "digest \<Rightarrow> number \<Rightarrow> string \<Rightarrow> string \<Rightarrow> string" where
  "clickInjectionPolicyDigest H threshold authority version = H (HClickPolicy threshold authority version)"

definition assertClickInjectionPolicy :: "digest \<Rightarrow> click_injection_policy \<Rightarrow> unit res" where
  "assertClickInjectionPolicy H policy =
     throwIf (cp_policy_digest policy \<noteq>
         clickInjectionPolicyDigest H (cp_threshold_seconds policy) (cp_authority policy) (cp_policy_version policy))
       (JsError ''click_injection_policy.policy_digest does not match its canonical policy fields'')"

definition instant :: "string \<Rightarrow> number" where
  "instant value = (case canonicalTime value of Some t \<Rightarrow> numN t | None \<Rightarrow> NaN)"

definition fraudNumberParameter :: "fraud_bundle \<Rightarrow> string \<Rightarrow> number \<Rightarrow> number" where
  "fraudNumberParameter bundle name fallback =
     (case map_of (fb_base bundle) name of
        Some (NumValue value) \<Rightarrow> if isFiniteN value then value else fallback
      | _ \<Rightarrow> fallback)"

definition fraudRuleAction :: "fraud_bundle \<Rightarrow> string \<Rightarrow> fraud_action \<Rightarrow> fraud_action" where
  "fraudRuleAction bundle ruleId fallback =
     (case List.find (\<lambda>rule. fr_id rule = ruleId) (fb_rules bundle) of
        Some rule \<Rightarrow> fr_action rule
      | None \<Rightarrow> fallback)"

section \<open>Install rules\<close>

definition referrerOrderHits :: "install_rule_input \<Rightarrow> fraud_bundle \<Rightarrow> fraud_rule_hit list" where
  "referrerOrderHits input bundle =
     (case (ii_referrerClickAtServer input, ii_installBeginAtServer input) of
        (Some referrer, Some begin) \<Rightarrow>
          if ii_referrerClickAtServerStatus input = Some ''available'' \<and> referrer \<noteq> [] \<and> begin \<noteq> [] \<and>
             leN (addN (instant begin) (numN 1000)) (instant referrer)
          then [\<lparr>h_ruleId = ''referrer-server-order-v1'', h_decision = Confirmed,
                 h_action = fraudRuleAction bundle ''referrer-server-order-v1'' Flag,
                 h_reasonCode = ReferrerTimeInconsistent, h_evidenceType = ServerClockOrder\<rparr>]
          else []
      | _ \<Rightarrow> [])"

definition divergenceHits :: "install_rule_input \<Rightarrow> fraud_bundle \<Rightarrow> string \<Rightarrow> fraud_rule_hit list" where
  "divergenceHits input bundle redirector =
     (let divergenceMilliseconds =
            mulN (fraudNumberParameter bundle ''referrer_redirector_divergence_seconds'' (numN 300)) (numN 1000)
      in case ii_referrerClickAtServer input of
           Some referrer \<Rightarrow>
             if referrer \<noteq> [] \<and> lessN divergenceMilliseconds (absN (subN (instant referrer) (instant redirector)))
             then [\<lparr>h_ruleId = ''referrer-redirector-divergence-v1'', h_decision = Suspected,
                    h_action = fraudRuleAction bundle ''referrer-redirector-divergence-v1'' Flag,
                    h_reasonCode = ReferrerTimeInconsistent, h_evidenceType = ServerClockOrder\<rparr>]
             else []
         | None \<Rightarrow> [])"

definition lowerBoundHits :: "install_rule_input \<Rightarrow> fraud_bundle \<Rightarrow> number \<Rightarrow> fraud_rule_hit list" where
  "lowerBoundHits input bundle delta =
     (if lessN delta (mulN (cp_threshold_seconds (ii_policy input)) (numN 1000))
      then [\<lparr>h_ruleId = ''ctit-lower-bound-v1'', h_decision = Suspected,
             h_action = fraudRuleAction bundle ''ctit-lower-bound-v1'' Flag,
             h_reasonCode = ClickInjectionSuspected, h_evidenceType = CtitCategory\<rparr>]
      else [])"

definition clockAnomalyHit :: fraud_rule_hit where
  "clockAnomalyHit =
     \<lparr>h_ruleId = ''ctit-clock-anomaly-v1'', h_decision = Clear, h_action = Allow,
      h_reasonCode = CtitClockAnomaly, h_evidenceType = CtitClockDiagnostic\<rparr>"

definition evaluateInstallRules :: "digest \<Rightarrow> install_rule_input \<Rightarrow> fraud_rule_hit list res" where
  "evaluateInstallRules H input =
     bindR (assertClickInjectionPolicy H (ii_policy input)) (\<lambda>_.
       let bundle = orElse (ii_bundle input) DEFAULT_FRAUD_BUNDLE;
           output = referrerOrderHits input bundle
       in case (ii_redirectorClickAt input, ii_installBeginAtServer input) of
            (Some redirector, Some begin) \<Rightarrow>
              if redirector = [] \<or> begin = [] then Inr output
              else let delta = subN (instant begin) (instant redirector)
                   in if lessN delta (numN 0) then Inr (output @ [clockAnomalyHit])
                      else Inr (output @ lowerBoundHits input bundle delta @ divergenceHits input bundle redirector)
          | _ \<Rightarrow> Inr output)"

section \<open>Source-day rule\<close>

definition evaluateSourceDayWithBundle :: "source_day_input \<Rightarrow> fraud_bundle \<Rightarrow> fraud_rule_hit option" where
  "evaluateSourceDayWithBundle input bundle =
     (let minimumClicks = fraudNumberParameter bundle ''source_day_min_clicks'' (numN 1000);
          cvrMultiplier = fraudNumberParameter bundle ''source_day_cvr_median_multiplier'' (literalN (2 / 10));
          p50MinimumMs = mulN (fraudNumberParameter bundle ''source_day_ctit_p50_min_seconds'' (numN 86400)) (numN 1000);
          p95P50MaximumRatio = fraudNumberParameter bundle ''source_day_ctit_p95_p50_max_ratio'' (numN 3);
          hit = \<lparr>h_ruleId = ''source-day-click-flooding-v1'', h_decision = Suspected,
                 h_action = fraudRuleAction bundle ''source-day-click-flooding-v1'' Flag,
                 h_reasonCode = ClickFloodingSuspected, h_evidenceType = SourceDayDistribution\<rparr>
      in case (si_ctitP50Ms input, si_ctitP95Ms input) of
           (Some p50, Some p95) \<Rightarrow>
             if lessN (si_clicks input) minimumClicks \<or>
                lessN (mulN (si_medianCvr input) cvrMultiplier) (divN (si_installs input) (si_clicks input)) \<or>
                lessN p50 p50MinimumMs \<or>
                lessN p95P50MaximumRatio (divN p95 p50)
             then None else Some hit
         | _ \<Rightarrow> None)"

definition evaluateSourceDay :: "source_day_input \<Rightarrow> fraud_rule_hit option" where
  "evaluateSourceDay input = evaluateSourceDayWithBundle input DEFAULT_FRAUD_BUNDLE"

section \<open>Bundle validation and hash\<close>

definition codeIn :: "nat \<Rightarrow> nat \<Rightarrow> char \<Rightarrow> bool" where
  "codeIn lo hi c = (let n = of_char c :: nat in lo \<le> n \<and> n \<le> hi)"

definition isLowerAlpha :: "char \<Rightarrow> bool" where
  "isLowerAlpha c = codeIn 97 122 c"

definition isBundleIdChar :: "char \<Rightarrow> bool" where
  "isBundleIdChar c =
     (codeIn 65 90 c \<or> isLowerAlpha c \<or> isDigit c \<or> c = CHR ''.'' \<or> c = CHR ''_'' \<or> c = CHR '':'' \<or> c = CHR ''-'')"

definition validBundleId :: "string \<Rightarrow> bool" where
  "validBundleId s = (1 \<le> length s \<and> length s \<le> 128 \<and> list_all isBundleIdChar s)"

definition isHex64 :: "string \<Rightarrow> bool" where
  "isHex64 s = (length s = 64 \<and> list_all (\<lambda>c. codeIn 97 102 c \<or> isDigit c) s)"

definition validRuleId :: "string \<Rightarrow> bool" where
  "validRuleId s =
     (3 \<le> length s \<and> length s \<le> 128 \<and> isLowerAlpha (hd s) \<and>
      list_all (\<lambda>c. isLowerAlpha c \<or> isDigit c \<or> c = CHR ''-'') (tl s))"

definition assertRule :: "fraud_rule \<Rightarrow> unit res" where
  "assertRule rule =
     bindR (throwIf (\<not> validRuleId (fr_id rule)) (JsError (''fraud_bundle_rule_invalid:'' @ fr_id rule))) (\<lambda>_.
       throwIf (fr_inputs rule \<noteq> [] \<and> list_all (\<lambda>input. input = ''integrity_verdict'') (fr_inputs rule))
         (JsError (''integrity_only_rule_forbidden:'' @ fr_id rule)))"

definition assertPrivateLayer :: "(string \<times> string) list option \<Rightarrow> unit res" where
  "assertPrivateLayer layer =
     (case layer of
        None \<Rightarrow> Inr ()
      | Some kvs \<Rightarrow>
          throwIf (\<not> (map fst kvs = [''digest''] \<and> isHex64 (orElse (map_of kvs ''digest'') [])))
            (JsError ''fraud_bundle_private_layer_must_be_digest_only''))"

definition assertFraudBundle :: "fraud_bundle \<Rightarrow> unit res" where
  "assertFraudBundle bundle =
     bindR (throwIf (\<not> validBundleId (fb_id bundle)) (JsError ''fraud_bundle_id_invalid'')) (\<lambda>_.
     bindR (throwIf (length (fb_version bundle) < 1 \<or> 128 < length (fb_version bundle))
              (JsError ''fraud_bundle_version_invalid'')) (\<lambda>_.
     bindR (throwIf (fb_rules bundle = []) (JsError ''fraud_bundle_rules_invalid'')) (\<lambda>_.
     bindR (assertPrivateLayer (fb_private bundle)) (\<lambda>_.
       forR assertRule (fb_rules bundle)))))"

definition fraudBundleHash :: "digest \<Rightarrow> fraud_bundle \<Rightarrow> string res" where
  "fraudBundleHash H bundle = bindR (assertFraudBundle bundle) (\<lambda>_. Inr (H (HFraudBundle bundle)))"

record bundle_provenance =
  bp_id :: string
  bp_version :: string
  bp_hash :: string
  bp_private_layer_digest :: "string option"

definition publicBundleProvenance :: "digest \<Rightarrow> fraud_bundle \<Rightarrow> bundle_provenance res" where
  "publicBundleProvenance H bundle =
     bindR (fraudBundleHash H bundle) (\<lambda>h. Inr \<lparr>
       bp_id = fb_id bundle, bp_version = fb_version bundle, bp_hash = h,
       bp_private_layer_digest =
         (case fb_private bundle of None \<Rightarrow> None | Some kvs \<Rightarrow> Some (orElse (map_of kvs ''digest'') ''undefined''))\<rparr>)"

section \<open>Facts about the rules\<close>

lemma instant_time: "instant s = numN t \<longleftrightarrow> time (Some s) f = Inr t"
proof
  assume "instant s = numN t"
  then have "canonicalTime s = Some t" by (auto simp: instant_def numN_def split: option.splits)
  then show "time (Some s) f = Inr t" by (simp add: time_Inr_iff canonicalTime_Some_iff)
next
  assume "time (Some s) f = Inr t"
  then have "canonicalTime s = Some t" by (simp add: time_Inr_iff canonicalTime_Some_iff)
  then show "instant s = numN t" by (simp add: instant_def)
qed

lemma instant_toISOText [simp]: "timeClip t \<Longrightarrow> instant (toISOText t) = numN t"
  by (simp add: instant_def canonicalTime_Some_iff[THEN iffD2])

lemma instant_invalid: "(\<forall>t. timeClip t \<longrightarrow> s \<noteq> toISOText t) \<Longrightarrow> instant s = NaN"
  using canonicalTime_Some_iff[of s] by (auto simp: instant_def split: option.splits)

lemma fraudNumberParameter_finite:
  "isFiniteN fallback \<Longrightarrow> isFiniteN (fraudNumberParameter bundle name fallback)"
  by (auto simp: fraudNumberParameter_def split: option.splits base_value.splits)

lemma fraudBundleHash_Inr: "fraudBundleHash H b = Inr h \<longleftrightarrow> assertFraudBundle b = Inr () \<and> h = H (HFraudBundle b)"
  by (auto simp: fraudBundleHash_def res_simps)

lemma assertPrivateLayer_Inr:
  "assertPrivateLayer layer = Inr () \<longleftrightarrow>
     layer = None \<or> (\<exists>d. layer = Some [(''digest'', d)] \<and> isHex64 d)"
  by (cases layer) (auto simp: assertPrivateLayer_def throwIf_Inr_iff)

lemma assertRule_Inr:
  "assertRule r = Inr () \<longleftrightarrow> validRuleId (fr_id r) \<and> \<not> (fr_inputs r \<noteq> [] \<and> set (fr_inputs r) \<subseteq> {''integrity_verdict''})"
  by (auto simp: assertRule_def res_simps list_all_iff)

lemma assertFraudBundle_Inr:
  "assertFraudBundle b = Inr () \<longleftrightarrow>
     validBundleId (fb_id b) \<and> 1 \<le> length (fb_version b) \<and> length (fb_version b) \<le> 128 \<and> fb_rules b \<noteq> [] \<and>
     (fb_private b = None \<or> (\<exists>d. fb_private b = Some [(''digest'', d)] \<and> isHex64 d)) \<and>
     (\<forall>r \<in> set (fb_rules b). validRuleId (fr_id r) \<and> \<not> (fr_inputs r \<noteq> [] \<and> set (fr_inputs r) \<subseteq> {''integrity_verdict''}))"
  by (auto simp: assertFraudBundle_def res_simps forR_Inr_iff assertRule_Inr assertPrivateLayer_Inr not_less Suc_le_eq)

lemma default_ids:
  "validBundleId ''fraud-conservative''" "validRuleId ''transport-bot-prefetch-v1''" "validRuleId ''transport-replay-v1''"
  "validRuleId ''referrer-server-order-v1''" "validRuleId ''ctit-lower-bound-v1''" "validRuleId ''ctit-clock-anomaly-v1''"
  "validRuleId ''referrer-redirector-divergence-v1''" "validRuleId ''source-day-click-flooding-v1''"
  "validRuleId ''device-integrity-combination-v1''"
  by code_simp+

lemma DEFAULT_FRAUD_BUNDLE_valid: "assertFraudBundle DEFAULT_FRAUD_BUNDLE = Inr ()"
  unfolding assertFraudBundle_Inr
  by (simp add: DEFAULT_FRAUD_BUNDLE_def mkRule_def default_ids)

lemma assertClickInjectionPolicy_Inr:
  "assertClickInjectionPolicy H p = Inr u \<longleftrightarrow>
     cp_policy_digest p = H (HClickPolicy (cp_threshold_seconds p) (cp_authority p) (cp_policy_version p))"
  by (auto simp: assertClickInjectionPolicy_def clickInjectionPolicyDigest_def throwIf_Inr_iff)

text \<open>The click-to-install delta of two canonical timestamps.\<close>

lemma ctit_negative:
  assumes "timeClip b" "timeClip r"
  shows "lessN (subN (instant (toISOText b)) (instant (toISOText r))) (numN 0) \<longleftrightarrow> b < r"
  using roundDouble_int_sign[of "b - r"] assms by (simp add: subN_def numN_def)

text \<open>
  Every rule that fires on an install is one of four; the clock anomaly is the only one
  that is not suspicious, and it never acts.
\<close>

lemma evaluateInstallRules_hits:
  assumes "evaluateInstallRules H input = Inr hits" "h \<in> set hits"
  shows "h = clockAnomalyHit \<or>
    h_decision h \<in> {Suspected, Confirmed} \<and>
    h_ruleId h \<in> {''referrer-server-order-v1'', ''ctit-lower-bound-v1'', ''referrer-redirector-divergence-v1''}"
  using assms
  by (auto simp: evaluateInstallRules_def res_simps Let_def referrerOrderHits_def lowerBoundHits_def divergenceHits_def
      split: option.splits if_splits)

end
