(* ===== verification/Candidates.thy ===== *)
theory Candidates
  imports FraudRules
begin

text \<open>
  The attempts of an evaluation: flattening the input into attempts, the checks on producers,
  the total order attempts are processed in, the composite keys, and the two candidate
  providers. The locale \<open>candidate_provider\<close> is the interface the evaluator relies on;
  both providers of the sources interpret it.
\<close>

section \<open>Attempts\<close>

definition attempts :: "evaluation_input \<Rightarrow> attempt list" where
  "attempts input =
     (case in_batches input of
        Some batches \<Rightarrow>
          concat (map (\<lambda>b. map (\<lambda>record.
            \<lparr>at_server = b_server_context b, at_record = record, at_batch_id = b_batch_id b\<rparr>) (b_records b)) batches)
      | None \<Rightarrow>
          (case in_single input of
             None \<Rightarrow> []
           | Some (server, records) \<Rightarrow>
               map (\<lambda>record. \<lparr>at_server = server, at_record = record, at_batch_id = ''batch-default''\<rparr>) records))"

abbreviation at_payload :: "attempt \<Rightarrow> payload" where
  "at_payload attempt \<equiv> r_payload (at_record attempt)"

abbreviation event_name :: "attempt \<Rightarrow> string" where
  "event_name attempt \<equiv> r_event_name (at_record attempt)"

abbreviation record_id :: "attempt \<Rightarrow> string" where
  "record_id attempt \<equiv> r_record_id (at_record attempt)"

abbreviation tenant_id :: "attempt \<Rightarrow> string" where
  "tenant_id attempt \<equiv> s_tenant_id (at_server attempt)"

abbreviation app_id :: "attempt \<Rightarrow> string" where
  "app_id attempt \<equiv> s_app_id (at_server attempt)"

definition sameScope :: "attempt \<Rightarrow> attempt \<Rightarrow> bool" where
  "sameScope a b = (tenant_id a = tenant_id b \<and> app_id a = app_id b)"

definition assertImportProviderContext :: "attempt \<Rightarrow> unit res" where
  "assertImportProviderContext attempt =
     (case p_import_context (at_payload attempt) of
        None \<Rightarrow> Inr ()
      | Some context \<Rightarrow>
          if \<not> startsWith (r_producer (at_record attempt)) ''import:'' then Inr ()
          else throwIf (r_producer (at_record attempt) \<noteq> ''import:'' @ ic_provider context)
                 (JsError ''import_context.provider must match the authenticated import producer''))"

definition assertImportProviderContexts :: "attempt list \<Rightarrow> unit res" where
  "assertImportProviderContexts all = forR assertImportProviderContext all"

definition assertRevenueAnchorSource :: "attempt \<Rightarrow> unit res" where
  "assertRevenueAnchorSource attempt =
     (if event_name attempt \<noteq> ''ad_revenue'' \<or> p_anchor_source (at_payload attempt) = None then Inr ()
      else throwIf (\<not> startsWith (r_producer (at_record attempt)) ''postback:'')
             (JsError ''ad_revenue.anchor_source is limited to authenticated S2S postback producers''))"

definition assertRevenueAnchorSources :: "attempt list \<Rightarrow> unit res" where
  "assertRevenueAnchorSources all = forR assertRevenueAnchorSource all"

section \<open>The order of attempts\<close>

definition candidateAttemptSortKey :: "digest \<Rightarrow> attempt \<Rightarrow> string list" where
  "candidateAttemptSortKey H attempt =
     [r_received_at (at_record attempt), record_id attempt, r_delivery_id (at_record attempt),
      tenant_id attempt, app_id attempt, r_schema_version (at_record attempt), H (HEventRecord (at_record attempt))]"

definition compareCandidateAttempts :: "digest \<Rightarrow> attempt \<Rightarrow> attempt \<Rightarrow> int" where
  "compareCandidateAttempts H a b =
     compareSortKeys (candidateAttemptSortKey H a) (candidateAttemptSortKey H b)"

definition sortCandidateAttempts :: "digest \<Rightarrow> attempt list \<Rightarrow> attempt list" where
  "sortCandidateAttempts H values =
     map fst (js_sort (\<lambda>a b. compareSortKeys (snd a) (snd b))
       (map (\<lambda>attempt. (attempt, candidateAttemptSortKey H attempt)) values))"

text \<open>\<^verbatim>\<open>sortByKey(values, key)\<close>: the digest of the value breaks the ties of its key.\<close>

definition sortByKey :: "('a \<Rightarrow> string) \<Rightarrow> ('a \<Rightarrow> string list) \<Rightarrow> 'a list \<Rightarrow> 'a list" where
  "sortByKey sha256 key values =
     js_sort (\<lambda>a b. compareSortKeys (key a @ [sha256 a]) (key b @ [sha256 b])) values"

lemma length_candidateAttemptSortKey [simp]: "length (candidateAttemptSortKey H a) = 7"
  by (simp add: candidateAttemptSortKey_def)

lemma map_fst_js_insert:
  "map fst (js_insert (\<lambda>a b. cmp (snd a) (snd b)) (x, f x) (map (\<lambda>x. (x, f x)) ys)) =
     js_insert (\<lambda>a b. cmp (f a) (f b)) x ys"
  "js_insert (\<lambda>a b. cmp (snd a) (snd b)) (x, f x) (map (\<lambda>x. (x, f x)) ys) =
     map (\<lambda>x. (x, f x)) (js_insert (\<lambda>a b. cmp (f a) (f b)) x ys)"
  by (induction ys) (simp_all add: o_def)

lemma js_sort_decorated:
  "js_sort (\<lambda>a b. cmp (snd a) (snd b)) (map (\<lambda>x. (x, f x)) xs) =
     map (\<lambda>x. (x, f x)) (js_sort (\<lambda>a b. cmp (f a) (f b)) xs)"
  by (induction xs) (simp_all add: map_fst_js_insert)

lemma sortCandidateAttempts_sort_key:
  "sortCandidateAttempts H xs = sort_key (candidateAttemptSortKey H) xs"
proof -
  have "sortCandidateAttempts H xs =
      js_sort (\<lambda>a b. compareSortKeys (candidateAttemptSortKey H a) (candidateAttemptSortKey H b)) xs"
    by (simp add: sortCandidateAttempts_def js_sort_decorated o_def)
  also have "\<dots> = sort_key (candidateAttemptSortKey H) xs"
    by (rule js_sort_sort_key) (simp add: compareSortKeys_le_zero)
  finally show ?thesis .
qed

lemma set_sortCandidateAttempts [simp]: "set (sortCandidateAttempts H xs) = set xs"
  by (simp add: sortCandidateAttempts_sort_key)

lemma mset_sortCandidateAttempts [simp]: "mset (sortCandidateAttempts H xs) = mset xs"
  by (simp add: sortCandidateAttempts_sort_key)

lemma sortByKey_sort_key:
  assumes "\<And>x y. length (key x) = length (key y)"
  shows "sortByKey sha key xs = sort_key (\<lambda>x. key x @ [sha x]) xs"
  unfolding sortByKey_def by (rule js_sort_sort_key) (simp add: compareSortKeys_le_zero assms)

lemma set_sortByKey [simp]: "set (sortByKey sha key xs) = set xs"
  by (simp add: sortByKey_def)

lemma mset_sortByKey [simp]: "mset (sortByKey sha key xs) = mset xs"
  by (simp add: sortByKey_def)

lemma length_sortByKey [simp]: "length (sortByKey sha key xs) = length xs"
  by (simp add: sortByKey_def)

section \<open>Keys\<close>

definition scopeKey :: "attempt \<Rightarrow> string" where
  "scopeKey attempt =
     compositeKey [Some (tenant_id attempt), Some (app_id attempt),
       Some (r_producer (at_record attempt)), Some (r_event_id (at_record attempt))]"

definition clickKey :: "string \<Rightarrow> string \<Rightarrow> string option \<Rightarrow> string" where
  "clickKey tenantId appId clickId = compositeKey [Some tenantId, Some appId, clickId]"

definition evidenceKey :: "string \<Rightarrow> string \<Rightarrow> string option \<Rightarrow> string" where
  "evidenceKey tenantId appId recordId = compositeKey [Some tenantId, Some appId, recordId]"

definition attemptEvidenceKey :: "attempt \<Rightarrow> string" where
  "attemptEvidenceKey attempt = evidenceKey (tenant_id attempt) (app_id attempt) (Some (record_id attempt))"

definition attemptDecisionKey :: "digest \<Rightarrow> attempt \<Rightarrow> string" where
  "attemptDecisionKey H attempt =
     compositeKey [Some (at_batch_id attempt), Some (tenant_id attempt), Some (app_id attempt),
       Some (r_delivery_id (at_record attempt)), Some (record_id attempt),
       Some (r_schema_version (at_record attempt)), Some (H (HEventRecord (at_record attempt)))]"

lemma scopeKey_eq_iff:
  "scopeKey a = scopeKey b \<longleftrightarrow>
     sameScope a b \<and> r_producer (at_record a) = r_producer (at_record b) \<and>
     r_event_id (at_record a) = r_event_id (at_record b)"
  by (auto simp: scopeKey_def sameScope_def)

lemma evidenceKey_eq_iff [simp]:
  "evidenceKey t a r = evidenceKey t' a' r' \<longleftrightarrow> t = t' \<and> a = a' \<and> r = r'"
  by (simp add: evidenceKey_def)

lemma clickKey_eq_iff [simp]:
  "clickKey t a r = clickKey t' a' r' \<longleftrightarrow> t = t' \<and> a = a' \<and> r = r'"
  by (simp add: clickKey_def)

lemma attemptEvidenceKey_eq_iff:
  "attemptEvidenceKey a = attemptEvidenceKey b \<longleftrightarrow> sameScope a b \<and> record_id a = record_id b"
  by (auto simp: attemptEvidenceKey_def sameScope_def)

lemma attemptDecisionKey_record:
  "attemptDecisionKey H a = attemptDecisionKey H b \<Longrightarrow>
     sameScope a b \<and> record_id a = record_id b \<and> r_delivery_id (at_record a) = r_delivery_id (at_record b)"
  by (simp add: attemptDecisionKey_def sameScope_def)

section \<open>Candidate providers\<close>

record provider =
  pv_all :: "attempt list"
  pv_byRecordId :: "string \<Rightarrow> attempt list"
  pv_byLogicalScope :: "attempt \<Rightarrow> attempt list"
  pv_clickCandidates :: "string \<Rightarrow> string \<Rightarrow> string option \<Rightarrow> attempt list"

definition isClickOf :: "string \<Rightarrow> string \<Rightarrow> string option \<Rightarrow> attempt \<Rightarrow> bool" where
  "isClickOf tenantId appId clickId candidate =
     (tenant_id candidate = tenantId \<and> app_id candidate = appId \<and>
      event_name candidate = ''click'' \<and> p_click_id (at_payload candidate) = clickId)"

definition createFixtureCandidateProvider :: "attempt list \<Rightarrow> provider" where
  "createFixtureCandidateProvider ordered = \<lparr>
     pv_all = ordered,
     pv_byRecordId = (\<lambda>recordId. filter (\<lambda>candidate. record_id candidate = recordId) ordered),
     pv_byLogicalScope = (\<lambda>attempt. filter (\<lambda>candidate. scopeKey candidate = scopeKey attempt) ordered),
     pv_clickCandidates = (\<lambda>tenantId appId clickId. filter (isClickOf tenantId appId clickId) ordered)\<rparr>"

text \<open>The indexed provider: three maps from keys to the attempts added under them, in order.\<close>

record candidate_index =
  ix_records :: "(string \<times> attempt list) list"
  ix_logicalScopes :: "(string \<times> attempt list) list"
  ix_clicks :: "(string \<times> attempt list) list"

definition indexGet :: "(string \<times> attempt list) list \<Rightarrow> string \<Rightarrow> attempt list" where
  "indexGet index key = orElse (map_of index key) []"

definition indexAdd :: "(string \<times> attempt list) list \<Rightarrow> string \<Rightarrow> attempt \<Rightarrow> (string \<times> attempt list) list" where
  "indexAdd index key attempt = AList.update key (indexGet index key @ [attempt]) index"

definition addCandidate :: "candidate_index \<Rightarrow> attempt \<Rightarrow> candidate_index" where
  "addCandidate ix attempt =
     ix\<lparr>ix_records := indexAdd (ix_records ix) (record_id attempt) attempt,
        ix_logicalScopes := indexAdd (ix_logicalScopes ix) (scopeKey attempt) attempt,
        ix_clicks :=
          (if event_name attempt = ''click''
           then indexAdd (ix_clicks ix)
                  (clickKey (tenant_id attempt) (app_id attempt) (p_click_id (at_payload attempt))) attempt
           else ix_clicks ix)\<rparr>"

definition buildIndex :: "attempt list \<Rightarrow> candidate_index" where
  "buildIndex ordered = foldl addCandidate \<lparr>ix_records = [], ix_logicalScopes = [], ix_clicks = []\<rparr> ordered"

definition createIndexedCandidateProvider :: "attempt list \<Rightarrow> provider" where
  "createIndexedCandidateProvider ordered =
     (let ix = buildIndex ordered in \<lparr>
        pv_all = ordered,
        pv_byRecordId = (\<lambda>recordId. indexGet (ix_records ix) recordId),
        pv_byLogicalScope = (\<lambda>attempt. indexGet (ix_logicalScopes ix) (scopeKey attempt)),
        pv_clickCandidates = (\<lambda>tenantId appId clickId. indexGet (ix_clicks ix) (clickKey tenantId appId clickId))\<rparr>)"

lemma indexGet_indexAdd:
  "indexGet (indexAdd index k a) key = indexGet index key @ (if k = key then [a] else [])"
  by (simp add: indexGet_def indexAdd_def update_conv' orElse_def)

lemma indexGet_Nil [simp]: "indexGet [] k = []"
  by (simp add: indexGet_def)

text \<open>What the index holds after a list of attempts was added.\<close>

lemma buildIndex_lookup:
  "indexGet (ix_records (buildIndex xs)) r = filter (\<lambda>c. record_id c = r) xs"
  "indexGet (ix_logicalScopes (buildIndex xs)) k = filter (\<lambda>c. scopeKey c = k) xs"
  "indexGet (ix_clicks (buildIndex xs)) (clickKey t a c) = filter (isClickOf t a c) xs"
proof (induction xs rule: rev_induct)
  case Nil
  {
    case 1
    show ?case by (simp add: buildIndex_def)
  next
    case 2
    show ?case by (simp add: buildIndex_def)
  next
    case 3
    show ?case by (simp add: buildIndex_def)
  }
next
  case (snoc x xs)
  have step: "buildIndex (xs @ [x]) = addCandidate (buildIndex xs) x" by (simp add: buildIndex_def)
  {
    case 1
    show ?case using snoc(1) by (simp add: step addCandidate_def indexGet_indexAdd)
  next
    case 2
    show ?case using snoc(2) by (simp add: step addCandidate_def indexGet_indexAdd)
  next
    case 3
    show ?case using snoc(3) by (auto simp: step addCandidate_def indexGet_indexAdd isClickOf_def)
  }
qed

section \<open>The provider interface\<close>

text \<open>
  What the evaluator relies on: each query returns exactly the matching attempts, in
  processing order.
\<close>

locale candidate_provider =
  fixes mk :: "attempt list \<Rightarrow> provider"
  assumes all_mk: "pv_all (mk xs) = xs"
    and byRecordId_mk: "pv_byRecordId (mk xs) r = filter (\<lambda>c. record_id c = r) xs"
    and byLogicalScope_mk: "pv_byLogicalScope (mk xs) a = filter (\<lambda>c. scopeKey c = scopeKey a) xs"
    and clickCandidates_mk: "pv_clickCandidates (mk xs) t p c = filter (isClickOf t p c) xs"
begin

lemma determined: "mk xs = createFixtureCandidateProvider xs"
proof (rule provider.equality)
  show "pv_byRecordId (mk xs) = pv_byRecordId (createFixtureCandidateProvider xs)"
    by (rule ext) (simp add: byRecordId_mk createFixtureCandidateProvider_def)
  show "pv_byLogicalScope (mk xs) = pv_byLogicalScope (createFixtureCandidateProvider xs)"
    by (rule ext) (simp add: byLogicalScope_mk createFixtureCandidateProvider_def)
  show "pv_clickCandidates (mk xs) = pv_clickCandidates (createFixtureCandidateProvider xs)"
    by (intro ext) (simp add: clickCandidates_mk createFixtureCandidateProvider_def)
qed (simp_all add: all_mk createFixtureCandidateProvider_def)

lemma clickCandidates_scope:
  "c \<in> set (pv_clickCandidates (mk xs) t p i) \<Longrightarrow> tenant_id c = t \<and> app_id c = p \<and> c \<in> set xs"
  by (simp add: clickCandidates_mk isClickOf_def)

lemma byLogicalScope_self:
  "a \<in> set xs \<Longrightarrow> a \<in> set (pv_byLogicalScope (mk xs) a)"
  by (simp add: byLogicalScope_mk)

lemma byLogicalScope_hd:
  assumes "a \<in> set xs"
  shows "scopeKey (hd (pv_byLogicalScope (mk xs) a)) = scopeKey a" "hd (pv_byLogicalScope (mk xs) a) \<in> set xs"
proof -
  have "pv_byLogicalScope (mk xs) a \<noteq> []" using byLogicalScope_self[OF assms] by auto
  then have "hd (pv_byLogicalScope (mk xs) a) \<in> set (pv_byLogicalScope (mk xs) a)" by simp
  then show "scopeKey (hd (pv_byLogicalScope (mk xs) a)) = scopeKey a" "hd (pv_byLogicalScope (mk xs) a) \<in> set xs"
    by (simp_all add: byLogicalScope_mk)
qed

lemma byLogicalScope_cong: "scopeKey a = scopeKey b \<Longrightarrow> pv_byLogicalScope (mk xs) a = pv_byLogicalScope (mk xs) b"
  by (simp add: byLogicalScope_mk)

end

interpretation fixture: candidate_provider createFixtureCandidateProvider
  by unfold_locales (simp_all add: createFixtureCandidateProvider_def)

interpretation indexed: candidate_provider createIndexedCandidateProvider
  by unfold_locales (simp_all add: createIndexedCandidateProvider_def Let_def buildIndex_lookup)

end
