(* ===== verification/Decide.thy ===== *)
theory Decide
  imports Candidates
begin

text \<open>
  The decision on each delivery: consent at the processing sequence, the duplicate and
  collision classes, the rejection cascade, the fallback for malformed timestamps, the
  decisions of a whole run and their lookup.
\<close>

definition CONTRACT_VERSION :: string where
  "CONTRACT_VERSION = ''0.4.0''"

definition REFERENCE_RULE_VERSION :: string where
  "REFERENCE_RULE_VERSION = ''0.3.0''"

definition ZERO_HASH :: string where
  "ZERO_HASH = replicate 64 (CHR ''0'')"

definition DAY_MS :: int where
  "DAY_MS = 86400000"

text \<open>An optional string in a template literal.\<close>

definition showOpt :: "string option \<Rightarrow> string" where
  "showOpt v = orElse v ''undefined''"

section \<open>Consent\<close>

definition isControlEvent :: "event_record \<Rightarrow> bool" where
  "isControlEvent record =
     (r_event_name record = ''consent_changed'' \<or> r_event_name record = ''privacy_control'')"

definition findPurpose :: "attempt \<Rightarrow> processing_purpose option" where
  "findPurpose attempt =
     List.find (\<lambda>entry. Some (pp_processing_purpose_id entry) = r_processing_purpose_id (at_record attempt))
       (s_processing_purposes (at_server attempt))"

definition findWithdrawal :: "attempt \<Rightarrow> withdrawal option" where
  "findWithdrawal attempt =
     List.find (\<lambda>entry. Some (w_processing_purpose_id entry) = r_processing_purpose_id (at_record attempt))
       (s_withdrawals (at_server attempt))"

definition purposePolicyVersion :: "attempt \<Rightarrow> string" where
  "purposePolicyVersion attempt =
     (case findPurpose attempt of Some purpose \<Rightarrow> pp_policy_version purpose | None \<Rightarrow> ''not-applicable'')"

text \<open>\<^verbatim>\<open>!record.processing_purpose_id || !purpose?.consent_required || isControlEvent(record)\<close>\<close>

definition consentNotRequired :: "attempt \<Rightarrow> bool" where
  "consentNotRequired attempt =
     (\<not> truthy (r_processing_purpose_id (at_record attempt)) \<or>
      (case findPurpose attempt of None \<Rightarrow> True | Some purpose \<Rightarrow> \<not> pp_consent_required purpose) \<or>
      isControlEvent (at_record attempt))"

definition beforeWithdrawal :: "attempt \<Rightarrow> bool" where
  "beforeWithdrawal attempt =
     (case findWithdrawal attempt of
        None \<Rightarrow> True
      | Some withdrawal \<Rightarrow>
          r_processing_sequence (at_record attempt) < w_withdrawal_recognized_sequence withdrawal)"

definition legalBasisApplies :: "attempt \<Rightarrow> legal_basis \<Rightarrow> bool res" where
  "legalBasisApplies attempt entry =
     (if Some (lb_alternative_legal_basis_id entry) = r_alternative_legal_basis_id (at_record attempt) \<and>
         Some (lb_processing_purpose_id entry) = r_processing_purpose_id (at_record attempt)
      then bindR (time (Some (lb_effective_at entry)) ''effective_at'') (\<lambda>effective.
           bindR (time (Some (r_received_at (at_record attempt))) ''received_at'') (\<lambda>received.
             Inr (effective \<le> received)))
      else Inr False)"

definition consentBase :: "attempt \<Rightarrow> bool \<Rightarrow> consent_reason \<Rightarrow> consent" where
  "consentBase attempt allowed reason = \<lparr>
     k_processing_purpose_id = r_processing_purpose_id (at_record attempt),
     k_consent_evaluation_policy_version = purposePolicyVersion attempt,
     k_withdrawal_recognized_at = map_option w_withdrawal_recognized_at (findWithdrawal attempt),
     k_allowed = allowed,
     k_consent_decision_reason_code = reason,
     k_alternative_legal_basis_id = None,
     k_alternative_legal_basis_policy_version = None\<rparr>"

definition consentDecision :: "attempt \<Rightarrow> consent res" where
  "consentDecision attempt =
     (if consentNotRequired attempt then Inr (consentBase attempt True ConsentNotRequired)
      else if beforeWithdrawal attempt then Inr (consentBase attempt True ConsentValidBeforeWithdrawal)
      else bindR (findR (legalBasisApplies attempt) (s_alternative_legal_bases (at_server attempt))) (\<lambda>basis.
        case basis of
          Some configured \<Rightarrow>
            Inr ((consentBase attempt True DocumentedAlternativeLegalBasis)
              \<lparr>k_alternative_legal_basis_id := Some (lb_alternative_legal_basis_id configured),
               k_alternative_legal_basis_policy_version := Some (lb_policy_version configured)\<rparr>)
        | None \<Rightarrow> Inr (consentBase attempt False ConsentWithdrawn)))"

section \<open>Decisions that are not evaluated\<close>

definition timestampInvalidDecision :: "attempt \<Rightarrow> decision" where
  "timestampInvalidDecision attempt = \<lparr>
     d_record_id = record_id attempt,
     d_canonical_record_id = None,
     d_delivery_id = r_delivery_id (at_record attempt),
     d_event_name = Some (event_name attempt),
     d_tenant_id = tenant_id attempt,
     d_app_id = app_id attempt,
     d_received_at = None,
     d_ingestion_status = Rejected,
     d_duplicate_resolution = UniqueDelivery,
     d_timeliness = OnTime,
     d_clock_skew_suspected = False,
     d_payload_disposition = DiscardedPayload,
     d_processing_purpose_id = r_processing_purpose_id (at_record attempt),
     d_consent_evaluation_policy_version = purposePolicyVersion attempt,
     d_consent_decision_reason_code =
       (if consentNotRequired attempt then ConsentNotRequired
        else if beforeWithdrawal attempt then ConsentValidBeforeWithdrawal
        else ConsentWithdrawn),
     d_withdrawal_recognized_at = keepTruthy (map_option w_withdrawal_recognized_at (findWithdrawal attempt)),
     d_alternative_legal_basis_id = None,
     d_alternative_legal_basis_policy_version = None,
     d_staleness_policy_version = None,
     d_staleness_policy_digest = None,
     d_staleness_authority = None,
     d_reason_code = Some TimestampInvalidReject\<rparr>"

definition preIngestionDecision :: "pre_ingestion_rejection \<Rightarrow> decision" where
  "preIngestionDecision item = \<lparr>
     d_record_id = pi_record_id item,
     d_canonical_record_id = None,
     d_delivery_id = pi_delivery_id item,
     d_event_name = None,
     d_tenant_id = pi_tenant_id item,
     d_app_id = pi_app_id item,
     d_received_at = Some (pi_received_at item),
     d_ingestion_status = Rejected,
     d_duplicate_resolution = UniqueDelivery,
     d_timeliness = OnTime,
     d_clock_skew_suspected = False,
     d_payload_disposition = DiscardedPayload,
     d_processing_purpose_id = pi_processing_purpose_id item,
     d_consent_evaluation_policy_version = pi_consent_evaluation_policy_version item,
     d_consent_decision_reason_code = pi_consent_decision_reason_code item,
     d_withdrawal_recognized_at = None,
     d_alternative_legal_basis_id = None,
     d_alternative_legal_basis_policy_version = None,
     d_staleness_policy_version = None,
     d_staleness_policy_digest = None,
     d_staleness_authority = None,
     d_reason_code = Some (pi_reason_code item)\<rparr>"

section \<open>The decision on an attempt\<close>

definition assertStalePolicy :: "digest \<Rightarrow> server_context \<Rightarrow> unit res" where
  "assertStalePolicy H server =
     (case s_timestamp_stale_policy server of
        None \<Rightarrow> Inr ()
      | Some policy \<Rightarrow>
          throwIf (sp_policy_digest policy \<noteq>
              H (HStalePolicy (sp_before policy) (sp_authority policy) (sp_policy_version policy)))
            (JsError ''timestamp_stale_policy.policy_digest does not match its canonical policy fields''))"

definition assertServerClickPolicy :: "digest \<Rightarrow> server_context \<Rightarrow> unit res" where
  "assertServerClickPolicy H server =
     (case s_click_injection_policy server of
        None \<Rightarrow> Inr ()
      | Some policy \<Rightarrow> assertClickInjectionPolicy H policy)"

definition resolveDuplicate :: "digest \<Rightarrow> attempt \<Rightarrow> attempt list \<Rightarrow> attempt list \<Rightarrow> duplicate_resolution res" where
  "resolveDuplicate H attempt sameRecordId sameKey =
     (if 1 < length sameRecordId then Inr RecordIdCollision
      else case sameKey of
             [] \<Rightarrow> Inl TypeError
           | first # _ \<Rightarrow>
               Inr (if attemptDecisionKey H first = attemptDecisionKey H attempt then UniqueDelivery
                    else if H (HPayload (at_payload first)) = H (HPayload (at_payload attempt)) then DuplicateDelivery
                    else EventIdConflict))"

definition staleAttempt :: "attempt \<Rightarrow> bool res" where
  "staleAttempt attempt =
     (case s_timestamp_stale_policy (at_server attempt) of
        None \<Rightarrow> Inr False
      | Some policy \<Rightarrow>
          bindR (time (Some (r_occurred_at (at_record attempt))) ''occurred_at'') (\<lambda>occurred.
          bindR (time (Some (sp_before policy)) ''timestamp_stale_policy.before'') (\<lambda>staleBefore.
            Inr (occurred < staleBefore))))"

definition rejectReason :: "attempt \<Rightarrow> duplicate_resolution \<Rightarrow> consent \<Rightarrow> reject_reason option res" where
  "rejectReason attempt duplicate consent =
     (let record = at_record attempt in
      if r_tenant_id record \<noteq> tenant_id attempt \<or> r_app_id record \<noteq> app_id attempt then Inr (Some ClientScopeMismatch)
      else if duplicate = RecordIdCollision then Inr (Some RecordIdCollisionReject)
      else if \<not> k_allowed consent then Inr (Some ConsentWithdrawnReject)
      else bindR (staleAttempt attempt) (\<lambda>stale.
        Inr (if stale then Some TimestampStale
             else if r_subject_scope record = Some ''aggregate'' \<and> truthy (p_installation_id (r_payload record))
             then Some AggregateInstallationJoinForbidden
             else if duplicate = EventIdConflict then Some EventIdConflictReject
             else None)))"

definition canonicalRecordId :: "attempt \<Rightarrow> duplicate_resolution \<Rightarrow> attempt list \<Rightarrow> string option" where
  "canonicalRecordId attempt duplicate sameKey =
     keepTruthy (case duplicate of
        RecordIdCollision \<Rightarrow> None
      | UniqueDelivery \<Rightarrow> Some (record_id attempt)
      | _ \<Rightarrow> (case sameKey of [] \<Rightarrow> None | first # _ \<Rightarrow> Some (record_id first)))"

definition clockSkew :: "attempt \<Rightarrow> bool res" where
  "clockSkew attempt =
     bindR (time (Some (r_occurred_at (at_record attempt))) ''occurred_at'') (\<lambda>occurred.
     bindR (time (Some (r_received_at (at_record attempt))) ''received_at'') (\<lambda>received.
       Inr (received + 300000 < occurred)))"

definition makeDecision ::
  "attempt \<Rightarrow> attempt list \<Rightarrow> duplicate_resolution \<Rightarrow> consent \<Rightarrow> reject_reason option \<Rightarrow> bool \<Rightarrow> decision" where
  "makeDecision attempt sameKey duplicate consent reason skew =
     (let stale = (if reason = Some TimestampStale then s_timestamp_stale_policy (at_server attempt) else None) in \<lparr>
        d_record_id = record_id attempt,
        d_canonical_record_id = canonicalRecordId attempt duplicate sameKey,
        d_delivery_id = r_delivery_id (at_record attempt),
        d_event_name = Some (event_name attempt),
        d_tenant_id = tenant_id attempt,
        d_app_id = app_id attempt,
        d_received_at = None,
        d_ingestion_status = (if reason = None then Accepted else Rejected),
        d_duplicate_resolution = duplicate,
        d_timeliness = (if r_late (at_record attempt) = Some True then Late else OnTime),
        d_clock_skew_suspected = skew,
        d_payload_disposition =
          (if reason \<noteq> None \<and> reason \<noteq> Some EventIdConflictReject then DiscardedPayload else ProtectedPayload),
        d_processing_purpose_id = k_processing_purpose_id consent,
        d_consent_evaluation_policy_version = k_consent_evaluation_policy_version consent,
        d_consent_decision_reason_code = k_consent_decision_reason_code consent,
        d_withdrawal_recognized_at = k_withdrawal_recognized_at consent,
        d_alternative_legal_basis_id = k_alternative_legal_basis_id consent,
        d_alternative_legal_basis_policy_version = k_alternative_legal_basis_policy_version consent,
        d_staleness_policy_version = map_option sp_policy_version stale,
        d_staleness_policy_digest = map_option sp_policy_digest stale,
        d_staleness_authority = map_option sp_authority stale,
        d_reason_code = reason\<rparr>)"

definition decide :: "digest \<Rightarrow> provider \<Rightarrow> attempt \<Rightarrow> decision res" where
  "decide H candidates attempt =
     bindR (assertStalePolicy H (at_server attempt)) (\<lambda>_.
     bindR (assertServerClickPolicy H (at_server attempt)) (\<lambda>_.
       let sameRecordId = pv_byRecordId candidates (record_id attempt);
           sameKey = pv_byLogicalScope candidates attempt in
       bindR (resolveDuplicate H attempt sameRecordId sameKey) (\<lambda>duplicate.
       bindR (consentDecision attempt) (\<lambda>consent.
       bindR (rejectReason attempt duplicate consent) (\<lambda>reason.
       bindR (clockSkew attempt) (\<lambda>skew.
         Inr (makeDecision attempt sameKey duplicate consent reason skew)))))))"

text \<open>A malformed timestamp rejects the delivery; every other error ends the evaluation.\<close>

definition decideCatching :: "digest \<Rightarrow> provider \<Rightarrow> attempt \<Rightarrow> decision res" where
  "decideCatching H candidates attempt =
     (case decide H candidates attempt of
        Inl (TimestampInvalid field value) \<Rightarrow> Inr (timestampInvalidDecision attempt)
      | r \<Rightarrow> r)"

section \<open>The decisions of a run\<close>

type_synonym decisions = "(string \<times> decision) list"

definition decisionMap :: "digest \<Rightarrow> attempt list \<Rightarrow> decision list \<Rightarrow> decisions" where
  "decisionMap H all ds = mapFromPairs (zip (map (attemptDecisionKey H) all) ds)"

definition decisionFor :: "digest \<Rightarrow> decisions \<Rightarrow> attempt \<Rightarrow> decision res" where
  "decisionFor H decisions attempt =
     (case map_of decisions (attemptDecisionKey H attempt) of
        None \<Rightarrow> Inl (JsError (''missing decision: '' @ r_delivery_id (at_record attempt)))
      | Some d \<Rightarrow> Inr d)"

definition acceptedUniqueDecision :: "decision \<Rightarrow> bool" where
  "acceptedUniqueDecision d = (d_ingestion_status d = Accepted \<and> d_duplicate_resolution d = UniqueDelivery)"

text \<open>
  \<^verbatim>\<open>decisionFor(...).ingestion_status === "accepted" && decisionFor(...).duplicate_resolution
  === "unique"\<close>; the second lookup is evaluated only after the first test.
\<close>

definition isAcceptedUnique :: "digest \<Rightarrow> decisions \<Rightarrow> attempt \<Rightarrow> bool res" where
  "isAcceptedUnique H decisions attempt =
     bindR (decisionFor H decisions attempt) (\<lambda>d.
       if d_ingestion_status d \<noteq> Accepted then Inr False
       else bindR (decisionFor H decisions attempt) (\<lambda>d'. Inr (d_duplicate_resolution d' = UniqueDelivery)))"

end
