(* ===== verification/Decisions.thy ===== *)
theory Decisions
  imports Decide
begin

text \<open>
  Facts about decisions: when consent allows processing, what an accepted delivery
  satisfies, that every attempt of a run has its decision, and that a run accepts at most
  one delivery of a record identity and of a logical event. The lemmas about a run are
  proved once for every candidate provider, inside the locale of the interface.
\<close>

section \<open>Consent\<close>

lemma legalBasisApplies_True:
  "legalBasisApplies a b = Inr True \<longleftrightarrow>
     Some (lb_alternative_legal_basis_id b) = r_alternative_legal_basis_id (at_record a) \<and>
     Some (lb_processing_purpose_id b) = r_processing_purpose_id (at_record a) \<and>
     (\<exists>e r. time (Some (lb_effective_at b)) ''effective_at'' = Inr e \<and>
            time (Some (r_received_at (at_record a))) ''received_at'' = Inr r \<and> e \<le> r)"
  by (auto simp: legalBasisApplies_def res_simps)

lemma consentDecision_cases:
  assumes "consentDecision a = Inr k"
  obtains "consentNotRequired a" "k = consentBase a True ConsentNotRequired"
  | "\<not> consentNotRequired a" "beforeWithdrawal a" "k = consentBase a True ConsentValidBeforeWithdrawal"
  | b where "\<not> consentNotRequired a" "\<not> beforeWithdrawal a"
      "b \<in> set (s_alternative_legal_bases (at_server a))" "legalBasisApplies a b = Inr True"
      "k = (consentBase a True DocumentedAlternativeLegalBasis)
         \<lparr>k_alternative_legal_basis_id := Some (lb_alternative_legal_basis_id b),
          k_alternative_legal_basis_policy_version := Some (lb_policy_version b)\<rparr>"
  | "\<not> consentNotRequired a" "\<not> beforeWithdrawal a"
      "\<And>b. b \<in> set (s_alternative_legal_bases (at_server a)) \<Longrightarrow> legalBasisApplies a b = Inr False"
      "k = consentBase a False ConsentWithdrawn"
proof (cases "consentNotRequired a \<or> beforeWithdrawal a")
  case True
  then show ?thesis using assms that(1,2) by (auto simp: consentDecision_def split: if_splits)
next
  case False
  then obtain basis where basis: "findR (legalBasisApplies a) (s_alternative_legal_bases (at_server a)) = Inr basis"
    using assms by (auto simp: consentDecision_def res_simps)
  show ?thesis
  proof (cases basis)
    case None
    then have "legalBasisApplies a b = Inr False" if "b \<in> set (s_alternative_legal_bases (at_server a))" for b
      using basis that by (auto intro: findR_None)
    then show ?thesis using basis assms False None that(4) by (simp add: consentDecision_def)
  next
    case (Some b)
    then show ?thesis using basis assms False findR_Some[of _ _ b] that(3)[of b] by (auto simp: consentDecision_def)
  qed
qed

lemma consent_allowed_iff:
  "consentDecision a = Inr k \<Longrightarrow> k_allowed k \<longleftrightarrow> k_consent_decision_reason_code k \<noteq> ConsentWithdrawn"
  by (erule consentDecision_cases) (simp_all add: consentBase_def)

section \<open>A single decision\<close>

lemma decide_Inr_iff:
  "decide H pv a = Inr d \<longleftrightarrow>
     (\<exists>duplicate consent reason skew.
        assertStalePolicy H (at_server a) = Inr () \<and> assertServerClickPolicy H (at_server a) = Inr () \<and>
        resolveDuplicate H a (pv_byRecordId pv (record_id a)) (pv_byLogicalScope pv a) = Inr duplicate \<and>
        consentDecision a = Inr consent \<and> rejectReason a duplicate consent = Inr reason \<and>
        clockSkew a = Inr skew \<and> d = makeDecision a (pv_byLogicalScope pv a) duplicate consent reason skew)"
  by (auto simp: decide_def res_simps Let_def)

lemma makeDecision_simps [simp]:
  "d_record_id (makeDecision a sk dup k reason skew) = record_id a"
  "d_canonical_record_id (makeDecision a sk dup k reason skew) = canonicalRecordId a dup sk"
  "d_delivery_id (makeDecision a sk dup k reason skew) = r_delivery_id (at_record a)"
  "d_tenant_id (makeDecision a sk dup k reason skew) = tenant_id a"
  "d_app_id (makeDecision a sk dup k reason skew) = app_id a"
  "d_ingestion_status (makeDecision a sk dup k reason skew) = (if reason = None then Accepted else Rejected)"
  "d_duplicate_resolution (makeDecision a sk dup k reason skew) = dup"
  "d_payload_disposition (makeDecision a sk dup k reason skew) =
     (if reason \<noteq> None \<and> reason \<noteq> Some EventIdConflictReject then DiscardedPayload else ProtectedPayload)"
  "d_clock_skew_suspected (makeDecision a sk dup k reason skew) = skew"
  "d_consent_decision_reason_code (makeDecision a sk dup k reason skew) = k_consent_decision_reason_code k"
  "d_reason_code (makeDecision a sk dup k reason skew) = reason"
  by (simp_all add: makeDecision_def Let_def)

lemma decide_identity:
  assumes "decide H pv a = Inr d"
  shows "d_record_id d = record_id a" "d_delivery_id d = r_delivery_id (at_record a)"
    "d_tenant_id d = tenant_id a" "d_app_id d = app_id a"
    "d_ingestion_status d = Rejected \<longleftrightarrow> d_reason_code d \<noteq> None"
  using assms by (auto simp: decide_Inr_iff split: if_splits)

lemma timestampInvalidDecision_simps [simp]:
  "d_ingestion_status (timestampInvalidDecision a) = Rejected"
  "d_reason_code (timestampInvalidDecision a) = Some TimestampInvalidReject"
  "d_record_id (timestampInvalidDecision a) = record_id a"
  "d_delivery_id (timestampInvalidDecision a) = r_delivery_id (at_record a)"
  "d_tenant_id (timestampInvalidDecision a) = tenant_id a"
  "d_app_id (timestampInvalidDecision a) = app_id a"
  by (simp_all add: timestampInvalidDecision_def)

lemma decideCatching_Inr:
  "decideCatching H pv a = Inr d \<longleftrightarrow>
     decide H pv a = Inr d \<or> (\<exists>f v. decide H pv a = Inl (TimestampInvalid f v)) \<and> d = timestampInvalidDecision a"
  by (auto simp: decideCatching_def split: sum.splits js_error.splits)

lemma decideCatching_identity:
  assumes "decideCatching H pv a = Inr d"
  shows "d_record_id d = record_id a" "d_delivery_id d = r_delivery_id (at_record a)"
    "d_tenant_id d = tenant_id a" "d_app_id d = app_id a"
    "d_ingestion_status d = Rejected \<longleftrightarrow> d_reason_code d \<noteq> None"
  using assms decide_identity[of H pv a d] by (auto simp: decideCatching_Inr)

text \<open>What an accepted delivery satisfies.\<close>

lemma decide_accepted:
  assumes "decide H pv a = Inr d" "d_ingestion_status d = Accepted"
  shows "r_tenant_id (at_record a) = tenant_id a" "r_app_id (at_record a) = app_id a"
    "length (pv_byRecordId pv (record_id a)) \<le> 1"
    "\<exists>k. consentDecision a = Inr k \<and> k_allowed k"
    "\<not> (r_subject_scope (at_record a) = Some ''aggregate'' \<and> truthy (p_installation_id (at_payload a)))"
    "d_duplicate_resolution d \<in> {UniqueDelivery, DuplicateDelivery}"
    "staleAttempt a = Inr False"
    "\<exists>t. time (Some (r_occurred_at (at_record a))) ''occurred_at'' = Inr t"
    "\<exists>t. time (Some (r_received_at (at_record a))) ''received_at'' = Inr t"
proof -
  obtain dup k reason skew where parts:
    "resolveDuplicate H a (pv_byRecordId pv (record_id a)) (pv_byLogicalScope pv a) = Inr dup"
    "consentDecision a = Inr k" "rejectReason a dup k = Inr reason" "clockSkew a = Inr skew"
    "d = makeDecision a (pv_byLogicalScope pv a) dup k reason skew"
    using assms(1) by (auto simp: decide_Inr_iff)
  then have "reason = None" using assms(2) by (auto split: if_splits)
  then have none: "rejectReason a dup k = Inr None" using parts(3) by simp
  then show "r_tenant_id (at_record a) = tenant_id a" "r_app_id (at_record a) = app_id a"
    "\<not> (r_subject_scope (at_record a) = Some ''aggregate'' \<and> truthy (p_installation_id (at_payload a)))"
    "staleAttempt a = Inr False"
    by (auto simp: rejectReason_def Let_def res_simps split: if_splits)
  have "dup \<noteq> RecordIdCollision" "k_allowed k" "dup \<noteq> EventIdConflict"
    using none by (auto simp: rejectReason_def Let_def res_simps split: if_splits)
  moreover have "d_duplicate_resolution d = dup" using parts(5) by simp
  ultimately show "length (pv_byRecordId pv (record_id a)) \<le> 1" "\<exists>k. consentDecision a = Inr k \<and> k_allowed k"
    "d_duplicate_resolution d \<in> {UniqueDelivery, DuplicateDelivery}"
    using parts(1,2) by (auto simp: resolveDuplicate_def split: if_splits) (cases dup; simp)
  show "\<exists>t. time (Some (r_occurred_at (at_record a))) ''occurred_at'' = Inr t"
    "\<exists>t. time (Some (r_received_at (at_record a))) ''received_at'' = Inr t"
    using parts(4) by (auto simp: clockSkew_def res_simps)
qed

lemma decide_unique_first:
  assumes "decide H pv a = Inr d" "d_duplicate_resolution d = UniqueDelivery"
  obtains f rest where "pv_byLogicalScope pv a = f # rest" "attemptDecisionKey H f = attemptDecisionKey H a"
  using assms
  by (auto simp: decide_Inr_iff resolveDuplicate_def split: if_splits list.splits)

text \<open>The attempts a run accepts as unique, by their own decision.\<close>

definition accepts :: "digest \<Rightarrow> provider \<Rightarrow> attempt \<Rightarrow> bool" where
  "accepts H pv a = (case decide H pv a of Inr d \<Rightarrow> acceptedUniqueDecision d | Inl e \<Rightarrow> False)"

lemma acceptsE:
  assumes "accepts H pv a"
  obtains d where "decide H pv a = Inr d" "d_ingestion_status d = Accepted" "d_duplicate_resolution d = UniqueDelivery"
  using assms by (auto simp: accepts_def acceptedUniqueDecision_def split: sum.splits)

section \<open>The decisions of a run\<close>

lemma decisionMap_lookup:
  assumes ds: "mapR (decideCatching H pv) all = Inr ds" and a: "a \<in> set all"
  obtains d b where "map_of (decisionMap H all ds) (attemptDecisionKey H a) = Some d" "b \<in> set all"
    "attemptDecisionKey H b = attemptDecisionKey H a" "decideCatching H pv b = Inr d"
proof -
  have len: "length ds = length all" by (rule mapR_Inr_length[OF ds])
  let ?ps = "zip (map (attemptDecisionKey H) all) ds"
  have "attemptDecisionKey H a \<in> fst ` set (rev ?ps)"
    using a len by (metis (no_types, lifting) image_eqI length_map list.set_map map_fst_zip set_rev)
  then obtain d where d: "map_of (rev ?ps) (attemptDecisionKey H a) = Some d"
    by (metis map_of_eq_None_iff not_Some_eq)
  then have "(attemptDecisionKey H a, d) \<in> set ?ps" by (metis map_of_SomeD set_rev)
  then obtain i where i: "i < length all" "attemptDecisionKey H (all ! i) = attemptDecisionKey H a" "ds ! i = d"
    using len by (auto simp: in_set_zip)
  then have "decideCatching H pv (all ! i) = Inr d" using mapR_Inr_nth[OF ds] by auto
  with d i show ?thesis using that[of d "all ! i"] by (simp add: decisionMap_def map_of_mapFromPairs)
qed

context candidate_provider
begin

lemma accepts_single: "accepts H (mk xs) a \<Longrightarrow> length (filter (\<lambda>c. record_id c = record_id a) xs) \<le> 1"
  by (erule acceptsE) (use decide_accepted(3) byRecordId_mk in fastforce)

lemma accepts_distinct_records: "distinct (map record_id (filter (accepts H (mk xs)) xs))"
proof (rule distinct_map_if_single)
  fix y assume "y \<in> set (filter (accepts H (mk xs)) xs)"
  then have "length (filter (\<lambda>c. record_id c = record_id y) xs) \<le> 1" using accepts_single[of H xs y] by simp
  then show "length (filter (\<lambda>c. record_id c = record_id y) (filter (accepts H (mk xs)) xs)) \<le> 1"
    using filter_filter_length_le le_trans by blast
qed

lemma accepts_same_scope:
  assumes "accepts H (mk xs) a" "accepts H (mk xs) b" "scopeKey a = scopeKey b"
  shows "record_id a = record_id b"
proof -
  have "pv_byLogicalScope (mk xs) a = pv_byLogicalScope (mk xs) b" by (rule byLogicalScope_cong[OF assms(3)])
  then have "attemptDecisionKey H a = attemptDecisionKey H b"
    using assms(1,2) by (metis acceptsE decide_unique_first list.inject)
  then show ?thesis by (blast dest: attemptDecisionKey_record)
qed

lemma accepts_distinct_scopes: "distinct (map scopeKey (filter (accepts H (mk xs)) xs))"
  by (rule distinct_map_finer[OF accepts_distinct_records]) (auto intro: accepts_same_scope)

text \<open>
  The decision found for an attempt is accepted and unique exactly when its own is: a
  delivery that shares its key with another shares its record identity too, and both are
  rejected.
\<close>

lemma isAcceptedUnique_accepts:
  assumes ds: "mapR (decideCatching H (mk all)) all = Inr ds" and a: "a \<in> set all"
  shows "isAcceptedUnique H (decisionMap H all ds) a = Inr (accepts H (mk all) a)"
proof -
  obtain d b where d: "map_of (decisionMap H all ds) (attemptDecisionKey H a) = Some d" and b: "b \<in> set all"
    and key: "attemptDecisionKey H b = attemptDecisionKey H a" and db: "decideCatching H (mk all) b = Inr d"
    by (rule decisionMap_lookup[OF ds a])
  have rec: "record_id b = record_id a" using attemptDecisionKey_record[OF key] by simp
  have eq: "b = a" if "accepts H (mk all) a \<or> accepts H (mk all) b"
    using that accepts_single[of H all a] accepts_single[of H all b] rec a b
      single_filter_eq[of "\<lambda>c. record_id c = record_id a" all b a] by auto
  have own: "acceptedUniqueDecision d \<longleftrightarrow> accepts H (mk all) b"
    using db by (auto simp: decideCatching_Inr accepts_def acceptedUniqueDecision_def split: sum.splits)
  then have "acceptedUniqueDecision d \<longleftrightarrow> accepts H (mk all) a" using eq by blast
  then show ?thesis using d by (auto simp: isAcceptedUnique_def decisionFor_def acceptedUniqueDecision_def)
qed

lemma filter_isAcceptedUnique:
  assumes "mapR (decideCatching H (mk all)) all = Inr ds"
  shows "filterR (isAcceptedUnique H (decisionMap H all ds)) all = Inr (filter (accepts H (mk all)) all)"
  by (rule filterR_all_Inr) (rule isAcceptedUnique_accepts[OF assms])

end

lemma decisionFor_total:
  assumes "mapR (decideCatching H pv) all = Inr ds" "a \<in> set all"
  obtains d b where "decisionFor H (decisionMap H all ds) a = Inr d" "b \<in> set all"
    "attemptDecisionKey H b = attemptDecisionKey H a" "decideCatching H pv b = Inr d"
  by (rule decisionMap_lookup[OF assms]) (use that in \<open>auto simp: decisionFor_def\<close>)

end
