(* ===== verification/References.thy ===== *)
theory References
  imports Decisions
begin

text \<open>
  The consistency checks of a run before anything is produced: installation anchors, and
  references of privacy requests, corrections, retention expirations and refunds, which must
  resolve inside their own tenant and app. The privacy index says which evidence is redacted
  or purged.
\<close>

section \<open>Installation anchors\<close>

definition installationKey :: "attempt \<Rightarrow> string" where
  "installationKey attempt =
     evidenceKey (tenant_id attempt) (app_id attempt) (p_installation_id (at_payload attempt))"

definition checkAnchor :: "attempt list \<Rightarrow> string list \<Rightarrow> attempt \<Rightarrow> string list res" where
  "checkAnchor acceptedInstalls anchors attempt =
     (let payload = at_payload attempt; key = installationKey attempt in
      bindR (throwIf (key \<in> set anchors)
               (JsError (''ambiguous installation anchor: '' @ showOpt (p_installation_id payload)))) (\<lambda>_.
      bindR
        (if p_install_type payload = Some ''reinstall'' \<or> p_install_type payload = Some ''redownload''
         then bindR (throwIf (\<not> truthy (p_prior_installation_id payload) \<or>
                              p_prior_installation_id payload = p_installation_id payload)
                       (JsError (''invalid reinstall installation anchor: '' @ record_id attempt))) (\<lambda>_.
                let prior = evidenceKey (tenant_id attempt) (app_id attempt) (p_prior_installation_id payload)
                in throwIf (\<not> (\<exists>candidate \<in> set acceptedInstalls. installationKey candidate = prior))
                     (JsError (''missing prior installation anchor: '' @ record_id attempt)))
         else throwIf (truthy (p_prior_installation_id payload))
                (JsError (''first install must not name a prior installation: '' @ record_id attempt)))
        (\<lambda>_. Inr (key # anchors))))"

definition assertInstallationAnchors :: "digest \<Rightarrow> attempt list \<Rightarrow> decisions \<Rightarrow> unit res" where
  "assertInstallationAnchors H all decisions =
     bindR (filterR (\<lambda>entry. andR (Inr (event_name entry = ''install'')) (isAcceptedUnique H decisions entry)) all)
       (\<lambda>acceptedInstalls.
          bindR (foldR (checkAnchor acceptedInstalls) [] acceptedInstalls) (\<lambda>_. Inr ()))"

section \<open>Scoped references\<close>

definition attemptAt :: "string \<Rightarrow> string \<Rightarrow> string option \<Rightarrow> attempt \<Rightarrow> bool" where
  "attemptAt tenantId appId recordId attempt =
     (tenant_id attempt = tenantId \<and> app_id attempt = appId \<and> Some (record_id attempt) = recordId)"

definition existsAt :: "attempt list \<Rightarrow> string \<Rightarrow> string \<Rightarrow> string option \<Rightarrow> bool" where
  "existsAt all tenantId appId recordId = (\<exists>attempt \<in> set all. attemptAt tenantId appId recordId attempt)"

definition assertAffected :: "attempt list \<Rightarrow> privacy_request \<Rightarrow> affected_record \<Rightarrow> unit res" where
  "assertAffected all request affected =
     (case List.find (attemptAt (pr_tenant_id request) (pr_app_id request) (Some (af_record_id affected))) all of
        None \<Rightarrow> Inl (JsError (''cross-scope or missing privacy reference: '' @
                  pr_privacy_request_id request @ ''/'' @ af_record_id affected))
      | Some target \<Rightarrow>
          throwIf (pr_requested_via request = ''on_device_sdk'' \<and>
                   p_installation_id (at_payload target) \<noteq> pr_deletion_subject_ref request)
            (JsError (''on-device privacy request targets another installation: '' @
               pr_privacy_request_id request @ ''/'' @ af_record_id affected)))"

definition assertScopedReferences :: "evaluation_input \<Rightarrow> attempt list \<Rightarrow> unit res" where
  "assertScopedReferences input all =
     bindR (forR (\<lambda>request. forR (assertAffected all request) (pr_affected_records request))
              (in_privacy_requests input)) (\<lambda>_.
     bindR (forR (\<lambda>correction.
              throwIf (\<not> existsAt all (co_tenant_id correction) (co_app_id correction) (co_corrects_record_id correction))
                (JsError (''cross-scope or missing correction reference: '' @ co_correction_id correction)))
              (in_correction_inputs input)) (\<lambda>_.
     bindR (forR (\<lambda>expiration.
              throwIf (\<not> existsAt all (re_tenant_id expiration) (re_app_id expiration) (Some (re_record_id expiration)))
                (JsError (''cross-scope or missing retention reference: '' @ re_record_id expiration)))
              (in_retention_expirations input)) (\<lambda>_.
       forR (\<lambda>attempt.
              throwIf (\<not> existsAt all (tenant_id attempt) (app_id attempt)
                        (p_correction_target_record_id (at_payload attempt)))
                (JsError (''cross-scope or missing refund target: '' @ record_id attempt)))
            (filter (\<lambda>entry. event_name entry = ''refund'') all))))"

section \<open>The privacy index\<close>

type_synonym lifecycle_index = "(string \<times> lifecycle_status) list"

definition requestEntries :: "privacy_request \<Rightarrow> (string \<times> lifecycle_status) list" where
  "requestEntries request =
     (if pr_status request \<noteq> ''completed'' then []
      else map (\<lambda>affected.
        (evidenceKey (pr_tenant_id request) (pr_app_id request) (Some (af_record_id affected)),
         af_lifecycle_status affected)) (pr_affected_records request))"

definition expirationEntry :: "retention_expiration \<Rightarrow> string \<times> lifecycle_status" where
  "expirationEntry expiration =
     (evidenceKey (re_tenant_id expiration) (re_app_id expiration) (Some (re_record_id expiration)), Purged)"

definition privacyIndex :: "evaluation_input \<Rightarrow> lifecycle_index" where
  "privacyIndex input =
     mapFromPairs (concat (map requestEntries (in_privacy_requests input)) @
       map expirationEntry (in_retention_expirations input))"

definition hidden :: "lifecycle_index \<Rightarrow> attempt \<Rightarrow> bool" where
  "hidden lifecycle attempt = (map_of lifecycle (attemptEvidenceKey attempt) \<noteq> None)"

definition lifecycleOf :: "lifecycle_index \<Rightarrow> string \<Rightarrow> lifecycle_status" where
  "lifecycleOf lifecycle key = orElse (map_of lifecycle key) Available"

section \<open>What a passed check guarantees\<close>

lemma checkAnchor_Inr:
  "checkAnchor installs anchors a = Inr anchors' \<longleftrightarrow>
     installationKey a \<notin> set anchors \<and> anchors' = installationKey a # anchors \<and>
     (if p_install_type (at_payload a) \<in> {Some ''reinstall'', Some ''redownload''}
      then truthy (p_prior_installation_id (at_payload a)) \<and>
           p_prior_installation_id (at_payload a) \<noteq> p_installation_id (at_payload a) \<and>
           (\<exists>c \<in> set installs. sameScope c a \<and>
              p_installation_id (at_payload c) = p_prior_installation_id (at_payload a))
      else \<not> truthy (p_prior_installation_id (at_payload a)))"
  by (auto simp: checkAnchor_def Let_def res_simps installationKey_def sameScope_def)

lemma fold_checkAnchor_Inr:
  assumes "foldR (checkAnchor installs) anchors xs = Inr anchors'"
  shows "distinct (map installationKey xs) \<and> set anchors \<inter> set (map installationKey xs) = {} \<and>
    (\<forall>a \<in> set xs. \<exists>as. checkAnchor installs as a = Inr (installationKey a # as))"
  using assms
proof (induction xs arbitrary: anchors)
  case Nil
  then show ?case by simp
next
  case (Cons a xs)
  then obtain as where as: "checkAnchor installs anchors a = Inr as" "foldR (checkAnchor installs) as xs = Inr anchors'"
    by (auto simp: res_simps)
  have "as = installationKey a # anchors" "installationKey a \<notin> set anchors" using as(1) by (simp_all add: checkAnchor_Inr)
  then show ?case using Cons.IH[OF as(2)] as(1) by auto
qed

lemma assertAffected_Inr:
  assumes "assertAffected all request affected = Inr ()"
  shows "\<exists>a \<in> set all. tenant_id a = pr_tenant_id request \<and> app_id a = pr_app_id request \<and>
    record_id a = af_record_id affected \<and>
    (pr_requested_via request = ''on_device_sdk'' \<longrightarrow>
       p_installation_id (at_payload a) = pr_deletion_subject_ref request)"
proof -
  obtain a where "List.find (attemptAt (pr_tenant_id request) (pr_app_id request) (Some (af_record_id affected))) all = Some a"
    "\<not> (pr_requested_via request = ''on_device_sdk'' \<and> p_installation_id (at_payload a) \<noteq> pr_deletion_subject_ref request)"
    using assms by (auto simp: assertAffected_def res_simps split: option.splits)
  then show ?thesis using find_Some_iff_set by (fastforce simp: attemptAt_def)
qed

lemma requestEntries_keys:
  "key \<in> fst ` set (requestEntries q) \<longleftrightarrow> pr_status q = ''completed'' \<and>
     (\<exists>af \<in> set (pr_affected_records q). key = evidenceKey (pr_tenant_id q) (pr_app_id q) (Some (af_record_id af)))"
  by (auto simp: requestEntries_def image_image simp del: evidenceKey_eq_iff)

lemma privacyIndex_lookup:
  "map_of (privacyIndex input) key \<noteq> None \<longleftrightarrow>
     (\<exists>q \<in> set (in_privacy_requests input). key \<in> fst ` set (requestEntries q)) \<or>
     (\<exists>e \<in> set (in_retention_expirations input). key = fst (expirationEntry e))"
proof -
  have "map_of (privacyIndex input) key \<noteq> None \<longleftrightarrow>
      key \<in> fst ` set (concat (map requestEntries (in_privacy_requests input)) @
        map expirationEntry (in_retention_expirations input))"
    unfolding privacyIndex_def map_of_mapFromPairs map_of_eq_None_iff set_rev by simp
  also have "\<dots> \<longleftrightarrow> (\<exists>q \<in> set (in_privacy_requests input). key \<in> fst ` set (requestEntries q)) \<or>
      (\<exists>e \<in> set (in_retention_expirations input). key = fst (expirationEntry e))"
    by auto
  finally show ?thesis .
qed

lemma privacyIndex_expired:
  assumes "e \<in> set (in_retention_expirations input)"
  shows "map_of (privacyIndex input) (fst (expirationEntry e)) = Some Purged"
proof -
  let ?expired = "map expirationEntry (in_retention_expirations input)"
  have "expirationEntry e \<in> set (rev ?expired)" using assms by auto
  then obtain v where v: "map_of (rev ?expired) (fst (expirationEntry e)) = Some v"
    by (metis prod.collapse weak_map_of_SomeI)
  then have "(fst (expirationEntry e), v) \<in> set ?expired" by (metis map_of_SomeD set_rev)
  then have "v = Purged" by (auto simp: expirationEntry_def)
  with v show ?thesis
    unfolding privacyIndex_def map_of_mapFromPairs rev_append map_of_append by (simp add: map_add_Some_iff)
qed

lemma hidden_iff:
  "hidden (privacyIndex input) a \<longleftrightarrow>
     (\<exists>q \<in> set (in_privacy_requests input). pr_status q = ''completed'' \<and>
        tenant_id a = pr_tenant_id q \<and> app_id a = pr_app_id q \<and>
        (\<exists>af \<in> set (pr_affected_records q). record_id a = af_record_id af)) \<or>
     (\<exists>e \<in> set (in_retention_expirations input).
        tenant_id a = re_tenant_id e \<and> app_id a = re_app_id e \<and> record_id a = re_record_id e)"
  unfolding hidden_def privacyIndex_lookup requestEntries_keys attemptEvidenceKey_def expirationEntry_def by auto

end
