(* ===== verification/Ledger.thy ===== *)
theory Ledger
  imports References
begin

text \<open>
  The ledger part of the output: raw records, deliveries, logical events, corrections,
  privacy requests and tombstones, and rejections, each with the sort of the source.
\<close>

section \<open>Raw records\<close>

text \<open>\<open>whenTruthy g v\<close> is the property \<open>v\<close> of \<^verbatim>\<open>...(g ? { ... } : {})\<close>.\<close>

definition whenTruthy :: "string option \<Rightarrow> 'a option \<Rightarrow> 'a option" where
  "whenTruthy g v = (if truthy g then v else None)"

definition makeRawRecord :: "digest \<Rightarrow> lifecycle_status \<Rightarrow> attempt \<Rightarrow> raw_record res" where
  "makeRawRecord H lifecycle attempt =
     (let record = at_record attempt in
      bindR (consentDecision attempt) (\<lambda>consent. Inr \<lparr>
        rr_contract_version = CONTRACT_VERSION,
        rr_record_id = r_record_id record,
        rr_tenant_id = tenant_id attempt,
        rr_app_id = app_id attempt,
        rr_producer = r_producer record,
        rr_producer_version = r_producer_version record,
        rr_producer_variant = keepTruthy (r_producer_variant record),
        rr_wrapper_version = keepTruthy (r_wrapper_version record),
        rr_event_id = r_event_id record,
        rr_delivery_id = r_delivery_id record,
        rr_event_name = r_event_name record,
        rr_schema_version = r_schema_version record,
        rr_payload_sha256 = H (HPayload (r_payload record)),
        rr_occurred_at = r_occurred_at record,
        rr_occurred_at_source = r_occurred_at_source record,
        rr_received_at = r_received_at record,
        rr_payload_lifecycle_status = lifecycle,
        rr_raw_payload_ref =
          (if lifecycle = Available then ''protected:'' @ r_record_id record else ''tombstone:'' @ r_record_id record),
        rr_integrity_verdict = r_integrity_verdict record,
        rr_processing_purpose_id = k_processing_purpose_id consent,
        rr_consent_evaluation_policy_version = k_consent_evaluation_policy_version consent,
        rr_consent_decision_reason_code = k_consent_decision_reason_code consent,
        rr_withdrawal_recognized_at = keepTruthy (k_withdrawal_recognized_at consent),
        rr_alternative_legal_basis_id = keepTruthy (k_alternative_legal_basis_id consent),
        rr_alternative_legal_basis_policy_version =
          whenTruthy (k_alternative_legal_basis_id consent) (k_alternative_legal_basis_policy_version consent)\<rparr>))"

definition rawEvidence :: "digest \<Rightarrow> decisions \<Rightarrow> lifecycle_index \<Rightarrow> attempt list \<Rightarrow> attempt list \<Rightarrow> attempt list res" where
  "rawEvidence H decisions lifecycle all acceptedUnique =
     bindR (filterR (\<lambda>attempt. bindR (decisionFor H decisions attempt) (\<lambda>d.
              Inr (d_reason_code d = Some EventIdConflictReject))) all) (\<lambda>conflictEvidence.
       Inr (filter (\<lambda>attempt. \<not> hidden lifecycle attempt) (acceptedUnique @ conflictEvidence)))"

definition rawRecords :: "digest \<Rightarrow> attempt list \<Rightarrow> raw_record list res" where
  "rawRecords H evidence =
     bindR (mapR (makeRawRecord H Available) evidence) (\<lambda>records. Inr
       (sortByKey (\<lambda>r. H (HRawRecord r))
         (\<lambda>r. [rr_record_id r, rr_tenant_id r, rr_app_id r, rr_delivery_id r]) records))"

section \<open>Deliveries\<close>

definition attemptDelivery :: "attempt \<Rightarrow> decision \<Rightarrow> delivery" where
  "attemptDelivery attempt decision =
     (let stale = (d_reason_code decision = Some TimestampStale) in \<lparr>
        dl_contract_version = CONTRACT_VERSION,
        dl_delivery_id = r_delivery_id (at_record attempt),
        dl_record_id = record_id attempt,
        dl_canonical_record_id = keepTruthy (d_canonical_record_id decision),
        dl_tenant_id = tenant_id attempt,
        dl_app_id = app_id attempt,
        dl_received_at = r_received_at (at_record attempt),
        dl_ingestion_status = d_ingestion_status decision,
        dl_duplicate_resolution = d_duplicate_resolution decision,
        dl_timeliness = d_timeliness decision,
        dl_clock_skew_suspected = d_clock_skew_suspected decision,
        dl_payload_disposition = d_payload_disposition decision,
        dl_processing_purpose_id = d_processing_purpose_id decision,
        dl_consent_evaluation_policy_version = d_consent_evaluation_policy_version decision,
        dl_consent_decision_reason_code = d_consent_decision_reason_code decision,
        dl_withdrawal_recognized_at = keepTruthy (d_withdrawal_recognized_at decision),
        dl_alternative_legal_basis_id = keepTruthy (d_alternative_legal_basis_id decision),
        dl_alternative_legal_basis_policy_version =
          whenTruthy (d_alternative_legal_basis_id decision) (d_alternative_legal_basis_policy_version decision),
        dl_reason_code = d_reason_code decision,
        dl_staleness_policy_version = (if stale then d_staleness_policy_version decision else None),
        dl_staleness_policy_digest = (if stale then d_staleness_policy_digest decision else None),
        dl_staleness_authority = (if stale then d_staleness_authority decision else None)\<rparr>)"

definition preIngestionDelivery :: "decision \<Rightarrow> delivery" where
  "preIngestionDelivery decision = \<lparr>
     dl_contract_version = CONTRACT_VERSION,
     dl_delivery_id = d_delivery_id decision,
     dl_record_id = d_record_id decision,
     dl_canonical_record_id = None,
     dl_tenant_id = d_tenant_id decision,
     dl_app_id = d_app_id decision,
     dl_received_at = orElse (d_received_at decision) [],
     dl_ingestion_status = d_ingestion_status decision,
     dl_duplicate_resolution = d_duplicate_resolution decision,
     dl_timeliness = d_timeliness decision,
     dl_clock_skew_suspected = d_clock_skew_suspected decision,
     dl_payload_disposition = d_payload_disposition decision,
     dl_processing_purpose_id = keepTruthy (d_processing_purpose_id decision),
     dl_consent_evaluation_policy_version = d_consent_evaluation_policy_version decision,
     dl_consent_decision_reason_code = d_consent_decision_reason_code decision,
     dl_withdrawal_recognized_at = None,
     dl_alternative_legal_basis_id = None,
     dl_alternative_legal_basis_policy_version = None,
     dl_reason_code = d_reason_code decision,
     dl_staleness_policy_version = None,
     dl_staleness_policy_digest = None,
     dl_staleness_authority = None\<rparr>"

definition makeDeliveries :: "digest \<Rightarrow> decisions \<Rightarrow> attempt list \<Rightarrow> decision list \<Rightarrow> delivery list res" where
  "makeDeliveries H decisions all preIngestion =
     bindR (mapR (\<lambda>attempt. bindR (decisionFor H decisions attempt) (\<lambda>d. Inr (attemptDelivery attempt d))) all)
       (\<lambda>ds. Inr (sortByKey (\<lambda>d. H (HDelivery d))
          (\<lambda>d. [dl_delivery_id d, dl_record_id d, dl_tenant_id d, dl_app_id d])
          (ds @ map preIngestionDelivery preIngestion)))"

section \<open>Logical events\<close>

definition makeLogicalEvent :: "attempt \<Rightarrow> logical_event" where
  "makeLogicalEvent attempt =
     (let record = at_record attempt in \<lparr>
        le_contract_version = CONTRACT_VERSION,
        le_logical_event_id =
          ''logical:'' @ tenant_id attempt @ '':'' @ app_id attempt @ '':'' @ r_producer record @ '':'' @ r_event_id record,
        le_record_id = r_record_id record,
        le_tenant_id = tenant_id attempt,
        le_app_id = app_id attempt,
        le_producer = r_producer record,
        le_event_id = r_event_id record,
        le_event_name = r_event_name record,
        le_record_lifecycle = ''active'',
        le_timeliness = (if r_late record = Some True then Late else OnTime)\<rparr>)"

definition logicalEvents :: "digest \<Rightarrow> lifecycle_index \<Rightarrow> attempt list \<Rightarrow> logical_event list" where
  "logicalEvents H lifecycle acceptedUnique =
     sortByKey (\<lambda>e. H (HLogicalEvent e)) (\<lambda>e. [le_logical_event_id e, le_tenant_id e, le_app_id e])
       (map makeLogicalEvent (filter (\<lambda>attempt. \<not> hidden lifecycle attempt) acceptedUnique))"

section \<open>Corrections, privacy requests, tombstones\<close>

definition refundCorrection :: "attempt \<Rightarrow> correction" where
  "refundCorrection attempt = \<lparr>
     co_contract_version = CONTRACT_VERSION,
     co_tenant_id = tenant_id attempt,
     co_app_id = app_id attempt,
     co_correction_id = ''correction:'' @ record_id attempt,
     co_corrects_record_id = p_correction_target_record_id (at_payload attempt),
     co_correction_type = CorrectionType,
     co_correction_reason = Refund,
     co_effective_at = Some (r_occurred_at (at_record attempt))\<rparr>"

definition redactionCorrection :: "privacy_request \<Rightarrow> affected_record \<Rightarrow> correction" where
  "redactionCorrection request affected = \<lparr>
     co_contract_version = CONTRACT_VERSION,
     co_tenant_id = pr_tenant_id request,
     co_app_id = pr_app_id request,
     co_correction_id = ''correction:'' @ pr_privacy_request_id request @ '':'' @ af_record_id affected,
     co_corrects_record_id = Some (af_record_id affected),
     co_correction_type = Redaction,
     co_correction_reason = pr_reason_code request,
     co_effective_at = pr_completed_at request\<rparr>"

text \<open>The loop over the completed requests and their affected records.\<close>

definition forCompleted :: "(privacy_request \<Rightarrow> affected_record \<Rightarrow> 'a) \<Rightarrow> evaluation_input \<Rightarrow> 'a list" where
  "forCompleted f input =
     concat (map (\<lambda>request.
       if pr_status request \<noteq> ''completed'' then [] else map (f request) (pr_affected_records request))
       (in_privacy_requests input))"

definition makeCorrections :: "digest \<Rightarrow> evaluation_input \<Rightarrow> attempt list \<Rightarrow> correction list" where
  "makeCorrections H input acceptedUnique =
     sortByKey (\<lambda>c. H (HCorrection c)) (\<lambda>c. [co_correction_id c, co_tenant_id c, co_app_id c])
       (in_correction_inputs input @
        map refundCorrection (filter (\<lambda>entry. event_name entry = ''refund'') acceptedUnique) @
        forCompleted redactionCorrection input)"

definition copyPrivacyRequest :: "privacy_request \<Rightarrow> privacy_request" where
  "copyPrivacyRequest request =
     request\<lparr>pr_deletion_subject_ref := keepTruthy (pr_deletion_subject_ref request),
       pr_deletion_subject_digest := keepTruthy (pr_deletion_subject_digest request),
       pr_completed_at := keepTruthy (pr_completed_at request)\<rparr>"

definition privacyRequests :: "digest \<Rightarrow> evaluation_input \<Rightarrow> privacy_request list" where
  "privacyRequests H input =
     sortByKey (\<lambda>q. H (HPrivacyRequest q)) (\<lambda>q. [pr_privacy_request_id q, pr_tenant_id q, pr_app_id q])
       (map copyPrivacyRequest (in_privacy_requests input))"

definition makeTombstone :: "digest \<Rightarrow> privacy_request \<Rightarrow> affected_record \<Rightarrow> privacy_tombstone" where
  "makeTombstone H request affected = \<lparr>
     pt_contract_version = CONTRACT_VERSION,
     pt_tenant_id = pr_tenant_id request,
     pt_app_id = pr_app_id request,
     pt_privacy_request_id = pr_privacy_request_id request,
     pt_record_id = af_record_id affected,
     pt_lifecycle_status = af_lifecycle_status affected,
     pt_reason_code = pr_reason_code request,
     pt_policy_version = pr_policy_version request,
     pt_provenance_digest =
       H (HTexts [Some (pr_tenant_id request), Some (pr_app_id request), Some (pr_privacy_request_id request),
                  Some (af_record_id affected), pr_completed_at request]),
     pt_created_at = pr_completed_at request\<rparr>"

definition privacyTombstones :: "digest \<Rightarrow> evaluation_input \<Rightarrow> privacy_tombstone list" where
  "privacyTombstones H input =
     sortByKey (\<lambda>t. H (HTombstone t))
       (\<lambda>t. [pt_privacy_request_id t, pt_record_id t, pt_tenant_id t, pt_app_id t])
       (forCompleted (makeTombstone H) input)"

section \<open>Rejections\<close>

definition makeRejection :: "decision \<Rightarrow> rejection" where
  "makeRejection decision =
     (let stale = (d_reason_code decision = Some TimestampStale) in \<lparr>
        rj_contract_version = CONTRACT_VERSION,
        rj_delivery_id = d_delivery_id decision,
        rj_record_id = d_record_id decision,
        rj_tenant_id = d_tenant_id decision,
        rj_app_id = d_app_id decision,
        rj_reason_code = d_reason_code decision,
        rj_reason_code_version = CONTRACT_VERSION,
        rj_payload_disposition = d_payload_disposition decision,
        rj_retained =
          (if d_reason_code decision = Some EventIdConflictReject then ProtectedConflictEvidence
           else NonIdentifyingMetadata),
        rj_processing_purpose_id = d_processing_purpose_id decision,
        rj_consent_evaluation_policy_version = d_consent_evaluation_policy_version decision,
        rj_consent_decision_reason_code = d_consent_decision_reason_code decision,
        rj_withdrawal_recognized_at = keepTruthy (d_withdrawal_recognized_at decision),
        rj_staleness_policy_version = (if stale then d_staleness_policy_version decision else None),
        rj_staleness_policy_digest = (if stale then d_staleness_policy_digest decision else None),
        rj_staleness_authority = (if stale then d_staleness_authority decision else None)\<rparr>)"

definition makeRejections :: "digest \<Rightarrow> decision list \<Rightarrow> rejection list" where
  "makeRejections H decisionsList =
     sortByKey (\<lambda>r. H (HRejection r)) (\<lambda>r. [rj_delivery_id r, rj_record_id r, rj_tenant_id r, rj_app_id r])
       (map makeRejection (filter (\<lambda>d. d_ingestion_status d = Rejected) decisionsList))"

end
