(* ===== verification/Attribution.thy ===== *)
theory Attribution
  imports Ledger
begin

text \<open>
  Attribution of installs (imported, Meta, AdServices, referrer status, first-party click),
  of aggregate Apple postbacks and of deep-link opens.
\<close>

section \<open>Results\<close>

text \<open>
  The arguments of \<^verbatim>\<open>result(status, method, model, reason_code, extra)\<close>; the only extra the
  code passes replaces the evidence references.
\<close>

record outcome =
  oc_status :: attribution_status
  oc_method :: attribution_method
  oc_model :: attribution_model
  oc_reason :: attribution_reason
  oc_evidence :: "evidence_ref list option"

definition outcome ::
  "attribution_status \<Rightarrow> attribution_method \<Rightarrow> attribution_model \<Rightarrow> attribution_reason \<Rightarrow> outcome" where
  "outcome status method model reason =
     \<lparr>oc_status = status, oc_method = method, oc_model = model, oc_reason = reason, oc_evidence = None\<rparr>"

definition evidenceRef :: "lifecycle_index \<Rightarrow> attempt \<Rightarrow> string \<Rightarrow> evidence_ref" where
  "evidenceRef lifecycle attempt ref = \<lparr>
     ev_tenant_id = tenant_id attempt,
     ev_app_id = app_id attempt,
     ev_ref = ref,
     ev_lifecycle_status = lifecycleOf lifecycle (evidenceKey (tenant_id attempt) (app_id attempt) (Some ref)),
     ev_access_class = ProtectedAccess\<rparr>"

definition attributionResult :: "lifecycle_index \<Rightarrow> attempt \<Rightarrow> outcome \<Rightarrow> attribution" where
  "attributionResult lifecycle attempt oc =
     (let baseId = ''attr:'' @ record_id attempt;
          attribution = \<lparr>
            a_attribution_id = baseId,
            a_tenant_id = tenant_id attempt,
            a_app_id = app_id attempt,
            a_subject_scope = InstallationLevel,
            a_subject_ref = p_installation_id (at_payload attempt),
            a_status = oc_status oc,
            a_method = oc_method oc,
            a_model = oc_model oc,
            a_reason_code = oc_reason oc,
            a_reason_code_version = CONTRACT_VERSION,
            a_evidence_refs = orElse (oc_evidence oc) [evidenceRef lifecycle attempt (record_id attempt)],
            a_effective_at = r_occurred_at (at_record attempt),
            a_decided_at = s_received_at (at_server attempt),
            a_input_cutoff_at = s_received_at (at_server attempt),
            a_finality = Final,
            a_rule_bundle_id = ''attribution-default'',
            a_rule_bundle_version = REFERENCE_RULE_VERSION,
            a_rule_bundle_hash = ZERO_HASH,
            a_fraud_decision_ref = None,
            a_supersedes_attribution_id = None\<rparr>
      in if \<not> (\<exists>entry \<in> set (a_evidence_refs attribution). ev_lifecycle_status entry \<noteq> Available)
         then attribution
         else attribution\<lparr>a_attribution_id := baseId @ '':recalculated'',
                a_finality := Superseded,
                a_supersedes_attribution_id := Some baseId\<rparr>)"

section \<open>Imported installs\<close>

definition isReferencedClick :: "digest \<Rightarrow> decisions \<Rightarrow> attempt \<Rightarrow> string option \<Rightarrow> attempt \<Rightarrow> bool res" where
  "isReferencedClick H decisions attempt ref candidate =
     (if sameScope candidate attempt \<and> event_name candidate = ''click'' \<and>
         r_producer (at_record candidate) = ''redirector'' \<and> p_remote_click_ref (at_payload candidate) = ref
      then isAcceptedUnique H decisions candidate
      else Inr False)"

definition importedEvidence :: "lifecycle_index \<Rightarrow> attempt \<Rightarrow> attempt list \<Rightarrow> evidence_ref list option" where
  "importedEvidence lifecycle attempt referencedClicks =
     (case referencedClicks of
        [click] \<Rightarrow> Some [evidenceRef lifecycle attempt (record_id click),
                       evidenceRef lifecycle attempt (record_id attempt)]
      | _ \<Rightarrow> None)"

definition importedOutcome :: "import_context \<Rightarrow> evidence_ref list option \<Rightarrow> outcome" where
  "importedOutcome imported evidence =
     (if ic_provider_attributed imported then
        (outcome NonOrganic Imported ProviderReported
          (if ic_provider_attribution_strategy imported = ''modeled'' then ProviderModeledConversion
           else if \<not> truthy (ic_provider_confirmed_at imported) then ProviderTimeAuthorityUnavailable
           else ProviderAttributed))\<lparr>oc_evidence := evidence\<rparr>
      else if ic_provider_attribution_strategy imported = ''organic'' then
        outcome Organic Imported ProviderReported ProviderOrganic
      else outcome Unattributed Imported ProviderReported ProviderUnattributed)"

definition importedAttribution ::
  "digest \<Rightarrow> provider \<Rightarrow> decisions \<Rightarrow> lifecycle_index \<Rightarrow> attempt \<Rightarrow> outcome res" where
  "importedAttribution H candidates decisions lifecycle attempt =
     (case p_import_context (at_payload attempt) of
        None \<Rightarrow> Inr (outcome Unattributed Imported ProviderReported ProviderUnattributed)
      | Some imported \<Rightarrow>
          bindR (if truthy (ic_provider_click_ref imported)
                 then filterR (isReferencedClick H decisions attempt (ic_provider_click_ref imported)) (pv_all candidates)
                 else Inr [])
            (\<lambda>referencedClicks.
               Inr (importedOutcome imported (importedEvidence lifecycle attempt referencedClicks))))"

section \<open>Installs decided without a click\<close>

definition metaOutcome :: "payload \<Rightarrow> outcome option res" where
  "metaOutcome payload =
     (if p_meta_referrer_status payload = Some ''decrypted'' then
        (case p_meta_attribution_model payload of
           None \<Rightarrow> Inl TypeError
         | Some model \<Rightarrow> Inr (Some (outcome NonOrganic MetaInstallReferrer model MetaReferrerDecrypted)))
      else if p_meta_referrer_status payload \<in> {Some ''decrypt_failed'', Some ''auth_failed''} then
        Inr (Some (outcome Unattributed MetaInstallReferrer (orElse (p_meta_attribution_model payload) LastClick)
          MetaReferrerDecryptFailed))
      else Inr None)"

definition adservicesOutcome :: "payload \<Rightarrow> outcome option" where
  "adservicesOutcome payload =
     (let status = p_adservices_status payload in
      if status = Some ''attributed'' then Some (outcome NonOrganic AppleAdServices LastClick AdServicesAttributed)
      else if status = Some ''token_expired'' then
        Some (outcome Unattributed AppleAdServices LastClick AdServicesTokenExpired)
      else if status = Some ''not_attributed'' then
        Some (outcome Unattributed AppleAdServices LastClick AdServicesNotAttributed)
      else if status = Some ''lookup_unavailable'' then
        Some (outcome Unattributed AppleAdServices LastClick AdServicesLookupUnavailable)
      else None)"

definition referrerStatusOutcome :: "payload \<Rightarrow> outcome option" where
  "referrerStatusOutcome payload =
     (let status = p_referrer_status payload in
      if status = Some ''none'' then Some (outcome Organic NoMethod NoModel NoReferrer)
      else if status = Some ''third_party'' then
        Some (if p_third_party_referrer_classification payload = Some ''play_organic_marker''
              then outcome Organic NoMethod NoModel NoFirstPartyReferrer
              else outcome Unattributed NoMethod NoModel ForeignReferrerUnresolved)
      else if status = Some ''unsupported'' then Some (outcome Unattributed NoMethod NoModel InstallReferrerUnsupported)
      else if status = Some ''unavailable'' then Some (outcome Unattributed NoMethod NoModel InstallReferrerUnavailable)
      else if status = Some ''not_applicable'' then Some (outcome Unattributed NoMethod NoModel PlatformReferrerNotAvailable)
      else None)"

section \<open>First-party clicks\<close>

definition windowOutcome :: "attempt \<Rightarrow> attempt \<Rightarrow> evidence_ref list option \<Rightarrow> outcome res" where
  "windowOutcome attempt click evidence =
     bindR (time (p_install_begin_at_server (at_payload attempt)) ''install_begin_at_server'') (\<lambda>install.
     bindR (time (p_redirector_click_at (at_payload click)) ''redirector_click_at'') (\<lambda>clicked.
       let delta = install - clicked in
       if delta < 0 \<or> 7 * DAY_MS \<le> delta
       then Inr (outcome Unattributed NoMethod NoModel WindowExpired)
       else Inr ((outcome NonOrganic InstallReferrer LastClick ValidInstallReferrer)\<lparr>oc_evidence := evidence\<rparr>)))"

definition clickOutcome :: "lifecycle_index \<Rightarrow> attempt \<Rightarrow> attempt \<Rightarrow> outcome res" where
  "clickOutcome lifecycle attempt click =
     (let payload = at_payload attempt;
          evidence = Some [evidenceRef lifecycle attempt (record_id click), evidenceRef lifecycle attempt (record_id attempt)];
          clickStatus = orElse (p_redirector_time_status (at_payload click)) ''available'';
          installStatus = orElse (p_install_begin_at_server_status payload)
            (if truthy (p_install_begin_at_server payload) then ''available'' else ''missing'')
      in if p_bot_prefetch (at_payload click) = Some True
         then Inr ((outcome Unattributed NoMethod NoModel BotPrefetch)\<lparr>oc_evidence := evidence\<rparr>)
         else if clickStatus = ''invalid'' \<or> installStatus = ''invalid''
         then Inr (outcome Unattributed NoMethod NoModel AuthoritativeTimeInvalid)
         else if clickStatus \<noteq> ''available'' \<or> installStatus \<noteq> ''available'' \<or>
                 \<not> truthy (p_redirector_click_at (at_payload click)) \<or> \<not> truthy (p_install_begin_at_server payload)
         then Inr (outcome Unattributed NoMethod NoModel AuthoritativeTimeMissing)
         else windowOutcome attempt click evidence)"

definition clickAttribution ::
  "digest \<Rightarrow> provider \<Rightarrow> decisions \<Rightarrow> lifecycle_index \<Rightarrow> attempt \<Rightarrow> outcome res" where
  "clickAttribution H candidates decisions lifecycle attempt =
     bindR (filterR (isAcceptedUnique H decisions)
              (pv_clickCandidates candidates (tenant_id attempt) (app_id attempt) (p_click_id (at_payload attempt))))
       (\<lambda>clicks. case clicks of
          [] \<Rightarrow> Inr (outcome Unattributed NoMethod NoModel UnknownClickId)
        | [click] \<Rightarrow> clickOutcome lifecycle attempt click
        | _ \<Rightarrow> Inr (outcome Unattributed NoMethod NoModel AmbiguousClickId))"

definition nativeOutcome ::
  "digest \<Rightarrow> provider \<Rightarrow> decisions \<Rightarrow> lifecycle_index \<Rightarrow> attempt \<Rightarrow> outcome res" where
  "nativeOutcome H candidates decisions lifecycle attempt =
     bindR (metaOutcome (at_payload attempt)) (\<lambda>meta. case meta of
        Some oc \<Rightarrow> Inr oc
      | None \<Rightarrow> (case adservicesOutcome (at_payload attempt) of
          Some oc \<Rightarrow> Inr oc
        | None \<Rightarrow> (case referrerStatusOutcome (at_payload attempt) of
            Some oc \<Rightarrow> Inr oc
          | None \<Rightarrow> clickAttribution H candidates decisions lifecycle attempt)))"

definition installOutcome ::
  "digest \<Rightarrow> provider \<Rightarrow> decisions \<Rightarrow> lifecycle_index \<Rightarrow> attempt \<Rightarrow> outcome res" where
  "installOutcome H candidates decisions lifecycle attempt =
     (if startsWith (r_producer (at_record attempt)) ''import:''
      then importedAttribution H candidates decisions lifecycle attempt
      else nativeOutcome H candidates decisions lifecycle attempt)"

definition makeAttribution ::
  "digest \<Rightarrow> provider \<Rightarrow> decisions \<Rightarrow> lifecycle_index \<Rightarrow> attempt \<Rightarrow> attribution res" where
  "makeAttribution H candidates decisions lifecycle attempt =
     bindR (installOutcome H candidates decisions lifecycle attempt) (\<lambda>oc.
       Inr (attributionResult lifecycle attempt oc))"

section \<open>Aggregate postbacks\<close>

fun methodText :: "attribution_method \<Rightarrow> string" where
  "methodText SkAdNetwork = ''skadnetwork''"
| "methodText AdAttributionKit = ''adattributionkit''"
| "methodText InstallReferrer = ''install_referrer''"
| "methodText AggregatePrivacy = ''aggregate_privacy''"
| "methodText Imported = ''imported''"
| "methodText MetaInstallReferrer = ''meta_install_referrer''"
| "methodText AppleAdServices = ''apple_adservices''"
| "methodText DeepLink = ''deep_link''"
| "methodText NoMethod = ''none''"

definition postbackReason :: "payload \<Rightarrow> attribution_reason" where
  "postbackReason payload =
     (if p_signature_verified payload \<noteq> Some True then SkanSignatureInvalid
      else if p_did_win payload \<noteq> Some True then PostbackNotWinner
      else if p_source_identifier payload = None then CrowdAnonymitySuppressed
      else if p_conversion_value payload = None \<and> p_coarse_conversion_value payload = None then ConversionValueNull
      else SkanPostbackVerified)"

definition makeAggregatePostbackAttribution :: "lifecycle_index \<Rightarrow> attempt \<Rightarrow> attribution" where
  "makeAggregatePostbackAttribution lifecycle attempt =
     (let method = (if event_name attempt = ''skan_postback'' then SkAdNetwork else AdAttributionKit);
          reason = postbackReason (at_payload attempt) in \<lparr>
        a_attribution_id = ''attr:'' @ record_id attempt,
        a_tenant_id = tenant_id attempt,
        a_app_id = app_id attempt,
        a_subject_scope = AggregateScope,
        a_subject_ref = Some (''aggregate:'' @ methodText method @ '':'' @ record_id attempt),
        a_status = (if reason = SkanPostbackVerified then NonOrganic else Unattributed),
        a_method = method,
        a_model = AggregateModel,
        a_reason_code = reason,
        a_reason_code_version = CONTRACT_VERSION,
        a_evidence_refs = [evidenceRef lifecycle attempt (record_id attempt)],
        a_effective_at = r_occurred_at (at_record attempt),
        a_decided_at = s_received_at (at_server attempt),
        a_input_cutoff_at = s_received_at (at_server attempt),
        a_finality = Final,
        a_rule_bundle_id = ''apple-postback-default'',
        a_rule_bundle_version = REFERENCE_RULE_VERSION,
        a_rule_bundle_hash = ZERO_HASH,
        a_fraud_decision_ref = None,
        a_supersedes_attribution_id = None\<rparr>)"

section \<open>Deep links\<close>

definition reusedInstallClick :: "attempt \<Rightarrow> bool" where
  "reusedInstallClick attempt =
     (p_open_source (at_payload attempt) = Some ''android_deferred_referrer'' \<and>
      Option.bind (s_deep_link_resolution (at_server attempt)) dr_install_attribution_click_id =
        p_click_id (at_payload attempt))"

definition resolutionStatus :: "attempt \<Rightarrow> string" where
  "resolutionStatus attempt =
     (case s_deep_link_resolution (at_server attempt) of None \<Rightarrow> ''unknown'' | Some r \<Rightarrow> dr_status r)"

definition makeDeepLinkAttribution :: "lifecycle_index \<Rightarrow> attempt \<Rightarrow> attribution" where
  "makeDeepLinkAttribution lifecycle attempt =
     (let reused = reusedInstallClick attempt; status = resolutionStatus attempt in \<lparr>
        a_attribution_id = ''attr:engagement:'' @ record_id attempt,
        a_tenant_id = tenant_id attempt,
        a_app_id = app_id attempt,
        a_subject_scope = EngagementLevel,
        a_subject_ref = Some (''engagement:'' @ record_id attempt),
        a_status = (if status = ''active'' \<and> \<not> reused then NonOrganic else Unattributed),
        a_method = DeepLink,
        a_model = LastClick,
        a_reason_code =
          (if reused then DeepLinkInstallClickReused
           else if status = ''active'' then DeepLinkOpenAttributed
           else if status = ''inactive'' then DeepLinkLinkInactive
           else DeepLinkUnknownLink),
        a_reason_code_version = CONTRACT_VERSION,
        a_evidence_refs = [evidenceRef lifecycle attempt (record_id attempt)],
        a_effective_at = r_occurred_at (at_record attempt),
        a_decided_at = s_received_at (at_server attempt),
        a_input_cutoff_at = s_received_at (at_server attempt),
        a_finality = Final,
        a_rule_bundle_id = ''attribution-default'',
        a_rule_bundle_version = REFERENCE_RULE_VERSION,
        a_rule_bundle_hash = ZERO_HASH,
        a_fraud_decision_ref = None,
        a_supersedes_attribution_id = None\<rparr>)"

end
