(* ===== verification/Money.thy ===== *)
theory Money
  imports Outputs
begin

text \<open>
  Money arithmetic on unbounded integers: half-even rounding, the \<^verbatim>\<open>BigInt\<close> conversions of
  the language, currency conversion and rescaling.
\<close>

section \<open>Half-even rounding\<close>

definition roundHalfEven :: "int \<Rightarrow> int \<Rightarrow> int res" where
  "roundHalfEven numerator denominator =
     bindR (throwIf (denominator \<le> 0) (JsError ''denominator must be positive'')) (\<lambda>_.
       let negative = numerator < 0;
           absolute = (if negative then - numerator else numerator);
           quotient = absolute div denominator;
           remainder = absolute mod denominator;
           twice = remainder * 2;
           rounded = (if twice > denominator \<or> (twice = denominator \<and> quotient mod 2 = 1)
                      then quotient + 1 else quotient)
       in Inr (if negative then - rounded else rounded))"

text \<open>
  What half-even rounding means: the result is at most half a unit away from the quotient,
  and even when it is exactly half a unit away.
\<close>

definition isHalfEven :: "int \<Rightarrow> int \<Rightarrow> int \<Rightarrow> bool" where
  "isHalfEven n d r = (2 * \<bar>n - r * d\<bar> \<le> d \<and> (2 * \<bar>n - r * d\<bar> = d \<longrightarrow> even r))"

lemma isHalfEven_neg: "isHalfEven (- n) d (- r) = isHalfEven n d r"
proof -
  have "\<bar>- n - - r * d\<bar> = \<bar>n - r * d\<bar>" by (metis abs_minus_cancel minus_diff_eq minus_diff_minus mult_minus_left)
  then show ?thesis by (simp add: isHalfEven_def)
qed

lemma half_bounds:
  fixes x y d :: int
  shows "2 * \<bar>x\<bar> \<le> d \<Longrightarrow> 2 * \<bar>y\<bar> \<le> d \<Longrightarrow> \<bar>y - x\<bar> \<le> d"
    "2 * \<bar>x\<bar> \<le> d \<Longrightarrow> 2 * (- x) \<le> d" "2 * \<bar>x\<bar> \<le> d \<Longrightarrow> 2 * x \<le> d"
  by linarith+

lemma half_bounds_eq:
  fixes x y d :: int
  assumes "2 * \<bar>x\<bar> \<le> d" "2 * \<bar>y\<bar> \<le> d" "\<bar>y - x\<bar> = d"
  shows "2 * \<bar>x\<bar> = d" "2 * \<bar>y\<bar> = d"
  using assms by linarith+

lemma half_squeeze:
  fixes R S n m d :: int
  shows "2 * (R - n) \<le> d \<Longrightarrow> 2 * (m - S) \<le> d \<Longrightarrow> S + d \<le> R \<Longrightarrow> n \<le> m \<Longrightarrow> n = m"
  by presburger

lemma isHalfEven_unique:
  assumes "0 < d" "isHalfEven n d r" "isHalfEven n d s"
  shows "r = s"
proof (rule ccontr)
  assume ne: "r \<noteq> s"
  have le: "2 * \<bar>n - r * d\<bar> \<le> d" "2 * \<bar>n - s * d\<bar> \<le> d" using assms(2,3) by (simp_all add: isHalfEven_def)
  have sep: "(r - s) * d = (n - s * d) - (n - r * d)" by (simp add: algebra_simps)
  have "\<bar>(n - s * d) - (n - r * d)\<bar> \<le> d" by (rule half_bounds(1)[OF le])
  then have "\<bar>r - s\<bar> * d \<le> d" unfolding sep[symmetric] abs_mult using assms(1) by simp
  then have "\<bar>r - s\<bar> \<le> 1" using assms(1) by (simp add: mult_le_cancel_right1)
  with ne have one: "\<bar>r - s\<bar> = 1" by linarith
  have "\<bar>(r - s) * d\<bar> = d" unfolding abs_mult one using assms(1) by simp
  then have "\<bar>(n - s * d) - (n - r * d)\<bar> = d" unfolding sep .
  note half_bounds_eq[OF le this]
  then have "even r" "even s" using assms(2,3) by (simp_all add: isHalfEven_def)
  with one show False by presburger
qed

lemma half_even_nonneg:
  assumes "0 < d" "0 \<le> (n::int)"
  shows "isHalfEven n d
    (if n mod d * 2 > d \<or> (n mod d * 2 = d \<and> n div d mod 2 = 1) then n div d + 1 else n div d)"
proof -
  define q r where "q = n div d" "r = n mod d"
  have n: "n = q * d + r" and r: "0 \<le> r" "r < d" using assms by (simp_all add: q_r_def)
  have a: "n - q * d = r" "n - (q + 1) * d = r - d" using n by (simp_all add: distrib_right)
  show ?thesis
    unfolding isHalfEven_def q_r_def[symmetric]
    using r by (auto simp: a)
qed

lemma roundHalfEven_spec:
  assumes "0 < d"
  obtains r where "roundHalfEven n d = Inr r" "isHalfEven n d r"
proof (cases "n < 0")
  case True
  have "isHalfEven (- n) d
    (if (- n) mod d * 2 > d \<or> ((- n) mod d * 2 = d \<and> (- n) div d mod 2 = 1) then (- n) div d + 1 else (- n) div d)"
    (is "isHalfEven _ _ ?r") using half_even_nonneg[of d "- n"] assms True by simp
  then have "isHalfEven n d (- ?r)" using isHalfEven_neg[of n d "- ?r"] by simp
  moreover have "roundHalfEven n d = Inr (- ?r)"
    using assms True by (simp add: roundHalfEven_def Let_def)
  ultimately show ?thesis using that by blast
next
  case False
  then have "isHalfEven n d
    (if n mod d * 2 > d \<or> (n mod d * 2 = d \<and> n div d mod 2 = 1) then n div d + 1 else n div d)"
    (is "isHalfEven _ _ ?r") using half_even_nonneg[of d n] assms by simp
  moreover have "roundHalfEven n d = Inr ?r"
    using assms False by (simp add: roundHalfEven_def Let_def)
  ultimately show ?thesis using that by blast
qed

lemma roundHalfEven_Inr_iff: "roundHalfEven n d = Inr r \<longleftrightarrow> 0 < d \<and> isHalfEven n d r"
proof (cases "0 < d")
  case True
  obtain s where s: "roundHalfEven n d = Inr s" "isHalfEven n d s" by (rule roundHalfEven_spec[OF True])
  then show ?thesis using True isHalfEven_unique[OF True] by auto
next
  case False
  then show ?thesis by (simp add: roundHalfEven_def)
qed

lemma roundHalfEven_one [simp]: "roundHalfEven n 1 = Inr n"
  by (simp add: roundHalfEven_Inr_iff isHalfEven_def)

lemma roundHalfEven_exact: "0 < d \<Longrightarrow> roundHalfEven (q * d) d = Inr q"
  by (simp add: roundHalfEven_Inr_iff isHalfEven_def)

lemma roundHalfEven_uminus:
  assumes "roundHalfEven n d = Inr r"
  shows "roundHalfEven (- n) d = Inr (- r)"
  using assms by (simp add: roundHalfEven_Inr_iff isHalfEven_neg)

lemma roundHalfEven_mono:
  assumes "roundHalfEven n d = Inr r" "roundHalfEven m d = Inr s" "n \<le> m"
  shows "r \<le> s"
proof (rule ccontr)
  assume "\<not> r \<le> s"
  then have rs: "s + 1 \<le> r" by simp
  have d: "0 < d" and h: "isHalfEven n d r" "isHalfEven m d s" using assms(1,2) by (simp_all add: roundHalfEven_Inr_iff)
  have "(s + 1) * d \<le> r * d" using rs d by (intro mult_right_mono) simp_all
  then have sr: "s * d + d \<le> r * d" by (simp add: distrib_right)
  have "2 * \<bar>n - r * d\<bar> \<le> d" "2 * \<bar>m - s * d\<bar> \<le> d" using h by (simp_all add: isHalfEven_def)
  then have b: "2 * (r * d - n) \<le> d" "2 * (m - s * d) \<le> d"
    using half_bounds(2)[of "n - r * d" d] half_bounds(3)[of "m - s * d" d] by simp_all
  have "n = m" by (rule half_squeeze[OF b sr assms(3)])
  then show False using isHalfEven_unique[OF d h(1)] h(2) \<open>\<not> r \<le> s\<close> by auto
qed

section \<open>Conversions of the language\<close>

definition readRadix :: "nat \<Rightarrow> (char \<Rightarrow> bool) \<Rightarrow> string \<Rightarrow> int res" where
  "readRadix radix ok s =
     (if s = [] \<or> \<not> list_all ok s then Inl SyntaxError
      else Inr (int (foldl (\<lambda>n c. n * radix + hexValue (lowerChar c)) 0 s)))"

definition isHexChar :: "char \<Rightarrow> bool" where
  "isHexChar c = (isDigit c \<or> (let n = of_char (lowerChar c) :: nat in 97 \<le> n \<and> n \<le> 102))"

text \<open>
  \<^verbatim>\<open>BigInt(text)\<close>: surrounding white space is ignored, no digits mean zero, decimal digits
  may have a sign, and the radix prefixes are read.
\<close>

definition parseBigInt :: "string \<Rightarrow> int res" where
  "parseBigInt text =
     (let s = trim text; rest = drop 2 s in
      if s = [] then Inr 0
      else if take 2 s \<in> {''0x'', ''0X''} then readRadix 16 isHexChar rest
      else if take 2 s \<in> {''0o'', ''0O''} then readRadix 8 (\<lambda>c. isDigit c \<and> digitValue c < 8) rest
      else if take 2 s \<in> {''0b'', ''0B''} then readRadix 2 (\<lambda>c. isDigit c \<and> digitValue c < 2) rest
      else if hd s = CHR ''-'' then bindR (readRadix 10 isDigit (tl s)) (\<lambda>n. Inr (- n))
      else if hd s = CHR ''+'' then readRadix 10 isDigit (tl s)
      else readRadix 10 isDigit s)"

text \<open>\<^verbatim>\<open>BigInt(undefined)\<close> throws a \<^verbatim>\<open>TypeError\<close>.\<close>

definition bigIntOf :: "string option \<Rightarrow> int res" where
  "bigIntOf v = (case v of None \<Rightarrow> Inl TypeError | Some s \<Rightarrow> parseBigInt s)"

text \<open>\<^verbatim>\<open>10n ** BigInt(e)\<close>, which throws on a negative exponent.\<close>

definition powTen :: "int \<Rightarrow> int res" where
  "powTen e = (if e < 0 then Inl RangeError else Inr (10 ^ nat e))"

lemma powTen_Inr [simp]: "powTen e = Inr p \<longleftrightarrow> 0 \<le> e \<and> p = 10 ^ nat e"
  by (auto simp: powTen_def)

section \<open>Conversion and rescaling\<close>

definition convertMoney :: "payload \<Rightarrow> fx_policy \<Rightarrow> int res" where
  "convertMoney payload fxPolicy =
     (case List.find (\<lambda>candidate. Some (fx_currency candidate) = p_currency payload) (fp_rates fxPolicy) of
        None \<Rightarrow> Inl (JsError (''missing FX rate for '' @ orElse (p_currency payload) ''undefined''))
      | Some rate \<Rightarrow>
          bindR (bigIntOf (p_amount_unscaled payload)) (\<lambda>amount.
          bindR (parseBigInt (fx_rate_unscaled rate)) (\<lambda>rateUnscaled.
          bindR (powTen (fp_target_scale fxPolicy)) (\<lambda>target.
          bindR (case p_amount_scale payload of
                   None \<Rightarrow> Inl RangeError
                 | Some scale \<Rightarrow> powTen (scale + fx_rate_scale rate)) (\<lambda>denominator.
            roundHalfEven (amount * rateUnscaled * target) denominator)))))"

definition scaleMoney :: "string \<Rightarrow> int \<Rightarrow> int \<Rightarrow> int res" where
  "scaleMoney amountUnscaled amountScale targetScale =
     (let difference = targetScale - amountScale in
      if 0 \<le> difference then
        bindR (parseBigInt amountUnscaled) (\<lambda>amount. bindR (powTen difference) (\<lambda>p. Inr (amount * p)))
      else bindR (parseBigInt amountUnscaled) (\<lambda>amount. bindR (powTen (- difference)) (\<lambda>p. roundHalfEven amount p)))"

lemma scaleMoney_Inr:
  assumes "parseBigInt u = Inr amount"
  shows "scaleMoney u s t = Inr v \<longleftrightarrow>
    (if s \<le> t then v = amount * 10 ^ nat (t - s) else isHalfEven amount (10 ^ nat (s - t)) v)"
  using assms by (auto simp: scaleMoney_def Let_def res_simps roundHalfEven_Inr_iff powTen_def)

lemma convertMoney_Inr:
  assumes "convertMoney p fx = Inr v"
  obtains rate amount r scale where
    "rate \<in> set (fp_rates fx)" "p_currency p = Some (fx_currency rate)"
    "bigIntOf (p_amount_unscaled p) = Inr amount" "parseBigInt (fx_rate_unscaled rate) = Inr r"
    "p_amount_scale p = Some scale" "0 \<le> fp_target_scale fx" "0 \<le> scale + fx_rate_scale rate"
    "isHalfEven (amount * r * 10 ^ nat (fp_target_scale fx)) (10 ^ nat (scale + fx_rate_scale rate)) v"
proof -
  obtain rate where f: "List.find (\<lambda>candidate. Some (fx_currency candidate) = p_currency p) (fp_rates fx) = Some rate"
    using assms by (auto simp: convertMoney_def split: option.splits)
  then have r: "rate \<in> set (fp_rates fx)" "p_currency p = Some (fx_currency rate)"
    by (auto dest: find_Some_iff_set)
  obtain amount ru scale where
    "bigIntOf (p_amount_unscaled p) = Inr amount" "parseBigInt (fx_rate_unscaled rate) = Inr ru"
    "p_amount_scale p = Some scale" "0 \<le> fp_target_scale fx" "0 \<le> scale + fx_rate_scale rate"
    "isHalfEven (amount * ru * 10 ^ nat (fp_target_scale fx)) (10 ^ nat (scale + fx_rate_scale rate)) v"
    using assms unfolding convertMoney_def f by (auto simp: res_simps roundHalfEven_Inr_iff split: option.splits)
  then show ?thesis using that r by blast
qed

end
