(* ===== verification/MetricDefinitions.thy ===== *)
theory MetricDefinitions
  imports Decide Money
begin

text \<open>
  Metric definitions: the built-in revenue metrics, the check that a definition and its
  event series agree, the definitions of a run, and the cost records with the check of
  their dimension digest.
\<close>

section \<open>Built-in definitions\<close>

definition baseDefinition :: "string \<Rightarrow> zone \<Rightarrow> window_type \<Rightarrow> metric_definition" where
  "baseDefinition name zone window = \<lparr>
     md_metric_name = name,
     md_metric_definition_version = REFERENCE_RULE_VERSION,
     md_anchor_event = ''install'',
     md_aggregation_time_zone = zone,
     md_value_type = MoneyValue,
     md_currency = Some ''USD'',
     md_amount_scale = Some 6,
     md_ratio_scale = None,
     md_calculation = RevenueSum,
     md_window_type = window,
     md_window_day = 0,
     md_numerator = ''revenue'',
     md_denominator = None,
     md_cost_basis = None,
     md_activity_events = None,
     md_event_names = None,
     md_grouping_dimensions = None,
     md_fraud_policy = None,
     md_rule_bundle_id = ''metric-default'',
     md_rule_bundle_version = REFERENCE_RULE_VERSION,
     md_rule_bundle_hash = ZERO_HASH\<rparr>"

definition baseMetricNames :: "string list" where
  "baseMetricNames =
     [''d0_install_to_24h_ad_revenue_usd'', ''d0_utc_install_calendar_ad_revenue_usd'',
      ''d0_jst_install_calendar_ad_revenue_usd'']"

definition baseMetricDefinitions :: "metric_definition list" where
  "baseMetricDefinitions =
     [baseDefinition ''d0_install_to_24h_ad_revenue_usd'' UTC Elapsed,
      baseDefinition ''d0_utc_install_calendar_ad_revenue_usd'' UTC CalendarDay,
      baseDefinition ''d0_jst_install_calendar_ad_revenue_usd'' AsiaTokyo CalendarDay]"

section \<open>A definition and its event series\<close>

text \<open>The shape an event-count series must have: its one event and its exact dimensions.\<close>

definition countsOneEvent :: "metric_definition \<Rightarrow> string \<Rightarrow> string list \<Rightarrow> bool" where
  "countsOneEvent definition expectedEvent expectedGrouping =
     (let eventNames = orElse (md_event_names definition) [];
          grouping = orElse (md_grouping_dimensions definition) [] in
      md_calculation definition = EventCount \<and> md_numerator definition = ''events'' \<and>
      eventNames = [expectedEvent] \<and>
      length grouping = length expectedGrouping \<and> (\<forall>value \<in> set expectedGrouping. value \<in> set grouping))"

definition aggregateNames :: "string list" where
  "aggregateNames = [''skan_attributed_installs'', ''skan_conversion_value_distribution'', ''aak_attributed_installs'']"

definition aggregateEvents :: "string list" where
  "aggregateEvents = [''skan_postback'', ''adattributionkit_postback'']"

definition deepLinkNames :: "string list" where
  "deepLinkNames = [''daily_deep_link_opens'', ''daily_deep_link_opens_by_status'']"

definition seriesMatches :: "metric_definition \<Rightarrow> bool" where
  "seriesMatches definition =
     (let name = md_metric_name definition;
          eventNames = orElse (md_event_names definition) [];
          grouping = orElse (md_grouping_dimensions definition) [] in
      if name \<in> set aggregateNames then
        md_aggregation_time_zone definition = UTC \<and>
        countsOneEvent definition
          (if name = ''aak_attributed_installs'' then ''adattributionkit_postback'' else ''skan_postback'')
          (if name = ''skan_conversion_value_distribution'' then [''metric_date'', ''apple_conversion_bucket'']
           else [''metric_date''])
      else if name \<in> set deepLinkNames then
        countsOneEvent definition ''deep_link_open''
          (if name = ''daily_deep_link_opens_by_status'' then [''metric_date'', ''campaign_id'', ''attribution_status'']
           else [''metric_date'', ''campaign_id''])
      else \<not> (\<exists>value \<in> set eventNames. value \<in> set aggregateEvents) \<and>
           ''apple_conversion_bucket'' \<notin> set grouping)"

definition validateMetricDefinitionSeries :: "metric_definition \<Rightarrow> unit res" where
  "validateMetricDefinitionSeries definition =
     throwIf (\<not> seriesMatches definition)
       (JsError (''metric_definition_series_mismatch:'' @ md_metric_name definition))"

definition checkDefinition :: "string list \<Rightarrow> metric_definition \<Rightarrow> string list res" where
  "checkDefinition names definition =
     bindR (throwIf (md_metric_name definition \<in> set names)
              (JsError (''duplicate metric definition: '' @ md_metric_name definition))) (\<lambda>_.
     bindR (validateMetricDefinitionSeries definition) (\<lambda>_.
       Inr (md_metric_name definition # names)))"

definition metricDefinitions :: "digest \<Rightarrow> evaluation_input \<Rightarrow> metric_definition list res" where
  "metricDefinitions H input =
     (let definitions = baseMetricDefinitions @ in_metric_definitions input in
      bindR (foldR checkDefinition [] definitions) (\<lambda>_.
        Inr (sortByKey (\<lambda>d. H (HMetricDefinition d))
               (\<lambda>d. [md_metric_name d, md_metric_definition_version d]) definitions)))"

section \<open>Cost records\<close>

definition costDimensions :: "cost_record \<Rightarrow> (string \<times> string) list" where
  "costDimensions record =
     [(''network'', c_network record), (''campaign_id'', c_campaign_id record)] @
     (case c_ad_group_id record of None \<Rightarrow> [] | Some v \<Rightarrow> [(''ad_group_id'', v)]) @
     (case c_country record of None \<Rightarrow> [] | Some v \<Rightarrow> [(''country'', v)])"

definition checkCost :: "digest \<Rightarrow> cost_record \<Rightarrow> cost_record res" where
  "checkCost H record =
     bindR (throwIf (c_dimension_digest record \<noteq> H (hashObject (costDimensions record)))
              (JsError (''cost dimension_digest mismatch: '' @ c_cost_record_id record))) (\<lambda>_.
       Inr (record\<lparr>c_contract_version := CONTRACT_VERSION\<rparr>))"

definition costRecords :: "digest \<Rightarrow> evaluation_input \<Rightarrow> cost_record list res" where
  "costRecords H input =
     bindR (mapR (checkCost H) (in_cost_records input)) (\<lambda>records.
       Inr (sortByKey (\<lambda>c. H (HCostRecord c))
              (\<lambda>c. [c_cost_record_id c, c_tenant_id c, c_app_id c, c_as_of c]) records))"

section \<open>What passing the checks means\<close>

lemma checkDefinition_Inr:
  "checkDefinition names d = Inr names' \<longleftrightarrow>
     md_metric_name d \<notin> set names \<and> seriesMatches d \<and> names' = md_metric_name d # names"
  by (auto simp: checkDefinition_def validateMetricDefinitionSeries_def res_simps)

lemma fold_checkDefinition:
  "(\<exists>names'. foldR checkDefinition names ds = Inr names') \<longleftrightarrow>
     distinct (map md_metric_name ds) \<and> set names \<inter> md_metric_name ` set ds = {} \<and> (\<forall>d \<in> set ds. seriesMatches d)"
proof (induction ds arbitrary: names)
  case Nil
  then show ?case by simp
next
  case (Cons d ds)
  have "(\<exists>names'. foldR checkDefinition names (d # ds) = Inr names') \<longleftrightarrow>
      (md_metric_name d \<notin> set names \<and> seriesMatches d) \<and>
      (\<exists>names'. foldR checkDefinition (md_metric_name d # names) ds = Inr names')"
    by (auto simp: res_simps checkDefinition_Inr)
  then show ?case unfolding Cons.IH by auto
qed

lemma metricDefinitions_Inr:
  "(\<exists>ds. metricDefinitions H input = Inr ds) \<longleftrightarrow>
     distinct (map md_metric_name (baseMetricDefinitions @ in_metric_definitions input)) \<and>
     (\<forall>d \<in> set (in_metric_definitions input). seriesMatches d)"
proof -
  have base: "\<forall>d \<in> set baseMetricDefinitions. seriesMatches d" by code_simp
  have "(\<exists>ds. metricDefinitions H input = Inr ds) \<longleftrightarrow>
      (\<exists>names. foldR checkDefinition [] (baseMetricDefinitions @ in_metric_definitions input) = Inr names)"
    by (auto simp: metricDefinitions_def Let_def res_simps)
  then show ?thesis unfolding fold_checkDefinition using base by auto
qed

lemma checkCost_Inr:
  "checkCost H c = Inr c' \<longleftrightarrow>
     c_dimension_digest c = H (hashObject (costDimensions c)) \<and> c' = c\<lparr>c_contract_version := CONTRACT_VERSION\<rparr>"
  by (auto simp: checkCost_def res_simps)

end
