(* ===== verification/Metrics.thy ===== *)
theory Metrics
  imports Attribution MetricDefinitions
begin

text \<open>
  Metric runs: which attempts and costs a run sees at its watermark and privacy state, the
  grouping filter, eligible revenue, the value of each calculation, and the run record with
  its provenance.
\<close>

section \<open>Grouping and revenue windows\<close>

definition firstOf :: "'a option list \<Rightarrow> 'a option" where
  "firstOf xs = orElse (List.find (\<lambda>x. x \<noteq> None) xs) None"

definition importField :: "(import_context \<Rightarrow> string option) \<Rightarrow> payload \<Rightarrow> string option" where
  "importField f payload = Option.bind (p_import_context payload) f"

definition campaignOf :: "attempt \<Rightarrow> string option" where
  "campaignOf attempt =
     firstOf [p_campaign_id (at_payload attempt),
       Option.bind (s_deep_link_resolution (at_server attempt)) dr_campaign_id,
       importField ic_provider_campaign_ref (at_payload attempt)]"

definition networkOf :: "attempt \<Rightarrow> string option" where
  "networkOf attempt =
     firstOf [p_network (at_payload attempt), p_ad_network (at_payload attempt),
       importField ic_provider_network (at_payload attempt)]"

definition countryOf :: "attempt \<Rightarrow> string option" where
  "countryOf attempt = firstOf [p_country (at_payload attempt), importField ic_provider_country (at_payload attempt)]"

text \<open>\<^verbatim>\<open>wanted === undefined || actual === wanted\<close>\<close>

definition agrees :: "string option \<Rightarrow> string option \<Rightarrow> bool" where
  "agrees wanted actual = (wanted = None \<or> actual = wanted)"

type_synonym status_map = "(string \<times> attribution_status) list"

definition subjectRefOf :: "attempt \<Rightarrow> string option" where
  "subjectRefOf attempt =
     (if event_name attempt = ''install'' then p_installation_id (at_payload attempt)
      else Some (''engagement:'' @ record_id attempt))"

definition statusAgrees :: "grouping \<Rightarrow> status_map \<Rightarrow> attempt \<Rightarrow> bool" where
  "statusAgrees grouping attributionStatuses attempt =
     (case map_of grouping ''attribution_status'' of
        None \<Rightarrow> True
      | Some wanted \<Rightarrow>
          event_name attempt \<in> {''install'', ''deep_link_open''} \<longrightarrow>
            map_option attributionStatusText
              (map_of attributionStatuses
                (compositeKey [Some (tenant_id attempt), Some (app_id attempt), subjectRefOf attempt])) = Some wanted)"

definition cohortDateAgrees :: "grouping \<Rightarrow> attempt \<Rightarrow> bool res" where
  "cohortDateAgrees grouping attempt =
     (case map_of grouping ''cohort_date'' of
        None \<Rightarrow> Inr True
      | Some wanted \<Rightarrow>
          if event_name attempt = ''install''
          then bindR (dateAt (Some (r_occurred_at (at_record attempt))) UTC ''occurred_at'') (\<lambda>date.
                 Inr (date = wanted))
          else Inr True)"

definition matchesGrouping :: "attempt \<Rightarrow> grouping option \<Rightarrow> status_map \<Rightarrow> bool res" where
  "matchesGrouping attempt grouping attributionStatuses =
     (case grouping of
        None \<Rightarrow> Inr True
      | Some g \<Rightarrow>
          if \<not> agrees (map_of g ''campaign_id'') (campaignOf attempt) then Inr False
          else if \<not> agrees (map_of g ''network'') (networkOf attempt) then Inr False
          else if \<not> agrees (map_of g ''country'') (countryOf attempt) then Inr False
          else andR (cohortDateAgrees g attempt) (Inr (statusAgrees g attributionStatuses attempt)))"

definition eligibleRevenue :: "metric_definition \<Rightarrow> event_record \<Rightarrow> event_record \<Rightarrow> bool res" where
  "eligibleRevenue definition install revenue =
     (let dayIndex = md_window_day definition; zone = md_aggregation_time_zone definition in
      if md_window_type definition = CalendarDay then
        bindR (dateAt (Some (r_occurred_at revenue)) zone ''occurred_at'') (\<lambda>revenueDate.
        bindR (time (Some (r_occurred_at install)) ''occurred_at'') (\<lambda>installed.
        bindR (toISOString (installed + dayIndex * DAY_MS)) (\<lambda>day.
        bindR (dateAt (Some day) zone ''occurred_at'') (\<lambda>cohortDate.
          Inr (revenueDate = cohortDate)))))
      else
        bindR (time (Some (r_occurred_at revenue)) ''occurred_at'') (\<lambda>earned.
        bindR (time (Some (r_occurred_at install)) ''occurred_at'') (\<lambda>installed.
          let elapsed = earned - installed in
          Inr (0 \<le> elapsed \<and> elapsed < (dayIndex + 1) * DAY_MS))))"

section \<open>What a run sees\<close>

definition attributionStatusMap :: "attribution list \<Rightarrow> status_map" where
  "attributionStatusMap attributions =
     mapFromPairs (map (\<lambda>attribution.
         (compositeKey [Some (a_tenant_id attribution), Some (a_app_id attribution), a_subject_ref attribution],
          a_status attribution))
       (filter (\<lambda>attribution. a_subject_scope attribution \<in> {InstallationLevel, EngagementLevel}) attributions))"

definition includedAttempts :: "digest \<Rightarrow> decisions \<Rightarrow> metric_evaluation \<Rightarrow> attempt list \<Rightarrow> attempt list res" where
  "includedAttempts H decisions evaluation all =
     filterR (\<lambda>attempt. bindR (isAcceptedUnique H decisions attempt) (\<lambda>b. Inr (b \<and>
       compareText (r_received_at (at_record attempt)) (me_input_received_at_watermark evaluation) \<le> 0))) all"

text \<open>The lifecycle a run reports for an attempt, by its privacy state.\<close>

definition reportedLifecycle :: "metric_evaluation \<Rightarrow> lifecycle_index \<Rightarrow> attempt \<Rightarrow> lifecycle_status" where
  "reportedLifecycle evaluation lifecycle attempt =
     (if me_privacy_state evaluation = ''after'' then lifecycleOf lifecycle (attemptEvidenceKey attempt) else Available)"

definition visibleAttempts :: "metric_evaluation \<Rightarrow> lifecycle_index \<Rightarrow> attempt list \<Rightarrow> attempt list" where
  "visibleAttempts evaluation lifecycle included =
     filter (\<lambda>attempt. me_privacy_state evaluation \<noteq> ''after'' \<or> \<not> hidden lifecycle attempt) included"

definition recordSnapshotRows :: "digest \<Rightarrow> metric_evaluation \<Rightarrow> lifecycle_index \<Rightarrow> attempt list \<Rightarrow> string list list" where
  "recordSnapshotRows H evaluation lifecycle included =
     map (\<lambda>attempt. [r_received_at (at_record attempt), record_id attempt,
            lifecycleText (reportedLifecycle evaluation lifecycle attempt), s_policy_digest (at_server attempt)])
       (sortCandidateAttempts H included)"

definition recordEvidence :: "digest \<Rightarrow> metric_evaluation \<Rightarrow> lifecycle_index \<Rightarrow> attempt list \<Rightarrow> evidence_ref list" where
  "recordEvidence H evaluation lifecycle included =
     map (\<lambda>attempt. \<lparr>ev_tenant_id = tenant_id attempt, ev_app_id = app_id attempt, ev_ref = record_id attempt,
            ev_lifecycle_status = reportedLifecycle evaluation lifecycle attempt, ev_access_class = ProtectedAccess\<rparr>)
       (sortCandidateAttempts H included)"

definition reproducibilityOf :: "metric_evaluation \<Rightarrow> lifecycle_index \<Rightarrow> attempt list \<Rightarrow> reproducibility" where
  "reproducibilityOf evaluation lifecycle included =
     (let affectedStates =
            (if me_privacy_state evaluation = ''after''
             then map (\<lambda>attempt. map_of lifecycle (attemptEvidenceKey attempt)) included else [])
      in if Some Redacted \<in> set affectedStates then RedactionAffected
         else if Some Purged \<in> set affectedStates then RetentionAffected
         else FullyReproducible)"

definition costInRun :: "metric_evaluation \<Rightarrow> attempt list \<Rightarrow> cost_record \<Rightarrow> bool" where
  "costInRun evaluation installs cost =
     (let g = orElse (me_grouping evaluation) [];
          cohortScopes = map (\<lambda>install. compositeKey [Some (tenant_id install), Some (app_id install)]) installs in
      agrees (map_of g ''attribution_status'') (Some ''non_organic'') \<and>
      compareText (c_as_of cost) (me_input_received_at_watermark evaluation) \<le> 0 \<and>
      (cohortScopes \<noteq> [] \<longrightarrow> compositeKey [Some (c_tenant_id cost), Some (c_app_id cost)] \<in> set cohortScopes) \<and>
      agrees (map_of g ''campaign_id'') (Some (c_campaign_id cost)) \<and>
      agrees (map_of g ''network'') (Some (c_network cost)) \<and>
      agrees (map_of g ''country'') (c_country cost) \<and>
      agrees (map_of g ''cohort_date'') (Some (c_date cost)))"

definition currentCosts :: "metric_evaluation \<Rightarrow> attempt list \<Rightarrow> cost_record list \<Rightarrow> cost_record list" where
  "currentCosts evaluation installs costs =
     map snd (mapFromPairs (map (\<lambda>cost.
         (compositeKey [Some (c_tenant_id cost), Some (c_app_id cost), Some (c_dimension_digest cost)], cost))
       (js_sort (\<lambda>a b. let c = compareText (c_as_of a) (c_as_of b) in
                   if c \<noteq> 0 then c else compareText (c_cost_record_id a) (c_cost_record_id b))
         (filter (costInRun evaluation installs) costs))))"

definition costSnapshotRows :: "digest \<Rightarrow> cost_record list \<Rightarrow> string list list" where
  "costSnapshotRows H costs =
     map (\<lambda>cost. [''cost'', c_as_of cost, c_cost_record_id cost, c_report_snapshot_digest cost, c_dimension_digest cost])
       (sortByKey (\<lambda>c. H (HCostRecord c)) (\<lambda>c. [c_as_of c, c_cost_record_id c]) costs)"

definition costEvidence :: "cost_record list \<Rightarrow> evidence_ref list" where
  "costEvidence costs =
     map (\<lambda>cost. \<lparr>ev_tenant_id = c_tenant_id cost, ev_app_id = c_app_id cost, ev_ref = c_cost_record_id cost,
            ev_lifecycle_status = Available, ev_access_class = ProtectedAccess\<rparr>) costs"

text \<open>Everything the metrics of one evaluation share.\<close>

record run_view =
  v_visible :: "attempt list"
  v_installs :: "attempt list"
  v_revenue :: "attempt list"
  v_costs :: "cost_record list"
  v_snapshot_rows :: "string list list"
  v_ledger :: "string list option"
  v_reproducibility :: reproducibility
  v_evidence_refs :: "evidence_ref list"

definition runView ::
  "digest \<Rightarrow> decisions \<Rightarrow> lifecycle_index \<Rightarrow> status_map \<Rightarrow> cost_record list \<Rightarrow> attempt list \<Rightarrow>
    metric_evaluation \<Rightarrow> run_view res" where
  "runView H decisions lifecycle attributionStatuses costs all evaluation =
     bindR (includedAttempts H decisions evaluation all) (\<lambda>included.
       let rows = recordSnapshotRows H evaluation lifecycle included;
           visible = visibleAttempts evaluation lifecycle included in
       bindR (filterR (\<lambda>attempt. andR (Inr (event_name attempt = ''install''))
                (matchesGrouping attempt (me_grouping evaluation) attributionStatuses)) visible) (\<lambda>installs.
         let current = currentCosts evaluation installs costs in
         Inr \<lparr>v_visible = visible,
              v_installs = installs,
              v_revenue = filter (\<lambda>attempt. event_name attempt = ''ad_revenue'' \<and>
                            p_subject_scope (at_payload attempt) = Some ''installation_level'') visible,
              v_costs = current,
              v_snapshot_rows = rows @ costSnapshotRows H current,
              v_ledger = (if rows = [] then None else Some (last rows)),
              v_reproducibility = reproducibilityOf evaluation lifecycle included,
              v_evidence_refs =
                sortByKey (\<lambda>e. H (HEvidence e)) (\<lambda>e. [ev_ref e, ev_tenant_id e, ev_app_id e])
                  (recordEvidence H evaluation lifecycle included @ costEvidence current)\<rparr>))"

section \<open>The calculations\<close>

definition installationOf :: "attempt list \<Rightarrow> attempt \<Rightarrow> attempt option" where
  "installationOf installs item =
     List.find (\<lambda>candidate. sameScope candidate item \<and>
       p_installation_id (at_payload candidate) = p_installation_id (at_payload item)) installs"

definition eligibleInstalls :: "metric_definition \<Rightarrow> string option list \<Rightarrow> attempt list \<Rightarrow> attempt list" where
  "eligibleInstalls definition excluded installs =
     (if md_fraud_policy definition = Some Net
      then filter (\<lambda>candidate. p_installation_id (at_payload candidate) \<notin> set excluded) installs
      else installs)"

definition addRevenue :: "metric_definition \<Rightarrow> fx_policy \<Rightarrow> attempt list \<Rightarrow> int \<Rightarrow> attempt \<Rightarrow> int res" where
  "addRevenue definition fx installs acc item =
     (case installationOf installs item of
        None \<Rightarrow> Inr acc
      | Some installation \<Rightarrow>
          bindR (eligibleRevenue definition (at_record installation) (at_record item)) (\<lambda>eligible.
            if eligible then bindR (convertMoney (at_payload item) fx) (\<lambda>v. Inr (acc + v)) else Inr acc))"

definition revenueValue :: "metric_definition \<Rightarrow> fx_policy \<Rightarrow> attempt list \<Rightarrow> attempt list \<Rightarrow> int res" where
  "revenueValue definition fx installs revenue = foldR (addRevenue definition fx installs) 0 revenue"

definition cohortSize :: "attempt list \<Rightarrow> int" where
  "cohortSize installs = int (length (remdups (map (\<lambda>install. p_installation_id (at_payload install)) installs)))"

definition addCost :: "fx_policy \<Rightarrow> int \<Rightarrow> cost_record \<Rightarrow> int res" where
  "addCost fx acc item =
     bindR (throwIf (c_currency item \<noteq> fp_target_currency fx)
              (JsError (''cost currency mismatch: '' @ c_cost_record_id item))) (\<lambda>_.
     bindR (scaleMoney (c_amount_unscaled item) (c_amount_scale item) (fp_target_scale fx)) (\<lambda>v.
       Inr (acc + v)))"

text \<open>
  The installations with an activity event on day \<^verbatim>\<open>window.day\<close>. Subtraction and division
  of the two instants are exact in the language for differences below \<open>2 ^ 53\<close> ms.
\<close>

definition addActive ::
  "metric_definition \<Rightarrow> attempt list \<Rightarrow> string option list \<Rightarrow> attempt \<Rightarrow> string option list res" where
  "addActive definition installs active session =
     (case installationOf installs session of
        None \<Rightarrow> Inr active
      | Some installation \<Rightarrow>
          bindR (time (Some (r_occurred_at (at_record session))) ''occurred_at'') (\<lambda>seen.
          bindR (time (Some (r_occurred_at (at_record installation))) ''occurred_at'') (\<lambda>installed.
            let dayIndex = (seen - installed) div DAY_MS in
            Inr (if dayIndex = md_window_day definition
                 then List.insert (p_installation_id (at_payload installation)) active else active))))"

definition activeInstallations ::
  "metric_definition \<Rightarrow> attempt list \<Rightarrow> attempt list \<Rightarrow> string option list res" where
  "activeInstallations definition installs activities =
     foldR (addActive definition installs) []
       (filter (\<lambda>item. event_name item \<in> set (orElse (md_activity_events definition) [''session_start''])) activities)"

definition ratioScale :: "metric_definition \<Rightarrow> int" where
  "ratioScale definition = orElse (md_ratio_scale definition) 6"

section \<open>Event counts\<close>

definition conversionBucket :: "payload \<Rightarrow> string option" where
  "conversionBucket payload =
     (case p_conversion_value payload of
        Some v \<Rightarrow> Some (''fine:'' @ showInt v)
      | None \<Rightarrow> map_option (\<lambda>c. ''coarse:'' @ c) (p_coarse_conversion_value payload))"

definition winningPostback :: "attribution list \<Rightarrow> attempt \<Rightarrow> bool" where
  "winningPostback attributions attempt =
     (\<exists>candidate \<in> set attributions.
        a_tenant_id candidate = tenant_id attempt \<and> a_app_id candidate = app_id attempt \<and>
        a_subject_scope candidate = AggregateScope \<and> a_status candidate = NonOrganic \<and>
        (\<exists>reference \<in> set (a_evidence_refs candidate). ev_ref reference = record_id attempt))"

definition countsPostback ::
  "attribution list \<Rightarrow> string \<Rightarrow> string \<Rightarrow> string option \<Rightarrow> attempt \<Rightarrow> bool res" where
  "countsPostback attributions eventName metricDate bucket attempt =
     (if event_name attempt \<noteq> eventName then Inr False
      else bindR (dateAt (Some (r_received_at (at_record attempt))) UTC ''received_at'') (\<lambda>date.
        Inr (date = metricDate \<and> winningPostback attributions attempt \<and>
             (bucket = None \<or> conversionBucket (at_payload attempt) = bucket))))"

definition countPostbacks ::
  "metric_definition \<Rightarrow> attribution list \<Rightarrow> grouping \<Rightarrow> attempt list \<Rightarrow> string \<Rightarrow> string \<Rightarrow> string \<Rightarrow> int res" where
  "countPostbacks definition attributions g visible metricName eventName metricDate =
     (let bucket = map_of g ''apple_conversion_bucket'';
          expectedEventName =
            (if metricName = ''aak_attributed_installs'' then ''adattributionkit_postback'' else ''skan_postback'') in
      bindR (throwIf (md_aggregation_time_zone definition \<noteq> UTC)
               (JsError (''aggregate event_count requires UTC aggregation: '' @ metricName))) (\<lambda>_.
      bindR (throwIf (map_of g ''attribution_status'' \<noteq> None)
               (JsError (''aggregate event_count forbids attribution_status: '' @ metricName))) (\<lambda>_.
      bindR (throwIf (metricName \<notin> set aggregateNames \<or> eventName \<noteq> expectedEventName)
               (JsError (''aggregate event_count metric and event mismatch: '' @ metricName))) (\<lambda>_.
      bindR (throwIf (metricName = ''skan_conversion_value_distribution'' \<and> bucket = None)
               (JsError (''SKAN conversion distribution requires apple_conversion_bucket: '' @ metricName))) (\<lambda>_.
      bindR (throwIf (metricName \<noteq> ''skan_conversion_value_distribution'' \<and> bucket \<noteq> None)
               (JsError (''apple_conversion_bucket is reserved for SKAN conversion distribution: '' @ metricName))) (\<lambda>_.
      bindR (filterR (countsPostback attributions eventName metricDate bucket) visible) (\<lambda>counted.
        Inr (int (length counted)))))))))"

definition countsEvent ::
  "metric_definition \<Rightarrow> string option list \<Rightarrow> grouping option \<Rightarrow> status_map \<Rightarrow> string list \<Rightarrow> string \<Rightarrow>
    attempt \<Rightarrow> bool res" where
  "countsEvent definition excluded grouping attributionStatuses eventNames metricDate attempt =
     (if event_name attempt \<in> set eventNames \<and>
         (md_fraud_policy definition \<noteq> Some Net \<or> event_name attempt \<noteq> ''install'' \<or>
          p_installation_id (at_payload attempt) \<notin> set excluded)
      then andR (matchesGrouping attempt grouping attributionStatuses)
             (bindR (dateAt (Some (r_occurred_at (at_record attempt))) (md_aggregation_time_zone definition) ''occurred_at'')
               (\<lambda>date. Inr (date = metricDate)))
      else Inr False)"

definition countEvents ::
  "metric_definition \<Rightarrow> string option list \<Rightarrow> grouping option \<Rightarrow> status_map \<Rightarrow> attempt list \<Rightarrow> string \<Rightarrow> string \<Rightarrow>
    string \<Rightarrow> int res" where
  "countEvents definition excluded grouping attributionStatuses visible metricName eventName metricDate =
     (let g = orElse grouping [] in
      bindR (throwIf (map_of g ''apple_conversion_bucket'' \<noteq> None)
               (JsError (''apple_conversion_bucket requires aggregate SKAN events: '' @ metricName))) (\<lambda>_.
      bindR (throwIf (map_of g ''attribution_status'' \<noteq> None \<and> eventName \<notin> {''install'', ''deep_link_open''})
               (JsError (''attribution_status event_count requires install or deep_link_open events: '' @ metricName))) (\<lambda>_.
      bindR (filterR (countsEvent definition excluded grouping attributionStatuses
                (orElse (md_event_names definition) []) metricDate) visible) (\<lambda>counted.
        Inr (int (length counted))))))"

definition eventCount ::
  "metric_definition \<Rightarrow> string option list \<Rightarrow> attribution list \<Rightarrow> grouping option \<Rightarrow> status_map \<Rightarrow> attempt list \<Rightarrow>
    string \<Rightarrow> int res" where
  "eventCount definition excluded attributions grouping attributionStatuses visible metricName =
     (let eventNames = remdups (orElse (md_event_names definition) []); g = orElse grouping [] in
      case map_of g ''metric_date'' of
        None \<Rightarrow> Inl (JsError (''event_count requires metric_date grouping: '' @ metricName))
      | Some metricDate \<Rightarrow>
          (case eventNames of
             [eventName] \<Rightarrow>
               if eventName \<in> set aggregateEvents
               then countPostbacks definition attributions g visible metricName eventName metricDate
               else if eventName \<in> {''click'', ''install'', ''deep_link_open''}
               then countEvents definition excluded grouping attributionStatuses visible metricName eventName metricDate
               else Inl (JsError (''event_count requires exactly one supported event name: '' @ metricName))
           | _ \<Rightarrow> Inl (JsError (''event_count requires exactly one supported event name: '' @ metricName))))"

section \<open>The value of a metric\<close>

type_synonym metric_value = "int option \<times> undefined_reason option"

definition metricValue ::
  "fx_policy \<Rightarrow> string option list \<Rightarrow> attribution list \<Rightarrow> status_map \<Rightarrow> grouping option \<Rightarrow> run_view \<Rightarrow>
    metric_definition \<Rightarrow> metric_value res" where
  "metricValue fx excluded attributions attributionStatuses grouping view definition =
     (let eligible = eligibleInstalls definition excluded (v_installs view); size = cohortSize eligible in
      bindR (revenueValue definition fx eligible (v_revenue view)) (\<lambda>revenue.
      case md_calculation definition of
        RevenueSum \<Rightarrow> Inr (Some revenue, None)
      | RevenueOverCost \<Rightarrow>
          bindR (foldR (addCost fx) 0 (v_costs view)) (\<lambda>cost.
            if cost = 0 then Inr (None, Some NoAttributedCost)
            else bindR (powTen (ratioScale definition)) (\<lambda>p.
                 bindR (roundHalfEven (revenue * p) cost) (\<lambda>v. Inr (Some v, None))))
      | ActiveInstallationsOverCohort \<Rightarrow>
          if size = 0 then Inr (None, Some EmptyCohort)
          else bindR (activeInstallations definition (v_installs view) (v_visible view)) (\<lambda>active.
               bindR (powTen (ratioScale definition)) (\<lambda>p.
               bindR (roundHalfEven (int (length active) * p) size) (\<lambda>v. Inr (Some v, None))))
      | RevenueOverCohort \<Rightarrow>
          if size = 0 then Inr (None, Some EmptyCohort)
          else bindR (roundHalfEven revenue size) (\<lambda>v. Inr (Some v, None))
      | CohortSize \<Rightarrow> Inr (Some size, None)
      | EventCount \<Rightarrow>
          bindR (eventCount definition excluded attributions grouping attributionStatuses (v_visible view)
                  (md_metric_name definition)) (\<lambda>v. Inr (Some v, None))
      | OtherCalculation name \<Rightarrow> Inl (JsError (''unsupported metric calculation: '' @ name))))"

section \<open>The runs\<close>

definition assertGroupingSupported :: "metric_definition \<Rightarrow> grouping option \<Rightarrow> string \<Rightarrow> unit res" where
  "assertGroupingSupported definition grouping metricName =
     (case (grouping, md_grouping_dimensions definition) of
        (Some g, Some dimensions) \<Rightarrow>
          let unsupported = filter (\<lambda>dimension. dimension \<notin> set dimensions) (map fst g) in
          throwIf (unsupported \<noteq> [])
            (JsError (''unsupported grouping for '' @ metricName @ '': '' @ joinWith '','' unsupported))
      | _ \<Rightarrow> Inr ())"

definition makeRun ::
  "digest \<Rightarrow> fx_policy \<Rightarrow> fx_rate \<Rightarrow> metric_evaluation \<Rightarrow> run_view \<Rightarrow> metric_definition \<Rightarrow> metric_value \<Rightarrow> metric_run" where
  "makeRun H fx fxRate evaluation view definition result =
     (let value = fst result; metricName = md_metric_name definition;
          money = (md_value_type definition = MoneyValue \<and> value \<noteq> None) in \<lparr>
        mr_metric_run_id = me_metric_run_id_prefix evaluation @ '':'' @ metricName,
        mr_metric_name = metricName,
        mr_metric_definition_version = md_metric_definition_version definition,
        mr_input_snapshot_id = H (HRows (v_snapshot_rows view)),
        mr_input_received_at_watermark = me_input_received_at_watermark evaluation,
        mr_input_ledger_position =
          (case v_ledger view of None \<Rightarrow> ''empty'' | Some row \<Rightarrow> row ! 0 @ ''|'' @ row ! 1),
        mr_computed_at = me_computed_at evaluation,
        mr_data_freshness = me_data_freshness evaluation,
        mr_aggregation_time_zone = md_aggregation_time_zone definition,
        mr_rule_bundle_id = md_rule_bundle_id definition,
        mr_rule_bundle_version = md_rule_bundle_version definition,
        mr_rule_bundle_hash = md_rule_bundle_hash definition,
        mr_rounding_mode = fp_rounding_mode fx,
        mr_reproducibility_status = v_reproducibility view,
        mr_value_type = md_value_type definition,
        mr_fraud_policy = md_fraud_policy definition,
        mr_value_state = (if value = None then Some ''undefined'' else None),
        mr_value_unscaled = map_option showInt value,
        mr_undefined_reason = (if value = None then snd result else None),
        mr_fx = (if money then Some (fxRate, H (HRates (fp_rates fx)), fp_policy_version fx) else None),
        mr_amount_scale = (if money then md_amount_scale definition else None),
        mr_currency = (if money then md_currency definition else None),
        mr_ratio_scale = (if md_value_type definition = RatioValue then md_ratio_scale definition else None),
        mr_grouping = map_option (\<lambda>g. \<lparr>gr_dimensions = g, gr_dimension_digest = H (hashObject g)\<rparr>)
          (me_grouping evaluation),
        mr_evidence_refs = v_evidence_refs view,
        mr_supersedes_metric_run_id =
          (if truthy (me_supersedes_metric_run_id_prefix evaluation)
           then map_option (\<lambda>p. p @ '':'' @ metricName) (me_supersedes_metric_run_id_prefix evaluation) else None)\<rparr>)"

definition metricRun ::
  "digest \<Rightarrow> fx_policy \<Rightarrow> string option list \<Rightarrow> attribution list \<Rightarrow> status_map \<Rightarrow> (string \<times> metric_definition) list \<Rightarrow>
    fx_rate \<Rightarrow> metric_evaluation \<Rightarrow> run_view \<Rightarrow> string \<Rightarrow> metric_run res" where
  "metricRun H fx excluded attributions attributionStatuses definitionsByName fxRate evaluation view metricName =
     (case map_of definitionsByName metricName of
        None \<Rightarrow> Inl (JsError (''unknown metric definition: '' @ metricName))
      | Some definition \<Rightarrow>
          bindR (assertGroupingSupported definition (me_grouping evaluation) metricName) (\<lambda>_.
          bindR (metricValue fx excluded attributions attributionStatuses (me_grouping evaluation) view definition)
            (\<lambda>result.
          bindR (throwIf (md_calculation definition \<noteq> EventCount \<and>
                   map_of (orElse (me_grouping evaluation) []) ''metric_date'' \<noteq> None)
                   (JsError (''metric_date grouping is reserved for event_count: '' @ metricName))) (\<lambda>_.
            Inr (makeRun H fx fxRate evaluation view definition result)))))"

definition evaluationRuns ::
  "digest \<Rightarrow> fx_policy \<Rightarrow> decisions \<Rightarrow> lifecycle_index \<Rightarrow> attribution list \<Rightarrow> string option list \<Rightarrow>
    metric_definition list \<Rightarrow> cost_record list \<Rightarrow> attempt list \<Rightarrow> metric_evaluation \<Rightarrow> metric_run list res" where
  "evaluationRuns H fx decisions lifecycle attributions excluded definitions costs all evaluation =
     (let attributionStatuses = attributionStatusMap attributions;
          definitionsByName = mapFromPairs (map (\<lambda>d. (md_metric_name d, d)) definitions) in
      bindR (runView H decisions lifecycle attributionStatuses costs all evaluation) (\<lambda>view.
        case fp_rates fx of
          [fxRate] \<Rightarrow>
            mapR (metricRun H fx excluded attributions attributionStatuses definitionsByName fxRate evaluation view)
              (orElse (me_metric_names evaluation) baseMetricNames)
        | _ \<Rightarrow> Inl (JsError ''v0.2 metric runs require exactly one structured FX rate'')))"

definition metricRuns ::
  "digest \<Rightarrow> evaluation_input \<Rightarrow> attempt list \<Rightarrow> decisions \<Rightarrow> lifecycle_index \<Rightarrow> attribution list \<Rightarrow>
    string option list \<Rightarrow> metric_run list res" where
  "metricRuns H input all decisions lifecycle attributions excluded =
     (if in_metric_evaluations input = [] then Inr []
      else bindR (metricDefinitions H input) (\<lambda>definitions.
           bindR (costRecords H input) (\<lambda>costs.
           bindR (flatMapR (evaluationRuns H (in_fx_policy input) decisions lifecycle attributions excluded
                    definitions costs all) (in_metric_evaluations input)) (\<lambda>runs.
             Inr (sortByKey (\<lambda>r. H (HMetricRun r)) (\<lambda>r. [mr_metric_run_id r]) runs)))))"

end
