(* ===== verification/FraudDecisions.thy ===== *)
theory FraudDecisions
  imports Attribution
begin

text \<open>
  Fraud decisions of a run: the rule bundle bound to a server context, transport, install and
  source-day decisions, provisional attributions of days with too many negative clocks, and
  the exclusion of attributions whose click was excluded.
\<close>

section \<open>The bound bundle\<close>

type_synonym bound_bundle = "fraud_bundle \<times> string"

definition DEFAULT_BOUND :: "digest \<Rightarrow> bound_bundle" where
  "DEFAULT_BOUND H = (DEFAULT_FRAUD_BUNDLE, H (HFraudBundle DEFAULT_FRAUD_BUNDLE))"

definition boundFraudBundle :: "digest \<Rightarrow> server_context \<Rightarrow> bound_bundle option res" where
  "boundFraudBundle H server =
     (if s_fraud_enabled server = Some False then Inr None
      else case s_fraud_rule_bundle server of
        None \<Rightarrow> Inr (Some (DEFAULT_BOUND H))
      | Some bound \<Rightarrow>
          let bundle = bc_definition bound in
          bindR (fraudBundleHash H bundle) (\<lambda>hash.
          bindR (throwIf (bc_rule_bundle_id bound \<noteq> fb_id bundle \<or> bc_rule_bundle_version bound \<noteq> fb_version bundle)
                   (JsError ''fraud_rule_bundle_identity_mismatch'')) (\<lambda>_.
          bindR (throwIf (bc_definition_digest bound \<noteq> H (HFraudBundle bundle))
                   (JsError ''fraud_rule_bundle_definition_digest_mismatch'')) (\<lambda>_.
          bindR (throwIf (bc_rule_bundle_hash bound \<noteq> hash) (JsError ''fraud_rule_bundle_hash_mismatch'')) (\<lambda>_.
            Inr (Some (bundle, hash)))))))"

text \<open>\<^verbatim>\<open>new Date(number).toISOString()\<close>\<close>

definition isoFromNumber :: "number \<Rightarrow> string res" where
  "isoFromNumber n = (case n of Fin x \<Rightarrow> toISOString (truncateRat x) | _ \<Rightarrow> Inl RangeError)"

definition quarantineDeadline :: "fraud_action \<Rightarrow> string \<Rightarrow> fraud_bundle \<Rightarrow> string option res" where
  "quarantineDeadline action evaluatedAt bundle =
     (if action \<noteq> Quarantine then Inr None
      else let hours = fraudNumberParameter bundle ''quarantine_hours'' (numN 72) in
           bindR (time (Some evaluatedAt) ''evaluated_at'') (\<lambda>t.
           bindR (isoFromNumber (addN (numN t) (mulN hours (numN 3600000)))) (\<lambda>s. Inr (Some s))))"

fun fraudReasonText :: "fraud_reason \<Rightarrow> string" where
  "fraudReasonText BotPrefetchReason = ''bot_prefetch''"
| "fraudReasonText ReplaySuspected = ''replay_suspected''"
| "fraudReasonText ClickInjectionSuspected = ''click_injection_suspected''"
| "fraudReasonText CtitClockAnomaly = ''ctit_clock_anomaly''"
| "fraudReasonText ClickFloodingSuspected = ''click_flooding_suspected''"
| "fraudReasonText ReferrerTimeInconsistent = ''referrer_time_inconsistent''"
| "fraudReasonText DeviceIntegrityFailed = ''device_integrity_failed''"

fun evidenceTypeText :: "fraud_evidence_type \<Rightarrow> string" where
  "evidenceTypeText CtitCategory = ''ctit_category''"
| "evidenceTypeText CtitClockDiagnostic = ''ctit_clock_diagnostic''"
| "evidenceTypeText ServerClockOrder = ''server_clock_order''"
| "evidenceTypeText SourceDayDistribution = ''source_day_distribution''"

definition fraudEvidence :: "string \<Rightarrow> string \<Rightarrow> string \<Rightarrow> fraud_evidence" where
  "fraudEvidence type capturedAt hash =
     \<lparr>fe_type = type, fe_captured_at = capturedAt, fe_digest = hash, fe_access_class = ProtectedAccess\<rparr>"

section \<open>Transport decisions on clicks\<close>

definition transportDecision :: "digest \<Rightarrow> bound_bundle \<Rightarrow> attempt \<Rightarrow> fraud_decision res" where
  "transportDecision H bound attempt =
     (let replay = (p_replay_suspected (at_payload attempt) = Some True);
          reason = (if replay then ReplaySuspected else BotPrefetchReason);
          ruleId = (if replay then ''transport-replay-v1'' else ''transport-bot-prefetch-v1'');
          action = fraudRuleAction (fst bound) ruleId Exclude;
          received = r_received_at (at_record attempt) in
      bindR (quarantineDeadline action received (fst bound)) (\<lambda>deadline. Inr \<lparr>
        f_fraud_decision_id = ''fraud:'' @ record_id attempt,
        f_subject_scope = None,
        f_subject_ref = record_id attempt,
        f_decision = Suspected,
        f_action = action,
        f_reason_code = reason,
        f_reason_code_version = CONTRACT_VERSION,
        f_evidence = [fraudEvidence (if replay then ''replay_category'' else ''link_prefetch_category'') received
          (H (HTexts [Some (fraudReasonText reason), Some (record_id attempt)]))],
        f_rule_bundle_id = fb_id (fst bound),
        f_rule_bundle_version = fb_version (fst bound),
        f_rule_bundle_hash = snd bound,
        f_rule_id = ruleId,
        f_evaluated_at = received,
        f_resolution_deadline_at = deadline\<rparr>))"

definition transportFraud :: "digest \<Rightarrow> attempt \<Rightarrow> fraud_decision list res" where
  "transportFraud H attempt =
     (if event_name attempt \<noteq> ''click'' \<or>
         (p_bot_prefetch (at_payload attempt) \<noteq> Some True \<and> p_replay_suspected (at_payload attempt) \<noteq> Some True)
      then Inr []
      else bindR (boundFraudBundle H (at_server attempt)) (\<lambda>bound. case bound of
             None \<Rightarrow> Inr []
           | Some b \<Rightarrow> bindR (transportDecision H b attempt) (\<lambda>d. Inr [d])))"

section \<open>Install decisions\<close>

definition isMatchingClick :: "attempt \<Rightarrow> attempt \<Rightarrow> bool" where
  "isMatchingClick attempt candidate =
     (sameScope candidate attempt \<and> event_name candidate = ''click'' \<and>
      p_click_id (at_payload candidate) = p_click_id (at_payload attempt) \<and>
      p_redirector_time_status (at_payload candidate) \<noteq> Some ''invalid'' \<and>
      truthy (p_redirector_click_at (at_payload candidate)))"

definition matchingClick :: "attempt list \<Rightarrow> attempt \<Rightarrow> attempt option" where
  "matchingClick acceptedUnique attempt =
     (if \<not> truthy (p_click_id (at_payload attempt)) then None
      else case filter (isMatchingClick attempt) acceptedUnique of [click] \<Rightarrow> Some click | _ \<Rightarrow> None)"

definition configuredPolicy :: "digest \<Rightarrow> bound_bundle \<Rightarrow> server_context \<Rightarrow> click_injection_policy" where
  "configuredPolicy H bound server =
     (case s_click_injection_policy server of
        Some policy \<Rightarrow> policy
      | None \<Rightarrow>
          let threshold = fraudNumberParameter (fst bound) ''ctit_lower_bound_seconds'' (numN 10);
              version = fb_id (fst bound) @ '':'' @ fb_version (fst bound) in
          \<lparr>cp_threshold_seconds = threshold, cp_authority = ''server'', cp_policy_version = version,
           cp_policy_digest = clickInjectionPolicyDigest H threshold ''server'' version\<rparr>)"

definition installDecision ::
  "digest \<Rightarrow> bound_bundle \<Rightarrow> attempt \<Rightarrow> attempt option \<Rightarrow> fraud_rule_hit \<Rightarrow> fraud_decision res" where
  "installDecision H bound attempt click hit =
     (let received = r_received_at (at_record attempt) in
      bindR (quarantineDeadline (h_action hit) received (fst bound)) (\<lambda>deadline. Inr \<lparr>
        f_fraud_decision_id =
          (if h_ruleId hit = ''ctit-lower-bound-v1'' then ''fraud:'' @ record_id attempt @ '':click-injection''
           else ''fraud:'' @ record_id attempt @ '':'' @ h_ruleId hit),
        f_subject_scope = None,
        f_subject_ref = record_id attempt,
        f_decision = h_decision hit,
        f_action = h_action hit,
        f_reason_code = h_reasonCode hit,
        f_reason_code_version = CONTRACT_VERSION,
        f_evidence = [fraudEvidence (evidenceTypeText (h_evidenceType hit)) received
          (H (HTexts [Some (h_ruleId hit),
             Some (case click of Some c \<Rightarrow> record_id c | None \<Rightarrow> ''no-redirector-click''), Some (record_id attempt)]))],
        f_rule_bundle_id = fb_id (fst bound),
        f_rule_bundle_version = fb_version (fst bound),
        f_rule_bundle_hash = snd bound,
        f_rule_id = h_ruleId hit,
        f_evaluated_at = received,
        f_resolution_deadline_at = deadline\<rparr>))"

definition installFraud :: "digest \<Rightarrow> attempt list \<Rightarrow> attempt \<Rightarrow> fraud_decision list res" where
  "installFraud H acceptedUnique attempt =
     (if event_name attempt \<noteq> ''install'' then Inr []
      else bindR (boundFraudBundle H (at_server attempt)) (\<lambda>bound. case bound of
        None \<Rightarrow> Inr []
      | Some b \<Rightarrow>
          let payload = at_payload attempt; click = matchingClick acceptedUnique attempt in
          bindR (evaluateInstallRules H \<lparr>
              ii_installBeginAtServer = p_install_begin_at_server payload,
              ii_referrerClickAtServer = p_referrer_click_at_server payload,
              ii_referrerClickAtServerStatus = p_referrer_click_at_server_status payload,
              ii_redirectorClickAt = Option.bind click (\<lambda>c. p_redirector_click_at (at_payload c)),
              ii_policy = configuredPolicy H b (at_server attempt),
              ii_bundle = Some (fst b)\<rparr>) (\<lambda>hits.
            mapR (installDecision H b attempt click) hits)))"

section \<open>Source-day decisions\<close>

definition scopeBundle :: "digest \<Rightarrow> attempt list \<Rightarrow> source_day_aggregate \<Rightarrow> bound_bundle option res" where
  "scopeBundle H acceptedUnique aggregate =
     (case List.find (\<lambda>attempt. tenant_id attempt = sd_tenant_id aggregate \<and> app_id attempt = sd_app_id aggregate)
             acceptedUnique of
        Some attempt \<Rightarrow> boundFraudBundle H (at_server attempt)
      | None \<Rightarrow> Inr (Some (DEFAULT_BOUND H)))"

definition sourceRef :: "source_day_aggregate \<Rightarrow> string" where
  "sourceRef aggregate =
     ''source:'' @ sd_tenant_id aggregate @ '':'' @ sd_app_id aggregate @ '':'' @ sd_metric_date aggregate @ '':'' @
     sd_campaign_id aggregate @ '':'' @ sd_network aggregate @ '':'' @ sd_site_id aggregate"

definition sourceDayDecision :: "source_day_aggregate \<Rightarrow> bound_bundle \<Rightarrow> fraud_rule_hit \<Rightarrow> fraud_decision res" where
  "sourceDayDecision aggregate bound hit =
     bindR (quarantineDeadline (h_action hit) (sd_computed_at aggregate) (fst bound)) (\<lambda>deadline. Inr \<lparr>
       f_fraud_decision_id = ''fraud:'' @ sd_input_snapshot_id aggregate,
       f_subject_scope = Some ''source'',
       f_subject_ref = sourceRef aggregate,
       f_decision = h_decision hit,
       f_action = h_action hit,
       f_reason_code = h_reasonCode hit,
       f_reason_code_version = CONTRACT_VERSION,
       f_evidence = [fraudEvidence (evidenceTypeText (h_evidenceType hit)) (sd_computed_at aggregate)
         (sd_input_snapshot_id aggregate)],
       f_rule_bundle_id = fb_id (fst bound),
       f_rule_bundle_version = fb_version (fst bound),
       f_rule_bundle_hash = snd bound,
       f_rule_id = h_ruleId hit,
       f_evaluated_at = sd_computed_at aggregate,
       f_resolution_deadline_at = deadline\<rparr>)"

definition sourceDayFraud :: "digest \<Rightarrow> attempt list \<Rightarrow> source_day_aggregate \<Rightarrow> fraud_decision list res" where
  "sourceDayFraud H acceptedUnique aggregate =
     bindR (scopeBundle H acceptedUnique aggregate) (\<lambda>bound. case bound of
       None \<Rightarrow> Inr []
     | Some b \<Rightarrow>
         (case evaluateSourceDayWithBundle \<lparr>
              si_clicks = sd_clicks aggregate, si_installs = sd_installs aggregate, si_medianCvr = sd_medianCvr aggregate,
              si_ctitP50Ms = sd_ctitP50Ms aggregate, si_ctitP95Ms = sd_ctitP95Ms aggregate\<rparr> (fst b) of
            None \<Rightarrow> Inr []
          | Some hit \<Rightarrow> bindR (sourceDayDecision aggregate b hit) (\<lambda>d. Inr [d])))"

definition fraudDecisions :: "digest \<Rightarrow> evaluation_input \<Rightarrow> attempt list \<Rightarrow> fraud_decision list res" where
  "fraudDecisions H input acceptedUnique =
     bindR (flatMapR (transportFraud H) acceptedUnique) (\<lambda>transport.
     bindR (flatMapR (installFraud H acceptedUnique) acceptedUnique) (\<lambda>install.
     bindR (flatMapR (sourceDayFraud H acceptedUnique) (in_source_day_aggregates input)) (\<lambda>source.
       Inr (sortByKey (\<lambda>d. H (HFraudDecision d)) (\<lambda>d. [f_fraud_decision_id d]) (transport @ install @ source)))))"

section \<open>Provisional attributions of days with negative clocks\<close>

type_synonym source_days = "(string \<times> source_day_aggregate list) list"

definition addSourceDay :: "source_days \<Rightarrow> source_day_aggregate \<Rightarrow> source_days" where
  "addSourceDay days aggregate =
     (let key = compositeKey [Some (sd_tenant_id aggregate), Some (sd_app_id aggregate), Some (sd_metric_date aggregate)]
      in AList.update key (orElse (map_of days key) [] @ [aggregate]) days)"

definition sourceDays :: "evaluation_input \<Rightarrow> source_days" where
  "sourceDays input = foldl addSourceDay [] (in_source_day_aggregates input)"

definition negativeRateExceeded :: "source_day_aggregate list \<Rightarrow> fraud_bundle \<Rightarrow> bool" where
  "negativeRateExceeded aggregates bundle =
     (let installCount = foldl (\<lambda>acc item. addN acc (sd_installs item)) (numN 0) aggregates;
          negativeCount = foldl (\<lambda>acc item. addN acc (orElse (sd_ctitNegativeCount item) (numN 0))) (numN 0) aggregates
      in installCount \<noteq> numN 0 \<and>
         \<not> leN (divN negativeCount installCount)
              (fraudNumberParameter bundle ''ctit_negative_rate_threshold'' (literalN (5 / 100))))"

definition dayClick :: "source_day_aggregate \<Rightarrow> attempt \<Rightarrow> attempt \<Rightarrow> bool" where
  "dayClick aggregate install attempt =
     (tenant_id attempt = sd_tenant_id aggregate \<and> app_id attempt = sd_app_id aggregate \<and>
      event_name attempt = ''click'' \<and>
      p_click_id (at_payload attempt) = p_click_id (at_payload install) \<and>
      take 10 (orElse (p_redirector_click_at (at_payload attempt)) []) = sd_metric_date aggregate)"

definition priorAttribution :: "attribution list \<Rightarrow> attempt \<Rightarrow> attribution option" where
  "priorAttribution initialAttributions install =
     List.find (\<lambda>item. a_subject_ref item = p_installation_id (at_payload install)) initialAttributions"

definition clockProvisional :: "string \<Rightarrow> string \<Rightarrow> attribution \<Rightarrow> attribution" where
  "clockProvisional dailySnapshotId computedAt prior =
     prior\<lparr>a_attribution_id := a_attribution_id prior @ '':ctit-clock-provisional:'' @ take 12 dailySnapshotId,
       a_decided_at := computedAt,
       a_input_cutoff_at := computedAt,
       a_finality := Provisional,
       a_supersedes_attribution_id := Some (a_attribution_id prior)\<rparr>"

definition provisionalForInstall ::
  "attempt list \<Rightarrow> attribution list \<Rightarrow> source_day_aggregate \<Rightarrow> string \<Rightarrow> string \<Rightarrow> attempt \<Rightarrow> attribution list" where
  "provisionalForInstall acceptedUnique initialAttributions aggregate dailySnapshotId computedAt install =
     (if tenant_id install = sd_tenant_id aggregate \<and> app_id install = sd_app_id aggregate \<and>
         event_name install = ''install'' \<and> truthy (p_click_id (at_payload install)) \<and>
         (\<exists>attempt \<in> set acceptedUnique. dayClick aggregate install attempt)
      then case priorAttribution initialAttributions install of
             None \<Rightarrow> []
           | Some prior \<Rightarrow>
               if a_reason_code prior = ValidInstallReferrer
               then [clockProvisional dailySnapshotId computedAt prior] else []
      else [])"

definition dayProvisional ::
  "digest \<Rightarrow> attempt list \<Rightarrow> attribution list \<Rightarrow> source_day_aggregate \<Rightarrow> source_day_aggregate list \<Rightarrow>
    attribution list" where
  "dayProvisional H acceptedUnique initialAttributions aggregate aggregates =
     (let dailySnapshotId = H (HTexts (map Some (js_sort compareText (map sd_input_snapshot_id aggregates))));
          computedAt = last (js_sort compareText (map sd_computed_at aggregates))
      in concat (map (provisionalForInstall acceptedUnique initialAttributions aggregate dailySnapshotId computedAt)
           acceptedUnique))"

definition provisionalForDay ::
  "digest \<Rightarrow> attempt list \<Rightarrow> attribution list \<Rightarrow> source_day_aggregate list \<Rightarrow> attribution list res" where
  "provisionalForDay H acceptedUnique initialAttributions aggregates =
     (case aggregates of
        [] \<Rightarrow> Inl TypeError
      | aggregate # _ \<Rightarrow>
          bindR (scopeBundle H acceptedUnique aggregate) (\<lambda>bound. case bound of
            None \<Rightarrow> Inr []
          | Some b \<Rightarrow>
              Inr (if negativeRateExceeded aggregates (fst b)
                   then dayProvisional H acceptedUnique initialAttributions aggregate aggregates else [])))"

definition provisionalAttributions ::
  "digest \<Rightarrow> evaluation_input \<Rightarrow> attempt list \<Rightarrow> attribution list \<Rightarrow> attribution list res" where
  "provisionalAttributions H input acceptedUnique initialAttributions =
     flatMapR (provisionalForDay H acceptedUnique initialAttributions) (map snd (sourceDays input))"

section \<open>Excluded clicks and installations\<close>

type_synonym excluded_clicks = "(string \<times> fraud_decision) list"

definition addExcludedClick :: "attempt list \<Rightarrow> excluded_clicks \<Rightarrow> fraud_decision \<Rightarrow> excluded_clicks" where
  "addExcludedClick acceptedUnique clicks decision =
     (if f_action decision = Exclude \<and> f_subject_scope decision \<noteq> Some ''source'' then
        (case List.find (\<lambda>attempt. record_id attempt = f_subject_ref decision \<and> event_name attempt = ''click'')
                acceptedUnique of
           None \<Rightarrow> clicks
         | Some click \<Rightarrow>
             (case keepTruthy (p_click_id (at_payload click)) of
                Some clickId \<Rightarrow>
                  if s_fraud_actions_enabled (at_server click) = Some True
                  then AList.update clickId decision clicks else clicks
              | None \<Rightarrow> clicks))
      else clicks)"

definition excludedClickIds :: "attempt list \<Rightarrow> fraud_decision list \<Rightarrow> excluded_clicks" where
  "excludedClickIds acceptedUnique decisions = foldl (addExcludedClick acceptedUnique) [] decisions"

definition excludingDecision :: "excluded_clicks \<Rightarrow> attempt \<Rightarrow> fraud_decision option" where
  "excludingDecision clicks install = Option.bind (p_click_id (at_payload install)) (map_of clicks)"

definition excludedInstalls :: "excluded_clicks \<Rightarrow> attempt list \<Rightarrow> attempt list" where
  "excludedInstalls clicks acceptedUnique =
     filter (\<lambda>attempt. event_name attempt = ''install'' \<and> excludingDecision clicks attempt \<noteq> None) acceptedUnique"

definition excludedInstallationIds :: "excluded_clicks \<Rightarrow> attempt list \<Rightarrow> string option list" where
  "excludedInstallationIds clicks acceptedUnique =
     map (\<lambda>install. p_installation_id (at_payload install)) (excludedInstalls clicks acceptedUnique)"

definition fraudAttribution :: "fraud_decision \<Rightarrow> attribution \<Rightarrow> attribution" where
  "fraudAttribution decision prior =
     prior\<lparr>a_attribution_id := a_attribution_id prior @ '':fraud'',
       a_status := Unattributed,
       a_method := NoMethod,
       a_model := NoModel,
       a_reason_code := FraudExcluded,
       a_finality := Final,
       a_fraud_decision_ref := Some (f_fraud_decision_id decision),
       a_supersedes_attribution_id := Some (a_attribution_id prior)\<rparr>"

definition fraudAttributions :: "excluded_clicks \<Rightarrow> attempt list \<Rightarrow> attribution list \<Rightarrow> attribution list" where
  "fraudAttributions clicks acceptedUnique initialAttributions =
     concat (map (\<lambda>install. case (excludingDecision clicks install, priorAttribution initialAttributions install) of
         (Some decision, Some prior) \<Rightarrow> [fraudAttribution decision prior]
       | _ \<Rightarrow> []) (excludedInstalls clicks acceptedUnique))"

end
