(* ===== verification/Reconciliation.thy ===== *)
theory Reconciliation
  imports Ledger
begin

text \<open>
  Reconciliation of internal candidates with external rows: normalisation and keys of the
  rows, the inputs derived from imported installs, the difference reason, and the results.
\<close>

section \<open>Matching keys\<close>

definition normalizedValue :: "matching_key \<Rightarrow> string" where
  "normalizedValue entry =
     (if mk_normalization entry = ''lowercase_ascii'' then map lowerChar (mk_value entry)
      else if mk_normalization entry = ''trim'' then trim (mk_value entry)
      else mk_value entry)"

definition matchKey :: "matching_key \<Rightarrow> string" where
  "matchKey entry =
     mk_type entry @ '':'' @
     (case mk_value_encoding entry of
        Some e \<Rightarrow> if e = [] then [] else e @ '':''
      | None \<Rightarrow> []) @ normalizedValue entry"

section \<open>Inputs from imported installs\<close>

definition providerKey :: "digest \<Rightarrow> string \<Rightarrow> string \<Rightarrow> string \<Rightarrow> matching_key" where
  "providerKey H provider type value = \<lparr>
     mk_type = type,
     mk_value = H (hashObject [(''provider'', provider), (''type'', type), (''value'', value)]),
     mk_scope = ''tenant_app'',
     mk_normalization = ''identity'',
     mk_cardinality = ''one_to_one'',
     mk_protected = True,
     mk_value_encoding = Some ''sha256'',
     mk_access_class = Some ''protected''\<rparr>"

definition optionalKey :: "digest \<Rightarrow> string \<Rightarrow> string \<Rightarrow> string option \<Rightarrow> matching_key list" where
  "optionalKey H provider type ref =
     (case keepTruthy ref of None \<Rightarrow> [] | Some value \<Rightarrow> [providerKey H provider type value])"

definition importKeys :: "digest \<Rightarrow> import_context option \<Rightarrow> matching_key list" where
  "importKeys H context =
     (case context of
        None \<Rightarrow> []
      | Some c \<Rightarrow> optionalKey H (ic_provider c) ''provider_install_id'' (ic_provider_install_ref c) @
                  optionalKey H (ic_provider c) ''provider_click_id'' (ic_provider_click_ref c))"

definition importedReconciliationInput :: "digest \<Rightarrow> attempt \<Rightarrow> recon_input" where
  "importedReconciliationInput H attempt =
     (let context = p_import_context (at_payload attempt); keys = importKeys H context; id = record_id attempt in \<lparr>
        ri_reconciliation_id = ''reconciliation:import:'' @ id,
        ri_tenant_id = tenant_id attempt,
        ri_app_id = app_id attempt,
        ri_input_snapshot_id = ''snapshot:internal:'' @ id,
        ri_external_snapshot_id = ''snapshot:provider:'' @ id,
        ri_matching_keys = keys,
        ri_candidates =
          (if keys = [] then []
           else [\<lparr>rc_candidate_id = id, rc_tenant_id = tenant_id attempt, rc_app_id = app_id attempt,
                  rc_matching_keys = keys, rc_window_status = ''not_applicable'', rc_freshness = FreshCurrent,
                  rc_excluded = False, rc_exclusion_reason = None\<rparr>]),
        ri_freshness = FreshCurrent,
        ri_privacy_effect = None,
        ri_provider_modeled_without_candidate =
          (map_option ic_provider_attribution_strategy context = Some ''modeled'' \<and> keys = [])\<rparr>)"

definition importedReconciliationInputs :: "digest \<Rightarrow> attempt list \<Rightarrow> recon_input list" where
  "importedReconciliationInputs H acceptedAttempts =
     map (importedReconciliationInput H)
       (filter (\<lambda>attempt. event_name attempt = ''install'' \<and> startsWith (r_producer (at_record attempt)) ''import:'')
         acceptedAttempts)"

section \<open>Results\<close>

definition matchedCandidates :: "recon_input \<Rightarrow> recon_candidate list" where
  "matchedCandidates item =
     filter (\<lambda>candidate. rc_tenant_id candidate = ri_tenant_id item \<and> rc_app_id candidate = ri_app_id item \<and>
         (\<exists>k \<in> set (rc_matching_keys candidate). matchKey k \<in> set (map matchKey (ri_matching_keys item))))
       (ri_candidates item)"

definition differenceReason :: "recon_input \<Rightarrow> recon_candidate list \<Rightarrow> difference_reason" where
  "differenceReason item matched =
     (if ri_privacy_effect item = Some ''redaction'' then RedactionCausedRecalculation
      else if ri_provider_modeled_without_candidate item \<and> matched = [] then ProviderModeledWithoutCandidate
      else if ri_matching_keys item = [] then JoinKeyMissing
      else case matched of
        [] \<Rightarrow>
          if \<exists>entry \<in> set (ri_matching_keys item). mk_type entry \<in> {''provider_click_id'', ''provider_install_id''}
          then CandidateMissing else ExternalRowUnmatched
      | first # others \<Rightarrow>
          if others \<noteq> [] \<and> (\<exists>entry \<in> set (ri_matching_keys item). mk_cardinality entry = ''one_to_one'')
          then JoinKeyAmbiguous
          else if rc_excluded first then CandidateExcluded
          else if rc_window_status first = ''out_of_window'' then WindowMismatch
          else if rc_freshness first = FreshStale then FreshnessMismatch
          else Matched)"

text \<open>
  \<^verbatim>\<open>sort(compareText)\<close>; on exclusion reasons an absent one sorts last, as
  \<^verbatim>\<open>Array.prototype.sort\<close> places \<^verbatim>\<open>undefined\<close>.
\<close>

definition sortTexts :: "string list \<Rightarrow> string list" where
  "sortTexts xs = js_sort compareText xs"

definition sortOptionalTexts :: "string option list \<Rightarrow> string option list" where
  "sortOptionalTexts xs =
     map Some (sortTexts (map the (filter (\<lambda>x. x \<noteq> None) xs))) @ filter (\<lambda>x. x = None) xs"

definition reconciliationResult :: "recon_input \<Rightarrow> reconciliation" where
  "reconciliationResult item =
     (let matched = matchedCandidates item;
          sortedKeys = js_sort (\<lambda>a b. compareText (matchKey a) (matchKey b)) (ri_matching_keys item) in \<lparr>
        rs_reconciliation_id = ri_reconciliation_id item,
        rs_tenant_id = ri_tenant_id item,
        rs_app_id = ri_app_id item,
        rs_input_snapshot_id = ri_input_snapshot_id item,
        rs_external_snapshot_id = ri_external_snapshot_id item,
        rs_difference_reason_code = differenceReason item matched,
        rs_difference_reason_version =
          (if differenceReason item matched = ProviderModeledWithoutCandidate then ''0.4.0'' else CONTRACT_VERSION),
        rs_matching_keys = sortedKeys,
        rs_candidates = sortTexts (map rc_candidate_id matched),
        rs_exclusions = sortOptionalTexts (map rc_exclusion_reason (filter rc_excluded matched)),
        rs_windows = sortTexts (map (\<lambda>c. rc_candidate_id c @ '':'' @ rc_window_status c) matched),
        rs_joins = sortTexts (map (\<lambda>c. joinWith '','' (map matchKey sortedKeys) @ ''=>'' @ rc_candidate_id c) matched),
        rs_freshness = (case matched of [] \<Rightarrow> ri_freshness item | first # _ \<Rightarrow> rc_freshness first)\<rparr>)"

definition reconIdentity :: "recon_input \<Rightarrow> string" where
  "reconIdentity item = compositeKey [Some (ri_tenant_id item), Some (ri_app_id item), Some (ri_reconciliation_id item)]"

definition reconciliationResults :: "digest \<Rightarrow> evaluation_input \<Rightarrow> attempt list \<Rightarrow> reconciliation list res" where
  "reconciliationResults H input acceptedAttempts =
     (let inputs = in_reconciliation_inputs input @ importedReconciliationInputs H acceptedAttempts in
      bindR (throwIf (length (remdups (map reconIdentity inputs)) \<noteq> length (map reconIdentity inputs))
               (JsError ''duplicate reconciliation identity'')) (\<lambda>_.
        Inr (sortByKey (\<lambda>r. H (HReconciliation r)) (\<lambda>r. [rs_reconciliation_id r, rs_tenant_id r, rs_app_id r])
               (map reconciliationResult inputs))))"

section \<open>Facts\<close>

lemma matched_scope:
  "c \<in> set (matchedCandidates item) \<Longrightarrow>
     rc_tenant_id c = ri_tenant_id item \<and> rc_app_id c = ri_app_id item \<and> c \<in> set (ri_candidates item) \<and>
     (\<exists>k \<in> set (rc_matching_keys c). \<exists>e \<in> set (ri_matching_keys item). matchKey k = matchKey e)"
  by (auto simp: matchedCandidates_def)

lemma differenceReason_Matched:
  "differenceReason item matched = Matched \<longleftrightarrow>
     ri_privacy_effect item \<noteq> Some ''redaction'' \<and> ri_matching_keys item \<noteq> [] \<and>
     (\<exists>first others. matched = first # others \<and> \<not> rc_excluded first \<and> rc_window_status first \<noteq> ''out_of_window'' \<and>
        rc_freshness first \<noteq> FreshStale \<and>
        (others = [] \<or> (\<forall>entry \<in> set (ri_matching_keys item). mk_cardinality entry \<noteq> ''one_to_one'')))"
  by (auto simp: differenceReason_def split: list.splits)

lemma reconciliationResults_Inr:
  "reconciliationResults H input xs = Inr rs \<longleftrightarrow>
     distinct (map reconIdentity (in_reconciliation_inputs input @ importedReconciliationInputs H xs)) \<and>
     rs = sortByKey (\<lambda>r. H (HReconciliation r)) (\<lambda>r. [rs_reconciliation_id r, rs_tenant_id r, rs_app_id r])
            (map reconciliationResult (in_reconciliation_inputs input @ importedReconciliationInputs H xs))"
proof -
  have "length (remdups xs) \<noteq> length xs \<longleftrightarrow> \<not> distinct xs" for xs :: "string list" by simp
  then show ?thesis unfolding reconciliationResults_def Let_def by (simp only: res_simps) auto
qed

end
