(* ===== verification/Evaluate.thy ===== *)
theory Evaluate
  imports Metrics FraudDecisions Reconciliation
begin

text \<open>
  \<^verbatim>\<open>evaluate(input, candidateProviderFactory)\<close>: the whole evaluation, every component in the
  order the source calls it, errors in the order they are thrown.
\<close>

section \<open>The parts of an evaluation\<close>

definition decisionsList :: "digest \<Rightarrow> provider \<Rightarrow> attempt list \<Rightarrow> decision list res" where
  "decisionsList H candidates all = mapR (decideCatching H candidates) all"

definition initialAttributions ::
  "digest \<Rightarrow> provider \<Rightarrow> decisions \<Rightarrow> lifecycle_index \<Rightarrow> attempt list \<Rightarrow> attribution list res" where
  "initialAttributions H candidates decisions lifecycle acceptedUnique =
     bindR (mapR (makeAttribution H candidates decisions lifecycle)
              (filter (\<lambda>attempt. event_name attempt = ''install'') acceptedUnique)) (\<lambda>installs.
       Inr (sortByKey (\<lambda>a. H (HAttribution a)) (\<lambda>a. [a_attribution_id a, a_tenant_id a, a_app_id a])
              (installs @
               map (makeAggregatePostbackAttribution lifecycle)
                 (filter (\<lambda>attempt. event_name attempt \<in> {''skan_postback'', ''adattributionkit_postback''}) acceptedUnique) @
               map (makeDeepLinkAttribution lifecycle)
                 (filter (\<lambda>attempt. event_name attempt = ''deep_link_open'') acceptedUnique))))"

text \<open>What the first half of \<^verbatim>\<open>evaluate\<close> computes and the rest uses.\<close>

record evaluation_state =
  es_all :: "attempt list"
  es_candidates :: provider
  es_decisionsList :: "decision list"
  es_decisions :: decisions
  es_preIngestion :: "decision list"
  es_lifecycle :: lifecycle_index
  es_acceptedUnique :: "attempt list"

definition evaluationState :: "digest \<Rightarrow> (attempt list \<Rightarrow> provider) \<Rightarrow> evaluation_input \<Rightarrow> evaluation_state res" where
  "evaluationState H candidateProviderFactory input =
     (let all = sortCandidateAttempts H (attempts input);
          candidates = candidateProviderFactory all in
      bindR (assertImportProviderContexts all) (\<lambda>_.
      bindR (assertRevenueAnchorSources all) (\<lambda>_.
      bindR (assertScopedReferences input all) (\<lambda>_.
      bindR (decisionsList H candidates all) (\<lambda>ds.
        let decisions = decisionMap H all ds in
        bindR (assertInstallationAnchors H all decisions) (\<lambda>_.
        bindR (filterR (isAcceptedUnique H decisions) all) (\<lambda>acceptedUnique.
          Inr \<lparr>es_all = all,
               es_candidates = candidates,
               es_decisionsList = ds,
               es_decisions = decisions,
               es_preIngestion = map preIngestionDecision (in_pre_ingestion_rejections input),
               es_lifecycle = privacyIndex input,
               es_acceptedUnique = acceptedUnique\<rparr>)))))))"

definition finalAttributions ::
  "digest \<Rightarrow> attempt list \<Rightarrow> attribution list \<Rightarrow> attribution list \<Rightarrow> excluded_clicks \<Rightarrow> attribution list" where
  "finalAttributions H acceptedUnique initial provisional clicks =
     sortByKey (\<lambda>a. H (HAttribution a)) (\<lambda>a. [a_attribution_id a, a_tenant_id a, a_app_id a])
       (initial @ provisional @ fraudAttributions clicks acceptedUnique initial)"

definition evaluateState :: "digest \<Rightarrow> evaluation_input \<Rightarrow> evaluation_state \<Rightarrow> evaluation_output res" where
  "evaluateState H input st =
     (let all = es_all st; decisions = es_decisions st; lifecycle = es_lifecycle st; accepted = es_acceptedUnique st in
      bindR (rawEvidence H decisions lifecycle all accepted) (\<lambda>evidence.
      bindR (rawRecords H evidence) (\<lambda>raw.
      bindR (makeDeliveries H decisions all (es_preIngestion st)) (\<lambda>deliveries.
      bindR (initialAttributions H (es_candidates st) decisions lifecycle accepted) (\<lambda>initial.
      bindR (fraudDecisions H input accepted) (\<lambda>fraud.
      bindR (provisionalAttributions H input accepted initial) (\<lambda>provisional.
        let clicks = excludedClickIds accepted fraud;
            attributions = finalAttributions H accepted initial provisional clicks in
        bindR (costRecords H input) (\<lambda>costs.
        bindR (metricDefinitions H input) (\<lambda>definitions.
        bindR (metricRuns H input all decisions lifecycle attributions
                 (excludedInstallationIds clicks accepted)) (\<lambda>runs.
        bindR (reconciliationResults H input accepted) (\<lambda>recon.
          Inr \<lparr>o_raw_records = raw,
               o_deliveries = deliveries,
               o_logical_events = logicalEvents H lifecycle accepted,
               o_corrections = makeCorrections H input accepted,
               o_privacy_requests = privacyRequests H input,
               o_privacy_tombstones = privacyTombstones H input,
               o_attributions = attributions,
               o_cost_records = costs,
               o_metric_definitions = definitions,
               o_metric_runs = runs,
               o_fraud_decisions = fraud,
               o_rejections = makeRejections H (es_decisionsList st @ es_preIngestion st),
               o_reconciliation = recon\<rparr>)))))))))))"

definition evaluate :: "digest \<Rightarrow> (attempt list \<Rightarrow> provider) \<Rightarrow> evaluation_input \<Rightarrow> evaluation_output res" where
  "evaluate H candidateProviderFactory input =
     bindR (evaluationState H candidateProviderFactory input) (evaluateState H input)"

section \<open>The state of a successful evaluation\<close>

lemma evaluationState_Inr:
  assumes "evaluationState H mk input = Inr st"
  shows "es_all st = sortCandidateAttempts H (attempts input)"
    "es_candidates st = mk (es_all st)"
    "mapR (decideCatching H (mk (es_all st))) (es_all st) = Inr (es_decisionsList st)"
    "es_decisions st = decisionMap H (es_all st) (es_decisionsList st)"
    "es_preIngestion st = map preIngestionDecision (in_pre_ingestion_rejections input)"
    "es_lifecycle st = privacyIndex input"
    "filterR (isAcceptedUnique H (es_decisions st)) (es_all st) = Inr (es_acceptedUnique st)"
    "assertImportProviderContexts (es_all st) = Inr ()"
    "assertRevenueAnchorSources (es_all st) = Inr ()"
    "assertScopedReferences input (es_all st) = Inr ()"
    "assertInstallationAnchors H (es_all st) (es_decisions st) = Inr ()"
  using assms by (auto simp: evaluationState_def Let_def res_simps decisionsList_def)

context candidate_provider
begin

lemma acceptedUnique_state:
  assumes "evaluationState H mk input = Inr st"
  shows "es_acceptedUnique st = filter (accepts H (mk (es_all st))) (es_all st)"
  using evaluationState_Inr(3,4,7)[OF assms] filter_isAcceptedUnique[of H "es_all st" "es_decisionsList st"] by simp

lemma evaluate_determined: "evaluate H mk input = evaluate H createFixtureCandidateProvider input"
proof -
  have "mk = createFixtureCandidateProvider" by (rule ext) (rule determined)
  then show ?thesis by simp
qed

end

text \<open>What a successful evaluation is made of.\<close>

lemma evaluate_Inr:
  assumes "evaluate H mk input = Inr out"
  obtains st evidence initial provisional where
    "evaluationState H mk input = Inr st"
    "rawEvidence H (es_decisions st) (es_lifecycle st) (es_all st) (es_acceptedUnique st) = Inr evidence"
    "rawRecords H evidence = Inr (o_raw_records out)"
    "makeDeliveries H (es_decisions st) (es_all st) (es_preIngestion st) = Inr (o_deliveries out)"
    "initialAttributions H (es_candidates st) (es_decisions st) (es_lifecycle st) (es_acceptedUnique st) = Inr initial"
    "fraudDecisions H input (es_acceptedUnique st) = Inr (o_fraud_decisions out)"
    "provisionalAttributions H input (es_acceptedUnique st) initial = Inr provisional"
    "o_attributions out = finalAttributions H (es_acceptedUnique st) initial provisional
       (excludedClickIds (es_acceptedUnique st) (o_fraud_decisions out))"
    "costRecords H input = Inr (o_cost_records out)"
    "metricDefinitions H input = Inr (o_metric_definitions out)"
    "metricRuns H input (es_all st) (es_decisions st) (es_lifecycle st) (o_attributions out)
       (excludedInstallationIds (excludedClickIds (es_acceptedUnique st) (o_fraud_decisions out)) (es_acceptedUnique st))
       = Inr (o_metric_runs out)"
    "reconciliationResults H input (es_acceptedUnique st) = Inr (o_reconciliation out)"
    "o_logical_events out = logicalEvents H (es_lifecycle st) (es_acceptedUnique st)"
    "o_corrections out = makeCorrections H input (es_acceptedUnique st)"
    "o_rejections out = makeRejections H (es_decisionsList st @ es_preIngestion st)"
    "o_privacy_requests out = privacyRequests H input"
    "o_privacy_tombstones out = privacyTombstones H input"
proof -
  obtain st where st: "evaluationState H mk input = Inr st" "evaluateState H input st = Inr out"
    using assms by (auto simp: evaluate_def res_simps)
  from st(2) show ?thesis
    unfolding evaluateState_def Let_def bindR_Inr_iff
    using that[OF st(1)] by auto
qed

end
