(* ===== verification/EvaluateFacts.thy ===== *)
theory EvaluateFacts
  imports Evaluate
begin

text \<open>
  Facts about a whole evaluation: which attempts stand behind each output, that the two
  views of a decision (the delivery and the rejection) agree, and what a valid first-party
  attribution rests on. The facts that depend on the candidate provider are proved in the
  locale of its interface.
\<close>

section \<open>Traversals\<close>

lemma mapR_Inr_map:
  "mapR f xs = Inr ys \<Longrightarrow> (\<And>x y. x \<in> set xs \<Longrightarrow> f x = Inr y \<Longrightarrow> g y = h x) \<Longrightarrow> map g ys = map h xs"
  by (induction xs arbitrary: ys) (auto simp: res_simps)

lemma mapR_filter_sync:
  assumes "mapR f xs = Inr ys" "mapR g xs = Inr zs"
    and "\<And>x y z. x \<in> set xs \<Longrightarrow> f x = Inr y \<Longrightarrow> g x = Inr z \<Longrightarrow> P y = Q z \<and> F y = G z"
  shows "map F (filter P ys) = map G (filter Q zs)"
  using assms
proof (induction xs arbitrary: ys zs)
  case Nil
  then show ?case by simp
next
  case (Cons x xs)
  then obtain y ys' z zs' where eqs: "f x = Inr y" "mapR f xs = Inr ys'" "ys = y # ys'"
    "g x = Inr z" "mapR g xs = Inr zs'" "zs = z # zs'" by (auto simp: res_simps)
  have "map F (filter P ys') = map G (filter Q zs')"
  proof (rule Cons.IH[OF eqs(2,5)])
    fix a b c
    assume "a \<in> set xs" "f a = Inr b" "g a = Inr c"
    then show "P b = Q c \<and> F b = G c" using Cons.prems(3)[of a b c] by simp
  qed
  with Cons.prems(3)[of x y z] eqs show ?case by simp
qed

section \<open>Decisions of attempts that share an identity\<close>

lemma conflict_decision:
  assumes "decideCatching H pv a = Inr d" "d_reason_code d = Some EventIdConflictReject"
  shows "length (pv_byRecordId pv (record_id a)) \<le> 1" "\<exists>k. consentDecision a = Inr k \<and> k_allowed k"
    "r_tenant_id (at_record a) = tenant_id a" "r_app_id (at_record a) = app_id a"
proof -
  have "decide H pv a = Inr d" using assms by (auto simp: decideCatching_Inr)
  then obtain dup k where parts: "resolveDuplicate H a (pv_byRecordId pv (record_id a)) (pv_byLogicalScope pv a) = Inr dup"
    "consentDecision a = Inr k" "rejectReason a dup k = Inr (Some EventIdConflictReject)"
    using assms(2) by (auto simp: decide_Inr_iff)
  then have "dup = EventIdConflict" "k_allowed k" "r_tenant_id (at_record a) = tenant_id a"
    "r_app_id (at_record a) = app_id a"
    by (auto simp: rejectReason_def Let_def res_simps split: if_splits)
  then show "\<exists>k. consentDecision a = Inr k \<and> k_allowed k"
    "r_tenant_id (at_record a) = tenant_id a" "r_app_id (at_record a) = app_id a"
    using parts(2) by blast+
  show "length (pv_byRecordId pv (record_id a)) \<le> 1"
  proof (rule ccontr)
    assume "\<not> length (pv_byRecordId pv (record_id a)) \<le> 1"
    then show False using parts(1) \<open>dup = EventIdConflict\<close> by (simp add: resolveDuplicate_def)
  qed
qed

context candidate_provider
begin

lemma shared_identity_rejected:
  assumes "decideCatching H (mk xs) a = Inr d" "a \<in> set xs" "b \<in> set xs" "a \<noteq> b" "record_id a = record_id b"
  shows "d_ingestion_status d = Rejected"
proof (rule ccontr)
  assume "d_ingestion_status d \<noteq> Rejected"
  then have acc: "decide H (mk xs) a = Inr d" "d_ingestion_status d = Accepted"
    using assms(1) by (auto simp: decideCatching_Inr) (metis ingestion_status.exhaust)
  then have "length (filter (\<lambda>c. record_id c = record_id a) xs) \<le> 1"
    using decide_accepted(3)[OF acc] by (simp add: byRecordId_mk)
  then have "a = b" by (rule single_filter_eq[OF _ assms(2,3)]) (simp_all add: assms(5))
  with assms(4) show False ..
qed

lemma lookup_status:
  assumes ds: "mapR (decideCatching H (mk xs)) xs = Inr ds" and a: "a \<in> set xs"
    and "decisionFor H (decisionMap H xs ds) a = Inr d" "decideCatching H (mk xs) a = Inr d'"
  shows "d_ingestion_status d = d_ingestion_status d'" "d_record_id d = record_id a" "d_delivery_id d = r_delivery_id (at_record a)"
    "d_tenant_id d = tenant_id a" "d_app_id d = app_id a"
proof -
  obtain d0 b where b0: "decisionFor H (decisionMap H xs ds) a = Inr d0" "b \<in> set xs"
    "attemptDecisionKey H b = attemptDecisionKey H a" "decideCatching H (mk xs) b = Inr d0"
    by (rule decisionFor_total[OF ds a])
  then have b: "b \<in> set xs" "attemptDecisionKey H b = attemptDecisionKey H a" "decideCatching H (mk xs) b = Inr d"
    using assms(3) by simp_all
  have same: "record_id b = record_id a" "tenant_id b = tenant_id a" "app_id b = app_id a"
    "r_delivery_id (at_record b) = r_delivery_id (at_record a)"
    using attemptDecisionKey_record[OF b(2)] by (simp_all add: sameScope_def)
  show "d_ingestion_status d = d_ingestion_status d'"
  proof (cases "a = b")
    case True
    then show ?thesis using b(3) assms(4) by simp
  next
    case False
    then show ?thesis
      using shared_identity_rejected[OF assms(4) a b(1)] shared_identity_rejected[OF b(3) b(1) a] same by simp
  qed
  show "d_record_id d = record_id a" "d_delivery_id d = r_delivery_id (at_record a)"
    "d_tenant_id d = tenant_id a" "d_app_id d = app_id a"
    using decideCatching_identity[OF b(3)] same by simp_all
qed

lemma conflict_own_decision:
  assumes ds: "mapR (decideCatching H (mk xs)) xs = Inr ds" and a: "a \<in> set xs"
    and "decisionFor H (decisionMap H xs ds) a = Inr d" "d_reason_code d = Some EventIdConflictReject"
  shows "decideCatching H (mk xs) a = Inr d"
proof -
  obtain d0 b where b0: "decisionFor H (decisionMap H xs ds) a = Inr d0" "b \<in> set xs"
    "attemptDecisionKey H b = attemptDecisionKey H a" "decideCatching H (mk xs) b = Inr d0"
    by (rule decisionFor_total[OF ds a])
  then have b: "b \<in> set xs" "attemptDecisionKey H b = attemptDecisionKey H a" "decideCatching H (mk xs) b = Inr d"
    using assms(3) by simp_all
  have same: "record_id b = record_id a" using attemptDecisionKey_record[OF b(2)] by simp
  have "length (filter (\<lambda>c. record_id c = record_id b) xs) \<le> 1"
    using conflict_decision(1)[OF b(3) assms(4)] by (simp add: byRecordId_mk)
  then have "a = b" by (rule single_filter_eq[OF _ a b(1)]) (simp_all add: same)
  then show ?thesis using b(3) by simp
qed

section \<open>The attempts behind the raw records\<close>

lemma evidence_attempts:
  assumes st: "evaluationState H mk input = Inr st"
    and ev: "rawEvidence H (es_decisions st) (es_lifecycle st) (es_all st) (es_acceptedUnique st) = Inr evidence"
    and a: "a \<in> set evidence"
  shows "a \<in> set (attempts input)" "\<not> hidden (privacyIndex input) a"
    "\<exists>k. consentDecision a = Inr k \<and> k_allowed k"
    "r_tenant_id (at_record a) = tenant_id a" "r_app_id (at_record a) = app_id a"
proof -
  note state = evaluationState_Inr[OF st]
  obtain conflicts where c: "filterR (\<lambda>attempt. bindR (decisionFor H (es_decisions st) attempt) (\<lambda>d.
      Inr (d_reason_code d = Some EventIdConflictReject))) (es_all st) = Inr conflicts"
    and evid: "evidence = filter (\<lambda>a. \<not> hidden (es_lifecycle st) a) (es_acceptedUnique st @ conflicts)"
    using ev by (auto simp: rawEvidence_def res_simps)
  show "\<not> hidden (privacyIndex input) a" using a evid state(6) by auto
  have "a \<in> set (es_acceptedUnique st) \<or> a \<in> set conflicts" using a evid by auto
  then have "a \<in> set (es_all st) \<and> (\<exists>k. consentDecision a = Inr k \<and> k_allowed k) \<and>
      r_tenant_id (at_record a) = tenant_id a \<and> r_app_id (at_record a) = app_id a"
  proof
    assume "a \<in> set (es_acceptedUnique st)"
    then have "a \<in> set (es_all st)" "accepts H (mk (es_all st)) a" using acceptedUnique_state[OF st] by auto
    then show ?thesis by (auto elim!: acceptsE dest: decide_accepted(1,2,4))
  next
    assume "a \<in> set conflicts"
    then obtain d where d: "a \<in> set (es_all st)" "decisionFor H (es_decisions st) a = Inr d"
      "d_reason_code d = Some EventIdConflictReject"
      using filterR_Inr_set[OF c] by (auto simp: res_simps)
    have "decideCatching H (mk (es_all st)) a = Inr d"
      using conflict_own_decision[OF state(3) d(1)] d(2,3) state(4) by simp
    then show ?thesis using conflict_decision(2,3,4) d by blast
  qed
  then show "a \<in> set (attempts input)" "\<exists>k. consentDecision a = Inr k \<and> k_allowed k"
    "r_tenant_id (at_record a) = tenant_id a" "r_app_id (at_record a) = app_id a"
    using state(1) by auto
qed

lemma raw_record_attempt:
  assumes out: "evaluate H mk input = Inr out" and r: "r \<in> set (o_raw_records out)"
  obtains a k where "a \<in> set (attempts input)" "\<not> hidden (privacyIndex input) a" "consentDecision a = Inr k" "k_allowed k"
    "makeRawRecord H Available a = Inr r" "r_tenant_id (at_record a) = tenant_id a" "r_app_id (at_record a) = app_id a"
proof -
  obtain st evidence where st: "evaluationState H mk input = Inr st"
    and ev: "rawEvidence H (es_decisions st) (es_lifecycle st) (es_all st) (es_acceptedUnique st) = Inr evidence"
    and raw: "rawRecords H evidence = Inr (o_raw_records out)"
    by (rule evaluate_Inr[OF out])
  obtain rs where rs: "mapR (makeRawRecord H Available) evidence = Inr rs"
    and sorted: "sortByKey (\<lambda>r. H (HRawRecord r)) (\<lambda>r. [rr_record_id r, rr_tenant_id r, rr_app_id r, rr_delivery_id r]) rs
      = o_raw_records out"
    using raw unfolding rawRecords_def bindR_Inr_iff by blast
  have "r \<in> set rs" using r unfolding sorted[symmetric] set_sortByKey .
  then obtain a where a: "a \<in> set evidence" "makeRawRecord H Available a = Inr r"
    using mapR_Inr_set[OF rs, of r] by auto
  from evidence_attempts[OF st ev a(1)] a(2) show ?thesis using that by blast
qed

lemma accepted_attempts:
  assumes "evaluationState H mk input = Inr st" "a \<in> set (es_acceptedUnique st)"
  shows "a \<in> set (attempts input)" "accepts H (mk (es_all st)) a" "a \<in> set (es_all st)"
  using assms acceptedUnique_state[OF assms(1)] evaluationState_Inr(1)[OF assms(1)] by auto

section \<open>First-party click attribution\<close>

lemma clickAttribution_single:
  assumes st: "evaluationState H mk input = Inr st"
    and oc: "clickAttribution H (es_candidates st) (es_decisions st) lc a = Inr oc"
    and reason: "oc_reason oc \<notin> {UnknownClickId, AmbiguousClickId}"
  obtains c where "c \<in> set (es_acceptedUnique st)" "isClickOf (tenant_id a) (app_id a) (p_click_id (at_payload a)) c"
    "clickOutcome lc a c = Inr oc"
    "filter (isClickOf (tenant_id a) (app_id a) (p_click_id (at_payload a))) (es_acceptedUnique st) = [c]"
proof -
  note state = evaluationState_Inr[OF st]
  let ?p = "isClickOf (tenant_id a) (app_id a) (p_click_id (at_payload a))"
  have "filterR (isAcceptedUnique H (es_decisions st)) (filter ?p (es_all st)) =
      Inr (filter (accepts H (mk (es_all st))) (filter ?p (es_all st)))"
    by (rule filterR_all_Inr) (use state isAcceptedUnique_accepts in auto)
  also have "filter (accepts H (mk (es_all st))) (filter ?p (es_all st)) = filter ?p (es_acceptedUnique st)"
    unfolding acceptedUnique_state[OF st] by (simp add: conj_commute)
  finally have clicks: "filterR (isAcceptedUnique H (es_decisions st))
      (pv_clickCandidates (es_candidates st) (tenant_id a) (app_id a) (p_click_id (at_payload a))) =
      Inr (filter ?p (es_acceptedUnique st))"
    unfolding state(2) clickCandidates_mk .
  have "\<exists>c. filter ?p (es_acceptedUnique st) = [c] \<and> clickOutcome lc a c = Inr oc"
    using oc reason by (auto simp: clickAttribution_def clicks outcome_def split: list.splits)
  then obtain c where c: "filter ?p (es_acceptedUnique st) = [c]" "clickOutcome lc a c = Inr oc" by blast
  then have "c \<in> set (filter ?p (es_acceptedUnique st))" by simp
  then have "c \<in> set (es_acceptedUnique st)" "?p c" by simp_all
  with c show ?thesis using that by blast
qed

end

lemma outcome_simps [simp]:
  "oc_status (outcome s m mo r) = s" "oc_method (outcome s m mo r) = m" "oc_model (outcome s m mo r) = mo"
  "oc_reason (outcome s m mo r) = r" "oc_evidence (outcome s m mo r) = None"
  by (simp_all add: outcome_def)

lemma windowOutcome_Inr:
  "windowOutcome a c e = Inr oc \<longleftrightarrow>
     (\<exists>installed clicked. time (p_install_begin_at_server (at_payload a)) ''install_begin_at_server'' = Inr installed \<and>
        time (p_redirector_click_at (at_payload c)) ''redirector_click_at'' = Inr clicked \<and>
        oc = (if 0 \<le> installed - clicked \<and> installed - clicked < 7 * DAY_MS
              then (outcome NonOrganic InstallReferrer LastClick ValidInstallReferrer)\<lparr>oc_evidence := e\<rparr>
              else outcome Unattributed NoMethod NoModel WindowExpired))"
proof -
  have *: "(if d < 0 \<or> m \<le> d then Inr x else Inr y) = Inr oc \<longleftrightarrow> oc = (if 0 \<le> d \<and> d < m then y else x)"
    for d m :: int and x y :: outcome by auto
  show ?thesis unfolding windowOutcome_def Let_def bindR_Inr_iff * by blast
qed

lemma clickOutcome_valid:
  assumes "clickOutcome lc a c = Inr oc" "oc_reason oc = ValidInstallReferrer"
  shows "p_bot_prefetch (at_payload c) \<noteq> Some True"
    "oc = (outcome NonOrganic InstallReferrer LastClick ValidInstallReferrer)
       \<lparr>oc_evidence := Some [evidenceRef lc a (record_id c), evidenceRef lc a (record_id a)]\<rparr>"
    "\<exists>installed clicked. time (p_install_begin_at_server (at_payload a)) ''install_begin_at_server'' = Inr installed \<and>
       time (p_redirector_click_at (at_payload c)) ''redirector_click_at'' = Inr clicked \<and>
       0 \<le> installed - clicked \<and> installed - clicked < 7 * DAY_MS"
proof -
  have b: "p_bot_prefetch (at_payload c) \<noteq> Some True" and
    w: "windowOutcome a c (Some [evidenceRef lc a (record_id c), evidenceRef lc a (record_id a)]) = Inr oc"
    using assms by (auto simp: clickOutcome_def Let_def split: if_splits)
  show "p_bot_prefetch (at_payload c) \<noteq> Some True" by (rule b)
  obtain installed clicked where t:
    "time (p_install_begin_at_server (at_payload a)) ''install_begin_at_server'' = Inr installed"
    "time (p_redirector_click_at (at_payload c)) ''redirector_click_at'' = Inr clicked"
    "oc = (if 0 \<le> installed - clicked \<and> installed - clicked < 7 * DAY_MS
       then (outcome NonOrganic InstallReferrer LastClick ValidInstallReferrer)
         \<lparr>oc_evidence := Some [evidenceRef lc a (record_id c), evidenceRef lc a (record_id a)]\<rparr>
       else outcome Unattributed NoMethod NoModel WindowExpired)"
    using w unfolding windowOutcome_Inr by blast
  have in_window: "0 \<le> installed - clicked \<and> installed - clicked < 7 * DAY_MS"
  proof (rule ccontr)
    assume "\<not> ?thesis"
    then have "oc = outcome Unattributed NoMethod NoModel WindowExpired" using t(3) by simp
    then show False using assms(2) by simp
  qed
  show "oc = (outcome NonOrganic InstallReferrer LastClick ValidInstallReferrer)
       \<lparr>oc_evidence := Some [evidenceRef lc a (record_id c), evidenceRef lc a (record_id a)]\<rparr>"
    unfolding t(3) if_P[OF in_window] ..
  show "\<exists>installed clicked. time (p_install_begin_at_server (at_payload a)) ''install_begin_at_server'' = Inr installed \<and>
       time (p_redirector_click_at (at_payload c)) ''redirector_click_at'' = Inr clicked \<and>
       0 \<le> installed - clicked \<and> installed - clicked < 7 * DAY_MS"
    using t(1,2) in_window by blast
qed

lemma nonclick_reasons:
  "metaOutcome p = Inr (Some oc) \<Longrightarrow> oc_reason oc \<in> {MetaReferrerDecrypted, MetaReferrerDecryptFailed}"
  "adservicesOutcome p = Some oc \<Longrightarrow>
     oc_reason oc \<in> {AdServicesAttributed, AdServicesTokenExpired, AdServicesNotAttributed, AdServicesLookupUnavailable}"
  "referrerStatusOutcome p = Some oc \<Longrightarrow>
     oc_reason oc \<in> {NoReferrer, NoFirstPartyReferrer, ForeignReferrerUnresolved, InstallReferrerUnsupported,
       InstallReferrerUnavailable, PlatformReferrerNotAvailable}"
  "oc_reason (importedOutcome ic e) \<in> {ProviderModeledConversion, ProviderTimeAuthorityUnavailable, ProviderAttributed,
     ProviderOrganic, ProviderUnattributed}"
  by (auto simp: metaOutcome_def adservicesOutcome_def referrerStatusOutcome_def importedOutcome_def Let_def
      split: if_splits option.splits)

lemma installOutcome_click:
  assumes "installOutcome H pv ds lc a = Inr oc" "oc_reason oc = ValidInstallReferrer"
  shows "clickAttribution H pv ds lc a = Inr oc"
proof -
  have native: "nativeOutcome H pv ds lc a = Inr oc"
  proof (rule ccontr)
    assume "nativeOutcome H pv ds lc a \<noteq> Inr oc"
    then have "importedAttribution H pv ds lc a = Inr oc" using assms(1) by (simp add: installOutcome_def split: if_splits)
    then have "(\<exists>ic e. oc = importedOutcome ic e) \<or> oc = outcome Unattributed Imported ProviderReported ProviderUnattributed"
      by (auto simp: importedAttribution_def res_simps split: option.splits)
    then show False
    proof (elim disjE exE)
      fix ic e
      assume "oc = importedOutcome ic e"
      then show False using assms(2) nonclick_reasons(4)[of ic e] by auto
    qed (use assms(2) in simp)
  qed
  then obtain m where m: "metaOutcome (at_payload a) = Inr m" by (auto simp: nativeOutcome_def res_simps)
  with native assms(2) nonclick_reasons(1)[of "at_payload a" oc] have "m = None"
    by (cases m) (auto simp: nativeOutcome_def)
  moreover have "adservicesOutcome (at_payload a) = None"
    using native assms(2) nonclick_reasons(2)[of "at_payload a" oc] m \<open>m = None\<close>
    by (cases "adservicesOutcome (at_payload a)") (auto simp: nativeOutcome_def)
  moreover have "referrerStatusOutcome (at_payload a) = None"
    using native assms(2) nonclick_reasons(3)[of "at_payload a" oc] m calculation
    by (cases "referrerStatusOutcome (at_payload a)") (auto simp: nativeOutcome_def)
  ultimately show ?thesis using native m by (simp add: nativeOutcome_def)
qed

lemma attributionResult_simps [simp]:
  "a_reason_code (attributionResult lc a oc) = oc_reason oc"
  "a_status (attributionResult lc a oc) = oc_status oc"
  "a_method (attributionResult lc a oc) = oc_method oc"
  "a_tenant_id (attributionResult lc a oc) = tenant_id a"
  "a_app_id (attributionResult lc a oc) = app_id a"
  "a_subject_scope (attributionResult lc a oc) = InstallationLevel"
  "a_subject_ref (attributionResult lc a oc) = p_installation_id (at_payload a)"
  "a_evidence_refs (attributionResult lc a oc) = orElse (oc_evidence oc) [evidenceRef lc a (record_id a)]"
  by (simp_all add: attributionResult_def Let_def)

lemma makeAggregate_simps [simp]:
  "a_reason_code (makeAggregatePostbackAttribution lc a) = postbackReason (at_payload a)"
  "a_tenant_id (makeAggregatePostbackAttribution lc a) = tenant_id a"
  "a_app_id (makeAggregatePostbackAttribution lc a) = app_id a"
  "a_subject_scope (makeAggregatePostbackAttribution lc a) = AggregateScope"
  "a_evidence_refs (makeAggregatePostbackAttribution lc a) = [evidenceRef lc a (record_id a)]"
  by (simp_all add: makeAggregatePostbackAttribution_def Let_def)

lemma makeDeepLink_simps [simp]:
  "a_reason_code (makeDeepLinkAttribution lc a) \<in> {DeepLinkInstallClickReused, DeepLinkOpenAttributed,
     DeepLinkLinkInactive, DeepLinkUnknownLink}"
  "a_tenant_id (makeDeepLinkAttribution lc a) = tenant_id a"
  "a_app_id (makeDeepLinkAttribution lc a) = app_id a"
  "a_subject_scope (makeDeepLinkAttribution lc a) = EngagementLevel"
  "a_evidence_refs (makeDeepLinkAttribution lc a) = [evidenceRef lc a (record_id a)]"
  by (auto simp: makeDeepLinkAttribution_def Let_def)

lemma postbackReason_not_click: "postbackReason p \<noteq> ValidInstallReferrer"
  by (simp add: postbackReason_def)

lemma initialAttributions_set:
  assumes "initialAttributions H pv ds lc acc = Inr initial" "x \<in> set initial"
  obtains a where "a \<in> set acc" "event_name a = ''install''" "makeAttribution H pv ds lc a = Inr x"
  | a where "a \<in> set acc" "x = makeAggregatePostbackAttribution lc a"
  | a where "a \<in> set acc" "x = makeDeepLinkAttribution lc a"
proof -
  let ?posts = "filter (\<lambda>attempt. event_name attempt \<in> {''skan_postback'', ''adattributionkit_postback''}) acc"
  let ?links = "filter (\<lambda>attempt. event_name attempt = ''deep_link_open'') acc"
  obtain installs where m: "mapR (makeAttribution H pv ds lc) (filter (\<lambda>a. event_name a = ''install'') acc) = Inr installs"
    and i: "initial = sortByKey (\<lambda>a. H (HAttribution a)) (\<lambda>a. [a_attribution_id a, a_tenant_id a, a_app_id a])
      (installs @ map (makeAggregatePostbackAttribution lc) ?posts @ map (makeDeepLinkAttribution lc) ?links)"
    using assms(1) unfolding initialAttributions_def bindR_Inr_iff by blast
  have "x \<in> set installs \<or> x \<in> makeAggregatePostbackAttribution lc ` set ?posts \<or> x \<in> makeDeepLinkAttribution lc ` set ?links"
    using assms(2) unfolding i set_sortByKey set_append set_map by blast
  then show ?thesis
  proof (elim disjE imageE)
    assume "x \<in> set installs"
    then show ?thesis using mapR_Inr_set[OF m, of x] that(1) by auto
  qed (use that(2,3) in auto)
qed

section \<open>Attributions derived from earlier ones\<close>

lemma guarded_single:
  "x \<in> set (if P then (case opt of None \<Rightarrow> [] | Some p \<Rightarrow> if r p then [g p] else []) else []) \<longleftrightarrow>
     P \<and> (\<exists>p. opt = Some p \<and> r p \<and> x = g p)"
proof (cases "P \<and> (\<exists>p. opt = Some p \<and> r p)")
  case True
  then obtain p where "P" "opt = Some p" "r p" by blast
  then show ?thesis by (simp only: option.case if_True list.set option.inject) blast
next
  case False
  then have "(if P then (case opt of None \<Rightarrow> [] | Some p \<Rightarrow> if r p then [g p] else []) else []) = []"
    by (cases opt) (simp_all only: option.case if_False if_True simp_thms split: if_split, blast)
  then show ?thesis using False by (simp only: list.set) blast
qed

lemma provisional_prior:
  assumes "provisionalAttributions H input acc initial = Inr ps" "x \<in> set ps"
  obtains prior day cutoff where "prior \<in> set initial" "a_reason_code prior = ValidInstallReferrer"
    "x = clockProvisional day cutoff prior"
proof -
  obtain aggs zs where z: "provisionalForDay H acc initial aggs = Inr zs" "x \<in> set zs"
    using flatMapR_Inr_set[OF assms(1)[unfolded provisionalAttributions_def] assms(2)] by blast
  then obtain agg where "x \<in> set (dayProvisional H acc initial agg aggs)"
    by (auto simp: provisionalForDay_def bindR_Inr_iff split: list.splits option.splits if_splits)
  then obtain day cutoff install where "x \<in> set (provisionalForInstall acc initial agg day cutoff install)"
    unfolding dayProvisional_def Let_def set_concat set_map by blast
  then obtain prior where p: "priorAttribution initial install = Some prior"
    "a_reason_code prior = ValidInstallReferrer" "x = clockProvisional day cutoff prior"
    unfolding provisionalForInstall_def guarded_single by blast
  then have "prior \<in> set initial" unfolding priorAttribution_def by (blast dest: find_Some_iff_set)
  then show ?thesis using p(2,3) by (rule that)
qed

lemma fraud_prior:
  assumes "x \<in> set (fraudAttributions clicks acc initial)"
  obtains prior decision install where "prior \<in> set initial" "x = fraudAttribution decision prior"
    "install \<in> set acc" "event_name install = ''install''" "excludingDecision clicks install = Some decision"
proof -
  obtain install where i: "install \<in> set (excludedInstalls clicks acc)"
    "x \<in> set (case (excludingDecision clicks install, priorAttribution initial install) of
       (Some decision, Some prior) \<Rightarrow> [fraudAttribution decision prior] | _ \<Rightarrow> [])"
    using assms unfolding fraudAttributions_def set_concat set_map by blast
  then obtain decision prior where d: "excludingDecision clicks install = Some decision"
    "priorAttribution initial install = Some prior" "x = fraudAttribution decision prior"
    by (cases "excludingDecision clicks install"; cases "priorAttribution initial install") auto
  then have "prior \<in> set initial" unfolding priorAttribution_def using find_Some_iff_set by metis
  with d i(1) show ?thesis using that[of prior decision install] by (simp add: excludedInstalls_def)
qed

lemma derived_simps [simp]:
  "a_evidence_refs (clockProvisional d t p) = a_evidence_refs p" "a_tenant_id (clockProvisional d t p) = a_tenant_id p"
  "a_app_id (clockProvisional d t p) = a_app_id p" "a_reason_code (clockProvisional d t p) = a_reason_code p"
  "a_evidence_refs (fraudAttribution f p) = a_evidence_refs p" "a_tenant_id (fraudAttribution f p) = a_tenant_id p"
  "a_app_id (fraudAttribution f p) = a_app_id p" "a_reason_code (fraudAttribution f p) = FraudExcluded"
  "a_status (fraudAttribution f p) = Unattributed"
  "a_status (clockProvisional d t p) = a_status p" "a_method (clockProvisional d t p) = a_method p"
  "a_subject_ref (clockProvisional d t p) = a_subject_ref p"
  by (simp_all add: clockProvisional_def fraudAttribution_def)

text \<open>Every attribution of the output is, or is derived from, an initial one.\<close>

lemma attribution_origin:
  assumes "evaluate H mk input = Inr out" "x \<in> set (o_attributions out)"
  obtains st initial prior where "evaluationState H mk input = Inr st"
    "initialAttributions H (es_candidates st) (es_decisions st) (es_lifecycle st) (es_acceptedUnique st) = Inr initial"
    "prior \<in> set initial"
    "x = prior \<or> (\<exists>d t. x = clockProvisional d t prior) \<or>
     (\<exists>decision install. x = fraudAttribution decision prior \<and> install \<in> set (es_acceptedUnique st) \<and>
        event_name install = ''install'' \<and>
        excludingDecision (excludedClickIds (es_acceptedUnique st) (o_fraud_decisions out)) install = Some decision)"
proof -
  obtain st initial provisional where st: "evaluationState H mk input = Inr st"
    "initialAttributions H (es_candidates st) (es_decisions st) (es_lifecycle st) (es_acceptedUnique st) = Inr initial"
    "provisionalAttributions H input (es_acceptedUnique st) initial = Inr provisional"
    "o_attributions out = finalAttributions H (es_acceptedUnique st) initial provisional
       (excludedClickIds (es_acceptedUnique st) (o_fraud_decisions out))"
    by (rule evaluate_Inr[OF assms(1)])
  then have "x \<in> set initial \<or> x \<in> set provisional \<or>
      x \<in> set (fraudAttributions (excludedClickIds (es_acceptedUnique st) (o_fraud_decisions out)) (es_acceptedUnique st) initial)"
    using assms(2) by (auto simp: finalAttributions_def)
  then show ?thesis
  proof (elim disjE)
    assume "x \<in> set initial"
    then show ?thesis using that[OF st(1,2), of x] by blast
  next
    assume "x \<in> set provisional"
    then obtain prior d t where "prior \<in> set initial" "x = clockProvisional d t prior"
      using provisional_prior[OF st(3)] by metis
    then show ?thesis using that[OF st(1,2), of prior] by blast
  next
    assume "x \<in> set (fraudAttributions (excludedClickIds (es_acceptedUnique st) (o_fraud_decisions out))
      (es_acceptedUnique st) initial)"
    then show ?thesis by (rule fraud_prior) (use that[OF st(1,2)] in blast)
  qed
qed

text \<open>The evidence of an outcome is the install itself, alone or after its click.\<close>

definition ownEvidence :: "lifecycle_index \<Rightarrow> attempt \<Rightarrow> outcome \<Rightarrow> bool" where
  "ownEvidence lc a oc =
     (oc_evidence oc = None \<or> (\<exists>i. oc_evidence oc = Some [evidenceRef lc a i, evidenceRef lc a (record_id a)]))"

lemma ownEvidence_outcome [simp]: "ownEvidence lc a (outcome s m mo r)"
  by (simp add: ownEvidence_def)

lemma ownEvidence_with [simp]:
  "ownEvidence lc a (oc\<lparr>oc_evidence := Some [evidenceRef lc a i, evidenceRef lc a (record_id a)]\<rparr>)"
  "ownEvidence lc a (oc\<lparr>oc_evidence := None\<rparr>)"
  unfolding ownEvidence_def by (auto simp del: not_None_eq)

lemma ownEvidence_click: "clickOutcome lc a c = Inr oc \<Longrightarrow> ownEvidence lc a oc"
  by (auto simp: clickOutcome_def Let_def windowOutcome_Inr split: if_splits)

lemma ownEvidence_clicks: "clickAttribution H pv ds lc a = Inr oc \<Longrightarrow> ownEvidence lc a oc"
proof -
  assume "clickAttribution H pv ds lc a = Inr oc"
  then obtain clicks where "(case clicks of [] \<Rightarrow> Inr (outcome Unattributed NoMethod NoModel UnknownClickId)
        | [click] \<Rightarrow> clickOutcome lc a click
        | _ \<Rightarrow> Inr (outcome Unattributed NoMethod NoModel AmbiguousClickId)) = Inr oc"
    unfolding clickAttribution_def bindR_Inr_iff by blast
  then show ?thesis
    by (cases clicks rule: remdups_adj.cases) (auto dest: ownEvidence_click)
qed

lemma ownEvidence_nonclick:
  "metaOutcome p = Inr (Some oc) \<Longrightarrow> ownEvidence lc a oc"
  "adservicesOutcome p = Some oc \<Longrightarrow> ownEvidence lc a oc"
  "referrerStatusOutcome p = Some oc \<Longrightarrow> ownEvidence lc a oc"
  "ownEvidence lc a (importedOutcome ic (importedEvidence lc a clicks))"
  by (auto simp: metaOutcome_def adservicesOutcome_def referrerStatusOutcome_def importedOutcome_def importedEvidence_def
      Let_def split: if_splits option.splits list.splits)

lemma ownEvidence_install:
  assumes "installOutcome H pv ds lc a = Inr oc"
  shows "ownEvidence lc a oc"
proof (cases "startsWith (r_producer (at_record a)) ''import:''")
  case True
  then show ?thesis using assms ownEvidence_nonclick(4)
    by (auto simp: installOutcome_def importedAttribution_def bindR_Inr_iff split: option.splits)
next
  case False
  then obtain m where m: "metaOutcome (at_payload a) = Inr m" "nativeOutcome H pv ds lc a = Inr oc"
    using assms by (auto simp: installOutcome_def nativeOutcome_def bindR_Inr_iff)
  then show ?thesis
    by (cases m; cases "adservicesOutcome (at_payload a)"; cases "referrerStatusOutcome (at_payload a)")
      (auto simp: nativeOutcome_def intro: ownEvidence_nonclick ownEvidence_clicks)
qed

lemma evidence_scope:
  assumes "makeAttribution H pv ds lc a = Inr x" "e \<in> set (a_evidence_refs x)"
  shows "ev_tenant_id e = tenant_id a \<and> ev_app_id e = app_id a"
proof -
  obtain oc where oc: "installOutcome H pv ds lc a = Inr oc" "x = attributionResult lc a oc"
    using assms(1) by (auto simp: makeAttribution_def bindR_Inr_iff)
  show ?thesis using ownEvidence_install[OF oc(1)] assms(2) oc(2) by (auto simp: ownEvidence_def evidenceRef_def)
qed

end
