(* ===== verification/Samples.thy ===== *)
theory Samples
  imports EvaluateFacts
begin

text \<open>
  Small concrete inputs on which the theorems are applied: an app with one click and one
  install that names it, the same install without a click, and variants of them.
\<close>

definition emptyPayload :: payload where
  "emptyPayload = \<lparr>
     p_installation_id = None, p_prior_installation_id = None, p_install_type = None, p_click_id = None,
     p_referrer_status = None, p_third_party_referrer_classification = None, p_referrer_click_at_server = None,
     p_referrer_click_at_server_status = None, p_install_begin_at_server = None,
     p_install_begin_at_server_status = None, p_meta_referrer_status = None, p_meta_attribution_model = None,
     p_adservices_status = None, p_import_context = None, p_remote_click_ref = None, p_redirector_click_at = None,
     p_redirector_time_status = None, p_bot_prefetch = None, p_replay_suspected = None, p_campaign_id = None,
     p_network = None, p_ad_network = None, p_country = None, p_subject_scope = None, p_anchor_source = None,
     p_amount_unscaled = None, p_amount_scale = None, p_currency = None, p_correction_target_record_id = None,
     p_open_source = None, p_signature_verified = None, p_did_win = None, p_source_identifier = None,
     p_conversion_value = None, p_coarse_conversion_value = None, p_session_id = None,
     p_transaction_id = None, p_event_key = None, p_link_slug = None, p_site_id = None, p_tracking_link_id = None,
     p_source_rate_class = None, p_client_class = None, p_impression_id = None, p_ad_unit_id = None,
     p_revenue_source = None, p_consent_state = None, p_unread = []\<rparr>"

definition sampleTime :: string where
  "sampleTime = ''2026-01-02T00:00:00.000Z''"

definition sampleServer :: server_context where
  "sampleServer = \<lparr>
     s_tenant_id = ''t'', s_app_id = ''a'', s_received_at = sampleTime, s_policy_digest = ''p'',
     s_deep_link_resolution = None, s_processing_purposes = [], s_withdrawals = [],
     s_alternative_legal_bases = [], s_timestamp_stale_policy = None, s_click_injection_policy = None,
     s_fraud_enabled = Some False, s_fraud_rule_bundle = None, s_fraud_actions_enabled = None\<rparr>"

definition sampleRecord :: "string \<Rightarrow> string \<Rightarrow> payload \<Rightarrow> event_record" where
  "sampleRecord i name payload = \<lparr>
     r_record_id = i, r_delivery_id = i, r_tenant_id = ''t'', r_app_id = ''a'', r_producer = ''redirector'',
     r_producer_version = ''1'', r_producer_variant = None, r_wrapper_version = None, r_event_id = i,
     r_event_name = name, r_schema_version = ''0.4.0'', r_occurred_at = sampleTime, r_occurred_at_source = ''server'',
     r_received_at = sampleTime, r_payload = payload, r_late = None, r_subject_scope = None,
     r_processing_purpose_id = None, r_processing_sequence = 1, r_integrity_verdict = None,
     r_alternative_legal_basis_id = None\<rparr>"

definition sampleClick :: event_record where
  "sampleClick = sampleRecord ''c1'' ''click''
     (emptyPayload\<lparr>p_click_id := Some ''k1'', p_redirector_click_at := Some ''2026-01-01T00:00:00.000Z''\<rparr>)"

definition sampleInstall :: event_record where
  "sampleInstall = sampleRecord ''i1'' ''install''
     (emptyPayload\<lparr>p_installation_id := Some ''u1'', p_install_type := Some ''first_install'',
        p_referrer_status := Some ''available'', p_click_id := Some ''k1'',
        p_install_begin_at_server := Some ''2026-01-01T00:00:01.000Z''\<rparr>)"

definition samplePolicy :: fx_policy where
  "samplePolicy = \<lparr>
     fp_policy_version = ''1'', fp_target_currency = ''USD'', fp_target_scale = 6, fp_rounding_mode = ''half_even'',
     fp_rates = [\<lparr>fx_currency = ''USD'', fx_rate_unscaled = ''1'', fx_rate_scale = 0, fx_source = ''s'', fx_as_of = sampleTime\<rparr>]\<rparr>"

definition sampleInput :: "event_record list \<Rightarrow> evaluation_input" where
  "sampleInput records = \<lparr>
     in_batches = None, in_single = Some (sampleServer, records), in_fx_policy = samplePolicy,
     in_cost_records = [], in_source_day_aggregates = [], in_metric_definitions = [], in_metric_evaluations = [],
     in_reconciliation_inputs = [], in_privacy_requests = [], in_correction_inputs = [],
     in_pre_ingestion_rejections = [], in_retention_expirations = []\<rparr>"

text \<open>A digest for evaluating: every value hashes to the same text.\<close>

definition sampleDigest :: digest where
  "sampleDigest h = ''h''"

section \<open>The evaluation of the click and its install\<close>

definition clickAttempt :: attempt where
  "clickAttempt = \<lparr>at_server = sampleServer, at_record = sampleClick, at_batch_id = ''batch-default''\<rparr>"

definition installAttempt :: attempt where
  "installAttempt = \<lparr>at_server = sampleServer, at_record = sampleInstall, at_batch_id = ''batch-default''\<rparr>"

definition sampleRun :: evaluation_input where
  "sampleRun = sampleInput [sampleClick, sampleInstall]"

lemmas sample_defs = sampleClick_def sampleInstall_def sampleRecord_def emptyPayload_def sampleServer_def

lemma sample_fields:
  "at_server clickAttempt = sampleServer" "at_record clickAttempt = sampleClick"
  "at_batch_id clickAttempt = ''batch-default''"
  "at_server installAttempt = sampleServer" "at_record installAttempt = sampleInstall"
  "at_batch_id installAttempt = ''batch-default''"
  by (simp_all add: clickAttempt_def installAttempt_def)

lemma sample_iso:
  "toISOText 1767312000000 = sampleTime" "toISOText 1767225600000 = ''2026-01-01T00:00:00.000Z''"
  "toISOText 1767225601000 = ''2026-01-01T00:00:01.000Z''"
  by code_simp+

lemma sample_times:
  "time (Some sampleTime) f = Inr 1767312000000"
  "time (Some ''2026-01-01T00:00:00.000Z'') f = Inr 1767225600000"
  "time (Some ''2026-01-01T00:00:01.000Z'') f = Inr 1767225601000"
  by (simp_all add: time_Inr_iff sample_iso timeClip_def)

text \<open>An input of these two attempts that asks for nothing else.\<close>

definition quietRun :: "evaluation_input \<Rightarrow> bool" where
  "quietRun input \<longleftrightarrow> attempts input = [clickAttempt, installAttempt] \<and>
     in_cost_records input = [] \<and> in_source_day_aggregates input = [] \<and> in_metric_definitions input = [] \<and>
     in_metric_evaluations input = [] \<and> in_reconciliation_inputs input = [] \<and> in_privacy_requests input = [] \<and>
     in_correction_inputs input = [] \<and> in_pre_ingestion_rejections input = [] \<and> in_retention_expirations input = []"

lemma sample_quiet: "quietRun sampleRun"
  by (simp add: quietRun_def attempts_def sampleRun_def sampleInput_def clickAttempt_def installAttempt_def)

lemma sample_attempts: "attempts sampleRun = [clickAttempt, installAttempt]"
  using sample_quiet by (simp add: quietRun_def)

lemma sample_sorted: "sortCandidateAttempts sampleDigest [clickAttempt, installAttempt] = [clickAttempt, installAttempt]"
  by (simp add: sortCandidateAttempts_sort_key candidateAttemptSortKey_def sample_fields sample_defs less_char_def)

lemma sample_keys:
  "scopeKey clickAttempt \<noteq> scopeKey installAttempt"
  "record_id clickAttempt = ''c1''" "record_id installAttempt = ''i1''"
  "attemptDecisionKey H clickAttempt \<noteq> attemptDecisionKey H installAttempt"
  "attemptDecisionKey H installAttempt \<noteq> attemptDecisionKey H clickAttempt"
  by (simp_all add: scopeKey_def attemptDecisionKey_def sample_fields sample_defs)

abbreviation sampleProvider :: provider where
  "sampleProvider \<equiv> createFixtureCandidateProvider [clickAttempt, installAttempt]"

lemma sample_provider:
  "pv_byRecordId sampleProvider ''c1'' = [clickAttempt]"
  "pv_byRecordId sampleProvider ''i1'' = [installAttempt]"
  "pv_byLogicalScope sampleProvider clickAttempt = [clickAttempt]"
  "pv_byLogicalScope sampleProvider installAttempt = [installAttempt]"
  using sample_keys by (simp_all add: fixture.byRecordId_mk fixture.byLogicalScope_mk)

definition sampleDecision :: "attempt \<Rightarrow> decision" where
  "sampleDecision a = makeDecision a [a] UniqueDelivery (consentBase a True ConsentNotRequired) None False"

lemma sample_decide:
  "decide sampleDigest sampleProvider clickAttempt = Inr (sampleDecision clickAttempt)"
  "decide sampleDigest sampleProvider installAttempt = Inr (sampleDecision installAttempt)"
  by (simp_all add: decide_def sample_keys sample_provider consentDecision_def consentNotRequired_def
      assertStalePolicy_def assertServerClickPolicy_def resolveDuplicate_def rejectReason_def staleAttempt_def
      clockSkew_def sample_fields sample_defs sample_times consentBase_def Let_def sampleDecision_def)

lemma sample_accepts:
  "accepts sampleDigest sampleProvider clickAttempt" "accepts sampleDigest sampleProvider installAttempt"
  by (simp_all add: accepts_def sample_decide sampleDecision_def acceptedUniqueDecision_def)

definition sampleState :: evaluation_state where
  "sampleState = \<lparr>
     es_all = [clickAttempt, installAttempt],
     es_candidates = sampleProvider,
     es_decisionsList = [sampleDecision clickAttempt, sampleDecision installAttempt],
     es_decisions = decisionMap sampleDigest [clickAttempt, installAttempt]
       [sampleDecision clickAttempt, sampleDecision installAttempt],
     es_preIngestion = [],
     es_lifecycle = [],
     es_acceptedUnique = [clickAttempt, installAttempt]\<rparr>"

lemma sample_decisions:
  "mapR (decideCatching sampleDigest sampleProvider) [clickAttempt, installAttempt] =
     Inr [sampleDecision clickAttempt, sampleDecision installAttempt]"
  by (simp add: decideCatching_def sample_decide)

lemma sample_acceptedUnique:
  "isAcceptedUnique sampleDigest (es_decisions sampleState) clickAttempt = Inr True"
  "isAcceptedUnique sampleDigest (es_decisions sampleState) installAttempt = Inr True"
  using fixture.isAcceptedUnique_accepts[OF sample_decisions] sample_accepts by (simp_all add: sampleState_def)

lemma sample_decisionFor:
  "decisionFor sampleDigest (es_decisions sampleState) clickAttempt = Inr (sampleDecision clickAttempt)"
  "decisionFor sampleDigest (es_decisions sampleState) installAttempt = Inr (sampleDecision installAttempt)"
  by (simp_all add: decisionFor_def sampleState_def decisionMap_def mapFromPairs_def sample_keys)

lemma sample_events: "event_name clickAttempt = ''click''" "event_name installAttempt = ''install''"
  by (simp_all add: sample_fields sample_defs)

lemma quiet_state:
  assumes "quietRun input"
  shows "evaluationState sampleDigest createFixtureCandidateProvider input = Inr sampleState"
proof -
  have anchors: "assertInstallationAnchors sampleDigest [clickAttempt, installAttempt] (es_decisions sampleState) = Inr ()"
    by (simp add: assertInstallationAnchors_def sample_events sample_acceptedUnique checkAnchor_def Let_def)
      (simp add: sample_fields sample_defs)
  have "assertImportProviderContexts [clickAttempt, installAttempt] = Inr ()"
    "assertRevenueAnchorSources [clickAttempt, installAttempt] = Inr ()"
    by (simp_all add: assertImportProviderContexts_def assertImportProviderContext_def assertRevenueAnchorSources_def
        assertRevenueAnchorSource_def sample_fields sample_defs)
  moreover have "assertScopedReferences input [clickAttempt, installAttempt] = Inr ()"
    "privacyIndex input = []" "in_pre_ingestion_rejections input = []"
    using assms by (simp_all add: quietRun_def assertScopedReferences_def privacyIndex_def mapFromPairs_def sample_events)
  ultimately show ?thesis
    using anchors sample_acceptedUnique sample_decisions assms
    by (simp add: evaluationState_def quietRun_def sample_sorted decisionsList_def Let_def) (simp add: sampleState_def)
qed

lemma sample_state: "evaluationState sampleDigest createFixtureCandidateProvider sampleRun = Inr sampleState"
  by (rule quiet_state[OF sample_quiet])

definition sampleAttribution :: attribution where
  "sampleAttribution = attributionResult [] installAttempt
     ((outcome NonOrganic InstallReferrer LastClick ValidInstallReferrer)
        \<lparr>oc_evidence := Some [evidenceRef [] installAttempt ''c1'', evidenceRef [] installAttempt ''i1'']\<rparr>)"

lemma sample_clicks:
  "pv_clickCandidates sampleProvider (tenant_id installAttempt) (app_id installAttempt)
     (p_click_id (at_payload installAttempt)) = [clickAttempt]"
  by (simp add: fixture.clickCandidates_mk isClickOf_def sample_fields sample_defs)

lemma sample_makeAttribution:
  "makeAttribution sampleDigest sampleProvider (es_decisions sampleState) [] installAttempt = Inr sampleAttribution"
proof -
  have window: "windowOutcome installAttempt clickAttempt e =
      Inr ((outcome NonOrganic InstallReferrer LastClick ValidInstallReferrer)\<lparr>oc_evidence := e\<rparr>)" for e
    by (simp add: windowOutcome_def sample_fields sample_defs sample_times DAY_MS_def Let_def)
  have click: "clickOutcome [] installAttempt clickAttempt = windowOutcome installAttempt clickAttempt
      (Some [evidenceRef [] installAttempt ''c1'', evidenceRef [] installAttempt ''i1''])"
    by (simp add: clickOutcome_def Let_def sample_keys) (simp add: sample_fields sample_defs)
  have native: "installOutcome sampleDigest sampleProvider (es_decisions sampleState) [] installAttempt =
      clickAttribution sampleDigest sampleProvider (es_decisions sampleState) [] installAttempt"
    by (simp add: installOutcome_def nativeOutcome_def metaOutcome_def adservicesOutcome_def referrerStatusOutcome_def
        Let_def startsWith_def sample_fields sample_defs)
  show ?thesis
    by (simp add: makeAttribution_def native clickAttribution_def sample_clicks sample_acceptedUnique click window
        sampleAttribution_def)
qed

lemma sample_initial:
  "initialAttributions sampleDigest sampleProvider (es_decisions sampleState) [] [clickAttempt, installAttempt] =
     Inr [sampleAttribution]"
  by (simp add: initialAttributions_def sample_events sample_makeAttribution sortByKey_def)

lemma quiet_metricDefinitions:
  assumes "quietRun input"
  shows "\<exists>ds. metricDefinitions H input = Inr ds"
proof -
  have "distinct (map md_metric_name baseMetricDefinitions)" by code_simp
  then show ?thesis unfolding metricDefinitions_Inr using assms by (simp add: quietRun_def)
qed

lemma sample_metricDefinitions: "\<exists>ds. metricDefinitions H sampleRun = Inr ds"
  by (rule quiet_metricDefinitions[OF sample_quiet])

text \<open>The sample evaluates: two deliveries, two raw records and one valid attribution.\<close>

lemma quiet_evaluation:
  assumes "quietRun input"
  obtains out where "evaluate sampleDigest createFixtureCandidateProvider input = Inr out"
    "o_attributions out = [sampleAttribution]"
    "set (o_logical_events out) = {makeLogicalEvent clickAttempt, makeLogicalEvent installAttempt}"
    "length (o_raw_records out) = 2" "o_fraud_decisions out = []" "o_reconciliation out = []"
proof -
  note quiet = assms[unfolded quietRun_def]
  obtain ds where ds: "metricDefinitions sampleDigest input = Inr ds" using quiet_metricDefinitions[OF assms] by blast
  have raw: "rawEvidence sampleDigest (es_decisions sampleState) [] [clickAttempt, installAttempt]
      [clickAttempt, installAttempt] = Inr [clickAttempt, installAttempt]"
    by (simp add: rawEvidence_def sample_decisionFor sampleDecision_def hidden_def)
  have consent: "consentDecision clickAttempt = Inr (consentBase clickAttempt True ConsentNotRequired)"
    "consentDecision installAttempt = Inr (consentBase installAttempt True ConsentNotRequired)"
    by (simp_all add: consentDecision_def consentNotRequired_def sample_fields sample_defs)
  obtain rs where rs: "rawRecords sampleDigest [clickAttempt, installAttempt] = Inr rs" "length rs = 2"
    by (simp add: rawRecords_def makeRawRecord_def consent Let_def)
  obtain dl where dl: "makeDeliveries sampleDigest (es_decisions sampleState) [clickAttempt, installAttempt] [] = Inr dl"
    by (simp add: makeDeliveries_def sample_decisionFor)
  have fraud: "fraudDecisions sampleDigest input [clickAttempt, installAttempt] = Inr []"
    using quiet by (simp add: fraudDecisions_def transportFraud_def installFraud_def sample_events boundFraudBundle_def
        sample_fields sample_defs sortByKey_def)
  have rest: "provisionalAttributions sampleDigest input xs as = Inr []" "costRecords sampleDigest input = Inr []"
    "metricRuns sampleDigest input xs de lc as ex = Inr []" for xs as de lc ex
    using quiet by (simp_all add: provisionalAttributions_def sourceDays_def costRecords_def metricRuns_def sortByKey_def)
  have recon: "reconciliationResults sampleDigest input [clickAttempt, installAttempt] = Inr []"
    using quiet by (simp add: reconciliationResults_Inr importedReconciliationInputs_def sample_events startsWith_def sample_fields
        sample_defs sortByKey_def)
  have final: "finalAttributions sampleDigest [clickAttempt, installAttempt] [sampleAttribution] []
      (excludedClickIds [clickAttempt, installAttempt] []) = [sampleAttribution]"
    by (simp add: finalAttributions_def fraudAttributions_def excludedInstalls_def excludedClickIds_def
        excludingDecision_def sortByKey_def bind_eq_None_conv)
  have logical: "set (logicalEvents sampleDigest [] [clickAttempt, installAttempt]) =
      {makeLogicalEvent clickAttempt, makeLogicalEvent installAttempt}"
    by (simp add: logicalEvents_def hidden_def)
  have state: "es_all sampleState = [clickAttempt, installAttempt]" "es_lifecycle sampleState = []"
    "es_acceptedUnique sampleState = [clickAttempt, installAttempt]" "es_candidates sampleState = sampleProvider"
    "es_preIngestion sampleState = []"
    by (simp_all add: sampleState_def)
  show ?thesis
    by (rule that, simp add: evaluate_def quiet_state[OF assms] evaluateState_def state raw rs dl fraud rest recon ds
        sample_initial final Let_def, simp_all add: final logical rs(2))
qed

lemma sample_evaluation:
  obtains out where "evaluate sampleDigest createFixtureCandidateProvider sampleRun = Inr out"
    "o_attributions out = [sampleAttribution]"
    "set (o_logical_events out) = {makeLogicalEvent clickAttempt, makeLogicalEvent installAttempt}"
    "length (o_raw_records out) = 2"
  by (rule quiet_evaluation[OF sample_quiet]) (rule that)

end
