(* ===== verification/SampleExpired.thy ===== *)
theory SampleExpired
  imports Samples
begin

text \<open>
  The sample run again, with the click's evidence expired by retention: its raw record and
  logical event disappear and the attribution it supported is recalculated.
\<close>

definition sampleExpiration :: retention_expiration where
  "sampleExpiration = \<lparr>re_tenant_id = ''t'', re_app_id = ''a'', re_record_id = ''c1''\<rparr>"

definition expiredRun :: evaluation_input where
  "expiredRun = sampleRun\<lparr>in_retention_expirations := [sampleExpiration]\<rparr>"

definition expiredIndex :: lifecycle_index where
  "expiredIndex = [(evidenceKey ''t'' ''a'' (Some ''c1''), Purged)]"

definition expiredState :: evaluation_state where
  "expiredState = sampleState\<lparr>es_lifecycle := expiredIndex\<rparr>"

lemma expired_hidden: "hidden expiredIndex clickAttempt" "\<not> hidden expiredIndex installAttempt"
  by (simp_all add: hidden_def expiredIndex_def attemptEvidenceKey_def sample_fields sample_defs)

lemma expired_index: "privacyIndex expiredRun = expiredIndex"
  by (simp add: privacyIndex_def mapFromPairs_def expiredRun_def sampleRun_def sampleInput_def expirationEntry_def
      sampleExpiration_def expiredIndex_def)

lemma expired_fields:
  "attempts expiredRun = [clickAttempt, installAttempt]" "in_pre_ingestion_rejections expiredRun = []"
  by (simp_all add: expiredRun_def attempts_def sampleRun_def sampleInput_def clickAttempt_def installAttempt_def)

lemma expired_state: "evaluationState sampleDigest createFixtureCandidateProvider expiredRun = Inr expiredState"
proof -
  have st: "es_all sampleState = [clickAttempt, installAttempt]"
    "es_decisionsList sampleState = [sampleDecision clickAttempt, sampleDecision installAttempt]"
    "es_acceptedUnique sampleState = [clickAttempt, installAttempt]" "es_preIngestion sampleState = []"
    "es_decisions sampleState = decisionMap sampleDigest [clickAttempt, installAttempt]
       [sampleDecision clickAttempt, sampleDecision installAttempt]"
    "es_candidates sampleState = sampleProvider"
    by (simp_all add: sampleState_def)
  note checks = evaluationState_Inr(7-9,11)[OF sample_state, unfolded st]
  have "assertScopedReferences expiredRun [clickAttempt, installAttempt] = Inr ()"
    by (simp add: assertScopedReferences_def expiredRun_def sampleRun_def sampleInput_def sample_events
        existsAt_def attemptAt_def sampleExpiration_def sample_keys forR_def)
      (simp add: sample_fields sample_defs)
  then show ?thesis
    using checks sample_decisions
    by (simp add: evaluationState_def expired_fields sample_sorted decisionsList_def Let_def expired_index)
      (simp add: expiredState_def sampleState_def)
qed

definition expiredAttribution :: attribution where
  "expiredAttribution = attributionResult expiredIndex installAttempt
     ((outcome NonOrganic InstallReferrer LastClick ValidInstallReferrer)
        \<lparr>oc_evidence := Some [evidenceRef expiredIndex installAttempt ''c1'', evidenceRef expiredIndex installAttempt ''i1'']\<rparr>)"

lemma expired_makeAttribution:
  "makeAttribution sampleDigest sampleProvider (es_decisions sampleState) expiredIndex installAttempt = Inr expiredAttribution"
proof -
  have window: "windowOutcome installAttempt clickAttempt e =
      Inr ((outcome NonOrganic InstallReferrer LastClick ValidInstallReferrer)\<lparr>oc_evidence := e\<rparr>)" for e
    by (simp add: windowOutcome_def sample_fields sample_defs sample_times DAY_MS_def Let_def)
  have click: "clickOutcome expiredIndex installAttempt clickAttempt = windowOutcome installAttempt clickAttempt
      (Some [evidenceRef expiredIndex installAttempt ''c1'', evidenceRef expiredIndex installAttempt ''i1''])"
    by (simp add: clickOutcome_def Let_def sample_keys) (simp add: sample_fields sample_defs)
  have native: "installOutcome sampleDigest sampleProvider (es_decisions sampleState) expiredIndex installAttempt =
      clickAttribution sampleDigest sampleProvider (es_decisions sampleState) expiredIndex installAttempt"
    by (simp add: installOutcome_def nativeOutcome_def metaOutcome_def adservicesOutcome_def referrerStatusOutcome_def
        Let_def startsWith_def sample_fields sample_defs)
  show ?thesis
    by (simp add: makeAttribution_def native clickAttribution_def sample_clicks sample_acceptedUnique click window
        expiredAttribution_def)
qed

lemma expired_initial:
  "initialAttributions sampleDigest sampleProvider (es_decisions sampleState) expiredIndex [clickAttempt, installAttempt] =
     Inr [expiredAttribution]"
  by (simp add: initialAttributions_def sample_events expired_makeAttribution sortByKey_def)

text \<open>One raw record, one logical event and one superseding attribution remain.\<close>

lemma expired_evaluation:
  obtains out where "evaluate sampleDigest createFixtureCandidateProvider expiredRun = Inr out"
    "o_attributions out = [expiredAttribution]" "o_logical_events out = [makeLogicalEvent installAttempt]"
    "length (o_raw_records out) = 1"
proof -
  obtain ds where ds: "metricDefinitions sampleDigest sampleRun = Inr ds" using sample_metricDefinitions by blast
  then have defs: "metricDefinitions sampleDigest expiredRun = Inr ds"
    by (simp add: metricDefinitions_def expiredRun_def)
  have raw: "rawEvidence sampleDigest (es_decisions sampleState) expiredIndex [clickAttempt, installAttempt]
      [clickAttempt, installAttempt] = Inr [installAttempt]"
    by (simp add: rawEvidence_def sample_decisionFor sampleDecision_def expired_hidden)
  have consent: "consentDecision installAttempt = Inr (consentBase installAttempt True ConsentNotRequired)"
    by (simp add: consentDecision_def consentNotRequired_def sample_fields sample_defs)
  obtain rs where rs: "rawRecords sampleDigest [installAttempt] = Inr rs" "length rs = 1"
    by (simp add: rawRecords_def makeRawRecord_def consent Let_def)
  obtain dl where dl: "makeDeliveries sampleDigest (es_decisions sampleState) [clickAttempt, installAttempt] [] = Inr dl"
    by (simp add: makeDeliveries_def sample_decisionFor)
  have fraud: "fraudDecisions sampleDigest expiredRun [clickAttempt, installAttempt] = Inr []"
    by (simp add: fraudDecisions_def transportFraud_def installFraud_def sample_events boundFraudBundle_def
        sample_fields sample_defs expiredRun_def sampleRun_def sampleInput_def sortByKey_def)
  have rest: "provisionalAttributions sampleDigest expiredRun xs as = Inr []" "costRecords sampleDigest expiredRun = Inr []"
    "metricRuns sampleDigest expiredRun xs de lc as ex = Inr []" for xs as de lc ex
    by (simp_all add: provisionalAttributions_def sourceDays_def costRecords_def metricRuns_def expiredRun_def sampleRun_def
        sampleInput_def sortByKey_def)
  have recon: "reconciliationResults sampleDigest expiredRun [clickAttempt, installAttempt] = Inr []"
    by (simp add: reconciliationResults_Inr importedReconciliationInputs_def sample_events startsWith_def sample_fields
        sample_defs expiredRun_def sampleRun_def sampleInput_def sortByKey_def)
  have final: "finalAttributions sampleDigest [clickAttempt, installAttempt] [expiredAttribution] []
      (excludedClickIds [clickAttempt, installAttempt] []) = [expiredAttribution]"
    by (simp add: finalAttributions_def fraudAttributions_def excludedInstalls_def excludedClickIds_def
        excludingDecision_def sortByKey_def bind_eq_None_conv)
  have logical: "logicalEvents sampleDigest expiredIndex [clickAttempt, installAttempt] = [makeLogicalEvent installAttempt]"
    by (simp add: logicalEvents_def expired_hidden sortByKey_def)
  have state: "es_all expiredState = [clickAttempt, installAttempt]" "es_lifecycle expiredState = expiredIndex"
    "es_acceptedUnique expiredState = [clickAttempt, installAttempt]" "es_candidates expiredState = sampleProvider"
    "es_preIngestion expiredState = []" "es_decisions expiredState = es_decisions sampleState"
    by (simp_all add: expiredState_def sampleState_def)
  show ?thesis
    by (rule that, simp add: evaluate_def expired_state evaluateState_def state raw rs dl fraud rest recon defs
        expired_initial final Let_def, simp_all add: final logical rs(2))
qed

end
