(* ===== verification/MetricLaws.thy ===== *)
theory MetricLaws
  imports Metrics
begin

text \<open>
  Laws of the metric runs: which revenue falls into a window, what a run may see, which cost
  records are current, and when a run is reproducible.
\<close>

section \<open>Revenue windows\<close>

text \<open>The date text of a time value in a zone, and when two of them are the same day.\<close>

definition zoneDay :: "zone \<Rightarrow> int \<Rightarrow> int" where
  "zoneDay zn t = (t + zoneOffset zn) div dayMs"

text \<open>Time values the language prints as a four-digit year in the zone.\<close>

definition datable :: "zone \<Rightarrow> int \<Rightarrow> bool" where
  "datable zn t = (timeClip t \<and> timeClip (t + zoneOffset zn) \<and> fourDigitYear (t + zoneOffset zn))"

lemma dateAt_day:
  assumes "datable zn t"
  shows "dateAt (Some (toISOText t)) zn f = Inr (dateText (zoneDay zn t))"
  using assms by (simp add: datable_def dateAt_toISOText take_10_toISOText zoneDay_def)

lemma dateText_inj:
  assumes "0 \<le> yearFromDay y" "yearFromDay y \<le> 9999" "0 \<le> yearFromDay z" "yearFromDay z \<le> 9999"
  shows "dateText y = dateText z \<longleftrightarrow> y = z"
  using dateText_less[of y z] dateText_less[of z y] assms by (cases y z rule: linorder_cases) auto

lemma datable_dateText:
  "datable zn t \<Longrightarrow> datable zn u \<Longrightarrow> dateText (zoneDay zn t) = dateText (zoneDay zn u) \<longleftrightarrow> zoneDay zn t = zoneDay zn u"
  by (rule dateText_inj) (auto simp: datable_def fourDigitYear_def isoYear_def zoneDay_def)

lemma zoneDay_shift: "zoneDay zn (t + d * dayMs) = zoneDay zn t + d"
proof -
  have "t + d * dayMs + zoneOffset zn = d * dayMs + (t + zoneOffset zn)" by simp
  then show ?thesis by (simp add: zoneDay_def dayMs_def)
qed

lemma eligible_calendar:
  assumes "md_window_type d = CalendarDay" "r_occurred_at earned = toISOText e" "r_occurred_at inst = toISOText i"
    and "datable (md_aggregation_time_zone d) e" "timeClip i" "datable (md_aggregation_time_zone d) (i + md_window_day d * dayMs)"
  shows "eligibleRevenue d inst earned =
    Inr (zoneDay (md_aggregation_time_zone d) e = zoneDay (md_aggregation_time_zone d) i + md_window_day d)"
proof -
  let ?z = "md_aggregation_time_zone d" and ?j = "i + md_window_day d * dayMs"
  have t: "time (Some (r_occurred_at inst)) ''occurred_at'' = Inr i" using assms by (simp add: time_Inr_iff)
  have s: "toISOString ?j = Inr (toISOText ?j)" using assms(6) by (simp add: toISOString_def datable_def)
  have "DAY_MS = dayMs" by (simp add: DAY_MS_def dayMs_def)
  then show ?thesis using assms(1,2) t s dateAt_day[OF assms(4)] dateAt_day[OF assms(6)]
    datable_dateText[OF assms(4,6)] by (simp add: eligibleRevenue_def Let_def zoneDay_shift)
qed

lemma eligible_elapsed:
  assumes "md_window_type d \<noteq> CalendarDay" "r_occurred_at earned = toISOText e" "r_occurred_at inst = toISOText i"
    and "timeClip e" "timeClip i"
  shows "eligibleRevenue d inst earned = Inr (i \<le> e \<and> e < i + (md_window_day d + 1) * DAY_MS)"
  using assms by (auto simp: eligibleRevenue_def Let_def time_Inr_iff[THEN iffD2])

section \<open>What a run sees\<close>

lemma includedAttempts_Inr:
  assumes "includedAttempts H ds ev all = Inr included" "a \<in> set included"
  shows "a \<in> set all" "isAcceptedUnique H ds a = Inr True"
    "r_received_at (at_record a) \<le> me_input_received_at_watermark ev"
  using filterR_Inr_set[OF assms(1)[unfolded includedAttempts_def]] assms(2)
  by (auto simp: bindR_Inr_iff compareText_le_zero)

lemma runView_visible:
  assumes "runView H ds lc st costs all ev = Inr v" "a \<in> set (v_visible v)"
  shows "a \<in> set all" "isAcceptedUnique H ds a = Inr True"
    "r_received_at (at_record a) \<le> me_input_received_at_watermark ev"
    "me_privacy_state ev = ''after'' \<Longrightarrow> \<not> hidden lc a"
proof -
  obtain included where i: "includedAttempts H ds ev all = Inr included" "v_visible v = visibleAttempts ev lc included"
    using assms(1) by (auto simp: runView_def Let_def bindR_Inr_iff)
  then have a: "a \<in> set included" "me_privacy_state ev = ''after'' \<Longrightarrow> \<not> hidden lc a"
    using assms(2) by (auto simp: visibleAttempts_def)
  show "a \<in> set all" "isAcceptedUnique H ds a = Inr True" "r_received_at (at_record a) \<le> me_input_received_at_watermark ev"
    using includedAttempts_Inr[OF i(1) a(1)] by auto
  show "me_privacy_state ev = ''after'' \<Longrightarrow> \<not> hidden lc a" by (rule a(2))
qed

lemma runView_subsets:
  assumes "runView H ds lc st costs all ev = Inr v"
  shows "set (v_installs v) \<subseteq> set (v_visible v)" "set (v_revenue v) \<subseteq> set (v_visible v)"
    "\<And>a. a \<in> set (v_installs v) \<Longrightarrow> event_name a = ''install''"
    "\<And>a. a \<in> set (v_revenue v) \<Longrightarrow> event_name a = ''ad_revenue''"
proof -
  obtain included installs where i: "includedAttempts H ds ev all = Inr included"
    "filterR (\<lambda>attempt. andR (Inr (event_name attempt = ''install''))
                (matchesGrouping attempt (me_grouping ev) st)) (visibleAttempts ev lc included) = Inr installs"
    and v: "v_visible v = visibleAttempts ev lc included" "v_installs v = installs"
      "v_revenue v = filter (\<lambda>attempt. event_name attempt = ''ad_revenue'' \<and>
                            p_subject_scope (at_payload attempt) = Some ''installation_level'') (visibleAttempts ev lc included)"
    using assms by (auto simp: runView_def Let_def bindR_Inr_iff)
  show "set (v_installs v) \<subseteq> set (v_visible v)" "\<And>a. a \<in> set (v_installs v) \<Longrightarrow> event_name a = ''install''"
    using filterR_Inr_set[OF i(2)] v(1,2) by (auto simp: andR_def split: if_splits)
  show "set (v_revenue v) \<subseteq> set (v_visible v)" "\<And>a. a \<in> set (v_revenue v) \<Longrightarrow> event_name a = ''ad_revenue''"
    using v(1,3) by auto
qed

section \<open>Current costs\<close>

abbreviation costKey :: "cost_record \<Rightarrow> string" where
  "costKey c \<equiv> compositeKey [Some (c_tenant_id c), Some (c_app_id c), Some (c_dimension_digest c)]"

abbreviation costOrder :: "cost_record \<Rightarrow> string list" where
  "costOrder c \<equiv> [c_as_of c, c_cost_record_id c]"

lemma distinct_mapFromPairs: "distinct (map fst (mapFromPairs ps))"
proof -
  have "distinct (map fst (foldl (\<lambda>m p. AList.update (fst p) (snd p) m) m ps))" if "distinct (map fst m)" for m
    using that by (induction ps arbitrary: m) (simp_all add: distinct_update)
  then show ?thesis by (simp add: mapFromPairs_def)
qed

text \<open>The last pair of a key is the one a map built from pairs keeps.\<close>

lemma map_of_rev_sorted:
  fixes order :: "'v \<Rightarrow> 'o::linorder"
  assumes "sorted (map order vs)" "map_of (rev (map (\<lambda>v. (key v, v)) vs)) k = Some w"
  shows "w \<in> set vs \<and> key w = k \<and> (\<forall>v \<in> set vs. key v = k \<longrightarrow> order v \<le> order w)"
  using assms
proof (induction vs rule: rev_induct)
  case Nil
  then show ?case by simp
next
  case (snoc v vs)
  show ?case
  proof (cases "key v = k")
    case True
    then have "w = v" using snoc.prems(2) by simp
    then show ?thesis using True snoc.prems(1) by (auto simp: sorted_append)
  next
    case False
    then show ?thesis using snoc by (auto simp: sorted_append)
  qed
qed

lemma snd_map_of: "distinct (map fst m) \<Longrightarrow> v \<in> set (map snd m) \<longleftrightarrow> (\<exists>k. map_of m k = Some v)"
  by (force simp: map_of_eq_Some_iff)

lemma map_of_rev_key: "map_of (rev (map (\<lambda>v. (key v, v)) vs)) k = Some w \<Longrightarrow> k = key w"
  by (auto dest!: map_of_SomeD)

lemma map_of_rev_hit: "v \<in> set vs \<Longrightarrow> \<exists>w. map_of (rev (map (\<lambda>v. (key v, v)) vs)) (key v) = Some w"
  by (induction vs rule: rev_induct) auto

lemma cost_sort:
  "js_sort (\<lambda>a b. let c = compareText (c_as_of a) (c_as_of b) in
      if c \<noteq> 0 then c else compareText (c_cost_record_id a) (c_cost_record_id b)) cs = sort_key costOrder cs"
  by (rule js_sort_sort_key) (auto simp: Let_def order_simps)

lemma currentCosts_entry:
  "c \<in> set (currentCosts ev installs costs) \<longleftrightarrow>
     map_of (rev (map (\<lambda>c. (costKey c, c)) (sort_key costOrder (filter (costInRun ev installs) costs)))) (costKey c) = Some c"
proof -
  let ?ps = "map (\<lambda>c. (costKey c, c)) (sort_key costOrder (filter (costInRun ev installs) costs))"
  have "c \<in> set (map snd (mapFromPairs ?ps)) \<longleftrightarrow> (\<exists>k. map_of (mapFromPairs ?ps) k = Some c)"
    by (rule snd_map_of[OF distinct_mapFromPairs])
  also have "\<dots> \<longleftrightarrow> (\<exists>k. map_of (rev ?ps) k = Some c)" by (simp only: map_of_mapFromPairs)
  also have "\<dots> \<longleftrightarrow> map_of (rev ?ps) (costKey c) = Some c"
    using map_of_rev_key[of costKey] by blast
  finally show ?thesis by (simp add: currentCosts_def cost_sort)
qed

lemma currentCosts_latest:
  assumes "c \<in> set (currentCosts ev installs costs)"
  shows "c \<in> set costs" "costInRun ev installs c"
    "\<And>d. d \<in> set costs \<Longrightarrow> costInRun ev installs d \<Longrightarrow> costKey d = costKey c \<Longrightarrow> costOrder d \<le> costOrder c"
proof -
  have "sorted (map costOrder (sort_key costOrder (filter (costInRun ev installs) costs)))" by simp
  from map_of_rev_sorted[OF this assms[unfolded currentCosts_entry]]
  show "c \<in> set costs" "costInRun ev installs c"
    "\<And>d. d \<in> set costs \<Longrightarrow> costInRun ev installs d \<Longrightarrow> costKey d = costKey c \<Longrightarrow> costOrder d \<le> costOrder c"
    by auto
qed

lemma currentCosts_complete:
  assumes "d \<in> set costs" "costInRun ev installs d"
  shows "\<exists>c \<in> set (currentCosts ev installs costs). costKey c = costKey d"
proof -
  let ?vs = "sort_key costOrder (filter (costInRun ev installs) costs)"
  have "d \<in> set ?vs" using assms by simp
  from map_of_rev_hit[OF this, of costKey] obtain c where
    c: "map_of (rev (map (\<lambda>c. (costKey c, c)) ?vs)) (costKey d) = Some c" by blast
  have key: "costKey d = costKey c" by (rule map_of_rev_key[OF c])
  then have "c \<in> set (currentCosts ev installs costs)" using c unfolding currentCosts_entry by (simp only:)
  then show ?thesis using key by auto
qed

lemma currentCosts_one:
  "c \<in> set (currentCosts ev installs costs) \<Longrightarrow> d \<in> set (currentCosts ev installs costs) \<Longrightarrow> costKey c = costKey d \<Longrightarrow> c = d"
  unfolding currentCosts_entry by (metis option.inject)

text \<open>What the current costs promise, as predicates on the costs of a run.\<close>

definition distinct_costs :: "cost_record list \<Rightarrow> bool" where
  "distinct_costs current = distinct (map costKey current)"

definition latest_costs :: "cost_record list \<Rightarrow> cost_record list \<Rightarrow> bool" where
  "latest_costs costs current =
     (list_all (\<lambda>c. c \<in> set costs \<and>
        list_all (\<lambda>d. costKey d \<noteq> costKey c \<or> costOrder d \<le> costOrder c) costs) current \<and>
      list_all (\<lambda>d. list_ex (\<lambda>c. costKey c = costKey d) current) costs)"

lemma mapFromPairs_self:
  assumes "(k, c) \<in> set (mapFromPairs (map (\<lambda>v. (key v, v)) vs))"
  shows "k = key c"
proof (rule map_of_rev_key[where key = key and vs = vs])
  have "map_of (mapFromPairs (map (\<lambda>v. (key v, v)) vs)) k = Some c"
    by (rule map_of_is_SomeI[OF distinct_mapFromPairs assms])
  then show "map_of (rev (map (\<lambda>v. (key v, v)) vs)) k = Some c" by (simp only: map_of_mapFromPairs)
qed

lemma mapFromPairs_keys:
  "map key (map snd (mapFromPairs (map (\<lambda>v. (key v, v)) vs))) = map fst (mapFromPairs (map (\<lambda>v. (key v, v)) vs))"
  unfolding map_map by (rule map_cong[OF refl]) (auto dest: mapFromPairs_self)

lemma currentCosts_distinct: "distinct_costs (currentCosts ev installs costs)"
  unfolding distinct_costs_def currentCosts_def cost_sort mapFromPairs_keys by (rule distinct_mapFromPairs)

lemma currentCosts_latest_all: "latest_costs (filter (costInRun ev installs) costs) (currentCosts ev installs costs)"
  unfolding latest_costs_def list_all_iff list_ex_iff
proof (intro conjI ballI)
  fix c assume c: "c \<in> set (currentCosts ev installs costs)"
  show "c \<in> set (filter (costInRun ev installs) costs)" unfolding set_filter using currentCosts_latest(1,2)[OF c] by blast
  fix d assume "d \<in> set (filter (costInRun ev installs) costs)"
  then show "costKey d \<noteq> costKey c \<or> costOrder d \<le> costOrder c" using currentCosts_latest(3)[OF c, of d]
    unfolding set_filter mem_Collect_eq by metis
next
  fix d assume "d \<in> set (filter (costInRun ev installs) costs)"
  then have "d \<in> set costs" "costInRun ev installs d" unfolding set_filter by blast+
  then show "\<exists>c \<in> set (currentCosts ev installs costs). costKey c = costKey d" by (rule currentCosts_complete)
qed

section \<open>Reproducibility\<close>

lemma reproducibility_full:
  "reproducibilityOf ev lc included = FullyReproducible \<longleftrightarrow>
     me_privacy_state ev \<noteq> ''after'' \<or>
     (\<forall>a \<in> set included. map_of lc (attemptEvidenceKey a) \<notin> {Some Redacted, Some Purged})"
  by (auto simp: reproducibilityOf_def Let_def image_iff)

end
