(* ===== verification/SampleViews.thy ===== *)
theory SampleViews
  imports SampleExpired MetricLaws
begin

text \<open>The view a metric run has of the sample, and sample instants as days.\<close>

definition sampleEvaluation :: metric_evaluation where
  "sampleEvaluation = \<lparr>
     me_metric_run_id_prefix = ''run'', me_input_received_at_watermark = sampleTime, me_computed_at = sampleTime,
     me_data_freshness = ''current'', me_privacy_state = ''before'', me_supersedes_metric_run_id_prefix = None,
     me_metric_names = None, me_grouping = None\<rparr>"

lemma datable_sample: "datable AsiaTokyo 1767312000000" "datable UTC 1767312000000"
  by code_simp+

lemma sample_included:
  "includedAttempts sampleDigest (es_decisions sampleState) sampleEvaluation [clickAttempt, installAttempt] =
     Inr [clickAttempt, installAttempt]"
  by (simp add: includedAttempts_def sample_acceptedUnique compareText_le_zero)
    (simp add: sample_fields sample_defs sampleEvaluation_def)

lemma sample_view:
  obtains v where "runView sampleDigest (es_decisions sampleState) [] [] [] [clickAttempt, installAttempt] sampleEvaluation = Inr v"
    "installAttempt \<in> set (v_installs v)"
proof -
  have ev: "me_privacy_state sampleEvaluation = ''before''" "me_grouping sampleEvaluation = None"
    by (simp_all add: sampleEvaluation_def)
  have "\<exists>v. runView sampleDigest (es_decisions sampleState) [] [] [] [clickAttempt, installAttempt] sampleEvaluation = Inr v \<and>
      v_installs v = [installAttempt]"
    by (simp add: runView_def sample_included Let_def visibleAttempts_def sample_events andR_def matchesGrouping_def ev)
  then show ?thesis using that by force
qed

end
