(* ===== verification/EvaluateLaws.thy ===== *)
theory EvaluateLaws
  imports EvaluateFacts
begin

text \<open>
  Laws of whole evaluations: independence of the order records arrive in, the agreement of
  deliveries and rejections, and the identity of logical events.
\<close>

section \<open>Order independence\<close>

lemma sortCandidateAttempts_mset:
  assumes "mset xs = mset ys" "inj_on (candidateAttemptSortKey H) (set xs)"
  shows "sortCandidateAttempts H xs = sortCandidateAttempts H ys"
  unfolding sortCandidateAttempts_sort_key by (rule sort_key_mset_eq[OF assms])

text \<open>The evaluation reads the records through their sorted attempts only.\<close>

lemma evaluate_attempts:
  fixes input :: evaluation_input and b :: "batch list option" and s :: "(server_context \<times> event_record list) option"
  defines "input' \<equiv> input\<lparr>in_batches := b, in_single := s\<rparr>"
  assumes "sortCandidateAttempts H (attempts input) = sortCandidateAttempts H (attempts input')"
  shows "evaluate H mk input' = evaluate H mk input"
proof -
  have fields: "in_fx_policy input' = in_fx_policy input" "in_cost_records input' = in_cost_records input"
    "in_source_day_aggregates input' = in_source_day_aggregates input"
    "in_metric_definitions input' = in_metric_definitions input"
    "in_metric_evaluations input' = in_metric_evaluations input"
    "in_reconciliation_inputs input' = in_reconciliation_inputs input"
    "in_privacy_requests input' = in_privacy_requests input" "in_correction_inputs input' = in_correction_inputs input"
    "in_pre_ingestion_rejections input' = in_pre_ingestion_rejections input"
    "in_retention_expirations input' = in_retention_expirations input"
    by (simp_all add: input'_def)
  have refs: "assertScopedReferences input' all = assertScopedReferences input all" for all
    unfolding assertScopedReferences_def fields ..
  have idx: "privacyIndex input' = privacyIndex input" unfolding privacyIndex_def fields ..
  have st: "evaluationState H mk input' = evaluationState H mk input"
    unfolding evaluationState_def refs idx fields assms(2) ..
  have parts: "makeCorrections H input' xs = makeCorrections H input xs"
    "privacyRequests H input' = privacyRequests H input" "privacyTombstones H input' = privacyTombstones H input"
    "fraudDecisions H input' xs = fraudDecisions H input xs"
    "provisionalAttributions H input' xs as = provisionalAttributions H input xs as"
    "costRecords H input' = costRecords H input" "metricDefinitions H input' = metricDefinitions H input"
    "reconciliationResults H input' xs = reconciliationResults H input xs" for xs as
    unfolding makeCorrections_def forCompleted_def privacyRequests_def privacyTombstones_def fraudDecisions_def
      provisionalAttributions_def sourceDays_def costRecords_def metricDefinitions_def reconciliationResults_def fields
    by (rule refl)+
  have runs: "metricRuns H input' all ds lc as ex = metricRuns H input all ds lc as ex" for all ds lc as ex
    unfolding metricRuns_def parts fields ..
  have "evaluateState H input' = evaluateState H input"
    by (rule ext) (unfold evaluateState_def parts runs, rule refl)
  then show ?thesis unfolding evaluate_def st by simp
qed

section \<open>Deliveries and rejections\<close>

abbreviation deliveryIdentity :: "delivery \<Rightarrow> string \<times> string \<times> string \<times> string" where
  "deliveryIdentity d \<equiv> (dl_delivery_id d, dl_record_id d, dl_tenant_id d, dl_app_id d)"

abbreviation rejectionIdentity :: "rejection \<Rightarrow> string \<times> string \<times> string \<times> string" where
  "rejectionIdentity r \<equiv> (rj_delivery_id r, rj_record_id r, rj_tenant_id r, rj_app_id r)"

abbreviation attemptIdentity :: "attempt \<Rightarrow> string \<times> string \<times> string \<times> string" where
  "attemptIdentity a \<equiv> (r_delivery_id (at_record a), record_id a, tenant_id a, app_id a)"

abbreviation preIdentity :: "pre_ingestion_rejection \<Rightarrow> string \<times> string \<times> string \<times> string" where
  "preIdentity p \<equiv> (pi_delivery_id p, pi_record_id p, pi_tenant_id p, pi_app_id p)"

lemma attemptDelivery_simps [simp]:
  "dl_delivery_id (attemptDelivery a d) = r_delivery_id (at_record a)" "dl_record_id (attemptDelivery a d) = record_id a"
  "dl_tenant_id (attemptDelivery a d) = tenant_id a" "dl_app_id (attemptDelivery a d) = app_id a"
  "dl_ingestion_status (attemptDelivery a d) = d_ingestion_status d"
  "dl_reason_code (attemptDelivery a d) = d_reason_code d"
  by (simp_all add: attemptDelivery_def Let_def)

lemma makeRejection_identity [simp]:
  "rj_delivery_id (makeRejection d) = d_delivery_id d" "rj_record_id (makeRejection d) = d_record_id d"
  "rj_tenant_id (makeRejection d) = d_tenant_id d" "rj_app_id (makeRejection d) = d_app_id d"
  by (simp_all add: makeRejection_def Let_def)

lemma preIngestion_simps [simp]:
  "dl_delivery_id (preIngestionDelivery (preIngestionDecision p)) = pi_delivery_id p"
  "dl_record_id (preIngestionDelivery (preIngestionDecision p)) = pi_record_id p"
  "dl_tenant_id (preIngestionDelivery (preIngestionDecision p)) = pi_tenant_id p"
  "dl_app_id (preIngestionDelivery (preIngestionDecision p)) = pi_app_id p"
  "dl_ingestion_status (preIngestionDelivery (preIngestionDecision p)) = Rejected"
  "d_ingestion_status (preIngestionDecision p) = Rejected"
  "d_delivery_id (preIngestionDecision p) = pi_delivery_id p" "d_record_id (preIngestionDecision p) = pi_record_id p"
  "d_tenant_id (preIngestionDecision p) = pi_tenant_id p" "d_app_id (preIngestionDecision p) = pi_app_id p"
  by (simp_all add: preIngestionDelivery_def preIngestionDecision_def)

text \<open>The pre-ingestion part is the same in both outputs.\<close>

lemma pre_deliveries:
  "image_mset deliveryIdentity (mset (filter (\<lambda>d. dl_ingestion_status d = Rejected)
     (map preIngestionDelivery (map preIngestionDecision ps)))) = image_mset preIdentity (mset ps)"
  by (induction ps) simp_all

lemma pre_rejections:
  "image_mset rejectionIdentity (mset (map makeRejection (filter (\<lambda>d. d_ingestion_status d = Rejected)
     (map preIngestionDecision ps)))) = image_mset preIdentity (mset ps)"
  by (induction ps) simp_all

text \<open>The deliveries before they are sorted.\<close>

lemma makeDeliveries_Inr:
  assumes "makeDeliveries H ds all pre = Inr out"
  obtains xs where
    "mapR (\<lambda>a. bindR (decisionFor H ds a) (\<lambda>d. Inr (attemptDelivery a d))) all = Inr xs"
    "mset out = mset (xs @ map preIngestionDelivery pre)"
proof -
  obtain xs where xs: "mapR (\<lambda>a. bindR (decisionFor H ds a) (\<lambda>d. Inr (attemptDelivery a d))) all = Inr xs"
    "sortByKey (\<lambda>d. H (HDelivery d)) (\<lambda>d. [dl_delivery_id d, dl_record_id d, dl_tenant_id d, dl_app_id d])
       (xs @ map preIngestionDelivery pre) = out"
    using assms unfolding makeDeliveries_def bindR_Inr_iff by blast
  show ?thesis by (rule that[OF xs(1)]) (simp only: xs(2)[symmetric] mset_sortByKey)
qed

lemma deliveries_identities:
  assumes "evaluate H mk input = Inr out"
  shows "image_mset deliveryIdentity (mset (o_deliveries out)) =
    image_mset attemptIdentity (mset (attempts input)) +
    image_mset preIdentity (mset (in_pre_ingestion_rejections input))"
proof -
  obtain st where st: "evaluationState H mk input = Inr st"
    and dl: "makeDeliveries H (es_decisions st) (es_all st) (es_preIngestion st) = Inr (o_deliveries out)"
    by (rule evaluate_Inr[OF assms])
  obtain xs where xs: "mapR (\<lambda>a. bindR (decisionFor H (es_decisions st) a) (\<lambda>d. Inr (attemptDelivery a d))) (es_all st) = Inr xs"
    "mset (o_deliveries out) = mset (xs @ map preIngestionDelivery (es_preIngestion st))"
    by (rule makeDeliveries_Inr[OF dl])
  have "map deliveryIdentity xs = map attemptIdentity (es_all st)"
    by (rule mapR_Inr_map[OF xs(1)]) (auto simp: bindR_Inr_iff)
  then have "image_mset deliveryIdentity (mset xs) = image_mset attemptIdentity (mset (es_all st))"
    by (simp only: mset_map[symmetric])
  moreover have "mset (es_all st) = mset (attempts input)"
    using evaluationState_Inr(1)[OF st] by simp
  ultimately show ?thesis unfolding xs(2) evaluationState_Inr(5)[OF st]
    by (simp add: image_mset.compositionality comp_def del: prod.inject)
qed

context candidate_provider
begin

lemma rejections_deliveries:
  assumes "evaluate H mk input = Inr out"
  shows "image_mset rejectionIdentity (mset (o_rejections out)) =
    image_mset deliveryIdentity (filter_mset (\<lambda>d. dl_ingestion_status d = Rejected) (mset (o_deliveries out)))"
proof -
  obtain st where st: "evaluationState H mk input = Inr st"
    and dl: "makeDeliveries H (es_decisions st) (es_all st) (es_preIngestion st) = Inr (o_deliveries out)"
    and rj: "o_rejections out = makeRejections H (es_decisionsList st @ es_preIngestion st)"
    by (rule evaluate_Inr[OF assms])
  note state = evaluationState_Inr[OF st]
  obtain xs where xs: "mapR (\<lambda>a. bindR (decisionFor H (es_decisions st) a) (\<lambda>d. Inr (attemptDelivery a d))) (es_all st) = Inr xs"
    "mset (o_deliveries out) = mset (xs @ map preIngestionDelivery (es_preIngestion st))"
    by (rule makeDeliveries_Inr[OF dl])
  have "map deliveryIdentity (filter (\<lambda>d. dl_ingestion_status d = Rejected) xs) =
      map (rejectionIdentity \<circ> makeRejection) (filter (\<lambda>d. d_ingestion_status d = Rejected) (es_decisionsList st))"
  proof (rule mapR_filter_sync[OF xs(1) state(3)])
    fix a y z
    assume a: "a \<in> set (es_all st)" "bindR (decisionFor H (es_decisions st) a) (\<lambda>d. Inr (attemptDelivery a d)) = Inr y"
      "decideCatching H (mk (es_all st)) a = Inr z"
    then obtain d where d: "decisionFor H (es_decisions st) a = Inr d" "y = attemptDelivery a d"
      by (auto simp: bindR_Inr_iff)
    have "d_ingestion_status d = d_ingestion_status z"
      using lookup_status(1)[OF state(3) a(1) _ a(3)] d(1) state(4) by simp
    then show "(dl_ingestion_status y = Rejected) = (d_ingestion_status z = Rejected) \<and>
        deliveryIdentity y = (rejectionIdentity \<circ> makeRejection) z"
      using d(2) decideCatching_identity[OF a(3)] by simp
  qed
  then have "image_mset deliveryIdentity (mset (filter (\<lambda>d. dl_ingestion_status d = Rejected) xs)) =
      image_mset rejectionIdentity (mset (map makeRejection (filter (\<lambda>d. d_ingestion_status d = Rejected) (es_decisionsList st))))"
    by (simp only: mset_map[symmetric] list.map_comp)
  moreover have "mset (o_rejections out) =
      mset (map makeRejection (filter (\<lambda>d. d_ingestion_status d = Rejected) (es_decisionsList st))) +
      mset (map makeRejection (filter (\<lambda>d. d_ingestion_status d = Rejected)
        (map preIngestionDecision (in_pre_ingestion_rejections input))))"
    unfolding rj makeRejections_def mset_sortByKey state(5) filter_append map_append mset_append ..
  ultimately show ?thesis
    unfolding xs(2) state(5) mset_append filter_union_mset image_mset_union
    by (simp only: pre_deliveries pre_rejections mset_filter[symmetric] image_mset_union)
qed

section \<open>Logical events\<close>

lemma logical_event_attempt:
  assumes out: "evaluate H mk input = Inr out"
  obtains xs where "mset (o_logical_events out) = image_mset makeLogicalEvent (mset xs)"
    "distinct (map scopeKey xs)" "distinct (map record_id xs)"
    "\<And>a. a \<in> set xs \<Longrightarrow> a \<in> set (attempts input) \<and> \<not> hidden (privacyIndex input) a"
proof -
  obtain st where st: "evaluationState H mk input = Inr st"
    and le: "o_logical_events out = logicalEvents H (es_lifecycle st) (es_acceptedUnique st)"
    by (rule evaluate_Inr[OF out])
  let ?xs = "filter (\<lambda>a. \<not> hidden (es_lifecycle st) a) (es_acceptedUnique st)"
  have acc: "es_acceptedUnique st = filter (accepts H (mk (es_all st))) (es_all st)"
    by (rule acceptedUnique_state[OF st])
  show ?thesis
  proof (rule that[of ?xs])
    show "mset (o_logical_events out) = image_mset makeLogicalEvent (mset ?xs)"
      by (simp add: le logicalEvents_def)
    show "distinct (map scopeKey ?xs)" unfolding acc
      by (rule distinct_map_filter, rule accepts_distinct_scopes)
    show "distinct (map record_id ?xs)" unfolding acc
      by (rule distinct_map_filter, rule accepts_distinct_records)
    fix a
    assume "a \<in> set ?xs"
    then show "a \<in> set (attempts input) \<and> \<not> hidden (privacyIndex input) a"
      using evaluationState_Inr(1,6)[OF st] acc by auto
  qed
qed

end

section \<open>Valid first-party attributions\<close>

context candidate_provider
begin

lemma valid_attribution:
  assumes out: "evaluate H mk input = Inr out" and x: "x \<in> set (o_attributions out)"
    and reason: "a_reason_code x = ValidInstallReferrer"
  obtains a c installed clicked where
    "a \<in> set (attempts input)" "c \<in> set (attempts input)" "event_name a = ''install''"
    "isClickOf (tenant_id a) (app_id a) (p_click_id (at_payload a)) c"
    "p_bot_prefetch (at_payload c) \<noteq> Some True"
    "time (p_install_begin_at_server (at_payload a)) ''install_begin_at_server'' = Inr installed"
    "time (p_redirector_click_at (at_payload c)) ''redirector_click_at'' = Inr clicked"
    "0 \<le> installed - clicked" "installed - clicked < 7 * DAY_MS"
    "a_evidence_refs x = [evidenceRef (privacyIndex input) a (record_id c), evidenceRef (privacyIndex input) a (record_id a)]"
    "a_status x = NonOrganic" "a_method x = InstallReferrer" "a_tenant_id x = tenant_id a" "a_app_id x = app_id a"
    "a_subject_ref x = p_installation_id (at_payload a)"
proof -
  obtain st initial prior where st: "evaluationState H mk input = Inr st"
    and init: "initialAttributions H (es_candidates st) (es_decisions st) (es_lifecycle st) (es_acceptedUnique st) = Inr initial"
    and prior: "prior \<in> set initial" and origin: "x = prior \<or> (\<exists>d t. x = clockProvisional d t prior) \<or>
     (\<exists>decision install. x = fraudAttribution decision prior \<and> install \<in> set (es_acceptedUnique st) \<and>
        event_name install = ''install'' \<and>
        excludingDecision (excludedClickIds (es_acceptedUnique st) (o_fraud_decisions out)) install = Some decision)"
    by (rule attribution_origin[OF out x])
  have copy: "x = prior \<or> (\<exists>d t. x = clockProvisional d t prior)" using origin reason by auto
  then have prior_reason: "a_reason_code prior = ValidInstallReferrer" using reason by auto
  obtain a where a: "a \<in> set (es_acceptedUnique st)" "event_name a = ''install''"
    "makeAttribution H (es_candidates st) (es_decisions st) (es_lifecycle st) a = Inr prior"
    using initialAttributions_set[OF init prior] prior_reason postbackReason_not_click makeDeepLink_simps(1)
    by (metis (no_types, lifting) attribution_reason.distinct(1) attribution_reason.simps insertE empty_iff makeAggregate_simps(1))
  then obtain oc where oc: "installOutcome H (es_candidates st) (es_decisions st) (es_lifecycle st) a = Inr oc"
    "prior = attributionResult (es_lifecycle st) a oc"
    by (auto simp: makeAttribution_def bindR_Inr_iff)
  have oc_reason: "oc_reason oc = ValidInstallReferrer" using prior_reason oc(2) by simp
  obtain c where c: "c \<in> set (es_acceptedUnique st)" "isClickOf (tenant_id a) (app_id a) (p_click_id (at_payload a)) c"
    "clickOutcome (es_lifecycle st) a c = Inr oc"
    using clickAttribution_single[OF st installOutcome_click[OF oc(1) oc_reason]] oc_reason by auto
  obtain installed clicked where t:
    "time (p_install_begin_at_server (at_payload a)) ''install_begin_at_server'' = Inr installed"
    "time (p_redirector_click_at (at_payload c)) ''redirector_click_at'' = Inr clicked"
    "0 \<le> installed - clicked" "installed - clicked < 7 * DAY_MS"
    using clickOutcome_valid(3)[OF c(3) oc_reason] by blast
  have o: "oc = (outcome NonOrganic InstallReferrer LastClick ValidInstallReferrer)
      \<lparr>oc_evidence := Some [evidenceRef (es_lifecycle st) a (record_id c), evidenceRef (es_lifecycle st) a (record_id a)]\<rparr>"
    by (rule clickOutcome_valid(2)[OF c(3) oc_reason])
  have same: "a_evidence_refs x = a_evidence_refs prior" "a_status x = a_status prior" "a_method x = a_method prior"
    "a_tenant_id x = a_tenant_id prior" "a_app_id x = a_app_id prior" "a_subject_ref x = a_subject_ref prior"
    using copy by auto
  show ?thesis
    by (rule that[OF accepted_attempts(1)[OF st a(1)] accepted_attempts(1)[OF st c(1)] a(2) c(2)
          clickOutcome_valid(1)[OF c(3) oc_reason] t])
      (simp_all add: same oc(2) o evaluationState_Inr(6)[OF st])
qed

end

section \<open>Identities of the produced records\<close>

lemma makeLogicalEvent_identity [simp]:
  "le_tenant_id (makeLogicalEvent a) = tenant_id a" "le_app_id (makeLogicalEvent a) = app_id a"
  "le_record_id (makeLogicalEvent a) = record_id a" "le_producer (makeLogicalEvent a) = r_producer (at_record a)"
  "le_event_id (makeLogicalEvent a) = r_event_id (at_record a)"
  by (simp_all add: makeLogicalEvent_def Let_def)

lemma makeRawRecord_identity:
  "makeRawRecord H lc a = Inr x \<Longrightarrow> rr_tenant_id x = tenant_id a \<and> rr_app_id x = app_id a \<and> rr_record_id x = record_id a"
  by (auto simp: makeRawRecord_def bindR_Inr_iff Let_def)

lemma distinct_map_mset:
  assumes "mset ys = image_mset f (mset xs)"
  shows "distinct (map g ys) \<longleftrightarrow> distinct (map (\<lambda>x. g (f x)) xs)"
proof (rule mset_eq_imp_distinct_iff)
  show "mset (map g ys) = mset (map (\<lambda>x. g (f x)) xs)" using assms by (simp add: image_mset.compositionality o_def)
qed

context candidate_provider
begin

lemma logical_event_source:
  assumes "evaluate H mk input = Inr out" "x \<in> set (o_logical_events out)"
  obtains a where "a \<in> set (attempts input)" "\<not> hidden (privacyIndex input) a" "x = makeLogicalEvent a"
proof -
  obtain xs where xs: "mset (o_logical_events out) = image_mset makeLogicalEvent (mset xs)"
    "\<And>a. a \<in> set xs \<Longrightarrow> a \<in> set (attempts input) \<and> \<not> hidden (privacyIndex input) a"
    using logical_event_attempt[OF assms(1)] by blast
  have "set (o_logical_events out) = makeLogicalEvent ` set xs" by (metis xs(1) mset_map set_map set_mset_mset)
  then show ?thesis using assms(2) xs(2) that by auto
qed

end

section \<open>Installation anchors\<close>

context candidate_provider
begin

lemma anchors_checked:
  assumes st: "evaluationState H mk input = Inr st"
  defines "installs \<equiv> filter (\<lambda>a. event_name a = ''install'') (es_acceptedUnique st)"
  obtains anchors where "foldR (checkAnchor installs) [] installs = Inr anchors"
proof -
  note state = evaluationState_Inr[OF st]
  have "andR (Inr (event_name a = ''install'')) (isAcceptedUnique H (es_decisions st) a) =
      Inr (event_name a = ''install'' \<and> accepts H (mk (es_all st)) a)" if "a \<in> set (es_all st)" for a
    using isAcceptedUnique_accepts[OF state(3) that] state(4) by (simp add: andR_def)
  then have "filterR (\<lambda>a. andR (Inr (event_name a = ''install'')) (isAcceptedUnique H (es_decisions st) a)) (es_all st) =
      Inr (filter (\<lambda>a. event_name a = ''install'' \<and> accepts H (mk (es_all st)) a) (es_all st))"
    by (rule filterR_all_Inr)
  also have "filter (\<lambda>a. event_name a = ''install'' \<and> accepts H (mk (es_all st)) a) (es_all st) = installs"
    by (simp add: installs_def acceptedUnique_state[OF st] conj_commute)
  finally have "\<exists>anchors. foldR (checkAnchor installs) [] installs = Inr anchors"
    using state(11) by (auto simp: assertInstallationAnchors_def bindR_Inr_iff)
  then show ?thesis using that by blast
qed

end

section \<open>Fraud exclusion\<close>

lemma addExcludedClick_lookup:
  assumes "map_of (addExcludedClick acc m e) k = Some d" "map_of m k \<noteq> Some d"
  shows "d = e \<and> f_action e = Exclude \<and> f_subject_scope e \<noteq> Some ''source'' \<and>
     (\<exists>click \<in> set acc. record_id click = f_subject_ref e \<and> event_name click = ''click'' \<and>
        p_click_id (at_payload click) = Some k \<and> s_fraud_actions_enabled (at_server click) = Some True)"
proof -
  have changed: "addExcludedClick acc m e \<noteq> m" using assms by auto
  then have scope: "f_action e = Exclude \<and> f_subject_scope e \<noteq> Some ''source''"
    unfolding addExcludedClick_def by meson
  from changed scope obtain click where
    find: "List.find (\<lambda>attempt. record_id attempt = f_subject_ref e \<and> event_name attempt = ''click'') acc = Some click"
    by (cases "List.find (\<lambda>attempt. record_id attempt = f_subject_ref e \<and> event_name attempt = ''click'') acc")
      (simp_all add: addExcludedClick_def)
  from changed scope find obtain j where j: "keepTruthy (p_click_id (at_payload click)) = Some j"
    by (cases "keepTruthy (p_click_id (at_payload click))") (simp_all add: addExcludedClick_def)
  from changed scope find j have enabled: "s_fraud_actions_enabled (at_server click) = Some True"
    by (simp add: addExcludedClick_def split: if_splits)
  have "addExcludedClick acc m e = AList.update j e m"
    using scope find j enabled by (simp add: addExcludedClick_def)
  then have "j = k \<and> d = e" using assms by (simp add: update_conv' split: if_splits)
  moreover have "p_click_id (at_payload click) = Some j"
    using j by (simp add: keepTruthy_def split: if_splits)
  ultimately show ?thesis using scope enabled find_Some_iff_set[OF find] by blast
qed

lemma excludedClickIds_lookup:
  "map_of (excludedClickIds acc ds) k = Some d \<Longrightarrow>
     d \<in> set ds \<and> f_action d = Exclude \<and> f_subject_scope d \<noteq> Some ''source'' \<and>
     (\<exists>click \<in> set acc. record_id click = f_subject_ref d \<and> event_name click = ''click'' \<and>
        p_click_id (at_payload click) = Some k \<and> s_fraud_actions_enabled (at_server click) = Some True)"
proof (induction ds arbitrary: k rule: rev_induct)
  case Nil
  then show ?case by (simp add: excludedClickIds_def)
next
  case (snoc e ds)
  let ?m = "excludedClickIds acc ds"
  have step: "excludedClickIds acc (ds @ [e]) = addExcludedClick acc ?m e" by (simp add: excludedClickIds_def)
  show ?case
  proof (cases "map_of ?m k = Some d")
    case True
    then show ?thesis using snoc.IH[OF True] by auto
  next
    case False
    have "map_of (addExcludedClick acc ?m e) k = Some d" using snoc.prems unfolding step .
    from addExcludedClick_lookup[OF this False] show ?thesis by auto
  qed
qed

lemma install_reason_not_fraud:
  assumes "installOutcome H pv ds lc a = Inr oc"
  shows "oc_reason oc \<noteq> FraudExcluded"
proof
  assume r: "oc_reason oc = FraudExcluded"
  have click: "oc_reason oc' \<noteq> FraudExcluded" if "clickAttribution H pv ds lc a = Inr oc'" for oc'
  proof -
    from that obtain clicks where "(case clicks of [] \<Rightarrow> Inr (outcome Unattributed NoMethod NoModel UnknownClickId)
        | [click] \<Rightarrow> clickOutcome lc a click
        | _ \<Rightarrow> Inr (outcome Unattributed NoMethod NoModel AmbiguousClickId)) = Inr oc'"
      unfolding clickAttribution_def bindR_Inr_iff by blast
    then show ?thesis
      by (cases clicks rule: remdups_adj.cases)
        (auto simp: clickOutcome_def Let_def windowOutcome_Inr split: if_splits)
  qed
  show False
  proof (cases "startsWith (r_producer (at_record a)) ''import:''")
    case True
    then have "(\<exists>ic e. oc = importedOutcome ic e) \<or> oc = outcome Unattributed Imported ProviderReported ProviderUnattributed"
      using assms by (auto simp: installOutcome_def importedAttribution_def bindR_Inr_iff split: option.splits)
    then show False
    proof (elim disjE exE)
      fix ic e
      assume "oc = importedOutcome ic e"
      then show False using r nonclick_reasons(4)[of ic e] by auto
    qed (use r in simp)
  next
    case False
    then obtain m where m: "metaOutcome (at_payload a) = Inr m" "nativeOutcome H pv ds lc a = Inr oc"
      using assms by (auto simp: installOutcome_def nativeOutcome_def bindR_Inr_iff)
    then show False
      using r nonclick_reasons(1,2,3)[of "at_payload a" oc] click
      by (cases m; cases "adservicesOutcome (at_payload a)"; cases "referrerStatusOutcome (at_payload a)")
        (auto simp: nativeOutcome_def)
  qed
qed

lemma initial_reason_not_fraud:
  assumes "initialAttributions H pv ds lc acc = Inr initial" "prior \<in> set initial"
  shows "a_reason_code prior \<noteq> FraudExcluded"
proof (rule initialAttributions_set[OF assms])
  fix a
  assume "makeAttribution H pv ds lc a = Inr prior"
  then show ?thesis using install_reason_not_fraud by (auto simp: makeAttribution_def bindR_Inr_iff)
next
  fix a
  assume "prior = makeAggregatePostbackAttribution lc a"
  then show ?thesis by (simp add: postbackReason_def)
next
  fix a
  assume "prior = makeDeepLinkAttribution lc a"
  then show ?thesis using makeDeepLink_simps(1)[of lc a] by auto
qed

lemma fraud_attribution_decision:
  assumes out: "evaluate H mk input = Inr out" and x: "x \<in> set (o_attributions out)"
    and reason: "a_reason_code x = FraudExcluded"
  obtains d install click where "d \<in> set (o_fraud_decisions out)" "f_action d = Exclude" "f_subject_scope d \<noteq> Some ''source''"
    "event_name install = ''install''" "event_name click = ''click''" "record_id click = f_subject_ref d"
    "p_click_id (at_payload click) = p_click_id (at_payload install)"
    "s_fraud_actions_enabled (at_server click) = Some True" "a_fraud_decision_ref x = Some (f_fraud_decision_id d)"
    "a_status x = Unattributed"
proof -
  obtain st initial prior where st: "evaluationState H mk input = Inr st"
    "initialAttributions H (es_candidates st) (es_decisions st) (es_lifecycle st) (es_acceptedUnique st) = Inr initial"
    "prior \<in> set initial" and cases: "x = prior \<or> (\<exists>d t. x = clockProvisional d t prior) \<or>
     (\<exists>decision install. x = fraudAttribution decision prior \<and> install \<in> set (es_acceptedUnique st) \<and>
        event_name install = ''install'' \<and>
        excludingDecision (excludedClickIds (es_acceptedUnique st) (o_fraud_decisions out)) install = Some decision)"
    by (rule attribution_origin[OF out x])
  have "a_reason_code prior \<noteq> FraudExcluded" by (rule initial_reason_not_fraud[OF st(2,3)])
  then obtain d install where d: "x = fraudAttribution d prior" "event_name install = ''install''"
    "excludingDecision (excludedClickIds (es_acceptedUnique st) (o_fraud_decisions out)) install = Some d"
    using cases reason by auto
  then obtain k where k: "p_click_id (at_payload install) = Some k"
    "map_of (excludedClickIds (es_acceptedUnique st) (o_fraud_decisions out)) k = Some d"
    by (auto simp: excludingDecision_def bind_eq_Some_conv)
  from excludedClickIds_lookup[OF k(2)] obtain click where "d \<in> set (o_fraud_decisions out)" "f_action d = Exclude"
    "f_subject_scope d \<noteq> Some ''source''" "record_id click = f_subject_ref d" "event_name click = ''click''"
    "p_click_id (at_payload click) = Some k" "s_fraud_actions_enabled (at_server click) = Some True" by blast
  then show ?thesis using d k(1) that by (simp add: fraudAttribution_def)
qed


end
