(* ===== verification/FormUrl.thy ===== *)
theory FormUrl
  imports JsText
begin

text \<open>
  \<^verbatim>\<open>URLSearchParams\<close>: the form serializer and parser of the language's runtime, as far as the
  sources use them. Texts are lists of code units below 256; the parser is modelled on fields
  that decode to ASCII, and returns no result outside of it.
\<close>

section \<open>Serializer\<close>

definition isAlphaNum :: "char \<Rightarrow> bool" where
  "isAlphaNum c =
     (let n = of_char c :: nat in (48 \<le> n \<and> n \<le> 57) \<or> (65 \<le> n \<and> n \<le> 90) \<or> (97 \<le> n \<and> n \<le> 122))"

definition upperHexDigit :: "nat \<Rightarrow> char" where
  "upperHexDigit n = ''0123456789ABCDEF'' ! n"

definition utf8Char :: "char \<Rightarrow> nat list" where
  "utf8Char c = (let n = of_char c :: nat in if n < 128 then [n] else [192 + n div 64, 128 + n mod 64])"

definition encodeByte :: "nat \<Rightarrow> string" where
  "encodeByte n =
     (if n = 32 then ''+''
      else if isAlphaNum (char_of n) \<or> char_of n \<in> set ''*-._'' then [char_of n]
      else [CHR ''%'', upperHexDigit (n div 16), upperHexDigit (n mod 16)])"

definition formEncode :: "string \<Rightarrow> string" where
  "formEncode s = concat (map encodeByte (concat (map utf8Char s)))"

definition formPair :: "string \<times> string \<Rightarrow> string" where
  "formPair p = formEncode (fst p) @ ''='' @ formEncode (snd p)"

text \<open>\<^verbatim>\<open>params.toString()\<close>\<close>

definition formText :: "(string \<times> string) list \<Rightarrow> string" where
  "formText ps = joinWith ''&'' (map formPair ps)"

section \<open>Parser\<close>

definition hexDigitValue :: "char \<Rightarrow> nat option" where
  "hexDigitValue c =
     (let n = of_char c :: nat in
      if 48 \<le> n \<and> n \<le> 57 then Some (n - 48)
      else if 65 \<le> n \<and> n \<le> 70 then Some (n - 55)
      else if 97 \<le> n \<and> n \<le> 102 then Some (n - 87)
      else None)"

fun percentDecode :: "string \<Rightarrow> nat list" where
  "percentDecode (c # a # b # rest) =
     (if c = CHR ''%'' then
        (case (hexDigitValue a, hexDigitValue b) of
           (Some x, Some y) \<Rightarrow> (16 * x + y) # percentDecode rest
         | _ \<Rightarrow> 37 # percentDecode (a # b # rest))
      else of_char c # percentDecode (a # b # rest))"
| "percentDecode (c # rest) = of_char c # percentDecode rest"
| "percentDecode [] = []"

definition formDecode :: "string \<Rightarrow> string option" where
  "formDecode s =
     (let bytes = percentDecode (map (\<lambda>c. if c = CHR ''+'' then CHR '' '' else c) s) in
      if list_all (\<lambda>b. b < 128) bytes then Some (map char_of bytes) else None)"

definition decodePair :: "string \<Rightarrow> (string \<times> string) option" where
  "decodePair s =
     (case (formDecode (takeWhile (\<lambda>c. c \<noteq> CHR ''='') s), formDecode (drop 1 (dropWhile (\<lambda>c. c \<noteq> CHR ''='') s))) of
        (Some k, Some v) \<Rightarrow> Some (k, v)
      | _ \<Rightarrow> None)"

text \<open>\<^verbatim>\<open>[...new URLSearchParams(text)]\<close>\<close>

definition parseForm :: "string \<Rightarrow> (string \<times> string) list option" where
  "parseForm s =
     (let body = (if startsWith s ''?'' then drop 1 s else s) in
      those (map decodePair (filter (\<lambda>part. part \<noteq> []) (splitOn (CHR ''&'') body))))"

section \<open>The parser reads what the serializer writes\<close>

definition asciiText :: "string \<Rightarrow> bool" where
  "asciiText s = list_all (\<lambda>c. of_char c < (128::nat)) s"

lemma hex_digits: "n < 16 \<Longrightarrow> hexDigitValue (upperHexDigit n) = Some n"
proof -
  have "list_all (\<lambda>n. hexDigitValue (upperHexDigit n) = Some n) [0..<16]" by code_simp
  then show "n < 16 \<Longrightarrow> hexDigitValue (upperHexDigit n) = Some n" by (simp add: list_all_iff)
qed

lemma hex_plain: "n < 16 \<Longrightarrow> upperHexDigit n \<notin> {CHR ''+'', CHR ''%'', CHR ''&'', CHR ''='', CHR ''?''}"
proof -
  have "list_all (\<lambda>n. upperHexDigit n \<notin> {CHR ''+'', CHR ''%'', CHR ''&'', CHR ''='', CHR ''?''}) [0..<16]" by code_simp
  then show "n < 16 \<Longrightarrow> upperHexDigit n \<notin> {CHR ''+'', CHR ''%'', CHR ''&'', CHR ''='', CHR ''?''}" by (simp add: list_all_iff)
qed

definition plusSpace :: "char \<Rightarrow> char" where
  "plusSpace c = (if c = CHR ''+'' then CHR '' '' else c)"

lemma percentDecode_plain: "c \<noteq> CHR ''%'' \<Longrightarrow> percentDecode (c # rest) = of_char c # percentDecode rest"
  by (cases rest rule: percentDecode.cases) simp_all

lemma of_char_eq: "(of_char c = (n::nat)) \<longleftrightarrow> n < 256 \<and> c = char_of n"
  by (metis char_of_eq_iff of_char_of nat_of_char_less_256 mod_less)

lemma decode_encodeByte:
  assumes "n < 128"
  shows "percentDecode (map plusSpace (encodeByte n) @ rest) = n # percentDecode rest"
proof -
  consider "n = 32" | "n \<noteq> 32" "isAlphaNum (char_of n) \<or> char_of n \<in> set ''*-._''"
    | "n \<noteq> 32" "\<not> (isAlphaNum (char_of n) \<or> char_of n \<in> set ''*-._'')" by blast
  then show ?thesis
  proof cases
    case 1
    then show ?thesis by (simp add: encodeByte_def plusSpace_def percentDecode_plain)
  next
    case 2
    have "\<not> isAlphaNum (CHR ''+'')" "\<not> isAlphaNum (CHR ''%'')" by (simp_all add: isAlphaNum_def)
    then have "char_of n \<notin> {CHR ''+'', CHR ''%''}" using 2 by auto
    then show ?thesis using 2 assms by (simp add: encodeByte_def plusSpace_def percentDecode_plain)
  next
    case 3
    have h: "n div 16 < 16" "n mod 16 < 16" using assms by auto
    then have "plusSpace (upperHexDigit (n div 16)) = upperHexDigit (n div 16)"
      "plusSpace (upperHexDigit (n mod 16)) = upperHexDigit (n mod 16)"
      using hex_plain by (auto simp: plusSpace_def)
    then show ?thesis using 3 h hex_digits by (simp add: encodeByte_def) (simp add: plusSpace_def)
  qed
qed

lemma ascii_bytes: "asciiText s \<Longrightarrow> concat (map utf8Char s) = map of_char s"
  by (induction s) (simp_all add: asciiText_def utf8Char_def)

lemma percentDecode_bytes:
  "list_all (\<lambda>n. n < 128) ns \<Longrightarrow> percentDecode (map plusSpace (concat (map encodeByte ns))) = ns"
  by (induction ns) (simp_all add: decode_encodeByte)

lemma formDecode_formEncode: "asciiText s \<Longrightarrow> formDecode (formEncode s) = Some s"
proof -
  assume a: "asciiText s"
  then have "list_all (\<lambda>n. n < (128::nat)) (map of_char s)" by (simp add: asciiText_def list_all_length)
  then show ?thesis
    using percentDecode_bytes[of "map of_char s"]
    by (simp add: formDecode_def formEncode_def ascii_bytes[OF a] plusSpace_def[abs_def] o_def)
qed

lemma encodeByte_chars:
  assumes "n < 256" "c \<in> set (encodeByte n)"
  shows "c \<notin> {CHR ''&'', CHR ''='', CHR ''?''}"
proof -
  have plain: "\<not> isAlphaNum d \<and> d \<notin> set ''*-._''" if "d \<in> {CHR ''&'', CHR ''='', CHR ''?''}" for d
    using that by (auto simp: isAlphaNum_def)
  have "n div 16 < 16" "n mod 16 < 16" using assms(1) by auto
  then have "upperHexDigit (n div 16) \<notin> {CHR ''&'', CHR ''='', CHR ''?''}"
    "upperHexDigit (n mod 16) \<notin> {CHR ''&'', CHR ''='', CHR ''?''}"
    using hex_plain by blast+
  then show ?thesis using assms(2) plain[of c] by (auto simp: encodeByte_def split: if_splits)
qed

lemma utf8Char_bytes: "b \<in> set (utf8Char c) \<Longrightarrow> b < 256"
proof -
  have "of_char c div 64 < (4::nat)" using nat_of_char_less_256[of c] by (simp add: div_less_iff_less_mult)
  then show "b \<in> set (utf8Char c) \<Longrightarrow> b < 256" by (auto simp: utf8Char_def Let_def split: if_splits)
qed

lemma formEncode_chars: "c \<in> set (formEncode s) \<Longrightarrow> c \<notin> {CHR ''&'', CHR ''='', CHR ''?''}"
  using encodeByte_chars utf8Char_bytes by (auto simp: formEncode_def)

lemma takeWhile_sep: "CHR ''='' \<notin> set k \<Longrightarrow> takeWhile (\<lambda>c. c \<noteq> CHR ''='') (k @ CHR ''='' # v) = k \<and>
    dropWhile (\<lambda>c. c \<noteq> CHR ''='') (k @ CHR ''='' # v) = CHR ''='' # v"
  by (induction k) auto

lemma decodePair_formPair:
  "asciiText (fst p) \<Longrightarrow> asciiText (snd p) \<Longrightarrow> decodePair (formPair p) = Some p"
proof -
  assume a: "asciiText (fst p)" "asciiText (snd p)"
  have "CHR ''='' \<notin> set (formEncode (fst p))" using formEncode_chars[of "CHR ''=''" "fst p"] by auto
  from takeWhile_sep[OF this, of "formEncode (snd p)"] show ?thesis
    by (simp add: decodePair_def formPair_def formDecode_formEncode a)
qed

lemma splitOn_append_sep: "d \<notin> set x \<Longrightarrow> splitOn d (x @ d # r) = x # splitOn d r"
  by (induction x) (auto split: list.splits)

lemma splitOn_plain: "d \<notin> set x \<Longrightarrow> splitOn d x = [x]"
  by (induction x) auto

lemma splitOn_joinWith:
  "xs \<noteq> [] \<Longrightarrow> list_all (\<lambda>x. d \<notin> set x) xs \<Longrightarrow> splitOn d (joinWith [d] xs) = xs"
  by (induction "[d]" xs rule: joinWith.induct) (simp_all add: splitOn_append_sep splitOn_plain)

lemma formPair_chars: "CHR ''&'' \<notin> set (formPair p)" "formPair p \<noteq> []"
  using formEncode_chars[of "CHR ''&''"] by (auto simp: formPair_def)

lemma formPair_start: "\<not> startsWith (formPair p @ r) ''?''"
proof (cases "formEncode (fst p)")
  case Nil
  then show ?thesis by (simp add: formPair_def startsWith_def)
next
  case (Cons c cs)
  then have "c \<noteq> CHR ''?''" using formEncode_chars[of c "fst p"] by auto
  then show ?thesis using Cons by (simp add: formPair_def startsWith_def)
qed

lemma those_map_Some: "(\<And>x. x \<in> set xs \<Longrightarrow> f x = Some (g x)) \<Longrightarrow> those (map f xs) = Some (map g xs)"
  by (induction xs) simp_all

theorem parseForm_formText:
  assumes "list_all (\<lambda>p. asciiText (fst p) \<and> asciiText (snd p)) ps"
  shows "parseForm (formText ps) = Some ps"
proof (cases ps)
  case Nil
  then show ?thesis by (simp add: parseForm_def formText_def startsWith_def)
next
  case (Cons p qs)
  have start: "\<not> startsWith (formText ps) ''?''"
    using formPair_start[of p] formPair_start[of p "[]"] Cons by (cases qs) (simp_all add: formText_def)
  have split: "splitOn (CHR ''&'') (formText ps) = map formPair ps"
    unfolding formText_def using Cons formPair_chars(1) by (intro splitOn_joinWith) (simp_all add: list_all_iff)
  have "filter (\<lambda>part. part \<noteq> []) (map formPair ps) = map formPair ps"
    by (simp add: filter_id_conv formPair_chars(2))
  moreover have "those (map (decodePair \<circ> formPair) ps) = Some (map (\<lambda>p. p) ps)"
    by (rule those_map_Some) (use assms in \<open>simp add: list_all_iff decodePair_formPair\<close>)
  ultimately show ?thesis using start split by (simp add: parseForm_def Let_def)
qed

end
