(* ===== verification/JsNumberBounds.thy ===== *)
theory JsNumberBounds
  imports JsNumber
begin

text \<open>
  Bounds on rounded results: rounding keeps the sign of a value and moves it by at most half
  a unit in the last place, which for values up to \<open>2 ^ 52\<close> is at most one half.
  \<^verbatim>\<open>Math.max\<close> and \<^verbatim>\<open>Math.min\<close> of two numbers.
\<close>

definition maxN :: "number \<Rightarrow> number \<Rightarrow> number" where
  "maxN a b = (if a = NaN \<or> b = NaN then NaN else if lessN a b then b else a)"

definition minN :: "number \<Rightarrow> number \<Rightarrow> number" where
  "minN a b = (if a = NaN \<or> b = NaN then NaN else if lessN b a then b else a)"

lemma doubleUlp_pos [simp]: "0 < doubleUlp x"
  by (simp add: doubleUlp_def split: prod.split)

lemma pow2_mono: "d \<le> e \<Longrightarrow> pow2 d \<le> pow2 e"
proof -
  assume le: "d \<le> e"
  consider "0 \<le> d" | "d < 0" "0 \<le> e" | "e < 0" by linarith
  then show ?thesis
  proof cases
    case 1
    then show ?thesis using le by (simp add: pow2_def power_increasing)
  next
    case 2
    have "(1::rat) / 2 ^ nat (- d) \<le> 1" "(1::rat) \<le> 2 ^ nat e" by simp_all
    then have "(1::rat) / 2 ^ nat (- d) \<le> 2 ^ nat e" by (rule order_trans)
    then show ?thesis using 2 by (simp add: pow2_def)
  next
    case 3
    have "(2::rat) ^ nat (- e) \<le> 2 ^ nat (- d)" using le by (intro power_increasing) auto
    then show ?thesis using 3 le by (simp add: pow2_def divide_left_mono)
  qed
qed

lemma roundEvenRat_nonneg: "0 \<le> x \<Longrightarrow> 0 \<le> roundEvenRat x"
  by (simp add: roundEvenRat_def Let_def)

lemma roundDouble_nonneg:
  assumes "0 \<le> x"
  shows "roundDouble x = PInf \<or> (\<exists>y. roundDouble x = Fin y \<and> 0 \<le> y)"
proof (cases "x = 0")
  case False
  have "0 \<le> of_int (roundEvenRat (x / doubleUlp x)) * doubleUlp x"
    using roundEvenRat_nonneg[of "x / doubleUlp x"] assms less_imp_le[OF doubleUlp_pos] by simp
  then show ?thesis using assms False by (simp add: roundDouble_def Let_def)
qed (simp add: roundDouble_def)

text \<open>The exponent of a fraction is at most the logarithm of its value.\<close>

lemma floorlog_bounds:
  assumes "0 < n"
  shows "2 ^ (floorlog 2 n - 1) \<le> n" "n < 2 ^ floorlog 2 n"
  using floorlog_bounds[of n 2] assms by auto

lemma ratExponent_less:
  assumes "0 < q" "0 < p" "p < 2 ^ k * q"
  shows "ratExponent p q < int k"
proof (rule ccontr)
  assume "\<not> ratExponent p q < int k"
  then have ge: "int k \<le> ratExponent p q" by simp
  define e where "e = int (floorlog 2 (nat p)) - int (floorlog 2 (nat q))"
  show False
  proof (cases "pow2 e * of_int q \<le> of_int p")
    case True
    then have "int k \<le> e" using ge by (simp add: ratExponent_def e_def Let_def)
    then have "pow2 (int k) \<le> pow2 e" by (rule pow2_mono)
    then have "pow2 (int k) * of_int q \<le> of_int p" using True assms(1)
      by (meson mult_right_mono of_int_0_le_iff order_less_imp_le order_trans)
    then have "(2::rat) ^ k * of_int q \<le> of_int p" by (simp add: pow2_def)
    then have "(of_int (2 ^ k * q) :: rat) \<le> of_int p" by simp
    then have "2 ^ k * q \<le> p" by (simp only: of_int_le_iff)
    then show False using assms(3) by simp
  next
    case False
    then have "int k \<le> e - 1" using ge by (simp add: ratExponent_def e_def Let_def)
    then have k: "k + floorlog 2 (nat q) + 1 \<le> floorlog 2 (nat p)" by (simp add: e_def)
    have "nat q < 2 ^ floorlog 2 (nat q)" using JsNumberBounds.floorlog_bounds(2)[of "nat q"] assms(1) by simp
    then have "2 ^ k * nat q < 2 ^ k * 2 ^ floorlog 2 (nat q)" by simp
    also have "\<dots> = 2 ^ (k + floorlog 2 (nat q))" by (simp add: power_add)
    also have "\<dots> \<le> 2 ^ (floorlog 2 (nat p) - 1)" using k by (intro power_increasing) auto
    also have "\<dots> \<le> nat p" using JsNumberBounds.floorlog_bounds(1)[of "nat p"] assms(2) by simp
    finally have "int (2 ^ k * nat q) < int (nat p)" by (simp only: of_nat_less_iff)
    then show False using assms by simp
  qed
qed

lemma doubleUlp_le_one:
  assumes "0 < x" "x < 2 ^ 53"
  shows "doubleUlp x \<le> 1"
proof -
  obtain p q where pq: "quotient_of x = (p, q)" by (cases "quotient_of x")
  then have q: "0 < q" and x: "x = of_int p / of_int q"
    using quotient_of_denom_pos quotient_of_div by blast+
  have p: "0 < p" using assms(1) q x by (simp add: zero_less_divide_iff)
  have "(of_int p :: rat) < of_int (2 ^ 53 * q)" using assms(2) q unfolding x by (simp add: divide_less_eq)
  then have "p < 2 ^ 53 * q" by (simp only: of_int_less_iff)
  then have "ratExponent p q < int 53" by (rule ratExponent_less[OF q p])
  then have "pow2 (max (ratExponent p q) (- 1022) - 52) \<le> pow2 0" by (intro pow2_mono) simp
  then show ?thesis using assms(1) pq by (simp add: doubleUlp_def pow2_def)
qed

lemma roundDouble_half:
  assumes "0 \<le> x" "x < 2 ^ 53"
  shows "\<exists>y. roundDouble x = Fin y \<and> 0 \<le> y \<and> y \<le> x + 1 / 2"
proof (cases "x = 0")
  case False
  define u where "u = doubleUlp x"
  define y where "y = of_int (roundEvenRat (x / u)) * u"
  have u: "0 < u" "u \<le> 1" using doubleUlp_le_one[of x] assms False by (simp_all add: u_def)
  have "of_int (roundEvenRat (x / u)) \<le> x / u + 1 / 2"
    using abs_le_D1[OF roundEvenRat_close[of "x / u"]] by linarith
  then have "y \<le> (x / u + 1 / 2) * u" unfolding y_def using u(1) by (simp add: mult_right_mono)
  also have "\<dots> = x + u / 2" using u(1) by (simp add: field_simps)
  finally have le: "y \<le> x + 1 / 2" using u(2) by simp
  have ge: "0 \<le> y" using roundEvenRat_nonneg[of "x / u"] assms(1) u(1) by (simp add: y_def)
  have "y < 2 ^ 53 + 1 / 2" using le assms(2) by simp
  then have "\<bar>y\<bar> < 2 ^ 1024" using ge by simp
  then have "roundDouble x = Fin y" using False by (simp add: roundDouble_def Let_def y_def u_def)
  with le ge show ?thesis by blast
qed (simp add: roundDouble_def)

end
