(* ===== verification/RateLimit.thy ===== *)
theory RateLimit
  imports Prelude JsNumberBounds
begin

text \<open>
  The API rate limiter: a token bucket over numbers of the language (rounded doubles), and
  the bounded, expiring map of buckets per principal. A call returns the new state and its
  answer; the calls on one limiter are a step relation.
\<close>

section \<open>Token bucket\<close>

record token_bucket =
  tb_ratePerSecond :: number
  tb_burst :: number
  tb_tokens :: number
  tb_updatedAt :: number

definition newTokenBucket :: "number \<Rightarrow> number \<Rightarrow> number \<Rightarrow> token_bucket res" where
  "newTokenBucket ratePerSecond burst now =
     bindR (throwIf (\<not> lessN (numN 0) ratePerSecond \<or> \<not> leN (numN 1) burst)
              (JsError ''token bucket rate and burst must be positive'')) (\<lambda>_.
       Inr \<lparr>tb_ratePerSecond = ratePerSecond, tb_burst = burst, tb_tokens = burst, tb_updatedAt = now\<rparr>)"

definition bucketAllow :: "number \<Rightarrow> token_bucket \<Rightarrow> token_bucket \<times> bool" where
  "bucketAllow now bucket =
     (let elapsed = divN (maxN (numN 0) (subN now (tb_updatedAt bucket))) (numN 1000);
          tokens = minN (tb_burst bucket) (addN (tb_tokens bucket) (mulN elapsed (tb_ratePerSecond bucket)));
          refilled = bucket\<lparr>tb_tokens := tokens, tb_updatedAt := now\<rparr>
      in if lessN tokens (numN 1) then (refilled, False)
         else (refilled\<lparr>tb_tokens := subN tokens (numN 1)\<rparr>, True))"

section \<open>Keyed token buckets\<close>

record bucket_entry =
  be_bucket :: token_bucket
  be_lastSeenAt :: number

record keyed_bucket =
  kb_ratePerSecond :: number
  kb_burst :: number
  kb_maximumKeys :: number
  kb_idleTtlMs :: number
  kb_entries :: "(string \<times> bucket_entry) list"

fun isIntegerN :: "number \<Rightarrow> bool" where
  "isIntegerN (Fin x) = (of_int \<lfloor>x\<rfloor> = x)"
| "isIntegerN _ = False"

definition newKeyedTokenBucket :: "number \<Rightarrow> number \<Rightarrow> number \<Rightarrow> number \<Rightarrow> keyed_bucket res" where
  "newKeyedTokenBucket ratePerSecond burst maximumKeys idleTtlMs =
     bindR (throwIf (\<not> isIntegerN maximumKeys \<or> lessN maximumKeys (numN 1) \<or> leN idleTtlMs (numN 0))
              (JsError ''keyed token bucket bounds must be positive'')) (\<lambda>_.
       Inr \<lparr>kb_ratePerSecond = ratePerSecond, kb_burst = burst, kb_maximumKeys = maximumKeys,
            kb_idleTtlMs = idleTtlMs, kb_entries = []\<rparr>)"

definition dropIdle :: "number \<Rightarrow> number \<Rightarrow> (string \<times> bucket_entry) list \<Rightarrow> (string \<times> bucket_entry) list" where
  "dropIdle now idleTtlMs entries =
     filter (\<lambda>candidate. \<not> leN idleTtlMs (subN now (be_lastSeenAt (snd candidate)))) entries"

definition oldestFirst :: "(string \<times> bucket_entry) list \<Rightarrow> (string \<times> bucket_entry) list" where
  "oldestFirst entries =
     js_sort (\<lambda>left right. signN (subN (be_lastSeenAt (snd left)) (be_lastSeenAt (snd right)))) entries"

definition evictOldest :: "(string \<times> bucket_entry) list \<Rightarrow> (string \<times> bucket_entry) list" where
  "evictOldest entries =
     (case oldestFirst entries of [] \<Rightarrow> entries | oldest # _ \<Rightarrow> AList.delete (fst oldest) entries)"

text \<open>\<^verbatim>\<open>entry.lastSeenAt = now; return entry.bucket.allow(now)\<close> on the entry of a key.\<close>

definition touchEntry :: "string \<Rightarrow> number \<Rightarrow> bucket_entry \<Rightarrow> keyed_bucket \<Rightarrow> keyed_bucket \<times> (js_error + bool)" where
  "touchEntry key now entry limiter =
     (case bucketAllow now (be_bucket entry) of (bucket, ok) \<Rightarrow>
        (limiter\<lparr>kb_entries := AList.update key \<lparr>be_bucket = bucket, be_lastSeenAt = now\<rparr> (kb_entries limiter)\<rparr>,
         Inr ok))"

text \<open>
  \<^verbatim>\<open>allow(key, now)\<close>. The bucket of a new key is constructed after idle and oldest entries
  were deleted, so the limiter keeps those deletions when the constructor throws.
\<close>

definition keyedAllow :: "string \<Rightarrow> number \<Rightarrow> keyed_bucket \<Rightarrow> keyed_bucket \<times> (js_error + bool)" where
  "keyedAllow key now limiter =
     (let live = dropIdle now (kb_idleTtlMs limiter) (kb_entries limiter) in
      case map_of live key of
        Some entry \<Rightarrow> touchEntry key now entry (limiter\<lparr>kb_entries := live\<rparr>)
      | None \<Rightarrow>
          let room = (if leN (kb_maximumKeys limiter) (numN (int (length live))) then evictOldest live else live) in
          case newTokenBucket (kb_ratePerSecond limiter) (kb_burst limiter) now of
            Inl e \<Rightarrow> (limiter\<lparr>kb_entries := room\<rparr>, Inl e)
          | Inr bucket \<Rightarrow>
              touchEntry key now \<lparr>be_bucket = bucket, be_lastSeenAt = now\<rparr> (limiter\<lparr>kb_entries := room\<rparr>))"

text \<open>The calls on a limiter, with clock values that are finite numbers.\<close>

inductive keyed_call :: "keyed_bucket \<Rightarrow> string \<times> rat \<times> (js_error + bool) \<Rightarrow> keyed_bucket \<Rightarrow> bool" where
  call: "keyedAllow key (Fin t) limiter = (limiter', answer) \<Longrightarrow> keyed_call limiter (key, t, answer) limiter'"

inductive keyed_reachable :: "keyed_bucket \<Rightarrow> bool" where
  start: "newKeyedTokenBucket rate burst maximumKeys idleTtlMs = Inr limiter \<Longrightarrow> keyed_reachable limiter"
| step: "keyed_reachable limiter \<Longrightarrow> keyed_call limiter e limiter' \<Longrightarrow> keyed_reachable limiter'"

inductive_cases keyed_callE: "keyed_call limiter (key, t, answer) limiter'"
inductive_simps keyed_call_simps: "keyed_call limiter (key, t, answer) limiter'"

section \<open>The tokens of a bucket\<close>

text \<open>A number that is not negative and not \<^verbatim>\<open>NaN\<close>.\<close>

definition nonnegN :: "number \<Rightarrow> bool" where
  "nonnegN n = (case n of Fin x \<Rightarrow> 0 \<le> x | PInf \<Rightarrow> True | _ \<Rightarrow> False)"

lemma nonnegN_cases: "nonnegN n \<longleftrightarrow> n = PInf \<or> (\<exists>x. n = Fin x \<and> 0 \<le> x)"
  by (cases n) (auto simp: nonnegN_def)

lemma nonnegN_simps [simp]: "nonnegN (Fin x) \<longleftrightarrow> 0 \<le> x" "nonnegN PInf" "\<not> nonnegN NaN" "\<not> nonnegN NInf"
  by (simp_all add: nonnegN_def)

lemma nonnegN_round: "0 \<le> x \<Longrightarrow> nonnegN (roundDouble x)"
  using roundDouble_nonneg[of x] by auto

lemma roundDouble_not_NaN: "roundDouble x \<noteq> NaN"
  by (simp add: roundDouble_def Let_def)

lemma nonnegN_max: "nonnegN (maxN (numN 0) (subN (Fin t) (Fin u)))"
  using roundDouble_not_NaN[of "t - u"] by (cases "roundDouble (t - u)") (auto simp: maxN_def numN_def subN_def)

lemma nonnegN_div: "nonnegN a \<Longrightarrow> nonnegN (divN a (numN 1000))"
  by (cases a) (simp_all add: numN_def nonnegN_round)

lemma nonnegN_mul: "nonnegN a \<Longrightarrow> 0 < r \<Longrightarrow> nonnegN (mulN a (Fin r))"
  by (cases a) (simp_all add: infN_def nonnegN_round)

lemma nonnegN_add: "0 \<le> x \<Longrightarrow> nonnegN a \<Longrightarrow> nonnegN (addN (Fin x) a)"
  by (cases a) (simp_all add: nonnegN_round)

lemma minN_nonneg: "nonnegN a \<Longrightarrow> 0 \<le> B \<Longrightarrow> \<exists>y. minN (Fin B) a = Fin y \<and> 0 \<le> y \<and> y \<le> B"
  unfolding nonnegN_cases by (auto simp: minN_def)

definition bucket_ok :: "token_bucket \<Rightarrow> bool" where
  "bucket_ok b =
     (case (tb_ratePerSecond b, tb_burst b, tb_tokens b, tb_updatedAt b) of
        (Fin rate, Fin burst, Fin tokens, Fin updated) \<Rightarrow> 0 < rate \<and> 1 \<le> burst \<and> burst \<le> 2 ^ 52 \<and> 0 \<le> tokens \<and> tokens \<le> burst
      | _ \<Rightarrow> False)"

lemma bucket_okE:
  assumes "bucket_ok b"
  obtains rate burst tokens updated where "tb_ratePerSecond b = Fin rate" "tb_burst b = Fin burst"
    "tb_tokens b = Fin tokens" "tb_updatedAt b = Fin updated" "0 < rate" "1 \<le> burst" "burst \<le> 2 ^ 52"
    "0 \<le> tokens" "tokens \<le> burst"
  using assms by (auto simp: bucket_ok_def split: number.splits)

lemma newTokenBucket_ok:
  assumes "newTokenBucket (Fin rate) (Fin burst) (Fin now) = Inr b" "burst \<le> 2 ^ 52"
  shows "bucket_ok b"
  using assms by (auto simp: newTokenBucket_def bindR_Inr_iff throwIf_Inr_iff bucket_ok_def numN_def leN_def)

lemma bucketAllow_ok:
  assumes ok: "bucket_ok b"
  shows "bucket_ok (fst (bucketAllow (Fin now) b))"
proof -
  obtain rate burst tokens updated where b: "tb_ratePerSecond b = Fin rate" "tb_burst b = Fin burst"
    "tb_tokens b = Fin tokens" "tb_updatedAt b = Fin updated" "0 < rate" "1 \<le> burst" "burst \<le> 2 ^ 52"
    "0 \<le> tokens" "tokens \<le> burst"
    by (rule bucket_okE[OF ok])
  define elapsed where "elapsed = divN (maxN (numN 0) (subN (Fin now) (Fin updated))) (numN 1000)"
  have "nonnegN elapsed" unfolding elapsed_def by (intro nonnegN_div nonnegN_max)
  then have "nonnegN (addN (Fin tokens) (mulN elapsed (Fin rate)))"
    using b(5,8) by (intro nonnegN_add nonnegN_mul)
  then obtain y where y: "minN (Fin burst) (addN (Fin tokens) (mulN elapsed (Fin rate))) = Fin y" "0 \<le> y" "y \<le> burst"
    using minN_nonneg[of _ burst] b(6) by force
  have step: "bucketAllow (Fin now) b =
      (if y < 1 then (b\<lparr>tb_tokens := Fin y, tb_updatedAt := Fin now\<rparr>, False)
       else (b\<lparr>tb_tokens := roundDouble (y - 1), tb_updatedAt := Fin now\<rparr>, True))"
    unfolding bucketAllow_def Let_def b(1-4) y(1)[unfolded elapsed_def]
    by (auto simp: numN_def subN_def intro!: token_bucket.equality)
  show ?thesis
  proof (cases "y < 1")
    case True
    then show ?thesis using b(1,2,5,6,7) y(2,3) by (simp add: step bucket_ok_def)
  next
    case False
    have "y - 1 < 2 ^ 53" using y(3) b(7) by simp
    then obtain z where z: "roundDouble (y - 1) = Fin z" "0 \<le> z" "z \<le> y - 1 + 1 / 2"
      using roundDouble_half[of "y - 1"] False by auto
    then have "z \<le> burst" using y(3) by simp
    then show ?thesis using b(1,2,5,6,7) z(1,2) False by (simp add: step bucket_ok_def)
  qed
qed

section \<open>A burst at one instant\<close>

text \<open>The answers to calls at one instant.\<close>

fun answersAt :: "nat \<Rightarrow> number \<Rightarrow> token_bucket \<Rightarrow> bool list" where
  "answersAt 0 now b = []"
| "answersAt (Suc n) now b = (case bucketAllow now b of (b', ok) \<Rightarrow> ok # answersAt n now b')"

lemma bucketAllow_same_instant:
  assumes "tb_ratePerSecond b = Fin rate" "tb_burst b = numN burst" "tb_tokens b = numN k" "tb_updatedAt b = Fin t"
    and "0 \<le> k" "k \<le> burst" "burst < 2 ^ 53"
  shows "bucketAllow (Fin t) b = (if k = 0 then (b, False) else (b\<lparr>tb_tokens := numN (k - 1)\<rparr>, True))"
proof -
  have zero: "subN (Fin t) (Fin t) = numN 0" by (simp add: subN_def roundDouble_def numN_def)
  have elapsed: "divN (maxN (numN 0) (numN 0)) (numN 1000) = numN 0"
    by (simp add: maxN_def numN_def roundDouble_def)
  have mul: "mulN (numN 0) (Fin rate) = numN 0" by (simp add: numN_def roundDouble_def)
  have add: "addN (numN k) (numN 0) = numN k" using addN_int[of k 0] assms(5-7) by simp
  have min: "minN (numN burst) (numN k) = numN k" using assms(6) by (auto simp: minN_def numN_def)
  have sub: "subN (numN k) (numN 1) = numN (k - 1)" using subN_int[of k 1] assms(5-7) by simp
  have same: "b\<lparr>tb_tokens := numN k, tb_updatedAt := Fin t\<rparr> = b"
    "b\<lparr>tb_tokens := numN k, tb_updatedAt := Fin t, tb_tokens := numN (k - 1)\<rparr> = b\<lparr>tb_tokens := numN (k - 1)\<rparr>"
    using assms(3,4) by (auto intro!: token_bucket.equality)
  have less: "lessN (numN k) (numN 1) \<longleftrightarrow> k = 0" using assms(5) by auto
  show ?thesis unfolding bucketAllow_def Let_def assms(1-4) zero elapsed mul add min same sub less by (rule refl)
qed

lemma answersAt_burst:
  assumes "tb_ratePerSecond b = Fin rate" "tb_burst b = numN burst" "tb_tokens b = numN (int k)" "tb_updatedAt b = Fin t"
    and "int k \<le> burst" "burst < 2 ^ 53"
  shows "answersAt n (Fin t) b = replicate (min k n) True @ replicate (n - k) False"
  using assms
proof (induction n arbitrary: k b)
  case 0
  then show ?case by simp
next
  case (Suc n)
  have step: "bucketAllow (Fin t) b = (if int k = 0 then (b, False) else (b\<lparr>tb_tokens := numN (int k - 1)\<rparr>, True))"
    by (rule bucketAllow_same_instant[OF Suc.prems(1-4) _ Suc.prems(5,6)]) simp
  show ?case
  proof (cases k)
    case 0
    then show ?thesis using step Suc.IH[OF Suc.prems] by simp
  next
    case (Suc j)
    have "answersAt n (Fin t) (b\<lparr>tb_tokens := numN (int j)\<rparr>) = replicate (min j n) True @ replicate (n - j) False"
      by (rule Suc.IH) (use Suc.prems \<open>k = Suc j\<close> in simp_all)
    then show ?thesis using step \<open>k = Suc j\<close> by simp
  qed
qed

section \<open>The entries of a limiter\<close>

lemma length_delete_less: "k \<in> fst ` set m \<Longrightarrow> length (AList.delete k m) < length m"
  by (auto simp: AList.delete_eq intro!: length_filter_less)

lemma length_update_le: "length (AList.update k v m) \<le> Suc (length m)"
  by (induction m) auto

lemma length_update_same: "k \<in> fst ` set m \<Longrightarrow> length (AList.update k v m) = length m"
  by (induction m) auto

lemma set_update_cases: "e \<in> set (AList.update k v m) \<Longrightarrow> e = (k, v) \<or> e \<in> set m"
  by (induction m) (auto split: if_splits)

lemma set_evictOldest: "set (evictOldest entries) \<subseteq> set entries"
  by (auto simp: evictOldest_def AList.delete_eq split: list.splits)

lemma distinct_evictOldest: "distinct (map fst entries) \<Longrightarrow> distinct (map fst (evictOldest entries))"
  by (auto simp: evictOldest_def distinct_delete split: list.splits)

lemma length_evictOldest:
  assumes "entries \<noteq> []"
  shows "length (evictOldest entries) < length entries"
proof -
  have s: "set (oldestFirst entries) = set entries" by (simp add: oldestFirst_def)
  then obtain e es where e: "oldestFirst entries = e # es" using assms by (cases "oldestFirst entries") auto
  then have "fst e \<in> fst ` set entries" using s by auto
  then show ?thesis using e length_delete_less by (simp add: evictOldest_def)
qed

lemma distinct_dropIdle: "distinct (map fst entries) \<Longrightarrow> distinct (map fst (dropIdle now ttl entries))"
  by (simp add: dropIdle_def distinct_map_filter)

text \<open>The invariant of a limiter: at most \<^verbatim>\<open>maximumKeys\<close> entries, one per key.\<close>

definition keyed_ok :: "keyed_bucket \<Rightarrow> bool" where
  "keyed_ok limiter =
     (case kb_maximumKeys limiter of
        Fin m \<Rightarrow> of_int \<lfloor>m\<rfloor> = m \<and> 1 \<le> m \<and> of_nat (length (kb_entries limiter)) \<le> m \<and>
          distinct (map fst (kb_entries limiter))
      | _ \<Rightarrow> False)"

lemma keyed_okE:
  assumes "keyed_ok limiter"
  obtains m where "kb_maximumKeys limiter = numN m" "1 \<le> m" "int (length (kb_entries limiter)) \<le> m"
    "distinct (map fst (kb_entries limiter))"
proof -
  obtain x where x: "kb_maximumKeys limiter = Fin x" "of_int \<lfloor>x\<rfloor> = x" "1 \<le> x"
    "of_nat (length (kb_entries limiter)) \<le> x" "distinct (map fst (kb_entries limiter))"
    using assms by (auto simp: keyed_ok_def split: number.splits)
  show ?thesis
  proof (rule that[of "\<lfloor>x\<rfloor>"])
    show "kb_maximumKeys limiter = numN \<lfloor>x\<rfloor>" by (simp only: numN_def x(1,2))
    show "1 \<le> \<lfloor>x\<rfloor>" using x(3) by simp
    show "int (length (kb_entries limiter)) \<le> \<lfloor>x\<rfloor>" using x(4) by (simp add: le_floor_iff)
  qed (rule x(5))
qed

lemma keyed_okI:
  "kb_maximumKeys limiter = numN m \<Longrightarrow> 1 \<le> m \<Longrightarrow> int (length (kb_entries limiter)) \<le> m \<Longrightarrow>
     distinct (map fst (kb_entries limiter)) \<Longrightarrow> keyed_ok limiter"
  by (simp add: keyed_ok_def numN_def)

lemma touchEntry_entries:
  "kb_entries (fst (touchEntry key now entry limiter)) =
     AList.update key \<lparr>be_bucket = fst (bucketAllow now (be_bucket entry)), be_lastSeenAt = now\<rparr> (kb_entries limiter)"
  "kb_maximumKeys (fst (touchEntry key now entry limiter)) = kb_maximumKeys limiter"
  "kb_ratePerSecond (fst (touchEntry key now entry limiter)) = kb_ratePerSecond limiter"
  "kb_burst (fst (touchEntry key now entry limiter)) = kb_burst limiter"
  by (simp_all add: touchEntry_def split: prod.split)

text \<open>What a call leaves: the entries that survive, then the entry of the key.\<close>

definition survivors :: "string \<Rightarrow> number \<Rightarrow> keyed_bucket \<Rightarrow> (string \<times> bucket_entry) list" where
  "survivors key now limiter =
     (let live = dropIdle now (kb_idleTtlMs limiter) (kb_entries limiter) in
      if map_of live key = None \<and> leN (kb_maximumKeys limiter) (numN (int (length live))) then evictOldest live else live)"

lemma set_survivors: "set (survivors key now limiter) \<subseteq> set (kb_entries limiter)"
proof -
  let ?live = "dropIdle now (kb_idleTtlMs limiter) (kb_entries limiter)"
  have "set ?live \<subseteq> set (kb_entries limiter)" by (auto simp: dropIdle_def)
  then show ?thesis using set_evictOldest[of ?live] by (auto simp: survivors_def Let_def)
qed

lemma keyedAllow_cases:
  obtains e where "keyedAllow key now limiter = (limiter\<lparr>kb_entries := survivors key now limiter\<rparr>, Inl e)"
    "newTokenBucket (kb_ratePerSecond limiter) (kb_burst limiter) now = Inl e"
  | entry where "keyedAllow key now limiter = touchEntry key now entry (limiter\<lparr>kb_entries := survivors key now limiter\<rparr>)"
      "map_of (survivors key now limiter) key = Some entry \<and> (key, entry) \<in> set (kb_entries limiter) \<or>
       map_of (survivors key now limiter) key = None \<and>
         newTokenBucket (kb_ratePerSecond limiter) (kb_burst limiter) now = Inr (be_bucket entry)"
proof -
  let ?live = "dropIdle now (kb_idleTtlMs limiter) (kb_entries limiter)"
  show ?thesis
  proof (cases "map_of ?live key")
    case (Some entry)
    then have "(key, entry) \<in> set (kb_entries limiter)" using map_of_SomeD[OF Some] by (simp add: dropIdle_def)
    then show ?thesis using Some that(2) by (simp add: keyedAllow_def survivors_def)
  next
    case None
    then have "key \<notin> fst ` set (survivors key now limiter)"
      using set_evictOldest[of ?live] by (auto simp: survivors_def Let_def map_of_eq_None_iff)
    then have none: "map_of (survivors key now limiter) key = None" by (simp add: map_of_eq_None_iff)
    show ?thesis
    proof (cases "newTokenBucket (kb_ratePerSecond limiter) (kb_burst limiter) now")
      case (Inl e)
      then show ?thesis using None that(1) by (simp add: keyedAllow_def survivors_def Let_def)
    next
      case (Inr bucket)
      then show ?thesis using None none that(2)[of "\<lparr>be_bucket = bucket, be_lastSeenAt = now\<rparr>"]
        by (simp add: keyedAllow_def survivors_def Let_def)
    qed
  qed
qed

lemma survivors_ok:
  assumes "keyed_ok limiter"
  shows "distinct (map fst (survivors key now limiter))"
    "\<And>m. kb_maximumKeys limiter = numN m \<Longrightarrow> int (length (survivors key now limiter)) \<le> m \<and>
       (map_of (survivors key now limiter) key = None \<longrightarrow> int (length (survivors key now limiter)) < m)"
proof -
  obtain m where m: "kb_maximumKeys limiter = numN m" "1 \<le> m" "int (length (kb_entries limiter)) \<le> m"
    "distinct (map fst (kb_entries limiter))" by (rule keyed_okE[OF assms])
  let ?live = "dropIdle now (kb_idleTtlMs limiter) (kb_entries limiter)"
  have live: "length ?live \<le> length (kb_entries limiter)" by (simp add: dropIdle_def)
  show "distinct (map fst (survivors key now limiter))"
    using m(4) by (simp add: survivors_def Let_def distinct_evictOldest distinct_dropIdle)
  fix m' assume "kb_maximumKeys limiter = numN m'"
  then have [simp]: "m' = m" using m(1) by (simp add: numN_def)
  show "int (length (survivors key now limiter)) \<le> m' \<and>
       (map_of (survivors key now limiter) key = None \<longrightarrow> int (length (survivors key now limiter)) < m')"
  proof (cases "map_of ?live key = None \<and> m \<le> int (length ?live)")
    case True
    then have "?live \<noteq> []" using m(2) by auto
    then have "length (evictOldest ?live) < length ?live" by (rule length_evictOldest)
    then show ?thesis using True live m(1,3) by (simp add: survivors_def)
  next
    case False
    then show ?thesis using live m(1,3) by (auto simp: survivors_def Let_def)
  qed
qed

lemma keyedAllow_ok:
  assumes ok: "keyed_ok limiter"
  shows "keyed_ok (fst (keyedAllow key now limiter))"
proof -
  obtain m where m: "kb_maximumKeys limiter = numN m" "1 \<le> m" by (rule keyed_okE[OF ok])
  let ?s = "survivors key now limiter"
  note s = survivors_ok(1)[OF ok, of key now] survivors_ok(2)[OF ok m(1), of key now]
  show ?thesis
  proof (rule keyedAllow_cases[of key now limiter])
    fix e assume "keyedAllow key now limiter = (limiter\<lparr>kb_entries := ?s\<rparr>, Inl e)"
    then show ?thesis using m s by (intro keyed_okI[of _ m]) simp_all
  next
    fix entry
    assume k: "keyedAllow key now limiter = touchEntry key now entry (limiter\<lparr>kb_entries := ?s\<rparr>)"
    have "length (AList.update key v ?s) \<le> (if map_of ?s key = None then Suc (length ?s) else length ?s)" for v
      using length_update_le[of key v ?s] length_update_same[of key ?s v] by (auto simp: map_of_eq_None_iff)
    then have "int (length (AList.update key v ?s)) \<le> m" for v
      using s(2) by (smt (verit) of_nat_Suc of_nat_mono)
    then show ?thesis using m s(1) unfolding k by (intro keyed_okI[of _ m]) (simp_all add: touchEntry_entries distinct_update)
  qed
qed

lemma reachable_ok: "keyed_reachable limiter \<Longrightarrow> keyed_ok limiter"
proof (induction rule: keyed_reachable.induct)
  case (start rate burst maximumKeys idleTtlMs limiter)
  then show ?case
    by (cases maximumKeys) (auto simp: newKeyedTokenBucket_def bindR_Inr_iff throwIf_Inr_iff keyed_ok_def numN_def not_less)
next
  case (step limiter e limiter')
  from step.hyps(2) obtain key t answer where "keyedAllow key (Fin t) limiter = (limiter', answer)"
    by (cases e) (auto elim: keyed_callE)
  then show ?case using keyedAllow_ok[OF step.IH, of key "Fin t"] by simp
qed

text \<open>A call touches no other principal's entry: it is kept as it is or deleted.\<close>

lemma keyedAllow_isolated:
  assumes "(k, e) \<in> set (kb_entries (fst (keyedAllow key now limiter)))" "k \<noteq> key"
  shows "(k, e) \<in> set (kb_entries limiter)"
proof -
  have "(k, e) \<in> set (survivors key now limiter)"
  proof (rule keyedAllow_cases[of key now limiter])
    fix err assume "keyedAllow key now limiter = (limiter\<lparr>kb_entries := survivors key now limiter\<rparr>, Inl err)"
    then show ?thesis using assms(1) by simp
  next
    fix entry
    assume "keyedAllow key now limiter = touchEntry key now entry (limiter\<lparr>kb_entries := survivors key now limiter\<rparr>)"
    then show ?thesis using assms set_update_cases[of "(k, e)" key _ "survivors key now limiter"]
      by (auto simp: touchEntry_entries)
  qed
  with set_survivors show ?thesis by blast
qed

text \<open>The buckets of a limiter keep their tokens within the burst.\<close>

definition buckets_ok :: "keyed_bucket \<Rightarrow> bool" where
  "buckets_ok limiter =
     ((case (kb_ratePerSecond limiter, kb_burst limiter) of (Fin r, Fin b) \<Rightarrow> b \<le> 2 ^ 52 | _ \<Rightarrow> False) \<and>
      list_all (\<lambda>entry. bucket_ok (be_bucket (snd entry))) (kb_entries limiter))"

lemma keyedAllow_buckets:
  assumes ok: "buckets_ok limiter"
  shows "buckets_ok (fst (keyedAllow key (Fin t) limiter))"
proof -
  obtain r b where rb: "kb_ratePerSecond limiter = Fin r" "kb_burst limiter = Fin b" "b \<le> 2 ^ 52"
    and all: "\<And>entry. entry \<in> set (kb_entries limiter) \<Longrightarrow> bucket_ok (be_bucket (snd entry))"
    using ok by (auto simp: buckets_ok_def list_all_iff split: number.splits)
  let ?s = "survivors key (Fin t) limiter"
  have s: "bucket_ok (be_bucket (snd entry))" if "entry \<in> set ?s" for entry
    using that all set_survivors by blast
  show ?thesis
  proof (rule keyedAllow_cases[of key "Fin t" limiter])
    fix e assume "keyedAllow key (Fin t) limiter = (limiter\<lparr>kb_entries := ?s\<rparr>, Inl e)"
    then show ?thesis using rb s by (simp add: buckets_ok_def list_all_iff)
  next
    fix entry
    assume k: "keyedAllow key (Fin t) limiter = touchEntry key (Fin t) entry (limiter\<lparr>kb_entries := ?s\<rparr>)"
      and e: "map_of ?s key = Some entry \<and> (key, entry) \<in> set (kb_entries limiter) \<or>
       map_of ?s key = None \<and> newTokenBucket (kb_ratePerSecond limiter) (kb_burst limiter) (Fin t) = Inr (be_bucket entry)"
    have "bucket_ok (be_bucket entry)"
      using e all[of "(key, entry)"] newTokenBucket_ok[of r b t "be_bucket entry"] rb by auto
    then have "bucket_ok (fst (bucketAllow (Fin t) (be_bucket entry)))" by (rule bucketAllow_ok)
    then show ?thesis unfolding k using rb s
      by (auto simp: buckets_ok_def list_all_iff touchEntry_entries dest!: set_update_cases)
  qed
qed

end
