(* ===== verification/IpBucket.thy ===== *)
theory IpBucket
  imports RateLimit
begin

text \<open>
  The per-address limiter of the redirector's server, and the interface it shares with the
  limiter of the API: a state that holds at most a fixed number of buckets, one per key, each
  with its tokens within the burst, and whose calls touch one key only.
\<close>

section \<open>The limiter of the redirector\<close>

datatype rate_class = NormalRate | ElevatedRate | SaturatedRate

record ip_entry =
  ie_tokens :: number
  ie_at :: number

record ip_bucket =
  ib_rate :: number
  ib_burst :: number
  ib_maximum :: nat
  ib_buckets :: "(string \<times> ip_entry) list"

definition newIpBucket :: "number \<Rightarrow> number \<Rightarrow> nat \<Rightarrow> ip_bucket" where
  "newIpBucket rate burst maximum =
     \<lparr>ib_rate = rate, ib_burst = burst, ib_maximum = maximum, ib_buckets = []\<rparr>"

text \<open>\<^verbatim>\<open>while (this.buckets.size > this.maximum) this.buckets.delete(this.buckets.keys().next().value!)\<close>\<close>

function evictFirst :: "nat \<Rightarrow> (string \<times> ip_entry) list \<Rightarrow> (string \<times> ip_entry) list" where
  "evictFirst maximum buckets = (if maximum < length buckets then evictFirst maximum (drop 1 buckets) else buckets)"
  by pat_completeness auto
termination by (relation "measure (\<lambda>(maximum, buckets). length buckets)") auto

declare evictFirst.simps [simp del]

definition ipAllow :: "string \<Rightarrow> number \<Rightarrow> ip_bucket \<Rightarrow> ip_bucket \<times> bool" where
  "ipAllow key now limiter =
     (let current = orElse (map_of (ib_buckets limiter) key) \<lparr>ie_tokens = ib_burst limiter, ie_at = now\<rparr>;
          tokens = minN (ib_burst limiter)
            (addN (ie_tokens current)
              (mulN (divN (maxN (numN 0) (subN now (ie_at current))) (numN 1000)) (ib_rate limiter)));
          allowed = leN (numN 1) tokens;
          entry = \<lparr>ie_tokens = (if allowed then subN tokens (numN 1) else tokens), ie_at = now\<rparr>
      in (limiter\<lparr>ib_buckets :=
            evictFirst (ib_maximum limiter) (AList.delete key (ib_buckets limiter) @ [(key, entry)])\<rparr>,
          allowed))"

definition ipClassify :: "string \<Rightarrow> ip_bucket \<Rightarrow> rate_class" where
  "ipClassify key limiter =
     (case map_of (ib_buckets limiter) key of
        None \<Rightarrow> NormalRate
      | Some current \<Rightarrow>
          if lessN (ie_tokens current) (numN 1) then SaturatedRate
          else if lessN (ie_tokens current) (maxN (numN 2) (divN (ib_burst limiter) (numN 4))) then ElevatedRate
          else NormalRate)"

section \<open>The entry of a key is a token bucket\<close>

definition ipTokenBucket :: "ip_bucket \<Rightarrow> ip_entry \<Rightarrow> token_bucket" where
  "ipTokenBucket limiter e =
     \<lparr>tb_ratePerSecond = ib_rate limiter, tb_burst = ib_burst limiter, tb_tokens = ie_tokens e, tb_updatedAt = ie_at e\<rparr>"

definition ipCurrent :: "string \<Rightarrow> number \<Rightarrow> ip_bucket \<Rightarrow> ip_entry" where
  "ipCurrent key now limiter =
     orElse (map_of (ib_buckets limiter) key) \<lparr>ie_tokens = ib_burst limiter, ie_at = now\<rparr>"

text \<open>A call answers as the token bucket of the API does, and leaves the bucket it leaves.\<close>

lemma ipAllow_tokenBucket:
  assumes "bucket_ok (ipTokenBucket limiter (ipCurrent key (Fin t) limiter))"
  shows "\<exists>entry. ipAllow key (Fin t) limiter =
      (limiter\<lparr>ib_buckets := evictFirst (ib_maximum limiter) (AList.delete key (ib_buckets limiter) @ [(key, entry)])\<rparr>,
       snd (bucketAllow (Fin t) (ipTokenBucket limiter (ipCurrent key (Fin t) limiter)))) \<and>
     ipTokenBucket limiter entry = fst (bucketAllow (Fin t) (ipTokenBucket limiter (ipCurrent key (Fin t) limiter)))"
proof -
  define current where "current = ipCurrent key (Fin t) limiter"
  define tokens where "tokens = minN (ib_burst limiter)
    (addN (ie_tokens current) (mulN (divN (maxN (numN 0) (subN (Fin t) (ie_at current))) (numN 1000)) (ib_rate limiter)))"
  have "bucket_ok (fst (bucketAllow (Fin t) (ipTokenBucket limiter current)))"
    using assms unfolding current_def by (rule bucketAllow_ok)
  moreover have step: "bucketAllow (Fin t) (ipTokenBucket limiter current) =
      (if lessN tokens (numN 1) then (ipTokenBucket limiter \<lparr>ie_tokens = tokens, ie_at = Fin t\<rparr>, False)
       else (ipTokenBucket limiter \<lparr>ie_tokens = subN tokens (numN 1), ie_at = Fin t\<rparr>, True))"
    by (simp add: bucketAllow_def Let_def ipTokenBucket_def tokens_def)
  ultimately have "\<exists>x. tokens = Fin x"
    by (cases tokens) (auto simp: bucket_ok_def ipTokenBucket_def subN_def numN_def split: if_splits number.splits)
  then have flip: "leN (numN 1) tokens = (\<not> lessN tokens (numN 1))" by (auto simp: leN_def numN_def)
  have "ipAllow key (Fin t) limiter =
      (limiter\<lparr>ib_buckets := evictFirst (ib_maximum limiter) (AList.delete key (ib_buckets limiter) @
         [(key, \<lparr>ie_tokens = (if leN (numN 1) tokens then subN tokens (numN 1) else tokens), ie_at = Fin t\<rparr>)])\<rparr>,
       leN (numN 1) tokens)"
    unfolding ipAllow_def Let_def tokens_def current_def ipCurrent_def by (rule refl)
  then show ?thesis using step unfolding current_def[symmetric] flip
    by (cases "lessN tokens (numN 1)"; simp; blast)
qed

lemma evictFirst_suffix: "\<exists>dropped. buckets = dropped @ evictFirst maximum buckets"
proof (induction maximum buckets rule: evictFirst.induct)
  case (1 maximum buckets)
  show ?case
  proof (cases "maximum < length buckets")
    case True
    then obtain dropped where "drop 1 buckets = dropped @ evictFirst maximum (drop 1 buckets)" using 1 by blast
    then have "buckets = (take 1 buckets @ dropped) @ evictFirst maximum (drop 1 buckets)"
      by (metis append.assoc append_take_drop_id)
    then show ?thesis using True by (metis evictFirst.simps)
  qed (simp add: evictFirst.simps[of maximum buckets])
qed

lemma evictFirst_length: "length (evictFirst maximum buckets) \<le> maximum"
  by (induction maximum buckets rule: evictFirst.induct) (subst evictFirst.simps, simp)

text \<open>The invariant of the redirector's limiter.\<close>

definition ip_ok :: "ip_bucket \<Rightarrow> bool" where
  "ip_ok limiter =
     (length (ib_buckets limiter) \<le> ib_maximum limiter \<and> distinct (map fst (ib_buckets limiter)) \<and>
      list_all (\<lambda>e. bucket_ok (ipTokenBucket limiter (snd e))) (ib_buckets limiter) \<and>
      bucket_ok (ipTokenBucket limiter \<lparr>ie_tokens = ib_burst limiter, ie_at = Fin 0\<rparr>))"

lemma newIpBucket_ok: "0 < r \<Longrightarrow> 1 \<le> b \<Longrightarrow> b \<le> 2 ^ 52 \<Longrightarrow> ip_ok (newIpBucket (Fin r) (Fin b) maximum)"
  by (simp add: ip_ok_def newIpBucket_def ipTokenBucket_def bucket_ok_def)

lemma ipCurrent_ok:
  assumes "ip_ok limiter"
  shows "bucket_ok (ipTokenBucket limiter (ipCurrent key (Fin t) limiter))"
proof (cases "map_of (ib_buckets limiter) key")
  case None
  then show ?thesis using assms
    by (auto simp: ipCurrent_def ip_ok_def ipTokenBucket_def bucket_ok_def split: number.splits)
next
  case (Some e)
  then have "(key, e) \<in> set (ib_buckets limiter)" by (rule map_of_SomeD)
  then show ?thesis using assms Some by (auto simp: ipCurrent_def ip_ok_def list_all_iff)
qed

lemma ipAllow_buckets:
  assumes "ip_ok limiter"
  obtains dropped entry kept where
    "fst (ipAllow key (Fin t) limiter) = limiter\<lparr>ib_buckets := kept\<rparr>"
    "AList.delete key (ib_buckets limiter) @ [(key, entry)] = dropped @ kept"
    "length kept \<le> ib_maximum limiter"
    "bucket_ok (ipTokenBucket limiter entry)"
proof -
  let ?current = "ipTokenBucket limiter (ipCurrent key (Fin t) limiter)"
  note current = ipCurrent_ok[OF assms, of key t]
  obtain entry where entry: "fst (ipAllow key (Fin t) limiter) =
      limiter\<lparr>ib_buckets := evictFirst (ib_maximum limiter) (AList.delete key (ib_buckets limiter) @ [(key, entry)])\<rparr>"
    "ipTokenBucket limiter entry = fst (bucketAllow (Fin t) ?current)"
    using ipAllow_tokenBucket[OF current] by auto
  obtain dropped where "AList.delete key (ib_buckets limiter) @ [(key, entry)] =
      dropped @ evictFirst (ib_maximum limiter) (AList.delete key (ib_buckets limiter) @ [(key, entry)])"
    using evictFirst_suffix by blast
  moreover have "bucket_ok (ipTokenBucket limiter entry)"
    unfolding entry(2) by (rule bucketAllow_ok[OF current])
  ultimately show thesis using that[OF entry(1) _ evictFirst_length] by blast
qed

lemma ipAllow_ok:
  assumes ok: "ip_ok limiter"
  shows "ip_ok (fst (ipAllow key (Fin t) limiter))"
    "ib_maximum (fst (ipAllow key (Fin t) limiter)) = ib_maximum limiter"
    "(k, e) \<in> set (ib_buckets (fst (ipAllow key (Fin t) limiter))) \<Longrightarrow> k \<noteq> key \<Longrightarrow> (k, e) \<in> set (ib_buckets limiter)"
proof -
  obtain dropped entry kept where k: "fst (ipAllow key (Fin t) limiter) = limiter\<lparr>ib_buckets := kept\<rparr>"
    "AList.delete key (ib_buckets limiter) @ [(key, entry)] = dropped @ kept"
    "length kept \<le> ib_maximum limiter" "bucket_ok (ipTokenBucket limiter entry)"
    by (rule ipAllow_buckets[OF ok])
  have same: "ipTokenBucket (limiter\<lparr>ib_buckets := bs\<rparr>) = ipTokenBucket limiter" for bs
    by (simp add: fun_eq_iff ipTokenBucket_def)
  have members: "set kept \<subseteq> insert (key, entry) (set (ib_buckets limiter))"
    using arg_cong[OF k(2), of set] by (auto simp: AList.delete_eq)
  have "distinct (map fst (AList.delete key (ib_buckets limiter) @ [(key, entry)]))"
    using ok by (auto simp: ip_ok_def AList.delete_eq distinct_map_filter)
  then have "distinct (map fst kept)" unfolding k(2) by simp
  moreover have "list_all (\<lambda>e. bucket_ok (ipTokenBucket limiter (snd e))) kept"
    using members k(4) ok by (auto simp: ip_ok_def list_all_iff)
  ultimately show "ip_ok (fst (ipAllow key (Fin t) limiter))"
    using ok k(1,3) by (simp add: ip_ok_def same)
  show "ib_maximum (fst (ipAllow key (Fin t) limiter)) = ib_maximum limiter" by (simp add: k(1))
  show "(k, e) \<in> set (ib_buckets (fst (ipAllow key (Fin t) limiter))) \<Longrightarrow> k \<noteq> key \<Longrightarrow> (k, e) \<in> set (ib_buckets limiter)"
    using members k(1) by auto
qed

section \<open>The interface of a bounded limiter\<close>

locale bounded_limiter =
  fixes call :: "string \<Rightarrow> rat \<Rightarrow> 's \<Rightarrow> 's"
    and buckets :: "'s \<Rightarrow> (string \<times> token_bucket) list"
    and maximum :: "'s \<Rightarrow> nat"
    and ok :: "'s \<Rightarrow> bool"
  assumes call_ok: "ok s \<Longrightarrow> ok (call key t s)"
    and ok_length: "ok s \<Longrightarrow> length (buckets s) \<le> maximum s"
    and ok_distinct: "ok s \<Longrightarrow> distinct (map fst (buckets s))"
    and ok_tokens: "ok s \<Longrightarrow> (k, b) \<in> set (buckets s) \<Longrightarrow> bucket_ok b"
    and call_maximum: "ok s \<Longrightarrow> maximum (call key t s) = maximum s"
    and call_isolated: "ok s \<Longrightarrow> (k, b) \<in> set (buckets (call key t s)) \<Longrightarrow> k \<noteq> key \<Longrightarrow> (k, b) \<in> set (buckets s)"
begin

definition run :: "(string \<times> rat) list \<Rightarrow> 's \<Rightarrow> 's" where
  "run calls s = foldl (\<lambda>s c. call (fst c) (snd c) s) s calls"

lemma run_simps [simp]: "run [] s = s" "run (c # calls) s = run calls (call (fst c) (snd c) s)"
  by (simp_all add: run_def)

lemma run_ok: "ok s \<Longrightarrow> ok (run calls s) \<and> maximum (run calls s) = maximum s"
  by (induction calls arbitrary: s) (simp_all add: call_ok call_maximum)

lemma run_bounded: "ok s \<Longrightarrow> length (buckets (run calls s)) \<le> maximum s"
  using run_ok[of s calls] ok_length[of "run calls s"] by simp

lemma run_isolated:
  "ok s \<Longrightarrow> k \<notin> fst ` set calls \<Longrightarrow> (k, b) \<in> set (buckets (run calls s)) \<Longrightarrow> (k, b) \<in> set (buckets s)"
proof (induction calls arbitrary: s)
  case (Cons c calls)
  then have "(k, b) \<in> set (buckets (call (fst c) (snd c) s))" by (simp add: call_ok)
  then show ?case by (rule call_isolated[OF Cons.prems(1)]) (use Cons.prems(2) in auto)
qed simp

lemma run_tokens: "ok s \<Longrightarrow> (k, b) \<in> set (buckets (run calls s)) \<Longrightarrow> bucket_ok b"
  using run_ok ok_tokens by blast

end

section \<open>Both limiters are bounded\<close>

definition ipTokenBuckets :: "ip_bucket \<Rightarrow> (string \<times> token_bucket) list" where
  "ipTokenBuckets limiter = map (\<lambda>e. (fst e, ipTokenBucket limiter (snd e))) (ib_buckets limiter)"

definition keyedTokenBuckets :: "keyed_bucket \<Rightarrow> (string \<times> token_bucket) list" where
  "keyedTokenBuckets limiter = map (\<lambda>e. (fst e, be_bucket (snd e))) (kb_entries limiter)"

definition keyedMaximum :: "keyed_bucket \<Rightarrow> nat" where
  "keyedMaximum limiter = (case kb_maximumKeys limiter of Fin m \<Rightarrow> nat \<lfloor>m\<rfloor> | _ \<Rightarrow> 0)"

lemma keyedAllow_maximum [simp]: "kb_maximumKeys (fst (keyedAllow key now limiter)) = kb_maximumKeys limiter"
  by (auto simp: keyedAllow_def touchEntry_def Let_def split: option.splits sum.splits prod.splits)

interpretation ip: bounded_limiter "\<lambda>key t s. fst (ipAllow key (Fin t) s)" ipTokenBuckets ib_maximum ip_ok
proof
  fix s key t k b
  assume ok: "ip_ok s"
  show "ip_ok (fst (ipAllow key (Fin t) s))" by (rule ipAllow_ok(1)[OF ok])
  show "ib_maximum (fst (ipAllow key (Fin t) s)) = ib_maximum s" by (rule ipAllow_ok(2)[OF ok])
  show "length (ipTokenBuckets s) \<le> ib_maximum s" using ok by (simp add: ipTokenBuckets_def ip_ok_def)
  show "distinct (map fst (ipTokenBuckets s))" using ok by (simp add: ipTokenBuckets_def ip_ok_def comp_def)
  show "(k, b) \<in> set (ipTokenBuckets s) \<Longrightarrow> bucket_ok b"
    using ok by (auto simp: ipTokenBuckets_def ip_ok_def list_all_iff)
  obtain kept where "fst (ipAllow key (Fin t) s) = s\<lparr>ib_buckets := kept\<rparr>" by (rule ipAllow_buckets[OF ok])
  then have same: "ipTokenBucket (fst (ipAllow key (Fin t) s)) = ipTokenBucket s"
    by (simp add: fun_eq_iff ipTokenBucket_def)
  assume "(k, b) \<in> set (ipTokenBuckets (fst (ipAllow key (Fin t) s)))" "k \<noteq> key"
  then obtain e where "(k, e) \<in> set (ib_buckets (fst (ipAllow key (Fin t) s)))" "b = ipTokenBucket s e"
    unfolding ipTokenBuckets_def same by auto
  then show "(k, b) \<in> set (ipTokenBuckets s)"
    using ipAllow_ok(3)[OF ok _ \<open>k \<noteq> key\<close>] by (force simp: ipTokenBuckets_def)
qed

interpretation keyed: bounded_limiter "\<lambda>key t s. fst (keyedAllow key (Fin t) s)" keyedTokenBuckets keyedMaximum
  "\<lambda>s. keyed_ok s \<and> buckets_ok s"
proof
  fix s key t k b
  assume ok: "keyed_ok s \<and> buckets_ok s"
  then obtain m where m: "kb_maximumKeys s = numN m" "int (length (kb_entries s)) \<le> m" "distinct (map fst (kb_entries s))"
    by (auto elim: keyed_okE)
  show "keyed_ok (fst (keyedAllow key (Fin t) s)) \<and> buckets_ok (fst (keyedAllow key (Fin t) s))"
    using ok by (simp add: keyedAllow_ok keyedAllow_buckets)
  show "length (keyedTokenBuckets s) \<le> keyedMaximum s" using m by (simp add: keyedTokenBuckets_def keyedMaximum_def numN_def)
  show "distinct (map fst (keyedTokenBuckets s))" using m(3) by (simp add: keyedTokenBuckets_def comp_def)
  show "(k, b) \<in> set (keyedTokenBuckets s) \<Longrightarrow> bucket_ok b"
    using ok by (auto simp: keyedTokenBuckets_def buckets_ok_def list_all_iff)
  show "keyedMaximum (fst (keyedAllow key (Fin t) s)) = keyedMaximum s" by (simp add: keyedMaximum_def)
  show "(k, b) \<in> set (keyedTokenBuckets (fst (keyedAllow key (Fin t) s))) \<Longrightarrow> k \<noteq> key \<Longrightarrow> (k, b) \<in> set (keyedTokenBuckets s)"
    using keyedAllow_isolated[of k _ key "Fin t" s] by (force simp: keyedTokenBuckets_def)
qed

end
