(* ===== verification/Redirector.thy ===== *)
theory Redirector
  imports FormUrl IpBucket
begin

text \<open>
  The redirector core: install referrer texts, deep link values and parameters, allowed
  destinations and the resolution of a tracking link into a redirect. \<^verbatim>\<open>new URL\<close> and the
  printing of a URL are the parameter \<open>urls\<close>, the collation of \<^verbatim>\<open>localeCompare\<close> is the
  parameter \<open>collate\<close>, the random bytes of a click id are an argument.
\<close>

section \<open>Data\<close>

datatype destination_kind = PlayStore | CustomHttps

datatype link_status = LinkActive | LinkPaused | LinkArchived

datatype client_class = MobileAppEligible | BotClient | OtherClient

datatype deferred_status = Carried | OmittedLength | OmittedPlatform | NotConfigured

record tracking_link =
  tl_tracking_link_id :: string
  tl_tenant_id :: string
  tl_app_id :: string
  tl_slug :: string
  tl_destination_kind :: destination_kind
  tl_destination_url :: string
  tl_play_package_name :: "string option"
  tl_network :: "string option"
  tl_site_id :: "string option"
  tl_campaign_id :: "string option"
  tl_ad_group_id :: "string option"
  tl_creative_id :: "string option"
  tl_deep_link_value :: "string option"
  tl_deep_link_param_names :: "string list option"
  tl_deferred_deep_link_ttl_seconds :: "int option"
  tl_status :: link_status

record redirect_click =
  ck_click_id :: string
  ck_tracking_link_id :: string
  ck_tenant_id :: string
  ck_app_id :: string
  ck_destination_url :: string
  ck_referrer :: string
  ck_redirector_click_at :: string
  ck_campaign_id :: "string option"
  ck_ad_group_id :: "string option"
  ck_creative_id :: "string option"
  ck_network :: "string option"
  ck_site_id :: "string option"
  ck_remote_click_ref :: "string option"
  ck_source_rate_class :: "rate_class option"
  ck_client_class :: "client_class option"
  ck_bot_prefetch :: bool
  ck_deep_link_value :: "string option"
  ck_deep_link_params :: "(string \<times> string) list option"
  ck_deferred_deep_link_status :: deferred_status

record redirect_prefetch =
  rp_tracking_link_id :: string
  rp_tenant_id :: string
  rp_app_id :: string
  rp_redirector_click_at :: string
  rp_campaign_id :: "string option"
  rp_ad_group_id :: "string option"
  rp_creative_id :: "string option"
  rp_network :: "string option"
  rp_site_id :: "string option"
  rp_remote_click_ref :: "string option"
  rp_source_rate_class :: "rate_class option"
  rp_client_class :: client_class

record redirect_resolution =
  rd_location :: string
  rd_click :: "redirect_click option"
  rd_prefetch :: "redirect_prefetch option"

section \<open>Random identifiers\<close>

definition base64UrlChar :: "nat \<Rightarrow> char" where
  "base64UrlChar n = ''ABCDEFGHIJKLMNOPQRSTUVWXYZabcdefghijklmnopqrstuvwxyz0123456789-_'' ! n"

text \<open>\<^verbatim>\<open>Buffer.toString("base64url")\<close>: no padding.\<close>

fun base64Url :: "nat list \<Rightarrow> string" where
  "base64Url (a # b # c # rest) =
     [base64UrlChar (a div 4), base64UrlChar (a mod 4 * 16 + b div 16),
      base64UrlChar (b mod 16 * 4 + c div 64), base64UrlChar (c mod 64)] @ base64Url rest"
| "base64Url [a, b] =
     [base64UrlChar (a div 4), base64UrlChar (a mod 4 * 16 + b div 16), base64UrlChar (b mod 16 * 4)]"
| "base64Url [a] = [base64UrlChar (a div 4), base64UrlChar (a mod 4 * 16)]"
| "base64Url [] = []"

definition randomSlug :: "(nat \<Rightarrow> nat list) \<Rightarrow> string" where
  "randomSlug random = base64Url (random 9)"

definition randomClickId :: "(nat \<Rightarrow> nat list) \<Rightarrow> string" where
  "randomClickId random = base64Url (random 33)"

section \<open>Install referrer\<close>

text \<open>\<^verbatim>\<open>/^[A-Za-z0-9_-]{22,128}$/\<close> and \<^verbatim>\<open>/^[A-Za-z0-9._~-]{1,64}$/\<close>\<close>

definition isIdChar :: "char \<Rightarrow> bool" where
  "isIdChar c = (isAlphaNum c \<or> c \<in> set ''_-'')"

definition validClickId :: "string \<Rightarrow> bool" where
  "validClickId s = (22 \<le> length s \<and> length s \<le> 128 \<and> list_all isIdChar s)"

definition isSegmentChar :: "char \<Rightarrow> bool" where
  "isSegmentChar c = (isAlphaNum c \<or> c \<in> set ''._~-'')"

definition validSegment :: "string \<Rightarrow> bool" where
  "validSegment s = (1 \<le> length s \<and> length s \<le> 64 \<and> list_all isSegmentChar s)"

text \<open>Assigning properties to an object, in order; a repeated name keeps its place.\<close>

definition assignAll :: "(string \<times> string) list \<Rightarrow> (string \<times> string) list \<Rightarrow> (string \<times> string) list" where
  "assignAll obj props = foldl (\<lambda>m p. AList.update (fst p) (snd p) m) obj props"

definition encodeInstallReferrer :: "string \<Rightarrow> (string \<times> string) list \<Rightarrow> string res" where
  "encodeInstallReferrer clickId extras =
     bindR (throwIf (\<not> validClickId clickId) (JsError ''click_id_invalid'')) (\<lambda>_.
       Inr (formText (assignAll [(''omv'', ''1''), (''cid'', clickId)] extras)))"

definition decodeInstallReferrer :: "string \<Rightarrow> (string \<times> string) list option" where
  "decodeInstallReferrer value = map_option (assignAll []) (parseForm value)"

section \<open>Deep links\<close>

definition validDeepLinkValue :: "string \<Rightarrow> bool" where
  "validDeepLinkValue value =
     (let segments = drop 1 (splitOn (CHR ''/'') value) in
      length value \<le> 256 \<and> list_all (\<lambda>s. s \<noteq> ''.'' \<and> s \<noteq> ''..'') segments \<and>
      startsWith value ''/'' \<and> length segments \<le> 8 \<and> list_all validSegment segments)"

definition assertDeepLinkValue :: "string \<Rightarrow> string res" where
  "assertDeepLinkValue value =
     bindR (throwIf (\<not> validDeepLinkValue value) (JsError ''deep_link_value_invalid'')) (\<lambda>_. Inr value)"

definition bindParameter :: "string list \<Rightarrow> (string \<times> string) list \<times> nat \<Rightarrow> string \<times> string \<Rightarrow> (string \<times> string) list \<times> nat" where
  "bindParameter declared acc p =
     (if \<not> startsWith (fst p) ''dlp_'' \<or> drop 4 (fst p) \<notin> set declared \<or> \<not> validSegment (snd p)
      then (fst acc, snd acc + 1)
      else (AList.update (drop 4 (fst p)) (snd p) (fst acc), snd acc))"

definition bindDeepLinkParameters :: "(string \<times> string) list \<Rightarrow> string list \<Rightarrow> (string \<times> string) list \<times> nat" where
  "bindDeepLinkParameters source declared = foldl (bindParameter declared) ([], 0) source"

definition deepLinkExtras :: "(string \<Rightarrow> string \<Rightarrow> int) \<Rightarrow> string \<Rightarrow> (string \<times> string) list \<Rightarrow> (string \<times> string) list" where
  "deepLinkExtras collate value params =
     assignAll [(''dl'', value)]
       (map (\<lambda>p. (''dlp_'' @ fst p, snd p)) (js_sort (\<lambda>a b. collate (fst a) (fst b)) params))"

definition buildDeferredReferrer ::
  "(string \<Rightarrow> string \<Rightarrow> int) \<Rightarrow> string \<Rightarrow> string option \<Rightarrow> (string \<times> string) list option \<Rightarrow> nat \<Rightarrow>
    (string \<times> deferred_status) res" where
  "buildDeferredReferrer collate clickId deepLinkValue deepLinkParams maximumEncodedCharacters =
     bindR (encodeInstallReferrer clickId []) (\<lambda>minimal.
       case keepTruthy deepLinkValue of
         None \<Rightarrow> Inr (minimal, NotConfigured)
       | Some value \<Rightarrow>
           bindR (assertDeepLinkValue value) (\<lambda>_.
           bindR (encodeInstallReferrer clickId (deepLinkExtras collate value (orElse deepLinkParams []))) (\<lambda>expanded.
             Inr (if length expanded \<le> maximumEncodedCharacters then (expanded, Carried)
                  else (minimal, OmittedLength)))))"

section \<open>Destinations\<close>

text \<open>The parts of a parsed URL the sources read, and its search parameters.\<close>

record url =
  u_protocol :: string
  u_username :: string
  u_password :: string
  u_hostname :: string
  u_pathname :: string
  u_origin :: string
  u_searchParams :: "(string \<times> string) list"

record url_api =
  ua_parse :: "string \<Rightarrow> url option"
  ua_resolve :: "string \<Rightarrow> string \<Rightarrow> url option"
  ua_print :: "url \<Rightarrow> string"

text \<open>\<^verbatim>\<open>new URL(text)\<close> throws a \<^verbatim>\<open>TypeError\<close> on a text that is no URL.\<close>

definition newUrl :: "url_api \<Rightarrow> string \<Rightarrow> url res" where
  "newUrl urls s = (case ua_parse urls s of None \<Rightarrow> Inl TypeError | Some u \<Rightarrow> Inr u)"

text \<open>\<^verbatim>\<open>searchParams.set(name, value)\<close>: the first pair of the name is changed, the others go.\<close>

fun setFirst :: "string \<Rightarrow> string \<Rightarrow> (string \<times> string) list \<Rightarrow> (string \<times> string) list" where
  "setFirst name value [] = [(name, value)]"
| "setFirst name value (p # ps) =
     (if fst p = name then (name, value) # filter (\<lambda>q. fst q \<noteq> name) ps else p # setFirst name value ps)"

definition assertAllowedDestination :: "url_api \<Rightarrow> string \<Rightarrow> string list \<Rightarrow> url res" where
  "assertAllowedDestination urls destination allowedOrigins =
     (case ua_parse urls destination of
        None \<Rightarrow> Inl (JsError ''destination_invalid'')
      | Some parsed \<Rightarrow>
          if u_username parsed \<noteq> [] \<or> u_password parsed \<noteq> [] then Inl (JsError ''destination_credentials_forbidden'')
          else if u_protocol parsed = ''market:'' \<and> u_hostname parsed = ''details'' then Inr parsed
          else if u_protocol parsed \<noteq> ''https:'' then Inl (JsError ''destination_scheme_not_allowed'')
          else if u_hostname parsed = ''play.google.com'' \<and> u_pathname parsed = ''/store/apps/details'' then Inr parsed
          else bindR (mapR (newUrl urls) allowedOrigins) (\<lambda>origins.
               bindR (throwIf (u_origin parsed \<notin> set (map u_origin origins))
                        (JsError ''destination_origin_not_allowed'')) (\<lambda>_.
                 Inr parsed)))"

text \<open>The destination of a link: a Play Store link carries the package and the referrer.\<close>

definition withReferrer :: "url_api \<Rightarrow> tracking_link \<Rightarrow> string res \<Rightarrow> string res" where
  "withReferrer urls link referrer =
     bindR (newUrl urls (tl_destination_url link)) (\<lambda>u.
       if tl_destination_kind link = PlayStore then
         (case keepTruthy (tl_play_package_name link) of
            None \<Rightarrow> Inl (JsError ''play_package_name_missing'')
          | Some package \<Rightarrow>
              bindR referrer (\<lambda>r.
                Inr (ua_print urls (u\<lparr>u_searchParams :=
                  setFirst ''referrer'' r (setFirst ''id'' package (u_searchParams u))\<rparr>))))
       else Inr (ua_print urls u))"

definition playDestination :: "url_api \<Rightarrow> tracking_link \<Rightarrow> string \<Rightarrow> string res" where
  "playDestination urls link clickId = withReferrer urls link (encodeInstallReferrer clickId [])"

section \<open>Resolution\<close>

definition fallbackResponse :: "string \<Rightarrow> redirect_resolution" where
  "fallbackResponse fallbackDestination =
     \<lparr>rd_location = fallbackDestination, rd_click = None, rd_prefetch = None\<rparr>"

record redirect_options =
  ro_link :: "tracking_link option"
  ro_fallbackDestination :: string
  ro_now :: string
  ro_clickId :: "string option"
  ro_remoteClickRef :: "string option"
  ro_sourceRateClass :: "rate_class option"
  ro_clientClass :: "client_class option"
  ro_deepLinkParams :: "(string \<times> string) list option"
  ro_referrerMaximumEncodedCharacters :: "nat option"
  ro_deepLinkValue :: "string option"

definition deepLinkValueOf :: "redirect_options \<Rightarrow> tracking_link \<Rightarrow> string option" where
  "deepLinkValueOf options link =
     keepTruthy (case ro_deepLinkValue options of None \<Rightarrow> tl_deep_link_value link | v \<Rightarrow> v)"

definition makeClick ::
  "redirect_options \<Rightarrow> tracking_link \<Rightarrow> string \<Rightarrow> string \<Rightarrow> string \<times> deferred_status \<Rightarrow> redirect_click" where
  "makeClick options link clickId destination deferred = \<lparr>
     ck_click_id = clickId,
     ck_tracking_link_id = tl_tracking_link_id link,
     ck_tenant_id = tl_tenant_id link,
     ck_app_id = tl_app_id link,
     ck_destination_url = destination,
     ck_referrer = fst deferred,
     ck_redirector_click_at = ro_now options,
     ck_campaign_id = keepTruthy (tl_campaign_id link),
     ck_ad_group_id = keepTruthy (tl_ad_group_id link),
     ck_creative_id = keepTruthy (tl_creative_id link),
     ck_network = keepTruthy (tl_network link),
     ck_site_id = keepTruthy (tl_site_id link),
     ck_remote_click_ref = keepTruthy (ro_remoteClickRef options),
     ck_source_rate_class = ro_sourceRateClass options,
     ck_client_class = ro_clientClass options,
     ck_bot_prefetch = (ro_clientClass options = Some BotClient),
     ck_deep_link_value = deepLinkValueOf options link,
     ck_deep_link_params = (if ro_deepLinkParams options = Some [] then None else ro_deepLinkParams options),
     ck_deferred_deep_link_status = snd deferred\<rparr>"

definition resolveRedirect ::
  "(string \<Rightarrow> string \<Rightarrow> int) \<Rightarrow> url_api \<Rightarrow> (nat \<Rightarrow> nat list) \<Rightarrow> redirect_options \<Rightarrow> redirect_resolution res" where
  "resolveRedirect collate urls random options =
     (case ro_link options of
        None \<Rightarrow> Inr (fallbackResponse (ro_fallbackDestination options))
      | Some link \<Rightarrow>
          if tl_status link \<noteq> LinkActive then Inr (fallbackResponse (ro_fallbackDestination options))
          else let clickId = orElse (ro_clickId options) (randomClickId random);
                   maximum = orElse (ro_referrerMaximumEncodedCharacters options) 512 in
               bindR (buildDeferredReferrer collate clickId (deepLinkValueOf options link) (ro_deepLinkParams options) maximum)
                 (\<lambda>deferred.
               bindR (throwIf (maximum < length (fst deferred)) (JsError ''referrer_too_long'')) (\<lambda>_.
               bindR (withReferrer urls link (Inr (fst deferred))) (\<lambda>destination.
                 Inr \<lparr>rd_location = destination,
                      rd_click = Some (makeClick options link clickId destination deferred),
                      rd_prefetch = None\<rparr>))))"

definition prefetchEvidence ::
  "tracking_link \<Rightarrow> string \<Rightarrow> string \<Rightarrow> string option \<Rightarrow> rate_class option \<Rightarrow> client_class option \<Rightarrow> redirect_resolution" where
  "prefetchEvidence link fallbackDestination now remoteClickRef sourceRateClass clientClass =
     (fallbackResponse fallbackDestination)\<lparr>rd_prefetch := Some \<lparr>
        rp_tracking_link_id = tl_tracking_link_id link,
        rp_tenant_id = tl_tenant_id link,
        rp_app_id = tl_app_id link,
        rp_redirector_click_at = now,
        rp_campaign_id = keepTruthy (tl_campaign_id link),
        rp_ad_group_id = keepTruthy (tl_ad_group_id link),
        rp_creative_id = keepTruthy (tl_creative_id link),
        rp_network = keepTruthy (tl_network link),
        rp_site_id = keepTruthy (tl_site_id link),
        rp_remote_click_ref = keepTruthy remoteClickRef,
        rp_source_rate_class = sourceRateClass,
        rp_client_class = orElse clientClass BotClient\<rparr>\<rparr>"

section \<open>Client class\<close>

definition PUBLIC_BOT_TOKENS :: "string list" where
  "PUBLIC_BOT_TOKENS = [''bot'', ''crawler'', ''spider'', ''preview'']"

definition classifyClientClass :: "string \<Rightarrow> client_class" where
  "classifyClientClass userAgent =
     (let normalized = map lowerChar userAgent in
      if list_ex (includesText normalized) PUBLIC_BOT_TOKENS then BotClient
      else if list_ex (includesText normalized) [''android'', ''iphone'', ''ipad''] then MobileAppEligible
      else OtherClient)"

end
