(* ===== verification/InstallReferrer.thy ===== *)
theory InstallReferrer
  imports Redirector
begin

text \<open>
  The mapping of a Play install referrer response, and the laws of the redirector core: what
  a redirect writes into the referrer is what the mapping reads back.
\<close>

section \<open>Referrer mapping\<close>

datatype client_response =
    ResponseOk
  | ServiceUnavailable
  | FeatureNotSupported
  | DeveloperError
  | ServiceDisconnected

datatype referrer_status = ReferrerAvailable | ReferrerNone | ReferrerUnsupported | ReferrerUnavailable

datatype terminal_reason =
    TerminalUnknownClickId
  | TerminalNoReferrer
  | TerminalUnsupported
  | TerminalUnavailable

record referrer_mapping =
  rm_referrer_status :: referrer_status
  rm_referrer_client_response :: client_response
  rm_retry_bounded :: bool
  rm_terminal_reason :: "terminal_reason option"
  rm_requires_window_evaluation :: bool
  rm_click_id :: "string option"
  rm_loud_integrator_error :: bool

definition referrerMapping ::
  "referrer_status \<Rightarrow> client_response \<Rightarrow> bool \<Rightarrow> terminal_reason option \<Rightarrow> string option \<Rightarrow> bool \<Rightarrow> referrer_mapping" where
  "referrerMapping status response retry reason clickId loud = \<lparr>
     rm_referrer_status = status, rm_referrer_client_response = response, rm_retry_bounded = retry,
     rm_terminal_reason = reason, rm_requires_window_evaluation = (clickId \<noteq> None),
     rm_click_id = clickId, rm_loud_integrator_error = loud\<rparr>"

text \<open>No result when the referrer is outside the modelled texts.\<close>

definition mapInstallReferrer :: "client_response \<Rightarrow> string option \<Rightarrow> referrer_mapping option" where
  "mapInstallReferrer response referrer =
     (case response of
        ResponseOk \<Rightarrow>
          let value = orElse referrer [] in
          if value = []
          then Some (referrerMapping ReferrerNone ResponseOk False (Some TerminalNoReferrer) None False)
          else map_option (\<lambda>params.
            let clickId = keepTruthy (map_of params ''cid'') in
            referrerMapping ReferrerAvailable ResponseOk False
              (if clickId = None then Some TerminalUnknownClickId else None) clickId False) (parseForm value)
      | FeatureNotSupported \<Rightarrow>
          Some (referrerMapping ReferrerUnsupported response False (Some TerminalUnsupported) None False)
      | DeveloperError \<Rightarrow>
          Some (referrerMapping ReferrerUnavailable response False (Some TerminalUnavailable) None True)
      | _ \<Rightarrow> Some (referrerMapping ReferrerUnavailable response True (Some TerminalUnavailable) None False))"

section \<open>Objects\<close>

lemma assignAll_lookup: "map_of (assignAll obj props) = map_of obj ++ map_of (rev props)"
  by (simp add: assignAll_def map_of_foldl_update)

lemma distinct_assignAll: "distinct (map fst obj) \<Longrightarrow> distinct (map fst (assignAll obj props))"
  unfolding assignAll_def by (induction props arbitrary: obj) (simp_all add: distinct_update)

lemma assignAll_entry: "p \<in> set (assignAll obj props) \<Longrightarrow> p \<in> set obj \<or> p \<in> set props"
proof (induction props arbitrary: obj)
  case Nil
  then show ?case by (simp add: assignAll_def)
next
  case (Cons q props)
  have u: "p \<in> set (AList.update k v m) \<Longrightarrow> p = (k, v) \<or> p \<in> set m" for k v and m :: "(string \<times> string) list"
    by (induction m) (auto split: if_splits)
  show ?case using Cons.IH[of "AList.update (fst q) (snd q) obj"] Cons.prems u[of "fst q" "snd q" obj]
    by (auto simp: assignAll_def)
qed

section \<open>Click ids\<close>

lemma base64UrlChar_id:
  assumes "n < 64"
  shows "isIdChar (base64UrlChar n)"
proof -
  let ?alphabet = "''ABCDEFGHIJKLMNOPQRSTUVWXYZabcdefghijklmnopqrstuvwxyz0123456789-_''"
  have "list_all isIdChar ?alphabet" by (simp add: isIdChar_def isAlphaNum_def)
  moreover have "base64UrlChar n \<in> set ?alphabet" unfolding base64UrlChar_def by (rule nth_mem) (use assms in simp)
  ultimately show ?thesis unfolding list_all_iff by blast
qed

lemma byte_parts:
  assumes "a < 256" "b < (256::nat)" "c < 256"
  shows "a div 4 < 64" "a mod 4 * 16 + b div 16 < 64" "b mod 16 * 4 + c div 64 < 64" "c mod 64 < 64"
    "a mod 4 * 16 < 64" "b mod 16 * 4 < 64"
proof -
  have "a mod 4 \<le> 3" "b div 16 < 16" "b mod 16 \<le> 15" "c div 64 < 4" using assms by (auto simp: div_less_iff_less_mult)
  then show "a mod 4 * 16 + b div 16 < 64" "b mod 16 * 4 + c div 64 < 64" "a mod 4 * 16 < 64" "b mod 16 * 4 < 64" by auto
  show "a div 4 < 64" using assms(1) by (simp add: div_less_iff_less_mult)
qed simp

lemma base64Url_chars:
  "list_all (\<lambda>b. b < 256) bs \<Longrightarrow> list_all isIdChar (base64Url bs)"
proof (induction bs rule: base64Url.induct)
  case (1 a b c rest)
  then show ?case using byte_parts[of a b c] by (simp add: base64UrlChar_id)
next
  case (2 a b)
  then show ?case using byte_parts[of a b 0] by (simp add: base64UrlChar_id)
next
  case (3 a)
  then show ?case using byte_parts[of a 0 0] by (simp add: base64UrlChar_id)
next
  case 4
  then show ?case by simp
qed

lemma base64Url_length: "length bs = 3 * n \<Longrightarrow> length (base64Url bs) = 4 * n"
proof (induction n arbitrary: bs)
  case 0
  then show ?case by simp
next
  case (Suc n)
  then obtain a b c rest where "bs = a # b # c # rest" "length rest = 3 * n"
    by (cases bs rule: base64Url.cases) auto
  then show ?case using Suc.IH by simp
qed

lemma randomClickId_valid:
  assumes "length (random 33) = 33" "list_all (\<lambda>b. b < 256) (random 33)"
  shows "validClickId (randomClickId random)" "length (randomClickId random) = 44"
  using base64Url_length[of "random 33" 11] base64Url_chars[OF assms(2)] assms(1)
  by (simp_all add: validClickId_def randomClickId_def)

section \<open>The referrer is read back\<close>

lemma idChar_ascii: "isIdChar c \<Longrightarrow> of_char c < (128::nat)"
  by (auto simp: isIdChar_def isAlphaNum_def Let_def)

lemma clickId_ascii: "validClickId c \<Longrightarrow> asciiText c"
  using idChar_ascii by (auto simp: validClickId_def asciiText_def list_all_iff)

lemma encoded_parse:
  assumes enc: "encodeInstallReferrer clickId extras = Inr r"
    and ascii: "list_all (\<lambda>p. asciiText (fst p) \<and> asciiText (snd p)) extras"
  shows "parseForm r = Some (assignAll [(''omv'', ''1''), (''cid'', clickId)] extras)"
proof -
  have valid: "validClickId clickId" and r: "r = formText (assignAll [(''omv'', ''1''), (''cid'', clickId)] extras)"
    using enc by (auto simp: encodeInstallReferrer_def bindR_Inr_iff throwIf_Inr_iff)
  have "asciiText ''omv''" "asciiText ''1''" "asciiText ''cid''" by (simp_all add: asciiText_def)
  then have "asciiText (fst p) \<and> asciiText (snd p)" if "p \<in> set (assignAll [(''omv'', ''1''), (''cid'', clickId)] extras)" for p
    using assignAll_entry[OF that] ascii clickId_ascii[OF valid] by (auto simp: list_all_iff)
  then show ?thesis unfolding r by (intro parseForm_formText) (simp add: list_all_iff)
qed

lemma referrer_cid:
  assumes "encodeInstallReferrer clickId extras = Inr r" "''cid'' \<notin> fst ` set extras"
    and "list_all (\<lambda>p. asciiText (fst p) \<and> asciiText (snd p)) extras"
  shows "\<exists>params. parseForm r = Some params \<and> map_of params ''cid'' = Some clickId"
proof -
  have "map_of (rev extras) ''cid'' = None" using assms(2) by (simp add: map_of_eq_None_iff)
  then have "map_of (assignAll [(''omv'', ''1''), (''cid'', clickId)] extras) ''cid'' = Some clickId"
    by (simp add: assignAll_lookup map_add_def)
  then show ?thesis using encoded_parse[OF assms(1,3)] by blast
qed

lemma mapInstallReferrer_read:
  assumes "parseForm r = Some params" "map_of params ''cid'' = Some clickId" "clickId \<noteq> []" "r \<noteq> []"
  shows "mapInstallReferrer ResponseOk (Some r) =
    Some (referrerMapping ReferrerAvailable ResponseOk False None (Some clickId) False)"
  using assms by (simp add: mapInstallReferrer_def keepTruthy_def)

section \<open>Deferred referrers\<close>

lemma validSegment_ascii: "validSegment s \<Longrightarrow> asciiText s"
  by (auto simp: validSegment_def asciiText_def list_all_iff isSegmentChar_def isAlphaNum_def Let_def)

lemma splitOn_chars: "c \<in> set s \<Longrightarrow> c = d \<or> (\<exists>part \<in> set (splitOn d s). c \<in> set part)"
proof (induction s)
  case (Cons x xs)
  obtain w ws where w: "splitOn d xs = w # ws" by (cases "splitOn d xs") auto
  show ?case using Cons w by (cases "c = x") auto
qed simp

lemma deepLinkValue_ascii:
  assumes "assertDeepLinkValue v = Inr u"
  shows "asciiText v"
  unfolding asciiText_def list_all_iff
proof
  fix c assume c: "c \<in> set v"
  have valid: "validDeepLinkValue v" using assms by (auto simp: assertDeepLinkValue_def bindR_Inr_iff throwIf_Inr_iff)
  then have start: "startsWith v ''/''" and segs: "list_all validSegment (drop 1 (splitOn (CHR ''/'') v))"
    by (auto simp: validDeepLinkValue_def Let_def)
  obtain rest where rest: "v = CHR ''/'' # rest" using start by (auto simp: startsWith_iff)
  have split: "splitOn (CHR ''/'') v = [] # splitOn (CHR ''/'') rest"
    using rest by (cases "splitOn (CHR ''/'') rest") auto
  show "of_char c < (128::nat)"
  proof (cases "c = CHR ''/''")
    case False
    then obtain part where "part \<in> set (splitOn (CHR ''/'') rest)" "c \<in> set part"
      using splitOn_chars[of c rest "CHR ''/''"] c rest by auto
    then show ?thesis using segs split validSegment_ascii[of part] by (auto simp: list_all_iff asciiText_def)
  qed simp
qed

lemma deepLinkExtras_entries:
  assumes "p \<in> set (deepLinkExtras collate value params)"
  shows "p = (''dl'', value) \<or> (\<exists>q \<in> set params. p = (''dlp_'' @ fst q, snd q))"
  using assignAll_entry[OF assms[unfolded deepLinkExtras_def]] by auto

lemma buildDeferredReferrer_Inr:
  assumes b: "buildDeferredReferrer collate clickId value params maximum = Inr (r, status)"
    and ascii: "list_all (\<lambda>p. asciiText (fst p) \<and> asciiText (snd p)) (orElse params [])"
  shows "validClickId clickId" "\<exists>ps. parseForm r = Some ps \<and> map_of ps ''cid'' = Some clickId"
    "status = Carried \<Longrightarrow> length r \<le> maximum" "status \<noteq> OmittedPlatform"
    "status = NotConfigured \<longleftrightarrow> keepTruthy value = None"
proof -
  obtain minimal where m: "encodeInstallReferrer clickId [] = Inr minimal"
    and rest: "(case keepTruthy value of None \<Rightarrow> Inr (minimal, NotConfigured)
       | Some value \<Rightarrow> bindR (assertDeepLinkValue value) (\<lambda>_.
           bindR (encodeInstallReferrer clickId (deepLinkExtras collate value (orElse params []))) (\<lambda>expanded.
             Inr (if length expanded \<le> maximum then (expanded, Carried) else (minimal, OmittedLength))))) = Inr (r, status)"
    using b unfolding buildDeferredReferrer_def bindR_Inr_iff by blast
  show "validClickId clickId" using m by (auto simp: encodeInstallReferrer_def bindR_Inr_iff throwIf_Inr_iff)
  have cid: "\<exists>ps. parseForm minimal = Some ps \<and> map_of ps ''cid'' = Some clickId" by (rule referrer_cid[OF m]) simp_all
  have "(\<exists>ps. parseForm r = Some ps \<and> map_of ps ''cid'' = Some clickId) \<and> (status = Carried \<longrightarrow> length r \<le> maximum) \<and>
      status \<noteq> OmittedPlatform \<and> (status = NotConfigured \<longleftrightarrow> keepTruthy value = None)"
  proof (cases "keepTruthy value")
    case None
    then show ?thesis using rest cid by auto
  next
    case (Some v)
    then obtain u expanded where v: "assertDeepLinkValue v = Inr u"
      and e: "encodeInstallReferrer clickId (deepLinkExtras collate v (orElse params [])) = Inr expanded"
      and out: "(r, status) = (if length expanded \<le> maximum then (expanded, Carried) else (minimal, OmittedLength))"
      using rest by (auto simp: bindR_Inr_iff)
    have "''cid'' \<notin> fst ` set (deepLinkExtras collate v (orElse params []))" by (auto dest!: deepLinkExtras_entries)
    moreover have "list_all (\<lambda>p. asciiText (fst p) \<and> asciiText (snd p)) (deepLinkExtras collate v (orElse params []))"
      using ascii deepLinkValue_ascii[OF v] by (fastforce simp: list_all_iff asciiText_def dest!: deepLinkExtras_entries)
    ultimately have "\<exists>ps. parseForm expanded = Some ps \<and> map_of ps ''cid'' = Some clickId" by (rule referrer_cid[OF e])
    then show ?thesis using out cid Some by (auto split: if_splits)
  qed
  then show "\<exists>ps. parseForm r = Some ps \<and> map_of ps ''cid'' = Some clickId" "status = Carried \<Longrightarrow> length r \<le> maximum"
    "status \<noteq> OmittedPlatform" "status = NotConfigured \<longleftrightarrow> keepTruthy value = None" by auto
qed

section \<open>Resolutions\<close>

lemma resolveRedirect_Inr:
  assumes "resolveRedirect collate urls random options = Inr out"
  shows "(rd_click out = None \<and> out = fallbackResponse (ro_fallbackDestination options) \<and>
      (\<forall>link. ro_link options = Some link \<longrightarrow> tl_status link \<noteq> LinkActive)) \<or>
    (\<exists>link clickId deferred. ro_link options = Some link \<and> tl_status link = LinkActive \<and>
       clickId = orElse (ro_clickId options) (randomClickId random) \<and>
       buildDeferredReferrer collate clickId (deepLinkValueOf options link) (ro_deepLinkParams options)
         (orElse (ro_referrerMaximumEncodedCharacters options) 512) = Inr deferred \<and>
       length (fst deferred) \<le> orElse (ro_referrerMaximumEncodedCharacters options) 512 \<and>
       withReferrer urls link (Inr (fst deferred)) = Inr (rd_location out) \<and>
       rd_click out = Some (makeClick options link clickId (rd_location out) deferred) \<and> rd_prefetch out = None)"
  using assms
  by (cases "ro_link options")
    (auto simp: resolveRedirect_def bindR_Inr_iff throwIf_Inr_iff Let_def fallbackResponse_def not_less split: if_splits)

lemma assertAllowedDestination_Inr:
  assumes "assertAllowedDestination urls destination origins = Inr u"
  shows "ua_parse urls destination = Some u" "u_username u = []" "u_password u = []"
    "u_protocol u \<in> {''https:'', ''market:''}"
    "u_protocol u = ''market:'' \<and> u_hostname u = ''details'' \<or>
     u_hostname u = ''play.google.com'' \<and> u_pathname u = ''/store/apps/details'' \<or>
     (\<exists>o' \<in> set origins. \<exists>v. ua_parse urls o' = Some v \<and> u_origin v = u_origin u)"
proof -
  obtain p where p: "ua_parse urls destination = Some p"
    using assms by (auto simp: assertAllowedDestination_def split: option.splits)
  have origins: "\<exists>o' \<in> set origins. \<exists>v. ua_parse urls o' = Some v \<and> u_origin v = u_origin p"
    if us: "mapR (newUrl urls) origins = Inr us" and found: "u_origin p \<in> set (map u_origin us)" for us
  proof -
    obtain v where v: "v \<in> set us" "u_origin v = u_origin p" using found by auto
    then obtain o' where "o' \<in> set origins" "newUrl urls o' = Inr v" using mapR_Inr_set[OF us] by auto
    then show ?thesis using v(2) by (auto simp: newUrl_def split: option.splits)
  qed
  have "u = p \<and> u_username p = [] \<and> u_password p = [] \<and> u_protocol p \<in> {''https:'', ''market:''} \<and>
    (u_protocol p = ''market:'' \<and> u_hostname p = ''details'' \<or>
     u_hostname p = ''play.google.com'' \<and> u_pathname p = ''/store/apps/details'' \<or>
     (\<exists>o' \<in> set origins. \<exists>v. ua_parse urls o' = Some v \<and> u_origin v = u_origin p))"
    using assms p origins by (auto simp: assertAllowedDestination_def bindR_Inr_iff throwIf_Inr_iff split: if_splits)
  then show "ua_parse urls destination = Some u" "u_username u = []" "u_password u = []"
    "u_protocol u \<in> {''https:'', ''market:''}"
    "u_protocol u = ''market:'' \<and> u_hostname u = ''details'' \<or>
     u_hostname u = ''play.google.com'' \<and> u_pathname u = ''/store/apps/details'' \<or>
     (\<exists>o' \<in> set origins. \<exists>v. ua_parse urls o' = Some v \<and> u_origin v = u_origin u)"
    using p by auto
qed

section \<open>Deep link parameters\<close>

lemma bindDeepLinkParameters_values:
  assumes "bindDeepLinkParameters source declared = (values, dropped)"
  shows "distinct (map fst values)"
    "\<And>name v. (name, v) \<in> set values \<Longrightarrow> name \<in> set declared \<and> validSegment v \<and> (''dlp_'' @ name, v) \<in> set source"
    "dropped \<le> length source"
proof -
  have "distinct (map fst (fst acc)) \<and>
      (\<forall>(name, v) \<in> set (fst acc). name \<in> set declared \<and> validSegment v \<and> (''dlp_'' @ name, v) \<in> set source) \<and>
      snd acc \<le> length source"
    if "acc = bindDeepLinkParameters source declared" for acc
    unfolding that bindDeepLinkParameters_def
  proof (induction source rule: rev_induct)
    case Nil
    then show ?case by simp
  next
    case (snoc p source)
    have u: "q \<in> set (AList.update k v m) \<Longrightarrow> q = (k, v) \<or> q \<in> set m" for q k v and m :: "(string \<times> string) list"
      by (induction m) (auto split: if_splits)
    show ?case
    proof (cases "\<not> startsWith (fst p) ''dlp_'' \<or> drop 4 (fst p) \<notin> set declared \<or> \<not> validSegment (snd p)")
      case True
      then show ?thesis using snoc.IH by (auto simp: bindParameter_def)
    next
      case False
      then have "''dlp_'' @ drop 4 (fst p) = fst p" by (auto simp: startsWith_iff)
      then have "(''dlp_'' @ drop 4 (fst p), snd p) = p" by (metis prod.collapse)
      then show ?thesis using False snoc.IH by (auto simp: bindParameter_def distinct_update dest!: u)
    qed
  qed
  then show "distinct (map fst values)"
    "\<And>name v. (name, v) \<in> set values \<Longrightarrow> name \<in> set declared \<and> validSegment v \<and> (''dlp_'' @ name, v) \<in> set source"
    "dropped \<le> length source" using assms by auto
qed

end
