(* ===== verification/Uuid.thy ===== *)
theory Uuid
  imports FormUrl "HOL-Library.Word"
begin

unbundle bit_operations_syntax

text \<open>
  Bytes and identifiers of the runtime: buffers as lists of \<open>8 word\<close>, their hexadecimal text,
  and the time-ordered identifiers of version 7.
\<close>

type_synonym bytes = "8 word list"

definition utf8Bytes :: "string \<Rightarrow> bytes" where
  "utf8Bytes s = map of_nat (concat (map utf8Char s))"

definition byteHex :: "8 word \<Rightarrow> string" where
  "byteHex b = [hexDigit (unat b div 16), hexDigit (unat b mod 16)]"

text \<open>\<^verbatim>\<open>buffer.toString("hex")\<close>\<close>

definition hexText :: "bytes \<Rightarrow> string" where
  "hexText bytes = concat (map byteHex bytes)"

text \<open>
  The loop that writes the time: the byte at \<open>index\<close> takes the low eight bits, which are then
  shifted away, from the sixth byte down.
\<close>

fun putTime :: "nat \<Rightarrow> int \<Rightarrow> bytes \<Rightarrow> bytes" where
  "putTime 0 value bytes = bytes"
| "putTime (Suc index) value bytes = putTime index (drop_bit 8 value) (bytes[index := word_of_int (value AND 0xff)])"

definition stampVersion :: "bytes \<Rightarrow> bytes" where
  "stampVersion bytes =
     (let versioned = bytes[6 := (bytes ! 6 AND 0x0f) OR 0x70]
      in versioned[8 := (versioned ! 8 AND 0x3f) OR 0x80])"

definition dashed :: "string \<Rightarrow> string" where
  "dashed hex =
     take 8 hex @ ''-'' @ take 4 (drop 8 hex) @ ''-'' @ take 4 (drop 12 hex) @ ''-'' @ take 4 (drop 16 hex) @ ''-'' @ drop 20 hex"

text \<open>\<^verbatim>\<open>uuidV7(now)\<close>; \<open>random\<close> are the sixteen random bytes.\<close>

definition uuidV7 :: "bytes \<Rightarrow> int \<Rightarrow> string" where
  "uuidV7 random now = dashed (hexText (stampVersion (putTime 6 now random)))"

section \<open>Big-endian digits\<close>

fun bigEndian :: "nat \<Rightarrow> nat \<Rightarrow> nat list" where
  "bigEndian 0 n = []"
| "bigEndian (Suc k) n = bigEndian k (n div 256) @ [n mod 256]"

lemma length_bigEndian [simp]: "length (bigEndian k n) = k"
  by (induction k arbitrary: n) auto

lemma bigEndian_bytes: "b \<in> set (bigEndian k n) \<Longrightarrow> b < 256"
  by (induction k arbitrary: n) auto

lemma less_div_mod_byte:
  "(m::nat) < n \<longleftrightarrow> m div 256 < n div 256 \<or> m div 256 = n div 256 \<and> m mod 256 < n mod 256"
proof -
  define a b c d where "a = m div 256" "b = m mod 256" "c = n div 256" "d = n mod 256"
  then have "m = 256 * a + b" "n = 256 * c + d" "b < 256" "d < 256" by simp_all
  then show ?thesis unfolding a_b_c_d_def[symmetric] by linarith
qed

lemma bigEndian_less:
  "m < 256 ^ k \<Longrightarrow> n < 256 ^ k \<Longrightarrow> m < n \<Longrightarrow> bigEndian k m < bigEndian k n"
proof (induction k arbitrary: m n)
  case (Suc k)
  then have "m div 256 < 256 ^ k" "n div 256 < 256 ^ k" by (auto simp: less_mult_imp_div_less mult.commute)
  moreover have "m div 256 < n div 256 \<or> m div 256 = n div 256 \<and> m mod 256 < n mod 256"
    using Suc.prems(3) by (simp only: less_div_mod_byte[symmetric])
  ultimately show ?case using Suc.IH[of "m div 256" "n div 256"] by (auto simp: append_less_same_length)
qed simp

lemma putTime_bigEndian:
  "k \<le> length bytes \<Longrightarrow> putTime k (int n) bytes = map of_nat (bigEndian k n) @ drop k bytes"
proof (induction k arbitrary: n bytes)
  case (Suc k)
  have low: "int n AND 255 = int (n mod 256)" using take_bit_eq_mod[of 8 "int n"] take_bit_eq_mask[of 8 "int n"]
    by (simp add: mask_eq_exp_minus_1 of_nat_mod)
  have high: "drop_bit 8 (int n) = int (n div 256)" by (simp add: drop_bit_eq_div zdiv_int)
  have "putTime (Suc k) (int n) bytes = putTime k (int (n div 256)) (bytes[k := word_of_int (int (n mod 256))])"
    by (simp add: low high del: of_nat_mod)
  also have "\<dots> = map of_nat (bigEndian k (n div 256)) @ drop k (bytes[k := of_nat (n mod 256)])"
    using Suc by (simp del: of_nat_mod)
  also have "drop k (bytes[k := of_nat (n mod 256)]) = of_nat (n mod 256) # drop (Suc k) bytes"
    using Suc.prems by (simp add: drop_update_cancel Cons_nth_drop_Suc[symmetric] drop_update_swap)
  finally show ?case by simp
qed simp

section \<open>Hexadecimal text keeps the order of the bytes\<close>

lemma length_hexText [simp]: "length (hexText bytes) = 2 * length bytes"
  by (induction bytes) (simp_all add: hexText_def byteHex_def)

lemma hexText_append [simp]: "hexText (as @ bs) = hexText as @ hexText bs"
  by (simp add: hexText_def)

lemma hexDigit_less: "m < n \<Longrightarrow> n < 16 \<Longrightarrow> hexDigit m < hexDigit n"
proof -
  have "list_all (\<lambda>n. list_all (\<lambda>m. m < n \<longrightarrow> hexDigit m < hexDigit n) [0..<16]) [0..<16]"
    by (simp add: hexDigit_def upt_rec less_char_def)
  then show "m < n \<Longrightarrow> n < 16 \<Longrightarrow> hexDigit m < hexDigit n" by (auto simp: list_all_iff)
qed

lemma less_div_mod_hex:
  "(m::nat) < n \<longleftrightarrow> m div 16 < n div 16 \<or> m div 16 = n div 16 \<and> m mod 16 < n mod 16"
proof -
  define a b c d where "a = m div 16" "b = m mod 16" "c = n div 16" "d = n mod 16"
  then have "m = 16 * a + b" "n = 16 * c + d" "b < 16" "d < 16" by simp_all
  then show ?thesis unfolding a_b_c_d_def[symmetric] by linarith
qed

lemma byteHex_less: "a < b \<Longrightarrow> byteHex a < byteHex b"
proof -
  assume "a < b"
  then have less: "unat a < unat b" by (simp add: word_less_nat_alt)
  have bound: "unat b < 256" using unsigned_less[of b, where 'a = nat] by simp
  have "unat a div 16 < unat b div 16 \<or> unat a div 16 = unat b div 16 \<and> unat a mod 16 < unat b mod 16"
    using less by (simp only: less_div_mod_hex[symmetric])
  moreover have "unat b div 16 < 16" "unat b mod 16 < 16" using bound by (auto simp: div_less_iff_less_mult)
  ultimately show ?thesis using hexDigit_less by (auto simp: byteHex_def)
qed

lemma hexText_less: "length as = length bs \<Longrightarrow> as < bs \<Longrightarrow> hexText as < hexText bs"
proof (induction as bs rule: list_induct2)
  case (Cons a as b bs)
  have lengths: "length (byteHex a) = length (byteHex b)" by (simp add: byteHex_def)
  show ?case using Cons byteHex_less by (auto simp: hexText_def append_less_same_length[OF lengths])
qed simp

lemma dashed_less:
  assumes "length as = 12" "length bs = 12" "as < bs"
  shows "dashed (as @ x) < dashed (bs @ y)"
proof -
  have "take 8 as @ drop 8 as < take 8 bs @ drop 8 bs" using assms(3) by simp
  then have "take 8 as < take 8 bs \<or> take 8 as = take 8 bs \<and> drop 8 as < drop 8 bs"
    by (subst (asm) append_less_same_length) (simp_all add: assms(1,2))
  then show ?thesis using assms(1,2) by (auto simp: dashed_def append_less_same_length)
qed

text \<open>Identifiers are ordered by their time.\<close>

lemma map_of_nat_less:
  assumes "length as = length bs" "as < bs" "\<And>a. a \<in> set as \<Longrightarrow> a < 256" "\<And>b. b \<in> set bs \<Longrightarrow> b < 256"
  shows "map of_nat as < (map of_nat bs :: bytes)"
  using assms
proof (induction as bs rule: list_induct2)
  case (Cons a as b bs)
  have mono: "(of_nat a :: 8 word) < of_nat b" if "a < b"
    using that Cons.prems(2,3) by (simp add: word_less_nat_alt unat_of_nat)
  show ?case using Cons mono by auto
qed simp

lemma stampVersion_time: "length bytes = 16 \<Longrightarrow> take 6 (stampVersion bytes) = take 6 bytes"
  by (simp add: stampVersion_def Let_def take_update_cancel)

lemma length_stampVersion [simp]: "length (stampVersion bytes) = length bytes"
  by (simp add: stampVersion_def Let_def)

lemma uuidV7_split:
  assumes "length random = 16"
  shows "\<exists>rest. uuidV7 random (int t) = dashed (hexText (map of_nat (bigEndian 6 t)) @ rest)"
proof -
  let ?bytes = "stampVersion (putTime 6 (int t) random)"
  have put: "putTime 6 (int t) random = map of_nat (bigEndian 6 t) @ drop 6 random"
    using assms by (intro putTime_bigEndian) simp
  then have "take 6 ?bytes = map of_nat (bigEndian 6 t)" using assms by (simp add: stampVersion_time)
  then have "?bytes = map of_nat (bigEndian 6 t) @ drop 6 ?bytes" by (metis append_take_drop_id)
  then have "uuidV7 random (int t) = dashed (hexText (map of_nat (bigEndian 6 t)) @ hexText (drop 6 ?bytes))"
    unfolding uuidV7_def by (metis hexText_append)
  then show ?thesis by blast
qed

lemma uuidV7_less:
  assumes "length r = 16" "length r' = 16" "t < t'" "t' < 2 ^ 48"
  shows "uuidV7 r (int t) < uuidV7 r' (int t')"
proof -
  have "bigEndian 6 t < bigEndian 6 t'" using assms(3,4) by (intro bigEndian_less) simp_all
  then have "hexText (map of_nat (bigEndian 6 t)) < hexText (map of_nat (bigEndian 6 t'))"
    by (intro hexText_less map_of_nat_less) (auto dest: bigEndian_bytes)
  then show ?thesis
    using uuidV7_split[OF assms(1), of t] uuidV7_split[OF assms(2), of t'] dashed_less by auto
qed

section \<open>The marks of version 7\<close>

lemma all_bytes:
  assumes "list_all P (map of_nat [0..<256])"
  shows "P (b :: 8 word)"
proof -
  have "unat b < 256" using unsigned_less[of b, where 'a = nat] by simp
  moreover have "\<forall>n \<in> {0..<256}. P (of_nat n)" using assms by (simp add: list_all_iff)
  ultimately have "P (of_nat (unat b))" by (meson atLeastLessThan_iff zero_le)
  then show ?thesis by simp
qed

lemma version_nibble: "unat (((b :: 8 word) AND 0x0f) OR 0x70) div 16 = 7"
  by (rule all_bytes) code_simp

lemma variant_nibble: "unat (((b :: 8 word) AND 0x3f) OR 0x80) div 16 \<in> {8, 9, 10, 11}"
  by (rule all_bytes) code_simp

lemma uuidV7_marks:
  assumes "length random = 16"
  shows "length (uuidV7 random now) = 36" "uuidV7 random now ! 14 = CHR ''7''" "uuidV7 random now ! 19 \<in> set ''89ab''"
proof -
  let ?bytes = "stampVersion (putTime 6 now random)"
  have len: "length (putTime k v bytes) = length bytes" for k v bytes by (induction k arbitrary: v bytes) simp_all
  then have bytes: "length ?bytes = 16" using assms by simp
  then have hex: "length (hexText ?bytes) = 32" by simp
  show "length (uuidV7 random now) = 36" using hex by (simp add: uuidV7_def dashed_def)
  have nth: "hexText bs ! (2 * i) = hexDigit (unat (bs ! i) div 16)" if "i < length bs" for bs i
    using that
  proof (induction bs arbitrary: i)
    case (Cons b bs)
    then show ?case by (cases i) (simp_all add: hexText_def byteHex_def)
  qed simp
  have six: "?bytes ! 6 = (putTime 6 now random ! 6 AND 0x0f) OR 0x70"
    and eight: "?bytes ! 8 = (putTime 6 now random ! 8 AND 0x3f) OR 0x80"
    using assms len by (simp_all add: stampVersion_def Let_def)
  have seven: "unat ((b AND 0x0f) OR 0x70) div 16 = 7" for b :: "8 word" by (rule version_nibble)
  show "uuidV7 random now ! 14 = CHR ''7''"
    using nth[of 6 ?bytes] bytes hex seven six by (simp add: uuidV7_def dashed_def nth_append hexDigit_def)
  have digit: "hexDigit k \<in> set ''89ab''" if "k \<in> {8, 9, 10, 11}" for k using that by (auto simp: hexDigit_def)
  show "uuidV7 random now ! 19 \<in> set ''89ab''"
    using nth[of 8 ?bytes] bytes hex digit[OF variant_nibble[of "putTime 6 now random ! 8"]] eight
    by (simp add: uuidV7_def dashed_def nth_append)
qed

end
