(* ===== verification/PayloadStore.thy ===== *)
theory PayloadStore
  imports Uuid
begin

text \<open>
  The encrypted payload store: an envelope of two files per object, the object encrypted under
  a random data key and the data key wrapped under a key derived from the master secret.
  AES-256-GCM and SHA-256 are parameters. A file holds the record its JSON text stands for,
  with byte strings where the text has their base64url form.
\<close>

section \<open>State\<close>

text \<open>\<open>ae_seal\<close> gives the ciphertext and its tag, \<open>ae_open\<close> fails on a tag that does not match.\<close>

record aead =
  ae_seal :: "bytes \<Rightarrow> bytes \<Rightarrow> bytes \<Rightarrow> bytes \<Rightarrow> bytes \<times> bytes"
  ae_open :: "bytes \<Rightarrow> bytes \<Rightarrow> bytes \<Rightarrow> bytes \<Rightarrow> bytes \<Rightarrow> bytes option"

definition aead_ok :: "aead \<Rightarrow> bool" where
  "aead_ok ae \<longleftrightarrow> (\<forall>key nonce aad plaintext.
     ae_open ae key nonce aad (snd (ae_seal ae key nonce aad plaintext)) (fst (ae_seal ae key nonce aad plaintext)) =
       Some plaintext)"

record sealed =
  sl_nonce :: bytes
  sl_tag :: bytes
  sl_ciphertext :: bytes

record encrypted_object =
  eo_key_id :: string
  eo_tenant_id :: string
  eo_app_id :: string
  eo_sealed :: sealed

record payload_store =
  st_wrappingKey :: bytes
  st_objects :: "(string \<times> encrypted_object) list"
  st_keys :: "(string \<times> sealed) list"

record payload_scope =
  sc_tenantId :: string
  sc_appId :: string
  sc_objectId :: string

text \<open>The random bytes a write draws: the suffix of the key id, the data key, two nonces.\<close>

record write_random =
  wr_suffix :: bytes
  wr_dataKey :: bytes
  wr_nonce :: bytes
  wr_wrapNonce :: bytes

section \<open>Operations\<close>

definition isReferenceChar :: "char \<Rightarrow> bool" where
  "isReferenceChar c = (isAlphaNum c \<or> c \<in> set ''._-'')"

definition encryptedPrefix :: string where
  "encryptedPrefix = ''encrypted:''"

definition referenceKeyId :: "string \<Rightarrow> string res" where
  "referenceKeyId reference =
     bindR (throwIf (\<not> startsWith reference encryptedPrefix) (JsError ''unsupported payload reference'')) (\<lambda>_.
       let keyId = drop (length encryptedPrefix) reference in
       bindR (throwIf (\<not> (1 \<le> length keyId \<and> length keyId \<le> 512 \<and> list_all isReferenceChar keyId) \<or>
                       includesText keyId ''..'') (JsError ''invalid payload reference'')) (\<lambda>_.
         Inr keyId))"

definition encrypt :: "aead \<Rightarrow> bytes \<Rightarrow> bytes \<Rightarrow> bytes \<Rightarrow> bytes \<Rightarrow> sealed" where
  "encrypt ae nonce key plaintext aad =
     (case ae_seal ae key nonce aad plaintext of (ciphertext, tag) \<Rightarrow>
        \<lparr>sl_nonce = nonce, sl_tag = tag, sl_ciphertext = ciphertext\<rparr>)"

definition decrypt :: "aead \<Rightarrow> bytes \<Rightarrow> sealed \<Rightarrow> bytes \<Rightarrow> bytes res" where
  "decrypt ae key value aad =
     (case ae_open ae key (sl_nonce value) aad (sl_tag value) (sl_ciphertext value) of
        None \<Rightarrow> Inl (JsError ''Unsupported state or unable to authenticate data'')
      | Some plaintext \<Rightarrow> Inr plaintext)"

text \<open>The constructor on an empty directory.\<close>

definition newPayloadStore :: "(bytes \<Rightarrow> bytes) \<Rightarrow> string \<Rightarrow> payload_store res" where
  "newPayloadStore sha256 masterSecret =
     bindR (throwIf (length (utf8Bytes masterSecret) < 32)
              (JsError ''payload master key must contain at least 32 bytes'')) (\<lambda>_.
       Inr \<lparr>st_wrappingKey = sha256 (utf8Bytes masterSecret), st_objects = [], st_keys = []\<rparr>)"

text \<open>\<^verbatim>\<open>replace(/[^A-Za-z0-9._-]/g, "_")\<close>\<close>

definition safeName :: "payload_scope \<Rightarrow> string" where
  "safeName scope = map (\<lambda>c. if isReferenceChar c then c else CHR ''_'')
     (sc_tenantId scope @ ''-'' @ sc_appId scope @ ''-'' @ sc_objectId scope)"

definition objectKeyId :: "payload_scope \<Rightarrow> write_random \<Rightarrow> string" where
  "objectKeyId scope random = safeName scope @ ''.'' @ hexText (wr_suffix random)"

definition objectAad :: "string \<Rightarrow> string \<Rightarrow> string \<Rightarrow> bytes" where
  "objectAad tenantId appId keyId = utf8Bytes (tenantId @ [CHR 0x00] @ appId @ [CHR 0x00] @ keyId)"

text \<open>
  \<^verbatim>\<open>writeFileSync(path, text, { flag: "wx" })\<close> fails when the file exists, or when the
  disk refuses it (\<open>refused\<close>).
\<close>

definition writeNew :: "bool \<Rightarrow> string \<Rightarrow> 'a \<Rightarrow> (string \<times> 'a) list \<Rightarrow> (string \<times> 'a) list res" where
  "writeNew refused name value files =
     bindR (throwIf (refused \<or> map_of files name \<noteq> None) (JsError ''EEXIST'')) (\<lambda>_. Inr (files @ [(name, value)]))"

definition payloadWrite ::
  "aead \<Rightarrow> bool \<Rightarrow> bool \<Rightarrow> write_random \<Rightarrow> payload_scope \<Rightarrow> bytes \<Rightarrow> payload_store \<Rightarrow> payload_store \<times> (js_error + string)" where
  "payloadWrite ae keyRefused objectRefused random scope plaintext store =
     (let keyId = objectKeyId scope random;
          aad = objectAad (sc_tenantId scope) (sc_appId scope) keyId;
          payload = encrypt ae (wr_nonce random) (wr_dataKey random) plaintext aad;
          wrapped = encrypt ae (wr_wrapNonce random) (st_wrappingKey store) (wr_dataKey random) (utf8Bytes keyId);
          object = \<lparr>eo_key_id = keyId, eo_tenant_id = sc_tenantId scope, eo_app_id = sc_appId scope, eo_sealed = payload\<rparr>
      in case writeNew keyRefused keyId wrapped (st_keys store) of
           Inl e \<Rightarrow> (store, Inl e)
         | Inr keys \<Rightarrow>
             (case writeNew objectRefused keyId object (st_objects store) of
                Inl e \<Rightarrow> (store\<lparr>st_keys := AList.delete keyId keys\<rparr>, Inl e)
              | Inr objects \<Rightarrow> (store\<lparr>st_keys := keys, st_objects := objects\<rparr>, Inr (encryptedPrefix @ keyId))))"

definition readFile :: "string \<Rightarrow> (string \<times> 'a) list \<Rightarrow> 'a res" where
  "readFile name files = (case map_of files name of None \<Rightarrow> Inl (JsError ''ENOENT'') | Some value \<Rightarrow> Inr value)"

definition payloadRead :: "aead \<Rightarrow> string \<Rightarrow> payload_store \<Rightarrow> bytes res" where
  "payloadRead ae reference store =
     bindR (referenceKeyId reference) (\<lambda>keyId.
     bindR (readFile keyId (st_objects store)) (\<lambda>object.
     bindR (readFile keyId (st_keys store)) (\<lambda>wrapped.
     bindR (decrypt ae (st_wrappingKey store) wrapped (utf8Bytes keyId)) (\<lambda>dataKey.
       decrypt ae dataKey (eo_sealed object) (objectAad (eo_tenant_id object) (eo_app_id object) keyId)))))"

definition payloadPurge :: "string \<Rightarrow> payload_store \<Rightarrow> payload_store \<times> (js_error + unit)" where
  "payloadPurge reference store =
     (case referenceKeyId reference of
        Inl e \<Rightarrow> (store, Inl e)
      | Inr keyId \<Rightarrow>
          (store\<lparr>st_objects := AList.delete keyId (st_objects store), st_keys := AList.delete keyId (st_keys store)\<rparr>,
           Inr ()))"

section \<open>References\<close>

lemma safeName_chars: "list_all isReferenceChar (safeName scope)"
  by (auto simp: safeName_def list_all_iff isReferenceChar_def)

lemma hexDigit_reference: "n < 16 \<Longrightarrow> isReferenceChar (hexDigit n)"
proof -
  assume "n < 16"
  then have "hexDigit n \<in> set ''0123456789abcdef''" unfolding hexDigit_def by (intro nth_mem) simp
  moreover have "list_all isReferenceChar ''0123456789abcdef''" by (simp add: isReferenceChar_def isAlphaNum_def)
  ultimately show ?thesis unfolding list_all_iff by blast
qed

lemma hexText_chars: "list_all isReferenceChar (hexText bytes)"
proof -
  have "unat b div 16 < 16" for b :: "8 word"
    using unsigned_less[of b, where 'a = nat] by (simp add: div_less_iff_less_mult)
  then show ?thesis by (auto simp: hexText_def byteHex_def list_all_iff hexDigit_reference)
qed

lemma objectKeyId_chars: "list_all isReferenceChar (objectKeyId scope random)"
  using safeName_chars hexText_chars by (simp add: objectKeyId_def) (simp add: isReferenceChar_def)

lemma referenceKeyId_encrypted:
  assumes "list_all isReferenceChar keyId" "keyId \<noteq> []" "length keyId \<le> 512"
  shows "referenceKeyId (encryptedPrefix @ keyId) =
    (if includesText keyId ''..'' then Inl (JsError ''invalid payload reference'') else Inr keyId)"
  using assms by (cases keyId) (simp_all add: referenceKeyId_def)

lemma referenceKeyId_objectKeyId:
  assumes "length (objectKeyId scope random) \<le> 512"
  shows "referenceKeyId (encryptedPrefix @ objectKeyId scope random) =
    (if includesText (objectKeyId scope random) ''..'' then Inl (JsError ''invalid payload reference'')
     else Inr (objectKeyId scope random))"
  by (rule referenceKeyId_encrypted[OF objectKeyId_chars _ assms]) (simp add: objectKeyId_def)

section \<open>Writing, reading and purging\<close>

text \<open>The files of a store: one key file for each object file, under names without repetition.\<close>

definition store_ok :: "payload_store \<Rightarrow> bool" where
  "store_ok store =
     (map fst (st_keys store) = map fst (st_objects store) \<and> distinct (map fst (st_objects store)) \<and>
      list_all (\<lambda>entry. eo_key_id (snd entry) = fst entry) (st_objects store))"

lemma newPayloadStore_ok: "newPayloadStore sha256 secret = Inr store \<Longrightarrow> store_ok store"
  by (auto simp: newPayloadStore_def bindR_Inr_iff throwIf_Inr_iff store_ok_def)

lemma writeNew_Inr: "writeNew refused name value files = Inr files' \<longleftrightarrow>
    \<not> refused \<and> name \<notin> fst ` set files \<and> files' = files @ [(name, value)]"
  by (auto simp: writeNew_def bindR_Inr_iff throwIf_Inr_iff map_of_eq_None_iff)

lemma delete_fresh: "k \<notin> fst ` set m \<Longrightarrow> AList.delete k (m @ [(k, v)]) = m"
  by (induction m) (auto simp: AList.delete_eq filter_id_conv)

text \<open>A write that fails leaves the store as it was.\<close>

lemma payloadWrite_cases:
  obtains (failed) e where "payloadWrite ae keyRefused objectRefused random scope plaintext store = (store, Inl e)"
  | (written) wrapped object where
      "payloadWrite ae keyRefused objectRefused random scope plaintext store =
         (store\<lparr>st_keys := st_keys store @ [(objectKeyId scope random, wrapped)],
                st_objects := st_objects store @ [(objectKeyId scope random, object)]\<rparr>,
          Inr (encryptedPrefix @ objectKeyId scope random))"
      "objectKeyId scope random \<notin> fst ` set (st_keys store)" "objectKeyId scope random \<notin> fst ` set (st_objects store)"
      "wrapped = encrypt ae (wr_wrapNonce random) (st_wrappingKey store) (wr_dataKey random) (utf8Bytes (objectKeyId scope random))"
      "object = \<lparr>eo_key_id = objectKeyId scope random, eo_tenant_id = sc_tenantId scope, eo_app_id = sc_appId scope,
         eo_sealed = encrypt ae (wr_nonce random) (wr_dataKey random) plaintext
           (objectAad (sc_tenantId scope) (sc_appId scope) (objectKeyId scope random))\<rparr>"
proof -
  let ?wrapped = "encrypt ae (wr_wrapNonce random) (st_wrappingKey store) (wr_dataKey random) (utf8Bytes (objectKeyId scope random))"
  let ?object = "\<lparr>eo_key_id = objectKeyId scope random, eo_tenant_id = sc_tenantId scope, eo_app_id = sc_appId scope,
         eo_sealed = encrypt ae (wr_nonce random) (wr_dataKey random) plaintext
           (objectAad (sc_tenantId scope) (sc_appId scope) (objectKeyId scope random))\<rparr>"
  show thesis
  proof (cases "writeNew keyRefused (objectKeyId scope random) ?wrapped (st_keys store)")
    case (Inl e)
    then show thesis by (intro failed) (simp add: payloadWrite_def Let_def)
  next
    case (Inr keys)
    then have fresh: "objectKeyId scope random \<notin> fst ` set (st_keys store)"
      and keys: "keys = st_keys store @ [(objectKeyId scope random, ?wrapped)]" by (simp_all add: writeNew_Inr)
    show thesis
    proof (cases "writeNew objectRefused (objectKeyId scope random) ?object (st_objects store)")
      case (Inl e)
      show thesis
        by (rule failed[of e]) (simp add: payloadWrite_def Let_def \<open>writeNew keyRefused _ _ _ = _\<close> Inl keys delete_fresh[OF fresh])
    next
      case (Inr objects)
      then have fresh': "objectKeyId scope random \<notin> fst ` set (st_objects store)"
        and objects: "objects = st_objects store @ [(objectKeyId scope random, ?object)]" by (simp_all add: writeNew_Inr)
      have "payloadWrite ae keyRefused objectRefused random scope plaintext store =
          (store\<lparr>st_keys := keys, st_objects := objects\<rparr>, Inr (encryptedPrefix @ objectKeyId scope random))"
        by (simp add: payloadWrite_def Let_def \<open>writeNew keyRefused _ _ _ = _\<close> Inr)
      then show thesis unfolding keys objects
        by (rule written[where wrapped = ?wrapped and object = ?object, OF _ fresh fresh' refl refl])
    qed
  qed
qed

lemma payloadWrite_ok:
  assumes "store_ok store"
  shows "store_ok (fst (payloadWrite ae keyRefused objectRefused random scope plaintext store))"
  using assms
  by (cases rule: payloadWrite_cases[of ae keyRefused objectRefused random scope plaintext store]) (auto simp: store_ok_def)

lemma payloadPurge_ok: "store_ok store \<Longrightarrow> store_ok (fst (payloadPurge reference store))"
proof -
  have keys: "map fst (AList.delete k m) = filter (\<lambda>n. n \<noteq> k) (map fst m)" for k and m :: "(string \<times> 'a) list"
    by (induction m) (auto simp: AList.delete_eq)
  have entries: "list_all P m \<Longrightarrow> list_all P (AList.delete k m)" for P k and m :: "(string \<times> 'a) list"
    by (auto simp: list_all_iff AList.delete_eq)
  show "store_ok store \<Longrightarrow> store_ok (fst (payloadPurge reference store))"
    by (cases "referenceKeyId reference") (simp_all add: payloadPurge_def store_ok_def keys entries)
qed

lemma readFile_new: "name \<notin> fst ` set files \<Longrightarrow> readFile name (files @ [(name, v)]) = Inr v"
proof -
  assume "name \<notin> fst ` set files"
  then have "map_of files name = None" by (simp add: map_of_eq_None_iff)
  then show ?thesis by (simp add: readFile_def map_add_def)
qed

lemma readFile_more: "readFile name files = Inr v \<Longrightarrow> readFile name (files @ extra) = Inr v"
  by (cases "map_of files name") (simp_all add: readFile_def map_add_def)

lemma decrypt_encrypt: "aead_ok ae \<Longrightarrow> decrypt ae key (encrypt ae nonce key plaintext aad) aad = Inr plaintext"
  by (simp add: decrypt_def encrypt_def aead_ok_def split: prod.split) (metis fst_conv snd_conv option.simps(5))

lemma payloadRead_written:
  assumes ae: "aead_ok ae"
    and result: "payloadWrite ae keyRefused objectRefused random scope plaintext store = (store', Inr reference)"
    and short: "length (objectKeyId scope random) \<le> 512"
  shows "payloadRead ae reference store' =
    (if includesText (objectKeyId scope random) ''..'' then Inl (JsError ''invalid payload reference'') else Inr plaintext)"
proof (cases rule: payloadWrite_cases[of ae keyRefused objectRefused random scope plaintext store])
  case (failed e)
  then show ?thesis using result by simp
next
  case (written wrapped object)
  have store': "store' = store\<lparr>st_keys := st_keys store @ [(objectKeyId scope random, wrapped)],
      st_objects := st_objects store @ [(objectKeyId scope random, object)]\<rparr>"
    and reference: "reference = encryptedPrefix @ objectKeyId scope random"
    using result written(1) by simp_all
  have found: "readFile (objectKeyId scope random) (st_keys store') = Inr wrapped"
    "readFile (objectKeyId scope random) (st_objects store') = Inr object"
    using readFile_new[OF written(2)] readFile_new[OF written(3)] by (simp_all add: store')
  have "decrypt ae (st_wrappingKey store') wrapped (utf8Bytes (objectKeyId scope random)) = Inr (wr_dataKey random)"
    "decrypt ae (wr_dataKey random) (eo_sealed object)
       (objectAad (eo_tenant_id object) (eo_app_id object) (objectKeyId scope random)) = Inr plaintext"
    by (simp_all add: store' written(4,5) decrypt_encrypt[OF ae])
  then show ?thesis by (simp add: payloadRead_def reference referenceKeyId_objectKeyId[OF short] found)
qed

text \<open>A later write changes no other object.\<close>

lemma payloadRead_other:
  assumes "payloadRead ae reference store = Inr plaintext"
  shows "payloadRead ae reference (fst (payloadWrite ae keyRefused objectRefused random scope other store)) = Inr plaintext"
proof (cases rule: payloadWrite_cases[of ae keyRefused objectRefused random scope other store])
  case (failed e)
  then show ?thesis using assms by simp
next
  case (written wrapped object)
  obtain keyId object' wrapped' dataKey where read: "referenceKeyId reference = Inr keyId"
    "readFile keyId (st_objects store) = Inr object'" "readFile keyId (st_keys store) = Inr wrapped'"
    "decrypt ae (st_wrappingKey store) wrapped' (utf8Bytes keyId) = Inr dataKey"
    "decrypt ae dataKey (eo_sealed object') (objectAad (eo_tenant_id object') (eo_app_id object') keyId) = Inr plaintext"
    using assms by (auto simp: payloadRead_def bindR_Inr_iff)
  then show ?thesis unfolding written(1) by (simp add: payloadRead_def readFile_more)
qed

lemma payloadRead_purged:
  assumes "payloadPurge reference store = (store', Inr u)"
  shows "payloadRead ae reference store' = Inl (JsError ''ENOENT'')"
  using assms by (auto simp: payloadPurge_def payloadRead_def readFile_def AList.delete_conv' split: sum.splits)

end
