(* ===== verification/IngestBatch.thy ===== *)
theory IngestBatch
  imports PayloadStore RateLimit
begin

text \<open>
  The durable inbox: a request body is written to the payload store and a pending batch that
  refers to it is inserted in one transaction; a transaction that fails purges the body.
  Statements the database refuses (a constraint, a lost connection) are a parameter.
\<close>

section \<open>Transactions\<close>

record ingest_batch =
  ib_ingest_batch_id :: string
  ib_tenant_id :: string
  ib_app_id :: string
  ib_producer :: string
  ib_sdk_key_id :: "string option"
  ib_installation_key_id :: "string option"
  ib_received_at :: string
  ib_body_ref :: string
  ib_body_digest :: string
  ib_event_count :: number
  ib_request_nonce :: "string option"
  ib_request_timestamp_ms :: "number option"

datatype batch_status = Pending | Processed | Failed

record batch_state =
  bs_ingest_batch_id :: string
  bs_tenant_id :: string
  bs_app_id :: string
  bs_status :: batch_status
  bs_changed_at :: string

record ledger =
  lg_apps :: "(string \<times> string \<times> string) list"
  lg_batches :: "ingest_batch list"
  lg_states :: "batch_state list"

text \<open>The errors the database raises, by the statement that raises them.\<close>

type_synonym database = "string \<Rightarrow> js_error option"

definition statement :: "database \<Rightarrow> string \<Rightarrow> (ledger \<Rightarrow> ledger res) \<Rightarrow> ledger \<Rightarrow> ledger res" where
  "statement db name run ledger = (case db name of Some e \<Rightarrow> Inl e | None \<Rightarrow> run ledger)"

definition isIdentifierChar :: "char \<Rightarrow> bool" where
  "isIdentifierChar c = (isAlphaNum c \<or> c \<in> set ''._:-'')"

definition validIdentifier :: "string \<Rightarrow> bool" where
  "validIdentifier s = (1 \<le> length s \<and> length s \<le> 128 \<and> list_all isIdentifierChar s)"

text \<open>
  \<^verbatim>\<open>withTenant\<close> around a callback without a result: the ledger after a transaction is the
  callback's, or the one before it when a statement threw.
\<close>

definition withTenant :: "database \<Rightarrow> string \<Rightarrow> (ledger \<Rightarrow> ledger res) \<Rightarrow> ledger \<Rightarrow> ledger \<times> (js_error + unit)" where
  "withTenant db tenantId callback ledger =
     (if \<not> validIdentifier tenantId then (ledger, Inl (JsError (''invalid tenant identifier: '' @ tenantId)))
      else case bindR (statement db ''connect'' Inr ledger) (\<lambda>l.
                bindR (statement db ''BEGIN'' Inr l) (\<lambda>l.
                bindR (statement db ''set_config'' Inr l) (\<lambda>l.
                bindR (callback l) (statement db ''COMMIT'' Inr)))) of
             Inl e \<Rightarrow> (ledger, Inl e)
           | Inr committed \<Rightarrow> (committed, Inr ()))"

definition insertApp :: "string \<Rightarrow> string \<Rightarrow> string \<Rightarrow> ledger \<Rightarrow> ledger res" where
  "insertApp tenantId appId createdAt ledger =
     Inr (if (tenantId, appId) \<in> set (map (\<lambda>(t, a, _). (t, a)) (lg_apps ledger)) then ledger
          else ledger\<lparr>lg_apps := lg_apps ledger @ [(tenantId, appId, createdAt)]\<rparr>)"

definition insertBatch :: "ingest_batch \<Rightarrow> ledger \<Rightarrow> ledger res" where
  "insertBatch batch ledger =
     bindR (throwIf (ib_ingest_batch_id batch \<in> set (map ib_ingest_batch_id (lg_batches ledger)))
              (JsError ''duplicate key value violates unique constraint'')) (\<lambda>_.
       Inr (ledger\<lparr>lg_batches := lg_batches ledger @ [batch]\<rparr>))"

definition insertState :: "batch_state \<Rightarrow> ledger \<Rightarrow> ledger res" where
  "insertState state ledger = Inr (ledger\<lparr>lg_states := lg_states ledger @ [state]\<rparr>)"

section \<open>Appending a batch\<close>

record durable_batch_input =
  db_tenantId :: string
  db_appId :: string
  db_producer :: string
  db_body :: bytes
  db_eventCount :: number
  db_receivedAt :: string
  db_sdkKeyId :: "string option"
  db_installationKeyId :: "string option"
  db_requestNonce :: "string option"
  db_requestTimestampMs :: "number option"

text \<open>What an append takes from outside: cryptography, the clock's parser, random bytes, disk and database.\<close>

record append_env =
  av_aead :: aead
  av_sha256 :: "bytes \<Rightarrow> bytes"
  av_dateParse :: "string \<Rightarrow> int option"
  av_uuidRandom :: bytes
  av_writeRandom :: write_random
  av_keyRefused :: bool
  av_objectRefused :: bool
  av_database :: database

definition ingestBatch :: "append_env \<Rightarrow> string \<Rightarrow> string \<Rightarrow> durable_batch_input \<Rightarrow> ingest_batch" where
  "ingestBatch env batchId bodyRef input = \<lparr>
     ib_ingest_batch_id = batchId, ib_tenant_id = db_tenantId input, ib_app_id = db_appId input,
     ib_producer = db_producer input, ib_sdk_key_id = db_sdkKeyId input,
     ib_installation_key_id = db_installationKeyId input, ib_received_at = db_receivedAt input,
     ib_body_ref = bodyRef, ib_body_digest = hexText (av_sha256 env (db_body input)),
     ib_event_count = db_eventCount input, ib_request_nonce = db_requestNonce input,
     ib_request_timestamp_ms = db_requestTimestampMs input\<rparr>"

definition pendingState :: "string \<Rightarrow> durable_batch_input \<Rightarrow> batch_state" where
  "pendingState batchId input = \<lparr>
     bs_ingest_batch_id = batchId, bs_tenant_id = db_tenantId input, bs_app_id = db_appId input,
     bs_status = Pending, bs_changed_at = db_receivedAt input\<rparr>"

definition insertBatchRows :: "append_env \<Rightarrow> string \<Rightarrow> string \<Rightarrow> durable_batch_input \<Rightarrow> ledger \<Rightarrow> ledger res" where
  "insertBatchRows env batchId bodyRef input ledger =
     bindR (statement (av_database env) ''control.apps''
              (insertApp (db_tenantId input) (db_appId input) (db_receivedAt input)) ledger) (\<lambda>l.
     bindR (statement (av_database env) ''ledger.ingest_batches'' (insertBatch (ingestBatch env batchId bodyRef input)) l) (\<lambda>l.
       statement (av_database env) ''ledger.ingest_batch_states'' (insertState (pendingState batchId input)) l))"

definition batchScope :: "string \<Rightarrow> durable_batch_input \<Rightarrow> payload_scope" where
  "batchScope batchId input =
     \<lparr>sc_tenantId = db_tenantId input, sc_appId = db_appId input, sc_objectId = ''ingest-batch-'' @ batchId\<rparr>"

definition appendDurableBatch ::
  "append_env \<Rightarrow> durable_batch_input \<Rightarrow> payload_store \<times> ledger \<Rightarrow> (payload_store \<times> ledger) \<times> (js_error + string)" where
  "appendDurableBatch env input state =
     (case state of (store, ledger) \<Rightarrow>
       if \<not> isIntegerN (db_eventCount input) \<or> lessN (db_eventCount input) (numN 1) \<or> lessN (numN 100) (db_eventCount input)
       then (state, Inl (JsError ''event_count_out_of_range''))
       else case av_dateParse env (db_receivedAt input) of
         None \<Rightarrow> (state, Inl RangeError)
       | Some now \<Rightarrow>
           let batchId = uuidV7 (av_uuidRandom env) now in
           case payloadWrite (av_aead env) (av_keyRefused env) (av_objectRefused env) (av_writeRandom env)
                  (batchScope batchId input) (db_body input) store of
             (store1, Inl e) \<Rightarrow> ((store1, ledger), Inl e)
           | (store1, Inr bodyRef) \<Rightarrow>
               (case withTenant (av_database env) (db_tenantId input) (insertBatchRows env batchId bodyRef input) ledger of
                  (ledger1, Inr _) \<Rightarrow> ((store1, ledger1), Inr batchId)
                | (ledger1, Inl e) \<Rightarrow>
                    (case payloadPurge bodyRef store1 of
                       (store2, Inl purgeError) \<Rightarrow> ((store2, ledger1), Inl purgeError)
                     | (store2, Inr _) \<Rightarrow> ((store2, ledger1), Inl e))))"

section \<open>All or nothing\<close>

lemma statement_Inr: "statement db name run l = Inr l' \<longleftrightarrow> db name = None \<and> run l = Inr l'"
  by (auto simp: statement_def split: option.splits)

lemma withTenant_cases:
  obtains (rolledBack) e where "withTenant db tenantId callback ledger = (ledger, Inl e)"
  | (committed) ledger' where "withTenant db tenantId callback ledger = (ledger', Inr ())" "callback ledger = Inr ledger'"
      "validIdentifier tenantId"
proof (cases "withTenant db tenantId callback ledger")
  case (Pair after result)
  show thesis
  proof (cases result)
    case (Inl e)
    then have "after = ledger" using Pair by (auto simp: withTenant_def split: if_splits sum.splits)
    then show thesis using rolledBack Pair Inl by simp
  next
    case (Inr u)
    then have "callback ledger = Inr after" "validIdentifier tenantId"
      using Pair by (auto simp: withTenant_def bindR_Inr_iff statement_Inr split: if_splits sum.splits)
    then show thesis using committed[of after] Pair Inr by simp
  qed
qed

lemma insertBatchRows_Inr:
  assumes "insertBatchRows env batchId bodyRef input ledger = Inr ledger'"
  shows "lg_batches ledger' = lg_batches ledger @ [ingestBatch env batchId bodyRef input]"
    "lg_states ledger' = lg_states ledger @ [pendingState batchId input]"
    "batchId \<notin> ib_ingest_batch_id ` set (lg_batches ledger)"
  using assms
  by (auto simp: insertBatchRows_def insertApp_def insertBatch_def insertState_def ingestBatch_def
      bindR_Inr_iff statement_Inr throwIf_Inr_iff split: if_splits)

lemma purge_written:
  assumes "payloadWrite ae k ob random scope body store = (store1, Inr reference)"
    and "length (objectKeyId scope random) \<le> 512" "\<not> includesText (objectKeyId scope random) ''..''"
  shows "payloadPurge reference store1 = (store, Inr ())"
proof (cases rule: payloadWrite_cases[of ae k ob random scope body store])
  case (failed e)
  then show ?thesis using assms(1) by simp
next
  case (written wrapped object)
  have "store1 = store\<lparr>st_keys := st_keys store @ [(objectKeyId scope random, wrapped)],
      st_objects := st_objects store @ [(objectKeyId scope random, object)]\<rparr>"
    "reference = encryptedPrefix @ objectKeyId scope random"
    using written(1) assms(1) by simp_all
  then show ?thesis
    using assms(3) by (simp add: payloadPurge_def referenceKeyId_objectKeyId[OF assms(2)] delete_fresh[OF written(2)] delete_fresh[OF written(3)])
qed

lemma append_committed:
  assumes "appendDurableBatch env input (store, ledger) = ((store', ledger'), Inr batchId)"
  obtains now bodyRef where
    "av_dateParse env (db_receivedAt input) = Some now" "batchId = uuidV7 (av_uuidRandom env) now"
    "payloadWrite (av_aead env) (av_keyRefused env) (av_objectRefused env) (av_writeRandom env)
       (batchScope batchId input) (db_body input) store = (store', Inr bodyRef)"
    "insertBatchRows env batchId bodyRef input ledger = Inr ledger'" "validIdentifier (db_tenantId input)"
    "isIntegerN (db_eventCount input)" "leN (numN 1) (db_eventCount input)" "leN (db_eventCount input) (numN 100)"
proof -
  obtain now where count: "isIntegerN (db_eventCount input)" "\<not> lessN (db_eventCount input) (numN 1)"
      "\<not> lessN (numN 100) (db_eventCount input)"
    and now: "av_dateParse env (db_receivedAt input) = Some now"
    using assms by (auto simp: appendDurableBatch_def split: if_splits option.splits)
  obtain x where x: "db_eventCount input = Fin x" using count(1) by (cases "db_eventCount input") auto
  obtain store1 result where wr: "payloadWrite (av_aead env) (av_keyRefused env) (av_objectRefused env) (av_writeRandom env)
      (batchScope (uuidV7 (av_uuidRandom env) now) input) (db_body input) store = (store1, result)" by fastforce
  obtain bodyRef where result: "result = Inr bodyRef"
    using assms count now wr by (cases result) (auto simp: appendDurableBatch_def)
  show thesis
  proof (cases rule: withTenant_cases[of "av_database env" "db_tenantId input"
      "insertBatchRows env (uuidV7 (av_uuidRandom env) now) bodyRef input" ledger])
    case (rolledBack e)
    then show thesis using assms count now wr result by (auto simp: appendDurableBatch_def split: prod.splits sum.splits)
  next
    case (committed l')
    then have "l' = ledger'" "store1 = store'" "batchId = uuidV7 (av_uuidRandom env) now"
      using assms count now wr result by (auto simp: appendDurableBatch_def)
    then show thesis using that[OF now _ _ _ committed(3) count(1)] committed(2) wr result count(2,3) x
      by (auto simp: leN_def numN_def)
  qed
qed

lemma append_failed:
  assumes "appendDurableBatch env input (store, ledger) = ((store', ledger'), Inl e)"
  shows "ledger' = ledger"
    "(\<And>now. av_dateParse env (db_receivedAt input) = Some now \<Longrightarrow>
       length (objectKeyId (batchScope (uuidV7 (av_uuidRandom env) now) input) (av_writeRandom env)) \<le> 512 \<and>
       \<not> includesText (objectKeyId (batchScope (uuidV7 (av_uuidRandom env) now) input) (av_writeRandom env)) ''..'') \<Longrightarrow>
     store' = store"
proof -
  have both: "ledger' = ledger \<and>
    ((\<forall>now. av_dateParse env (db_receivedAt input) = Some now \<longrightarrow>
       length (objectKeyId (batchScope (uuidV7 (av_uuidRandom env) now) input) (av_writeRandom env)) \<le> 512 \<and>
       \<not> includesText (objectKeyId (batchScope (uuidV7 (av_uuidRandom env) now) input) (av_writeRandom env)) ''..'') \<longrightarrow>
     store' = store)"
  proof (cases "av_dateParse env (db_receivedAt input)")
    case None
    then show ?thesis using assms by (auto simp: appendDurableBatch_def split: if_splits)
  next
    case (Some now)
    let ?id = "uuidV7 (av_uuidRandom env) now"
    let ?scope = "batchScope ?id input"
    let ?k = "objectKeyId ?scope (av_writeRandom env)"
    obtain store1 result where wr: "payloadWrite (av_aead env) (av_keyRefused env) (av_objectRefused env) (av_writeRandom env)
        ?scope (db_body input) store = (store1, result)" by fastforce
    show ?thesis
    proof (cases result)
      case (Inl err)
      then have "store1 = store"
        using wr by (cases rule: payloadWrite_cases[of "av_aead env" "av_keyRefused env" "av_objectRefused env" "av_writeRandom env" ?scope "db_body input" store]) simp_all
      then show ?thesis using assms Some wr Inl by (auto simp: appendDurableBatch_def split: if_splits)
    next
      case (Inr bodyRef)
      show ?thesis
      proof (cases rule: withTenant_cases[of "av_database env" "db_tenantId input" "insertBatchRows env ?id bodyRef input" ledger])
        case (rolledBack err)
        have "payloadPurge bodyRef store1 = (store, Inr ())" if "length ?k \<le> 512" "\<not> includesText ?k ''..''"
          using purge_written[OF wr[unfolded Inr]] that by blast
        then show ?thesis using assms Some wr Inr rolledBack
          by (auto simp: appendDurableBatch_def split: if_splits prod.splits sum.splits)
      next
        case (committed l')
        then show ?thesis using assms Some wr Inr by (auto simp: appendDurableBatch_def split: if_splits)
      qed
    qed
  qed
  show "ledger' = ledger" using both by blast
  show "(\<And>now. av_dateParse env (db_receivedAt input) = Some now \<Longrightarrow>
       length (objectKeyId (batchScope (uuidV7 (av_uuidRandom env) now) input) (av_writeRandom env)) \<le> 512 \<and>
       \<not> includesText (objectKeyId (batchScope (uuidV7 (av_uuidRandom env) now) input) (av_writeRandom env)) ''..'') \<Longrightarrow>
     store' = store" using both by blast
qed

section \<open>An append that nothing refuses\<close>

lemma payloadWrite_succeeds:
  assumes "\<not> k" "\<not> ob" "objectKeyId scope random \<notin> fst ` set (st_keys store)" "objectKeyId scope random \<notin> fst ` set (st_objects store)"
  shows "\<exists>store1. payloadWrite ae k ob random scope body store = (store1, Inr (encryptedPrefix @ objectKeyId scope random))"
proof -
  have "writeNew k (objectKeyId scope random) w (st_keys store) = Inr (st_keys store @ [(objectKeyId scope random, w)])" for w
    using assms(1,3) by (simp add: writeNew_Inr)
  moreover have "writeNew ob (objectKeyId scope random) w (st_objects store) = Inr (st_objects store @ [(objectKeyId scope random, w)])" for w
    using assms(2,4) by (simp add: writeNew_Inr)
  ultimately show ?thesis by (simp add: payloadWrite_def Let_def)
qed

lemma withTenant_succeeds:
  assumes "validIdentifier tenantId" "\<And>name. db name = None" "callback ledger = Inr ledger'"
  shows "withTenant db tenantId callback ledger = (ledger', Inr ())"
  using assms by (simp add: withTenant_def statement_def)

lemma append_succeeds:
  assumes "db_eventCount input = numN 1" "av_dateParse env (db_receivedAt input) = Some now"
    and "\<not> av_keyRefused env" "\<not> av_objectRefused env" "\<And>name. av_database env name = None"
    and "validIdentifier (db_tenantId input)"
    and "objectKeyId (batchScope (uuidV7 (av_uuidRandom env) now) input) (av_writeRandom env) \<notin> fst ` set (st_keys store) \<union> fst ` set (st_objects store)"
    and "uuidV7 (av_uuidRandom env) now \<notin> ib_ingest_batch_id ` set (lg_batches ledger)"
  shows "\<exists>inbox. appendDurableBatch env input (store, ledger) = (inbox, Inr (uuidV7 (av_uuidRandom env) now))"
proof -
  let ?id = "uuidV7 (av_uuidRandom env) now"
  let ?scope = "batchScope ?id input"
  obtain store1 where wr: "payloadWrite (av_aead env) (av_keyRefused env) (av_objectRefused env) (av_writeRandom env) ?scope
      (db_body input) store = (store1, Inr (encryptedPrefix @ objectKeyId ?scope (av_writeRandom env)))"
    using payloadWrite_succeeds[OF assms(3,4)] assms(7) by blast
  have "\<exists>ledger'. insertBatchRows env ?id bodyRef input ledger = Inr ledger'" for bodyRef
    using assms(8) by (simp add: insertBatchRows_def statement_def assms(5) insertApp_def insertBatch_def insertState_def ingestBatch_def)
  then obtain ledger' where "withTenant (av_database env) (db_tenantId input)
      (insertBatchRows env ?id (encryptedPrefix @ objectKeyId ?scope (av_writeRandom env)) input) ledger = (ledger', Inr ())"
    using withTenant_succeeds[of "db_tenantId input" "av_database env", OF assms(6,5)] by blast
  with wr show ?thesis using assms(1,2) by (simp add: appendDurableBatch_def numN_def)
qed

end
