(* ===== verification/Json.thy ===== *)
theory Json
  imports FormUrl JsNumber
begin

text \<open>
  Values of the language that come from JSON text, their conversion to a string and their
  JSON text. An object lists its properties in the order they were set. The digits of a
  number that is no integer up to \<open>2 ^ 53\<close> are the parameter \<open>other\<close>.
\<close>

datatype json =
    JNull
  | JBool bool
  | JNum number
  | JStr string
  | JArr "json list"
  | JObj "(string \<times> json) list"

definition isSafeInt :: "rat \<Rightarrow> bool" where
  "isSafeInt x = (of_int \<lfloor>x\<rfloor> = x \<and> \<bar>x\<bar> \<le> 2 ^ 53)"

fun numberText :: "(rat \<Rightarrow> string) \<Rightarrow> number \<Rightarrow> string" where
  "numberText other NaN = ''NaN''"
| "numberText other PInf = ''Infinity''"
| "numberText other NInf = ''-Infinity''"
| "numberText other (Fin x) = (if isSafeInt x then showInt \<lfloor>x\<rfloor> else other x)"

text \<open>\<^verbatim>\<open>String(value)\<close>\<close>

fun jsString :: "(rat \<Rightarrow> string) \<Rightarrow> json \<Rightarrow> string" where
  "jsString other JNull = ''null''"
| "jsString other (JBool b) = (if b then ''true'' else ''false'')"
| "jsString other (JNum n) = numberText other n"
| "jsString other (JStr s) = s"
| "jsString other (JArr xs) = joinWith '','' (map (\<lambda>x. if x = JNull then [] else jsString other x) xs)"
| "jsString other (JObj ps) = ''[object Object]''"

text \<open>Truthiness of a value, and of a property that may be missing.\<close>

fun truthyJson :: "json \<Rightarrow> bool" where
  "truthyJson JNull = False"
| "truthyJson (JBool b) = b"
| "truthyJson (JNum n) = (n \<noteq> NaN \<and> n \<noteq> Fin 0)"
| "truthyJson (JStr s) = (s \<noteq> [])"
| "truthyJson (JArr xs) = True"
| "truthyJson (JObj ps) = True"

definition truthyField :: "json option \<Rightarrow> bool" where
  "truthyField v = (case v of None \<Rightarrow> False | Some j \<Rightarrow> truthyJson j)"

text \<open>\<^verbatim>\<open>value ?? other\<close>: neither missing nor \<^verbatim>\<open>null\<close>.\<close>

definition coalesce :: "json option \<Rightarrow> json option" where
  "coalesce v = (if v = Some JNull then None else v)"

text \<open>\<^verbatim>\<open>JSON.stringify(value)\<close>\<close>

fun jsonText :: "(rat \<Rightarrow> string) \<Rightarrow> json \<Rightarrow> string" where
  "jsonText other JNull = ''null''"
| "jsonText other (JBool b) = (if b then ''true'' else ''false'')"
| "jsonText other (JNum (Fin x)) = numberText other (Fin x)"
| "jsonText other (JNum n) = ''null''"
| "jsonText other (JStr s) = jsonQuote s"
| "jsonText other (JArr xs) = CHR ''['' # joinWith '','' (map (jsonText other) xs) @ '']''"
| "jsonText other (JObj ps) =
     CHR 0x7B # joinWith '','' (map (\<lambda>p. jsonQuote (fst p) @ '':'' @ jsonText other (snd p)) ps) @ [CHR 0x7D]"

lemma truthyField_simps [simp]: "\<not> truthyField None" "truthyField (Some j) = truthyJson j"
  by (simp_all add: truthyField_def)

lemma numberText_nat [simp]: "n \<le> 2 ^ 53 \<Longrightarrow> numberText other (Fin (of_nat n)) = showNat n"
proof -
  assume n: "n \<le> 2 ^ 53"
  have "(of_nat n :: rat) \<le> of_nat (2 ^ 53)" using n by (simp only: of_nat_le_iff)
  then have "isSafeInt (of_nat n)" by (simp add: isSafeInt_def)
  then show ?thesis by (simp add: showInt_def)
qed

end
