(* ===== verification/AppAssociation.thy ===== *)
theory AppAssociation
  imports Json
begin

text \<open>
  The association documents of the link hosts: validation of an app's identities, the Android
  and the Apple document. A property of an identity may be missing, \<^verbatim>\<open>null\<close> (as the database
  returns it) or a value. \<open>collate\<close> is the order of \<^verbatim>\<open>localeCompare\<close>.
\<close>

datatype 'a nullable = Undefined | Null | Value 'a

record app_link_identity =
  al_app_id :: string
  al_android_package_name :: "string nullable"
  al_android_sha256_fingerprints :: "string list nullable"
  al_apple_team_id :: "string nullable"
  al_apple_bundle_id :: "string nullable"

text \<open>The text a regular expression tests: \<^verbatim>\<open>null\<close> is converted to a string.\<close>

fun testedText :: "string nullable \<Rightarrow> string" where
  "testedText (Value s) = s"
| "testedText Null = ''null''"
| "testedText Undefined = ''undefined''"

fun orEmpty :: "'a list nullable \<Rightarrow> 'a list" where
  "orEmpty (Value xs) = xs"
| "orEmpty _ = []"

fun truthyText :: "string nullable \<Rightarrow> bool" where
  "truthyText (Value s) = (s \<noteq> [])"
| "truthyText _ = False"

section \<open>Patterns\<close>

definition isUpper :: "char \<Rightarrow> bool" where
  "isUpper c = (let n = of_char c :: nat in 65 \<le> n \<and> n \<le> 90)"

definition isLetter :: "char \<Rightarrow> bool" where
  "isLetter c = (isAlphaNum c \<and> \<not> isDigit c)"

definition packagePattern :: "string \<Rightarrow> bool" where
  "packagePattern s = (case s of [] \<Rightarrow> False | c # cs \<Rightarrow>
     isLetter c \<and> 2 \<le> length cs \<and> length cs \<le> 254 \<and> list_all (\<lambda>c. isAlphaNum c \<or> c \<in> set ''_.'') cs)"

definition isUpperHex :: "char \<Rightarrow> bool" where
  "isUpperHex c = (isDigit c \<or> c \<in> set ''ABCDEF'')"

definition fingerprintPattern :: "string \<Rightarrow> bool" where
  "fingerprintPattern s =
     (let parts = splitOn (CHR '':'') s in
      length parts = 32 \<and> list_all (\<lambda>p. length p = 2 \<and> list_all isUpperHex p) parts)"

definition teamPattern :: "string \<Rightarrow> bool" where
  "teamPattern s = (length s = 10 \<and> list_all (\<lambda>c. isUpper c \<or> isDigit c) s)"

definition bundlePattern :: "string \<Rightarrow> bool" where
  "bundlePattern s = (case s of [] \<Rightarrow> False | c # cs \<Rightarrow>
     isAlphaNum c \<and> 2 \<le> length cs \<and> length cs \<le> 254 \<and> list_all (\<lambda>c. isAlphaNum c \<or> c \<in> set ''.-'') cs)"

section \<open>Validation\<close>

definition validateAppLinkIdentity :: "app_link_identity \<Rightarrow> unit res" where
  "validateAppLinkIdentity identity =
     bindR (throwIf (al_android_package_name identity \<noteq> Undefined \<and>
                     \<not> packagePattern (testedText (al_android_package_name identity)))
              (JsError ''android_package_name_invalid'')) (\<lambda>_.
     let fingerprints = orEmpty (al_android_sha256_fingerprints identity) in
     bindR (throwIf (8 < length fingerprints) (JsError ''android_fingerprint_limit'')) (\<lambda>_.
     bindR (forR (\<lambda>value. throwIf (\<not> fingerprintPattern value) (JsError ''android_fingerprint_invalid'')) fingerprints) (\<lambda>_.
     bindR (throwIf ((al_apple_team_id identity = Undefined) \<noteq> (al_apple_bundle_id identity = Undefined))
              (JsError ''apple_identity_incomplete'')) (\<lambda>_.
     bindR (throwIf (al_apple_team_id identity \<noteq> Undefined \<and> \<not> teamPattern (testedText (al_apple_team_id identity)))
              (JsError ''apple_team_id_invalid'')) (\<lambda>_.
       throwIf (al_apple_bundle_id identity \<noteq> Undefined \<and> \<not> bundlePattern (testedText (al_apple_bundle_id identity)))
         (JsError ''apple_bundle_id_invalid''))))))"

section \<open>Documents\<close>

definition byAppId :: "(string \<Rightarrow> string \<Rightarrow> int) \<Rightarrow> app_link_identity list \<Rightarrow> app_link_identity list" where
  "byAppId collate items = js_sort (\<lambda>a b. collate (al_app_id a) (al_app_id b)) items"

definition isAndroidApp :: "app_link_identity \<Rightarrow> bool" where
  "isAndroidApp item =
     (truthyText (al_android_package_name item) \<and> orEmpty (al_android_sha256_fingerprints item) \<noteq> [])"

definition assetLink :: "app_link_identity \<Rightarrow> json" where
  "assetLink item = JObj
     [(''relation'', JArr [JStr ''delegate_permission/common.handle_all_urls'']),
      (''target'', JObj
         [(''namespace'', JStr ''android_app''),
          (''package_name'', JStr (testedText (al_android_package_name item))),
          (''sha256_cert_fingerprints'',
             JArr (map JStr (js_sort compareText (orEmpty (al_android_sha256_fingerprints item)))))])]"

definition assetLinksDocument :: "(string \<Rightarrow> string \<Rightarrow> int) \<Rightarrow> app_link_identity list \<Rightarrow> json res" where
  "assetLinksDocument collate identities =
     bindR (mapR (\<lambda>item. bindR (validateAppLinkIdentity item) (\<lambda>_. Inr (assetLink item)))
              (byAppId collate (filter isAndroidApp identities)))
       (\<lambda>links. Inr (JArr links))"

definition isAppleApp :: "app_link_identity \<Rightarrow> bool" where
  "isAppleApp item = (truthyText (al_apple_team_id item) \<and> truthyText (al_apple_bundle_id item))"

definition appleDetail :: "app_link_identity \<Rightarrow> json" where
  "appleDetail item = JObj
     [(''appIDs'', JArr [JStr (testedText (al_apple_team_id item) @ ''.'' @ testedText (al_apple_bundle_id item))]),
      (''components'', JArr [JObj [(''/'', JStr ''/r/*'')]])]"

definition appleAssociationDocument :: "(string \<Rightarrow> string \<Rightarrow> int) \<Rightarrow> app_link_identity list \<Rightarrow> json res" where
  "appleAssociationDocument collate identities =
     bindR (mapR (\<lambda>item. bindR (validateAppLinkIdentity item) (\<lambda>_. Inr (appleDetail item)))
              (byAppId collate (filter isAppleApp identities)))
       (\<lambda>details. Inr (JObj [(''applinks'', JObj [(''details'', JArr details)])]))"

text \<open>The documents hold no number.\<close>

definition associationText :: "json \<Rightarrow> string" where
  "associationText value = jsonText (\<lambda>_. []) value @ [CHR 0x0A]"

section \<open>What a document lists\<close>

lemma mapR_checked:
  "mapR (\<lambda>x. bindR (check x) (\<lambda>_. Inr (f x))) xs = Inr ys \<longleftrightarrow> (\<forall>x \<in> set xs. check x = Inr ()) \<and> ys = map f xs"
  by (induction xs arbitrary: ys) (auto simp: bindR_Inr_iff)

lemma mapR_checked_Inl:
  "x \<in> set xs \<Longrightarrow> check x = Inl e \<Longrightarrow> \<exists>e'. mapR (\<lambda>x. bindR (check x) (\<lambda>_. Inr (f x))) xs = Inl e'"
proof (induction xs)
  case (Cons y ys)
  show ?case
  proof (cases "check y")
    case (Inr u)
    then have "x \<in> set ys" using Cons.prems by auto
    then show ?thesis using Cons.IH Cons.prems(2) Inr by auto
  qed simp
qed simp

lemma assetLinksDocument_Inr:
  "assetLinksDocument collate identities = Inr document \<longleftrightarrow>
     (\<forall>item \<in> set identities. isAndroidApp item \<longrightarrow> validateAppLinkIdentity item = Inr ()) \<and>
     document = JArr (map assetLink (byAppId collate (filter isAndroidApp identities)))"
  by (auto simp: assetLinksDocument_def bindR_Inr_iff mapR_checked byAppId_def)

lemma appleAssociationDocument_Inr:
  "appleAssociationDocument collate identities = Inr document \<longleftrightarrow>
     (\<forall>item \<in> set identities. isAppleApp item \<longrightarrow> validateAppLinkIdentity item = Inr ()) \<and>
     document = JObj [(''applinks'', JObj [(''details'',
       JArr (map appleDetail (byAppId collate (filter isAppleApp identities))))])]"
  by (auto simp: appleAssociationDocument_def bindR_Inr_iff mapR_checked byAppId_def)

text \<open>An Android app that has no Apple identity in the database makes the Android document fail.\<close>

lemma teamPattern_null: "\<not> teamPattern ''null''"
  by (simp add: teamPattern_def)

lemma android_only_invalid:
  assumes "al_apple_team_id item = Null" "al_apple_bundle_id item = Null"
  shows "\<exists>e. validateAppLinkIdentity item = Inl e"
proof (cases "validateAppLinkIdentity item")
  case (Inr u)
  then show ?thesis using assms teamPattern_null
    by (simp add: validateAppLinkIdentity_def Let_def bindR_Inr_iff throwIf_Inr_iff)
qed simp

lemma android_only_fails:
  assumes "item \<in> set identities" "isAndroidApp item" "al_apple_team_id item = Null" "al_apple_bundle_id item = Null"
  shows "\<exists>e. assetLinksDocument collate identities = Inl e"
proof (cases "assetLinksDocument collate identities")
  case (Inr document)
  then show ?thesis using assms android_only_invalid[OF assms(3,4)] by (auto simp: assetLinksDocument_Inr)
qed simp

end
