(* ===== verification/RedirectHandler.thy ===== *)
theory RedirectHandler
  imports InstallReferrer IngestBatch AppAssociation
begin

text \<open>
  The redirector's request handler. A request is answered in one step that returns the new
  state (limiters, payload store, ledger) and either a response or the error of a rejected
  promise nobody handles. The rows the queries return, the clocks and the random bytes are
  arguments.
\<close>

section \<open>Configuration, requests, state\<close>

record redirector_config =
  rc_tenantId :: string
  rc_fallbackUrl :: string
  rc_fixedTenant :: bool
  rc_referrerMaximum :: "nat option"
  rc_wellKnownCacheSeconds :: "nat option"
  rc_wellKnownMaximumBytes :: "nat option"
  rc_clientClassEnabled :: "bool option"
  rc_remoteClickParameter :: "string option"

record http_request =
  hq_method :: string
  hq_url :: "string option"
  hq_host :: "string option"
  hq_userAgent :: "string option"
  hq_purpose :: "string option"
  hq_secPurpose :: "string option"
  hq_remoteAddress :: "string option"

record http_response =
  hs_status :: nat
  hs_headers :: "(string \<times> string) list"
  hs_body :: string

datatype handled = Responded http_response | Unhandled js_error

record redirector_state =
  rx_limiter :: ip_bucket
  rx_wellKnownLimiter :: "ip_bucket option"
  rx_inbox :: "payload_store \<times> ledger"

text \<open>The database of the queries; an error is a query that throws.\<close>

record redirector_tables =
  rt_resolve_link_host :: "string \<Rightarrow> string option res"
  rt_tracking_links_current :: "tracking_link list res"
  rt_link_domains :: "(string \<times> string) list res"
  rt_app_link_identities :: "string \<Rightarrow> app_link_identity list res"

record redirector_env =
  rv_urls :: url_api
  rv_collate :: "string \<Rightarrow> string \<Rightarrow> int"
  rv_tables :: redirector_tables
  rv_performanceNow :: number
  rv_clock :: string
  rv_random :: "nat \<Rightarrow> nat list"
  rv_uuid :: "nat \<Rightarrow> string"
  rv_append :: append_env

section \<open>Queries\<close>

definition loadLink :: "redirector_tables \<Rightarrow> string \<Rightarrow> string \<Rightarrow> tracking_link option res" where
  "loadLink tables tenantId slug =
     bindR (throwIf (\<not> validIdentifier tenantId) (JsError (''invalid tenant identifier: '' @ tenantId))) (\<lambda>_.
     bindR (rt_tracking_links_current tables) (\<lambda>rows.
       Inr (List.find (\<lambda>link. tl_tenant_id link = tenantId \<and> tl_slug link = slug) rows)))"

definition loadAssociation ::
  "(string \<Rightarrow> string \<Rightarrow> int) \<Rightarrow> redirector_tables \<Rightarrow> string \<Rightarrow> string \<Rightarrow> (string \<times> string) option res" where
  "loadAssociation collate tables tenantId host =
     bindR (throwIf (\<not> validIdentifier tenantId) (JsError (''invalid tenant identifier: '' @ tenantId))) (\<lambda>_.
     bindR (rt_link_domains tables) (\<lambda>domains.
       if length (filter (\<lambda>d. d = (tenantId, host)) domains) \<noteq> 1 then Inr None
       else bindR (rt_app_link_identities tables tenantId) (\<lambda>rows.
            bindR (assetLinksDocument collate rows) (\<lambda>assetlinks.
            bindR (appleAssociationDocument collate rows) (\<lambda>aasa.
              Inr (Some (associationText assetlinks, associationText aasa)))))))"

definition tenantForRequest :: "redirector_config \<Rightarrow> redirector_tables \<Rightarrow> string option \<Rightarrow> string option res" where
  "tenantForRequest config tables host =
     (if rc_fixedTenant config then Inr (Some (rc_tenantId config))
      else case host of None \<Rightarrow> Inr None | Some h \<Rightarrow> rt_resolve_link_host tables h)"

text \<open>\<^verbatim>\<open>/^[a-z0-9.-]{3,253}$/\<close>\<close>

definition isHostChar :: "char \<Rightarrow> bool" where
  "isHostChar c = (isAlphaNum c \<and> lowerChar c = c \<or> c \<in> set ''.-'')"

definition dropLastDot :: "string \<Rightarrow> string" where
  "dropLastDot s = (if s \<noteq> [] \<and> last s = CHR ''.'' then butlast s else s)"

definition normalizedHost :: "http_request \<Rightarrow> string option" where
  "normalizedHost request =
     (let text = dropLastDot (map lowerChar (hd (splitOn (CHR '':'') (orElse (hq_host request) []))))
      in if 3 \<le> length text \<and> length text \<le> 253 \<and> list_all isHostChar text then Some text else None)"

section \<open>Responses\<close>

definition bareResponse :: "nat \<Rightarrow> (string \<times> string) list \<Rightarrow> http_response" where
  "bareResponse status headers = \<lparr>hs_status = status, hs_headers = headers, hs_body = []\<rparr>"

definition rateLimited :: http_response where
  "rateLimited = bareResponse 429 [(''cache-control'', ''no-store''), (''retry-after'', ''1'')]"

definition sendAssociation :: "string \<Rightarrow> nat \<Rightarrow> http_response" where
  "sendAssociation body cacheSeconds = \<lparr>hs_status = 200,
     hs_headers = [(''cache-control'', ''public, max-age='' @ showNat cacheSeconds),
       (''content-type'', ''application/json''),
       (''content-length'', showNat (length (utf8Bytes body))),
       (''x-content-type-options'', ''nosniff'')],
     hs_body = body\<rparr>"

definition sendResolution :: "redirect_resolution \<Rightarrow> http_response" where
  "sendResolution result = bareResponse 302
     [(''cache-control'', ''no-store''), (''location'', rd_location result), (''referrer-policy'', ''no-referrer'')]"

section \<open>Persisting a click\<close>

fun rateClassText :: "rate_class \<Rightarrow> string" where
  "rateClassText NormalRate = ''normal''"
| "rateClassText ElevatedRate = ''elevated''"
| "rateClassText SaturatedRate = ''saturated''"

fun clientClassText :: "client_class \<Rightarrow> string" where
  "clientClassText MobileAppEligible = ''mobile_app_eligible''"
| "clientClassText BotClient = ''bot''"
| "clientClassText OtherClient = ''other''"

fun deferredStatusText :: "deferred_status \<Rightarrow> string" where
  "deferredStatusText Carried = ''carried''"
| "deferredStatusText OmittedLength = ''omitted_length''"
| "deferredStatusText OmittedPlatform = ''omitted_platform''"
| "deferredStatusText NotConfigured = ''not_configured''"

definition optionalField :: "string \<Rightarrow> string option \<Rightarrow> (string \<times> json) list" where
  "optionalField name value = (case keepTruthy value of None \<Rightarrow> [] | Some s \<Rightarrow> [(name, JStr s)])"

definition botField :: "bool \<Rightarrow> (string \<times> json) list" where
  "botField b = (if b then [(''bot_prefetch'', JBool True)] else [])"

definition clickPayload :: "redirect_click \<Rightarrow> (string \<times> json) list" where
  "clickPayload click =
     [(''click_id'', JStr (ck_click_id click)), (''tracking_link_id'', JStr (ck_tracking_link_id click)),
      (''redirector_click_at'', JStr (ck_redirector_click_at click)), (''redirector_time_status'', JStr ''available'')] @
     optionalField ''campaign_id'' (ck_campaign_id click) @ optionalField ''ad_group_id'' (ck_ad_group_id click) @
     optionalField ''creative_id'' (ck_creative_id click) @ optionalField ''network'' (ck_network click) @
     optionalField ''site_id'' (ck_site_id click) @ optionalField ''remote_click_ref'' (ck_remote_click_ref click) @
     optionalField ''source_rate_class'' (map_option rateClassText (ck_source_rate_class click)) @
     optionalField ''client_class'' (map_option clientClassText (ck_client_class click)) @
     optionalField ''deep_link_value'' (ck_deep_link_value click) @
     [(''deferred_deep_link_status'', JStr (deferredStatusText (ck_deferred_deep_link_status click)))] @
     botField (ck_bot_prefetch click)"

definition prefetchPayload :: "redirect_prefetch \<Rightarrow> (string \<times> json) list" where
  "prefetchPayload click =
     [(''tracking_link_id'', JStr (rp_tracking_link_id click)),
      (''redirector_click_at'', JStr (rp_redirector_click_at click)), (''redirector_time_status'', JStr ''available'')] @
     optionalField ''campaign_id'' (rp_campaign_id click) @ optionalField ''ad_group_id'' (rp_ad_group_id click) @
     optionalField ''creative_id'' (rp_creative_id click) @ optionalField ''network'' (rp_network click) @
     optionalField ''site_id'' (rp_site_id click) @ optionalField ''remote_click_ref'' (rp_remote_click_ref click) @
     optionalField ''source_rate_class'' (map_option rateClassText (rp_source_rate_class click)) @
     optionalField ''client_class'' (Some (clientClassText (rp_client_class click))) @
     botField True"

definition redirectorRecord ::
  "(nat \<Rightarrow> string) \<Rightarrow> string \<Rightarrow> string \<Rightarrow> string \<Rightarrow> string \<Rightarrow> (string \<times> json) list \<Rightarrow> json" where
  "redirectorRecord uuid tenantId appId eventId clickAt payload = JObj
     [(''contract_version'', JStr ''0.4.0''),
      (''record_id'', JStr (''record:'' @ uuid 0)),
      (''delivery_id'', JStr (''delivery:'' @ uuid 1)),
      (''tenant_id'', JStr tenantId),
      (''app_id'', JStr appId),
      (''producer'', JStr ''redirector''),
      (''producer_version'', JStr ''0.1.0''),
      (''event_id'', JStr eventId),
      (''event_name'', JStr ''click''),
      (''schema_version'', JStr ''0.4.0''),
      (''occurred_at'', JStr clickAt),
      (''occurred_at_source'', JStr ''server''),
      (''received_at'', JStr clickAt),
      (''processing_purpose_id'', JStr ''analytics''),
      (''processing_sequence'', JNum (numN 1)),
      (''payload'', JObj payload)]"

text \<open>The tenant, app, time and record of the click or prefetch a resolution carries.\<close>

definition persistedRecord :: "(nat \<Rightarrow> string) \<Rightarrow> redirect_resolution \<Rightarrow> (string \<times> string \<times> string \<times> json) option" where
  "persistedRecord uuid result =
     (case rd_click result of
        Some click \<Rightarrow> Some (ck_tenant_id click, ck_app_id click, ck_redirector_click_at click,
          redirectorRecord uuid (ck_tenant_id click) (ck_app_id click) (''event:click:'' @ ck_click_id click)
            (ck_redirector_click_at click) (clickPayload click))
      | None \<Rightarrow> (case rd_prefetch result of
          Some click \<Rightarrow> Some (rp_tenant_id click, rp_app_id click, rp_redirector_click_at click,
            redirectorRecord uuid (rp_tenant_id click) (rp_app_id click) (''event:prefetch:'' @ uuid 2)
              (rp_redirector_click_at click) (prefetchPayload click))
        | None \<Rightarrow> None))"

definition batchText :: "json \<Rightarrow> string" where
  "batchText event = jsonText (\<lambda>_. []) (JObj [(''records'', JArr [event])])"

definition clickBatch :: "string \<times> string \<times> string \<times> json \<Rightarrow> durable_batch_input" where
  "clickBatch persisted = (case persisted of (tenantId, appId, clickAt, event) \<Rightarrow>
     \<lparr>db_tenantId = tenantId, db_appId = appId, db_producer = ''redirector'',
      db_body = utf8Bytes (batchText event), db_eventCount = numN 1, db_receivedAt = clickAt,
      db_sdkKeyId = None, db_installationKeyId = None, db_requestNonce = None, db_requestTimestampMs = None\<rparr>)"

definition persistClick ::
  "redirector_env \<Rightarrow> redirect_resolution \<Rightarrow> payload_store \<times> ledger \<Rightarrow> (payload_store \<times> ledger) \<times> (js_error + unit)" where
  "persistClick env result inbox =
     (case persistedRecord (rv_uuid env) result of
        None \<Rightarrow> (inbox, Inr ())
      | Some persisted \<Rightarrow>
          (case appendDurableBatch (rv_append env) (clickBatch persisted) inbox of
             (inbox', Inl e) \<Rightarrow> (inbox', Inl e)
           | (inbox', Inr _) \<Rightarrow> (inbox', Inr ())))"

section \<open>Well-known documents\<close>

definition serveWellKnown ::
  "redirector_config \<Rightarrow> redirector_env \<Rightarrow> string \<Rightarrow> string option \<Rightarrow> string option \<Rightarrow> redirector_state \<Rightarrow>
    redirector_state \<times> handled" where
  "serveWellKnown config env pathname host tenantId state =
     (let (state, allowed) =
            (case rx_wellKnownLimiter state of
               None \<Rightarrow> (state, True)
             | Some limiter \<Rightarrow>
                 (case ipAllow ''well-known'' (rv_performanceNow env) limiter of
                    (limiter', ok) \<Rightarrow> (state\<lparr>rx_wellKnownLimiter := Some limiter'\<rparr>, ok)))
      in (state, Responded
        (if \<not> allowed then rateLimited
         else case (host, tenantId) of
           (Some h, Some t) \<Rightarrow>
             (case loadAssociation (rv_collate env) (rv_tables env) t h of
                Inr (Some (assetlinks, aasa)) \<Rightarrow>
                  let body = (if pathname = ''/.well-known/assetlinks.json'' then assetlinks else aasa)
                  in if orElse (rc_wellKnownMaximumBytes config) 65536 < length (utf8Bytes body)
                     then bareResponse 503 [(''cache-control'', ''no-store''), (''x-content-type-options'', ''nosniff'')]
                     else sendAssociation body (orElse (rc_wellKnownCacheSeconds config) 300)
              | _ \<Rightarrow> bareResponse 404 [])
         | _ \<Rightarrow> bareResponse 404 [])))"

section \<open>Links\<close>

text \<open>\<^verbatim>\<open>/^\/r\/([A-Za-z0-9_-]{12,64})(\/.*)?$/\<close> on a path without line ends: the slug and the rest.\<close>

definition matchLinkPath :: "string \<Rightarrow> (string \<times> string option) option" where
  "matchLinkPath pathname =
     (if \<not> startsWith pathname ''/r/'' then None
      else let body = drop 3 pathname; slug = takeWhile isIdChar body; rest = dropWhile isIdChar body
           in if length slug < 12 \<or> 64 < length slug then None
              else if rest = [] then Some (slug, None)
              else if startsWith rest ''/'' \<and> list_all (\<lambda>c. c \<notin> {CHR 0x0A, CHR 0x0D}) rest then Some (slug, Some rest)
              else None)"

definition validRemoteClickRef :: "string \<Rightarrow> bool" where
  "validRemoteClickRef s = (1 \<le> length s \<and> length s \<le> 128 \<and> list_all isSegmentChar s)"

definition redirectOptions ::
  "redirector_config \<Rightarrow> redirector_env \<Rightarrow> tracking_link \<Rightarrow> (string \<times> string) list \<Rightarrow> string option \<Rightarrow> rate_class \<Rightarrow>
    client_class option \<Rightarrow> string option \<Rightarrow> redirect_options" where
  "redirectOptions config env link searchParams remoteClickRef sourceRateClass clientClass directDeepLinkValue = \<lparr>
     ro_link = Some link,
     ro_fallbackDestination = rc_fallbackUrl config,
     ro_now = rv_clock env,
     ro_clickId = None,
     ro_remoteClickRef = keepTruthy remoteClickRef,
     ro_sourceRateClass = Some sourceRateClass,
     ro_clientClass = clientClass,
     ro_deepLinkParams = Some (fst (bindDeepLinkParameters searchParams (orElse (tl_deep_link_param_names link) []))),
     ro_referrerMaximumEncodedCharacters = Some (orElse (rc_referrerMaximum config) 512),
     ro_deepLinkValue = keepTruthy directDeepLinkValue\<rparr>"

text \<open>
  The answer for an active link: a prefetch is recorded outside of the handler's
  \<^verbatim>\<open>try\<close>, a redirect within it.
\<close>

definition serveLink ::
  "redirector_config \<Rightarrow> redirector_env \<Rightarrow> http_request \<Rightarrow> url \<Rightarrow> string \<Rightarrow> tracking_link \<Rightarrow> string option \<Rightarrow>
    redirector_state \<Rightarrow> redirector_state \<times> handled" where
  "serveLink config env request target remoteAddress link directDeepLinkValue state =
     (let fallback = fallbackResponse (rc_fallbackUrl config);
          remoteClickRef = map_of (u_searchParams target) (orElse (rc_remoteClickParameter config) ''cid'');
          sourceRateClass = ipClassify remoteAddress (rx_limiter state);
          clientClass = (if rc_clientClassEnabled config = Some False then None
                         else Some (classifyClientClass (orElse (hq_userAgent request) [])));
          purpose = orElse (hq_purpose request) [] @ '' '' @ orElse (hq_secPurpose request) []
      in if truthy remoteClickRef \<and> \<not> validRemoteClickRef (the remoteClickRef)
         then (state, Responded (sendResolution fallback))
         else if includesText (map lowerChar purpose) ''prefetch'' then
           (let result = prefetchEvidence link (rc_fallbackUrl config) (rv_clock env) (keepTruthy remoteClickRef)
                  (Some sourceRateClass) clientClass
            in case persistClick env result (rx_inbox state) of
                 (inbox, Inl e) \<Rightarrow> (state\<lparr>rx_inbox := inbox\<rparr>, Unhandled e)
               | (inbox, Inr _) \<Rightarrow> (state\<lparr>rx_inbox := inbox\<rparr>, Responded (sendResolution result)))
         else if tl_destination_kind link = PlayStore \<and>
                 \<not> includesText (map lowerChar (orElse (hq_userAgent request) [])) ''android''
         then (state, Responded (sendResolution fallback))
         else case resolveRedirect (rv_collate env) (rv_urls env) (rv_random env)
                (redirectOptions config env link (u_searchParams target) remoteClickRef sourceRateClass clientClass
                   directDeepLinkValue) of
           Inl _ \<Rightarrow> (state, Responded (sendResolution fallback))
         | Inr result \<Rightarrow>
             (case persistClick env result (rx_inbox state) of
                (inbox, Inl _) \<Rightarrow> (state\<lparr>rx_inbox := inbox\<rparr>, Responded (sendResolution fallback))
              | (inbox, Inr _) \<Rightarrow> (state\<lparr>rx_inbox := inbox\<rparr>, Responded (sendResolution result))))"

definition serveRedirect ::
  "redirector_config \<Rightarrow> redirector_env \<Rightarrow> http_request \<Rightarrow> url \<Rightarrow> string option \<Rightarrow> redirector_state \<Rightarrow>
    redirector_state \<times> handled" where
  "serveRedirect config env request target tenantId state =
     (let fallback = Responded (sendResolution (fallbackResponse (rc_fallbackUrl config)));
          remoteAddress = orElse (hq_remoteAddress request) ''unknown''
      in case (if hq_method request = ''GET'' then matchLinkPath (u_pathname target) else None) of
           None \<Rightarrow> (state, fallback)
         | Some (slug, rest) \<Rightarrow>
             (case keepTruthy tenantId of
                None \<Rightarrow> (state, fallback)
              | Some tenant \<Rightarrow>
                  (case ipAllow remoteAddress (rv_performanceNow env) (rx_limiter state) of (limiter, allowed) \<Rightarrow>
                    let state = state\<lparr>rx_limiter := limiter\<rparr> in
                    if \<not> allowed then (state, Responded rateLimited)
                    else case loadLink (rv_tables env) tenant slug of
                      Inr (Some link) \<Rightarrow>
                        if tl_status link \<noteq> LinkActive then (state, fallback)
                        else (case rest of
                            None \<Rightarrow> serveLink config env request target remoteAddress link None state
                          | Some path \<Rightarrow>
                              (case assertDeepLinkValue path of
                                 Inl _ \<Rightarrow> (state, fallback)
                               | Inr direct \<Rightarrow> serveLink config env request target remoteAddress link (Some direct) state))
                    | _ \<Rightarrow> (state, fallback))))"

section \<open>The handler\<close>

definition handleRequest ::
  "redirector_config \<Rightarrow> redirector_env \<Rightarrow> http_request \<Rightarrow> redirector_state \<Rightarrow> redirector_state \<times> handled" where
  "handleRequest config env request state =
     (case ua_resolve (rv_urls env) (orElse (hq_url request) ''/'') ''http://openmasu.local'' of
        None \<Rightarrow> (state, Unhandled TypeError)
      | Some target \<Rightarrow>
          let host = normalizedHost request;
              wellKnown = (hq_method request = ''GET'' \<and>
                u_pathname target \<in> {''/.well-known/assetlinks.json'', ''/.well-known/apple-app-site-association''})
          in case tenantForRequest config (rv_tables env) host of
               Inl _ \<Rightarrow> (state, Responded (bareResponse 404 []))
             | Inr tenantId \<Rightarrow>
                 if wellKnown then serveWellKnown config env (u_pathname target) host (keepTruthy tenantId) state
                 else serveRedirect config env request target tenantId state)"

end
