(* ===== verification/RedirectLaws.thy ===== *)
theory RedirectLaws
  imports RedirectHandler EvaluateFacts
begin

text \<open>
  What a request changes and when a browser is sent on: a click is in the inbox before its
  redirect, under the scope of the link, and an install that reports its referrer is
  attributed to it.
\<close>

section \<open>Persisting\<close>

lemma persistClick_recorded:
  assumes "persistClick env result inbox = (inbox', Inr u)" "persistedRecord (rv_uuid env) result = Some persisted"
  shows "\<exists>batchId. appendDurableBatch (rv_append env) (clickBatch persisted) inbox = (inbox', Inr batchId)"
  using assms by (auto simp: persistClick_def split: prod.splits sum.splits)

lemma resolveRedirect_click:
  assumes "resolveRedirect collate urls random options = Inr result" "rd_location result \<noteq> ro_fallbackDestination options"
  shows "\<exists>link click. ro_link options = Some link \<and> tl_status link = LinkActive \<and> rd_click result = Some click \<and>
     ck_tenant_id click = tl_tenant_id link \<and> ck_app_id click = tl_app_id link \<and>
     ck_tracking_link_id click = tl_tracking_link_id link \<and> ck_redirector_click_at click = ro_now options \<and>
     withReferrer urls link (Inr (ck_referrer click)) = Inr (rd_location result)"
  using resolveRedirect_Inr[OF assms(1)] assms(2) by (auto simp: fallbackResponse_def makeClick_def)

section \<open>Serving an active link\<close>

lemma serveLink_sent:
  assumes "serveLink config env request target remoteAddress link direct state = (state', Responded r)"
  shows "r = sendResolution (fallbackResponse (rc_fallbackUrl config)) \<or>
    (\<exists>result options. r = sendResolution result \<and> ro_link options = Some link \<and> ro_now options = rv_clock env \<and>
       ro_fallbackDestination options = rc_fallbackUrl config \<and>
       resolveRedirect (rv_collate env) (rv_urls env) (rv_random env) options = Inr result \<and>
       persistClick env result (rx_inbox state) = (rx_inbox state', Inr ()))"
proof -
  have prefetch: "sendResolution (prefetchEvidence link d n c s k) = sendResolution (fallbackResponse d)" for d n c s k
    by (simp add: sendResolution_def prefetchEvidence_def fallbackResponse_def)
  define options where "options = redirectOptions config env link (u_searchParams target)
      (map_of (u_searchParams target) (orElse (rc_remoteClickParameter config) ''cid''))
      (ipClassify remoteAddress (rx_limiter state))
      (if rc_clientClassEnabled config = Some False then None else Some (classifyClientClass (orElse (hq_userAgent request) [])))
      direct"
  have fields: "ro_link options = Some link" "ro_now options = rv_clock env" "ro_fallbackDestination options = rc_fallbackUrl config"
    by (simp_all add: options_def redirectOptions_def)
  consider "r = sendResolution (fallbackResponse (rc_fallbackUrl config))"
    | result where "resolveRedirect (rv_collate env) (rv_urls env) (rv_random env) options = Inr result"
      "r = sendResolution result" "persistClick env result (rx_inbox state) = (rx_inbox state', Inr ())"
    using assms unfolding serveLink_def Let_def options_def[symmetric]
    by (auto simp: prefetch split: if_splits prod.splits sum.splits)
  then show ?thesis using fields by cases blast+
qed

lemma serveLink_inbox:
  assumes "serveLink config env request target remoteAddress link direct state = (state', out)"
  shows "rx_inbox state' = rx_inbox state \<or>
    (\<exists>result. rx_inbox state' = fst (persistClick env result (rx_inbox state)) \<and>
       (\<forall>persisted. persistedRecord (rv_uuid env) result = Some persisted \<longrightarrow>
          fst persisted = tl_tenant_id link \<and> fst (snd persisted) = tl_app_id link))"
proof -
  have prefetch: "persistedRecord (rv_uuid env) (prefetchEvidence link d n c s k) = Some persisted \<Longrightarrow>
      fst persisted = tl_tenant_id link \<and> fst (snd persisted) = tl_app_id link" for d n c s k persisted
    by (auto simp: persistedRecord_def prefetchEvidence_def fallbackResponse_def)
  have resolved: "fst persisted = tl_tenant_id link \<and> fst (snd persisted) = tl_app_id link"
    if "resolveRedirect collate urls random options = Inr result" "persistedRecord (rv_uuid env) result = Some persisted"
      "ro_link options = Some link" for collate urls random options result persisted
    using resolveRedirect_Inr[OF that(1)] that(2,3)
    by (auto simp: persistedRecord_def fallbackResponse_def makeClick_def split: option.splits)
  have link: "ro_link (redirectOptions config env link ps c s k d) = Some link" for ps c s k d
    by (simp add: redirectOptions_def)
  let ?ref = "map_of (u_searchParams target) (orElse (rc_remoteClickParameter config) ''cid'')"
  let ?rate = "ipClassify remoteAddress (rx_limiter state)"
  let ?kind = "if rc_clientClassEnabled config = Some False then None else Some (classifyClientClass (orElse (hq_userAgent request) []))"
  let ?prefetch = "prefetchEvidence link (rc_fallbackUrl config) (rv_clock env) (keepTruthy ?ref) (Some ?rate) ?kind"
  let ?options = "redirectOptions config env link (u_searchParams target) ?ref ?rate ?kind direct"
  obtain inboxP answerP where P: "persistClick env ?prefetch (rx_inbox state) = (inboxP, answerP)" by fastforce
  show ?thesis
  proof (cases "resolveRedirect (rv_collate env) (rv_urls env) (rv_random env) ?options")
    case (Inl e)
    then have "rx_inbox state' = rx_inbox state \<or> rx_inbox state' = inboxP"
      using assms P unfolding serveLink_def Let_def by (auto split: if_splits sum.splits)
    then show ?thesis using P prefetch by (metis fst_conv)
  next
    case (Inr result)
    obtain inboxR answerR where R: "persistClick env result (rx_inbox state) = (inboxR, answerR)" by fastforce
    have "rx_inbox state' = rx_inbox state \<or> rx_inbox state' = inboxP \<or> rx_inbox state' = inboxR"
      using assms P R Inr unfolding serveLink_def Let_def by (auto split: if_splits sum.splits)
    then show ?thesis using P R prefetch resolved[OF Inr _ link] by (metis fst_conv)
  qed
qed

section \<open>The handler\<close>

text \<open>A request changes the inbox, or redirects away from the fallback, only by serving an active link.\<close>

lemma handleRequest_cases:
  assumes "handleRequest config env request state = (state', out)"
  obtains (apart) "rx_inbox state' = rx_inbox state"
      "\<And>r. out = Responded r \<Longrightarrow> hs_status r \<noteq> 302 \<or> r = sendResolution (fallbackResponse (rc_fallbackUrl config))"
      "\<And>e. out = Unhandled e \<Longrightarrow>
         ua_resolve (rv_urls env) (orElse (hq_url request) ''/'') ''http://openmasu.local'' = None"
  | (served) target remoteAddress link direct between tenant slug where
      "loadLink (rv_tables env) tenant slug = Inr (Some link)" "tl_status link = LinkActive"
      "tenantForRequest config (rv_tables env) (normalizedHost request) = Inr (Some tenant)"
      "serveLink config env request target remoteAddress link direct between = (state', out)"
      "rx_inbox between = rx_inbox state"
proof (cases "ua_resolve (rv_urls env) (orElse (hq_url request) ''/'') ''http://openmasu.local''")
  case None
  then show thesis using apart assms by (auto simp: handleRequest_def)
next
  case (Some target)
  show thesis
  proof (cases "tenantForRequest config (rv_tables env) (normalizedHost request)")
    case (Inl e)
    then show thesis using apart assms Some by (auto simp: handleRequest_def Let_def bareResponse_def split: if_splits)
  next
    case (Inr tenantId)
    show thesis
    proof (cases "hq_method request = ''GET'' \<and>
        u_pathname target \<in> {''/.well-known/assetlinks.json'', ''/.well-known/apple-app-site-association''}")
      case True
      then have w: "serveWellKnown config env (u_pathname target) (normalizedHost request) (keepTruthy tenantId) state = (state', out)"
        using assms Some Inr by (auto simp: handleRequest_def Let_def)
      show thesis
      proof (rule apart)
        show "rx_inbox state' = rx_inbox state"
          using w by (auto simp: serveWellKnown_def Let_def split: option.splits prod.splits)
        show "\<And>r. out = Responded r \<Longrightarrow> hs_status r \<noteq> 302 \<or> r = sendResolution (fallbackResponse (rc_fallbackUrl config))"
          using w by (auto simp: serveWellKnown_def Let_def rateLimited_def bareResponse_def sendAssociation_def
              split: option.splits prod.splits sum.splits if_splits)
        show "\<And>e. out = Unhandled e \<Longrightarrow>
            ua_resolve (rv_urls env) (orElse (hq_url request) ''/'') ''http://openmasu.local'' = None"
          using w by (auto simp: serveWellKnown_def Let_def split: option.splits prod.splits)
      qed
    next
      case False
      then have s: "serveRedirect config env request target tenantId state = (state', out)"
        using assms Some Inr by (auto simp: handleRequest_def Let_def)
      let ?fallback = "Responded (sendResolution (fallbackResponse (rc_fallbackUrl config)))"
      have aside: thesis if "rx_inbox state' = rx_inbox state" "out = ?fallback \<or> out = Responded rateLimited"
        using that by (intro apart) (auto simp: rateLimited_def bareResponse_def)
      show thesis
      proof (cases "if hq_method request = ''GET'' then matchLinkPath (u_pathname target) else None")
        case None
        then show thesis using s aside by (auto simp: serveRedirect_def Let_def)
      next
        case (Some m)
        then obtain slug rest where m: "(if hq_method request = ''GET'' then matchLinkPath (u_pathname target) else None) = Some (slug, rest)"
          by (cases m) auto
        show thesis
        proof (cases "keepTruthy tenantId")
          case None
          then show thesis using s aside m by (auto simp: serveRedirect_def Let_def)
        next
          case (Some tenant)
          then have tenant: "tenantId = Some tenant" by (auto simp: keepTruthy_def split: if_splits)
          let ?addr = "orElse (hq_remoteAddress request) ''unknown''"
          obtain limiter allowed where l: "ipAllow ?addr (rv_performanceNow env) (rx_limiter state) = (limiter, allowed)" by fastforce
          show thesis
          proof (cases "allowed \<and> (\<exists>link. loadLink (rv_tables env) tenant slug = Inr (Some link) \<and> tl_status link = LinkActive)")
            case False
            then show thesis using s aside m Some l
              by (auto simp: serveRedirect_def Let_def split: if_splits sum.splits option.splits)
          next
            case True
            then obtain link where link: "loadLink (rv_tables env) tenant slug = Inr (Some link)" "tl_status link = LinkActive" by blast
            show thesis
            proof (cases "rest = None \<or> (\<exists>path direct. rest = Some path \<and> assertDeepLinkValue path = Inr direct)")
              case False
              then show thesis using s aside m Some l link True
                by (auto simp: serveRedirect_def Let_def split: option.splits sum.splits)
            next
              case rest: True
              then obtain direct where "serveLink config env request target ?addr link direct (state\<lparr>rx_limiter := limiter\<rparr>) = (state', out)"
                using s m Some l link True by (auto simp: serveRedirect_def Let_def split: option.splits sum.splits)
              then show thesis using served[OF link] Inr tenant by simp
            qed
          qed
        qed
      qed
    qed
  qed
qed

lemma loadLink_Some:
  "loadLink tables tenant slug = Inr (Some link) \<Longrightarrow> tl_tenant_id link = tenant \<and> tl_slug link = slug \<and>
     (\<exists>rows. rt_tracking_links_current tables = Inr rows \<and> link \<in> set rows)"
  by (auto simp: loadLink_def bindR_Inr_iff throwIf_Inr_iff dest!: find_Some_iff_set)

lemma sendResolution_location: "sendResolution a = sendResolution b \<longleftrightarrow> rd_location a = rd_location b"
  by (simp add: sendResolution_def bareResponse_def)

lemma append_batches:
  assumes "appendDurableBatch env input (store, ledger) = ((store', ledger'), out)"
  shows "lg_batches ledger' = lg_batches ledger \<or>
    (\<exists>b. lg_batches ledger' = lg_batches ledger @ [b] \<and> ib_tenant_id b = db_tenantId input \<and>
       ib_app_id b = db_appId input \<and> ib_producer b = db_producer input)"
proof (cases out)
  case (Inl e)
  then show ?thesis using append_failed(1) assms by blast
next
  case (Inr batchId)
  obtain now bodyRef where "insertBatchRows env batchId bodyRef input ledger = Inr ledger'"
    by (rule append_committed[OF assms[unfolded Inr]])
  then show ?thesis using insertBatchRows_Inr(1) by (fastforce simp: ingestBatch_def)
qed

text \<open>The batches of the inbox.\<close>

abbreviation batches :: "redirector_state \<Rightarrow> ingest_batch list" where
  "batches state \<equiv> lg_batches (snd (rx_inbox state))"

lemma handleRequest_batches:
  assumes "handleRequest config env request state = (state', out)"
  shows "batches state' = batches state \<or>
    (\<exists>(link :: tracking_link) b. batches state' = batches state @ [b] \<and> ib_tenant_id b = tl_tenant_id link \<and> ib_app_id b = tl_app_id link \<and>
       ib_producer b = ''redirector'' \<and> tl_status link = LinkActive \<and>
       tenantForRequest config (rv_tables env) (normalizedHost request) = Inr (Some (tl_tenant_id link)))"
proof (cases rule: handleRequest_cases[OF assms])
  case 1
  then show ?thesis by simp
next
  case (2 target remoteAddress link direct between tenant slug)
  have active: "tl_status link = LinkActive"
    "tenantForRequest config (rv_tables env) (normalizedHost request) = Inr (Some (tl_tenant_id link))"
    using loadLink_Some[OF 2(1)] 2(2,3) by simp_all
  show ?thesis
    using serveLink_inbox[OF 2(4)]
  proof (elim disjE exE conjE)
    assume "rx_inbox state' = rx_inbox between"
    then show ?thesis using 2(5) by simp
  next
    fix result
    assume inbox: "rx_inbox state' = fst (persistClick env result (rx_inbox between))"
      and scope: "\<forall>persisted. persistedRecord (rv_uuid env) result = Some persisted \<longrightarrow>
          fst persisted = tl_tenant_id link \<and> fst (snd persisted) = tl_app_id link"
    show ?thesis
    proof (cases "persistedRecord (rv_uuid env) result")
      case None
      then show ?thesis using inbox 2(5) by (simp add: persistClick_def)
    next
      case (Some persisted)
      obtain after answer where append: "appendDurableBatch (rv_append env) (clickBatch persisted) (rx_inbox state) = (after, answer)" by fastforce
      then have "rx_inbox state' = after"
        using inbox Some 2(5) by (cases answer) (simp_all add: persistClick_def)
      moreover have "db_tenantId (clickBatch persisted) = tl_tenant_id link" "db_appId (clickBatch persisted) = tl_app_id link"
        "db_producer (clickBatch persisted) = ''redirector''"
        using scope Some by (auto simp: clickBatch_def split: prod.split)
      moreover have "lg_batches (snd after) = lg_batches (snd (rx_inbox state)) \<or>
          (\<exists>b. lg_batches (snd after) = lg_batches (snd (rx_inbox state)) @ [b] \<and>
             ib_tenant_id b = db_tenantId (clickBatch persisted) \<and> ib_app_id b = db_appId (clickBatch persisted) \<and>
             ib_producer b = db_producer (clickBatch persisted))"
        using append_batches[of "rv_append env" "clickBatch persisted" "fst (rx_inbox state)" "snd (rx_inbox state)" "fst after" "snd after" answer]
          append by simp
      ultimately consider "batches state' = batches state"
        | b where "batches state' = batches state @ [b]" "ib_tenant_id b = tl_tenant_id link" "ib_app_id b = tl_app_id link"
            "ib_producer b = ''redirector''" by auto
      then show ?thesis
      proof cases
        case 1
        then show ?thesis by simp
      next
        case (2 b)
        then show ?thesis using active by blast
      qed
    qed
  qed
qed

section \<open>A redirect is sent after its click is recorded\<close>

definition locationOf :: "http_response \<Rightarrow> string option" where
  "locationOf r = map_of (hs_headers r) ''location''"

lemma locationOf_resolution [simp]: "locationOf (sendResolution result) = Some (rd_location result)"
  by (simp add: locationOf_def sendResolution_def bareResponse_def)

text \<open>
  The click an append recorded: a pending batch of the redirector whose stored body is the
  batch text of the click's record.
\<close>

definition clickRecorded :: "redirector_env \<Rightarrow> redirect_click \<Rightarrow> redirector_state \<Rightarrow> redirector_state \<Rightarrow> bool" where
  "clickRecorded env click state state' \<longleftrightarrow>
     (\<exists>batchId. appendDurableBatch (rv_append env)
        (clickBatch (ck_tenant_id click, ck_app_id click, ck_redirector_click_at click,
           redirectorRecord (rv_uuid env) (ck_tenant_id click) (ck_app_id click) (''event:click:'' @ ck_click_id click)
             (ck_redirector_click_at click) (clickPayload click)))
        (rx_inbox state) = (rx_inbox state', Inr batchId))"

lemma redirect_recorded:
  assumes "handleRequest config env request state = (state', Responded r)"
    and "hs_status r = 302" "r \<noteq> sendResolution (fallbackResponse (rc_fallbackUrl config))"
  shows "\<exists>link click location. locationOf r = Some location \<and> tl_status link = LinkActive \<and>
     tenantForRequest config (rv_tables env) (normalizedHost request) = Inr (Some (tl_tenant_id link)) \<and>
     ck_tenant_id click = tl_tenant_id link \<and> ck_app_id click = tl_app_id link \<and>
     withReferrer (rv_urls env) link (Inr (ck_referrer click)) = Inr location \<and>
     clickRecorded env click state state'"
proof (cases rule: handleRequest_cases[OF assms(1)])
  case 1
  then show ?thesis using assms(2,3) by auto
next
  case (2 target remoteAddress link direct between tenant slug)
  obtain result options where sent: "r = sendResolution result" "ro_link options = Some link"
      "ro_fallbackDestination options = rc_fallbackUrl config"
      "resolveRedirect (rv_collate env) (rv_urls env) (rv_random env) options = Inr result"
      "persistClick env result (rx_inbox between) = (rx_inbox state', Inr ())"
    using serveLink_sent[OF 2(4)] assms(3) by auto
  then have away: "rd_location result \<noteq> ro_fallbackDestination options"
    using assms(3) by (auto simp: sendResolution_location fallbackResponse_def)
  obtain click where click: "rd_click result = Some click" "ck_tenant_id click = tl_tenant_id link"
      "ck_app_id click = tl_app_id link" "withReferrer (rv_urls env) link (Inr (ck_referrer click)) = Inr (rd_location result)"
    using resolveRedirect_click[OF sent(4) away] sent(2) by auto
  have "clickRecorded env click state state'"
    unfolding clickRecorded_def
    using persistClick_recorded[OF sent(5)] click(1) 2(5) by (simp add: persistedRecord_def)
  then show ?thesis using sent(1) click 2(2,3) loadLink_Some[OF 2(1)]
    by (intro exI[of _ link] exI[of _ click] exI[of _ "rd_location result"]) simp
qed

section \<open>Requests nobody answers\<close>

lemma persistClick_Inl:
  "persistClick env result inbox = (inbox', Inl e) \<Longrightarrow>
     \<exists>persisted. persistedRecord (rv_uuid env) result = Some persisted \<and>
       appendDurableBatch (rv_append env) (clickBatch persisted) inbox = (inbox', Inl e)"
  by (auto simp: persistClick_def split: option.splits prod.splits sum.splits)

lemma unanswered:
  assumes "handleRequest config env request state = (state', Unhandled e)"
  shows "ua_resolve (rv_urls env) (orElse (hq_url request) ''/'') ''http://openmasu.local'' = None \<or>
    (\<exists>inbox input. appendDurableBatch (rv_append env) input inbox = (rx_inbox state', Inl e))"
proof (cases rule: handleRequest_cases[OF assms])
  case 1
  then show ?thesis by blast
next
  case (2 target remoteAddress link direct between tenant slug)
  obtain result where "persistClick env result (rx_inbox between) = (rx_inbox state', Inl e)"
    using 2(4) unfolding serveLink_def Let_def by (auto split: if_splits prod.splits sum.splits)
  then show ?thesis using persistClick_Inl by blast
qed

section \<open>From the redirect to the attribution\<close>

text \<open>What the evaluator reads of a persisted record.\<close>

definition jsonField :: "json \<Rightarrow> string \<Rightarrow> json option" where
  "jsonField j name = (case j of JObj ps \<Rightarrow> map_of ps name | _ \<Rightarrow> None)"

definition textField :: "json \<Rightarrow> string \<Rightarrow> string option" where
  "textField j name = (case jsonField j name of Some (JStr s) \<Rightarrow> Some s | _ \<Rightarrow> None)"

definition boolField :: "json \<Rightarrow> string \<Rightarrow> bool option" where
  "boolField j name = (case jsonField j name of Some (JBool b) \<Rightarrow> Some b | _ \<Rightarrow> None)"

definition readsClick :: "string \<Rightarrow> string \<Rightarrow> json \<Rightarrow> attempt \<Rightarrow> bool" where
  "readsClick tenantId appId event c \<longleftrightarrow>
     tenant_id c = tenantId \<and> app_id c = appId \<and> Some (event_name c) = textField event ''event_name'' \<and>
     (case jsonField event ''payload'' of None \<Rightarrow> False | Some payload \<Rightarrow>
        p_click_id (at_payload c) = textField payload ''click_id'' \<and>
        p_redirector_click_at (at_payload c) = textField payload ''redirector_click_at'' \<and>
        p_redirector_time_status (at_payload c) = textField payload ''redirector_time_status'' \<and>
        p_bot_prefetch (at_payload c) = boolField payload ''bot_prefetch'')"

lemma optionalField_other: "name \<noteq> other \<Longrightarrow> map_of (optionalField name v) other = None"
  by (auto simp: optionalField_def split: option.splits)

lemma clickPayload_fields:
  "textField (JObj (clickPayload click)) ''click_id'' = Some (ck_click_id click)"
  "textField (JObj (clickPayload click)) ''redirector_click_at'' = Some (ck_redirector_click_at click)"
  "textField (JObj (clickPayload click)) ''redirector_time_status'' = Some ''available''"
  "boolField (JObj (clickPayload click)) ''bot_prefetch'' = (if ck_bot_prefetch click then Some True else None)"
  by (simp_all add: textField_def boolField_def jsonField_def clickPayload_def map_add_def optionalField_other botField_def)

lemma readsClick_fields:
  assumes "readsClick t a (redirectorRecord uuid t a i at' (clickPayload click)) c"
  shows "tenant_id c = t" "app_id c = a" "event_name c = ''click''" "p_click_id (at_payload c) = Some (ck_click_id click)"
    "p_redirector_click_at (at_payload c) = Some (ck_redirector_click_at click)"
    "p_redirector_time_status (at_payload c) = Some ''available''"
    "p_bot_prefetch (at_payload c) = (if ck_bot_prefetch click then Some True else None)"
  using assms clickPayload_fields[of click]
  by (simp_all add: readsClick_def redirectorRecord_def textField_def[of "JObj _" "''event_name''"] jsonField_def[of "JObj _" "''event_name''"]
      jsonField_def[of "JObj _" "''payload''"])

lemma redirected_click_outcome:
  assumes click: "resolveRedirect collate urls random options = Inr out" "rd_click out = Some click" "\<not> ck_bot_prefetch click"
    and ascii: "list_all (\<lambda>p. asciiText (fst p) \<and> asciiText (snd p)) (orElse (ro_deepLinkParams options) [])"
    and sdk: "mapInstallReferrer ResponseOk (Some (ck_referrer click)) = Some mapping"
      "p_click_id (at_payload a) = rm_click_id mapping" "tenant_id a = ck_tenant_id click" "app_id a = ck_app_id click"
    and began: "p_install_begin_at_server (at_payload a) = Some s" "p_install_begin_at_server_status (at_payload a) = None"
    and times: "time (Some (ro_now options)) ''redirector_click_at'' = Inr t0" "time (Some s) ''install_begin_at_server'' = Inr t1"
    and reads: "readsClick (ck_tenant_id click) (ck_app_id click)
        (redirectorRecord uuid (ck_tenant_id click) (ck_app_id click) (''event:click:'' @ ck_click_id click)
           (ck_redirector_click_at click) (clickPayload click)) c"
  shows "isClickOf (tenant_id a) (app_id a) (p_click_id (at_payload a)) c"
    "\<exists>oc. clickOutcome lifecycle a c = Inr oc \<and>
       oc_reason oc = (if 0 \<le> t1 - t0 \<and> t1 - t0 < 7 * DAY_MS then ValidInstallReferrer else WindowExpired) \<and>
       oc_status oc = (if 0 \<le> t1 - t0 \<and> t1 - t0 < 7 * DAY_MS then NonOrganic else Unattributed)"
proof -
  obtain link clickId deferred where link: "ro_link options = Some link"
      "buildDeferredReferrer collate clickId (deepLinkValueOf options link) (ro_deepLinkParams options)
         (orElse (ro_referrerMaximumEncodedCharacters options) 512) = Inr deferred"
      "click = makeClick options link clickId (rd_location out) deferred"
    using resolveRedirect_Inr[OF click(1)] click(2) by auto
  obtain r status where deferred: "deferred = (r, status)" by (cases deferred)
  have fields: "ck_referrer click = r" "ck_click_id click = clickId" "ck_redirector_click_at click = ro_now options"
    by (simp_all add: link(3) deferred makeClick_def)
  note ref = buildDeferredReferrer_Inr(1,2)[OF link(2)[unfolded deferred] ascii]
  obtain ps where ps: "parseForm r = Some ps" "map_of ps ''cid'' = Some clickId" using ref(2) by blast
  have "clickId \<noteq> []" using ref(1) by (auto simp: validClickId_def)
  moreover have "r \<noteq> []" using ps by (auto simp: parseForm_def startsWith_def)
  ultimately have "mapping = referrerMapping ReferrerAvailable ResponseOk False None (Some clickId) False"
    using mapInstallReferrer_read[OF ps] sdk(1) fields(1) by simp
  then have id: "p_click_id (at_payload a) = Some (ck_click_id click)" by (simp add: sdk(2) referrerMapping_def fields(2))
  note c = readsClick_fields[OF reads]
  show "isClickOf (tenant_id a) (app_id a) (p_click_id (at_payload a)) c"
    using c(1-4) id sdk(3,4) by (simp add: isClickOf_def)
  have nonempty: "ro_now options \<noteq> []" "s \<noteq> []" using times by (auto simp: time_def split: if_splits)
  then have "clickOutcome lifecycle a c =
      windowOutcome a c (Some [evidenceRef lifecycle a (record_id c), evidenceRef lifecycle a (record_id a)])"
    using c(5-7) click(3) began fields(3) by (simp add: clickOutcome_def Let_def)
  then show "\<exists>oc. clickOutcome lifecycle a c = Inr oc \<and>
       oc_reason oc = (if 0 \<le> t1 - t0 \<and> t1 - t0 < 7 * DAY_MS then ValidInstallReferrer else WindowExpired) \<and>
       oc_status oc = (if 0 \<le> t1 - t0 \<and> t1 - t0 < 7 * DAY_MS then NonOrganic else Unattributed)"
    using times began(1) c(5) fields(3) by (auto simp: windowOutcome_def Let_def outcome_def)
qed

end
