(* ===== verification/SampleRedirect.thy ===== *)
theory SampleRedirect
  imports RedirectLaws Samples
begin

text \<open>
  A concrete redirector on which the theorems of the handler are applied: one active link to
  a shop, a request that follows it, and an inbox that accepts the click.
\<close>

definition sampleUrl :: "string \<Rightarrow> url" where
  "sampleUrl path = \<lparr>u_protocol = ''https:'', u_username = [], u_password = [], u_hostname = ''shop.example'',
     u_pathname = path, u_origin = ''https://shop.example'', u_searchParams = []\<rparr>"

definition sampleUrls :: url_api where
  "sampleUrls = \<lparr>ua_parse = (\<lambda>s. if s = ''https://shop.example/'' then Some (sampleUrl ''/'') else None),
     ua_resolve = (\<lambda>s _. if s = ''//'' then None else Some (sampleUrl s)),
     ua_print = (\<lambda>u. ''https://shop.example/'')\<rparr>"

definition sampleLink :: tracking_link where
  "sampleLink = \<lparr>tl_tracking_link_id = ''l1'', tl_tenant_id = ''t'', tl_app_id = ''a'', tl_slug = ''abcdefghijkl'',
     tl_destination_kind = CustomHttps, tl_destination_url = ''https://shop.example/'', tl_play_package_name = None,
     tl_network = None, tl_site_id = None, tl_campaign_id = None, tl_ad_group_id = None, tl_creative_id = None,
     tl_deep_link_value = None, tl_deep_link_param_names = None, tl_deferred_deep_link_ttl_seconds = None,
     tl_status = LinkActive\<rparr>"

definition sampleRandom :: "nat \<Rightarrow> nat list" where
  "sampleRandom n = replicate n 0"

definition sampleClickId :: string where
  "sampleClickId = replicate 44 (CHR ''A'')"

definition sampleAead :: aead where
  "sampleAead = \<lparr>ae_seal = (\<lambda>key nonce aad plaintext. (plaintext, [])),
     ae_open = (\<lambda>key nonce aad tag ciphertext. Some ciphertext)\<rparr>"

definition sampleWriteRandom :: write_random where
  "sampleWriteRandom = \<lparr>wr_suffix = [], wr_dataKey = [], wr_nonce = [], wr_wrapNonce = []\<rparr>"

definition sampleAppend :: append_env where
  "sampleAppend = \<lparr>av_aead = sampleAead, av_sha256 = (\<lambda>b. b), av_dateParse = (\<lambda>s. Some 1767225600000),
     av_uuidRandom = replicate 16 0, av_writeRandom = sampleWriteRandom, av_keyRefused = False,
     av_objectRefused = False, av_database = (\<lambda>_. None)\<rparr>"

definition sampleTables :: redirector_tables where
  "sampleTables = \<lparr>rt_resolve_link_host = (\<lambda>_. Inr None), rt_tracking_links_current = Inr [sampleLink],
     rt_link_domains = Inr [], rt_app_link_identities = (\<lambda>_. Inr [])\<rparr>"

definition sampleEnv :: redirector_env where
  "sampleEnv = \<lparr>rv_urls = sampleUrls, rv_collate = compareText, rv_tables = sampleTables, rv_performanceNow = numN 0,
     rv_clock = ''2026-01-01T00:00:00.000Z'', rv_random = sampleRandom, rv_uuid = (\<lambda>_. ''u''), rv_append = sampleAppend\<rparr>"

definition sampleConfig :: redirector_config where
  "sampleConfig = \<lparr>rc_tenantId = ''t'', rc_fallbackUrl = ''https://fallback.example/'', rc_fixedTenant = True,
     rc_referrerMaximum = None, rc_wellKnownCacheSeconds = None, rc_wellKnownMaximumBytes = None,
     rc_clientClassEnabled = None, rc_remoteClickParameter = None\<rparr>"

definition sampleRequest :: http_request where
  "sampleRequest = \<lparr>hq_method = ''GET'', hq_url = Some ''/r/abcdefghijkl'', hq_host = None,
     hq_userAgent = Some ''Android'', hq_purpose = None, hq_secPurpose = None, hq_remoteAddress = None\<rparr>"

definition emptyStore :: payload_store where
  "emptyStore = \<lparr>st_wrappingKey = [], st_objects = [], st_keys = []\<rparr>"

definition emptyLedger :: ledger where
  "emptyLedger = \<lparr>lg_apps = [], lg_batches = [], lg_states = []\<rparr>"

definition sampleRedirector :: redirector_state where
  "sampleRedirector = \<lparr>rx_limiter = newIpBucket (numN 20) (numN 50) 10000, rx_wellKnownLimiter = None,
     rx_inbox = (emptyStore, emptyLedger)\<rparr>"

section \<open>The redirect\<close>

lemma sampleAead_ok: "aead_ok sampleAead"
  by (simp add: aead_ok_def sampleAead_def)

lemma base64Url_zeros: "base64Url (replicate (3 * n) 0) = replicate (4 * n) (CHR ''A'')"
proof (induction n)
  case (Suc n)
  have char: "base64UrlChar 0 = CHR ''A''" by (simp add: base64UrlChar_def)
  have "replicate (3 * Suc n) (0 :: nat) = 0 # 0 # 0 # replicate (3 * n) 0" by (simp add: numeral_3_eq_3)
  then have "base64Url (replicate (3 * Suc n) 0) = CHR ''A'' # CHR ''A'' # CHR ''A'' # CHR ''A'' # replicate (4 * n) (CHR ''A'')"
    by (simp only: base64Url.simps Suc.IH) (simp add: char)
  also have "\<dots> = replicate (4 * Suc n) (CHR ''A'')" by (simp add: numeral_eq_Suc)
  finally show ?case .
qed simp

lemma sampleRandom_id: "randomClickId sampleRandom = sampleClickId"
  using base64Url_zeros[of 11] by (simp add: randomClickId_def sampleRandom_def sampleClickId_def)

lemma sampleClickId_valid: "validClickId sampleClickId"
  by (simp add: validClickId_def sampleClickId_def list_all_iff isIdChar_def isAlphaNum_def)

lemma sample_append:
  assumes "db_tenantId input = ''t''" "db_eventCount input = numN 1"
  shows "\<exists>inbox batchId. appendDurableBatch sampleAppend input (emptyStore, emptyLedger) = (inbox, Inr batchId)"
  using append_succeeds[of input sampleAppend 1767225600000 emptyStore emptyLedger] assms
  by (auto simp: sampleAppend_def emptyStore_def emptyLedger_def validIdentifier_def isIdentifierChar_def isAlphaNum_def)

definition sampleOptions :: "rate_class \<Rightarrow> redirect_options" where
  "sampleOptions rate = redirectOptions sampleConfig sampleEnv sampleLink [] None rate (Some MobileAppEligible) None"

lemma sample_deferred: "\<exists>r. encodeInstallReferrer sampleClickId [] = Inr r \<and> length r \<le> 512"
proof -
  have plain: "formEncode s = s" if "list_all isAlphaNum s" for s
  proof -
    have "encodeByte (of_char c) = [c]" "utf8Char c = [of_char c]" if "isAlphaNum c" for c
      using that by (auto simp: encodeByte_def isAlphaNum_def utf8Char_def Let_def)
    then show ?thesis using that by (induction s) (simp_all add: formEncode_def)
  qed
  have "list_all isAlphaNum ''omv''" "list_all isAlphaNum ''1''" "list_all isAlphaNum ''cid''" "list_all isAlphaNum sampleClickId"
    by (simp_all add: isAlphaNum_def sampleClickId_def list_all_iff)
  note parts = this[THEN plain]
  show ?thesis
    using sampleClickId_valid
    by (simp add: encodeInstallReferrer_def assignAll_def formText_def formPair_def parts) (simp add: sampleClickId_def)
qed

lemma sample_resolve:
  "\<exists>result click. resolveRedirect compareText sampleUrls sampleRandom (sampleOptions rate) = Inr result \<and>
     rd_click result = Some click \<and> rd_location result = ''https://shop.example/'' \<and>
     ck_tenant_id click = ''t'' \<and> ck_app_id click = ''a'' \<and> \<not> ck_bot_prefetch click \<and>
     ck_redirector_click_at click = ''2026-01-01T00:00:00.000Z'' \<and> ck_click_id click = sampleClickId \<and>
     encodeInstallReferrer sampleClickId [] = Inr (ck_referrer click)"
proof -
  obtain r where r: "encodeInstallReferrer sampleClickId [] = Inr r" "length r \<le> 512" using sample_deferred by blast
  have "buildDeferredReferrer compareText sampleClickId None p 512 = Inr (r, NotConfigured)" for p
    by (simp add: buildDeferredReferrer_def r(1) keepTruthy_def)
  then show ?thesis
    using r
    by (simp add: resolveRedirect_def sampleOptions_def redirectOptions_def sampleLink_def sampleConfig_def sampleEnv_def Let_def
        sampleRandom_id deepLinkValueOf_def keepTruthy_def withReferrer_def newUrl_def sampleUrls_def makeClick_def)
qed

lemma sample_allow: "snd (ipAllow key (Fin 0) (newIpBucket (numN 20) (numN 50) 10000))"
proof -
  let ?l = "newIpBucket (numN 20) (numN 50) 10000"
  have ok: "ip_ok ?l" using newIpBucket_ok[of 20 50 10000] by (simp add: numN_def)
  have current: "ipTokenBucket ?l (ipCurrent key (Fin 0) ?l) =
      \<lparr>tb_ratePerSecond = numN 20, tb_burst = numN 50, tb_tokens = numN 50, tb_updatedAt = Fin 0\<rparr>"
    by (simp add: newIpBucket_def ipCurrent_def ipTokenBucket_def)
  have "snd (bucketAllow (Fin 0) (ipTokenBucket ?l (ipCurrent key (Fin 0) ?l)))"
    unfolding current
    using bucketAllow_same_instant[of "\<lparr>tb_ratePerSecond = numN 20, tb_burst = numN 50, tb_tokens = numN 50, tb_updatedAt = Fin 0\<rparr>" 20 50 50 0]
    by (simp add: numN_def)
  then show ?thesis using ipAllow_tokenBucket[OF ipCurrent_ok[OF ok, of key 0]] by auto
qed

lemma sample_class: "classifyClientClass ''Android'' = MobileAppEligible"
  by code_simp

lemma sample_serve:
  "\<exists>state' r. serveLink sampleConfig sampleEnv sampleRequest (sampleUrl ''/r/abcdefghijkl'') addr sampleLink None
     (sampleRedirector\<lparr>rx_limiter := limiter\<rparr>) = (state', Responded r) \<and> hs_status r = 302 \<and>
     locationOf r = Some ''https://shop.example/''"
proof -
  let ?rate = "ipClassify addr limiter"
  obtain result click where r: "resolveRedirect compareText sampleUrls sampleRandom (sampleOptions ?rate) = Inr result"
    "rd_click result = Some click" "rd_location result = ''https://shop.example/''" "ck_tenant_id click = ''t''"
    using sample_resolve by blast
  obtain inbox batchId where "appendDurableBatch sampleAppend (clickBatch (ck_tenant_id click, ck_app_id click,
        ck_redirector_click_at click, redirectorRecord (\<lambda>_. ''u'') (ck_tenant_id click) (ck_app_id click)
          (''event:click:'' @ ck_click_id click) (ck_redirector_click_at click) (clickPayload click)))
      (emptyStore, emptyLedger) = (inbox, Inr batchId)"
    using sample_append[of "clickBatch _"] r(4) by (fastforce simp: clickBatch_def)
  then have persisted: "persistClick sampleEnv result (emptyStore, emptyLedger) = (inbox, Inr ())"
    using r(2) by (simp add: persistClick_def persistedRecord_def sampleEnv_def)
  have prefetch: "\<not> includesText (map lowerChar ([] @ '' '' @ [])) ''prefetch''" by (simp add: lowerChar_def startsWith_def)
  have fields: "rv_collate sampleEnv = compareText" "rv_urls sampleEnv = sampleUrls" "rv_random sampleEnv = sampleRandom"
    "u_searchParams (sampleUrl p) = []" "rc_clientClassEnabled sampleConfig = None" "tl_destination_kind sampleLink = CustomHttps"
    "hq_purpose sampleRequest = None" "hq_secPurpose sampleRequest = None" "hq_userAgent sampleRequest = Some ''Android''" for p
    by (simp_all add: sampleEnv_def sampleUrl_def sampleConfig_def sampleLink_def sampleRequest_def)
  have inbox: "rx_inbox (sampleRedirector\<lparr>rx_limiter := limiter\<rparr>) = (emptyStore, emptyLedger)"
    "rx_limiter (sampleRedirector\<lparr>rx_limiter := limiter\<rparr>) = limiter" by (simp_all add: sampleRedirector_def)
  show ?thesis
    unfolding serveLink_def Let_def fields inbox orElse_simps
    using r(1,3) persisted prefetch
    by (simp add: sample_class sampleOptions_def[symmetric]) (simp add: sendResolution_def bareResponse_def locationOf_def)
qed

lemma sample_match: "matchLinkPath ''/r/abcdefghijkl'' = Some (''abcdefghijkl'', None)"
  by (simp add: matchLinkPath_def startsWith_def isIdChar_def isAlphaNum_def)

lemma sample_tenant: "tenantForRequest sampleConfig (rv_tables sampleEnv) host = Inr (Some ''t'')"
  by (simp add: tenantForRequest_def sampleConfig_def)

lemma sample_link: "loadLink (rv_tables sampleEnv) ''t'' ''abcdefghijkl'' = Inr (Some sampleLink)"
  by (simp add: loadLink_def sampleEnv_def sampleTables_def sampleLink_def validIdentifier_def isIdentifierChar_def isAlphaNum_def)

lemma sample_handled:
  "\<exists>state' r. handleRequest sampleConfig sampleEnv sampleRequest sampleRedirector = (state', Responded r) \<and> hs_status r = 302 \<and>
     r \<noteq> sendResolution (fallbackResponse (rc_fallbackUrl sampleConfig))"
proof -
  obtain limiter where l: "ipAllow ''unknown'' (numN 0) (newIpBucket (numN 20) (numN 50) 10000) = (limiter, True)"
    using sample_allow[of "''unknown''"] by (metis (full_types) numN_def of_int_0 prod.collapse)
  obtain state' r where s: "serveLink sampleConfig sampleEnv sampleRequest (sampleUrl ''/r/abcdefghijkl'') ''unknown'' sampleLink None
      (sampleRedirector\<lparr>rx_limiter := limiter\<rparr>) = (state', Responded r)" "hs_status r = 302" "locationOf r = Some ''https://shop.example/''"
    using sample_serve by blast
  have fields: "ua_resolve (rv_urls sampleEnv) (orElse (hq_url sampleRequest) ''/'') ''http://openmasu.local'' = Some (sampleUrl ''/r/abcdefghijkl'')"
    "hq_method sampleRequest = ''GET''" "u_pathname (sampleUrl p) = p" "orElse (hq_remoteAddress sampleRequest) ''unknown'' = ''unknown''"
    "rv_performanceNow sampleEnv = numN 0" "rx_limiter sampleRedirector = newIpBucket (numN 20) (numN 50) 10000" "tl_status sampleLink = LinkActive" for p
    by (simp_all add: sampleEnv_def sampleUrls_def sampleRequest_def sampleUrl_def sampleRedirector_def sampleLink_def)
  have "handleRequest sampleConfig sampleEnv sampleRequest sampleRedirector = (state', Responded r)"
    using s(1) by (simp add: handleRequest_def fields sample_tenant serveRedirect_def sample_match l sample_link keepTruthy_def)
  moreover have "r \<noteq> sendResolution (fallbackResponse (rc_fallbackUrl sampleConfig))"
    using s(3) by (auto simp: fallbackResponse_def sampleConfig_def)
  ultimately show ?thesis using s(2) by blast
qed

section \<open>The click and the install of the redirect\<close>

definition redirectClickAttempt :: attempt where
  "redirectClickAttempt = clickAttempt\<lparr>at_record := sampleClick\<lparr>r_payload := emptyPayload\<lparr>
     p_click_id := Some sampleClickId, p_redirector_click_at := Some ''2026-01-01T00:00:00.000Z'',
     p_redirector_time_status := Some ''available''\<rparr>\<rparr>\<rparr>"

definition redirectInstallAttempt :: attempt where
  "redirectInstallAttempt = installAttempt\<lparr>at_record := sampleInstall\<lparr>r_payload := emptyPayload\<lparr>
     p_click_id := Some sampleClickId, p_install_begin_at_server := Some ''2026-01-01T00:00:01.000Z''\<rparr>\<rparr>\<rparr>"

lemma sample_referrer:
  assumes "encodeInstallReferrer sampleClickId [] = Inr r"
  shows "mapInstallReferrer ResponseOk (Some r) =
    Some (referrerMapping ReferrerAvailable ResponseOk False None (Some sampleClickId) False)"
proof -
  obtain ps where ps: "parseForm r = Some ps" "map_of ps ''cid'' = Some sampleClickId"
    using referrer_cid[OF assms] by auto
  moreover have "r \<noteq> []" using ps by (auto simp: parseForm_def startsWith_def)
  ultimately show ?thesis by (intro mapInstallReferrer_read) (simp_all add: sampleClickId_def)
qed

lemma sample_reads:
  assumes "ck_click_id click = sampleClickId" "ck_redirector_click_at click = ''2026-01-01T00:00:00.000Z''" "\<not> ck_bot_prefetch click"
  shows "readsClick ''t'' ''a'' (redirectorRecord uuid ''t'' ''a'' i at' (clickPayload click)) redirectClickAttempt"
proof -
  note fields = clickPayload_fields[of click]
  have parts: "textField (redirectorRecord uuid ''t'' ''a'' i at' (clickPayload click)) ''event_name'' = Some ''click''"
    "jsonField (redirectorRecord uuid ''t'' ''a'' i at' (clickPayload click)) ''payload'' = Some (JObj (clickPayload click))"
    by (simp_all add: textField_def jsonField_def redirectorRecord_def)
  show ?thesis
    using fields assms by (simp add: readsClick_def parts redirectClickAttempt_def clickAttempt_def sample_defs)
qed

section \<open>A batch and its key\<close>

definition sampleBatch :: durable_batch_input where
  "sampleBatch = \<lparr>db_tenantId = ''t'', db_appId = ''a'', db_producer = ''redirector'', db_body = [], db_eventCount = numN 1,
     db_receivedAt = ''2026-01-01T00:00:00.000Z'', db_sdkKeyId = None, db_installationKeyId = None, db_requestNonce = None,
     db_requestTimestampMs = None\<rparr>"

definition sampleScope :: payload_scope where
  "sampleScope = \<lparr>sc_tenantId = ''t'', sc_appId = ''a'', sc_objectId = ''o''\<rparr>"

lemma sample_scope_key:
  "objectKeyId sampleScope sampleWriteRandom = ''t-a-o.''" "\<not> includesText (objectKeyId sampleScope sampleWriteRandom) ''..''"
  "length (objectKeyId sampleScope sampleWriteRandom) \<le> 512"
  by (simp_all add: objectKeyId_def safeName_def sampleScope_def sampleWriteRandom_def hexText_def isReferenceChar_def isAlphaNum_def
      startsWith_def)

lemma sample_key:
  "length (objectKeyId (batchScope (uuidV7 (replicate 16 0) 1767225600000) sampleBatch) sampleWriteRandom) \<le> 512 \<and>
   \<not> includesText (objectKeyId (batchScope (uuidV7 (replicate 16 0) 1767225600000) sampleBatch) sampleWriteRandom) ''..''"
  by code_simp

text \<open>An app with an Android identity only, as the database returns it.\<close>

definition sampleAndroidApp :: app_link_identity where
  "sampleAndroidApp = \<lparr>al_app_id = ''a'', al_android_package_name = Value ''com.app'',
     al_android_sha256_fingerprints = Value [''AA''], al_apple_team_id = Null, al_apple_bundle_id = Null\<rparr>"

end
