(* ===== verification/ApplePostback.thy ===== *)
theory ApplePostback
  imports Json Uuid
begin

text \<open>
  Verification of Apple's postbacks: the message SKAdNetwork signs, and the checks of a
  SKAdNetwork and of an AdAttributionKit postback. The signature check, the decoding of a
  base64url JSON text and the conversion of a text to a number are parameters; a message is
  the list of its fields, which the code joins with an invisible separator.
\<close>

type_synonym json_object = "(string \<times> json) list"

datatype failure_reason = Malformed | SignatureInvalid | UnknownKey | DevelopmentPostbackRejected

datatype key_environment = Production | Development

datatype verification_result =
    Verified json_object json_object key_environment
  | NotVerified failure_reason json_object "key_environment option" "json_object option"

record apple_api =
  ap_verify :: "string \<Rightarrow> bytes \<Rightarrow> string \<Rightarrow> bool res"
  ap_decodeJson :: "string \<Rightarrow> json res"
  ap_toNumber :: "string \<Rightarrow> number"
  ap_digits :: "rat \<Rightarrow> string"

section \<open>Required fields\<close>

definition requiredString :: "string \<Rightarrow> json option \<Rightarrow> string res" where
  "requiredString name value =
     (case value of
        Some (JStr s) \<Rightarrow> if s = [] then Inl (JsError (''missing_'' @ name)) else Inr s
      | _ \<Rightarrow> Inl (JsError (''missing_'' @ name)))"

definition isIntegerNumber :: "number \<Rightarrow> bool" where
  "isIntegerNumber n = (case n of Fin x \<Rightarrow> of_int \<lfloor>x\<rfloor> = x | _ \<Rightarrow> False)"

definition requiredInteger :: "(rat \<Rightarrow> string) \<Rightarrow> string \<Rightarrow> json option \<Rightarrow> string res" where
  "requiredInteger digits name value =
     (case value of
        Some (JNum n) \<Rightarrow>
          if \<not> isIntegerNumber n \<or> lessN n (numN 0) then Inl (JsError (''invalid_'' @ name)) else Inr (numberText digits n)
      | _ \<Rightarrow> Inl (JsError (''invalid_'' @ name)))"

definition requiredBoolean :: "string \<Rightarrow> json option \<Rightarrow> string res" where
  "requiredBoolean name value =
     (case value of
        Some (JBool b) \<Rightarrow> Inr (if b then ''true'' else ''false'')
      | _ \<Rightarrow> Inl (JsError (''invalid_'' @ name)))"

definition optionalInteger :: "(rat \<Rightarrow> string) \<Rightarrow> string \<Rightarrow> json option \<Rightarrow> string option res" where
  "optionalInteger digits name value =
     (if value = None then Inr None else bindR (requiredInteger digits name value) (\<lambda>s. Inr (Some s)))"

definition stringField :: "json_object \<Rightarrow> string \<Rightarrow> string res" where
  "stringField body name = requiredString name (map_of body name)"

definition integerField :: "apple_api \<Rightarrow> json_object \<Rightarrow> string \<Rightarrow> string res" where
  "integerField api body name = requiredInteger (ap_digits api) name (map_of body name)"

definition booleanField :: "json_object \<Rightarrow> string \<Rightarrow> string res" where
  "booleanField body name = requiredBoolean name (map_of body name)"

section \<open>The signed message\<close>

definition skanFields3 :: "apple_api \<Rightarrow> json_object \<Rightarrow> string list \<Rightarrow> string list res" where
  "skanFields3 api body common =
     bindR (integerField api body ''campaign-id'') (\<lambda>campaign.
     bindR (integerField api body ''app-id'') (\<lambda>app.
     bindR (stringField body ''transaction-id'') (\<lambda>transaction.
     bindR (booleanField body ''redownload'') (\<lambda>redownload.
     bindR (optionalInteger (ap_digits api) ''source-app-id'' (map_of body ''source-app-id'')) (\<lambda>sourceAppId.
     bindR (integerField api body ''fidelity-type'') (\<lambda>fidelity.
     bindR (booleanField body ''did-win'') (\<lambda>didWin.
       Inr (common @ [campaign, app, transaction, redownload] @ (case sourceAppId of None \<Rightarrow> [] | Some s \<Rightarrow> [s]) @
              [fidelity, didWin]))))))))"

definition skanFields4 :: "apple_api \<Rightarrow> json_object \<Rightarrow> string list \<Rightarrow> string list res" where
  "skanFields4 api body common =
     bindR (if map_of body ''source-app-id'' \<noteq> None then integerField api body ''source-app-id''
            else stringField body ''source-domain'') (\<lambda>source.
     bindR (stringField body ''source-identifier'') (\<lambda>sourceIdentifier.
     bindR (integerField api body ''app-id'') (\<lambda>app.
     bindR (stringField body ''transaction-id'') (\<lambda>transaction.
     bindR (booleanField body ''redownload'') (\<lambda>redownload.
     bindR (integerField api body ''fidelity-type'') (\<lambda>fidelity.
     bindR (booleanField body ''did-win'') (\<lambda>didWin.
     bindR (integerField api body ''postback-sequence-index'') (\<lambda>sequenceIndex.
       Inr (common @ [sourceIdentifier, app, transaction, redownload, source, fidelity, didWin, sequenceIndex])))))))))"

definition skanSignedMessage :: "apple_api \<Rightarrow> json_object \<Rightarrow> string list res" where
  "skanSignedMessage api body =
     bindR (stringField body ''version'') (\<lambda>version.
     let major = ap_toNumber api (hd (splitOn (CHR ''.'') version)) in
     bindR (stringField body ''ad-network-id'') (\<lambda>network.
       if major = Fin 3 then skanFields3 api body [version, network]
       else if major = Fin 4 then skanFields4 api body [version, network]
       else Inl (JsError ''unsupported_version'')))"

text \<open>The bytes of \<^verbatim>\<open>fields.join("\u2063")\<close>.\<close>

fun joinedBytes :: "string list \<Rightarrow> bytes" where
  "joinedBytes [] = []"
| "joinedBytes [s] = utf8Bytes s"
| "joinedBytes (s # t # ss) = utf8Bytes s @ [0xE2, 0x81, 0xA3] @ joinedBytes (t # ss)"

section \<open>SKAdNetwork\<close>

definition skanUnsignedFields :: "string list" where
  "skanUnsignedFields = [''conversion-value'', ''coarse-conversion-value'', ''country-code'']"

definition pickFields :: "string list \<Rightarrow> json_object \<Rightarrow> json_object" where
  "pickFields names body =
     concat (map (\<lambda>name. case map_of body name of None \<Rightarrow> [] | Some v \<Rightarrow> [(name, v)]) names)"

text \<open>A thrown error ends as \<open>Malformed\<close>: the checks are in one \<^verbatim>\<open>try\<close>.\<close>

definition orMalformed :: "json_object \<Rightarrow> verification_result res \<Rightarrow> verification_result" where
  "orMalformed observed r = (case r of Inl e \<Rightarrow> NotVerified Malformed observed None None | Inr v \<Rightarrow> v)"

definition verifySkAdNetworkPostback :: "apple_api \<Rightarrow> string \<Rightarrow> json_object \<Rightarrow> verification_result" where
  "verifySkAdNetworkPostback api publicKey body =
     (let observed = pickFields skanUnsignedFields body in
      orMalformed observed
        (bindR (stringField body ''attribution-signature'') (\<lambda>signature.
         bindR (skanSignedMessage api body) (\<lambda>message.
         bindR (ap_verify api publicKey (joinedBytes message) signature) (\<lambda>valid.
           Inr (if \<not> valid then NotVerified SignatureInvalid observed (Some Production) None
                else Verified
                  (filter (\<lambda>p. fst p \<noteq> ''attribution-signature'' \<and> fst p \<notin> set skanUnsignedFields) body)
                  observed Production))))))"

section \<open>AdAttributionKit\<close>

definition decodeBase64UrlJson :: "apple_api \<Rightarrow> string \<Rightarrow> json_object res" where
  "decodeBase64UrlJson api value =
     bindR (ap_decodeJson api value) (\<lambda>parsed. case parsed of
        JObj ps \<Rightarrow> Inr ps
      | _ \<Rightarrow> Inl (JsError ''invalid_json_object''))"

definition keyEnvironment :: "string \<Rightarrow> key_environment option" where
  "keyEnvironment kid =
     (if kid = ''apple-cas-identifier/0'' then Some Production
      else if kid = ''apple-development-identifier/0'' \<or> kid = ''apple-development-identifier/1'' then Some Development
      else None)"

definition aakUnsignedFields :: "string list" where
  "aakUnsignedFields = [''conversion-value'', ''coarse-conversion-value'', ''ad-interaction-type'', ''country-code'']"

definition verifyWithKid ::
  "apple_api \<Rightarrow> bool \<Rightarrow> (string \<times> string) list \<Rightarrow> json_object \<Rightarrow> json_object \<Rightarrow> string \<Rightarrow> string \<Rightarrow> string
     \<Rightarrow> verification_result res" where
  "verifyWithKid api acceptDevelopment keys observed claims signedPart signature kid =
     (case keyEnvironment kid of
        None \<Rightarrow> Inr (NotVerified UnknownKey observed None (Some claims))
      | Some environment \<Rightarrow>
          if environment = Development \<and> \<not> acceptDevelopment
          then Inr (NotVerified DevelopmentPostbackRejected observed (Some environment) (Some claims))
          else (case keepTruthy (map_of keys kid) of
              None \<Rightarrow> Inr (NotVerified UnknownKey observed (Some environment) (Some claims))
            | Some encodedKey \<Rightarrow>
                bindR (ap_verify api encodedKey (utf8Bytes signedPart) signature) (\<lambda>valid.
                  Inr (if valid then Verified claims observed environment
                       else NotVerified SignatureInvalid observed (Some environment) (Some claims)))))"

definition headerKid :: "json_object \<Rightarrow> string option" where
  "headerKid header = (case (map_of header ''alg'', map_of header ''kid'') of
     (Some (JStr alg), Some (JStr kid)) \<Rightarrow> if alg \<noteq> ''ES256'' then None else Some kid
   | _ \<Rightarrow> None)"

definition verifyJws ::
  "apple_api \<Rightarrow> bool \<Rightarrow> (string \<times> string) list \<Rightarrow> json_object \<Rightarrow> string \<Rightarrow> string \<Rightarrow> string \<Rightarrow> verification_result res" where
  "verifyJws api acceptDevelopment keys observed protected payload signature =
     bindR (decodeBase64UrlJson api protected) (\<lambda>header.
     bindR (decodeBase64UrlJson api payload) (\<lambda>claims.
     case headerKid header of
       None \<Rightarrow> Inr (NotVerified Malformed observed None None)
     | Some kid \<Rightarrow>
         verifyWithKid api acceptDevelopment keys observed claims (protected @ ''.'' @ payload) signature kid))"

definition verifyAdAttributionKitPostback ::
  "apple_api \<Rightarrow> bool \<Rightarrow> (string \<times> string) list \<Rightarrow> json_object \<Rightarrow> verification_result" where
  "verifyAdAttributionKitPostback api acceptDevelopment keys body =
     (let observed = pickFields aakUnsignedFields body in
      orMalformed observed
        (bindR (stringField body ''jws-string'') (\<lambda>jws.
         case splitOn (CHR ''.'') jws of
           [protected, payload, signature] \<Rightarrow>
             if protected = [] \<or> payload = [] \<or> signature = []
             then Inr (NotVerified Malformed observed None None)
             else verifyJws api acceptDevelopment keys observed protected payload signature
         | _ \<Rightarrow> Inr (NotVerified Malformed observed None None))))"

section \<open>What a verified postback says\<close>

lemma skan_verified:
  "verifySkAdNetworkPostback api key body = Verified authenticated observed environment \<longleftrightarrow>
     (\<exists>signature message. stringField body ''attribution-signature'' = Inr signature \<and>
        skanSignedMessage api body = Inr message \<and>
        ap_verify api key (joinedBytes message) signature = Inr True) \<and>
     authenticated = filter (\<lambda>p. fst p \<noteq> ''attribution-signature'' \<and> fst p \<notin> set skanUnsignedFields) body \<and>
     observed = pickFields skanUnsignedFields body \<and> environment = Production"
  by (cases "stringField body ''attribution-signature''"; cases "skanSignedMessage api body")
    (auto simp: verifySkAdNetworkPostback_def Let_def orMalformed_def bindR_def split: sum.splits if_splits)

text \<open>
  The fields the signature covers: the properties a message is made of. A body that differs
  in others has the same message.
\<close>

definition signedNames :: "string list" where
  "signedNames = [''version'', ''ad-network-id'', ''campaign-id'', ''app-id'', ''transaction-id'', ''redownload'',
     ''source-app-id'', ''source-domain'', ''source-identifier'', ''fidelity-type'', ''did-win'', ''postback-sequence-index'']"

lemma skanSignedMessage_cong:
  assumes "\<And>name. name \<in> set signedNames \<Longrightarrow> map_of body' name = map_of body name"
  shows "skanSignedMessage api body' = skanSignedMessage api body"
proof -
  have fields: "stringField body' name = stringField body name" "integerField api body' name = integerField api body name"
    "booleanField body' name = booleanField body name" "map_of body' name = map_of body name"
    if "name \<in> set signedNames" for name
    using assms[OF that] by (simp_all add: stringField_def integerField_def booleanField_def)
  have branches: "skanFields3 api body' = skanFields3 api body" "skanFields4 api body' = skanFields4 api body"
    by (rule ext, simp add: skanFields3_def skanFields4_def fields signedNames_def)+
  have strings: "stringField body' ''version'' = stringField body ''version''"
    "stringField body' ''ad-network-id'' = stringField body ''ad-network-id''"
    by (simp_all add: fields(1) signedNames_def)
  show ?thesis unfolding skanSignedMessage_def branches strings by (rule refl)
qed

lemma skan_extra_field:
  assumes verified: "verifySkAdNetworkPostback api key body = Verified authenticated observed environment"
    and extra: "name \<notin> set signedNames" "name \<noteq> ''attribution-signature''" "name \<notin> set skanUnsignedFields"
  shows "verifySkAdNetworkPostback api key (body @ [(name, v)]) = Verified (authenticated @ [(name, v)]) observed environment"
proof -
  have same: "map_of (body @ [(name, v)]) other = map_of body other" if "other \<noteq> name" for other
    using that by (simp add: map_add_def split: option.split)
  have "skanSignedMessage api (body @ [(name, v)]) = skanSignedMessage api body"
    by (rule skanSignedMessage_cong, rule same) (use extra(1) in auto)
  moreover have "stringField (body @ [(name, v)]) ''attribution-signature'' = stringField body ''attribution-signature''"
    using same[of "''attribution-signature''"] extra(2) by (simp add: stringField_def)
  moreover have "pickFields skanUnsignedFields (body @ [(name, v)]) = pickFields skanUnsignedFields body"
    using same extra(3) by (auto simp: pickFields_def skanUnsignedFields_def)
  ultimately show ?thesis using verified extra(2,3) by (simp add: skan_verified)
qed

text \<open>In version 4 the campaign of a version 3 postback is not in the message either.\<close>

lemma skan4_campaign:
  assumes "ap_toNumber api (hd (splitOn (CHR ''.'') version)) = Fin 4" "stringField body ''version'' = Inr version"
    and "map_of body ''campaign-id'' = None"
  shows "skanSignedMessage api (body @ [(''campaign-id'', v)]) = skanSignedMessage api body"
proof -
  have same: "map_of (body @ [(''campaign-id'', v)]) other = map_of body other" if "other \<noteq> ''campaign-id''" for other
    using that by (simp add: map_add_def split: option.split)
  then have fields: "stringField (body @ [(''campaign-id'', v)]) name = stringField body name"
    "integerField api (body @ [(''campaign-id'', v)]) name = integerField api body name"
    "booleanField (body @ [(''campaign-id'', v)]) name = booleanField body name"
    if "name \<noteq> ''campaign-id''" for name
    using that by (simp_all add: stringField_def integerField_def booleanField_def)
  have branch: "skanFields4 api (body @ [(''campaign-id'', v)]) = skanFields4 api body"
    by (rule ext) (simp add: skanFields4_def fields same del: map_of_append)
  have strings: "stringField (body @ [(''campaign-id'', v)]) ''version'' = stringField body ''version''"
    "stringField (body @ [(''campaign-id'', v)]) ''ad-network-id'' = stringField body ''ad-network-id''"
    by (simp_all add: fields(1))
  show ?thesis unfolding skanSignedMessage_def branch strings assms(2) by (simp add: Let_def assms(1))
qed

lemma headerKid_Some:
  "headerKid header = Some kid \<longleftrightarrow>
     map_of header ''alg'' = Some (JStr ''ES256'') \<and> map_of header ''kid'' = Some (JStr kid)"
  by (auto simp: headerKid_def split: option.splits json.splits if_splits)

lemma verifyWithKid_Verified:
  "verifyWithKid api dev keys obs claims signedPart signature kid = Inr (Verified authenticated observed environment) \<longleftrightarrow>
     keyEnvironment kid = Some environment \<and> (environment = Production \<or> dev) \<and>
     (\<exists>encodedKey. keepTruthy (map_of keys kid) = Some encodedKey \<and>
        ap_verify api encodedKey (utf8Bytes signedPart) signature = Inr True) \<and>
     authenticated = claims \<and> observed = obs"
proof (cases "keyEnvironment kid")
  case (Some env)
  show ?thesis
  proof (cases "env = Development \<and> \<not> dev")
    case False
    have env: "env = Production \<or> dev" using False by (cases env) auto
    show ?thesis
    proof (cases "keepTruthy (map_of keys kid)")
      case None
      with Some False show ?thesis by (simp add: verifyWithKid_def)
    next
      case (Some key)
      with \<open>keyEnvironment kid = Some env\<close> False env show ?thesis
        by (cases "ap_verify api key (utf8Bytes signedPart) signature") (auto simp: verifyWithKid_def)
    qed
  qed (use Some in \<open>simp add: verifyWithKid_def\<close>)
qed (simp add: verifyWithKid_def)

lemma verifyJws_Verified:
  "verifyJws api dev keys obs protected payload signature = Inr (Verified authenticated observed environment) \<longleftrightarrow>
     (\<exists>header claims kid. decodeBase64UrlJson api protected = Inr header \<and> decodeBase64UrlJson api payload = Inr claims \<and>
        headerKid header = Some kid \<and>
        verifyWithKid api dev keys obs claims (protected @ ''.'' @ payload) signature kid
          = Inr (Verified authenticated observed environment))"
  by (cases "decodeBase64UrlJson api protected"; cases "decodeBase64UrlJson api payload")
    (auto simp: verifyJws_def split: option.splits)

lemma orMalformed_Verified [simp]:
  "orMalformed obs r = Verified authenticated observed environment \<longleftrightarrow> r = Inr (Verified authenticated observed environment)"
  by (cases r) (simp_all add: orMalformed_def)

lemma aak_verified:
  assumes "verifyAdAttributionKitPostback api acceptDevelopment keys body = Verified authenticated observed environment"
  shows "\<exists>jws protected payload signature header kid encodedKey.
     stringField body ''jws-string'' = Inr jws \<and> splitOn (CHR ''.'') jws = [protected, payload, signature] \<and>
     decodeBase64UrlJson api protected = Inr header \<and> map_of header ''alg'' = Some (JStr ''ES256'') \<and>
     map_of header ''kid'' = Some (JStr kid) \<and> keyEnvironment kid = Some environment \<and>
     (environment = Production \<or> acceptDevelopment) \<and> map_of keys kid = Some encodedKey \<and>
     ap_verify api encodedKey (utf8Bytes (protected @ ''.'' @ payload)) signature = Inr True \<and>
     decodeBase64UrlJson api payload = Inr authenticated"
proof -
  let ?obs = "pickFields aakUnsignedFields body"
  obtain jws where jws: "stringField body ''jws-string'' = Inr jws"
    using assms by (cases "stringField body ''jws-string''") (simp_all add: verifyAdAttributionKitPostback_def Let_def)
  obtain protected payload signature where parts: "splitOn (CHR ''.'') jws = [protected, payload, signature]"
    and v: "verifyJws api acceptDevelopment keys ?obs protected payload signature =
      Inr (Verified authenticated observed environment)"
    using assms by (auto simp: verifyAdAttributionKitPostback_def Let_def jws split: list.splits if_splits)
  obtain header claims kid where header: "decodeBase64UrlJson api protected = Inr header" "headerKid header = Some kid"
    and claims: "decodeBase64UrlJson api payload = Inr claims"
    and w: "verifyWithKid api acceptDevelopment keys ?obs claims (protected @ ''.'' @ payload) signature kid
          = Inr (Verified authenticated observed environment)"
    using v unfolding verifyJws_Verified by blast
  obtain encodedKey where key: "keepTruthy (map_of keys kid) = Some encodedKey"
    "ap_verify api encodedKey (utf8Bytes (protected @ ''.'' @ payload)) signature = Inr True"
    and rest: "keyEnvironment kid = Some environment" "environment = Production \<or> acceptDevelopment" "authenticated = claims"
    using w unfolding verifyWithKid_Verified by blast
  have "map_of keys kid = Some encodedKey" using key(1) by (auto simp: keepTruthy_def split: option.splits if_splits)
  with jws parts header claims key(2) rest show ?thesis unfolding headerKid_Some by blast
qed

end
