(* ===== verification/SampleApple.thy ===== *)
theory SampleApple
  imports ApplePostback
begin

text \<open>
  A concrete SKAdNetwork postback of version 4 and a concrete AdAttributionKit postback, with a
  signature primitive that accepts one signature text, for the theorems of the package.
\<close>

definition samplePostback :: json_object where
  "samplePostback =
     [(''version'', JStr ''4.0''), (''ad-network-id'', JStr ''net.skadnetwork''), (''source-identifier'', JStr ''5239''),
      (''app-id'', JNum (numN 525463029)), (''transaction-id'', JStr ''tx''), (''redownload'', JBool False),
      (''source-domain'', JStr ''shop.example''), (''fidelity-type'', JNum (numN 1)), (''did-win'', JBool True),
      (''postback-sequence-index'', JNum (numN 0)), (''conversion-value'', JNum (numN 20)),
      (''attribution-signature'', JStr ''good'')]"

definition sampleAakBody :: json_object where
  "sampleAakBody = [(''jws-string'', JStr ''p.c.good''), (''country-code'', JStr ''US'')]"

definition sampleAppleApi :: apple_api where
  "sampleAppleApi = \<lparr>ap_verify = (\<lambda>key bytes signature. Inr (signature = ''good'')),
     ap_decodeJson = (\<lambda>s. if s = ''p'' then Inr (JObj [(''alg'', JStr ''ES256''), (''kid'', JStr ''apple-cas-identifier/0'')])
        else Inr (JObj [(''advertised-item-identifier'', JNum (numN 1))])),
     ap_toNumber = (\<lambda>s. if s = ''4'' then Fin 4 else NaN), ap_digits = (\<lambda>_. ''0'')\<rparr>"

lemma sample_message: "\<exists>message. skanSignedMessage sampleAppleApi samplePostback = Inr message"
  by (simp add: skanSignedMessage_def skanFields4_def stringField_def integerField_def booleanField_def requiredString_def
      requiredInteger_def requiredBoolean_def isIntegerNumber_def samplePostback_def sampleAppleApi_def numN_def)

lemma sample_verified:
  "verifySkAdNetworkPostback sampleAppleApi ''k'' samplePostback =
     Verified (filter (\<lambda>p. fst p \<noteq> ''attribution-signature'' \<and> fst p \<notin> set skanUnsignedFields) samplePostback)
       (pickFields skanUnsignedFields samplePostback) Production"
  using sample_message
  by (simp add: skan_verified) (simp add: stringField_def requiredString_def samplePostback_def sampleAppleApi_def)

lemma sample_aak_verified:
  "verifyAdAttributionKitPostback sampleAppleApi False [(''apple-cas-identifier/0'', ''k'')] sampleAakBody =
     Verified [(''advertised-item-identifier'', JNum (numN 1))] [(''country-code'', JStr ''US'')] Production"
  by (simp add: verifyAdAttributionKitPostback_def verifyJws_def verifyWithKid_def headerKid_def keyEnvironment_def
      decodeBase64UrlJson_def stringField_def requiredString_def sampleAakBody_def sampleAppleApi_def aakUnsignedFields_def
      pickFields_def keepTruthy_def orMalformed_def)

end
