(* ===== verification/Csv.thy ===== *)
theory Csv
  imports Json
begin

text \<open>
  Tables as comma-separated text: the writers of the reporting endpoints and the reader of the
  import. The reader is the code's loop over the characters; its state is the cell, the row and
  the rows read so far, and whether it is inside quotes.
\<close>

section \<open>Writing\<close>

text \<open>\<^verbatim>\<open>/[",\r\n]/.test(text) ? `"${text.replaceAll('"', '""')}"` : text\<close>\<close>

definition csvSpecial :: "char set" where
  "csvSpecial = {CHR 0x22, CHR '','', CHR 0x0D, CHR 0x0A}"

definition quoteCell :: "string \<Rightarrow> string" where
  "quoteCell text =
     (if list_ex (\<lambda>c. c \<in> csvSpecial) text
      then CHR 0x22 # concat (map (\<lambda>c. if c = CHR 0x22 then [CHR 0x22, CHR 0x22] else [c]) text) @ [CHR 0x22]
      else text)"

definition cellText :: "(rat \<Rightarrow> string) \<Rightarrow> json option \<Rightarrow> string" where
  "cellText digits value =
     (case value of
        None \<Rightarrow> []
      | Some JNull \<Rightarrow> []
      | Some (JArr xs) \<Rightarrow> jsonText digits (JArr xs)
      | Some (JObj ps) \<Rightarrow> jsonText digits (JObj ps)
      | Some v \<Rightarrow> jsString digits v)"

definition csvCell :: "(rat \<Rightarrow> string) \<Rightarrow> json option \<Rightarrow> string" where
  "csvCell digits value = quoteCell (cellText digits value)"

definition encodeCsv :: "(rat \<Rightarrow> string) \<Rightarrow> (string \<times> json) list list \<Rightarrow> string list \<Rightarrow> string" where
  "encodeCsv digits rows columns =
     joinWith [CHR 0x0A]
       (joinWith '','' columns #
        map (\<lambda>row. joinWith '','' (map (\<lambda>column. csvCell digits (map_of row column)) columns)) rows) @ [CHR 0x0A]"

definition metricColumns :: "string list" where
  "metricColumns = [''metric_run_id'', ''metric_name'', ''metric_definition_version'', ''policy_versions'',
     ''input_received_at_watermark'', ''input_snapshot_id'', ''data_freshness'',
     ''value_state'', ''undefined_reason'', ''value_unscaled'', ''value_type'',
     ''currency'', ''amount_scale'', ''ratio_scale'', ''grouping'',
     ''rule_bundle_id'', ''rule_bundle_hash'', ''aggregation_time_zone'', ''computed_at'',
     ''reproducibility_status'', ''supersedes_metric_run_id'', ''input_ledger_position'',
     ''grouping_digest'', ''superseded'']"

definition differenceColumns :: "string list" where
  "differenceColumns = [''reconciliation_id'', ''input_snapshot_id'', ''external_snapshot_id'',
     ''difference_reason_code'', ''difference_reason_version'', ''matching_keys'',
     ''candidates'', ''exclusions'', ''windows'', ''joins'', ''freshness'',
     ''supersedes_reconciliation_id'', ''superseded'']"

definition fraudAuditColumns :: "string list" where
  "fraudAuditColumns = [''metric_date'', ''campaign_id'', ''network'', ''site_id'', ''remote_click_refs'',
     ''clicks'', ''installs'', ''suspected'', ''confirmed'', ''excluded'', ''quarantined'']"

text \<open>The fraud report writes arrays with bars between their items and ends its lines with two characters.\<close>

definition auditCellText :: "(rat \<Rightarrow> string) \<Rightarrow> json option \<Rightarrow> string" where
  "auditCellText digits value =
     (case value of
        None \<Rightarrow> []
      | Some JNull \<Rightarrow> []
      | Some (JArr xs) \<Rightarrow> joinWith ''|'' (map (\<lambda>x. if x = JNull then [] else jsString digits x) xs)
      | Some v \<Rightarrow> jsString digits v)"

definition auditCell :: "(rat \<Rightarrow> string) \<Rightarrow> json option \<Rightarrow> string" where
  "auditCell digits value = quoteCell (auditCellText digits value)"

definition encodeFraudCsv :: "(rat \<Rightarrow> string) \<Rightarrow> (string \<times> json) list list \<Rightarrow> string list \<Rightarrow> string" where
  "encodeFraudCsv digits rows columns =
     joinWith [CHR 0x0D, CHR 0x0A]
       (joinWith '','' columns #
        map (\<lambda>row. joinWith '','' (map (\<lambda>column. auditCell digits (map_of row column)) columns)) rows) @ [CHR 0x0D, CHR 0x0A]"

section \<open>Reading\<close>

definition pushRow :: "string list list \<Rightarrow> string list \<Rightarrow> string list list" where
  "pushRow rows row = (if list_ex (\<lambda>value. value \<noteq> []) row then rows @ [row] else rows)"

definition nextIs :: "char \<Rightarrow> string \<Rightarrow> bool" where
  "nextIs c cs = (cs \<noteq> [] \<and> hd cs = c)"

fun csvScan :: "bool \<Rightarrow> string \<Rightarrow> string list \<Rightarrow> string list list \<Rightarrow> string \<Rightarrow> string list list res" where
  "csvScan quoted cell row rows [] =
     (if quoted then Inl (JsError ''CSV contains an unterminated quoted field'') else Inr (pushRow rows (row @ [cell])))"
| "csvScan quoted cell row rows (c # cs) =
     (if c = CHR 0x22 then
        (if quoted \<and> nextIs (CHR 0x22) cs then csvScan quoted (cell @ [CHR 0x22]) row rows (tl cs)
         else csvScan (\<not> quoted) cell row rows cs)
      else if c = CHR '','' \<and> \<not> quoted then csvScan quoted [] (row @ [cell]) rows cs
      else if (c = CHR 0x0A \<or> c = CHR 0x0D) \<and> \<not> quoted then
        csvScan quoted [] [] (pushRow rows (row @ [cell])) (if c = CHR 0x0D \<and> nextIs (CHR 0x0A) cs then tl cs else cs)
      else csvScan quoted (cell @ [c]) row rows cs)"

definition csvCells :: "string \<Rightarrow> string list list res" where
  "csvCells source = csvScan False [] [] [] source"

definition rowObject :: "string list \<Rightarrow> string list \<Rightarrow> (string \<times> json) list" where
  "rowObject names values =
     map (\<lambda>(i, name). (name, JStr (if i < length values then values ! i else []))) (enumerate 0 names)"

definition parseCsv :: "string \<Rightarrow> (string \<times> json) list list res" where
  "parseCsv source =
     bindR (csvCells source) (\<lambda>cells.
       case cells of
         [] \<Rightarrow> Inr []
       | header # rows \<Rightarrow>
           (let names = map trim header in
            if \<not> distinct names then Inl (JsError ''CSV header names must be unique'')
            else Inr (map (rowObject names) rows)))"

section \<open>What is written reads back\<close>

lemma nextIs_simps [simp]: "\<not> nextIs c []" "nextIs c (d # ds) \<longleftrightarrow> d = c"
  by (simp_all add: nextIs_def)

definition plainText :: "string \<Rightarrow> bool" where
  "plainText s = (\<forall>c \<in> set s. c \<notin> csvSpecial)"

lemma scan_plain:
  "plainText s \<Longrightarrow> csvScan False cell row rows (s @ rest) = csvScan False (cell @ s) row rows rest"
  by (induction s arbitrary: cell) (auto simp: plainText_def csvSpecial_def)

lemma scan_escaped:
  "\<not> nextIs (CHR 0x22) rest \<Longrightarrow>
   csvScan True cell row rows
     (concat (map (\<lambda>c. if c = CHR 0x22 then [CHR 0x22, CHR 0x22] else [c]) s) @ CHR 0x22 # rest)
   = csvScan False (cell @ s) row rows rest"
  by (induction s arbitrary: cell) simp_all

lemma scan_cell:
  "\<not> nextIs (CHR 0x22) rest \<Longrightarrow> csvScan False [] row rows (quoteCell s @ rest) = csvScan False s row rows rest"
  using scan_escaped[of rest "[]" row rows s] scan_plain[of s "[]" row rows rest]
  by (auto simp: quoteCell_def plainText_def list_ex_iff)

text \<open>A row reads back as its cells, where the row is followed by a line end.\<close>

definition lineEnd :: "string \<Rightarrow> bool" where
  "lineEnd nl = (nl = [CHR 0x0A] \<or> nl = [CHR 0x0D, CHR 0x0A])"

lemma scan_lineEnd:
  "lineEnd nl \<Longrightarrow> csvScan False cell row rows (nl @ rest) = csvScan False [] [] (pushRow rows (row @ [cell])) rest"
  by (auto simp: lineEnd_def)

lemma lineEnd_next: "lineEnd nl \<Longrightarrow> \<not> nextIs (CHR 0x22) (nl @ rest)"
  by (auto simp: lineEnd_def)

lemma scan_row:
  assumes "lineEnd nl" "cells \<noteq> []"
  shows "csvScan False [] row rows (joinWith '','' (map quoteCell cells) @ nl @ rest)
    = csvScan False [] [] (pushRow rows (row @ cells)) rest"
  using assms(2)
proof (induction cells arbitrary: row rule: induct_list012)
  case (2 s)
  show ?case using scan_cell[OF lineEnd_next[OF assms(1)]] scan_lineEnd[OF assms(1)] by simp
next
  case (3 s t cells)
  have "csvScan False [] row rows (quoteCell s @ '','' @ joinWith '','' (map quoteCell (t # cells)) @ nl @ rest)
      = csvScan False [] (row @ [s]) rows (joinWith '','' (map quoteCell (t # cells)) @ nl @ rest)"
    by (subst scan_cell) simp_all
  also have "\<dots> = csvScan False [] [] (pushRow rows ((row @ [s]) @ t # cells)) rest"
    using "3.IH"(2)[of "row @ [s]"] by simp
  finally show ?case by simp
qed simp

definition csvTable :: "string \<Rightarrow> string list list \<Rightarrow> string" where
  "csvTable nl table = joinWith nl (map (\<lambda>cells. joinWith '','' (map quoteCell cells)) table) @ nl"

definition filled :: "string list list \<Rightarrow> string list list" where
  "filled table = filter (list_ex (\<lambda>value. value \<noteq> [])) table"

lemma scan_empty_row: "lineEnd nl \<Longrightarrow> csvScan False [] [] rows (nl @ rest) = csvScan False [] [] rows rest"
  by (simp add: scan_lineEnd pushRow_def)

lemma scan_table:
  assumes "lineEnd nl" "table \<noteq> []"
  shows "csvScan False [] [] rows (csvTable nl table @ rest) = csvScan False [] [] (rows @ filled table) rest"
  using assms(2)
proof (induction table arbitrary: rows rule: induct_list012)
  case (2 cells)
  show ?case
    using scan_row[OF assms(1), of cells "[]" rows rest] scan_empty_row[OF assms(1), of rows rest]
    by (cases "cells = []") (simp_all add: csvTable_def filled_def pushRow_def)
next
  case (3 cells cells' table)
  have "csvScan False [] [] rows (joinWith '','' (map quoteCell cells) @ nl @ csvTable nl (cells' # table) @ rest)
      = csvScan False [] [] (pushRow rows cells) (csvTable nl (cells' # table) @ rest)"
    using scan_row[OF assms(1), of cells "[]" rows "csvTable nl (cells' # table) @ rest"]
      scan_empty_row[OF assms(1), of rows "csvTable nl (cells' # table) @ rest"]
    by (cases "cells = []") (simp_all add: pushRow_def)
  also have "\<dots> = csvScan False [] [] (pushRow rows cells @ filled (cells' # table)) rest"
    using "3.IH"(2) by blast
  finally show ?case by (simp add: csvTable_def filled_def pushRow_def)
qed simp

lemma csv_table_roundtrip:
  "lineEnd nl \<Longrightarrow> table \<noteq> [] \<Longrightarrow> csvCells (csvTable nl table) = Inr (filled table)"
  using scan_table[of nl table "[]" "[]"] by (simp add: csvCells_def pushRow_def)

text \<open>The two writers write such a table, the header without quotes.\<close>

lemma quoteCell_plain [simp]: "plainText s \<Longrightarrow> quoteCell s = s"
  by (auto simp: quoteCell_def plainText_def list_ex_iff)

lemma map_quoteCell_plain: "list_all plainText columns \<Longrightarrow> map quoteCell columns = columns"
  by (induction columns) simp_all

lemma encodeCsv_table:
  "list_all plainText columns \<Longrightarrow>
   encodeCsv digits rows columns =
     csvTable [CHR 0x0A] (columns # map (\<lambda>row. map (\<lambda>column. cellText digits (map_of row column)) columns) rows)"
  by (simp add: encodeCsv_def csvTable_def csvCell_def map_quoteCell_plain comp_def)

lemma encodeFraudCsv_table:
  "list_all plainText columns \<Longrightarrow>
   encodeFraudCsv digits rows columns =
     csvTable [CHR 0x0D, CHR 0x0A] (columns # map (\<lambda>row. map (\<lambda>column. auditCellText digits (map_of row column)) columns) rows)"
  by (simp add: encodeFraudCsv_def csvTable_def auditCell_def map_quoteCell_plain comp_def)

text \<open>Reading the written report gives its rows by column, but for rows whose cells are all empty.\<close>

definition trimmedText :: "string \<Rightarrow> bool" where
  "trimmedText s = (s \<noteq> [] \<and> \<not> isSpace (hd s) \<and> \<not> isSpace (last s))"

lemma trim_trimmed: "trimmedText s \<Longrightarrow> trim s = s"
  by (simp add: trimmedText_def trim_def dropWhile_eq_self_iff[THEN iffD2] hd_rev)

lemma rowObject_map:
  "rowObject names (map f names) = map (\<lambda>name. (name, JStr (f name))) names"
  by (rule nth_equalityI) (simp_all add: rowObject_def nth_enumerate_eq)

lemma parse_table:
  assumes columns: "columns \<noteq> []" "distinct columns" "list_all trimmedText columns" and nl: "lineEnd nl"
  shows "parseCsv (csvTable nl (columns # map (\<lambda>row. map (\<lambda>column. text row column) columns) rows)) =
    Inr (map (\<lambda>row. map (\<lambda>column. (column, JStr (text row column))) columns)
           (filter (\<lambda>row. list_ex (\<lambda>column. text row column \<noteq> []) columns) rows))"
proof -
  have "list_ex (\<lambda>value. value \<noteq> []) columns"
    using columns(1,3) by (cases columns) (auto simp: trimmedText_def)
  then have cells: "filled (columns # map (\<lambda>row. map (text row) columns) rows) =
      columns # map (\<lambda>row. map (text row) columns) (filter (\<lambda>row. list_ex (\<lambda>column. text row column \<noteq> []) columns) rows)"
    by (simp add: filled_def filter_map comp_def list_ex_iff)
  have "map trim columns = columns"
    using columns(3) by (induction columns) (simp_all add: trim_trimmed)
  then show ?thesis
    using columns(2) by (simp add: parseCsv_def csv_table_roundtrip[OF nl] cells rowObject_map)
qed

section \<open>The reports\<close>

lemma report_columns:
  "columns \<in> {metricColumns, differenceColumns, fraudAuditColumns} \<Longrightarrow>
     columns \<noteq> [] \<and> distinct columns \<and> list_all trimmedText columns \<and> list_all plainText columns"
  by (auto simp: metricColumns_def differenceColumns_def fraudAuditColumns_def trimmedText_def isSpace_def plainText_def csvSpecial_def)

definition readBack :: "('r \<Rightarrow> string \<Rightarrow> string) \<Rightarrow> 'r list \<Rightarrow> string list \<Rightarrow> (string \<times> json) list list" where
  "readBack text rows columns =
     map (\<lambda>row. map (\<lambda>column. (column, JStr (text row column))) columns)
       (filter (\<lambda>row. list_ex (\<lambda>column. text row column \<noteq> []) columns) rows)"

lemma report_reads_back:
  assumes "columns \<in> {metricColumns, differenceColumns, fraudAuditColumns}"
  shows "parseCsv (encodeCsv digits rows columns) = Inr (readBack (\<lambda>row column. cellText digits (map_of row column)) rows columns)"
    "parseCsv (encodeFraudCsv digits rows columns) = Inr (readBack (\<lambda>row column. auditCellText digits (map_of row column)) rows columns)"
proof -
  note c = report_columns[OF assms]
  have plain: "list_all plainText columns" using c by blast
  show "parseCsv (encodeCsv digits rows columns) = Inr (readBack (\<lambda>row column. cellText digits (map_of row column)) rows columns)"
    using parse_table[of columns "[CHR 0x0A]" "\<lambda>row column. cellText digits (map_of row column)" rows] c
    by (simp add: encodeCsv_table[OF plain] readBack_def lineEnd_def)
  show "parseCsv (encodeFraudCsv digits rows columns) = Inr (readBack (\<lambda>row column. auditCellText digits (map_of row column)) rows columns)"
    using parse_table[of columns "[CHR 0x0D, CHR 0x0A]" "\<lambda>row column. auditCellText digits (map_of row column)" rows] c
    by (simp add: encodeFraudCsv_table[OF plain] readBack_def lineEnd_def)
qed

end
