(* ===== verification/ImportMapping.thy ===== *)
theory ImportMapping
  imports Csv JsTime "HOL-Library.AList"
begin

text \<open>
  The mapping of an imported row to an event or a cost. The code builds the result by setting
  properties of objects that it may share with the mapping and the row, so the objects are in
  an explicit store: a value is a scalar or the address of an object. An array is never written
  by the mapping and stays a JSON value.
\<close>

section \<open>The store\<close>

datatype val = NoValue | Val json | Ref nat

type_synonym store = "(string \<times> val) list list"

fun isRef :: "val \<Rightarrow> bool" where
  "isRef (Ref a) = True"
| "isRef v = False"

definition getProperty :: "store \<Rightarrow> nat \<Rightarrow> string \<Rightarrow> val" where
  "getProperty h a name = (case map_of (h ! a) name of None \<Rightarrow> NoValue | Some v \<Rightarrow> v)"

definition setProperty :: "nat \<Rightarrow> string \<Rightarrow> val \<Rightarrow> store \<Rightarrow> store" where
  "setProperty a name v h = h[a := AList.update name v (h ! a)]"

definition newObject :: "(string \<times> val) list \<Rightarrow> store \<Rightarrow> val \<times> store" where
  "newObject props h = (Ref (length h), h @ [props])"

text \<open>A parsed JSON value: its objects are new ones.\<close>

function (sequential) loadJson :: "json \<Rightarrow> store \<Rightarrow> val \<times> store"
  and loadFields :: "(string \<times> json) list \<Rightarrow> store \<Rightarrow> (string \<times> val) list \<times> store" where
  "loadJson (JObj ps) h = (let (props, h') = loadFields ps h in newObject props h')"
| "loadJson j h = (Val j, h)"
| "loadFields [] h = ([], h)"
| "loadFields ((name, j) # ps) h =
     (let (v, h') = loadJson j h; (props, h'') = loadFields ps h' in ((name, v) # props, h''))"
  by pat_completeness auto
termination
  by (relation "measure (\<lambda>x. case x of Inl (j, h) \<Rightarrow> size j | Inr (ps, h) \<Rightarrow> size_list (size_prod (\<lambda>_. 0) size) ps)")
    auto

text \<open>\<^verbatim>\<open>String(value)\<close> and \<^verbatim>\<open>value ?? other\<close> of such a value.\<close>

fun valString :: "(rat \<Rightarrow> string) \<Rightarrow> val \<Rightarrow> string" where
  "valString digits NoValue = ''undefined''"
| "valString digits (Val j) = jsString digits j"
| "valString digits (Ref a) = ''[object Object]''"

fun nullish :: "val \<Rightarrow> bool" where
  "nullish NoValue = True"
| "nullish (Val j) = (j = JNull)"
| "nullish (Ref a) = False"

fun truthyVal :: "val \<Rightarrow> bool" where
  "truthyVal NoValue = False"
| "truthyVal (Val j) = truthyJson j"
| "truthyVal (Ref a) = True"

definition emptyVal :: "val \<Rightarrow> bool" where
  "emptyVal v = (nullish v \<or> v = Val (JStr []))"

section \<open>Mappings\<close>

record boolean_config =
  true_values :: "json list"
  false_values :: "json list"
  boolean_default :: "bool option"

record timestamp_config =
  default_timezone :: string
  timezone_source :: "string option"

datatype money_input = IntegerInput | DecimalInput

record money_config =
  money_input :: "money_input option"
  money_scale :: nat
  currency_source :: "string option"
  currency_default :: "string option"

record expression_fields =
  me_source :: "string option"
  fallback_column :: "string option"
  me_prefix :: "string option"
  me_const :: "val option"
  me_default :: "val option"
  me_map :: "(string \<times> json) list option"
  map_default :: "json option"
  omit_if_empty :: bool
  me_boolean :: "boolean_config option"
  me_uppercase :: bool
  me_timestamp :: "timestamp_config option"
  me_money :: "money_config option"

text \<open>The property \<^verbatim>\<open>object\<close> of an expression holds expressions.\<close>

datatype mapping_expression = MappingExpression expression_fields "(string \<times> mapping_expression) list option"

datatype mapping_kind = MmpRaw | ManualCost

record filter_clause =
  fc_source :: string
  fc_equals :: json

record mapping_rule =
  rule_target :: string
  rule_expression :: mapping_expression

record import_mapping =
  im_version :: string
  im_kind :: mapping_kind
  im_source_id :: string
  im_tenant_id :: string
  im_app_id :: string
  im_provider :: "string option"
  row_filter :: "filter_clause list option"
  im_rules :: "mapping_rule list"

datatype mapping_error = MappingError string "string list"

type_synonym 'a mres = "mapping_error + 'a"

text \<open>Effects: the store is kept also where an error is thrown.\<close>

type_synonym 'a effect = "store \<Rightarrow> 'a mres \<times> store"

definition returnH :: "'a \<Rightarrow> 'a effect" where
  "returnH a h = (Inr a, h)"

definition throwH :: "mapping_error \<Rightarrow> 'a effect" where
  "throwH e h = (Inl e, h)"

definition bindH :: "'a effect \<Rightarrow> ('a \<Rightarrow> 'b effect) \<Rightarrow> 'b effect" where
  "bindH m f h = (case m h of (Inl e, h') \<Rightarrow> (Inl e, h') | (Inr a, h') \<Rightarrow> f a h')"

definition liftH :: "'a mres \<Rightarrow> 'a effect" where
  "liftH r h = (r, h)"

section \<open>Reading a source\<close>

fun descendSource :: "store \<Rightarrow> val \<Rightarrow> string list \<Rightarrow> val" where
  "descendSource h v [] = v"
| "descendSource h (Ref a) (part # parts) = descendSource h (getProperty h a part) parts"
| "descendSource h v (part # parts) = descendSource h NoValue parts"

definition sourceValue :: "store \<Rightarrow> val \<Rightarrow> string option \<Rightarrow> val" where
  "sourceValue h row name =
     (case keepTruthy name of None \<Rightarrow> NoValue | Some path \<Rightarrow> descendSource h row (splitOn (CHR ''.'') path))"

text \<open>\<^verbatim>\<open>/(?:Z|[+-][0-9]{2}:[0-9]{2})$/i\<close>\<close>

definition hasZone :: "string \<Rightarrow> bool" where
  "hasZone text =
     (text \<noteq> [] \<and> last text \<in> {CHR ''Z'', CHR ''z''} \<or>
      6 \<le> length text \<and>
        (let z = drop (length text - 6) text in
           z ! 0 \<in> {CHR ''+'', CHR ''-''} \<and> isDigit (z ! 1) \<and> isDigit (z ! 2) \<and> z ! 3 = CHR '':'' \<and>
           isDigit (z ! 4) \<and> isDigit (z ! 5)))"

definition normalizeTimestamp ::
  "(string \<Rightarrow> int option) \<Rightarrow> val \<Rightarrow> timestamp_config \<Rightarrow> store \<Rightarrow> val \<Rightarrow> string mres" where
  "normalizeTimestamp dateParse value config h row =
     (case value of
        Val (JStr s) \<Rightarrow>
          if trim s = [] then Inl (MappingError ''timestamp source is empty'' [])
          else (let text = trim s;
                    zone = (case keepTruthy (timezone_source config) of
                        Some name \<Rightarrow> sourceValue h row (Some name) | None \<Rightarrow> Val (JStr (default_timezone config))) in
                if \<not> hasZone text \<and> zone \<noteq> Val (JStr ''UTC'')
                then Inl (MappingError ''only the verified UTC default timezone is supported'' [])
                else (case dateParse (if hasZone text then text else text @ ''Z'') of
                    None \<Rightarrow> Inl (MappingError ''timestamp source is invalid'' [])
                  | Some t \<Rightarrow> Inr (toISOText t)))
      | _ \<Rightarrow> Inl (MappingError ''timestamp source is empty'' []))"

definition normalizedChoice :: "string \<Rightarrow> string" where
  "normalizedChoice s = map lowerChar (trim s)"

definition booleanValue :: "(rat \<Rightarrow> string) \<Rightarrow> val \<Rightarrow> boolean_config \<Rightarrow> bool mres" where
  "booleanValue digits value config =
     (let normalized = normalizedChoice (valString digits value);
          candidates = map (\<lambda>item. normalizedChoice (jsString digits item)) in
      if normalized \<in> set (candidates (true_values config)) then Inr True
      else if normalized \<in> set (candidates (false_values config)) then Inr False
      else (case boolean_default config of
          Some b \<Rightarrow> Inr b
        | None \<Rightarrow> Inl (MappingError ''boolean source is outside the declared vocabulary'' [])))"

section \<open>Money\<close>

definition allDigits :: "string \<Rightarrow> bool" where
  "allDigits s = (s \<noteq> [] \<and> list_all isDigit s)"

text \<open>\<^verbatim>\<open>/^[0-9]+(?:\.[0-9]+)?$/\<close> and the two parts of such a text.\<close>

definition decimalParts :: "string \<Rightarrow> (string \<times> string) option" where
  "decimalParts s =
     (case splitOn (CHR ''.'') s of
        [whole] \<Rightarrow> if allDigits whole then Some (whole, []) else None
      | [whole, fraction] \<Rightarrow> if allDigits whole \<and> allDigits fraction then Some (whole, fraction) else None
      | _ \<Rightarrow> None)"

definition padEnd :: "nat \<Rightarrow> string \<Rightarrow> string" where
  "padEnd n s = s @ replicate (n - length s) (CHR ''0'')"

definition decimalAmount :: "val \<Rightarrow> nat \<Rightarrow> string mres" where
  "decimalAmount value scale =
     (let decimal = (case value of Val (JStr s) \<Rightarrow> trim s | _ \<Rightarrow> []) in
      case decimalParts decimal of
        None \<Rightarrow> Inl (MappingError ''money decimal source must be a non-negative base-10 decimal string without exponent notation'' [])
      | Some (whole, fraction) \<Rightarrow>
          if length fraction > scale
          then Inl (MappingError ''money decimal source exceeds the declared scale; rounding is not permitted'' [])
          else Inr (whole @ padEnd scale fraction))"

text \<open>\<^verbatim>\<open>Number.isSafeInteger\<close> of a number not below zero\<close>

definition safeNatural :: "number \<Rightarrow> bool" where
  "safeNatural n = (case n of Fin x \<Rightarrow> of_int \<lfloor>x\<rfloor> = x \<and> 0 \<le> x \<and> x \<le> 2 ^ 53 - 1 | _ \<Rightarrow> False)"

definition integerAmount :: "(rat \<Rightarrow> string) \<Rightarrow> val \<Rightarrow> string mres" where
  "integerAmount digits value =
     (let amount = (case value of
         Val (JNum n) \<Rightarrow> if safeNatural n then numberText digits n else []
       | v \<Rightarrow> if nullish v then [] else trim (valString digits v)) in
      if allDigits amount then Inr amount
      else Inl (MappingError ''money source must be a non-negative base-10 integer without exponent notation'' []))"

definition currencyCode :: "string \<Rightarrow> bool" where
  "currencyCode s = (length s = 3 \<and> list_all (\<lambda>c. 65 \<le> (of_char c :: nat) \<and> (of_char c :: nat) \<le> 90) s)"

definition moneyCurrency :: "(rat \<Rightarrow> string) \<Rightarrow> money_config \<Rightarrow> store \<Rightarrow> val \<Rightarrow> string" where
  "moneyCurrency digits config h row =
     (let currencyValue = (case keepTruthy (currency_source config) of
          Some name \<Rightarrow> sourceValue h row (Some name) | None \<Rightarrow> NoValue) in
      map upperChar (if truthyVal currencyValue then valString digits currencyValue
                     else (case currency_default config of None \<Rightarrow> [] | Some s \<Rightarrow> s)))"

definition moneyFields ::
  "(rat \<Rightarrow> string) \<Rightarrow> val \<Rightarrow> money_config \<Rightarrow> store \<Rightarrow> val \<Rightarrow> (string \<times> val) list mres" where
  "moneyFields digits value config h row =
     (case (if money_input config = Some DecimalInput then decimalAmount value (money_scale config)
            else integerAmount digits value) of
        Inl e \<Rightarrow> Inl e
      | Inr amount \<Rightarrow>
          (let currency = moneyCurrency digits config h row in
           if \<not> currencyCode currency then Inl (MappingError ''money currency is missing or invalid'' [])
           else Inr [(''amount_unscaled'', Val (JStr amount)), (''amount_scale'', Val (JNum (numN (int (money_scale config))))),
                     (''currency'', Val (JStr currency))]))"

definition moneyValue :: "(rat \<Rightarrow> string) \<Rightarrow> val \<Rightarrow> money_config \<Rightarrow> val \<Rightarrow> val effect" where
  "moneyValue digits value config row h =
     (case moneyFields digits value config h row of
        Inl e \<Rightarrow> (Inl e, h)
      | Inr props \<Rightarrow> (let (v, h') = newObject props h in (Inr v, h')))"

end
