(* ===== verification/ImportRows.thy ===== *)
theory ImportRows
  imports ImportMapping
begin

text \<open>
  Evaluation of the expressions of a mapping, the targets its rules set, and the rows of an
  import that become attempts. Nothing here clones an object: a value that is an object is the
  object of the mapping or of the row it was read from.
\<close>

section \<open>Expressions\<close>

definition sourceFields :: "expression_fields \<Rightarrow> string list" where
  "sourceFields e = (case keepTruthy (me_source e) of None \<Rightarrow> [] | Some s \<Rightarrow> [s])"

definition initialValue :: "expression_fields \<Rightarrow> store \<Rightarrow> val \<Rightarrow> val" where
  "initialValue e h row =
     (let value = (case me_const e of Some v \<Rightarrow> v | None \<Rightarrow> sourceValue h row (me_source e));
          value = (case keepTruthy (fallback_column e) of
              Some column \<Rightarrow> if emptyVal value then sourceValue h row (Some column) else value
            | None \<Rightarrow> value) in
      case me_default e of Some d \<Rightarrow> if emptyVal value then d else value | None \<Rightarrow> value)"

definition mappedValue :: "(rat \<Rightarrow> string) \<Rightarrow> expression_fields \<Rightarrow> val \<Rightarrow> val mres" where
  "mappedValue digits e value =
     (case me_map e of
        None \<Rightarrow> Inr value
      | Some m \<Rightarrow> (case map_of m (valString digits value) of
          Some j \<Rightarrow> Inr (Val j)
        | None \<Rightarrow> (case map_default e of
            Some j \<Rightarrow> Inr (Val j)
          | None \<Rightarrow> Inl (MappingError ''enum source is outside the declared map'' (sourceFields e)))))"

definition booleanStep :: "(rat \<Rightarrow> string) \<Rightarrow> expression_fields \<Rightarrow> val \<Rightarrow> val mres" where
  "booleanStep digits e value =
     (case me_boolean e of
        None \<Rightarrow> Inr value
      | Some config \<Rightarrow> (case booleanValue digits value config of Inl x \<Rightarrow> Inl x | Inr b \<Rightarrow> Inr (Val (JBool b))))"

definition uppercaseStep :: "expression_fields \<Rightarrow> val \<Rightarrow> val" where
  "uppercaseStep e value =
     (case value of Val (JStr s) \<Rightarrow> if me_uppercase e then Val (JStr (map upperChar s)) else value | _ \<Rightarrow> value)"

definition timestampStep ::
  "(string \<Rightarrow> int option) \<Rightarrow> expression_fields \<Rightarrow> val \<Rightarrow> store \<Rightarrow> val \<Rightarrow> val mres" where
  "timestampStep dateParse e value h row =
     (case me_timestamp e of
        None \<Rightarrow> Inr value
      | Some config \<Rightarrow>
          (case normalizeTimestamp dateParse value config h row of Inl x \<Rightarrow> Inl x | Inr s \<Rightarrow> Inr (Val (JStr s))))"

definition moneyStep :: "(rat \<Rightarrow> string) \<Rightarrow> expression_fields \<Rightarrow> val \<Rightarrow> val \<Rightarrow> val effect" where
  "moneyStep digits e value row =
     (case me_money e of None \<Rightarrow> returnH value | Some config \<Rightarrow> moneyValue digits value config row)"

definition prefixStep :: "(rat \<Rightarrow> string) \<Rightarrow> expression_fields \<Rightarrow> val \<Rightarrow> val mres" where
  "prefixStep digits e value =
     (if value = NoValue then Inl (MappingError ''required mapping source is missing'' (sourceFields e))
      else (case me_prefix e of
          None \<Rightarrow> Inr value
        | Some prefix \<Rightarrow> (case value of
            Val (JStr s) \<Rightarrow> Inr (Val (JStr (prefix @ s)))
          | Val (JNum n) \<Rightarrow> Inr (Val (JStr (prefix @ numberText digits n)))
          | _ \<Rightarrow> Inl (MappingError ''prefix requires a string or number source'' (sourceFields e)))))"

text \<open>An expression without \<^verbatim>\<open>object\<close>; \<open>None\<close> is the value \<^verbatim>\<open>omitted\<close>.\<close>

definition evaluateFields ::
  "(string \<Rightarrow> int option) \<Rightarrow> (rat \<Rightarrow> string) \<Rightarrow> expression_fields \<Rightarrow> val \<Rightarrow> val option effect" where
  "evaluateFields dateParse digits e row h =
     (case mappedValue digits e (initialValue e h row) of
        Inl x \<Rightarrow> (Inl x, h)
      | Inr value \<Rightarrow>
          if omit_if_empty e \<and> emptyVal value then (Inr None, h)
          else bindH (liftH (booleanStep digits e value)) (\<lambda>value.
               bindH (\<lambda>h. (timestampStep dateParse e (uppercaseStep e value) h row, h)) (\<lambda>value.
               bindH (moneyStep digits e value row) (\<lambda>value.
               bindH (liftH (prefixStep digits e value)) (\<lambda>value. returnH (Some value))))) h)"

function (sequential) evaluateExpression ::
  "(string \<Rightarrow> int option) \<Rightarrow> (rat \<Rightarrow> string) \<Rightarrow> mapping_expression \<Rightarrow> val \<Rightarrow> val option effect"
  and evaluateObject ::
  "(string \<Rightarrow> int option) \<Rightarrow> (rat \<Rightarrow> string) \<Rightarrow> (string \<times> mapping_expression) list \<Rightarrow> val \<Rightarrow> (string \<times> val) list effect" where
  "evaluateExpression dateParse digits (MappingExpression e None) row h = evaluateFields dateParse digits e row h"
| "evaluateExpression dateParse digits (MappingExpression e (Some children)) row h =
     (case evaluateObject dateParse digits children row h of
        (Inl x, h') \<Rightarrow> (Inl x, h')
      | (Inr props, h') \<Rightarrow> (let (v, h'') = newObject props h' in (Inr (Some v), h'')))"
| "evaluateObject dateParse digits [] row h = (Inr [], h)"
| "evaluateObject dateParse digits ((name, child) # children) row h =
     (case evaluateExpression dateParse digits child row h of
        (Inl x, h') \<Rightarrow> (Inl x, h')
      | (Inr value, h') \<Rightarrow>
          (case evaluateObject dateParse digits children row h' of
             (Inl x, h'') \<Rightarrow> (Inl x, h'')
           | (Inr props, h'') \<Rightarrow> (Inr ((case value of None \<Rightarrow> [] | Some v \<Rightarrow> [(name, v)]) @ props), h'')))"
  by pat_completeness auto
termination
  by (relation "measure (\<lambda>x. case x of Inl (dp, d, e, row, h) \<Rightarrow> size e
      | Inr (dp, d, cs, row, h) \<Rightarrow> size_list (size_prod (\<lambda>_. 0) size) cs)") auto

section \<open>Targets\<close>

definition objectAssign :: "nat \<Rightarrow> (string \<times> val) list \<Rightarrow> store \<Rightarrow> store" where
  "objectAssign a props h = fold (\<lambda>(name, v). setProperty a name v) props h"

definition mergeValue :: "nat \<Rightarrow> string \<Rightarrow> val \<Rightarrow> store \<Rightarrow> store" where
  "mergeValue target key value h =
     (case (getProperty h target key, value) of
        (Ref b, Ref c) \<Rightarrow> objectAssign b (h ! c) h
      | _ \<Rightarrow> setProperty target key value h)"

text \<open>The loop over the parts but the last, which ends at the object to set the last one on.\<close>

fun targetCursor :: "string \<Rightarrow> nat \<Rightarrow> string list \<Rightarrow> nat effect" where
  "targetCursor path cursor [] h = (Inr cursor, h)"
| "targetCursor path cursor (part # parts) h =
     (case getProperty h cursor part of
        Ref b \<Rightarrow> targetCursor path b parts h
      | NoValue \<Rightarrow>
          (case newObject [] h of
             (Ref b, h') \<Rightarrow> targetCursor path b parts (setProperty cursor part (Ref b) h')
           | (_, h') \<Rightarrow> (Inr cursor, h'))
      | Val j \<Rightarrow> (Inl (MappingError (''mapping target collides with a scalar: '' @ path) [path]), h))"

definition setTarget :: "nat \<Rightarrow> string \<Rightarrow> val \<Rightarrow> unit effect" where
  "setTarget target path value =
     (let parts = splitOn (CHR ''.'') path in
      bindH (targetCursor path target (butlast parts)) (\<lambda>cursor h. (Inr (), mergeValue cursor (last parts) value h)))"

section \<open>Rows\<close>

text \<open>\<^verbatim>\<open>===\<close> of a source value and a scalar\<close>

definition clauseHolds :: "store \<Rightarrow> val \<Rightarrow> filter_clause \<Rightarrow> bool" where
  "clauseHolds h row c = (sourceValue h row (Some (fc_source c)) = Val (fc_equals c) \<and> fc_equals c \<noteq> JNum NaN)"

definition rowMatches :: "import_mapping \<Rightarrow> store \<Rightarrow> val \<Rightarrow> bool" where
  "rowMatches mapping h row =
     (case row_filter mapping of None \<Rightarrow> True | Some clauses \<Rightarrow> list_all (clauseHolds h row) clauses)"

fun applyRules ::
  "(string \<Rightarrow> int option) \<Rightarrow> (rat \<Rightarrow> string) \<Rightarrow> mapping_rule list \<Rightarrow> val \<Rightarrow> nat \<Rightarrow> unit effect" where
  "applyRules dateParse digits [] row output h = (Inr (), h)"
| "applyRules dateParse digits (rule # rules) row output h =
     (case evaluateExpression dateParse digits (rule_expression rule) row h of
        (Inl x, h') \<Rightarrow> (Inl x, h')
      | (Inr None, h') \<Rightarrow> applyRules dateParse digits rules row output h'
      | (Inr (Some value), h') \<Rightarrow>
          (case setTarget output (rule_target rule) value h' of
             (Inl x, h'') \<Rightarrow> (Inl x, h'')
           | (Inr u, h'') \<Rightarrow> applyRules dateParse digits rules row output h''))"

definition mapRow :: "(string \<Rightarrow> int option) \<Rightarrow> (rat \<Rightarrow> string) \<Rightarrow> import_mapping \<Rightarrow> val \<Rightarrow> nat effect" where
  "mapRow dateParse digits mapping row h =
     (let output = length h in
      case applyRules dateParse digits (im_rules mapping) row output (h @ [[]]) of
        (Inl x, h') \<Rightarrow> (Inl x, h')
      | (Inr u, h') \<Rightarrow> (Inr output, h'))"

section \<open>Attempts\<close>

record imported_record =
  ir_record_id :: string
  ir_delivery_id :: string
  ir_tenant_id :: string
  ir_app_id :: string
  ir_producer :: string
  ir_producer_version :: string
  ir_event_id :: string
  ir_event_name :: string
  ir_occurred_at :: string
  ir_received_at :: string
  ir_processing_purpose_id :: string
  ir_processing_sequence :: nat
  ir_payload :: nat
  ir_batch_id :: string

text \<open>The digest of a list of texts and of a text with a number, cut to 48 characters.\<close>

record import_env =
  ie_dateParse :: "string \<Rightarrow> int option"
  ie_digits :: "rat \<Rightarrow> string"
  ie_digest :: "json \<Rightarrow> string"

definition identifierOf :: "import_env \<Rightarrow> string \<Rightarrow> json \<Rightarrow> string" where
  "identifierOf env prefix value = prefix @ '':'' @ take 48 (ie_digest env value)"

definition textOr :: "import_env \<Rightarrow> string \<Rightarrow> val \<Rightarrow> string" where
  "textOr env other v = (if nullish v then other else valString (ie_digits env) v)"

definition toAttempt ::
  "import_env \<Rightarrow> import_mapping \<Rightarrow> string \<Rightarrow> string \<Rightarrow> nat \<Rightarrow> store \<Rightarrow> nat \<Rightarrow> imported_record mres" where
  "toAttempt env mapping fileDigest receivedAt ordinal h mapped =
     (let property = getProperty h mapped;
          eventId = textOr env [] (property ''event_id'');
          occurredAt = textOr env [] (property ''occurred_at'') in
      case property ''event_name'' of
        Val (JStr eventName) \<Rightarrow>
          (case property ''payload'' of
             Ref payload \<Rightarrow>
               if eventId = [] then Inl (MappingError ''mapped event_id is missing'' [''event_id''])
               else (case (if occurredAt = [] then None else ie_dateParse env occurredAt) of
                   None \<Rightarrow> Inl (MappingError ''mapped occurred_at is invalid'' [''occurred_at''])
                 | Some t \<Rightarrow> Inr \<lparr>
                     ir_record_id = identifierOf env ''record''
                       (JArr [JStr (im_source_id mapping), JStr fileDigest, JNum (numN (int ordinal))]),
                     ir_delivery_id = identifierOf env ''delivery'' (JArr [JStr fileDigest, JNum (numN (int ordinal))]),
                     ir_tenant_id = im_tenant_id mapping, ir_app_id = im_app_id mapping,
                     ir_producer = ''import:'' @ (case im_provider mapping of None \<Rightarrow> ''undefined'' | Some p \<Rightarrow> p),
                     ir_producer_version = ''mapping:'' @ im_version mapping,
                     ir_event_id = eventId, ir_event_name = eventName, ir_occurred_at = toISOText t,
                     ir_received_at = receivedAt,
                     ir_processing_purpose_id = textOr env ''analytics'' (property ''processing_purpose_id''),
                     ir_processing_sequence = ordinal + 1, ir_payload = payload,
                     ir_batch_id = identifierOf env ''batch'' (JArr [JStr (im_source_id mapping), JStr fileDigest])\<rparr>)
           | _ \<Rightarrow> Inl (MappingError ''mapped payload is missing'' [''payload'']))
      | _ \<Rightarrow> Inl (MappingError ''mapped event_name is missing'' [''event_name'']))"

record row_failure =
  rf_ordinal :: nat
  rf_reason :: string
  rf_fields :: "string list"

definition rowFailure :: "nat \<Rightarrow> mapping_error \<Rightarrow> row_failure" where
  "rowFailure ordinal e = (case e of MappingError message props \<Rightarrow>
     \<lparr>rf_ordinal = ordinal,
      rf_reason = (if includesText message ''timestamp'' then ''timestamp_invalid'' else ''mapping_validation_failed''),
      rf_fields = props\<rparr>)"

text \<open>The loop over the rows, which catches what a row throws; the attempts and failures in order.\<close>

fun mapRows ::
  "import_env \<Rightarrow> import_mapping \<Rightarrow> string \<Rightarrow> string \<Rightarrow> nat \<Rightarrow> val list \<Rightarrow> store
     \<Rightarrow> ((nat \<times> imported_record) list \<times> row_failure list) \<times> store" where
  "mapRows env mapping fileDigest now ordinal [] h = (([], []), h)"
| "mapRows env mapping fileDigest now ordinal (row # rows) h =
     (if \<not> rowMatches mapping h row then mapRows env mapping fileDigest now (ordinal + 1) rows h
      else
        (let (r, h') = mapRow (ie_dateParse env) (ie_digits env) mapping row h;
             r' = (case r of Inl e \<Rightarrow> Inl e | Inr mapped \<Rightarrow> toAttempt env mapping fileDigest now ordinal h' mapped);
             ((attempts, failures), h'') = mapRows env mapping fileDigest now (ordinal + 1) rows h' in
         (case r' of
            Inl e \<Rightarrow> ((attempts, rowFailure ordinal e # failures), h'')
          | Inr attempt \<Rightarrow> (((ordinal, attempt) # attempts, failures), h''))))"

end
