(* ===== verification/ImportLaws.thy ===== *)
theory ImportLaws
  imports ImportRows "HOL-Library.Sublist"
begin

text \<open>
  What the mapping of a row writes. Where no constant and no default of the mapping is an
  object and the cells of the rows are scalars, as those of a CSV file are, mapping only adds
  objects to the store.
\<close>

section \<open>Stores that only grew\<close>

definition ownVal :: "store \<Rightarrow> store \<Rightarrow> val \<Rightarrow> bool" where
  "ownVal h0 h v = (case v of Ref b \<Rightarrow> length h0 \<le> b \<and> b < length h | _ \<Rightarrow> True)"

definition ownObject :: "store \<Rightarrow> store \<Rightarrow> (string \<times> val) list \<Rightarrow> bool" where
  "ownObject h0 h props = list_all (\<lambda>p. ownVal h0 h (snd p)) props"

definition isolated :: "store \<Rightarrow> store \<Rightarrow> bool" where
  "isolated h0 h = (prefix h0 h \<and> (\<forall>a < length h. length h0 \<le> a \<longrightarrow> ownObject h0 h (h ! a)))"

lemma ownVal_simps [simp]:
  "ownVal h0 h NoValue" "ownVal h0 h (Val j)" "ownVal h0 h (Ref b) = (length h0 \<le> b \<and> b < length h)"
  by (simp_all add: ownVal_def)

lemma ownVal_scalar: "\<not> isRef v \<Longrightarrow> ownVal h0 h v"
  by (cases v) simp_all

lemma ownVal_mono: "ownVal h0 h v \<Longrightarrow> length h \<le> length h' \<Longrightarrow> ownVal h0 h' v"
  by (cases v) simp_all

lemma ownObject_simps [simp]:
  "ownObject h0 h []" "ownObject h0 h ((k, v) # props) = (ownVal h0 h v \<and> ownObject h0 h props)"
  "ownObject h0 h (ps @ qs) = (ownObject h0 h ps \<and> ownObject h0 h qs)"
  by (simp_all add: ownObject_def)

lemma ownObject_mono: "ownObject h0 h props \<Longrightarrow> length h \<le> length h' \<Longrightarrow> ownObject h0 h' props"
  by (induction props) (auto intro: ownVal_mono)

lemma ownObject_update: "ownObject h0 h props \<Longrightarrow> ownVal h0 h v \<Longrightarrow> ownObject h0 h (AList.update k v props)"
  by (induction props) auto

lemma ownObject_lookup: "ownObject h0 h props \<Longrightarrow> map_of props name = Some v \<Longrightarrow> ownVal h0 h v"
  by (induction props) (auto split: if_splits)

lemma isolated_prefix: "isolated h0 h \<Longrightarrow> prefix h0 h"
  by (simp add: isolated_def)

lemma isolated_length: "isolated h0 h \<Longrightarrow> length h0 \<le> length h"
  by (simp add: isolated_def prefix_length_le)

lemma isolated_refl: "isolated h h"
  by (simp add: isolated_def)

lemma isolated_old: "isolated h0 h \<Longrightarrow> a < length h0 \<Longrightarrow> h ! a = h0 ! a"
  by (auto simp: isolated_def prefix_def nth_append)

lemma isolated_object: "isolated h0 h \<Longrightarrow> length h0 \<le> a \<Longrightarrow> a < length h \<Longrightarrow> ownObject h0 h (h ! a)"
  by (simp add: isolated_def)

lemma isolated_property:
  "isolated h0 h \<Longrightarrow> length h0 \<le> a \<Longrightarrow> a < length h \<Longrightarrow> ownVal h0 h (getProperty h a name)"
  using ownObject_lookup[OF isolated_object] by (simp add: getProperty_def split: option.split)

lemma isolated_new:
  assumes "isolated h0 h" "ownObject h0 h props"
  shows "isolated h0 (h @ [props])"
  unfolding isolated_def
proof (intro conjI allI impI)
  show "prefix h0 (h @ [props])" using isolated_prefix[OF assms(1)] by simp
next
  fix a assume a: "a < length (h @ [props])" "length h0 \<le> a"
  have "ownObject h0 h ((h @ [props]) ! a)"
    using a assms isolated_object[of h0 h a] by (cases "a < length h") (simp_all add: nth_append)
  then show "ownObject h0 (h @ [props]) ((h @ [props]) ! a)" by (rule ownObject_mono) simp
qed

lemma isolated_set:
  assumes "isolated h0 h" "length h0 \<le> a" "a < length h" "ownVal h0 h v"
  shows "isolated h0 (setProperty a name v h)"
  unfolding isolated_def
proof (intro conjI allI impI)
  show "prefix h0 (setProperty a name v h)"
    using isolated_prefix[OF assms(1)] assms(2) by (auto simp: setProperty_def prefix_def list_update_append)
next
  fix b assume b: "b < length (setProperty a name v h)" "length h0 \<le> b"
  have "ownObject h0 h (setProperty a name v h ! b)"
    using b isolated_object[OF assms(1)] assms(2-4) ownObject_update[of h0 h "h ! a" v name]
    by (cases "a = b") (simp_all add: setProperty_def)
  then show "ownObject h0 (setProperty a name v h) (setProperty a name v h ! b)"
    by (rule ownObject_mono) (simp add: setProperty_def)
qed

lemma setProperty_length [simp]: "length (setProperty a name v h) = length h"
  by (simp add: setProperty_def)

lemma objectAssign_length [simp]: "length (objectAssign a props h) = length h"
  unfolding objectAssign_def by (induction props arbitrary: h) (simp_all add: case_prod_beta)

lemma isolated_assign:
  assumes "isolated h0 h" "length h0 \<le> a" "a < length h" "ownObject h0 h props"
  shows "isolated h0 (objectAssign a props h)"
  using assms
proof (induction props arbitrary: h)
  case Nil
  then show ?case by (simp add: objectAssign_def)
next
  case (Cons p props)
  obtain k v where p: "p = (k, v)" by (cases p)
  let ?h = "setProperty a k v h"
  have "isolated h0 ?h" using Cons.prems p by (intro isolated_set) simp_all
  moreover have "ownObject h0 ?h props" by (rule ownObject_mono[of h0 h]) (use Cons.prems(4) p in simp_all)
  ultimately have "isolated h0 (objectAssign a props ?h)"
    using Cons.IH[of ?h] Cons.prems(2,3) by simp
  then show ?case by (simp add: objectAssign_def p)
qed

lemma isolated_merge:
  assumes "isolated h0 h" "length h0 \<le> a" "a < length h" "ownVal h0 h v"
  shows "isolated h0 (mergeValue a key v h)"
proof (cases "isRef (getProperty h a key) \<and> isRef v")
  case True
  then obtain b c where refs: "getProperty h a key = Ref b" "v = Ref c"
    by (cases "getProperty h a key"; cases v) auto
  have "length h0 \<le> b" "b < length h" using isolated_property[OF assms(1-3), of key] refs by simp_all
  moreover have "ownObject h0 h (h ! c)"
    using isolated_object[OF assms(1), of c] assms(4) refs(2) by simp
  ultimately show ?thesis using isolated_assign[OF assms(1)] refs by (simp add: mergeValue_def)
next
  case False
  then have "mergeValue a key v h = setProperty a key v h"
    by (cases "getProperty h a key"; cases v) (simp_all add: mergeValue_def)
  then show ?thesis using isolated_set[OF assms] by simp
qed

section \<open>Targets and rules\<close>

lemma isolated_cursor:
  assumes "isolated h0 h" "length h0 \<le> cursor" "cursor < length h" "targetCursor path cursor parts h = (r, h')"
  shows "isolated h0 h' \<and> length h \<le> length h' \<and> (\<forall>a. r = Inr a \<longrightarrow> length h0 \<le> a \<and> a < length h')"
  using assms
proof (induction parts arbitrary: cursor h)
  case Nil
  then show ?case by auto
next
  case (Cons part parts)
  show ?case
  proof (cases "getProperty h cursor part")
    case NoValue
    let ?h = "setProperty cursor part (Ref (length h)) (h @ [[]])"
    have "isolated h0 (h @ [[]])" using Cons.prems(1) by (rule isolated_new) simp
    then have "isolated h0 ?h"
      by (rule isolated_set) (use Cons.prems isolated_length in auto)
    then show ?thesis
      using Cons.IH[of ?h "length h"] Cons.prems isolated_length[OF Cons.prems(1)] NoValue
      by (auto simp: newObject_def)
  next
    case (Val j)
    then show ?thesis using Cons.prems by auto
  next
    case (Ref b)
    have "length h0 \<le> b" "b < length h"
      using isolated_property[OF Cons.prems(1-3), of part] Ref by simp_all
    then show ?thesis using Cons.IH[of h b] Cons.prems Ref by simp
  qed
qed

lemma mergeValue_length [simp]: "length (mergeValue a key v h) = length h"
  by (simp add: mergeValue_def split: val.splits)

lemma isolated_target:
  assumes "isolated h0 h" "length h0 \<le> target" "target < length h" "ownVal h0 h v"
    and "setTarget target path v h = (r, h')"
  shows "isolated h0 h' \<and> length h \<le> length h'"
proof -
  obtain r1 h1 where cursor: "targetCursor path target (butlast (splitOn (CHR ''.'') path)) h = (r1, h1)"
    by (cases "targetCursor path target (butlast (splitOn (CHR ''.'') path)) h")
  note h1 = isolated_cursor[OF assms(1-3) cursor]
  show ?thesis
  proof (cases r1)
    case (Inl e)
    then have "h' = h1" using assms(5) cursor by (simp add: setTarget_def bindH_def Let_def)
    then show ?thesis using h1 by simp
  next
    case (Inr a)
    then have "h' = mergeValue a (last (splitOn (CHR ''.'') path)) v h1"
      using assms(5) cursor by (simp add: setTarget_def bindH_def Let_def)
    then show ?thesis
      using h1 Inr isolated_merge[of h0 h1 a v] ownVal_mono[OF assms(4), of h1] by simp
  qed
qed

section \<open>Expressions without shared objects\<close>

definition scalarFields :: "expression_fields \<Rightarrow> bool" where
  "scalarFields e = (pred_option (\<lambda>v. \<not> isRef v) (me_const e) \<and> pred_option (\<lambda>v. \<not> isRef v) (me_default e))"

fun scalarExpression :: "mapping_expression \<Rightarrow> bool" where
  "scalarExpression (MappingExpression e children) =
     (case children of None \<Rightarrow> scalarFields e | Some cs \<Rightarrow> (\<forall>c \<in> snd ` set cs. scalarExpression c))"

definition scalarMapping :: "import_mapping \<Rightarrow> bool" where
  "scalarMapping mapping = list_all (\<lambda>rule. scalarExpression (rule_expression rule)) (im_rules mapping)"

text \<open>A row of scalar cells that is in the store.\<close>

definition flatRow :: "store \<Rightarrow> val \<Rightarrow> bool" where
  "flatRow h row = (case row of Ref r \<Rightarrow> r < length h \<and> list_all (\<lambda>p. \<not> isRef (snd p)) (h ! r) | _ \<Rightarrow> False)"

lemma flatRow_isolated: "flatRow h0 row \<Longrightarrow> isolated h0 h \<Longrightarrow> flatRow h row"
  using isolated_old[of h0 h] isolated_length[of h0 h] by (auto simp: flatRow_def split: val.splits)

lemma flatRow_prefix: "flatRow h row \<Longrightarrow> prefix h h' \<Longrightarrow> flatRow h' row"
  by (auto simp: flatRow_def prefix_def nth_append split: val.splits)

lemma flat_property: "flatRow h (Ref r) \<Longrightarrow> \<not> isRef (getProperty h r name)"
  by (fastforce simp: flatRow_def getProperty_def list_all_iff split: option.splits dest: map_of_SomeD)

lemma descend_scalar: "\<not> isRef v \<Longrightarrow> \<not> isRef (descendSource h v parts)"
  by (induction h v parts rule: descendSource.induct) simp_all

lemma flat_source: "flatRow h row \<Longrightarrow> \<not> isRef (sourceValue h row name)"
proof -
  assume row: "flatRow h row"
  then obtain r where r: "row = Ref r" by (cases row) (simp_all add: flatRow_def)
  have "\<not> isRef (descendSource h row (splitOn (CHR ''.'') path))" for path
    using flat_property[of h r] row descend_scalar[of _ h] r
    by (cases "splitOn (CHR ''.'') path") simp_all
  then show ?thesis by (simp add: sourceValue_def split: option.split)
qed

lemma initial_scalar: "flatRow h row \<Longrightarrow> scalarFields e \<Longrightarrow> \<not> isRef (initialValue e h row)"
  by (auto simp: initialValue_def scalarFields_def Let_def flat_source split: option.splits)

lemma mapped_scalar: "mappedValue digits e v = Inr w \<Longrightarrow> \<not> isRef v \<Longrightarrow> \<not> isRef w"
  by (auto simp: mappedValue_def split: option.splits)

lemma boolean_scalar: "booleanStep digits e v = Inr w \<Longrightarrow> \<not> isRef v \<Longrightarrow> \<not> isRef w"
  by (auto simp: booleanStep_def split: option.splits sum.splits)

lemma uppercase_scalar: "\<not> isRef v \<Longrightarrow> \<not> isRef (uppercaseStep e v)"
  by (auto simp: uppercaseStep_def split: val.splits json.splits)

lemma timestamp_scalar: "timestampStep dp e v h row = Inr w \<Longrightarrow> \<not> isRef v \<Longrightarrow> \<not> isRef w"
  by (auto simp: timestampStep_def split: option.splits sum.splits)

lemma isolated_money:
  assumes "isolated h0 h" "\<not> isRef v" "moneyStep digits e v row h = (r, h')"
  shows "isolated h0 h' \<and> length h \<le> length h' \<and> (\<forall>w. r = Inr w \<longrightarrow> ownVal h0 h' w)"
proof (cases "me_money e")
  case None
  then show ?thesis using assms by (auto simp: moneyStep_def returnH_def ownVal_scalar)
next
  case (Some config)
  show ?thesis
  proof (cases "moneyFields digits v config h row")
    case (Inl x)
    then show ?thesis using assms Some by (auto simp: moneyStep_def moneyValue_def)
  next
    case (Inr props)
    have "ownObject h0 h props" using Inr by (auto simp: moneyFields_def Let_def split: sum.splits if_splits)
    then have "isolated h0 (h @ [props])" by (rule isolated_new[OF assms(1)])
    then show ?thesis
      using assms Some Inr isolated_length[OF assms(1)] by (auto simp: moneyStep_def moneyValue_def newObject_def)
  qed
qed

lemma prefix_own: "prefixStep digits e v = Inr w \<Longrightarrow> ownVal h0 h v \<Longrightarrow> ownVal h0 h w"
  by (auto simp: prefixStep_def split: if_splits option.splits val.splits json.splits)

lemma isolated_fields:
  assumes iso: "isolated h0 h" and row: "flatRow h row" "scalarFields e"
    and run: "evaluateFields dp digits e row h = (r, h')"
  shows "isolated h0 h' \<and> length h \<le> length h' \<and> (\<forall>v. r = Inr (Some v) \<longrightarrow> ownVal h0 h' v)"
proof (cases "mappedValue digits e (initialValue e h row)")
  case (Inl x)
  then show ?thesis using run iso by (auto simp: evaluateFields_def)
next
  case (Inr v)
  have v: "\<not> isRef v" using mapped_scalar[OF Inr initial_scalar[OF row]] .
  show ?thesis
  proof (cases "omit_if_empty e \<and> emptyVal v")
    case True
    then show ?thesis using Inr run iso by (auto simp: evaluateFields_def)
  next
    case kept: False
    show ?thesis
    proof (cases "booleanStep digits e v")
      case (Inl x)
      then show ?thesis using kept \<open>mappedValue _ _ _ = _\<close> run iso by (auto simp: evaluateFields_def bindH_def liftH_def)
    next
      case b: (Inr vb)
      show ?thesis
      proof (cases "timestampStep dp e (uppercaseStep e vb) h row")
        case (Inl x)
        then show ?thesis using kept b Inr run iso by (auto simp: evaluateFields_def bindH_def liftH_def)
      next
        case t: (Inr vt)
        have vt: "\<not> isRef vt" using timestamp_scalar[OF t uppercase_scalar[OF boolean_scalar[OF b v]]] .
        obtain rm hm where m: "moneyStep digits e vt row h = (rm, hm)" by (cases "moneyStep digits e vt row h")
        note im = isolated_money[OF iso vt m]
        have "evaluateFields dp digits e row h = (case rm of Inl x \<Rightarrow> (Inl x, hm)
           | Inr vm \<Rightarrow> (case prefixStep digits e vm of Inl x \<Rightarrow> (Inl x, hm) | Inr w \<Rightarrow> (Inr (Some w), hm)))"
          using kept b t m Inr
          by (auto simp: evaluateFields_def bindH_def liftH_def returnH_def split: sum.split)
        then show ?thesis using run im prefix_own[of digits e _ _ h0 hm] by (auto split: sum.splits)
      qed
    qed
  qed
qed

lemma isolated_expression:
  "evaluateExpression dp digits e row h = (r, h') \<Longrightarrow> isolated h0 h \<Longrightarrow> flatRow h0 row \<Longrightarrow> scalarExpression e \<Longrightarrow>
     isolated h0 h' \<and> length h \<le> length h' \<and> (\<forall>v. r = Inr (Some v) \<longrightarrow> ownVal h0 h' v)"
  "evaluateObject dp digits cs row h = (q, h') \<Longrightarrow> isolated h0 h \<Longrightarrow> flatRow h0 row \<Longrightarrow>
     (\<forall>c \<in> snd ` set cs. scalarExpression c) \<Longrightarrow>
     isolated h0 h' \<and> length h \<le> length h' \<and> (\<forall>props. q = Inr props \<longrightarrow> ownObject h0 h' props)"
proof (induction dp digits e row h and dp digits cs row h arbitrary: r h' and q h'
    rule: evaluateExpression_evaluateObject.induct)
  case (1 dp digits e row h)
  then show ?case using isolated_fields[OF 1(2) flatRow_isolated[OF 1(3,2)]] by simp
next
  case (2 dp digits e children row h)
  obtain q1 h1 where object: "evaluateObject dp digits children row h = (q1, h1)" by fastforce
  have ih: "isolated h0 h1 \<and> length h \<le> length h1 \<and> (\<forall>props. q1 = Inr props \<longrightarrow> ownObject h0 h1 props)"
    using "2.IH"[OF object "2.prems"(2,3)] "2.prems"(4) by simp
  show ?case
  proof (cases q1)
    case (Inl x)
    then show ?thesis using "2.prems"(1) object ih by auto
  next
    case (Inr props)
    then have "r = Inr (Some (Ref (length h1)))" "h' = h1 @ [props]"
      using "2.prems"(1) object by (simp_all add: newObject_def)
    then show ?thesis
      using ih Inr isolated_new[of h0 h1 props] isolated_length[of h0 h1] by simp
  qed
next
  case (3 dp digits row h)
  then show ?case by auto
next
  case (4 dp digits name child children row h)
  obtain r1 h1 where child: "evaluateExpression dp digits child row h = (r1, h1)" by fastforce
  have ih1: "isolated h0 h1 \<and> length h \<le> length h1 \<and> (\<forall>v. r1 = Inr (Some v) \<longrightarrow> ownVal h0 h1 v)"
    using "4.IH"(1)[OF child "4.prems"(2,3)] "4.prems"(4) by simp
  show ?case
  proof (cases r1)
    case (Inl x)
    then show ?thesis using "4.prems"(1) child ih1 by auto
  next
    case (Inr w)
    obtain q2 h2 where rest: "evaluateObject dp digits children row h1 = (q2, h2)" by fastforce
    have ih2: "isolated h0 h2 \<and> length h1 \<le> length h2 \<and> (\<forall>props. q2 = Inr props \<longrightarrow> ownObject h0 h2 props)"
      using "4.IH"(2)[OF child[symmetric] Inr rest] ih1 "4.prems"(3,4) by simp
    show ?thesis
    proof (cases q2)
      case (Inl x)
      then show ?thesis using "4.prems"(1) child \<open>r1 = _\<close> rest ih1 ih2 by auto
    next
      case props: (Inr props)
      have "ownObject h0 h2 (case w of None \<Rightarrow> [] | Some v \<Rightarrow> [(name, v)])"
        using ih1 ih2 Inr by (auto split: option.split intro: ownVal_mono)
      then show ?thesis using "4.prems"(1) child Inr rest props ih1 ih2 by auto
    qed
  qed
qed

section \<open>Rows that do not see each other\<close>

lemma isolated_rules:
  assumes "isolated h0 h" "length h0 \<le> output" "output < length h" "flatRow h0 row"
    and "list_all (\<lambda>rule. scalarExpression (rule_expression rule)) rules"
    and "applyRules dp digits rules row output h = (r, h')"
  shows "isolated h0 h' \<and> length h \<le> length h'"
  using assms
proof (induction rules arbitrary: h)
  case Nil
  then show ?case by auto
next
  case (Cons rule rules)
  obtain r1 h1 where e: "evaluateExpression dp digits (rule_expression rule) row h = (r1, h1)" by fastforce
  have s: "scalarExpression (rule_expression rule)" using Cons.prems(5) by simp
  note i1 = isolated_expression(1)[OF e Cons.prems(1,4) s]
  show ?case
  proof (cases r1)
    case (Inl x)
    then show ?thesis using Cons.prems(6) e i1 by auto
  next
    case (Inr w)
    show ?thesis
    proof (cases w)
      case None
      then show ?thesis using Cons.IH[of h1] Cons.prems e i1 Inr by simp
    next
      case (Some v)
      obtain r2 h2 where t: "setTarget output (rule_target rule) v h1 = (r2, h2)" by fastforce
      have i2: "isolated h0 h2 \<and> length h1 \<le> length h2"
        by (rule isolated_target[OF _ Cons.prems(2) _ _ t]) (use i1 Inr Some Cons.prems(3) in auto)
      show ?thesis
        using Cons.IH[of h2] Cons.prems e i1 i2 Inr Some t by (cases r2) auto
    qed
  qed
qed

lemma mapRow_grows:
  assumes "flatRow h row" "scalarMapping mapping" "mapRow dp digits mapping row h = (r, h')"
  shows "isolated h h' \<and> (\<forall>a. r = Inr a \<longrightarrow> length h \<le> a \<and> a < length h')"
proof -
  obtain r1 h1 where rules: "applyRules dp digits (im_rules mapping) row (length h) (h @ [[]]) = (r1, h1)" by fastforce
  have "isolated h (h @ [[]])" by (rule isolated_new[OF isolated_refl]) simp
  then have "isolated h h1 \<and> length (h @ [[]]) \<le> length h1"
    by (rule isolated_rules[OF _ _ _ assms(1) _ rules]) (use assms(2) in \<open>simp_all add: scalarMapping_def\<close>)
  then show ?thesis using assms(3) rules by (auto simp: mapRow_def Let_def split: sum.splits)
qed

lemma toAttempt_payload:
  "toAttempt env mapping digest now ordinal h mapped = Inr attempt \<Longrightarrow> getProperty h mapped ''payload'' = Ref (ir_payload attempt)"
  by (auto simp: toAttempt_def Let_def split: val.splits json.splits if_splits option.splits)

lemma mapRows_grows:
  assumes "list_all (flatRow h) rows" "scalarMapping mapping"
    and "mapRows env mapping digest now ordinal rows h = ((attempts, failures), h')"
  shows "prefix h h' \<and> list_all (\<lambda>(i, attempt). length h \<le> ir_payload attempt \<and> ir_payload attempt < length h') attempts"
  using assms
proof (induction rows arbitrary: ordinal h attempts failures h')
  case Nil
  then show ?case by simp
next
  case (Cons row rows)
  show ?case
  proof (cases "rowMatches mapping h row")
    case False
    then show ?thesis using Cons.IH[of h "ordinal + 1"] Cons.prems by simp
  next
    case True
    obtain r h1 where row: "mapRow (ie_dateParse env) (ie_digits env) mapping row h = (r, h1)" by fastforce
    have grows: "isolated h h1" "\<And>a. r = Inr a \<Longrightarrow> length h \<le> a \<and> a < length h1"
      using mapRow_grows[OF _ Cons.prems(2) row] Cons.prems(1) by simp_all
    obtain as fs h2 where rest: "mapRows env mapping digest now (ordinal + 1) rows h1 = ((as, fs), h2)"
      by (metis prod.exhaust)
    have flat: "list_all (flatRow h1) rows"
      using Cons.prems(1) flatRow_prefix[OF _ isolated_prefix[OF grows(1)]] by (auto simp: list_all_iff)
    note ih = Cons.IH[OF flat Cons.prems(2) rest]
    have h': "h' = h2" using Cons.prems(3) True row rest by (auto simp: Let_def split: sum.splits)
    have new: "length h \<le> ir_payload attempt \<and> ir_payload attempt < length h2"
      if "r = Inr mapped" "toAttempt env mapping digest now ordinal h1 mapped = Inr attempt" for mapped attempt
      using isolated_property[OF grows(1), of mapped "''payload''"] grows(2)[OF that(1)] toAttempt_payload[OF that(2)]
        prefix_length_le[of h1 h2] ih by auto
    have "list_all (\<lambda>(i, attempt). length h \<le> ir_payload attempt \<and> ir_payload attempt < length h2) attempts"
      using Cons.prems(3) True row rest ih isolated_length[OF grows(1)] new
      by (auto simp: Let_def list_all_iff split: sum.splits) force+
    then show ?thesis using h' ih isolated_prefix[OF grows(1)] prefix_order.trans by blast
  qed
qed

text \<open>What the earlier rows gave stands in the store as it was when later rows are mapped.\<close>

lemma mapRows_append:
  assumes "list_all (flatRow h) (rows @ later)" "scalarMapping mapping"
    and "mapRows env mapping digest now ordinal (rows @ later) h = ((attempts, failures), h')"
  shows "\<exists>attempts1 failures1 h1. mapRows env mapping digest now ordinal rows h = ((attempts1, failures1), h1) \<and>
    prefix attempts1 attempts \<and> prefix failures1 failures \<and> prefix h1 h'"
  using assms
proof (induction rows arbitrary: ordinal h attempts failures h')
  case Nil
  then show ?case using mapRows_grows[OF Nil(1)[simplified] Nil(2)] by fastforce
next
  case (Cons row rows)
  show ?case
  proof (cases "rowMatches mapping h row")
    case False
    then show ?thesis using Cons.IH[of h "ordinal + 1"] Cons.prems by simp
  next
    case True
    obtain r h1 where row: "mapRow (ie_dateParse env) (ie_digits env) mapping row h = (r, h1)" by fastforce
    have "isolated h h1" using mapRow_grows[OF _ Cons.prems(2) row] Cons.prems(1) by simp
    then have flat: "list_all (flatRow h1) (rows @ later)"
      using Cons.prems(1) flatRow_prefix[OF _ isolated_prefix] by (auto simp: list_all_iff)
    obtain as fs h2 where rest: "mapRows env mapping digest now (ordinal + 1) (rows @ later) h1 = ((as, fs), h2)"
      by (metis prod.exhaust)
    obtain as1 fs1 h3 where ih: "mapRows env mapping digest now (ordinal + 1) rows h1 = ((as1, fs1), h3)"
      "prefix as1 as" "prefix fs1 fs" "prefix h3 h2"
      using Cons.IH[OF flat Cons.prems(2) rest] by blast
    show ?thesis
      using Cons.prems(3) True row rest ih by (auto simp: Let_def split: sum.splits)
  qed
qed

end
