(* ===== verification/ImportCost.thy ===== *)
theory ImportCost
  imports ImportRows
begin

text \<open>
  Imported costs: decimal amounts as unscaled integers, the rows that the advertising networks
  report, the rows of a cost file, and the import of rows into the ledger, which skips a row
  the ledger has. The digests, the run identifier and what the database refuses are parameters.
\<close>

section \<open>Decimal amounts\<close>

text \<open>\<^verbatim>\<open>text.replace(/^0+(?=[0-9])/, "")\<close> of a text of digits\<close>

fun stripZeros :: "string \<Rightarrow> string" where
  "stripZeros (c # d # s) = (if c = CHR ''0'' then stripZeros (d # s) else c # d # s)"
| "stripZeros s = s"

definition decimalToUnscaled :: "string \<Rightarrow> nat \<Rightarrow> string res" where
  "decimalToUnscaled amount scale =
     (case decimalParts (trim amount) of
        None \<Rightarrow> Inl (JsError ''cost amount must be a non-negative decimal without exponent notation'')
      | Some (whole, fraction) \<Rightarrow>
          if length fraction > scale then Inl (JsError (''cost amount exceeds scale '' @ showNat scale))
          else Inr (stripZeros (whole @ padEnd scale fraction)))"

section \<open>Rows of costs\<close>

record cost_input =
  ci_tenant_id :: string
  ci_app_id :: string
  ci_network :: string
  ci_campaign_id :: "string option"
  ci_ad_group_id :: "string option"
  ci_country :: "string option"
  ci_date :: string
  ci_amount_unscaled :: string
  ci_amount_scale :: val
  ci_currency :: string
  ci_as_of :: string

record cost_scope =
  cs_tenant_id :: string
  cs_app_id :: string
  cs_currency :: string
  cs_as_of :: string

definition fieldOf :: "json \<Rightarrow> string \<Rightarrow> json option" where
  "fieldOf j name = (case j of JObj ps \<Rightarrow> map_of ps name | _ \<Rightarrow> None)"

definition optString :: "(rat \<Rightarrow> string) \<Rightarrow> json option \<Rightarrow> string" where
  "optString digits v = (case v of None \<Rightarrow> ''undefined'' | Some j \<Rightarrow> jsString digits j)"

text \<open>\<^verbatim>\<open>a ?? b\<close>\<close>

definition nullOr :: "json option \<Rightarrow> json option \<Rightarrow> json option" where
  "nullOr a b = (if a = None \<or> a = Some JNull then b else a)"

text \<open>\<^verbatim>\<open>(rows ?? []).map(f)\<close>, where the rows may be no array.\<close>

definition mapArray :: "json \<Rightarrow> (json \<Rightarrow> 'a res) \<Rightarrow> 'a list res" where
  "mapArray rows f = (case rows of JArr xs \<Rightarrow> mapR f xs | _ \<Rightarrow> Inl TypeError)"

definition rowsOrEmpty :: "json option \<Rightarrow> json" where
  "rowsOrEmpty v = (case nullOr v None of None \<Rightarrow> JArr [] | Some j \<Rightarrow> j)"

definition metaRow :: "(rat \<Rightarrow> string) \<Rightarrow> cost_scope \<Rightarrow> json \<Rightarrow> cost_input res" where
  "metaRow digits scope row =
     (if row = JNull then Inl TypeError else
      bindR (decimalToUnscaled (optString digits (fieldOf row ''spend'')) 6) (\<lambda>amount.
        Inr \<lparr>ci_tenant_id = cs_tenant_id scope, ci_app_id = cs_app_id scope, ci_network = ''meta'',
          ci_campaign_id = Some (optString digits (fieldOf row ''campaign_id'')),
          ci_ad_group_id = (if truthyField (fieldOf row ''adset_id'') then Some (optString digits (fieldOf row ''adset_id'')) else None),
          ci_country = (if truthyField (fieldOf row ''country'')
             then Some (map upperChar (optString digits (fieldOf row ''country''))) else None),
          ci_date = optString digits (fieldOf row ''date_start''),
          ci_amount_unscaled = amount, ci_amount_scale = Val (JNum (numN 6)),
          ci_currency = map upperChar (cs_currency scope), ci_as_of = cs_as_of scope\<rparr>))"

definition normalizeMetaInsights :: "(rat \<Rightarrow> string) \<Rightarrow> cost_scope \<Rightarrow> json \<Rightarrow> cost_input list res" where
  "normalizeMetaInsights digits scope response =
     (if response = JNull then Inl TypeError else mapArray (rowsOrEmpty (fieldOf response ''data'')) (metaRow digits scope))"

definition nestedField :: "json \<Rightarrow> string \<Rightarrow> string \<Rightarrow> json option" where
  "nestedField row outer inner = (case fieldOf row outer of None \<Rightarrow> None | Some j \<Rightarrow> fieldOf j inner)"

definition googleRow ::
  "(rat \<Rightarrow> string) \<Rightarrow> (string \<times> string) list \<Rightarrow> cost_scope \<Rightarrow> json \<Rightarrow> cost_input res" where
  "googleRow digits countries scope row =
     (if row = JNull then Inl TypeError else
      (let countryId = optString digits (nullOr (nestedField row ''geographicView'' ''countryCriterionId'')
             (nullOr (fieldOf row ''country_criterion_id'') (Some (JStr []))));
           adGroup = optString digits (nullOr (nestedField row ''adGroup'' ''id'')
             (nullOr (fieldOf row ''ad_group_id'') (Some (JStr [])))) in
       case keepTruthy (map_of countries countryId) of
         None \<Rightarrow> Inl (JsError (''Google Ads country criterion is unmapped: '' @ countryId))
       | Some country \<Rightarrow> Inr \<lparr>ci_tenant_id = cs_tenant_id scope, ci_app_id = cs_app_id scope, ci_network = ''google-ads'',
           ci_campaign_id = Some (optString digits (nullOr (nestedField row ''campaign'' ''id'') (fieldOf row ''campaign_id''))),
           ci_ad_group_id = (if truthyField (fieldOf row ''is_app_campaign'') then None else keepTruthy (Some adGroup)),
           ci_country = Some country,
           ci_date = optString digits (nullOr (nestedField row ''segments'' ''date'') (fieldOf row ''date'')),
           ci_amount_unscaled = optString digits (nullOr (nestedField row ''metrics'' ''costMicros'') (fieldOf row ''cost_micros'')),
           ci_amount_scale = Val (JNum (numN 6)), ci_currency = map upperChar (cs_currency scope),
           ci_as_of = cs_as_of scope\<rparr>))"

definition normalizeGoogleAds ::
  "(rat \<Rightarrow> string) \<Rightarrow> cost_scope \<Rightarrow> json \<Rightarrow> (string \<times> string) list \<Rightarrow> cost_input list res" where
  "normalizeGoogleAds digits scope response countries =
     (if response = JNull then Inl TypeError
      else mapArray (the (nullOr (fieldOf response ''results'') (Some response))) (googleRow digits countries scope))"

definition maxRow :: "(rat \<Rightarrow> string) \<Rightarrow> cost_scope \<Rightarrow> json \<Rightarrow> cost_input res" where
  "maxRow digits scope row =
     (if row = JNull then Inl TypeError else
      bindR (decimalToUnscaled (optString digits (fieldOf row ''estimated_revenue'')) 6) (\<lambda>amount.
        Inr \<lparr>ci_tenant_id = cs_tenant_id scope, ci_app_id = cs_app_id scope,
          ci_network = optString digits (nullOr (fieldOf row ''network'') (Some (JStr ''applovin-max''))),
          ci_campaign_id = Some (optString digits (nullOr (fieldOf row ''ad_unit_id'') (Some (JStr ''aggregate'')))),
          ci_ad_group_id = None,
          ci_country = (if truthyField (fieldOf row ''country'')
             then Some (map upperChar (optString digits (fieldOf row ''country''))) else None),
          ci_date = optString digits (fieldOf row ''day''),
          ci_amount_unscaled = amount, ci_amount_scale = Val (JNum (numN 6)),
          ci_currency = ''USD'', ci_as_of = cs_as_of scope\<rparr>))"

definition normalizeMaxBackfill :: "(rat \<Rightarrow> string) \<Rightarrow> cost_scope \<Rightarrow> json \<Rightarrow> cost_input list res" where
  "normalizeMaxBackfill digits scope response =
     (if response = JNull then Inl TypeError
      else mapArray (the (nullOr (fieldOf response ''results'') (nullOr (fieldOf response ''data'') (Some response))))
        (maxRow digits scope))"

section \<open>Rows of a cost file\<close>

definition requiredText :: "val \<Rightarrow> string \<Rightarrow> string res" where
  "requiredText v field =
     (case v of
        Val (JStr s) \<Rightarrow> if s = [] then Inl (JsError (''mapped '' @ field @ '' is required'')) else Inr s
      | _ \<Rightarrow> Inl (JsError (''mapped '' @ field @ '' is required'')))"

definition optionalText :: "val \<Rightarrow> string \<Rightarrow> string option res" where
  "optionalText v field = (if v = NoValue then Inr None else bindR (requiredText v field) (\<lambda>s. Inr (Some s)))"

text \<open>\<^verbatim>\<open>/^[0-9]{4}-[0-9]{2}-[0-9]{2}$/\<close>\<close>

definition dayShape :: "string \<Rightarrow> bool" where
  "dayShape s = (length s = 10 \<and> (\<forall>i < 10. if i = 4 \<or> i = 7 then s ! i = CHR ''-'' else isDigit (s ! i)))"

definition costInput :: "(string \<Rightarrow> int option) \<Rightarrow> import_mapping \<Rightarrow> store \<Rightarrow> nat \<Rightarrow> cost_input res" where
  "costInput dateParse mapping h mapped =
     (case getProperty h mapped ''money'' of
        Ref money \<Rightarrow>
          bindR (requiredText (getProperty h mapped ''date'') ''date'') (\<lambda>date.
          bindR (throwIf (\<not> dayShape date) (JsError ''mapped date must be YYYY-MM-DD'')) (\<lambda>_.
          bindR (requiredText (getProperty h mapped ''as_of'') ''as_of'') (\<lambda>asOf.
          case dateParse asOf of
            None \<Rightarrow> Inl (JsError ''mapped as_of must be a timestamp'')
          | Some t \<Rightarrow>
              bindR (requiredText (getProperty h mapped ''network'') ''network'') (\<lambda>network.
              bindR (optionalText (getProperty h mapped ''campaign_id'') ''campaign_id'') (\<lambda>campaign.
              bindR (optionalText (getProperty h mapped ''ad_group_id'') ''ad_group_id'') (\<lambda>adGroup.
              bindR (optionalText (getProperty h mapped ''country'') ''country'') (\<lambda>country.
              bindR (requiredText (getProperty h money ''amount_unscaled'') ''money.amount_unscaled'') (\<lambda>amount.
              bindR (requiredText (getProperty h money ''currency'') ''money.currency'') (\<lambda>currency.
                Inr \<lparr>ci_tenant_id = im_tenant_id mapping, ci_app_id = im_app_id mapping, ci_network = network,
                  ci_campaign_id = campaign, ci_ad_group_id = adGroup, ci_country = country, ci_date = date,
                  ci_amount_unscaled = amount, ci_amount_scale = getProperty h money ''amount_scale'',
                  ci_currency = currency, ci_as_of = toISOText t\<rparr>)))))))))
      | _ \<Rightarrow> Inl (JsError ''mapped money is required''))"

section \<open>The import\<close>

record cost_artifact =
  ca_input :: cost_input
  ca_cost_record_id :: string
  ca_currency :: string
  ca_report_snapshot_digest :: string
  ca_dimension_digest :: string

record cost_env =
  ce_digest :: "json \<Rightarrow> string"
  ce_rowsDigest :: "cost_input list \<Rightarrow> string"
  ce_runId :: "string \<Rightarrow> string res"
  ce_refuses :: "cost_artifact \<Rightarrow> js_error option"

fun textOrNull :: "string option \<Rightarrow> json" where
  "textOrNull None = JNull"
| "textOrNull (Some s) = JStr s"

definition dimensionObject :: "cost_input \<Rightarrow> json" where
  "dimensionObject row = JObj
     [(''ad_group_id'', textOrNull (ci_ad_group_id row)), (''app_id'', JStr (ci_app_id row)),
      (''campaign_id'', textOrNull (ci_campaign_id row)), (''country'', textOrNull (ci_country row)),
      (''date'', JStr (ci_date row)), (''network'', JStr (ci_network row)), (''tenant_id'', JStr (ci_tenant_id row))]"

definition costArtifact :: "cost_env \<Rightarrow> cost_input \<Rightarrow> string \<Rightarrow> cost_artifact" where
  "costArtifact env row reportDigest =
     \<lparr>ca_input = row\<lparr>ci_ad_group_id := keepTruthy (ci_ad_group_id row), ci_country := keepTruthy (ci_country row)\<rparr>,
      ca_cost_record_id = ''cost:'' @ take 48 (ce_digest env (JArr [dimensionObject row, JStr (ci_as_of row),
        JStr (ci_amount_unscaled row), JStr (ci_currency row)])),
      ca_currency = map upperChar (ci_currency row),
      ca_report_snapshot_digest = reportDigest,
      ca_dimension_digest = ce_digest env (dimensionObject row)\<rparr>"

text \<open>The apps, the import runs and the cost records of the database.\<close>

record cost_db =
  cd_apps :: "(string \<times> string) list"
  cd_runs :: "(string \<times> string \<times> string \<times> string) list"
  cd_costs :: "cost_artifact list"

definition costKey :: "cost_artifact \<Rightarrow> string \<times> string \<times> string \<times> string" where
  "costKey a = (ci_tenant_id (ca_input a), ci_app_id (ca_input a), ca_dimension_digest a, ci_as_of (ca_input a))"

definition costConflict :: "cost_artifact list \<Rightarrow> cost_artifact \<Rightarrow> bool" where
  "costConflict costs a = list_ex (\<lambda>b. ca_cost_record_id b = ca_cost_record_id a \<or> costKey b = costKey a) costs"

definition insertCost :: "cost_env \<Rightarrow> string \<Rightarrow> cost_artifact list \<times> nat \<Rightarrow> cost_input \<Rightarrow> (cost_artifact list \<times> nat) res" where
  "insertCost env reportDigest state row =
     bindR (throwIf (\<not> currencyCode (ci_currency row) \<or> \<not> allDigits (ci_amount_unscaled row))
              (JsError ''cost money representation is invalid'')) (\<lambda>_.
     let artifact = costArtifact env row reportDigest; (costs, inserted) = state in
     case ce_refuses env artifact of
       Some e \<Rightarrow> Inl e
     | None \<Rightarrow> if costConflict costs artifact then Inr (costs, inserted) else Inr (costs @ [artifact], inserted + 1))"

definition currentCount :: "string \<Rightarrow> string \<Rightarrow> cost_artifact list \<Rightarrow> nat" where
  "currentCount tenant app costs =
     card (set (map ca_dimension_digest
       (filter (\<lambda>a. ci_tenant_id (ca_input a) = tenant \<and> ci_app_id (ca_input a) = app) costs)))"

record cost_result =
  cr_inserted :: nat
  cr_current :: nat
  cr_import_run_id :: string

definition persistCostImport ::
  "cost_env \<Rightarrow> string \<Rightarrow> cost_input list \<Rightarrow> cost_db \<Rightarrow> (cost_result \<times> cost_db) res" where
  "persistCostImport env sourceId rows db =
     (case rows of
        [] \<Rightarrow> Inl (JsError ''cost import requires at least one row'')
      | scope # _ \<Rightarrow>
          if \<not> list_all (\<lambda>row. ci_tenant_id row = ci_tenant_id scope \<and> ci_app_id row = ci_app_id scope) rows
          then Inl (JsError ''a cost import cannot mix tenant or app scopes'')
          else
            (let reportDigest = ce_rowsDigest env rows; app = (ci_tenant_id scope, ci_app_id scope) in
             bindR (ce_runId env (ci_as_of scope)) (\<lambda>runId.
             bindR (foldR (insertCost env reportDigest) (cd_costs db, 0) rows) (\<lambda>(costs, inserted).
               Inr (\<lparr>cr_inserted = inserted, cr_current = currentCount (fst app) (snd app) costs, cr_import_run_id = runId\<rparr>,
                    \<lparr>cd_apps = (if app \<in> set (cd_apps db) then cd_apps db else cd_apps db @ [app]),
                     cd_runs = cd_runs db @ [(runId, fst app, snd app, sourceId)], cd_costs = costs\<rparr>)))))"

end
