(* ===== verification/MaxInbox.thy ===== *)
theory MaxInbox
  imports ImportCost PayloadStore
begin

text \<open>
  The postbacks of the MAX mediation network: the receiver, which checks a token and stores the
  query, and the worker, which turns each stored query into an attempt. The digests, the order
  of names, the parsing of a query and of a number, and the ingestion of an attempt are
  parameters. The ingestion works on a ledger of its own connection: the transaction of the
  worker is rolled back when an item throws, the ledger and the payload store are not.
\<close>

section \<open>The inbox\<close>

record max_item =
  mi_inbox_id :: string
  mi_tenant_id :: string
  mi_app_id :: string
  mi_event_id :: string
  mi_token_mode :: string
  mi_received_at :: string
  mi_raw_query_ref :: string
  mi_raw_query_digest :: string

type_synonym query = "(string \<times> string) list"

definition allowedParameters :: "string list" where
  "allowedParameters = [''event_id'', ''event_token'', ''event_token_all'', ''revenue'', ''all_revenue'', ''ts'',
     ''ad_unit_id'', ''network'', ''format'', ''placement'', ''precision'', ''cc'', ''user_id'']"

definition deniedParameters :: "string list" where
  "deniedParameters = [''idfa'', ''idfv'', ''ip'']"

datatype token_mode = AllTokens | EventTokens | AllWithEventFallback

record max_config =
  mc_tenantId :: string
  mc_appId :: string
  mc_pathSecret :: string
  mc_eventKey :: string
  mc_tokenMode :: token_mode
  mc_maxParameters :: nat
  mc_maxQueryBytes :: nat

record max_digests =
  md_sha1 :: "string \<Rightarrow> string"
  md_sha256 :: "string \<Rightarrow> string"
  md_collate :: "string \<Rightarrow> string \<Rightarrow> int"

section \<open>The receiver\<close>

definition safeEqual :: "string \<Rightarrow> string \<Rightarrow> bool" where
  "safeEqual left right = (utf8Bytes left = utf8Bytes right)"

definition expectedMaxTokenAll :: "max_digests \<Rightarrow> query \<Rightarrow> string \<Rightarrow> string" where
  "expectedMaxTokenAll d parameters eventKey =
     md_sha256 d
       (concat (map snd (js_sort (\<lambda>p q. md_collate d (fst p) (fst q))
          (filter (\<lambda>p. fst p \<noteq> ''event_token_all'' \<and> fst p \<noteq> ''event_token'') parameters))) @ eventKey)"

definition assertSafeMaxTemplate :: "string \<Rightarrow> unit res" where
  "assertSafeMaxTemplate template =
     forR (\<lambda>macro. throwIf (includesText (map upperChar template) macro) (JsError (''MAX URL template contains denied macro '' @ macro)))
       [CHR 0x7B # ''IDFA'' @ [CHR 0x7D], CHR 0x7B # ''IDFV'' @ [CHR 0x7D], CHR 0x7B # ''IP'' @ [CHR 0x7D]]"

definition parameterOr :: "query \<Rightarrow> string \<Rightarrow> string" where
  "parameterOr parameters name = (case map_of parameters name of None \<Rightarrow> [] | Some v \<Rightarrow> v)"

text \<open>The validity of the token and the mode it was checked in.\<close>

definition verifyMax :: "max_digests \<Rightarrow> max_config \<Rightarrow> query \<Rightarrow> bool \<times> string" where
  "verifyMax d config parameters =
     (let all = parameterOr parameters ''event_token_all'' in
      if mc_tokenMode config \<noteq> EventTokens \<and> all \<noteq> [] \<and> safeEqual all (expectedMaxTokenAll d parameters (mc_eventKey config))
      then (True, ''all'')
      else (let eventId = parameterOr parameters ''event_id''; event = parameterOr parameters ''event_token'';
                eventAllowed = (mc_tokenMode config = EventTokens \<or> mc_tokenMode config = AllWithEventFallback) in
            (eventAllowed \<and> eventId \<noteq> [] \<and> safeEqual event (md_sha1 d (eventId @ mc_eventKey config)), ''event'')))"

text \<open>\<^verbatim>\<open>Buffer.byteLength(rawUrl.split("?", 2)[1] ?? "", "utf8")\<close>\<close>

definition queryBytes :: "string \<Rightarrow> nat" where
  "queryBytes rawUrl = (case splitOn (CHR ''?'') rawUrl of _ # second # _ \<Rightarrow> length (utf8Bytes second) | _ \<Rightarrow> 0)"

text \<open>\<^verbatim>\<open>/^[A-Za-z0-9._:-]{1,128}$/\<close>\<close>

definition identifierText :: "string \<Rightarrow> bool" where
  "identifierText s = (1 \<le> length s \<and> length s \<le> 128 \<and> list_all (\<lambda>c. isAlphaNum c \<or> c \<in> set ''._:-'') s)"

record receive_env =
  rv_digests :: max_digests
  rv_parseUrl :: "string \<Rightarrow> query option"
  rv_printQuery :: "query \<Rightarrow> string"
  rv_now :: string
  rv_inboxId :: string
  rv_aead :: aead
  rv_random :: write_random
  rv_keyRefused :: bool
  rv_objectRefused :: bool
  rv_refused :: "max_item \<Rightarrow> js_error option"

record receiver_state =
  rs_inbox :: "max_item list"
  rs_audits :: "string list"
  rs_store :: payload_store

definition storeMax ::
  "receive_env \<Rightarrow> max_config \<Rightarrow> query \<Rightarrow> string \<Rightarrow> string \<Rightarrow> string \<Rightarrow> receiver_state \<Rightarrow> receiver_state \<times> nat res" where
  "storeMax env config parameters eventId mode requestDigest state =
     (case payloadWrite (rv_aead env) (rv_keyRefused env) (rv_objectRefused env) (rv_random env)
             \<lparr>sc_tenantId = mc_tenantId config, sc_appId = mc_appId config, sc_objectId = rv_inboxId env\<rparr>
             (utf8Bytes (rv_printQuery env parameters)) (rs_store state) of
        (store, Inl e) \<Rightarrow> (state\<lparr>rs_store := store\<rparr>, Inl e)
      | (store, Inr reference) \<Rightarrow>
          (let item = \<lparr>mi_inbox_id = rv_inboxId env, mi_tenant_id = mc_tenantId config, mi_app_id = mc_appId config,
                 mi_event_id = eventId, mi_token_mode = mode, mi_received_at = rv_now env, mi_raw_query_ref = reference,
                 mi_raw_query_digest = requestDigest\<rparr> in
           case rv_refused env item of
             Some e \<Rightarrow> (state\<lparr>rs_store := store\<rparr>, Inl e)
           | None \<Rightarrow> (state\<lparr>rs_store := store, rs_inbox := rs_inbox state @ [item]\<rparr>, Inr 204)))"

definition receiveMax :: "receive_env \<Rightarrow> max_config \<Rightarrow> string \<Rightarrow> receiver_state \<Rightarrow> receiver_state \<times> nat res" where
  "receiveMax env config rawUrl state =
     (let requestDigest = md_sha256 (rv_digests env) rawUrl in
      case rv_parseUrl env rawUrl of
        None \<Rightarrow> (state, Inl TypeError)
      | Some parameters \<Rightarrow>
          if queryBytes rawUrl > mc_maxQueryBytes config \<or> length parameters > mc_maxParameters config then (state, Inr 400)
          else (let names = map (\<lambda>p. map lowerChar (fst p)) parameters in
            if list_ex (\<lambda>name. name \<in> set deniedParameters) names \<or> list_ex (\<lambda>name. name \<notin> set allowedParameters) names
            then (state\<lparr>rs_audits := rs_audits state @ [''parameter_not_allowed'']\<rparr>, Inr 400)
            else (case verifyMax (rv_digests env) config parameters of (valid, mode) \<Rightarrow>
              if \<not> valid then (state\<lparr>rs_audits := rs_audits state @ [''token_invalid'']\<rparr>, Inr 401)
              else (case map_of parameters ''event_id'' of
                  None \<Rightarrow> (state, Inr 400)
                | Some eventId \<Rightarrow> if \<not> identifierText eventId then (state, Inr 400)
                    else storeMax env config parameters eventId mode requestDigest state))))"

section \<open>The attempt of an item\<close>

record max_attempt =
  ma_server :: json
  ma_record :: json
  ma_tenant_id :: string
  ma_app_id :: string
  ma_batch_id :: string

text \<open>\<^verbatim>\<open>new Date(seconds * 1000).toISOString()\<close>\<close>

definition millisText :: "number \<Rightarrow> string res" where
  "millisText n = (case n of Fin x \<Rightarrow> toISOString (truncateRat x) | _ \<Rightarrow> Inl RangeError)"

definition orText :: "string option \<Rightarrow> string \<Rightarrow> string" where
  "orText v other = (case keepTruthy v of None \<Rightarrow> other | Some s \<Rightarrow> s)"

definition maxPayload :: "max_item \<Rightarrow> query \<Rightarrow> string \<Rightarrow> json" where
  "maxPayload inbox query amount =
     (let userId = keepTruthy (map_of query ''user_id'');
          network = orText (map_of query ''network'') ''unknown'';
          country = map upperChar (orText (map_of query ''cc'') ''ZZ'') in
      JObj ([(''subject_scope'', JStr (if userId \<noteq> None then ''installation_level'' else ''aggregate''))] @
        (case userId of None \<Rightarrow> []
         | Some u \<Rightarrow> [(''installation_id'', JStr u), (''anchor_source'', JStr ''server_user_ref'')]) @
        [(''impression_id'', JStr (mi_event_id inbox)),
         (''ad_unit_id'', JStr (orText (map_of query ''ad_unit_id'') ''unknown'')),
         (''ad_network'', JStr network), (''country'', JStr country),
         (''amount_unscaled'', JStr amount), (''amount_scale'', JNum (numN 6)),
         (''currency'', JStr ''USD''), (''currency_source'', JStr ''reported''), (''revenue_source'', JStr ''imported_reported''),
         (''import_context'', JObj [(''provider'', JStr ''applovin-max''), (''provider_attributed'', JBool False),
            (''provider_attribution_strategy'', JStr ''unattributed''), (''provider_network'', JStr network),
            (''provider_country'', JStr country), (''provider_confirmed_at'', JStr (mi_received_at inbox))])]))"

definition maxRecord :: "max_item \<Rightarrow> string \<Rightarrow> json \<Rightarrow> json" where
  "maxRecord inbox occurredAt payload = JObj
     [(''contract_version'', JStr ''0.4.0''), (''record_id'', JStr (''record:max:'' @ mi_inbox_id inbox)),
      (''delivery_id'', JStr (''delivery:max:'' @ mi_inbox_id inbox)), (''tenant_id'', JStr (mi_tenant_id inbox)),
      (''app_id'', JStr (mi_app_id inbox)), (''producer'', JStr ''import:applovin-max''),
      (''producer_version'', JStr ''max-s2s-v1''), (''event_id'', JStr (mi_event_id inbox)), (''event_name'', JStr ''ad_revenue''),
      (''schema_version'', JStr ''0.4.0''), (''occurred_at'', JStr occurredAt), (''occurred_at_source'', JStr ''import''),
      (''received_at'', JStr (mi_received_at inbox)), (''processing_purpose_id'', JStr ''analytics''),
      (''processing_sequence'', JNum (numN 1)), (''payload'', payload), (''raw_payload_ref'', JStr (mi_raw_query_ref inbox))]"

definition maxServer :: "max_item \<Rightarrow> json" where
  "maxServer inbox = JObj
     [(''tenant_id'', JStr (mi_tenant_id inbox)), (''app_id'', JStr (mi_app_id inbox)), (''received_at'', JStr (mi_received_at inbox)),
      (''policy_digest'', JStr ''max-receiver-policy-v1''),
      (''processing_purposes'', JArr [JObj [(''processing_purpose_id'', JStr ''analytics''), (''consent_required'', JBool False),
         (''policy_version'', JStr ''runtime-consent-v0.2'')]]),
      (''withdrawals'', JArr []), (''alternative_legal_bases'', JArr [])]"

text \<open>The revenue of a query, and the time it names.\<close>

definition maxAmount :: "query \<Rightarrow> string res" where
  "maxAmount query = decimalToUnscaled
     (case map_of query ''all_revenue'' of Some s \<Rightarrow> s
      | None \<Rightarrow> (case map_of query ''revenue'' of Some s \<Rightarrow> s | None \<Rightarrow> ''0'')) 6"

definition maxOccurredAt :: "(string \<Rightarrow> number) \<Rightarrow> max_item \<Rightarrow> query \<Rightarrow> string res" where
  "maxOccurredAt toNumber inbox query =
     (let unixSeconds = (case map_of query ''ts'' of None \<Rightarrow> numN 0 | Some s \<Rightarrow> toNumber s) in
      if isFiniteN unixSeconds \<and> lessN (numN 0) unixSeconds then millisText (mulN unixSeconds (numN 1000))
      else Inr (mi_received_at inbox))"

definition attemptFromInbox :: "(string \<Rightarrow> number) \<Rightarrow> max_item \<Rightarrow> query \<Rightarrow> max_attempt res" where
  "attemptFromInbox toNumber inbox query =
     bindR (maxOccurredAt toNumber inbox query) (\<lambda>occurredAt.
     bindR (maxAmount query) (\<lambda>amount.
       Inr \<lparr>ma_server = maxServer inbox, ma_record = maxRecord inbox occurredAt (maxPayload inbox query amount),
            ma_tenant_id = mi_tenant_id inbox, ma_app_id = mi_app_id inbox, ma_batch_id = ''batch:max:'' @ mi_inbox_id inbox\<rparr>))"

section \<open>The worker\<close>

record max_tables =
  mt_inbox :: "max_item list"
  mt_processed :: "string list"
  mt_runs :: "string list"
  mt_attempts :: "max_attempt list"
  mt_rejections :: "(string \<times> string list) list"

text \<open>Ingestion gives the fields of a validation failure, if there is one, or throws.\<close>

record 'l max_env =
  mx_aead :: aead
  mx_query :: "bytes \<Rightarrow> query"
  mx_toNumber :: "string \<Rightarrow> number"
  mx_runId :: "string \<Rightarrow> string"
  mx_ingest :: "max_attempt \<Rightarrow> max_attempt list \<Rightarrow> 'l \<Rightarrow> (string list option) res \<times> 'l"

record 'l max_state =
  ms_tables :: max_tables
  ms_ledger :: 'l
  ms_store :: payload_store

definition pendingItems :: "string \<Rightarrow> max_tables \<Rightarrow> max_item list" where
  "pendingItems tenant tables =
     js_sort (\<lambda>a b. compareSortKeys [mi_received_at a, mi_inbox_id a] [mi_received_at b, mi_inbox_id b])
       (filter (\<lambda>item. mi_tenant_id item = tenant \<and> mi_inbox_id item \<notin> set (mt_processed tables)) (mt_inbox tables))"

definition markProcessed :: "max_item \<Rightarrow> max_tables \<Rightarrow> max_tables" where
  "markProcessed item tables = tables\<lparr>mt_processed := mt_processed tables @ [mi_inbox_id item]\<rparr>"

definition recordRun :: "'l max_env \<Rightarrow> max_item \<Rightarrow> max_tables \<Rightarrow> max_tables" where
  "recordRun env item tables = tables\<lparr>mt_runs := mt_runs tables @ [mx_runId env (mi_received_at item)]\<rparr>"

definition processMaxItem :: "'l max_env \<Rightarrow> max_item \<Rightarrow> 'l max_state \<Rightarrow> unit res \<times> 'l max_state" where
  "processMaxItem env item state =
     (case payloadRead (mx_aead env) (mi_raw_query_ref item) (ms_store state) of
        Inl e \<Rightarrow> (Inl e, state)
      | Inr plaintext \<Rightarrow>
          (case attemptFromInbox (mx_toNumber env) item (mx_query env plaintext) of
             Inl e \<Rightarrow> (Inl e, state)
           | Inr attempt \<Rightarrow>
               (let tables = ms_tables state;
                    history = filter (\<lambda>a. ma_tenant_id a = mi_tenant_id item \<and> ma_app_id a = mi_app_id item) (mt_attempts tables);
                    (outcome, ledger) = mx_ingest env attempt history (ms_ledger state) in
                case outcome of
                  Inl e \<Rightarrow> (Inl e, state\<lparr>ms_ledger := ledger\<rparr>)
                | Inr None \<Rightarrow>
                    (Inr (), state\<lparr>ms_ledger := ledger,
                       ms_tables := markProcessed item ((recordRun env item tables)\<lparr>mt_attempts := mt_attempts tables @ [attempt]\<rparr>)\<rparr>)
                | Inr (Some failed) \<Rightarrow>
                    (let tables' = (recordRun env item tables)\<lparr>mt_rejections := mt_rejections tables @ [(mi_inbox_id item, failed)]\<rparr>;
                         (store, purged) = payloadPurge (mi_raw_query_ref item) (ms_store state) in
                     case purged of
                       Inl e \<Rightarrow> (Inl e, state\<lparr>ms_ledger := ledger, ms_store := store\<rparr>)
                     | Inr u \<Rightarrow> (Inr (), state\<lparr>ms_ledger := ledger, ms_store := store, ms_tables := markProcessed item tables'\<rparr>)))))"

fun processMaxItems :: "'l max_env \<Rightarrow> max_item list \<Rightarrow> nat \<Rightarrow> 'l max_state \<Rightarrow> nat res \<times> 'l max_state" where
  "processMaxItems env [] n state = (Inr n, state)"
| "processMaxItems env (item # items) n state =
     (case processMaxItem env item state of
        (Inl e, state') \<Rightarrow> (Inl e, state')
      | (Inr u, state') \<Rightarrow> processMaxItems env items (n + 1) state')"

text \<open>One transaction: when an item throws, the tables are as they were.\<close>

definition processMaxInbox :: "'l max_env \<Rightarrow> string \<Rightarrow> 'l max_state \<Rightarrow> nat res \<times> 'l max_state" where
  "processMaxInbox env tenant state =
     (case processMaxItems env (pendingItems tenant (ms_tables state)) 0 state of
        (Inl e, state') \<Rightarrow> (Inl e, state'\<lparr>ms_tables := ms_tables state\<rparr>)
      | (Inr n, state') \<Rightarrow> (Inr n, state'))"

text \<open>
  A tick of the worker: the rest of its jobs, which work on the ledger and the store, run only
  when the inbox was processed without an error; the error ends the tick and the next one
  starts over.
\<close>

definition workerTick :: "'l max_env \<Rightarrow> string \<Rightarrow> ('l max_state \<Rightarrow> unit res \<times> 'l max_state) \<Rightarrow> 'l max_state \<Rightarrow> unit res \<times> 'l max_state" where
  "workerTick env tenant jobs state =
     (case processMaxInbox env tenant state of
        (Inl e, state') \<Rightarrow> (Inl e, state')
      | (Inr n, state') \<Rightarrow> jobs state')"

end
