(* ===== verification/ImportCostLaws.thy ===== *)
theory ImportCostLaws
  imports ImportCost
begin

text \<open>
  The amounts of the imports are exact, in both spellings of the conversion, and importing the
  same costs again adds nothing.
\<close>

section \<open>The number a text of digits names\<close>

lemma readNat_append: "readNat (s @ t) = readNat s * 10 ^ length t + readNat t"
  by (induction t rule: rev_induct) (simp_all flip: append_assoc add: algebra_simps)

lemma readNat_zeros [simp]: "readNat (replicate n (CHR ''0'')) = 0"
proof (induction n)
  case (Suc n)
  have "readNat (replicate (Suc n) (CHR ''0'')) = readNat (replicate n (CHR ''0'') @ [CHR ''0''])"
    by (simp only: replicate_Suc replicate_append_same)
  then show ?case using Suc by (simp add: digitValue_def)
qed simp

lemma isDigit_zero [simp]: "isDigit (CHR ''0'')"
  by (simp add: isDigit_def)

lemma readNat_padEnd:
  "length t \<le> n \<Longrightarrow> readNat (s @ padEnd n t) = readNat s * 10 ^ n + readNat t * 10 ^ (n - length t)"
  by (simp add: padEnd_def readNat_append)

lemma allDigits_append: "allDigits s \<Longrightarrow> list_all isDigit t \<Longrightarrow> allDigits (s @ t)"
  by (simp add: allDigits_def)

lemma digits_padEnd: "list_all isDigit t \<Longrightarrow> list_all isDigit (padEnd n t)"
  by (auto simp: padEnd_def list_all_iff)

text \<open>A text of digits without a leading zero is the text of its number.\<close>

lemma showNat_small: "n < 10 \<Longrightarrow> showNat n = [digitChar n]"
  by (simp add: showNat.simps[of n])

lemma digitChar_zero [simp]: "digitChar 0 = CHR ''0''"
  by code_simp

lemma showNat_readNat:
  "list_all isDigit s \<Longrightarrow> s \<noteq> [] \<Longrightarrow> hd s \<noteq> CHR ''0'' \<or> length s = 1 \<Longrightarrow> showNat (readNat s) = s"
proof (induction s rule: rev_induct)
  case (snoc c t)
  show ?case
  proof (cases "t = []")
    case True
    then show ?thesis using snoc.prems(1) readNat_snoc[of "[]" c] by (simp add: showNat_small)
  next
    case False
    have t: "showNat (readNat t) = t"
      using snoc False by simp
    have "readNat t \<noteq> 0"
    proof
      assume "readNat t = 0"
      then have "t = [digitChar 0]" using t by (simp add: showNat_small)
      then show False using snoc.prems(3) by simp
    qed
    moreover have "digitValue c < 10" "digitChar (digitValue c) = c" using snoc.prems(1) by simp_all
    ultimately show ?thesis using t by (subst showNat.simps) simp
  qed
qed simp

lemma stripZeros_number: "allDigits s \<Longrightarrow> stripZeros s = showNat (readNat s)"
proof (induction s rule: stripZeros.induct)
  case (1 c d s)
  show ?case
  proof (cases "c = CHR ''0''")
    case True
    have "readNat (c # d # s) = readNat (d # s)"
      using readNat_append[of "[c]" "d # s"] True by (simp add: readNat_def digitValue_def)
    then show ?thesis using 1 True by (simp add: allDigits_def)
  next
    case False
    then show ?thesis using 1(2) by (simp add: allDigits_def showNat_readNat)
  qed
qed (simp_all add: allDigits_def showNat_readNat)

section \<open>Exact amounts\<close>

definition decimalValue :: "string \<times> string \<Rightarrow> rat" where
  "decimalValue p = of_nat (readNat (fst p)) + of_nat (readNat (snd p)) / 10 ^ length (snd p)"

lemma decimalParts_digits:
  "decimalParts s = Some (whole, fraction) \<Longrightarrow> allDigits whole \<and> list_all isDigit fraction"
  by (auto simp: decimalParts_def allDigits_def split: list.splits if_splits)

lemma scaled_value:
  assumes "length fraction \<le> scale"
  shows "of_nat (readNat (whole @ padEnd scale fraction)) = decimalValue (whole, fraction) * 10 ^ scale"
proof -
  have "(10::rat) ^ scale = 10 ^ length fraction * 10 ^ (scale - length fraction)"
    using assms by (simp flip: power_add)
  then show ?thesis
    using assms by (simp add: readNat_padEnd decimalValue_def field_simps)
qed

lemma decimalToUnscaled_Inr:
  "decimalToUnscaled amount scale = Inr unscaled \<longleftrightarrow>
     (\<exists>parts n. decimalParts (trim amount) = Some parts \<and> length (snd parts) \<le> scale \<and>
        of_nat n = decimalValue parts * 10 ^ scale \<and> unscaled = showNat n)"
proof (cases "decimalParts (trim amount)")
  case None
  then show ?thesis by (simp add: decimalToUnscaled_def)
next
  case (Some parts)
  obtain whole fraction where parts: "parts = (whole, fraction)" by (cases parts)
  have strip: "stripZeros (whole @ padEnd scale fraction) = showNat (readNat (whole @ padEnd scale fraction))"
    using decimalParts_digits[of "trim amount" whole fraction] Some parts
    by (intro stripZeros_number allDigits_append) (simp_all add: digits_padEnd)
  show ?thesis
  proof (cases "length fraction \<le> scale")
    case True
    have "of_nat n = decimalValue parts * 10 ^ scale \<longleftrightarrow> n = readNat (whole @ padEnd scale fraction)" for n
      using scaled_value[OF True, of whole] parts by (metis of_nat_eq_iff)
    then show ?thesis using Some parts True strip by (auto simp: decimalToUnscaled_def)
  qed (use Some parts in \<open>simp add: decimalToUnscaled_def\<close>)
qed

lemma decimalAmount_Inr:
  assumes "decimalAmount v scale = Inr unscaled"
  shows "\<exists>s parts. v = Val (JStr s) \<and> decimalParts (trim s) = Some parts \<and> length (snd parts) \<le> scale \<and>
    allDigits unscaled \<and> of_nat (readNat unscaled) = decimalValue parts * 10 ^ scale"
proof -
  have "decimalParts [] = None" by (simp add: decimalParts_def allDigits_def)
  then have "\<exists>s. v = Val (JStr s)"
    using assms by (cases v rule: isRef.cases; cases "case v of Val j \<Rightarrow> j | _ \<Rightarrow> JNull") (simp_all add: decimalAmount_def)
  then obtain s where s: "v = Val (JStr s)" by blast
  obtain whole fraction where parts: "decimalParts (trim s) = Some (whole, fraction)"
    "length fraction \<le> scale" "unscaled = whole @ padEnd scale fraction"
    using assms s by (auto simp: decimalAmount_def split: option.splits if_splits)
  then have "allDigits unscaled"
    using decimalParts_digits[of "trim s"] by (simp add: allDigits_append digits_padEnd)
  then show ?thesis using s parts scaled_value[of fraction scale whole] by auto
qed

section \<open>Importing twice\<close>

definition covered :: "cost_env \<Rightarrow> string \<Rightarrow> cost_artifact list \<Rightarrow> cost_input \<Rightarrow> bool" where
  "covered env digest costs row = costConflict costs (costArtifact env row digest)"

lemma conflict_mono: "costConflict costs a \<Longrightarrow> costConflict (costs @ extra) a"
  by (auto simp: costConflict_def)

lemma conflict_self: "costConflict (costs @ [a]) a"
  by (simp add: costConflict_def)

lemma costArtifact_digest:
  "costConflict costs (costArtifact env row digest) = costConflict costs (costArtifact env row digest')"
  by (simp add: costConflict_def costArtifact_def costKey_def)

lemma insertCost_Inr:
  assumes "insertCost env digest (costs, n) row = Inr (costs', n')"
  shows "covered env digest costs' row" "\<exists>extra. costs' = costs @ extra \<and> n' = n + length extra"
    "currencyCode (ci_currency row)" "allDigits (ci_amount_unscaled row)"
    "ce_refuses env (costArtifact env row digest) = None"
  using assms by (auto simp: insertCost_def Let_def bindR_Inr_iff throwIf_Inr_iff covered_def conflict_self
      split: option.splits if_splits)

lemma insertCost_covered:
  assumes "covered env digest costs row" "currencyCode (ci_currency row)" "allDigits (ci_amount_unscaled row)"
    "ce_refuses env (costArtifact env row digest) = None"
  shows "insertCost env digest (costs, n) row = Inr (costs, n)"
  using assms by (simp add: insertCost_def covered_def)

lemma insertAll_covered:
  assumes "foldR (insertCost env digest) (costs, n) rows = Inr (costs', n')"
  shows "(\<forall>row \<in> set rows. insertCost env digest (costs', 0) row = Inr (costs', 0)) \<and>
    (\<exists>extra. costs' = costs @ extra \<and> n' = n + length extra)"
  using assms
proof (induction rows arbitrary: costs n)
  case (Cons row rows)
  then obtain costs1 n1 where one: "insertCost env digest (costs, n) row = Inr (costs1, n1)"
    and rest: "foldR (insertCost env digest) (costs1, n1) rows = Inr (costs', n')"
    by (auto simp: bindR_Inr_iff)
  note ih = Cons.IH[OF rest]
  note step = insertCost_Inr[OF one]
  have "covered env digest costs' row" using step(1) ih conflict_mono unfolding covered_def by blast
  then have "insertCost env digest (costs', 0) row = Inr (costs', 0)"
    using step by (intro insertCost_covered)
  then show ?case using ih step(2) by auto
qed simp

lemma foldR_fixpoint: "(\<forall>x \<in> set xs. f s x = Inr s) \<Longrightarrow> foldR f s xs = Inr s"
  by (induction xs) simp_all

lemma persistCostImport_again:
  assumes "persistCostImport env sourceId rows db = Inr (r, db')" "nextId (ci_as_of (hd rows)) = Inr i"
  shows "(\<exists>extra. cd_costs db' = cd_costs db @ extra \<and> cr_inserted r = length extra) \<and>
    (\<exists>r2 db2. persistCostImport (env\<lparr>ce_runId := nextId\<rparr>) sourceId rows db' = Inr (r2, db2) \<and> cr_inserted r2 = 0 \<and>
       cd_costs db2 = cd_costs db' \<and> cr_current r2 = cr_current r)"
proof -
  obtain scope others where rows: "rows = scope # others"
    using assms by (cases rows) (simp_all add: persistCostImport_def)
  let ?digest = "ce_rowsDigest env rows"
  obtain costs inserted runId where one: "foldR (insertCost env ?digest) (cd_costs db, 0) rows = Inr (costs, inserted)"
    "ce_runId env (ci_as_of scope) = Inr runId" "cd_costs db' = costs" "cr_inserted r = inserted"
    "cr_current r = currentCount (ci_tenant_id scope) (ci_app_id scope) costs"
    and same: "list_all (\<lambda>row. ci_tenant_id row = ci_tenant_id scope \<and> ci_app_id row = ci_app_id scope) rows"
    using assms rows by (auto simp: persistCostImport_def Let_def bindR_Inr_iff split: if_splits)
  note all = insertAll_covered[OF one(1)]
  have "insertCost (env\<lparr>ce_runId := nextId\<rparr>) d s row = insertCost env d s row" for d s row
    by (simp add: insertCost_def costArtifact_def)
  then have "foldR (insertCost (env\<lparr>ce_runId := nextId\<rparr>) ?digest) (costs, 0) rows = Inr (costs, 0)"
    by (intro foldR_fixpoint) (use all in simp)
  then have "persistCostImport (env\<lparr>ce_runId := nextId\<rparr>) sourceId rows db' = Inr
     (\<lparr>cr_inserted = 0, cr_current = currentCount (ci_tenant_id scope) (ci_app_id scope) costs, cr_import_run_id = i\<rparr>,
      \<lparr>cd_apps = (if (ci_tenant_id scope, ci_app_id scope) \<in> set (cd_apps db') then cd_apps db'
                  else cd_apps db' @ [(ci_tenant_id scope, ci_app_id scope)]),
       cd_runs = cd_runs db' @ [(i, ci_tenant_id scope, ci_app_id scope, sourceId)], cd_costs = costs\<rparr>)"
    using one same rows assms(2) by (simp add: persistCostImport_def Let_def)
  then show ?thesis using all one by simp
qed

end
