(* ===== verification/MaxInboxLaws.thy ===== *)
theory MaxInboxLaws
  imports MaxInbox ImportCostLaws
begin

text \<open>
  The inbox of the mediation network drains when every stored query can be read and converted,
  and never again when one cannot: nothing that is behind such an item is processed, and the
  other jobs of the worker do not run.
\<close>

section \<open>What an item does to the payload store\<close>

lemma map_of_delete: "map_of (AList.delete k m) j = (if j = k then None else map_of m j)"
  by (simp add: delete_conv')

lemma read_after_purge:
  "payloadRead ae other (fst (payloadPurge reference store)) = Inr bytes \<Longrightarrow> payloadRead ae other store = Inr bytes"
  by (auto simp: payloadPurge_def payloadRead_def bindR_Inr_iff readFile_def map_of_delete
      split: sum.splits option.splits if_splits)

lemma referenceKeyId_Inr: "referenceKeyId reference = Inr keyId \<Longrightarrow> reference = encryptedPrefix @ keyId"
  by (auto simp: referenceKeyId_def bindR_Inr_iff throwIf_Inr_iff startsWith_iff)

lemma purge_other:
  assumes "payloadRead ae other store = Inr bytes" "other \<noteq> reference"
  shows "payloadRead ae other (fst (payloadPurge reference store)) = Inr bytes"
proof (cases "referenceKeyId reference")
  case (Inl e)
  then show ?thesis using assms(1) by (simp add: payloadPurge_def)
next
  case (Inr keyId)
  obtain otherId where other: "referenceKeyId other = Inr otherId"
    using assms(1) by (auto simp: payloadRead_def bindR_Inr_iff)
  have "otherId \<noteq> keyId"
    using referenceKeyId_Inr[OF Inr] referenceKeyId_Inr[OF other] assms(2) by auto
  then show ?thesis
    using assms(1) Inr other by (simp add: payloadPurge_def payloadRead_def readFile_def map_of_delete)
qed

text \<open>The store after an item is the store before it, or that without the object of the item.\<close>

lemma processMaxItem_store:
  "ms_store (snd (processMaxItem env item state)) \<in>
     {ms_store state, fst (payloadPurge (mi_raw_query_ref item) (ms_store state))}"
proof (cases "payloadRead (mx_aead env) (mi_raw_query_ref item) (ms_store state)")
  case (Inl e)
  then show ?thesis by (simp add: processMaxItem_def)
next
  case (Inr plaintext)
  show ?thesis
  proof (cases "attemptFromInbox (mx_toNumber env) item (mx_query env plaintext)")
    case (Inl e)
    then show ?thesis using Inr by (simp add: processMaxItem_def)
  next
    case attempt: (Inr attempt)
    show ?thesis
      using Inr attempt
      by (auto simp: processMaxItem_def Let_def case_prod_beta split: sum.splits option.splits)
  qed
qed

section \<open>Blocked\<close>

text \<open>The stored query of the item cannot be read, or cannot be converted.\<close>

definition blockedItem :: "'l max_env \<Rightarrow> payload_store \<Rightarrow> max_item \<Rightarrow> bool" where
  "blockedItem env store item =
     (case payloadRead (mx_aead env) (mi_raw_query_ref item) store of
        Inl e \<Rightarrow> True
      | Inr plaintext \<Rightarrow> isl (attemptFromInbox (mx_toNumber env) item (mx_query env plaintext)))"

lemma blocked_throws: "blockedItem env (ms_store state) item \<Longrightarrow> \<exists>e. processMaxItem env item state = (Inl e, state)"
  by (auto simp: blockedItem_def processMaxItem_def split: sum.splits)

lemma blocked_stays: "blockedItem env (ms_store state) item \<Longrightarrow> blockedItem env (ms_store (snd (processMaxItem env other state))) item"
  using processMaxItem_store[of env other state] read_after_purge[of "mx_aead env" "mi_raw_query_ref item" "mi_raw_query_ref other" "ms_store state"]
  by (auto simp: blockedItem_def split: sum.splits)

lemma blocked_items:
  "item \<in> set items \<Longrightarrow> blockedItem env (ms_store state) item \<Longrightarrow>
   (\<exists>e state'. processMaxItems env items n state = (Inl e, state') \<and> blockedItem env (ms_store state') item)"
proof (induction items arbitrary: n state)
  case (Cons other items)
  obtain r state1 where step: "processMaxItem env other state = (r, state1)" by fastforce
  have still: "blockedItem env (ms_store state1) item" using blocked_stays[OF Cons.prems(2), of other] step by simp
  show ?case
  proof (cases r)
    case (Inl e)
    then show ?thesis using step still by simp
  next
    case (Inr u)
    have "other \<noteq> item" using blocked_throws[OF Cons.prems(2)] step Inr by auto
    then show ?thesis using Cons.IH[OF _ still] Cons.prems(1) step Inr by simp
  qed
qed simp

lemma blocked_inbox:
  assumes "item \<in> set (pendingItems tenant (ms_tables state))" "blockedItem env (ms_store state) item"
  shows "\<exists>e state'. processMaxInbox env tenant state = (Inl e, state') \<and> ms_tables state' = ms_tables state \<and>
    blockedItem env (ms_store state') item"
proof -
  obtain e state' where "processMaxItems env (pendingItems tenant (ms_tables state)) 0 state = (Inl e, state')"
    "blockedItem env (ms_store state') item"
    using blocked_items[OF assms, of 0] by blast
  then show ?thesis by (simp add: processMaxInbox_def)
qed

fun ticks :: "'l max_env \<Rightarrow> string \<Rightarrow> ('l max_state \<Rightarrow> unit res \<times> 'l max_state) \<Rightarrow> nat \<Rightarrow> 'l max_state \<Rightarrow> 'l max_state" where
  "ticks env tenant jobs 0 state = state"
| "ticks env tenant jobs (Suc n) state = ticks env tenant jobs n (snd (workerTick env tenant jobs state))"

lemma blocked_tick:
  assumes "item \<in> set (pendingItems tenant (ms_tables state))" "blockedItem env (ms_store state) item"
  shows "\<exists>e state'. workerTick env tenant jobs state = (Inl e, state') \<and> ms_tables state' = ms_tables state \<and>
    blockedItem env (ms_store state') item \<and> (\<forall>jobs'. workerTick env tenant jobs' state = (Inl e, state'))"
  using blocked_inbox[OF assms] by (auto simp: workerTick_def)

lemma blocked_ticks:
  assumes "item \<in> set (pendingItems tenant (ms_tables state))" "blockedItem env (ms_store state) item"
  shows "ms_tables (ticks env tenant jobs n state) = ms_tables state \<and>
    blockedItem env (ms_store (ticks env tenant jobs n state)) item \<and>
    ticks env tenant jobs n state = ticks env tenant jobs' n state"
  using assms
proof (induction n arbitrary: state)
  case (Suc n)
  obtain e state' where tick: "workerTick env tenant jobs state = (Inl e, state')"
    "workerTick env tenant jobs' state = (Inl e, state')"
    "ms_tables state' = ms_tables state" "blockedItem env (ms_store state') item"
    using blocked_tick[OF Suc.prems] by metis
  show ?case
    unfolding ticks.simps tick(1,2) snd_conv using Suc.IH[of state'] Suc.prems(1) tick(3,4) by metis
qed simp

section \<open>Drained\<close>

definition ingestReturns :: "'l max_env \<Rightarrow> bool" where
  "ingestReturns env = (\<forall>attempt history ledger. \<not> isl (fst (mx_ingest env attempt history ledger)))"

lemma blockedItem_other:
  assumes "\<not> blockedItem env store other" "mi_raw_query_ref other \<noteq> reference"
  shows "\<not> blockedItem env (fst (payloadPurge reference store)) other"
  using assms purge_other[of "mx_aead env" "mi_raw_query_ref other" store _ reference]
  by (auto simp: blockedItem_def split: sum.splits)

lemma processMaxItem_succeeds:
  assumes "\<not> blockedItem env (ms_store state) item" "ingestReturns env"
  shows "\<exists>state'. processMaxItem env item state = (Inr (), state') \<and>
    mt_inbox (ms_tables state') = mt_inbox (ms_tables state) \<and>
    mt_processed (ms_tables state') = mt_processed (ms_tables state) @ [mi_inbox_id item]"
proof -
  obtain plaintext where read: "payloadRead (mx_aead env) (mi_raw_query_ref item) (ms_store state) = Inr plaintext"
    using assms(1) by (cases "payloadRead (mx_aead env) (mi_raw_query_ref item) (ms_store state)") (simp_all add: blockedItem_def)
  obtain attempt where attempt: "attemptFromInbox (mx_toNumber env) item (mx_query env plaintext) = Inr attempt"
    using assms(1) read
    by (cases "attemptFromInbox (mx_toNumber env) item (mx_query env plaintext)") (simp_all add: blockedItem_def)
  let ?history = "filter (\<lambda>a. ma_tenant_id a = mi_tenant_id item \<and> ma_app_id a = mi_app_id item) (mt_attempts (ms_tables state))"
  obtain r ledger where run: "mx_ingest env attempt ?history (ms_ledger state) = (r, ledger)"
    by (cases "mx_ingest env attempt ?history (ms_ledger state)")
  have "\<not> isl (fst (mx_ingest env attempt ?history (ms_ledger state)))"
    using assms(2) unfolding ingestReturns_def by blast
  then obtain outcome where "r = Inr outcome" using run by (cases r) simp_all
  note ingest = run[unfolded this]
  obtain store where purge: "payloadPurge (mi_raw_query_ref item) (ms_store state) = (store, Inr ())"
    using read by (cases "referenceKeyId (mi_raw_query_ref item)") (simp_all add: payloadRead_def payloadPurge_def)
  show ?thesis
  proof (cases outcome)
    case None
    have "processMaxItem env item state = (Inr (), state\<lparr>ms_ledger := ledger, ms_tables :=
        markProcessed item ((recordRun env item (ms_tables state))\<lparr>mt_attempts := mt_attempts (ms_tables state) @ [attempt]\<rparr>)\<rparr>)"
      unfolding processMaxItem_def read attempt sum.case Let_def ingest prod.case None option.case ..
    then show ?thesis by (simp add: markProcessed_def recordRun_def)
  next
    case (Some failed)
    have "processMaxItem env item state = (Inr (), state\<lparr>ms_ledger := ledger, ms_store := store, ms_tables :=
        markProcessed item ((recordRun env item (ms_tables state))
          \<lparr>mt_rejections := mt_rejections (ms_tables state) @ [(mi_inbox_id item, failed)]\<rparr>)\<rparr>)"
      unfolding processMaxItem_def read attempt sum.case Let_def ingest prod.case Some option.case purge ..
    then show ?thesis by (simp add: markProcessed_def recordRun_def)
  qed
qed

lemma processMaxItems_succeed:
  assumes "\<forall>item \<in> set items. \<not> blockedItem env (ms_store state) item" "distinct (map mi_raw_query_ref items)" "ingestReturns env"
  shows "\<exists>state'. processMaxItems env items n state = (Inr (n + length items), state') \<and>
    mt_inbox (ms_tables state') = mt_inbox (ms_tables state) \<and>
    mt_processed (ms_tables state') = mt_processed (ms_tables state) @ map mi_inbox_id items"
  using assms
proof (induction items arbitrary: n state)
  case (Cons item items)
  obtain state1 where step: "processMaxItem env item state = (Inr (), state1)"
    "mt_inbox (ms_tables state1) = mt_inbox (ms_tables state)"
    "mt_processed (ms_tables state1) = mt_processed (ms_tables state) @ [mi_inbox_id item]"
    using processMaxItem_succeeds[of env state item] Cons.prems by auto
  have "\<not> blockedItem env (ms_store state1) other" if "other \<in> set items" for other
    using processMaxItem_store[of env item state] step(1) that Cons.prems(1,2) blockedItem_other[of env "ms_store state" other]
    by (auto simp: image_iff)
  then obtain state' where "processMaxItems env items (Suc n) state1 = (Inr (Suc n + length items), state')"
    "mt_inbox (ms_tables state') = mt_inbox (ms_tables state1)"
    "mt_processed (ms_tables state') = mt_processed (ms_tables state1) @ map mi_inbox_id items"
    using Cons.IH[of state1 "Suc n"] Cons.prems(2,3) by auto
  then show ?case using step by auto
qed simp

lemma set_pendingItems:
  "set (pendingItems tenant tables) =
     {item \<in> set (mt_inbox tables). mi_tenant_id item = tenant \<and> mi_inbox_id item \<notin> set (mt_processed tables)}"
  by (simp add: pendingItems_def)

lemma inbox_drained:
  assumes "\<forall>item \<in> set (pendingItems tenant (ms_tables state)). \<not> blockedItem env (ms_store state) item"
    and "distinct (map mi_raw_query_ref (pendingItems tenant (ms_tables state)))" "ingestReturns env"
  shows "\<exists>state'. processMaxInbox env tenant state = (Inr (length (pendingItems tenant (ms_tables state))), state') \<and>
    pendingItems tenant (ms_tables state') = []"
proof -
  obtain state' where run: "processMaxItems env (pendingItems tenant (ms_tables state)) 0 state =
      (Inr (length (pendingItems tenant (ms_tables state))), state')"
    "mt_inbox (ms_tables state') = mt_inbox (ms_tables state)"
    "mt_processed (ms_tables state') = mt_processed (ms_tables state) @ map mi_inbox_id (pendingItems tenant (ms_tables state))"
    using processMaxItems_succeed[OF assms, of 0] by auto
  have "set (pendingItems tenant (ms_tables state')) = {}"
    using run(2,3) by (auto simp: set_pendingItems)
  then show ?thesis using run(1) by (simp add: processMaxInbox_def)
qed

section \<open>What the receiver lets in\<close>

lemma receiveMax_accepts:
  assumes "receiveMax env config rawUrl state = (state', Inr 204)"
  shows "\<exists>parameters item. rv_parseUrl env rawUrl = Some parameters \<and> fst (verifyMax (rv_digests env) config parameters) \<and>
    rs_inbox state' = rs_inbox state @ [item] \<and> map_of parameters ''event_id'' = Some (mi_event_id item) \<and>
    identifierText (mi_event_id item) \<and> mi_tenant_id item = mc_tenantId config \<and>
    payloadWrite (rv_aead env) (rv_keyRefused env) (rv_objectRefused env) (rv_random env)
      \<lparr>sc_tenantId = mc_tenantId config, sc_appId = mc_appId config, sc_objectId = rv_inboxId env\<rparr>
      (utf8Bytes (rv_printQuery env parameters)) (rs_store state) = (rs_store state', Inr (mi_raw_query_ref item))"
  using assms
  by (auto simp: receiveMax_def storeMax_def Let_def case_prod_beta prod_eq_iff split: option.splits if_splits prod.splits sum.splits)

text \<open>A revenue of more than six decimals converts to nothing.\<close>

lemma revenue_too_fine:
  assumes "map_of query ''all_revenue'' = None" "map_of query ''revenue'' = Some s"
    and "decimalParts (trim s) = Some (whole, fraction)" "6 < length fraction"
  shows "isl (maxAmount query)"
  using assms by (simp add: maxAmount_def decimalToUnscaled_def)

end
