(* ===== verification/SampleImport.thy ===== *)
theory SampleImport
  imports ImportLaws MaxInboxLaws SampleRedirect
begin

text \<open>
  Concrete imports: a mapping that builds the payload of every row from an \<^verbatim>\<open>object\<close>
  expression, a mapping whose payload is a constant object, and a MAX postback whose revenue
  has more decimals than the ledger keeps.
\<close>

section \<open>Mappings\<close>

definition noFields :: expression_fields where
  "noFields = \<lparr>me_source = None, fallback_column = None, me_prefix = None, me_const = None, me_default = None,
     me_map = None, map_default = None, omit_if_empty = False, me_boolean = None, me_uppercase = False,
     me_timestamp = None, me_money = None\<rparr>"

definition fromColumn :: "string \<Rightarrow> mapping_expression" where
  "fromColumn name = MappingExpression (noFields\<lparr>me_source := Some name\<rparr>) None"

definition constantly :: "val \<Rightarrow> mapping_expression" where
  "constantly v = MappingExpression (noFields\<lparr>me_const := Some v\<rparr>) None"

definition setTo :: "string \<Rightarrow> mapping_expression \<Rightarrow> mapping_rule" where
  "setTo target e = \<lparr>rule_target = target, rule_expression = e\<rparr>"

definition clickMapping :: "mapping_rule list \<Rightarrow> import_mapping" where
  "clickMapping payloadRules = \<lparr>im_version = ''1.0.0'', im_kind = MmpRaw, im_source_id = ''s'', im_tenant_id = ''t'',
     im_app_id = ''a'', im_provider = Some ''p'', row_filter = None,
     im_rules = [setTo ''event_name'' (constantly (Val (JStr ''click''))), setTo ''event_id'' (fromColumn ''id''),
       setTo ''occurred_at'' (fromColumn ''at'')] @ payloadRules\<rparr>"

definition ownPayload :: "mapping_rule list" where
  "ownPayload = [setTo ''payload'' (MappingExpression noFields (Some [(''click_id'', fromColumn ''click'')]))]"

definition constantPayload :: "mapping_rule list" where
  "constantPayload = [setTo ''payload'' (constantly (Ref 0)), setTo ''payload.click_id'' (fromColumn ''click'')]"

definition sampleImport :: import_env where
  "sampleImport = \<lparr>ie_dateParse = (\<lambda>_. Some 0), ie_digits = (\<lambda>_. []), ie_digest = (\<lambda>_. [])\<rparr>"

definition clickRow :: "string \<Rightarrow> (string \<times> val) list" where
  "clickRow c = [(''id'', Val (JStr ''e'')), (''at'', Val (JStr ''d'')), (''click'', Val (JStr c))]"

text \<open>Object 0 is the constant of the mapping, the rows are the objects 1 and 2.\<close>

definition sampleStore :: "string \<Rightarrow> string \<Rightarrow> store" where
  "sampleStore c1 c2 = [[], clickRow c1, clickRow c2]"

lemma evaluate_constantly: "v \<noteq> NoValue \<Longrightarrow> evaluateExpression dp digits (constantly v) row h = (Inr (Some v), h)"
  by (cases v) (simp_all add: constantly_def noFields_def evaluateFields_def initialValue_def mappedValue_def booleanStep_def
      timestampStep_def uppercaseStep_def moneyStep_def prefixStep_def bindH_def liftH_def returnH_def keepTruthy_def
      split: json.split)

lemma evaluate_fromColumn:
  "sourceValue h row (Some name) = Val (JStr s) \<Longrightarrow>
   evaluateExpression dp digits (fromColumn name) row h = (Inr (Some (Val (JStr s))), h)"
  by (simp add: fromColumn_def noFields_def evaluateFields_def initialValue_def mappedValue_def booleanStep_def
      timestampStep_def uppercaseStep_def moneyStep_def prefixStep_def bindH_def liftH_def returnH_def keepTruthy_def)

lemma source_column:
  "splitOn (CHR ''.'') name = [name] \<Longrightarrow> name \<noteq> [] \<Longrightarrow> sourceValue h (Ref r) (Some name) = getProperty h r name"
  by (simp add: sourceValue_def keepTruthy_def)

lemma set_simple: "splitOn (CHR ''.'') name = [name] \<Longrightarrow> setTarget output name v h = (Inr (), mergeValue output name v h)"
  by (simp add: setTarget_def bindH_def)

lemma split_names:
  "splitOn (CHR ''.'') ''payload.click_id'' = [''payload'', ''click_id'']" "splitOn (CHR ''.'') ''payload'' = [''payload'']"
  "splitOn (CHR ''.'') ''event_name'' = [''event_name'']" "splitOn (CHR ''.'') ''event_id'' = [''event_id'']"
  "splitOn (CHR ''.'') ''occurred_at'' = [''occurred_at'']" "splitOn (CHR ''.'') ''id'' = [''id'']"
  "splitOn (CHR ''.'') ''at'' = [''at'']" "splitOn (CHR ''.'') ''click'' = [''click'']"
  by simp_all

lemma set_nested:
  "getProperty h output ''payload'' = Ref b \<Longrightarrow>
   setTarget output ''payload.click_id'' v h = (Inr (), mergeValue b ''click_id'' v h)"
  by (simp add: setTarget_def bindH_def split_names del: splitOn.simps)

lemmas sample_import_simps = evaluate_constantly evaluate_fromColumn source_column set_simple split_names set_nested
  setTo_def clickMapping_def getProperty_def mergeValue_def setProperty_def constantPayload_def clickRow_def sampleStore_def

definition builtEvent :: "(string \<times> val) list" where
  "builtEvent = [(''event_name'', Val (JStr ''click'')), (''event_id'', Val (JStr ''e'')), (''occurred_at'', Val (JStr ''d'')),
     (''payload'', Ref 0)]"

lemma constant_first:
  "mapRow dp digits (clickMapping constantPayload) (Ref 1) (sampleStore c1 c2) =
     (Inr 3, [[(''click_id'', Val (JStr c1))], clickRow c1, clickRow c2, builtEvent])"
  by (simp add: sample_import_simps mapRow_def builtEvent_def Let_def del: splitOn.simps)

lemma constant_second:
  "mapRow dp digits (clickMapping constantPayload) (Ref 2) [[(''click_id'', Val (JStr c1))], clickRow c1, clickRow c2, builtEvent] =
     (Inr 4, [[(''click_id'', Val (JStr c2))], clickRow c1, clickRow c2, builtEvent, builtEvent])"
  by (simp add: sample_import_simps mapRow_def builtEvent_def Let_def del: splitOn.simps)

lemma built_attempt:
  "h ! m = builtEvent \<Longrightarrow>
   \<exists>attempt. toAttempt sampleImport (clickMapping rules) file now i h m = Inr attempt \<and> ir_payload attempt = 0"
  by (simp add: toAttempt_def builtEvent_def getProperty_def textOr_def sampleImport_def Let_def)

lemma shared_constant:
  "\<exists>first second h. mapRows sampleImport (clickMapping constantPayload) file now 0 [Ref 1, Ref 2] (sampleStore c1 c2) =
     (([(0, first), (1, second)], []), h) \<and> ir_payload first = ir_payload second \<and>
     getProperty h (ir_payload first) ''click_id'' = Val (JStr c2)"
proof -
  have all: "rowMatches (clickMapping constantPayload) h row" for h row
    by (simp add: rowMatches_def clickMapping_def)
  obtain first second where
    "toAttempt sampleImport (clickMapping constantPayload) file now 0
       [[(''click_id'', Val (JStr c1))], clickRow c1, clickRow c2, builtEvent] 3 = Inr first" "ir_payload first = 0"
    "toAttempt sampleImport (clickMapping constantPayload) file now 1
       [[(''click_id'', Val (JStr c2))], clickRow c1, clickRow c2, builtEvent, builtEvent] 4 = Inr second" "ir_payload second = 0"
    using built_attempt[of "[[(''click_id'', Val (JStr c1))], clickRow c1, clickRow c2, builtEvent]" 3 constantPayload "file" "now" 0]
      built_attempt[of "[[(''click_id'', Val (JStr c2))], clickRow c1, clickRow c2, builtEvent, builtEvent]" 4 constantPayload "file" "now" 1]
    by auto
  then show ?thesis
    by (simp add: all constant_first constant_second getProperty_def Let_def del: One_nat_def)
qed

lemma own_payload_flat:
  "scalarMapping (clickMapping ownPayload)" "list_all (flatRow (sampleStore c1 c2)) [Ref 1, Ref 2]"
  by (simp_all add: scalarMapping_def clickMapping_def ownPayload_def setTo_def constantly_def fromColumn_def noFields_def
      scalarFields_def flatRow_def sampleStore_def clickRow_def)

section \<open>A postback that cannot be converted\<close>

definition fineQuery :: "string \<Rightarrow> query" where
  "fineQuery revenue = [(''event_id'', ''e1''), (''event_token'', ''sig''), (''revenue'', revenue)]"

definition sampleMaxConfig :: max_config where
  "sampleMaxConfig = \<lparr>mc_tenantId = ''t'', mc_appId = ''a'', mc_pathSecret = ''s'', mc_eventKey = ''k'', mc_tokenMode = EventTokens,
     mc_maxParameters = 20, mc_maxQueryBytes = 4096\<rparr>"

definition sampleReceive :: "string \<Rightarrow> receive_env" where
  "sampleReceive revenue = \<lparr>rv_digests = \<lparr>md_sha1 = (\<lambda>_. ''sig''), md_sha256 = (\<lambda>_. ''d''), md_collate = compareText\<rparr>,
     rv_parseUrl = (\<lambda>_. Some (fineQuery revenue)), rv_printQuery = formText, rv_now = ''2026-01-01T00:00:00.000Z'',
     rv_inboxId = ''o'', rv_aead = sampleAead, rv_random = sampleWriteRandom, rv_keyRefused = False,
     rv_objectRefused = False, rv_refused = (\<lambda>_. None)\<rparr>"

definition sampleMaxEnv :: "string \<Rightarrow> unit max_env" where
  "sampleMaxEnv revenue = \<lparr>mx_aead = sampleAead, mx_query = (\<lambda>_. fineQuery revenue), mx_toNumber = (\<lambda>_. NaN),
     mx_runId = (\<lambda>_. ''r''), mx_ingest = (\<lambda>_ _ l. (Inr None, l))\<rparr>"

definition emptyReceiver :: receiver_state where
  "emptyReceiver = \<lparr>rs_inbox = [], rs_audits = [], rs_store = emptyStore\<rparr>"

definition workerState :: "receiver_state \<Rightarrow> unit max_state" where
  "workerState s = \<lparr>ms_tables = \<lparr>mt_inbox = rs_inbox s, mt_processed = [], mt_runs = [], mt_attempts = [], mt_rejections = []\<rparr>,
     ms_ledger = (), ms_store = rs_store s\<rparr>"

definition sampleItem :: max_item where
  "sampleItem = \<lparr>mi_inbox_id = ''o'', mi_tenant_id = ''t'', mi_app_id = ''a'', mi_event_id = ''e1'', mi_token_mode = ''event'',
     mi_received_at = ''2026-01-01T00:00:00.000Z'', mi_raw_query_ref = encryptedPrefix @ objectKeyId sampleScope sampleWriteRandom,
     mi_raw_query_digest = ''d''\<rparr>"

lemma sample_scope_fields: "\<lparr>sc_tenantId = ''t'', sc_appId = ''a'', sc_objectId = ''o''\<rparr> = sampleScope"
  by (simp add: sampleScope_def)

lemma sample_received:
  "\<exists>store. payloadWrite sampleAead False False sampleWriteRandom sampleScope (utf8Bytes (formText (fineQuery revenue))) emptyStore
       = (store, Inr (mi_raw_query_ref sampleItem)) \<and>
     receiveMax (sampleReceive revenue) sampleMaxConfig ''/max?q'' emptyReceiver =
       (\<lparr>rs_inbox = [sampleItem], rs_audits = [], rs_store = store\<rparr>, Inr 204)"
proof -
  obtain store where w: "payloadWrite sampleAead False False sampleWriteRandom sampleScope
      (utf8Bytes (formText (fineQuery revenue))) emptyStore = (store, Inr (mi_raw_query_ref sampleItem))"
    using payloadWrite_succeeds[of False False sampleScope sampleWriteRandom emptyStore]
    by (auto simp: emptyStore_def sampleItem_def)
  have checks: "queryBytes ''/max?q'' = 1" "identifierText ''e1''"
    "fst (verifyMax (rv_digests (sampleReceive revenue)) sampleMaxConfig (fineQuery revenue))"
    "snd (verifyMax (rv_digests (sampleReceive revenue)) sampleMaxConfig (fineQuery revenue)) = ''event''"
    "map (map lowerChar \<circ> fst) (fineQuery revenue) = map fst (fineQuery revenue)"
    by (simp_all add: queryBytes_def utf8Bytes_def utf8Char_def identifierText_def isAlphaNum_def verifyMax_def parameterOr_def fineQuery_def
        safeEqual_def sampleReceive_def sampleMaxConfig_def lowerChar_def Let_def)
  show ?thesis
    using w checks
    by (simp add: receiveMax_def storeMax_def emptyReceiver_def sampleReceive_def sampleMaxConfig_def fineQuery_def
        allowedParameters_def deniedParameters_def case_prod_beta sample_scope_fields sampleItem_def Let_def)
qed

lemma sample_parts: "decimalParts (trim ''0.1234567'') = Some (''0'', ''1234567'')" "decimalParts (trim ''0.12'') = Some (''0'', ''12'')"
  by (simp_all add: decimalParts_def trim_def isSpace_def allDigits_def isDigit_def)

lemma sample_blocked: "blockedItem (sampleMaxEnv ''0.1234567'') store item"
proof -
  have "isl (maxAmount (fineQuery ''0.1234567''))"
    by (rule revenue_too_fine[OF _ _ sample_parts(1)]) (simp_all add: fineQuery_def)
  then show ?thesis
    by (auto simp: blockedItem_def sampleMaxEnv_def attemptFromInbox_def maxOccurredAt_def fineQuery_def isl_def split: sum.split)
qed

lemma sample_pending: "pendingItems ''t'' (ms_tables (workerState \<lparr>rs_inbox = [sampleItem], rs_audits = [], rs_store = store\<rparr>)) = [sampleItem]"
  by (simp add: pendingItems_def workerState_def sampleItem_def)

lemma sample_convertible:
  "payloadWrite sampleAead False False sampleWriteRandom sampleScope body emptyStore = (store, Inr (mi_raw_query_ref sampleItem)) \<Longrightarrow>
   \<not> blockedItem (sampleMaxEnv ''0.12'') store sampleItem"
  using payloadRead_written[OF sampleAead_ok, of False False sampleWriteRandom sampleScope body emptyStore store] sample_scope_key(2,3)
  by (simp add: blockedItem_def sampleMaxEnv_def attemptFromInbox_def maxOccurredAt_def maxAmount_def decimalToUnscaled_def
      fineQuery_def sample_parts)

section \<open>Costs\<close>

definition sampleCost :: cost_input where
  "sampleCost = \<lparr>ci_tenant_id = ''t'', ci_app_id = ''a'', ci_network = ''meta'', ci_campaign_id = Some ''c'', ci_ad_group_id = None,
     ci_country = Some ''JP'', ci_date = ''2026-01-01'', ci_amount_unscaled = ''120000'', ci_amount_scale = Val (JNum (numN 6)),
     ci_currency = ''USD'', ci_as_of = ''2026-01-02T00:00:00.000Z''\<rparr>"

definition sampleCostEnv :: cost_env where
  "sampleCostEnv = \<lparr>ce_digest = (\<lambda>_. ''d''), ce_rowsDigest = (\<lambda>_. ''r''), ce_runId = (\<lambda>_. Inr ''r1''), ce_refuses = (\<lambda>_. None)\<rparr>"

definition emptyCosts :: cost_db where
  "emptyCosts = \<lparr>cd_apps = [], cd_runs = [], cd_costs = []\<rparr>"

lemma sample_cost_imported: "\<exists>r db'. persistCostImport sampleCostEnv ''s'' [sampleCost] emptyCosts = Inr (r, db')"
  by (simp add: persistCostImport_def insertCost_def sampleCost_def sampleCostEnv_def emptyCosts_def currencyCode_def allDigits_def
      isDigit_def costConflict_def Let_def)

end
