(* ===== verification/ReportQuery.thy ===== *)
theory ReportQuery
  imports ImportCost ApplePostback
begin

text \<open>
  The query of a report: reading the filters of a request, the cursor of a page and the SQL
  statement with its values. White space between the words of a statement is one blank. The
  decoding of a cursor and of a number are parameters.
\<close>

section \<open>The query\<close>

definition groupingDimensions :: "string list" where
  "groupingDimensions = [''campaign_id'', ''network'', ''country'', ''cohort_date'', ''metric_date'',
     ''attribution_status'', ''apple_conversion_bucket'']"

record metric_cursor =
  cu_metricName :: string
  cu_groupingDigest :: string
  cu_metricRunId :: string

record metric_query =
  mq_tenantId :: string
  mq_appId :: string
  mq_metricNames :: "string list option"
  mq_metricDefinitionVersion :: "string option"
  mq_grouping :: "(string \<times> string) list option"
  mq_dateFrom :: "string option"
  mq_dateTo :: "string option"
  mq_watermarkAtMost :: "string option"
  mq_differenceReasonCode :: "string option"
  mq_supersession :: string
  mq_limit :: number
  mq_after :: "metric_cursor option"

record parsed_query =
  pq_query :: metric_query
  pq_format :: string
  pq_export :: bool

record report_input =
  ri_tenantId :: string
  ri_appId :: string
  ri_searchParams :: "(string \<times> string) list"
  ri_maximumRows :: "number option"
  ri_maximumExportRows :: "number option"

record report_api =
  ra_decodeJson :: "string \<Rightarrow> json res"
  ra_toNumber :: "string \<Rightarrow> number"

definition queryError :: "string \<Rightarrow> js_error" where
  "queryError code = JsError code"

section \<open>Patterns\<close>

definition isLowerChar :: "char \<Rightarrow> bool" where
  "isLowerChar c = (let n = of_char c :: nat in 97 \<le> n \<and> n \<le> 122)"

text \<open>\<^verbatim>\<open>/^[a-z][a-z0-9_]{2,127}$/\<close>\<close>

definition metricNamePattern :: "string \<Rightarrow> bool" where
  "metricNamePattern s = (3 \<le> length s \<and> length s \<le> 128 \<and> isLowerChar (hd s) \<and>
     list_all (\<lambda>c. isLowerChar c \<or> isDigit c \<or> c = CHR ''_'') (tl s))"

definition identifierPattern :: "string \<Rightarrow> bool" where
  "identifierPattern s = (1 \<le> length s \<and> length s \<le> 128 \<and> list_all (\<lambda>c. isAlphaNum c \<or> c \<in> set ''._:-'') s)"

definition digestPattern :: "string \<Rightarrow> bool" where
  "digestPattern s = (length s = 64 \<and> list_all (\<lambda>c. isDigit c \<or> c \<in> set ''abcdef'') s)"

text \<open>\<^verbatim>\<open>/^\d{4}-\d{2}-\d{2}T\d{2}:\d{2}:\d{2}\.\d{3}Z$/\<close>\<close>

definition timestampPattern :: "string \<Rightarrow> bool" where
  "timestampPattern s = (length s = 24 \<and> (\<forall>i < 24.
     if i \<in> {4, 7} then s ! i = CHR ''-'' else if i = 10 then s ! i = CHR ''T'' else if i \<in> {13, 16} then s ! i = CHR '':''
     else if i = 19 then s ! i = CHR ''.'' else if i = 23 then s ! i = CHR ''Z'' else isDigit (s ! i)))"

definition canonicalDate :: "string \<Rightarrow> bool" where
  "canonicalDate s = (dayShape s \<and> canonicalTime (s @ ''T00:00:00.000Z'') \<noteq> None)"

definition canonicalTimestamp :: "string \<Rightarrow> bool" where
  "canonicalTimestamp s = (timestampPattern s \<and> canonicalTime s \<noteq> None)"

text \<open>\<^verbatim>\<open>/^(fine:([0-9]|[1-5][0-9]|6[0-3])|coarse:(low|medium|high))$/\<close>\<close>

definition bucketPattern :: "string \<Rightarrow> bool" where
  "bucketPattern s =
     (s \<in> {''coarse:low'', ''coarse:medium'', ''coarse:high''} \<or>
      startsWith s ''fine:'' \<and>
        (case drop 5 s of
           [c] \<Rightarrow> isDigit c
         | [c, d] \<Rightarrow> c \<in> set ''12345'' \<and> isDigit d \<or> c = CHR ''6'' \<and> d \<in> set ''0123''
         | _ \<Rightarrow> False))"

definition groupingValid :: "string \<Rightarrow> string \<Rightarrow> bool" where
  "groupingValid dimension s =
     (if dimension = ''country'' then length s = 2 \<and> list_all (\<lambda>c. 65 \<le> (of_char c :: nat) \<and> (of_char c :: nat) \<le> 90) s
      else if dimension \<in> {''cohort_date'', ''metric_date''} then canonicalDate s
      else if dimension = ''attribution_status'' then s \<in> {''organic'', ''non_organic'', ''unattributed''}
      else if dimension = ''apple_conversion_bucket'' then bucketPattern s
      else identifierPattern s)"

section \<open>Reading the request\<close>

definition groupingKeyPrefix :: string where
  "groupingKeyPrefix = ''grouping_''"

definition transportKeys :: "string list" where
  "transportKeys = [''app_id'', ''metric_name'', ''metric_definition_version'', ''date_from'', ''date_to'', ''watermark_at_most'',
     ''difference_reason_code'', ''supersession'', ''limit'', ''after'', ''format'', ''export''] @
     map (\<lambda>key. groupingKeyPrefix @ key) groupingDimensions"

definition getAll :: "string \<Rightarrow> (string \<times> string) list \<Rightarrow> string list" where
  "getAll key params = map snd (filter (\<lambda>p. fst p = key) params)"

definition oneParam :: "(string \<times> string) list \<Rightarrow> string \<Rightarrow> string option res" where
  "oneParam params key =
     (case getAll key params of
        [] \<Rightarrow> Inr None
      | [v] \<Rightarrow> Inr (Some v)
      | _ \<Rightarrow> Inl (queryError ''duplicate_filter''))"

definition parseCursor :: "report_api \<Rightarrow> string \<Rightarrow> metric_cursor res" where
  "parseCursor api encoded =
     (case ra_decodeJson api encoded of
        Inr (JObj ps) \<Rightarrow>
          (case (map_of ps ''metricName'', map_of ps ''groupingDigest'', map_of ps ''metricRunId'') of
             (Some (JStr name), Some (JStr digest), Some (JStr run)) \<Rightarrow>
               if joinWith '','' (js_sort compareText (map fst ps)) = ''groupingDigest,metricName,metricRunId'' \<and>
                  metricNamePattern name \<and> digestPattern digest \<and> identifierPattern run
               then Inr \<lparr>cu_metricName = name, cu_groupingDigest = digest, cu_metricRunId = run\<rparr>
               else Inl (queryError ''cursor_invalid'')
           | _ \<Rightarrow> Inl (queryError ''cursor_invalid''))
      | _ \<Rightarrow> Inl (queryError ''cursor_invalid''))"

text \<open>The JSON text of a cursor; its base64url form is read back by the decoder.\<close>

definition cursorJson :: "metric_cursor \<Rightarrow> json" where
  "cursorJson cursor = JObj [(''metricName'', JStr (cu_metricName cursor)), (''groupingDigest'', JStr (cu_groupingDigest cursor)),
     (''metricRunId'', JStr (cu_metricRunId cursor))]"

definition encodeMetricCursor :: "(string \<Rightarrow> string) \<Rightarrow> metric_cursor \<Rightarrow> string" where
  "encodeMetricCursor base64url cursor = base64url (jsonText (\<lambda>_. []) (cursorJson cursor))"

definition checkKey :: "string \<Rightarrow> unit res" where
  "checkKey key =
     bindR (throwIf (startsWith key groupingKeyPrefix \<and> key \<notin> set transportKeys \<and>
         drop (length groupingKeyPrefix) key \<in> {''installation_id'', ''click_id'', ''record_id'', ''payload'', ''payload_ref''})
         (queryError ''identifying_grouping'')) (\<lambda>_.
     throwIf (key \<notin> set transportKeys) (queryError ''unknown_filter''))"

definition groupingStep :: "(string \<times> string) list \<Rightarrow> (string \<times> string) list \<Rightarrow> string \<Rightarrow> (string \<times> string) list res" where
  "groupingStep params grouping dimension =
     bindR (oneParam params (groupingKeyPrefix @ dimension)) (\<lambda>v. case v of
        None \<Rightarrow> Inr grouping
      | Some s \<Rightarrow> bindR (throwIf (\<not> groupingValid dimension s) (queryError ''grouping_value_invalid'')) (\<lambda>_.
          Inr (grouping @ [(dimension, s)])))"

definition aggregateMetricNames :: "string list" where
  "aggregateMetricNames = [''skan_attributed_installs'', ''skan_conversion_value_distribution'', ''aak_attributed_installs'']"

definition deterministicOnlyDimensions :: "string list" where
  "deterministicOnlyDimensions = [''campaign_id'', ''network'', ''country'', ''cohort_date'', ''attribution_status'']"

definition checkSeries :: "string list \<Rightarrow> (string \<times> string) list \<Rightarrow> unit res" where
  "checkSeries metricNames grouping =
     (let selectedAggregate = filter (\<lambda>name. name \<in> set aggregateMetricNames) metricNames;
          selectedDeterministic = filter (\<lambda>name. name \<notin> set aggregateMetricNames) metricNames in
      bindR (throwIf (selectedAggregate \<noteq> [] \<and> list_ex (\<lambda>d. map_of grouping d \<noteq> None) deterministicOnlyDimensions)
               (queryError ''metric_series_mismatch'')) (\<lambda>_.
      throwIf (map_of grouping ''apple_conversion_bucket'' \<noteq> None \<and>
               (length selectedAggregate \<noteq> 1 \<or> hd selectedAggregate \<noteq> ''skan_conversion_value_distribution'' \<or>
                selectedDeterministic \<noteq> []))
        (queryError ''metric_series_mismatch'')))"

definition checkDates :: "string option \<Rightarrow> string option \<Rightarrow> unit res" where
  "checkDates dateFrom dateTo =
     bindR (throwIf (pred_option (\<lambda>s. \<not> canonicalDate s) dateFrom \<and> dateFrom \<noteq> None \<or>
                     pred_option (\<lambda>s. \<not> canonicalDate s) dateTo \<and> dateTo \<noteq> None) (queryError ''date_invalid'')) (\<lambda>_.
     throwIf (case (dateFrom, dateTo) of (Some a, Some b) \<Rightarrow> 0 \<le> compareText a b | _ \<Rightarrow> False) (queryError ''date_range_invalid''))"

definition checkedOption :: "(string \<Rightarrow> bool) \<Rightarrow> string \<Rightarrow> string option \<Rightarrow> string option res" where
  "checkedOption valid code v =
     (case v of Some s \<Rightarrow> if valid s then Inr v else Inl (queryError code) | None \<Rightarrow> Inr None)"

text \<open>\<^verbatim>\<open>Number.isSafeInteger(limit)\<close>, not below one and not above the maximum\<close>

definition limitValid :: "number \<Rightarrow> number \<Rightarrow> bool" where
  "limitValid limit maximum = (safeNatural limit \<and> \<not> lessN limit (numN 1) \<and> \<not> lessN maximum limit)"

definition readFormat :: "(string \<times> string) list \<Rightarrow> (string \<times> bool) res" where
  "readFormat params =
     bindR (oneParam params ''format'') (\<lambda>format.
     let format = orElse format ''json'' in
     bindR (throwIf (format \<noteq> ''json'' \<and> format \<noteq> ''csv'') (queryError ''unsupported_format'')) (\<lambda>_.
     bindR (oneParam params ''export'') (\<lambda>exportValue.
     let exportValue = orElse exportValue ''false'' in
     bindR (throwIf (exportValue \<noteq> ''true'' \<and> exportValue \<noteq> ''false'') (queryError ''export_invalid'')) (\<lambda>_.
     bindR (throwIf (exportValue = ''true'' \<and> format \<noteq> ''csv'') (queryError ''export_requires_csv'')) (\<lambda>_.
       Inr (format, exportValue = ''true''))))))"

definition readMetricNames :: "(string \<times> string) list \<Rightarrow> string list res" where
  "readMetricNames params =
     (let metricNames = js_sort compareText (remdups (getAll ''metric_name'' params)) in
      bindR (throwIf (list_ex (\<lambda>name. \<not> metricNamePattern name) metricNames) (queryError ''metric_name_invalid'')) (\<lambda>_.
        Inr metricNames))"

definition readLimit :: "report_api \<Rightarrow> report_input \<Rightarrow> bool \<Rightarrow> number res" where
  "readLimit api input exportRows =
     bindR (oneParam (ri_searchParams input) ''limit'') (\<lambda>limitValue.
     let maximumExportRows = orElse (ri_maximumExportRows input) (numN 200000);
         limitMaximum = (if exportRows then maximumExportRows else orElse (ri_maximumRows input) (numN 1000));
         limit = (case limitValue of None \<Rightarrow> if exportRows then maximumExportRows else numN 200 | Some s \<Rightarrow> ra_toNumber api s) in
     bindR (throwIf (\<not> limitValid limit limitMaximum) (queryError ''limit_invalid'')) (\<lambda>_. Inr limit))"

definition parseMetricQuery :: "report_api \<Rightarrow> report_input \<Rightarrow> parsed_query res" where
  "parseMetricQuery api input =
     (let params = ri_searchParams input in
      bindR (forR checkKey (map fst params)) (\<lambda>_.
      bindR (oneParam params ''app_id'') (\<lambda>requestedAppId.
      bindR (throwIf (requestedAppId \<noteq> None \<and> requestedAppId \<noteq> Some (ri_appId input)) (queryError ''app_scope_mismatch'')) (\<lambda>_.
      bindR (readFormat params) (\<lambda>(format, exportRows).
      bindR (readMetricNames params) (\<lambda>metricNames.
      bindR (oneParam params ''metric_definition_version'') (\<lambda>version.
      bindR (checkedOption (\<lambda>s. 1 \<le> length s \<and> length s \<le> 64) ''metric_definition_version_invalid'' version) (\<lambda>version.
      bindR (foldR (groupingStep params) [] groupingDimensions) (\<lambda>grouping.
      bindR (checkSeries metricNames grouping) (\<lambda>_.
      bindR (oneParam params ''date_from'') (\<lambda>dateFrom.
      bindR (oneParam params ''date_to'') (\<lambda>dateTo.
      bindR (checkDates dateFrom dateTo) (\<lambda>_.
      bindR (oneParam params ''watermark_at_most'') (\<lambda>watermark.
      bindR (checkedOption canonicalTimestamp ''watermark_invalid'' watermark) (\<lambda>watermark.
      bindR (oneParam params ''difference_reason_code'') (\<lambda>reason.
      bindR (checkedOption metricNamePattern ''difference_reason_invalid'' reason) (\<lambda>reason.
      bindR (oneParam params ''supersession'') (\<lambda>supersession.
      let supersession = orElse supersession ''latest'' in
      bindR (throwIf (supersession \<noteq> ''latest'' \<and> supersession \<noteq> ''all'') (queryError ''supersession_invalid'')) (\<lambda>_.
      bindR (readLimit api input exportRows) (\<lambda>limit.
      bindR (oneParam params ''after'') (\<lambda>after.
      bindR (case after of None \<Rightarrow> Inr None | Some s \<Rightarrow> bindR (parseCursor api s) (\<lambda>c. Inr (Some c))) (\<lambda>after.
        Inr \<lparr>pq_query = \<lparr>mq_tenantId = ri_tenantId input, mq_appId = ri_appId input,
               mq_metricNames = (if metricNames = [] then None else Some metricNames), mq_metricDefinitionVersion = version,
               mq_grouping = (if grouping = [] then None else Some grouping), mq_dateFrom = dateFrom, mq_dateTo = dateTo,
               mq_watermarkAtMost = watermark, mq_differenceReasonCode = reason, mq_supersession = supersession,
               mq_limit = limit, mq_after = after\<rparr>,
             pq_format = format, pq_export = exportRows\<rparr>))))))))))))))))))))))"

section \<open>The statement\<close>

datatype sql_value = TextValue string | TextsValue "string list" | NumberValue number

type_synonym sql_statement = "sql_value list \<times> string list"

text \<open>\<^verbatim>\<open>predicates.push(... ${push(values, value)} ...)\<close>, where the value is there.\<close>

definition pushPredicate :: "(string \<Rightarrow> string) \<Rightarrow> sql_value option \<Rightarrow> sql_statement \<Rightarrow> sql_statement" where
  "pushPredicate predicate v s =
     (case v of
        None \<Rightarrow> s
      | Some w \<Rightarrow> (fst s @ [w], snd s @ [predicate (CHR ''$'' # showNat (length (fst s) + 1))]))"

definition pushFixed :: "string \<Rightarrow> bool \<Rightarrow> sql_statement \<Rightarrow> sql_statement" where
  "pushFixed predicate b s = (if b then (fst s, snd s @ [predicate]) else s)"

definition textValue :: "string option \<Rightarrow> sql_value option" where
  "textValue v = map_option TextValue (keepTruthy v)"

definition runDateExpression :: "string \<Rightarrow> string" where
  "runDateExpression alias = ''COALESCE(NULLIF('' @ alias @ ''.grouping->>'' @ [CHR 0x27] @ ''metric_date'' @ [CHR 0x27] @ '',''
     @ [CHR 0x27, CHR 0x27] @ ''), NULLIF('' @ alias @ ''.grouping->>'' @ [CHR 0x27] @ ''cohort_date'' @ [CHR 0x27] @ '',''
     @ [CHR 0x27, CHR 0x27] @ ''))''"

definition replacementExists :: string where
  "replacementExists = ''EXISTS ( SELECT 1 FROM ledger.metric_runs AS replacement WHERE replacement.tenant_id=mr.tenant_id AND replacement.app_id=mr.app_id AND replacement.supersedes_metric_run_id=mr.metric_run_id )''"

definition collated :: "string \<Rightarrow> string" where
  "collated expression = expression @ '' COLLATE '' @ [CHR 0x22] @ ''C'' @ [CHR 0x22]"

definition runOrder :: string where
  "runOrder = joinWith '', '' (map collated [''mr.metric_name'', ''mr.grouping_digest'', ''mr.metric_run_id''])"

definition groupingPredicate :: "string \<times> string \<Rightarrow> sql_statement \<Rightarrow> sql_statement" where
  "groupingPredicate p = pushPredicate (\<lambda>d. ''mr.grouping->>'' @ [CHR 0x27] @ fst p @ [CHR 0x27] @ ''='' @ d) (Some (TextValue (snd p)))"

definition afterPredicate :: "metric_cursor option \<Rightarrow> sql_statement \<Rightarrow> sql_statement" where
  "afterPredicate after s =
     (case after of
        None \<Rightarrow> s
      | Some c \<Rightarrow>
          (let n = length (fst s); p = (\<lambda>i. collated (CHR ''$'' # showNat (n + i))) in
           (fst s @ [TextValue (cu_metricName c), TextValue (cu_groupingDigest c), TextValue (cu_metricRunId c)],
            snd s @ [''('' @ runOrder @ '') > ('' @ joinWith '', '' [p 1, p 2, p 3] @ '')''])))"

definition metricPredicates :: "metric_query \<Rightarrow> sql_statement" where
  "metricPredicates query =
     (afterPredicate (mq_after query) \<circ>
      pushFixed (''NOT '' @ replacementExists) (mq_supersession query = ''latest'') \<circ>
      pushPredicate (\<lambda>d. ''mr.input_received_at_watermark <= '' @ d) (textValue (mq_watermarkAtMost query)) \<circ>
      pushPredicate (\<lambda>d. runDateExpression ''mr'' @ '' < '' @ d) (textValue (mq_dateTo query)) \<circ>
      pushPredicate (\<lambda>d. runDateExpression ''mr'' @ '' >= '' @ d) (textValue (mq_dateFrom query)) \<circ>
      fold groupingPredicate (case mq_grouping query of None \<Rightarrow> [] | Some g \<Rightarrow> g) \<circ>
      pushPredicate (\<lambda>d. ''mr.metric_definition_version='' @ d) (textValue (mq_metricDefinitionVersion query)) \<circ>
      pushPredicate (\<lambda>d. ''mr.metric_name=ANY('' @ d @ ''::text[])'') (map_option TextsValue (mq_metricNames query)))
     ([TextValue (mq_tenantId query), TextValue (mq_appId query)], [''mr.tenant_id=$1'', ''mr.app_id=$2''])"

record parameterized_query =
  sq_text :: string
  sq_values :: "sql_value list"

definition buildMetricQuery :: "metric_query \<Rightarrow> parameterized_query" where
  "buildMetricQuery query =
     (case metricPredicates query of (values, predicates) \<Rightarrow>
        \<lparr>sq_text = ''SELECT mr.artifact, mr.grouping_digest, '' @ replacementExists @
             '' AS superseded FROM ledger.metric_runs AS mr WHERE '' @ joinWith '' AND '' predicates @
             '' ORDER BY '' @ runOrder @ '' LIMIT '' @ CHR ''$'' # showNat (length values + 1),
         sq_values = values @ [NumberValue (addN (mq_limit query) (numN 1))]\<rparr>)"

definition artifactDate :: string where
  "artifactDate = ''COALESCE(NULLIF(rr.artifact->>'' @ [CHR 0x27] @ ''metric_date'' @ [CHR 0x27] @ '','' @ [CHR 0x27, CHR 0x27] @
     ''), NULLIF(rr.artifact->>'' @ [CHR 0x27] @ ''cohort_date'' @ [CHR 0x27] @ '','' @ [CHR 0x27, CHR 0x27] @ ''))''"

definition resultReplaced :: string where
  "resultReplaced = ''EXISTS ( SELECT 1 FROM ledger.reconciliation_results AS replacement WHERE replacement.tenant_id=rr.tenant_id AND replacement.app_id=rr.app_id AND replacement.supersedes_reconciliation_id=rr.reconciliation_id )''"

definition differencePredicates :: "metric_query \<Rightarrow> sql_statement" where
  "differencePredicates query =
     (pushFixed (''NOT '' @ resultReplaced) (mq_supersession query = ''latest'') \<circ>
      pushPredicate (\<lambda>d. artifactDate @ '' < '' @ d) (textValue (mq_dateTo query)) \<circ>
      pushPredicate (\<lambda>d. artifactDate @ '' >= '' @ d) (textValue (mq_dateFrom query)) \<circ>
      pushPredicate (\<lambda>d. ''rr.difference_reason_code='' @ d) (textValue (mq_differenceReasonCode query)))
     ([TextValue (mq_tenantId query), TextValue (mq_appId query)], [''rr.tenant_id=$1'', ''rr.app_id=$2''])"

definition buildDifferenceQuery :: "metric_query \<Rightarrow> parameterized_query" where
  "buildDifferenceQuery query =
     (case differencePredicates query of (values, predicates) \<Rightarrow>
        \<lparr>sq_text = ''SELECT rr.artifact, '' @ resultReplaced @ '' AS superseded FROM ledger.reconciliation_results AS rr WHERE '' @
             joinWith '' AND '' predicates @ '' ORDER BY '' @ collated ''rr.reconciliation_id'' @ '' LIMIT '' @
             CHR ''$'' # showNat (length values + 1),
         sq_values = values @ [NumberValue (addN (mq_limit query) (numN 1))]\<rparr>)"

end
