(* ===== verification/ReportQueryLaws.thy ===== *)
theory ReportQueryLaws
  imports ReportQuery
begin

text \<open>
  A report stays in its tenant and app, and the text of its statement depends on which filters
  the request has and on nothing it says in them.
\<close>

section \<open>Statements of one shape\<close>

definition alike :: "sql_statement \<Rightarrow> sql_statement \<Rightarrow> bool" where
  "alike s s' = (length (fst s) = length (fst s') \<and> snd s = snd s')"

lemma alike_predicate: "alike s s' \<Longrightarrow> (v = None) = (v' = None) \<Longrightarrow> alike (pushPredicate p v s) (pushPredicate p v' s')"
  by (cases v; cases v') (auto simp: alike_def pushPredicate_def)

lemma alike_fixed: "alike s s' \<Longrightarrow> alike (pushFixed p b s) (pushFixed p b s')"
  by (simp add: alike_def pushFixed_def)

lemma alike_grouping: "alike s s' \<Longrightarrow> map fst g = map fst g' \<Longrightarrow> alike (fold groupingPredicate g s) (fold groupingPredicate g' s')"
proof (induction g g' arbitrary: s s' rule: list_induct2')
  case (4 p g p' g')
  have "alike (groupingPredicate p s) (groupingPredicate p' s')"
    using 4 by (simp add: groupingPredicate_def alike_def pushPredicate_def)
  then show ?case using 4 by simp
qed auto

lemma alike_after: "alike s s' \<Longrightarrow> (c = None) = (c' = None) \<Longrightarrow> alike (afterPredicate c s) (afterPredicate c' s')"
  by (cases c; cases c') (auto simp: alike_def afterPredicate_def Let_def)

definition groupingOf :: "metric_query \<Rightarrow> (string \<times> string) list" where
  "groupingOf query = (case mq_grouping query of None \<Rightarrow> [] | Some g \<Rightarrow> g)"

definition sameShape :: "metric_query \<Rightarrow> metric_query \<Rightarrow> bool" where
  "sameShape q q' =
     ((mq_metricNames q = None) = (mq_metricNames q' = None) \<and>
      (textValue (mq_metricDefinitionVersion q) = None) = (textValue (mq_metricDefinitionVersion q') = None) \<and>
      map fst (groupingOf q) = map fst (groupingOf q') \<and>
      (textValue (mq_dateFrom q) = None) = (textValue (mq_dateFrom q') = None) \<and>
      (textValue (mq_dateTo q) = None) = (textValue (mq_dateTo q') = None) \<and>
      (textValue (mq_watermarkAtMost q) = None) = (textValue (mq_watermarkAtMost q') = None) \<and>
      (mq_supersession q = ''latest'') = (mq_supersession q' = ''latest'') \<and>
      (mq_after q = None) = (mq_after q' = None))"

lemma metricPredicates_alike:
  assumes "sameShape q q'"
  shows "alike (metricPredicates q) (metricPredicates q')"
proof -
  have latest: "(mq_supersession q = ''latest'') = (mq_supersession q' = ''latest'')"
    using assms by (simp add: sameShape_def)
  show ?thesis
    unfolding metricPredicates_def comp_apply latest groupingOf_def[symmetric]
    by (intro alike_after alike_fixed alike_predicate alike_grouping)
      (use assms in \<open>simp_all add: sameShape_def alike_def\<close>)
qed

lemma buildMetricQuery_shape:
  "sameShape q q' \<Longrightarrow> sq_text (buildMetricQuery q) = sq_text (buildMetricQuery q') \<and>
     length (sq_values (buildMetricQuery q)) = length (sq_values (buildMetricQuery q'))"
  using metricPredicates_alike[of q q'] by (simp add: buildMetricQuery_def alike_def case_prod_beta)

text \<open>The scope comes first and nothing that is pushed later changes it.\<close>

definition scoped :: "sql_value list \<Rightarrow> string list \<Rightarrow> sql_statement \<Rightarrow> bool" where
  "scoped vs ps s = (\<exists>us qs. s = (vs @ us, ps @ qs))"

lemma scoped_predicate: "scoped vs ps s \<Longrightarrow> scoped vs ps (pushPredicate p v s)"
  by (cases v) (auto simp: pushPredicate_def scoped_def)

lemma scoped_fixed: "scoped vs ps s \<Longrightarrow> scoped vs ps (pushFixed p b s)"
  by (auto simp: pushFixed_def scoped_def)

lemma scoped_grouping: "scoped vs ps s \<Longrightarrow> scoped vs ps (fold groupingPredicate g s)"
proof (induction g arbitrary: s)
  case (Cons p g)
  show ?case using Cons.IH[of "groupingPredicate p s"] Cons.prems by (simp add: groupingPredicate_def scoped_predicate)
qed simp

lemma scoped_after: "scoped vs ps s \<Longrightarrow> scoped vs ps (afterPredicate c s)"
  by (cases c) (auto simp: afterPredicate_def Let_def scoped_def)

lemma metricPredicates_scoped:
  "scoped [TextValue (mq_tenantId q), TextValue (mq_appId q)] [''mr.tenant_id=$1'', ''mr.app_id=$2''] (metricPredicates q)"
  unfolding metricPredicates_def comp_apply
  by (intro scoped_after scoped_fixed scoped_predicate scoped_grouping) (simp add: scoped_def)

section \<open>Accepted requests\<close>

lemma oneParam_Inr:
  "oneParam params key = Inr v \<Longrightarrow> (v = None) = (key \<notin> fst ` set params) \<and> (\<forall>s. v = Some s \<longrightarrow> (key, s) \<in> set params)"
proof -
  assume one: "oneParam params key = Inr v"
  have "getAll key params = [] \<longleftrightarrow> key \<notin> fst ` set params"
    by (auto simp: getAll_def filter_empty_conv)
  moreover have "(key, s) \<in> set params" if "getAll key params = [s]" for s
  proof -
    have "s \<in> set (getAll key params)" using that by simp
    then show ?thesis by (auto simp: getAll_def)
  qed
  ultimately show ?thesis using one by (auto simp: oneParam_def split: list.splits)
qed

lemma grouping_keys:
  "foldR (groupingStep params) grouping dimensions = Inr g \<Longrightarrow>
     map fst g = map fst grouping @ filter (\<lambda>d. groupingKeyPrefix @ d \<in> fst ` set params) dimensions \<and>
     (\<forall>(d, s) \<in> set g. (d, s) \<in> set grouping \<or> groupingValid d s)"
proof (induction dimensions arbitrary: grouping)
  case (Cons d dimensions)
  then obtain grouping1 where step: "groupingStep params grouping d = Inr grouping1"
    and rest: "foldR (groupingStep params) grouping1 dimensions = Inr g" by (auto simp: bindR_Inr_iff)
  obtain v where v: "oneParam params (groupingKeyPrefix @ d) = Inr v" using step by (auto simp: groupingStep_def bindR_Inr_iff)
  show ?case
  proof (cases v)
    case None
    then show ?thesis using Cons.IH[OF rest] step oneParam_Inr[OF v] v by (auto simp: groupingStep_def)
  next
    case (Some s)
    then have "grouping1 = grouping @ [(d, s)]" "groupingValid d s"
      using step v by (auto simp: groupingStep_def bindR_Inr_iff throwIf_Inr_iff)
    then show ?thesis using Cons.IH[OF rest] oneParam_Inr[OF v] Some by auto
  qed
qed auto

lemma checkedOption_Inr: "checkedOption valid code v = Inr w \<longleftrightarrow> w = v \<and> pred_option valid v"
  by (auto simp: checkedOption_def split: option.splits)

lemma bindR_InrE: "bindR m f = Inr b \<Longrightarrow> (\<And>a. m = Inr a \<Longrightarrow> f a = Inr b \<Longrightarrow> P) \<Longrightarrow> P"
  by (auto simp: bindR_Inr_iff)

lemma forR_Inr: "forR f xs = Inr u \<Longrightarrow> \<forall>x \<in> set xs. f x = Inr ()"
  by (induction xs) (auto simp: forR_def bindR_Inr_iff)

definition paramKeys :: "report_input \<Rightarrow> string set" where
  "paramKeys input = fst ` set (ri_searchParams input)"

text \<open>What an accepted request is made of.\<close>

lemma parse_fields:
  assumes "parseMetricQuery api input = Inr r"
  shows "forR checkKey (map fst (ri_searchParams input)) = Inr ()"
    and "mq_tenantId (pq_query r) = ri_tenantId input" "mq_appId (pq_query r) = ri_appId input"
    and "readFormat (ri_searchParams input) = Inr (pq_format r, pq_export r)"
    and "\<exists>names. readMetricNames (ri_searchParams input) = Inr names \<and>
      mq_metricNames (pq_query r) = (if names = [] then None else Some names)"
    and "oneParam (ri_searchParams input) ''metric_definition_version'' = Inr (mq_metricDefinitionVersion (pq_query r))"
    and "pred_option (\<lambda>s. 1 \<le> length s \<and> length s \<le> 64) (mq_metricDefinitionVersion (pq_query r))"
    and "foldR (groupingStep (ri_searchParams input)) [] groupingDimensions = Inr (groupingOf (pq_query r))"
    and "oneParam (ri_searchParams input) ''date_from'' = Inr (mq_dateFrom (pq_query r))"
    and "oneParam (ri_searchParams input) ''date_to'' = Inr (mq_dateTo (pq_query r))"
    and "checkDates (mq_dateFrom (pq_query r)) (mq_dateTo (pq_query r)) = Inr ()"
    and "oneParam (ri_searchParams input) ''watermark_at_most'' = Inr (mq_watermarkAtMost (pq_query r))"
    and "pred_option canonicalTimestamp (mq_watermarkAtMost (pq_query r))"
    and "readLimit api input (pq_export r) = Inr (mq_limit (pq_query r))"
    and "\<exists>after. oneParam (ri_searchParams input) ''after'' = Inr after \<and> (mq_after (pq_query r) = None) = (after = None)"
proof -
  obtain u fe names version version' grouping dateFrom dateTo u3 watermark watermark' reason' supersession limit after after'
    where f: "forR checkKey (map fst (ri_searchParams input)) = Inr u"
      "readFormat (ri_searchParams input) = Inr fe" "readMetricNames (ri_searchParams input) = Inr names"
      "oneParam (ri_searchParams input) ''metric_definition_version'' = Inr version"
      "checkedOption (\<lambda>s. 1 \<le> length s \<and> length s \<le> 64) ''metric_definition_version_invalid'' version = Inr version'"
      "foldR (groupingStep (ri_searchParams input)) [] groupingDimensions = Inr grouping"
      "oneParam (ri_searchParams input) ''date_from'' = Inr dateFrom" "oneParam (ri_searchParams input) ''date_to'' = Inr dateTo"
      "checkDates dateFrom dateTo = Inr u3" "oneParam (ri_searchParams input) ''watermark_at_most'' = Inr watermark"
      "checkedOption canonicalTimestamp ''watermark_invalid'' watermark = Inr watermark'"
      "readLimit api input (snd fe) = Inr limit" "oneParam (ri_searchParams input) ''after'' = Inr after"
      "(case after of None \<Rightarrow> Inr None | Some s \<Rightarrow> bindR (parseCursor api s) (\<lambda>c. Inr (Some c))) = Inr after'"
      "Inr \<lparr>pq_query = \<lparr>mq_tenantId = ri_tenantId input, mq_appId = ri_appId input,
               mq_metricNames = (if names = [] then None else Some names), mq_metricDefinitionVersion = version',
               mq_grouping = (if grouping = [] then None else Some grouping), mq_dateFrom = dateFrom, mq_dateTo = dateTo,
               mq_watermarkAtMost = watermark', mq_differenceReasonCode = reason', mq_supersession = orElse supersession ''latest'',
               mq_limit = limit, mq_after = after'\<rparr>, pq_format = fst fe, pq_export = snd fe\<rparr> = (Inr r :: parsed_query res)"
    using assms unfolding parseMetricQuery_def Let_def case_prod_beta
    by (elim bindR_InrE) (rule that, assumption+)
  note r = f(15)[unfolded sum.inject, symmetric]
  have after: "(after' = None) = (after = None)" using f(14) by (cases after) (auto simp: bindR_Inr_iff)
  note v = f(5,11)[unfolded checkedOption_Inr]
  show "forR checkKey (map fst (ri_searchParams input)) = Inr ()" using f(1) by simp
  show "mq_tenantId (pq_query r) = ri_tenantId input" "mq_appId (pq_query r) = ri_appId input" using r by simp_all
  show "readFormat (ri_searchParams input) = Inr (pq_format r, pq_export r)" using f(2) r by simp
  show "\<exists>names. readMetricNames (ri_searchParams input) = Inr names \<and>
      mq_metricNames (pq_query r) = (if names = [] then None else Some names)" using f(3) r by auto
  show "oneParam (ri_searchParams input) ''metric_definition_version'' = Inr (mq_metricDefinitionVersion (pq_query r))"
    "pred_option (\<lambda>s. 1 \<le> length s \<and> length s \<le> 64) (mq_metricDefinitionVersion (pq_query r))"
    using f(4) r v(1) by auto
  show "foldR (groupingStep (ri_searchParams input)) [] groupingDimensions = Inr (groupingOf (pq_query r))"
    using f(6) r by (simp add: groupingOf_def)
  show "oneParam (ri_searchParams input) ''date_from'' = Inr (mq_dateFrom (pq_query r))"
    "oneParam (ri_searchParams input) ''date_to'' = Inr (mq_dateTo (pq_query r))"
    "checkDates (mq_dateFrom (pq_query r)) (mq_dateTo (pq_query r)) = Inr ()" using f(7-9) r by simp_all
  show "oneParam (ri_searchParams input) ''watermark_at_most'' = Inr (mq_watermarkAtMost (pq_query r))"
    "pred_option canonicalTimestamp (mq_watermarkAtMost (pq_query r))" using f(10) r v(2) by auto
  show "readLimit api input (pq_export r) = Inr (mq_limit (pq_query r))" using f(12) r by simp
  show "\<exists>after. oneParam (ri_searchParams input) ''after'' = Inr after \<and> (mq_after (pq_query r) = None) = (after = None)"
    using f(13) r after by auto
qed

lemma readMetricNames_empty:
  "readMetricNames params = Inr names \<Longrightarrow> (names = []) = (''metric_name'' \<notin> fst ` set params)"
proof -
  assume "readMetricNames params = Inr names"
  then have "set names = set (getAll ''metric_name'' params)"
    by (auto simp: readMetricNames_def Let_def bindR_Inr_iff)
  moreover have "(getAll ''metric_name'' params = []) = (''metric_name'' \<notin> fst ` set params)"
    by (force simp: getAll_def filter_empty_conv)
  ultimately show ?thesis by (metis set_empty)
qed

lemma textValue_None: "textValue v = None \<longleftrightarrow> v = None \<or> v = Some []"
  by (cases v) (auto simp: textValue_def keepTruthy_def)

lemma checkDates_filled: "checkDates a b = Inr () \<Longrightarrow> a \<noteq> Some [] \<and> b \<noteq> Some []"
  by (auto simp: checkDates_def bindR_Inr_iff throwIf_Inr_iff canonicalDate_def dayShape_def)

lemma accepted_filled:
  assumes "parseMetricQuery api input = Inr r"
  shows "mq_metricDefinitionVersion (pq_query r) \<noteq> Some []" "mq_dateFrom (pq_query r) \<noteq> Some []"
    "mq_dateTo (pq_query r) \<noteq> Some []" "mq_watermarkAtMost (pq_query r) \<noteq> Some []"
  using parse_fields(7,11,13)[OF assms] checkDates_filled by (auto simp: canonicalTimestamp_def timestampPattern_def)

lemma accepted_presence:
  assumes "parseMetricQuery api input = Inr r"
  shows "(mq_metricNames (pq_query r) = None) = (''metric_name'' \<notin> paramKeys input)"
    "(textValue (mq_metricDefinitionVersion (pq_query r)) = None) = (''metric_definition_version'' \<notin> paramKeys input)"
    "(textValue (mq_dateFrom (pq_query r)) = None) = (''date_from'' \<notin> paramKeys input)"
    "(textValue (mq_dateTo (pq_query r)) = None) = (''date_to'' \<notin> paramKeys input)"
    "(textValue (mq_watermarkAtMost (pq_query r)) = None) = (''watermark_at_most'' \<notin> paramKeys input)"
    "(mq_after (pq_query r) = None) = (''after'' \<notin> paramKeys input)"
    "map fst (groupingOf (pq_query r)) = filter (\<lambda>d. groupingKeyPrefix @ d \<in> paramKeys input) groupingDimensions"
proof -
  note f = parse_fields[OF assms]
  show "(mq_metricNames (pq_query r) = None) = (''metric_name'' \<notin> paramKeys input)"
    using f(5) readMetricNames_empty unfolding paramKeys_def by (metis option.distinct(1))
  show "(textValue (mq_metricDefinitionVersion (pq_query r)) = None) = (''metric_definition_version'' \<notin> paramKeys input)"
    using oneParam_Inr[OF f(6)] accepted_filled(1)[OF assms] by (simp add: textValue_None paramKeys_def)
  show "(textValue (mq_dateFrom (pq_query r)) = None) = (''date_from'' \<notin> paramKeys input)"
    using oneParam_Inr[OF f(9)] accepted_filled(2)[OF assms] by (simp add: textValue_None paramKeys_def)
  show "(textValue (mq_dateTo (pq_query r)) = None) = (''date_to'' \<notin> paramKeys input)"
    using oneParam_Inr[OF f(10)] accepted_filled(3)[OF assms] by (simp add: textValue_None paramKeys_def)
  show "(textValue (mq_watermarkAtMost (pq_query r)) = None) = (''watermark_at_most'' \<notin> paramKeys input)"
    using oneParam_Inr[OF f(12)] accepted_filled(4)[OF assms] by (simp add: textValue_None paramKeys_def)
  show "(mq_after (pq_query r) = None) = (''after'' \<notin> paramKeys input)"
    using f(15) oneParam_Inr[of "ri_searchParams input" "''after''"] by (auto simp: paramKeys_def)
  show "map fst (groupingOf (pq_query r)) = filter (\<lambda>d. groupingKeyPrefix @ d \<in> paramKeys input) groupingDimensions"
    using grouping_keys[OF f(8)] by (simp add: paramKeys_def)
qed

lemma accepted_shape:
  assumes "parseMetricQuery api input = Inr r" "parseMetricQuery api' input' = Inr r'"
    and "paramKeys input = paramKeys input'"
    and "(mq_supersession (pq_query r) = ''latest'') = (mq_supersession (pq_query r') = ''latest'')"
  shows "sameShape (pq_query r) (pq_query r')"
  unfolding sameShape_def accepted_presence[OF assms(1)] accepted_presence[OF assms(2)] assms(3) using assms(4) by simp

lemma accepted_keys: "parseMetricQuery api input = Inr r \<Longrightarrow> paramKeys input \<subseteq> set transportKeys"
  using forR_Inr[OF parse_fields(1)] by (fastforce simp: paramKeys_def checkKey_def bindR_Inr_iff throwIf_Inr_iff)

lemma accepted_limit:
  "parseMetricQuery api input = Inr r \<Longrightarrow>
     limitValid (mq_limit (pq_query r))
       (if pq_export r then orElse (ri_maximumExportRows input) (numN 200000) else orElse (ri_maximumRows input) (numN 1000))"
  using parse_fields(14)[of api input r] by (auto simp: readLimit_def Let_def bindR_Inr_iff throwIf_Inr_iff split: if_splits)

text \<open>The scope of the statement.\<close>

lemma statement_scope:
  "\<exists>vs ps. sq_values (buildMetricQuery q) = TextValue (mq_tenantId q) # TextValue (mq_appId q) # vs \<and>
     metricPredicates q = (butlast (sq_values (buildMetricQuery q)), ''mr.tenant_id=$1'' # ''mr.app_id=$2'' # ps)"
  using metricPredicates_scoped[of q] by (auto simp: scoped_def buildMetricQuery_def)

end
