(* ===== verification/ReportPages.thy ===== *)
theory ReportPages
  imports ReportQueryLaws
begin

text \<open>
  The pages of a metric report. The rows a statement selects are the specification of its SQL:
  the runs that match the filters and follow the cursor, in the order of their key, up to one
  more than the limit. Following the cursors of the pages gives every run once.
\<close>

section \<open>Rows\<close>

record metric_run_row =
  mr_artifact :: "(string \<times> json) list"
  mr_grouping_digest :: string
  mr_superseded :: bool

definition orNull :: "json option \<Rightarrow> json" where
  "orNull v = (case nullOr v None of None \<Rightarrow> JNull | Some j \<Rightarrow> j)"

definition optionalEntry :: "string \<Rightarrow> json option \<Rightarrow> (string \<times> json) list" where
  "optionalEntry name v = (case v of None \<Rightarrow> [] | Some j \<Rightarrow> [(name, j)])"

definition isString :: "json option \<Rightarrow> bool" where
  "isString v = (case v of Some (JStr s) \<Rightarrow> True | _ \<Rightarrow> False)"

definition metricFields :: "(rat \<Rightarrow> string) \<Rightarrow> metric_run_row \<Rightarrow> json option \<Rightarrow> (string \<times> json) list" where
  "metricFields digits row valueState =
     (let artifact = map_of (mr_artifact row) in
        optionalEntry ''metric_run_id'' (artifact ''metric_run_id'') @ optionalEntry ''metric_name'' (artifact ''metric_name'') @
        optionalEntry ''metric_definition_version'' (artifact ''metric_definition_version'') @
        [(''policy_versions'', JArr (JStr (''rule_bundle:'' @ optString digits (artifact ''rule_bundle_version'')) #
           (if truthyField (artifact ''fx_policy_version'') then [JStr (''fx:'' @ optString digits (artifact ''fx_policy_version''))] else [])))] @
        optionalEntry ''input_received_at_watermark'' (artifact ''input_received_at_watermark'') @
        optionalEntry ''input_snapshot_id'' (artifact ''input_snapshot_id'') @
        optionalEntry ''data_freshness'' (artifact ''data_freshness'') @ optionalEntry ''value_state'' valueState @
        [(''undefined_reason'', orNull (artifact ''undefined_reason''))] @
        (if valueState = Some (JStr ''present'') then optionalEntry ''value_unscaled'' (artifact ''value_unscaled'') else []) @
        optionalEntry ''value_type'' (artifact ''value_type'') @
        [(''currency'', orNull (artifact ''currency'')), (''amount_scale'', orNull (artifact ''amount_scale'')),
         (''ratio_scale'', orNull (artifact ''ratio_scale'')),
         (''grouping'', case nullOr (case artifact ''grouping'' of None \<Rightarrow> None | Some g \<Rightarrow> fieldOf g ''dimensions'') None of
            None \<Rightarrow> JObj [] | Some d \<Rightarrow> d)] @
        optionalEntry ''rule_bundle_id'' (artifact ''rule_bundle_id'') @ optionalEntry ''rule_bundle_hash'' (artifact ''rule_bundle_hash'') @
        optionalEntry ''aggregation_time_zone'' (artifact ''aggregation_time_zone'') @
        optionalEntry ''computed_at'' (artifact ''computed_at'') @
        optionalEntry ''reproducibility_status'' (artifact ''reproducibility_status'') @
        [(''supersedes_metric_run_id'', orNull (artifact ''supersedes_metric_run_id''))] @
        optionalEntry ''input_ledger_position'' (artifact ''input_ledger_position'') @
        [(''grouping_digest'', JStr (mr_grouping_digest row)), (''superseded'', JBool (mr_superseded row))])"

definition metricRow :: "(rat \<Rightarrow> string) \<Rightarrow> metric_run_row \<Rightarrow> (string \<times> json) list res" where
  "metricRow digits row =
     (let artifact = map_of (mr_artifact row);
          valueState = nullOr (artifact ''value_state'') (Some (JStr ''present''));
          runId = optString digits (artifact ''metric_run_id'') in
      bindR (throwIf (valueState = Some (JStr ''present'') \<and> \<not> isString (artifact ''value_unscaled''))
              (JsError (''metric run '' @ runId @ '' has no present value''))) (\<lambda>_.
      bindR (throwIf (valueState = Some (JStr ''undefined'') \<and> \<not> isString (artifact ''undefined_reason''))
              (JsError (''metric run '' @ runId @ '' has no undefined reason''))) (\<lambda>_.
        Inr (metricFields digits row valueState))))"

section \<open>A page\<close>

record report_page =
  rp_data :: "(string \<times> json) list list"
  rp_next_cursor :: "string option"

text \<open>\<^verbatim>\<open>rows.slice(0, limit)\<close> and \<^verbatim>\<open>rows.length > limit\<close> of a limit that is a natural number.\<close>

definition limitCount :: "number \<Rightarrow> nat" where
  "limitCount limit = (case limit of Fin x \<Rightarrow> nat \<lfloor>x\<rfloor> | _ \<Rightarrow> 0)"

definition rowCursor :: "(string \<times> json) list \<Rightarrow> metric_cursor" where
  "rowCursor row =
     (let field = (\<lambda>name. case map_of row name of Some (JStr s) \<Rightarrow> s | _ \<Rightarrow> []) in
      \<lparr>cu_metricName = field ''metric_name'', cu_groupingDigest = field ''grouping_digest'', cu_metricRunId = field ''metric_run_id''\<rparr>)"

definition metricReport ::
  "(rat \<Rightarrow> string) \<Rightarrow> (string \<Rightarrow> string) \<Rightarrow> (metric_query \<Rightarrow> metric_run_row list) \<Rightarrow> metric_query \<Rightarrow> report_page res" where
  "metricReport digits base64url select query =
     (let result = select query; hasNext = length result > limitCount (mq_limit query) in
      bindR (mapR (metricRow digits) (take (limitCount (mq_limit query)) result)) (\<lambda>rows.
        Inr \<lparr>rp_data = rows,
             rp_next_cursor = (if hasNext \<and> rows \<noteq> [] then Some (encodeMetricCursor base64url (rowCursor (last rows))) else None)\<rparr>))"

section \<open>What the statement selects\<close>

definition runText :: "string \<Rightarrow> metric_run_row \<Rightarrow> string" where
  "runText name row = (case map_of (mr_artifact row) name of Some (JStr s) \<Rightarrow> s | _ \<Rightarrow> [])"

definition runKey :: "metric_run_row \<Rightarrow> string list" where
  "runKey row = [runText ''metric_name'' row, mr_grouping_digest row, runText ''metric_run_id'' row]"

definition cursorKey :: "metric_cursor \<Rightarrow> string list" where
  "cursorKey c = [cu_metricName c, cu_groupingDigest c, cu_metricRunId c]"

definition selectRuns :: "(metric_query \<Rightarrow> metric_run_row \<Rightarrow> bool) \<Rightarrow> metric_run_row list \<Rightarrow> metric_query \<Rightarrow> metric_run_row list" where
  "selectRuns matches runs query =
     take (limitCount (mq_limit query) + 1)
       (filter (\<lambda>row. case mq_after query of None \<Rightarrow> True | Some c \<Rightarrow> cursorKey c < runKey row)
         (sort_key runKey (filter (matches query) runs)))"

text \<open>A client that follows the cursors, for at most \<open>fuel\<close> pages.\<close>

fun allPages ::
  "(rat \<Rightarrow> string) \<Rightarrow> (string \<Rightarrow> string) \<Rightarrow> report_api \<Rightarrow> (metric_query \<Rightarrow> metric_run_row list) \<Rightarrow> nat \<Rightarrow> metric_query
     \<Rightarrow> (string \<times> json) list list res" where
  "allPages digits base64url api select 0 query = Inl (JsError ''more pages'')"
| "allPages digits base64url api select (Suc fuel) query =
     bindR (metricReport digits base64url select query) (\<lambda>page.
       case rp_next_cursor page of
         None \<Rightarrow> Inr (rp_data page)
       | Some encoded \<Rightarrow>
           bindR (parseCursor api encoded) (\<lambda>c.
           bindR (allPages digits base64url api select fuel (query\<lparr>mq_after := Some c\<rparr>)) (\<lambda>rest.
             Inr (rp_data page @ rest))))"

section \<open>Every run once\<close>

definition runOk :: "(rat \<Rightarrow> string) \<Rightarrow> metric_run_row \<Rightarrow> bool" where
  "runOk digits row =
     (metricNamePattern (runText ''metric_name'' row) \<and> digestPattern (mr_grouping_digest row) \<and>
      identifierPattern (runText ''metric_run_id'' row) \<and> \<not> isl (metricRow digits row))"

lemma map_of_optional: "map_of (optionalEntry name v) = (case v of None \<Rightarrow> Map.empty | Some j \<Rightarrow> [name \<mapsto> j])"
  by (cases v) (simp_all add: optionalEntry_def)

lemma patterns_nonempty: "\<not> metricNamePattern []" "\<not> identifierPattern []"
  by (simp_all add: metricNamePattern_def identifierPattern_def)

lemma runText_Some: "runText name row \<noteq> [] \<Longrightarrow> map_of (mr_artifact row) name = Some (JStr (runText name row))"
  by (auto simp: runText_def split: option.splits json.splits)

lemma lookup_skip:
  "n \<noteq> name \<Longrightarrow> map_of (optionalEntry n v @ rest) name = map_of rest name"
  "n \<noteq> name \<Longrightarrow> map_of ((if b then optionalEntry n v else []) @ rest) name = map_of rest name"
  by (cases v; simp add: optionalEntry_def)+

lemma lookup_field: "map_of (optionalEntry name (Some j) @ rest) name = Some j"
  by (simp add: optionalEntry_def)

lemma lookup_past:
  "n \<noteq> name \<Longrightarrow> map_of rest name = r \<Longrightarrow> map_of (optionalEntry n v @ rest) name = r"
  "n \<noteq> name \<Longrightarrow> map_of rest name = r \<Longrightarrow> map_of ((if b then optionalEntry n v else []) @ rest) name = r"
  "n \<noteq> name \<Longrightarrow> map_of rest name = r \<Longrightarrow> map_of ((n, j) # rest) name = r"
  by (simp_all add: lookup_skip del: map_of_append)

lemma lookup_here: "map_of ((name, j) # rest) name = Some j"
  by simp

lemma row_cursor:
  assumes "runOk digits row" "metricRow digits row = Inr r"
  shows "cursorKey (rowCursor r) = runKey row"
proof -
  have fields: "map_of (mr_artifact row) ''metric_name'' = Some (JStr (runText ''metric_name'' row))"
    "map_of (mr_artifact row) ''metric_run_id'' = Some (JStr (runText ''metric_run_id'' row))"
    using assms(1) patterns_nonempty by (auto simp: runOk_def intro!: runText_Some)
  obtain v where r: "r = metricFields digits row v"
    using assms(2) by (auto simp: metricRow_def Let_def bindR_Inr_iff)
  have "map_of r ''metric_name'' = Some (JStr (runText ''metric_name'' row))"
    unfolding r metricFields_def Let_def by (simp add: fields lookup_skip lookup_field del: map_of_append)
  moreover have "map_of r ''metric_run_id'' = Some (JStr (runText ''metric_run_id'' row))"
    unfolding r metricFields_def Let_def by (simp add: fields lookup_skip lookup_field del: map_of_append)
  moreover have "map_of r ''grouping_digest'' = Some (JStr (mr_grouping_digest row))"
    unfolding r metricFields_def Let_def append_Cons append_Nil by (rule lookup_here | rule lookup_past, simp)+
  ultimately show ?thesis by (simp add: rowCursor_def cursorKey_def runKey_def)
qed

text \<open>The decoder reads back the cursors of the runs.\<close>

definition keyCursor :: "metric_run_row \<Rightarrow> metric_cursor" where
  "keyCursor row = \<lparr>cu_metricName = runText ''metric_name'' row, cu_groupingDigest = mr_grouping_digest row,
     cu_metricRunId = runText ''metric_run_id'' row\<rparr>"

definition decodesCursors :: "report_api \<Rightarrow> (string \<Rightarrow> string) \<Rightarrow> metric_run_row list \<Rightarrow> bool" where
  "decodesCursors api base64url runs =
     list_all (\<lambda>row. ra_decodeJson api (encodeMetricCursor base64url (keyCursor row)) = Inr (cursorJson (keyCursor row))) runs"

lemma cursor_roundtrip:
  assumes "ra_decodeJson api (encodeMetricCursor base64url c) = Inr (cursorJson c)"
    "metricNamePattern (cu_metricName c)" "digestPattern (cu_groupingDigest c)" "identifierPattern (cu_metricRunId c)"
  shows "parseCursor api (encodeMetricCursor base64url c) = Inr c"
  using assms by (simp add: parseCursor_def cursorJson_def compareText_def)

lemma page_rows: "runOk digits row \<Longrightarrow> \<exists>r. metricRow digits row = Inr r"
  by (cases "metricRow digits row") (simp_all add: runOk_def)

definition reportedRow :: "(rat \<Rightarrow> string) \<Rightarrow> metric_run_row \<Rightarrow> (string \<times> json) list" where
  "reportedRow digits row = projr (metricRow digits row)"

lemma mapR_projr: "\<forall>x \<in> set xs. \<not> isl (f x) \<Longrightarrow> mapR f xs = Inr (map (\<lambda>x. projr (f x)) xs)"
proof (induction xs)
  case (Cons x xs)
  then show ?case by (cases "f x") simp_all
qed simp

lemma metricReport_page:
  assumes "selectRuns matches runs query = take (limitCount (mq_limit query) + 1) rows" "list_all (runOk digits) rows"
    and "1 \<le> limitCount (mq_limit query)"
  shows "metricReport digits base64url (selectRuns matches runs) query =
    Inr \<lparr>rp_data = map (reportedRow digits) (take (limitCount (mq_limit query)) rows),
         rp_next_cursor = (if length rows \<le> limitCount (mq_limit query) then None
           else Some (encodeMetricCursor base64url (rowCursor (reportedRow digits (rows ! (limitCount (mq_limit query) - 1))))))\<rparr>"
proof -
  let ?n = "limitCount (mq_limit query)"
  have "mapR (metricRow digits) (take ?n rows) = Inr (map (reportedRow digits) (take ?n rows))"
    unfolding reportedRow_def
    by (rule mapR_projr) (use assms(2) in \<open>auto simp: list_all_iff runOk_def dest: in_set_takeD\<close>)
  moreover have "take ?n (take (?n + 1) rows) = take ?n rows" by simp
  moreover have "last (map (reportedRow digits) (take ?n rows)) = reportedRow digits (rows ! (?n - 1))"
    if "?n < length rows"
  proof -
    have "take ?n rows \<noteq> []" using that assms(3) by auto
    then show ?thesis using that assms(3) by (simp add: last_map last_conv_nth min_def)
  qed
  ultimately show ?thesis
    using assms(1,3) by (auto simp: metricReport_def Let_def not_le)
qed

lemma rows_after:
  assumes "sorted_wrt (\<lambda>a b. runKey a < runKey b) rows" "rows = before @ row # rest"
  shows "filter (\<lambda>r. runKey row < runKey r) rows = rest"
  using assms by (auto simp: sorted_wrt_append filter_empty_conv filter_id_conv order_less_imp_le not_less)

lemma allPages_rest:
  assumes sorted: "sorted_wrt (\<lambda>a b. runKey a < runKey b) rows" and ok: "list_all (runOk digits) rows"
    and rows: "\<And>q. mq_limit q = mq_limit query \<Longrightarrow> (\<exists>c. q = query\<lparr>mq_after := c\<rparr>) \<Longrightarrow>
      sort_key runKey (filter (matches q) runs) = rows"
    and decoder: "decodesCursors api base64url rows" and limit: "1 \<le> limitCount (mq_limit query)"
  shows "filter (\<lambda>row. case mq_after query' of None \<Rightarrow> True | Some c \<Rightarrow> cursorKey c < runKey row) rows = rest \<Longrightarrow>
    rows = before @ rest \<Longrightarrow> length rest < fuel \<Longrightarrow> query' = query\<lparr>mq_after := c\<rparr> \<Longrightarrow>
    allPages digits base64url api (selectRuns matches runs) fuel query' = Inr (map (reportedRow digits) rest)"
proof (induction fuel arbitrary: query' c before rest)
  case (Suc fuel)
  let ?n = "limitCount (mq_limit query)"
  have n: "limitCount (mq_limit query') = ?n" "mq_limit query' = mq_limit query" using Suc.prems(4) by simp_all
  have select: "selectRuns matches runs query' = take (limitCount (mq_limit query') + 1) rest"
    using Suc.prems(1,4) rows[of query'] by (auto simp: selectRuns_def)
  have okRest: "list_all (runOk digits) rest" using ok Suc.prems(2) by simp
  note page = metricReport_page[OF select okRest, unfolded n(1), OF limit]
  show ?case
  proof (cases "length rest \<le> ?n")
    case True
    then show ?thesis using page by simp
  next
    case False
    let ?row = "rest ! (?n - 1)"
    have row: "?row \<in> set rest" using False by simp
    have split: "rest = take (?n - 1) rest @ ?row # drop ?n rest"
      using False limit id_take_nth_drop[of "?n - 1" rest] by simp
    have rowOk: "runOk digits ?row" using okRest row by (simp add: list_all_iff)
    obtain r where r: "metricRow digits ?row = Inr r" using page_rows[OF rowOk] by blast
    have key: "cursorKey (rowCursor (reportedRow digits ?row)) = runKey ?row"
      using row_cursor[OF rowOk r] r by (simp add: reportedRow_def)
    let ?c = "rowCursor (reportedRow digits ?row)"
    have c: "?c = keyCursor ?row" using key by (simp add: cursorKey_def runKey_def keyCursor_def)
    have "ra_decodeJson api (encodeMetricCursor base64url (keyCursor ?row)) = Inr (cursorJson (keyCursor ?row))"
      using decoder Suc.prems(2) row by (simp add: decodesCursors_def list_all_iff)
    then have parsed: "parseCursor api (encodeMetricCursor base64url ?c) = Inr ?c"
      unfolding c by (rule cursor_roundtrip) (use rowOk in \<open>simp_all add: runOk_def keyCursor_def\<close>)
    have rest': "filter (\<lambda>row. case mq_after (query'\<lparr>mq_after := Some ?c\<rparr>) of None \<Rightarrow> True | Some c \<Rightarrow> cursorKey c < runKey row) rows
        = drop ?n rest"
      using rows_after[OF sorted, of "before @ take (?n - 1) rest" ?row "drop ?n rest"] Suc.prems(2) split key by simp
    have whole: "rows = (before @ take ?n rest) @ drop ?n rest" using Suc.prems(2) by simp
    have short: "length (drop ?n rest) < fuel" using Suc.prems(3) False limit by simp
    have again: "query'\<lparr>mq_after := Some ?c\<rparr> = query\<lparr>mq_after := Some ?c\<rparr>" using Suc.prems(4) by simp
    have "allPages digits base64url api (selectRuns matches runs) fuel (query'\<lparr>mq_after := Some ?c\<rparr>) =
        Inr (map (reportedRow digits) (drop ?n rest))"
      by (rule Suc.IH[OF rest' whole short again])
    then show ?thesis using page parsed False by (simp flip: map_append)
  qed
qed simp

lemma strictly_sorted:
  "distinct (map key xs) \<Longrightarrow> sorted_wrt (\<lambda>a b. key a < key b) (sort_key key xs)" for key :: "'a \<Rightarrow> 'k::linorder"
proof -
  assume "distinct (map key xs)"
  then have "distinct (map key (sort_key key xs))"
    by (metis distinct_map distinct_sort set_sort)
  moreover have "sorted (map key (sort_key key xs))" by simp
  ultimately have "sorted_wrt (<) (map key (sort_key key xs))" by (simp add: strict_sorted_iff)
  then show ?thesis by (simp add: sorted_wrt_map)
qed

lemma allPages_complete:
  assumes "distinct (map runKey (filter (matches query) runs))" "list_all (runOk digits) runs"
    and same: "\<And>c row. matches (query\<lparr>mq_after := c\<rparr>) row = matches query row"
    and "decodesCursors api base64url runs" "1 \<le> limitCount (mq_limit query)" "mq_after query = None"
    and "length runs < fuel"
  shows "allPages digits base64url api (selectRuns matches runs) fuel query =
    Inr (map (reportedRow digits) (sort_key runKey (filter (matches query) runs)))"
proof -
  let ?rows = "sort_key runKey (filter (matches query) runs)"
  have ok: "list_all (runOk digits) ?rows" using assms(2) by (simp add: list_all_iff)
  have rows: "sort_key runKey (filter (matches q) runs) = ?rows" if "\<exists>c. q = query\<lparr>mq_after := c\<rparr>" for q
  proof -
    from that obtain c where "q = query\<lparr>mq_after := c\<rparr>" ..
    then have "matches q = matches query" using same by (intro ext) simp
    then show ?thesis by simp
  qed
  have decoder: "decodesCursors api base64url ?rows" using assms(4) by (simp add: decodesCursors_def list_all_iff)
  have "length ?rows < fuel" using assms(7) le_less_trans[OF length_filter_le[of "matches query" runs]] by simp
  moreover have "query = query\<lparr>mq_after := None\<rparr>" using assms(6) by simp
  moreover have "filter (\<lambda>row. case mq_after query of None \<Rightarrow> True | Some c \<Rightarrow> cursorKey c < runKey row) ?rows = ?rows"
    using assms(6) by simp
  ultimately show ?thesis
    using allPages_rest[OF strictly_sorted[OF assms(1)] ok rows decoder assms(5), where query' = query and before = "[]" and c = None]
    by simp
qed

end
