(* ===== verification/SampleReport.thy ===== *)
theory SampleReport
  imports ReportPages
begin

text \<open>Concrete requests for a metric report, and a ledger of two runs that are read in pages of one.\<close>

definition sampleReportApi :: report_api where
  "sampleReportApi = \<lparr>ra_decodeJson = (\<lambda>_. Inl SyntaxError), ra_toNumber = (\<lambda>s. if s = ''5'' then numN 5 else NaN)\<rparr>"

definition reportRequest :: "string \<Rightarrow> string \<Rightarrow> report_input" where
  "reportRequest metric campaign = \<lparr>ri_tenantId = ''t'', ri_appId = ''a'',
     ri_searchParams = [(''metric_name'', metric), (''grouping_campaign_id'', campaign), (''limit'', ''5'')],
     ri_maximumRows = None, ri_maximumExportRows = None\<rparr>"

lemma sample_accepted:
  assumes "metricNamePattern metric" "identifierPattern campaign" "metric \<notin> set aggregateMetricNames"
  shows "\<exists>r. parseMetricQuery sampleReportApi (reportRequest metric campaign) = Inr r \<and>
    mq_supersession (pq_query r) = ''latest''"
proof -
  let ?params = "[(''metric_name'', metric), (''grouping_campaign_id'', campaign), (''limit'', ''5'')]"
  have keys: "forR checkKey [''metric_name'', ''grouping_campaign_id'', ''limit''] = Inr ()"
    by (simp add: forR_def checkKey_def transportKeys_def groupingDimensions_def groupingKeyPrefix_def)
  have one: "oneParam ?params ''app_id'' = Inr None" "oneParam ?params ''format'' = Inr None" "oneParam ?params ''export'' = Inr None"
    "oneParam ?params ''metric_definition_version'' = Inr None" "oneParam ?params ''date_from'' = Inr None"
    "oneParam ?params ''date_to'' = Inr None" "oneParam ?params ''watermark_at_most'' = Inr None"
    "oneParam ?params ''difference_reason_code'' = Inr None" "oneParam ?params ''supersession'' = Inr None"
    "oneParam ?params ''after'' = Inr None" "oneParam ?params ''limit'' = Inr (Some ''5'')"
    by (simp_all add: oneParam_def getAll_def)
  have format: "readFormat ?params = Inr (''json'', False)"
    by (simp add: readFormat_def one orElse_def)
  have names: "readMetricNames ?params = Inr [metric]"
    using assms(1) by (simp add: readMetricNames_def getAll_def)
  have grouping: "foldR (groupingStep ?params) [] groupingDimensions = Inr [(''campaign_id'', campaign)]"
    using assms(2) by (simp add: groupingDimensions_def groupingStep_def oneParam_def getAll_def groupingKeyPrefix_def groupingValid_def)
  have series: "checkSeries [metric] [(''campaign_id'', campaign)] = Inr ()"
    using assms(3) by (simp add: checkSeries_def)
  have limit: "readLimit sampleReportApi (reportRequest metric campaign) False = Inr (numN 5)"
    by (simp add: readLimit_def reportRequest_def one sampleReportApi_def limitValid_def safeNatural_def numN_def orElse_def)
  show ?thesis
    by (simp add: parseMetricQuery_def reportRequest_def keys[simplified] one format names grouping series
        limit[unfolded reportRequest_def] checkedOption_def checkDates_def orElse_def)
qed

section \<open>Pages\<close>

definition sampleMetricRun :: "string \<Rightarrow> metric_run_row" where
  "sampleMetricRun runId = \<lparr>mr_artifact = [(''metric_run_id'', JStr runId), (''metric_name'', JStr ''installs''), (''value_unscaled'', JStr ''1'')],
     mr_grouping_digest = replicate 64 (CHR ''0''), mr_superseded = False\<rparr>"

definition samplePageQuery :: metric_query where
  "samplePageQuery = \<lparr>mq_tenantId = ''t'', mq_appId = ''a'', mq_metricNames = None, mq_metricDefinitionVersion = None,
     mq_grouping = None, mq_dateFrom = None, mq_dateTo = None, mq_watermarkAtMost = None, mq_differenceReasonCode = None,
     mq_supersession = ''latest'', mq_limit = numN 1, mq_after = None\<rparr>"

definition samplePages :: report_api where
  "samplePages = \<lparr>ra_decodeJson = (\<lambda>s. if s = ''r1'' then Inr (cursorJson (keyCursor (sampleMetricRun ''r1''))) else Inr (cursorJson (keyCursor (sampleMetricRun ''r2'')))),
     ra_toNumber = (\<lambda>_. NaN)\<rparr>"

definition sampleBase64 :: "string \<Rightarrow> string" where
  "sampleBase64 text = (if text = jsonText (\<lambda>_. []) (cursorJson (keyCursor (sampleMetricRun ''r1''))) then ''r1'' else ''r2'')"

lemma sample_run_fields [simp]:
  "runText ''metric_name'' (sampleMetricRun i) = ''installs''" "runText ''metric_run_id'' (sampleMetricRun i) = i"
  "mr_grouping_digest (sampleMetricRun i) = replicate 64 (CHR ''0'')"
  by (simp_all add: runText_def sampleMetricRun_def)

lemma sample_runs:
  "distinct (map runKey [sampleMetricRun ''r1'', sampleMetricRun ''r2''])" "list_all (runOk digits) [sampleMetricRun ''r1'', sampleMetricRun ''r2'']"
  "decodesCursors samplePages sampleBase64 [sampleMetricRun ''r1'', sampleMetricRun ''r2'']" "limitCount (mq_limit samplePageQuery) = 1"
  by (simp_all add: runKey_def runOk_def metricNamePattern_def isLowerChar_def digestPattern_def isDigit_def identifierPattern_def
      isAlphaNum_def metricRow_def sampleMetricRun_def isString_def nullOr_def decodesCursors_def samplePages_def sampleBase64_def
      encodeMetricCursor_def keyCursor_def runText_def cursorJson_def jsonQuote_def limitCount_def samplePageQuery_def numN_def
      list_all_iff jsonEscape_def)

end
