(* ===== verification/BundleRuntime.thy ===== *)
theory BundleRuntime
  imports FraudRules
begin

text \<open>
  The fraud rule bundle an app runs with, of \<^verbatim>\<open>apps/worker/src/fraud-bundle-runtime.ts\<close>:
  the current revisions of a tenant's app, the checks a stored revision passes before it is
  used, and the registration of the default bundle. The table of revisions is a list in the
  order of insertion; \<open>currentRevisions\<close> is the view \<^verbatim>\<open>control.rule_bundles_current\<close>.
\<close>

section \<open>Revisions\<close>

record revision_row =
  br_rule_bundle_revision_id :: string
  br_tenant_id :: string
  br_app_id :: string
  br_rule_bundle_id :: string
  br_rule_bundle_version :: string
  br_rule_bundle_hash :: string
  br_definition_digest :: "string option"
  br_definition :: "fraud_bundle option"
  br_activated_at :: string
  br_supersedes :: "string option"

record active_revision =
  ar_ruleBundleRevisionId :: string
  ar_ruleBundleId :: string
  ar_ruleBundleVersion :: string
  ar_ruleBundleHash :: string
  ar_definitionDigest :: string
  ar_definition :: fraud_bundle
  ar_activatedAt :: string

text \<open>
  A digest that is \<^verbatim>\<open>null\<close> or empty counts as missing. The hash of a definition is refused
  when the definition is no valid bundle.
\<close>

definition validatedRevision :: "digest \<Rightarrow> revision_row \<Rightarrow> active_revision res" where
  "validatedRevision H row =
     (case (br_definition row, keepTruthy (br_definition_digest row)) of
        (Some bundle, Some stored) \<Rightarrow>
          if fb_id bundle \<noteq> br_rule_bundle_id row \<or> fb_version bundle \<noteq> br_rule_bundle_version row
          then Inl (JsError ''fraud_rule_bundle_identity_mismatch'')
          else (let definitionDigest = H (HFraudBundle bundle) in
            bindR (fraudBundleHash H bundle) (\<lambda>bundleHash.
            bindR (throwIf (definitionDigest \<noteq> stored) (JsError ''fraud_rule_bundle_definition_digest_mismatch'')) (\<lambda>_.
            bindR (throwIf (bundleHash \<noteq> br_rule_bundle_hash row) (JsError ''fraud_rule_bundle_hash_mismatch'')) (\<lambda>_.
              Inr \<lparr>ar_ruleBundleRevisionId = br_rule_bundle_revision_id row,
                   ar_ruleBundleId = br_rule_bundle_id row,
                   ar_ruleBundleVersion = br_rule_bundle_version row,
                   ar_ruleBundleHash = br_rule_bundle_hash row,
                   ar_definitionDigest = definitionDigest,
                   ar_definition = bundle,
                   ar_activatedAt = br_activated_at row\<rparr>))))
      | _ \<Rightarrow> Inl (JsError ''fraud_rule_bundle_definition_missing''))"

text \<open>The revisions of a scope that no revision of the same scope supersedes.\<close>

definition supersededIn :: "revision_row list \<Rightarrow> revision_row \<Rightarrow> bool" where
  "supersededIn revisions revision =
     list_ex (\<lambda>successor. br_tenant_id successor = br_tenant_id revision \<and> br_app_id successor = br_app_id revision \<and>
        br_supersedes successor = Some (br_rule_bundle_revision_id revision)) revisions"

definition currentRevisions :: "revision_row list \<Rightarrow> string \<Rightarrow> string \<Rightarrow> revision_row list" where
  "currentRevisions revisions tenantId appId =
     filter (\<lambda>r. br_tenant_id r = tenantId \<and> br_app_id r = appId \<and> \<not> supersededIn revisions r \<and>
        startsWith (br_rule_bundle_id r) ''fraud-'') revisions"

text \<open>
  The source orders the rows and looks at the first one after it has refused more than one,
  so the order does not matter.
\<close>

definition resolveActiveFraudBundle ::
  "digest \<Rightarrow> revision_row list \<Rightarrow> string \<Rightarrow> string \<Rightarrow> active_revision option res" where
  "resolveActiveFraudBundle H revisions tenantId appId =
     (case currentRevisions revisions tenantId appId of
        [] \<Rightarrow> Inr None
      | [row] \<Rightarrow> bindR (validatedRevision H row) (\<lambda>r. Inr (Some r))
      | _ \<Rightarrow> Inl (JsError ''active_fraud_rule_bundle_ambiguous''))"

section \<open>Registration of the default\<close>

definition defaultRevision :: "digest \<Rightarrow> string \<Rightarrow> string \<Rightarrow> string \<Rightarrow> string \<Rightarrow> string \<Rightarrow> revision_row" where
  "defaultRevision H tenantId appId bundleHash definitionDigest activatedAt =
     \<lparr>br_rule_bundle_revision_id =
        ''rule-bundle:synthetic:'' @ take 32 (H (HTexts [Some tenantId, Some appId, Some bundleHash])),
      br_tenant_id = tenantId, br_app_id = appId,
      br_rule_bundle_id = fb_id DEFAULT_FRAUD_BUNDLE,
      br_rule_bundle_version = fb_version DEFAULT_FRAUD_BUNDLE,
      br_rule_bundle_hash = bundleHash,
      br_definition_digest = Some definitionDigest,
      br_definition = Some DEFAULT_FRAUD_BUNDLE,
      br_activated_at = activatedAt,
      br_supersedes = None\<rparr>"

text \<open>The database may refuse the row, for its identifier or for a constraint.\<close>

definition ensureSyntheticDefaultFraudBundle ::
  "digest \<Rightarrow> (revision_row list \<Rightarrow> revision_row \<Rightarrow> js_error option) \<Rightarrow> string \<Rightarrow> string \<Rightarrow> string \<Rightarrow> revision_row list \<Rightarrow>
     (active_revision \<times> revision_row list) res" where
  "ensureSyntheticDefaultFraudBundle H refused tenantId appId activatedAt revisions =
     bindR (resolveActiveFraudBundle H revisions tenantId appId) (\<lambda>current.
       case current of
         Some r \<Rightarrow> Inr (r, revisions)
       | None \<Rightarrow>
           (let definitionDigest = H (HFraudBundle DEFAULT_FRAUD_BUNDLE) in
            bindR (fraudBundleHash H DEFAULT_FRAUD_BUNDLE) (\<lambda>bundleHash.
              let row = defaultRevision H tenantId appId bundleHash definitionDigest activatedAt in
              case refused revisions row of
                Some e \<Rightarrow> Inl e
              | None \<Rightarrow>
                  bindR (resolveActiveFraudBundle H (revisions @ [row]) tenantId appId) (\<lambda>inserted.
                    case inserted of
                      None \<Rightarrow> Inl (JsError ''synthetic_fraud_rule_bundle_registration_failed'')
                    | Some r \<Rightarrow> Inr (r, revisions @ [row])))))"

section \<open>Facts\<close>

lemma validatedRevision_Inr:
  "validatedRevision H row = Inr r \<longleftrightarrow>
     (\<exists>bundle. br_definition row = Some bundle \<and> br_definition_digest row = Some (H (HFraudBundle bundle)) \<and>
        H (HFraudBundle bundle) \<noteq> [] \<and> br_rule_bundle_hash row = H (HFraudBundle bundle) \<and>
        fb_id bundle = br_rule_bundle_id row \<and> fb_version bundle = br_rule_bundle_version row \<and>
        assertFraudBundle bundle = Inr () \<and>
        r = \<lparr>ar_ruleBundleRevisionId = br_rule_bundle_revision_id row, ar_ruleBundleId = br_rule_bundle_id row,
             ar_ruleBundleVersion = br_rule_bundle_version row, ar_ruleBundleHash = br_rule_bundle_hash row,
             ar_definitionDigest = H (HFraudBundle bundle), ar_definition = bundle, ar_activatedAt = br_activated_at row\<rparr>)"
  by (cases "br_definition_digest row")
     (auto simp: validatedRevision_def keepTruthy_def fraudBundleHash_Inr res_simps Let_def split: option.splits)

lemma resolveActive_Some:
  assumes "resolveActiveFraudBundle H revisions tenantId appId = Inr (Some r)"
  obtains row where "row \<in> set revisions" "br_tenant_id row = tenantId" "br_app_id row = appId"
    "currentRevisions revisions tenantId appId = [row]" "validatedRevision H row = Inr r"
proof -
  obtain row where row: "currentRevisions revisions tenantId appId = [row]" "validatedRevision H row = Inr r"
    using assms by (auto simp: resolveActiveFraudBundle_def res_simps split: list.splits)
  then have "row \<in> set (currentRevisions revisions tenantId appId)" by simp
  then have "row \<in> set revisions" "br_tenant_id row = tenantId" "br_app_id row = appId" by (simp_all add: currentRevisions_def)
  with row show ?thesis using that by blast
qed

text \<open>The bundle in force is what was registered: its hash is the digest of its definition.\<close>

lemma resolveActive_sound:
  assumes "resolveActiveFraudBundle H revisions tenantId appId = Inr (Some r)"
  shows "assertFraudBundle (ar_definition r) = Inr ()" "ar_ruleBundleHash r = H (HFraudBundle (ar_definition r))"
    "ar_definitionDigest r = ar_ruleBundleHash r" "ar_ruleBundleId r = fb_id (ar_definition r)"
    "ar_ruleBundleVersion r = fb_version (ar_definition r)"
  using assms by (auto elim!: resolveActive_Some simp: validatedRevision_Inr)

end
