(* ===== verification/LedgerRows.thy ===== *)
theory LedgerRows
  imports Evaluate BundleRuntime Json
begin

text \<open>
  The rows the ingestion worker of \<^verbatim>\<open>apps/worker/src/ingestion.ts\<close> writes and the statements
  that write them. The ledger is one list of rows in the order they are stored; a row is the
  artifact a statement stores, its further columns being fields of that artifact. A statement
  with \<^verbatim>\<open>ON CONFLICT ... DO NOTHING\<close> leaves the ledger as it is when a row with the same
  conflict target is there; such a target is the table and the key of \<open>rowKey\<close>. A row can be
  refused by the database, for a constraint or a lost connection; that is the parameter
  \<open>refused\<close>. A transaction that throws leaves the tables as they were, and a row of another
  tenant is not visible.
\<close>

section \<open>Facts projected from the payloads\<close>

record click_fact =
  cf_click_id :: "string option"
  cf_redirector_click_at :: "string option"
  cf_campaign_id :: "string option"
  cf_network :: "string option"
  cf_country :: "string option"
  cf_site_id :: "string option"
  cf_remote_click_ref :: "string option"
  cf_tracking_link_id :: "string option"
  cf_artifact :: json

record install_fact =
  nf_installation_id :: "string option"
  nf_prior_installation_id :: "string option"
  nf_install_type :: "string option"
  nf_click_id :: "string option"
  nf_install_begin_at_server :: "string option"
  nf_occurred_at :: string
  nf_campaign_id :: "string option"
  nf_network :: "string option"
  nf_country :: "string option"
  nf_artifact :: json

record session_fact =
  sf_installation_id :: "string option"
  sf_session_id :: "string option"
  sf_occurred_at :: string
  sf_artifact :: json

record deep_link_fact =
  lf_installation_id :: "string option"
  lf_tracking_link_id :: "string option"
  lf_campaign_id :: "string option"
  lf_open_source :: "string option"
  lf_occurred_at :: string
  lf_days_since_last_session :: "int option"
  lf_artifact :: json

record purchase_fact =
  uf_installation_id :: "string option"
  uf_transaction_id :: "string option"
  uf_amount_unscaled :: "string option"
  uf_amount_scale :: "int option"
  uf_currency :: "string option"
  uf_occurred_at :: string
  uf_artifact :: json

record ad_revenue_fact =
  vf_installation_id :: "string option"
  vf_anchor_source :: "string option"
  vf_impression_id :: "string option"
  vf_ad_unit_id :: "string option"
  vf_ad_network :: "string option"
  vf_amount_unscaled :: "string option"
  vf_amount_scale :: "int option"
  vf_currency :: "string option"
  vf_revenue_source :: "string option"
  vf_country :: "string option"
  vf_occurred_at :: string
  vf_artifact :: json

record custom_event_fact =
  ef_installation_id :: "string option"
  ef_event_key :: "string option"
  ef_artifact :: json

record postback_fact =
  bf_event_name :: string
  bf_signature_verified :: bool
  bf_did_win :: bool
  bf_source_identifier_present :: bool
  bf_conversion_bucket :: "string option"
  bf_received_at :: string
  bf_artifact :: json

datatype ledger_fact =
    ClickFact click_fact
  | InstallFact install_fact
  | SessionFact session_fact
  | DeepLinkFact deep_link_fact
  | PurchaseFact purchase_fact
  | AdRevenueFact ad_revenue_fact
  | CustomEventFact custom_event_fact
  | PostbackFact postback_fact

fun factTable :: "ledger_fact \<Rightarrow> string" where
  "factTable (ClickFact f) = ''click_facts''"
| "factTable (InstallFact f) = ''install_facts''"
| "factTable (SessionFact f) = ''session_facts''"
| "factTable (DeepLinkFact f) = ''deep_link_open_facts''"
| "factTable (PurchaseFact f) = ''purchase_facts''"
| "factTable (AdRevenueFact f) = ''ad_revenue_facts''"
| "factTable (CustomEventFact f) = ''custom_event_facts''"
| "factTable (PostbackFact f) = ''apple_postback_facts''"

record fact_row =
  fa_logical_event_id :: string
  fa_tenant_id :: string
  fa_app_id :: string
  fa_fact :: ledger_fact

section \<open>Rows\<close>

record payload_state =
  ps_tenant_id :: string
  ps_app_id :: string
  ps_record_id :: string
  ps_lifecycle_status :: lifecycle_status
  ps_changed_at :: string

record fraud_row =
  fw_tenant_id :: string
  fw_app_id :: string
  fw_supersedes :: "string option"
  fw_artifact :: fraud_decision

record quarantine =
  qr_fraud_decision_id :: string
  qr_tenant_id :: string
  qr_app_id :: string
  qr_subject_ref :: string
  qr_resolve_after :: "string option"

datatype ledger_row =
    AppRow string string string
  | RawRow string raw_record
  | PayloadStateRow payload_state
  | DeliveryRow string delivery
  | LogicalRow logical_event
  | FactRow fact_row
  | RejectionRow rejection
  | AttributionRow attribution
  | FraudRow fraud_row
  | QuarantineRow quarantine
  | ReconciliationRow reconciliation

text \<open>The table and the conflict target of a row; deliveries and rejections have none.\<close>

fun rowKey :: "ledger_row \<Rightarrow> (string \<times> string list) option" where
  "rowKey (AppRow tenantId appId createdAt) = Some (''apps'', [tenantId, appId])"
| "rowKey (RawRow policyDigest r) = Some (''raw_records'', [rr_record_id r])"
| "rowKey (PayloadStateRow s) = Some (''raw_payload_states'', [ps_record_id s, lifecycleText (ps_lifecycle_status s)])"
| "rowKey (DeliveryRow attemptId d) = None"
| "rowKey (LogicalRow e) = Some (''logical_events'', [le_logical_event_id e])"
| "rowKey (FactRow f) = Some (factTable (fa_fact f), [fa_logical_event_id f])"
| "rowKey (RejectionRow r) = None"
| "rowKey (AttributionRow a) = Some (''attribution_results'', [a_attribution_id a])"
| "rowKey (FraudRow f) = Some (''fraud_decisions'', [f_fraud_decision_id (fw_artifact f)])"
| "rowKey (QuarantineRow q) = Some (''fraud_quarantines'', [qr_fraud_decision_id q])"
| "rowKey (ReconciliationRow r) = Some (''reconciliation_results'', [rs_reconciliation_id r])"

fun rowScope :: "ledger_row \<Rightarrow> string \<times> string" where
  "rowScope (AppRow tenantId appId createdAt) = (tenantId, appId)"
| "rowScope (RawRow policyDigest r) = (rr_tenant_id r, rr_app_id r)"
| "rowScope (PayloadStateRow s) = (ps_tenant_id s, ps_app_id s)"
| "rowScope (DeliveryRow attemptId d) = (dl_tenant_id d, dl_app_id d)"
| "rowScope (LogicalRow e) = (le_tenant_id e, le_app_id e)"
| "rowScope (FactRow f) = (fa_tenant_id f, fa_app_id f)"
| "rowScope (RejectionRow r) = (rj_tenant_id r, rj_app_id r)"
| "rowScope (AttributionRow a) = (a_tenant_id a, a_app_id a)"
| "rowScope (FraudRow f) = (fw_tenant_id f, fw_app_id f)"
| "rowScope (QuarantineRow q) = (qr_tenant_id q, qr_app_id q)"
| "rowScope (ReconciliationRow r) = (rs_tenant_id r, rs_app_id r)"

section \<open>The database\<close>

text \<open>
  A tracking link with its latest state, if it has one. The rows with a state are the view
  \<^verbatim>\<open>control.tracking_links_current\<close>.
\<close>

record link_row =
  lk_tracking_link_id :: string
  lk_tenant_id :: string
  lk_app_id :: string
  lk_slug :: string
  lk_campaign_id :: "string option"
  lk_status :: "string option"

record ledger_db =
  db_rows :: "ledger_row list"
  db_revisions :: "revision_row list"
  db_links :: "link_row list"

type_synonym refusal = "ledger_row list \<Rightarrow> ledger_row \<Rightarrow> js_error option"

definition conflicting :: "ledger_row list \<Rightarrow> ledger_row \<Rightarrow> bool" where
  "conflicting rows row = (rowKey row \<noteq> None \<and> list_ex (\<lambda>other. rowKey other = rowKey row) rows)"

definition insertRow :: "refusal \<Rightarrow> ledger_row \<Rightarrow> ledger_db \<Rightarrow> ledger_db res" where
  "insertRow refused row db =
     (case refused (db_rows db) row of
        Some e \<Rightarrow> Inl e
      | None \<Rightarrow> Inr (if conflicting (db_rows db) row then db else db\<lparr>db_rows := db_rows db @ [row]\<rparr>))"

text \<open>
  \<^verbatim>\<open>storedArtifact\<close>: after an insert that did nothing, the row in place is read back, and
  it is not found when it belongs to another tenant.
\<close>

definition storedArtifact :: "refusal \<Rightarrow> string \<Rightarrow> ledger_row \<Rightarrow> ledger_db \<Rightarrow> ledger_db res" where
  "storedArtifact refused tenantId row db =
     bindR (insertRow refused row db) (\<lambda>db'.
       if conflicting (db_rows db) row \<and>
          \<not> list_ex (\<lambda>other. rowKey other = rowKey row \<and> fst (rowScope other) = tenantId) (db_rows db)
       then Inl (JsError ''ledger insert did not return an artifact'')
       else Inr db')"

text \<open>Rows inserted one after another, or by one statement in chunks of a thousand.\<close>

definition insertRows :: "refusal \<Rightarrow> ledger_row list \<Rightarrow> ledger_db \<Rightarrow> ledger_db res" where
  "insertRows refused rows db = foldR (\<lambda>d row. insertRow refused row d) db rows"

definition runtimeBulkChunkSize :: nat where
  "runtimeBulkChunkSize = 1000"

function insertJsonRows :: "refusal \<Rightarrow> ledger_row list \<Rightarrow> ledger_db \<Rightarrow> ledger_db res" where
  "insertJsonRows refused rows db =
     (if rows = [] then Inr db
      else bindR (insertRows refused (take runtimeBulkChunkSize rows) db)
             (insertJsonRows refused (drop runtimeBulkChunkSize rows)))"
  by pat_completeness auto

termination
  by (relation "measure (\<lambda>(_, rows, _). length rows)") (auto simp: runtimeBulkChunkSize_def)

declare insertJsonRows.simps [simp del]

text \<open>One transaction of a tenant.\<close>

definition withTenantTx :: "(ledger_db \<Rightarrow> ledger_db res) \<Rightarrow> ledger_db \<Rightarrow> unit res \<times> ledger_db" where
  "withTenantTx f db = (case f db of Inl e \<Rightarrow> (Inl e, db) | Inr db' \<Rightarrow> (Inr (), db'))"

text \<open>Statements and transactions in sequence, up to the first that throws.\<close>

definition thenDo :: "'a res \<times> ledger_db \<Rightarrow> ('a \<Rightarrow> ledger_db \<Rightarrow> 'b res \<times> ledger_db) \<Rightarrow> 'b res \<times> ledger_db" where
  "thenDo r f = (case r of (Inl e, db) \<Rightarrow> (Inl e, db) | (Inr a, db) \<Rightarrow> f a db)"

fun forEachTx :: "('a \<Rightarrow> ledger_db \<Rightarrow> unit res \<times> ledger_db) \<Rightarrow> 'a list \<Rightarrow> ledger_db \<Rightarrow> unit res \<times> ledger_db" where
  "forEachTx f [] db = (Inr (), db)"
| "forEachTx f (x # xs) db = thenDo (f x db) (\<lambda>_. forEachTx f xs)"

section \<open>The ledger as a map that is written once\<close>

text \<open>
  What the ledger promises: under each key it holds the first row that was stored, and rows
  without a key are all kept.
\<close>

definition keyedRow :: "ledger_row list \<Rightarrow> (string \<times> string list) \<rightharpoonup> ledger_row" where
  "keyedRow rows = (\<lambda>key. List.find (\<lambda>row. rowKey row = Some key) rows)"

definition unkeyedRows :: "ledger_row list \<Rightarrow> ledger_row list" where
  "unkeyedRows rows = filter (\<lambda>row. rowKey row = None) rows"

definition distinctKeys :: "ledger_row list \<Rightarrow> bool" where
  "distinctKeys rows = distinct (map rowKey (filter (\<lambda>row. rowKey row \<noteq> None) rows))"

text \<open>The abstract store: a map written once per key and a log.\<close>

record write_once =
  wo_map :: "(string \<times> string list) \<rightharpoonup> ledger_row"
  wo_log :: "ledger_row list"

definition writeOnce :: "ledger_row \<Rightarrow> write_once \<Rightarrow> write_once" where
  "writeOnce row s =
     (case rowKey row of
        None \<Rightarrow> s\<lparr>wo_log := wo_log s @ [row]\<rparr>
      | Some key \<Rightarrow> (if wo_map s key = None then s\<lparr>wo_map := (wo_map s)(key \<mapsto> row)\<rparr> else s))"

definition ledgerAbs :: "ledger_row list \<Rightarrow> write_once" where
  "ledgerAbs rows = \<lparr>wo_map = keyedRow rows, wo_log = unkeyedRows rows\<rparr>"

end
