(* ===== verification/Projections.thy ===== *)
theory Projections
  imports LedgerRows
begin

text \<open>
  The facts a logical event is projected to: \<^verbatim>\<open>persistProjectionWithClient\<close>, which writes
  one fact at a time, and \<^verbatim>\<open>bulkProjectionRows\<close>, which collects the rows of a whole batch by
  table and leaves the events whose projection reads the database to the first. The two
  spell the same columns out twice; here both are translated, and \<open>bulkTarget_fact\<close>
  shows that they agree.
\<close>

section \<open>Values of columns and artifacts\<close>

text \<open>\<^verbatim>\<open>a ?? b\<close>, and an artifact property that may be missing.\<close>

definition nullOr :: "'a option \<Rightarrow> 'a option \<Rightarrow> 'a option" where
  "nullOr a b = (case a of None \<Rightarrow> b | Some v \<Rightarrow> a)"

definition textOrNull :: "string option \<Rightarrow> json" where
  "textOrNull v = (case v of None \<Rightarrow> JNull | Some s \<Rightarrow> JStr s)"

definition intOrNull :: "int option \<Rightarrow> json" where
  "intOrNull v = (case v of None \<Rightarrow> JNull | Some i \<Rightarrow> JNum (numN i))"

definition definedText :: "string \<Rightarrow> string option \<Rightarrow> (string \<times> json) list" where
  "definedText key v = (case v of None \<Rightarrow> [] | Some s \<Rightarrow> [(key, JStr s)])"

definition definedInt :: "string \<Rightarrow> int option \<Rightarrow> (string \<times> json) list" where
  "definedInt key v = (case v of None \<Rightarrow> [] | Some i \<Rightarrow> [(key, JNum (numN i))])"

definition contextField :: "payload \<Rightarrow> (import_context \<Rightarrow> string option) \<Rightarrow> string option" where
  "contextField payload field = Option.bind (p_import_context payload) field"

definition factCampaign :: "payload \<Rightarrow> string option" where
  "factCampaign payload = nullOr (p_campaign_id payload) (contextField payload ic_provider_campaign_ref)"

definition factNetwork :: "payload \<Rightarrow> string option" where
  "factNetwork payload = nullOr (p_network payload) (contextField payload ic_provider_network)"

definition factCountry :: "payload \<Rightarrow> string option" where
  "factCountry payload = nullOr (p_country payload) (contextField payload ic_provider_country)"

section \<open>One fact at a time\<close>

definition trackingLinkOf :: "link_row list \<Rightarrow> logical_event \<Rightarrow> attempt \<Rightarrow> string option" where
  "trackingLinkOf links logical attempt =
     (if r_producer (at_record attempt) \<noteq> ''redirector'' then None
      else map_option lk_tracking_link_id (List.find (\<lambda>l. lk_tenant_id l = le_tenant_id logical \<and>
             lk_app_id l = le_app_id logical \<and> p_tracking_link_id (at_payload attempt) = Some (lk_tracking_link_id l)) links))"

definition clickFact :: "string option \<Rightarrow> attempt \<Rightarrow> ledger_fact" where
  "clickFact trackingLinkId attempt =
     (let payload = at_payload attempt in ClickFact \<lparr>
        cf_click_id = p_click_id payload,
        cf_redirector_click_at = p_redirector_click_at payload,
        cf_campaign_id = factCampaign payload,
        cf_network = factNetwork payload,
        cf_country = factCountry payload,
        cf_site_id = p_site_id payload,
        cf_remote_click_ref = p_remote_click_ref payload,
        cf_tracking_link_id = trackingLinkId,
        cf_artifact = JObj (definedText ''click_id'' (keepTruthy (p_click_id payload)) @
          [(''redirector_click_at'', textOrNull (p_redirector_click_at payload)),
           (''campaign_id'', textOrNull (factCampaign payload)),
           (''network'', textOrNull (factNetwork payload)),
           (''country'', textOrNull (factCountry payload)),
           (''site_id'', textOrNull (p_site_id payload)),
           (''remote_click_ref'', textOrNull (p_remote_click_ref payload)),
           (''tracking_link_id'', textOrNull trackingLinkId),
           (''bot_prefetch'', JBool (p_bot_prefetch payload = Some True)),
           (''source_rate_class'', textOrNull (p_source_rate_class payload)),
           (''client_class'', textOrNull (p_client_class payload))])\<rparr>)"

definition installFact :: "attempt \<Rightarrow> ledger_fact" where
  "installFact attempt =
     (let payload = at_payload attempt; occurredAt = r_occurred_at (at_record attempt) in InstallFact \<lparr>
        nf_installation_id = p_installation_id payload,
        nf_prior_installation_id = p_prior_installation_id payload,
        nf_install_type = p_install_type payload,
        nf_click_id = p_click_id payload,
        nf_install_begin_at_server = p_install_begin_at_server payload,
        nf_occurred_at = occurredAt,
        nf_campaign_id = factCampaign payload,
        nf_network = factNetwork payload,
        nf_country = factCountry payload,
        nf_artifact = JObj (definedText ''installation_id'' (p_installation_id payload) @
          [(''prior_installation_id'', textOrNull (p_prior_installation_id payload))] @
          definedText ''install_type'' (p_install_type payload) @
          [(''occurred_at'', JStr occurredAt),
           (''campaign_id'', textOrNull (factCampaign payload)),
           (''network'', textOrNull (factNetwork payload)),
           (''country'', textOrNull (factCountry payload))])\<rparr>)"

definition sessionFact :: "attempt \<Rightarrow> ledger_fact" where
  "sessionFact attempt =
     (let payload = at_payload attempt in SessionFact \<lparr>
        sf_installation_id = p_installation_id payload,
        sf_session_id = p_session_id payload,
        sf_occurred_at = r_occurred_at (at_record attempt),
        sf_artifact = JObj (definedText ''installation_id'' (p_installation_id payload) @
          definedText ''session_id'' (p_session_id payload))\<rparr>)"

text \<open>
  The latest session of the installation up to an instant. Stored timestamps are canonical,
  so comparing them as \<^verbatim>\<open>timestamptz\<close> compares their milliseconds.
\<close>

definition sessionTimes :: "ledger_row list \<Rightarrow> logical_event \<Rightarrow> string option \<Rightarrow> int list" where
  "sessionTimes rows logical installation =
     concat (map (\<lambda>row. case row of
       FactRow f \<Rightarrow>
         (case fa_fact f of
            SessionFact s \<Rightarrow>
              if fa_tenant_id f = le_tenant_id logical \<and> fa_app_id f = le_app_id logical \<and>
                 installation \<noteq> None \<and> sf_installation_id s = installation
              then (case canonicalTime (sf_occurred_at s) of None \<Rightarrow> [] | Some t \<Rightarrow> [t]) else []
          | _ \<Rightarrow> [])
     | _ \<Rightarrow> []) rows)"

definition daysSinceLastSession :: "ledger_row list \<Rightarrow> logical_event \<Rightarrow> attempt \<Rightarrow> int option res" where
  "daysSinceLastSession rows logical attempt =
     (case canonicalTime (r_occurred_at (at_record attempt)) of
        None \<Rightarrow> Inl (JsError ''invalid input syntax for type timestamp with time zone'')
      | Some occurred \<Rightarrow>
          (case filter (\<lambda>t. t \<le> occurred) (sessionTimes rows logical (p_installation_id (at_payload attempt))) of
             [] \<Rightarrow> Inr None
           | t # ts \<Rightarrow> Inr (Some ((occurred - Max (set (t # ts))) div 86400000))))"

definition deepLinkFact :: "int option \<Rightarrow> attempt \<Rightarrow> ledger_fact" where
  "deepLinkFact days attempt =
     (let payload = at_payload attempt; occurredAt = r_occurred_at (at_record attempt);
          active = (case s_deep_link_resolution (at_server attempt) of
                      Some resolution \<Rightarrow> if dr_status resolution = ''active'' then Some resolution else None
                    | None \<Rightarrow> None);
          link = Option.bind active dr_tracking_link_id;
          campaign = Option.bind active dr_campaign_id in
      DeepLinkFact \<lparr>
        lf_installation_id = p_installation_id payload,
        lf_tracking_link_id = link,
        lf_campaign_id = campaign,
        lf_open_source = p_open_source payload,
        lf_occurred_at = occurredAt,
        lf_days_since_last_session = days,
        lf_artifact = JObj (definedText ''installation_id'' (p_installation_id payload) @
          [(''tracking_link_id'', textOrNull link), (''campaign_id'', textOrNull campaign)] @
          definedText ''open_source'' (p_open_source payload) @
          [(''occurred_at'', JStr occurredAt), (''days_since_last_session'', intOrNull days)])\<rparr>)"

definition purchaseFact :: "attempt \<Rightarrow> ledger_fact" where
  "purchaseFact attempt =
     (let payload = at_payload attempt in PurchaseFact \<lparr>
        uf_installation_id = p_installation_id payload,
        uf_transaction_id = p_transaction_id payload,
        uf_amount_unscaled = p_amount_unscaled payload,
        uf_amount_scale = p_amount_scale payload,
        uf_currency = p_currency payload,
        uf_occurred_at = r_occurred_at (at_record attempt),
        uf_artifact = JObj ([(''installation_id'', textOrNull (p_installation_id payload))] @
          definedText ''transaction_id'' (p_transaction_id payload) @
          definedText ''amount_unscaled'' (p_amount_unscaled payload) @
          definedInt ''amount_scale'' (p_amount_scale payload) @
          definedText ''currency'' (p_currency payload))\<rparr>)"

definition adRevenueFact :: "attempt \<Rightarrow> ledger_fact" where
  "adRevenueFact attempt =
     (let payload = at_payload attempt in AdRevenueFact \<lparr>
        vf_installation_id = p_installation_id payload,
        vf_anchor_source = p_anchor_source payload,
        vf_impression_id = p_impression_id payload,
        vf_ad_unit_id = p_ad_unit_id payload,
        vf_ad_network = p_ad_network payload,
        vf_amount_unscaled = p_amount_unscaled payload,
        vf_amount_scale = p_amount_scale payload,
        vf_currency = p_currency payload,
        vf_revenue_source = p_revenue_source payload,
        vf_country = p_country payload,
        vf_occurred_at = r_occurred_at (at_record attempt),
        vf_artifact = JObj ([(''installation_id'', textOrNull (p_installation_id payload)),
            (''anchor_source'', textOrNull (p_anchor_source payload)),
            (''impression_id'', textOrNull (p_impression_id payload))] @
          definedText ''amount_unscaled'' (p_amount_unscaled payload) @
          definedInt ''amount_scale'' (p_amount_scale payload) @
          definedText ''currency'' (p_currency payload) @
          definedText ''revenue_source'' (p_revenue_source payload))\<rparr>)"

definition customEventFact :: "attempt \<Rightarrow> ledger_fact" where
  "customEventFact attempt =
     (let payload = at_payload attempt in CustomEventFact \<lparr>
        ef_installation_id = p_installation_id payload,
        ef_event_key = p_event_key payload,
        ef_artifact = JObj (definedText ''installation_id'' (p_installation_id payload) @
          definedText ''event_key'' (p_event_key payload))\<rparr>)"

definition factConversionBucket :: "payload \<Rightarrow> string option" where
  "factConversionBucket payload =
     (case p_conversion_value payload of
        Some v \<Rightarrow> Some (''fine:'' @ showInt v)
      | None \<Rightarrow> (case p_coarse_conversion_value payload of Some c \<Rightarrow> Some (''coarse:'' @ c) | None \<Rightarrow> None))"

definition postbackFact :: "logical_event \<Rightarrow> attempt \<Rightarrow> ledger_fact" where
  "postbackFact logical attempt =
     (let payload = at_payload attempt; bucket = factConversionBucket payload;
          verified = (p_signature_verified payload = Some True); won = (p_did_win payload = Some True);
          present = (p_source_identifier payload \<noteq> None); receivedAt = r_received_at (at_record attempt) in
      PostbackFact \<lparr>
        bf_event_name = le_event_name logical,
        bf_signature_verified = verified,
        bf_did_win = won,
        bf_source_identifier_present = present,
        bf_conversion_bucket = bucket,
        bf_received_at = receivedAt,
        bf_artifact = JObj [(''event_name'', JStr (le_event_name logical)), (''signature_verified'', JBool verified),
          (''did_win'', JBool won), (''source_identifier_present'', JBool present),
          (''conversion_bucket'', textOrNull bucket), (''received_at'', JStr receivedAt)]\<rparr>)"

text \<open>The fact of an event, if its name has a table.\<close>

definition projectedFact :: "ledger_db \<Rightarrow> logical_event \<Rightarrow> attempt \<Rightarrow> ledger_fact option res" where
  "projectedFact db logical attempt =
     (let event = le_event_name logical in
      if event = ''click'' then Inr (Some (clickFact (trackingLinkOf (db_links db) logical attempt) attempt))
      else if event = ''install'' then Inr (Some (installFact attempt))
      else if event = ''session_start'' then Inr (Some (sessionFact attempt))
      else if event = ''deep_link_open'' then
        bindR (daysSinceLastSession (db_rows db) logical attempt) (\<lambda>days. Inr (Some (deepLinkFact days attempt)))
      else if event = ''purchase'' then Inr (Some (purchaseFact attempt))
      else if event = ''ad_revenue'' then Inr (Some (adRevenueFact attempt))
      else if event = ''custom_event'' then Inr (Some (customEventFact attempt))
      else if event \<in> {''skan_postback'', ''adattributionkit_postback''} then Inr (Some (postbackFact logical attempt))
      else Inr None)"

definition factRow :: "logical_event \<Rightarrow> ledger_fact \<Rightarrow> ledger_row" where
  "factRow logical projected = FactRow \<lparr>fa_logical_event_id = le_logical_event_id logical, fa_tenant_id = le_tenant_id logical,
     fa_app_id = le_app_id logical, fa_fact = projected\<rparr>"

definition missingInputRecord :: "logical_event \<Rightarrow> js_error" where
  "missingInputRecord logical = JsError (''missing input record for logical event '' @ le_logical_event_id logical)"

definition projectionAttempt :: "attempt list \<Rightarrow> logical_event \<Rightarrow> attempt option" where
  "projectionAttempt values logical =
     List.find (\<lambda>attempt. tenant_id attempt = le_tenant_id logical \<and> app_id attempt = le_app_id logical \<and>
        record_id attempt = le_record_id logical) values"

definition persistProjection :: "refusal \<Rightarrow> attempt list \<Rightarrow> logical_event \<Rightarrow> ledger_db \<Rightarrow> ledger_db res" where
  "persistProjection refused values logical db =
     (case projectionAttempt values logical of
        None \<Rightarrow> Inl (missingInputRecord logical)
      | Some attempt \<Rightarrow>
          bindR (projectedFact db logical attempt) (\<lambda>projected.
            case projected of
              None \<Rightarrow> Inr db
            | Some p \<Rightarrow> insertRow refused (factRow logical p) db))"

section \<open>The rows of a batch\<close>

datatype bulk_target = BulkFallback | BulkAppend string ledger_fact | BulkSkip

definition bulkTarget :: "logical_event \<Rightarrow> attempt \<Rightarrow> bulk_target" where
  "bulkTarget logical attempt =
     (let payload = at_payload attempt; event = le_event_name logical; occurredAt = r_occurred_at (at_record attempt);
          campaignId = nullOr (p_campaign_id payload) (contextField payload ic_provider_campaign_ref);
          network = nullOr (p_network payload) (contextField payload ic_provider_network);
          country = nullOr (p_country payload) (contextField payload ic_provider_country) in
      if event = ''click'' then
        (if r_producer (at_record attempt) = ''redirector'' then BulkFallback
         else BulkAppend ''click'' (ClickFact \<lparr>
           cf_click_id = p_click_id payload, cf_redirector_click_at = p_redirector_click_at payload,
           cf_campaign_id = campaignId, cf_network = network, cf_country = country, cf_site_id = p_site_id payload,
           cf_remote_click_ref = p_remote_click_ref payload, cf_tracking_link_id = None,
           cf_artifact = JObj (definedText ''click_id'' (keepTruthy (p_click_id payload)) @
             [(''redirector_click_at'', textOrNull (p_redirector_click_at payload)),
              (''campaign_id'', textOrNull campaignId), (''network'', textOrNull network), (''country'', textOrNull country),
              (''site_id'', textOrNull (p_site_id payload)), (''remote_click_ref'', textOrNull (p_remote_click_ref payload)),
              (''tracking_link_id'', JNull), (''bot_prefetch'', JBool (p_bot_prefetch payload = Some True)),
              (''source_rate_class'', textOrNull (p_source_rate_class payload)),
              (''client_class'', textOrNull (p_client_class payload))])\<rparr>))
      else if event = ''install'' then BulkAppend ''install'' (InstallFact \<lparr>
        nf_installation_id = p_installation_id payload, nf_prior_installation_id = p_prior_installation_id payload,
        nf_install_type = p_install_type payload, nf_click_id = p_click_id payload,
        nf_install_begin_at_server = p_install_begin_at_server payload, nf_occurred_at = occurredAt,
        nf_campaign_id = campaignId, nf_network = network, nf_country = country,
        nf_artifact = JObj (definedText ''installation_id'' (p_installation_id payload) @
          [(''prior_installation_id'', textOrNull (p_prior_installation_id payload))] @
          definedText ''install_type'' (p_install_type payload) @
          [(''occurred_at'', JStr occurredAt), (''campaign_id'', textOrNull campaignId),
           (''network'', textOrNull network), (''country'', textOrNull country)])\<rparr>)
      else if event = ''session_start'' then BulkAppend ''session'' (SessionFact \<lparr>
        sf_installation_id = p_installation_id payload, sf_session_id = p_session_id payload, sf_occurred_at = occurredAt,
        sf_artifact = JObj (definedText ''installation_id'' (p_installation_id payload) @
          definedText ''session_id'' (p_session_id payload))\<rparr>)
      else if event = ''purchase'' then BulkAppend ''purchase'' (PurchaseFact \<lparr>
        uf_installation_id = p_installation_id payload, uf_transaction_id = p_transaction_id payload,
        uf_amount_unscaled = p_amount_unscaled payload, uf_amount_scale = p_amount_scale payload,
        uf_currency = p_currency payload, uf_occurred_at = occurredAt,
        uf_artifact = JObj ((''installation_id'', textOrNull (p_installation_id payload)) #
          definedText ''transaction_id'' (p_transaction_id payload) @
          definedText ''amount_unscaled'' (p_amount_unscaled payload) @
          definedInt ''amount_scale'' (p_amount_scale payload) @ definedText ''currency'' (p_currency payload))\<rparr>)
      else if event = ''ad_revenue'' then BulkAppend ''ad_revenue'' (AdRevenueFact \<lparr>
        vf_installation_id = p_installation_id payload, vf_anchor_source = p_anchor_source payload,
        vf_impression_id = p_impression_id payload, vf_ad_unit_id = p_ad_unit_id payload,
        vf_ad_network = p_ad_network payload, vf_amount_unscaled = p_amount_unscaled payload,
        vf_amount_scale = p_amount_scale payload, vf_currency = p_currency payload,
        vf_revenue_source = p_revenue_source payload, vf_country = p_country payload, vf_occurred_at = occurredAt,
        vf_artifact = JObj ((''installation_id'', textOrNull (p_installation_id payload)) #
          (''anchor_source'', textOrNull (p_anchor_source payload)) #
          (''impression_id'', textOrNull (p_impression_id payload)) #
          definedText ''amount_unscaled'' (p_amount_unscaled payload) @
          definedInt ''amount_scale'' (p_amount_scale payload) @ definedText ''currency'' (p_currency payload) @
          definedText ''revenue_source'' (p_revenue_source payload))\<rparr>)
      else if event = ''custom_event'' then BulkAppend ''custom_event'' (CustomEventFact \<lparr>
        ef_installation_id = p_installation_id payload, ef_event_key = p_event_key payload,
        ef_artifact = JObj (definedText ''installation_id'' (p_installation_id payload) @
          definedText ''event_key'' (p_event_key payload))\<rparr>)
      else if event \<in> {''skan_postback'', ''adattributionkit_postback''} then
        (let verified = (p_signature_verified payload = Some True); won = (p_did_win payload = Some True);
             present = (p_source_identifier payload \<noteq> None); receivedAt = r_received_at (at_record attempt);
             bucket = (if p_conversion_value payload \<noteq> None then map_option (\<lambda>v. ''fine:'' @ showInt v) (p_conversion_value payload)
                       else map_option (\<lambda>c. ''coarse:'' @ c) (p_coarse_conversion_value payload)) in
         BulkAppend ''apple_postback'' (PostbackFact \<lparr>
           bf_event_name = event, bf_signature_verified = verified, bf_did_win = won,
           bf_source_identifier_present = present, bf_conversion_bucket = bucket, bf_received_at = receivedAt,
           bf_artifact = JObj [(''event_name'', JStr event), (''signature_verified'', JBool verified), (''did_win'', JBool won),
             (''source_identifier_present'', JBool present), (''conversion_bucket'', textOrNull bucket),
             (''received_at'', JStr receivedAt)]\<rparr>))
      else if event = ''deep_link_open'' then BulkFallback
      else BulkSkip)"

text \<open>
  The attempts are looked up in a \<^verbatim>\<open>Map\<close> from tenant, app and record, joined with a zero
  character; of two attempts with one key the later one counts. The tables are listed in the
  order they first got a row.
\<close>

definition scopedRecordKey :: "string \<Rightarrow> string \<Rightarrow> string \<Rightarrow> string" where
  "scopedRecordKey tenantId appId recordId = joinWith [CHR 0x00] [tenantId, appId, recordId]"

definition bulkAttempt :: "attempt list \<Rightarrow> logical_event \<Rightarrow> attempt option" where
  "bulkAttempt values logical =
     map_of (rev (map (\<lambda>attempt. (scopedRecordKey (tenant_id attempt) (app_id attempt) (record_id attempt), attempt)) values))
       (scopedRecordKey (le_tenant_id logical) (le_app_id logical) (le_record_id logical))"

record bulk_projections =
  bp_byTable :: "(string \<times> ledger_row list) list"
  bp_fallback :: "logical_event list"

definition appendProjection :: "string \<Rightarrow> ledger_row \<Rightarrow> bulk_projections \<Rightarrow> bulk_projections" where
  "appendProjection table row p =
     p\<lparr>bp_byTable := AList.update table (orElse (map_of (bp_byTable p) table) [] @ [row]) (bp_byTable p)\<rparr>"

definition bulkProjectionStep :: "attempt list \<Rightarrow> bulk_projections \<Rightarrow> logical_event \<Rightarrow> bulk_projections res" where
  "bulkProjectionStep values p logical =
     (case bulkAttempt values logical of
        None \<Rightarrow> Inl (missingInputRecord logical)
      | Some attempt \<Rightarrow>
          (case bulkTarget logical attempt of
             BulkFallback \<Rightarrow> Inr (p\<lparr>bp_fallback := bp_fallback p @ [logical]\<rparr>)
           | BulkAppend table projected \<Rightarrow> Inr (appendProjection table (factRow logical projected) p)
           | BulkSkip \<Rightarrow> Inr p))"

definition bulkProjectionRows :: "attempt list \<Rightarrow> logical_event list \<Rightarrow> bulk_projections res" where
  "bulkProjectionRows values logicals =
     foldR (bulkProjectionStep values) \<lparr>bp_byTable = [], bp_fallback = []\<rparr> logicals"

section \<open>The two projections agree\<close>

lemma factConversionBucket_bulk:
  "factConversionBucket payload =
     (if p_conversion_value payload \<noteq> None then map_option (\<lambda>v. ''fine:'' @ showInt v) (p_conversion_value payload)
      else map_option (\<lambda>c. ''coarse:'' @ c) (p_coarse_conversion_value payload))"
  by (cases "p_conversion_value payload"; cases "p_coarse_conversion_value payload") (simp_all add: factConversionBucket_def)

lemmas fact_defs = clickFact_def installFact_def sessionFact_def purchaseFact_def adRevenueFact_def customEventFact_def
  postbackFact_def factCampaign_def factNetwork_def factCountry_def factConversionBucket_bulk

end
