(* ===== verification/RuntimeIngest.thy ===== *)
theory RuntimeIngest
  imports Projections
begin

text \<open>
  \<^verbatim>\<open>ingestRuntimeBatch\<close>: a batch of attempts is bound to the fraud bundle of its app, checked
  against the event schemas, evaluated together with the history, and what belongs to the
  batch is written, row by row or in bulk. The validator of the schemas, the digest, the
  identifiers of deliveries and the refusals of the database are parameters.
\<close>

section \<open>Parameters and results\<close>

text \<open>\<open>ie_validate event payload\<close> gives the invalid fields when the payload is not valid.\<close>

record ingest_env =
  ie_H :: digest
  ie_validate :: "string \<Rightarrow> payload \<Rightarrow> string list option"
  ie_refused :: refusal
  ie_deliveryAttemptId :: "nat \<Rightarrow> string"

record validation_failure =
  vl_record_id :: string
  vl_delivery_id :: string
  vl_fields :: "string list"

record ingestion_result =
  ir_raw_records :: "raw_record list"
  ir_deliveries :: "delivery list"
  ir_logical_events :: "logical_event list"
  ir_rejections :: "rejection list"
  ir_attributions :: "attribution list"
  ir_fraud_decisions :: "fraud_decision list"
  ir_reconciliation :: "reconciliation list"
  ir_validation_failures :: "validation_failure list"

definition emptyResult :: ingestion_result where
  "emptyResult = \<lparr>ir_raw_records = [], ir_deliveries = [], ir_logical_events = [], ir_rejections = [],
     ir_attributions = [], ir_fraud_decisions = [], ir_reconciliation = [], ir_validation_failures = []\<rparr>"

definition appendResult :: "ingestion_result \<Rightarrow> ingestion_result \<Rightarrow> ingestion_result" where
  "appendResult a b = \<lparr>
     ir_raw_records = ir_raw_records a @ ir_raw_records b,
     ir_deliveries = ir_deliveries a @ ir_deliveries b,
     ir_logical_events = ir_logical_events a @ ir_logical_events b,
     ir_rejections = ir_rejections a @ ir_rejections b,
     ir_attributions = ir_attributions a @ ir_attributions b,
     ir_fraud_decisions = ir_fraud_decisions a @ ir_fraud_decisions b,
     ir_reconciliation = ir_reconciliation a @ ir_reconciliation b,
     ir_validation_failures = ir_validation_failures a @ ir_validation_failures b\<rparr>"

section \<open>Attempts the schema refuses\<close>

definition schemaConsentReason :: "attempt \<Rightarrow> consent_reason" where
  "schemaConsentReason attempt =
     (let record = at_record attempt; server = at_server attempt;
          purpose = List.find (\<lambda>entry. Some (pp_processing_purpose_id entry) = r_processing_purpose_id record) (s_processing_purposes server);
          withdrawal = List.find (\<lambda>entry. Some (w_processing_purpose_id entry) = r_processing_purpose_id record) (s_withdrawals server) in
      if \<not> (case purpose of Some p \<Rightarrow> pp_consent_required p | None \<Rightarrow> False) then ConsentNotRequired
      else if (case withdrawal of None \<Rightarrow> True
               | Some w \<Rightarrow> r_processing_sequence record < w_withdrawal_recognized_sequence w) then ConsentValidBeforeWithdrawal
      else ConsentWithdrawn)"

definition schemaPolicyVersion :: "attempt \<Rightarrow> string" where
  "schemaPolicyVersion attempt =
     (case List.find (\<lambda>entry. Some (pp_processing_purpose_id entry) = r_processing_purpose_id (at_record attempt))
             (s_processing_purposes (at_server attempt)) of
        Some purpose \<Rightarrow> pp_policy_version purpose
      | None \<Rightarrow> ''not-applicable'')"

definition schemaWithdrawnAt :: "attempt \<Rightarrow> string option" where
  "schemaWithdrawnAt attempt =
     keepTruthy (map_option w_withdrawal_recognized_at
       (List.find (\<lambda>entry. Some (w_processing_purpose_id entry) = r_processing_purpose_id (at_record attempt))
          (s_withdrawals (at_server attempt))))"

definition invalidDelivery :: "attempt \<Rightarrow> delivery" where
  "invalidDelivery attempt =
     (let record = at_record attempt in \<lparr>
        dl_contract_version = CONTRACT_VERSION,
        dl_delivery_id = r_delivery_id record,
        dl_record_id = r_record_id record,
        dl_canonical_record_id = None,
        dl_tenant_id = tenant_id attempt,
        dl_app_id = app_id attempt,
        dl_received_at = r_received_at record,
        dl_ingestion_status = Rejected,
        dl_duplicate_resolution = UniqueDelivery,
        dl_timeliness = (if r_late record = Some True then Late else OnTime),
        dl_clock_skew_suspected = False,
        dl_payload_disposition = DiscardedPayload,
        dl_processing_purpose_id = keepTruthy (r_processing_purpose_id record),
        dl_consent_evaluation_policy_version = schemaPolicyVersion attempt,
        dl_consent_decision_reason_code = schemaConsentReason attempt,
        dl_withdrawal_recognized_at = schemaWithdrawnAt attempt,
        dl_alternative_legal_basis_id = None,
        dl_alternative_legal_basis_policy_version = None,
        dl_reason_code = Some PayloadSchemaInvalid,
        dl_staleness_policy_version = None,
        dl_staleness_policy_digest = None,
        dl_staleness_authority = None\<rparr>)"

definition invalidRejection :: "attempt \<Rightarrow> rejection" where
  "invalidRejection attempt =
     (let record = at_record attempt in \<lparr>
        rj_contract_version = CONTRACT_VERSION,
        rj_delivery_id = r_delivery_id record,
        rj_record_id = r_record_id record,
        rj_tenant_id = tenant_id attempt,
        rj_app_id = app_id attempt,
        rj_reason_code = Some PayloadSchemaInvalid,
        rj_reason_code_version = CONTRACT_VERSION,
        rj_payload_disposition = DiscardedPayload,
        rj_retained = NonIdentifyingMetadata,
        rj_processing_purpose_id = keepTruthy (r_processing_purpose_id record),
        rj_consent_evaluation_policy_version = schemaPolicyVersion attempt,
        rj_consent_decision_reason_code = schemaConsentReason attempt,
        rj_withdrawal_recognized_at = schemaWithdrawnAt attempt,
        rj_staleness_policy_version = None,
        rj_staleness_policy_digest = None,
        rj_staleness_authority = None\<rparr>)"

record invalid_artifacts =
  ia_delivery :: delivery
  ia_rejection :: rejection
  ia_failure :: validation_failure

definition schemaInvalidArtifacts :: "ingest_env \<Rightarrow> attempt \<Rightarrow> invalid_artifacts option" where
  "schemaInvalidArtifacts env attempt =
     (case ie_validate env (event_name attempt) (at_payload attempt) of
        None \<Rightarrow> None
      | Some invalidFields \<Rightarrow> Some \<lparr>
          ia_delivery = invalidDelivery attempt,
          ia_rejection = invalidRejection attempt,
          ia_failure = \<lparr>vl_record_id = record_id attempt, vl_delivery_id = r_delivery_id (at_record attempt),
                        vl_fields = invalidFields\<rparr>\<rparr>)"

section \<open>The input of the evaluation\<close>

definition runtimeBatch :: "nat \<Rightarrow> attempt \<Rightarrow> batch" where
  "runtimeBatch index attempt = \<lparr>
     b_batch_id = (if at_batch_id attempt = [] then ''runtime-batch-'' @ showNat index else at_batch_id attempt),
     b_server_context = at_server attempt,
     b_records = [at_record attempt]\<rparr>"

definition runtimeInput :: "attempt list \<Rightarrow> evaluation_input" where
  "runtimeInput values = \<lparr>
     in_batches = Some (map (\<lambda>p. runtimeBatch (fst p) (snd p)) (enumerate 0 values)),
     in_single = None,
     in_fx_policy = \<lparr>fp_policy_version = ''runtime-no-fx-v0.2'', fp_target_currency = ''USD'', fp_target_scale = 6,
       fp_rounding_mode = ''half_even'', fp_rates = []\<rparr>,
     in_cost_records = [],
     in_source_day_aggregates = [],
     in_metric_definitions = [],
     in_metric_evaluations = [],
     in_reconciliation_inputs = [],
     in_privacy_requests = [],
     in_correction_inputs = [],
     in_pre_ingestion_rejections = [],
     in_retention_expirations = []\<rparr>"

definition inputAttempts :: "evaluation_input \<Rightarrow> attempt list" where
  "inputAttempts input =
     (case in_batches input of
        Some batches \<Rightarrow> concat (map (\<lambda>b. map (\<lambda>record.
          \<lparr>at_server = b_server_context b, at_record = record, at_batch_id = b_batch_id b\<rparr>) (b_records b)) batches)
      | None \<Rightarrow> (case in_single input of
          None \<Rightarrow> []
        | Some (server, records) \<Rightarrow>
            map (\<lambda>record. \<lparr>at_server = server, at_record = record, at_batch_id = ''batch-default''\<rparr>) records))"

text \<open>The policy digest of a stored record is that of the first attempt with its identifier.\<close>

definition policyDigestForRecord :: "evaluation_input \<Rightarrow> string \<Rightarrow> string res" where
  "policyDigestForRecord input recordId =
     (case List.find (\<lambda>attempt. record_id attempt = recordId) (inputAttempts input) of
        Some attempt \<Rightarrow> Inr (s_policy_digest (at_server attempt))
      | None \<Rightarrow> Inl (JsError (''missing server policy digest for '' @ recordId)))"

text \<open>
  The app of every attempt exists before its rows are written. A scope is registered once,
  with the time the first context of the input was received.
\<close>

definition defaultTimestamp :: "evaluation_input \<Rightarrow> string" where
  "defaultTimestamp input =
     (case in_single input of
        Some (server, records) \<Rightarrow> s_received_at server
      | None \<Rightarrow> (case in_batches input of
          Some (b # bs) \<Rightarrow> s_received_at (b_server_context b)
        | _ \<Rightarrow> ''2026-08-19T00:00:00.000Z''))"

definition scopeText :: "attempt \<Rightarrow> string" where
  "scopeText attempt = joinWith [CHR 0x00] [tenant_id attempt, app_id attempt]"

text \<open>\<^verbatim>\<open>const [tenantId, appId] = scope.split("\u0000")\<close>\<close>

definition scopePair :: "string \<Rightarrow> string \<times> string" where
  "scopePair scope = (case splitOn (CHR 0x00) scope of tenantId # appId # _ \<Rightarrow> (tenantId, appId) | _ \<Rightarrow> (scope, []))"

definition ensureApps :: "refusal \<Rightarrow> evaluation_input \<Rightarrow> ledger_db \<Rightarrow> unit res \<times> ledger_db" where
  "ensureApps refused input =
     forEachTx (\<lambda>scope. withTenantTx (insertRow refused (AppRow (fst (snd scope)) (snd (snd scope)) (defaultTimestamp input))))
       (mapFromPairs (map (\<lambda>attempt. (scopeText attempt, (tenant_id attempt, app_id attempt))) (inputAttempts input)))"

section \<open>Binding the fraud bundle\<close>

definition serverBundleContext :: "active_revision \<Rightarrow> bundle_context" where
  "serverBundleContext revision = \<lparr>
     bc_rule_bundle_id = ar_ruleBundleId revision,
     bc_rule_bundle_version = ar_ruleBundleVersion revision,
     bc_rule_bundle_hash = ar_ruleBundleHash revision,
     bc_definition_digest = ar_definitionDigest revision,
     bc_definition = ar_definition revision\<rparr>"

definition bindAttempt :: "digest \<Rightarrow> active_revision option \<Rightarrow> attempt \<Rightarrow> attempt" where
  "bindAttempt H activeRevision attempt =
     (case (if s_fraud_enabled (at_server attempt) = Some False then None else activeRevision) of
        None \<Rightarrow> attempt\<lparr>at_server := (at_server attempt)\<lparr>s_fraud_enabled := Some False\<rparr>\<rparr>
      | Some revision \<Rightarrow>
          (let threshold = fraudNumberParameter (ar_definition revision) ''ctit_lower_bound_seconds'' (numN 10);
               version = ar_ruleBundleId revision @ '':'' @ ar_ruleBundleVersion revision in
           attempt\<lparr>at_server := (at_server attempt)\<lparr>
             s_fraud_enabled := Some True,
             s_fraud_rule_bundle := Some (serverBundleContext revision),
             s_click_injection_policy := Some \<lparr>cp_threshold_seconds = threshold, cp_authority = ''server'',
               cp_policy_version = version,
               cp_policy_digest = clickInjectionPolicyDigest H threshold ''server'' version\<rparr>\<rparr>\<rparr>))"

section \<open>Resolving deep links\<close>

text \<open>
  \<^verbatim>\<open>ORDER BY time DESC LIMIT 1\<close>: a missing time comes first, and of rows with one time the
  one stored first is taken.
\<close>

fun latestBy :: "('a \<Rightarrow> int option) \<Rightarrow> 'a list \<Rightarrow> 'a option" where
  "latestBy t [] = None"
| "latestBy t (x # xs) =
     (case latestBy t xs of
        None \<Rightarrow> Some x
      | Some y \<Rightarrow>
          (case (t x, t y) of
             (None, _) \<Rightarrow> Some x
           | (Some a, None) \<Rightarrow> Some y
           | (Some a, Some b) \<Rightarrow> if b \<le> a then Some x else Some y))"

definition clickFactRows :: "ledger_row list \<Rightarrow> (fact_row \<times> click_fact) list" where
  "clickFactRows rows = concat (map (\<lambda>row. case row of
     FactRow f \<Rightarrow> (case fa_fact f of ClickFact c \<Rightarrow> [(f, c)] | _ \<Rightarrow> []) | _ \<Rightarrow> []) rows)"

definition installFactRows :: "ledger_row list \<Rightarrow> (fact_row \<times> install_fact) list" where
  "installFactRows rows = concat (map (\<lambda>row. case row of
     FactRow f \<Rightarrow> (case fa_fact f of InstallFact i \<Rightarrow> [(f, i)] | _ \<Rightarrow> []) | _ \<Rightarrow> []) rows)"

definition currentLinks :: "ledger_db \<Rightarrow> attempt \<Rightarrow> link_row list" where
  "currentLinks db attempt =
     filter (\<lambda>l. lk_status l \<noteq> None \<and> lk_tenant_id l = tenant_id attempt \<and> lk_app_id l = app_id attempt) (db_links db)"

text \<open>The link of the click an install was deferred from, or the link with the slug of the open.\<close>

definition deferredLink :: "ledger_db \<Rightarrow> attempt \<Rightarrow> link_row option" where
  "deferredLink db attempt =
     map_option snd (latestBy (\<lambda>p. Option.bind (cf_redirector_click_at (fst p)) canonicalTime)
       (concat (map (\<lambda>(f, c).
          if fa_tenant_id f = tenant_id attempt \<and> fa_app_id f = app_id attempt \<and>
             cf_click_id c \<noteq> None \<and> cf_click_id c = p_click_id (at_payload attempt)
          then map (\<lambda>l. (c, l)) (filter (\<lambda>l. cf_tracking_link_id c = Some (lk_tracking_link_id l)) (currentLinks db attempt))
          else []) (clickFactRows (db_rows db)))))"

definition slugLink :: "ledger_db \<Rightarrow> attempt \<Rightarrow> link_row option" where
  "slugLink db attempt =
     List.find (\<lambda>l. p_link_slug (at_payload attempt) = Some (lk_slug l)) (currentLinks db attempt)"

definition installClickId :: "ledger_db \<Rightarrow> attempt \<Rightarrow> string option" where
  "installClickId db attempt =
     Option.bind (latestBy (\<lambda>i. canonicalTime (nf_occurred_at i))
       (concat (map (\<lambda>(f, i).
          if fa_tenant_id f = tenant_id attempt \<and> fa_app_id f = app_id attempt \<and>
             nf_installation_id i \<noteq> None \<and> nf_installation_id i = p_installation_id (at_payload attempt)
          then [i] else []) (installFactRows (db_rows db))))) nf_click_id"

definition deepLinkResolution :: "ledger_db \<Rightarrow> attempt \<Rightarrow> deep_link_resolution" where
  "deepLinkResolution db attempt =
     (let deferred = (p_open_source (at_payload attempt) = Some ''android_deferred_referrer'');
          installClick = (if deferred then keepTruthy (installClickId db attempt) else None) in
      case (if deferred then deferredLink db attempt else slugLink db attempt) of
        None \<Rightarrow> \<lparr>dr_status = ''unknown'', dr_tracking_link_id = None, dr_campaign_id = None,
                 dr_install_attribution_click_id = installClick\<rparr>
      | Some link \<Rightarrow> \<lparr>dr_status = (if lk_status link = Some ''active'' then ''active'' else ''inactive''),
                 dr_tracking_link_id = Some (lk_tracking_link_id link),
                 dr_campaign_id = keepTruthy (lk_campaign_id link),
                 dr_install_attribution_click_id = installClick\<rparr>)"

definition resolveDeepLinkAttempts :: "ledger_db \<Rightarrow> attempt list \<Rightarrow> attempt list" where
  "resolveDeepLinkAttempts db values =
     map (\<lambda>attempt.
       if event_name attempt \<noteq> ''deep_link_open'' then attempt
       else attempt\<lparr>at_server := (at_server attempt)\<lparr>s_deep_link_resolution := Some (deepLinkResolution db attempt)\<rparr>\<rparr>)
     values"

section \<open>What belongs to the batch\<close>

record ingestion_plan =
  pl_input :: evaluation_input
  pl_selected :: ingestion_result

definition deliveryKey :: "string \<Rightarrow> string \<Rightarrow> string" where
  "deliveryKey recordId deliveryId = joinWith [CHR 0x00] [recordId, deliveryId]"

definition attemptDeliveryKey :: "attempt \<Rightarrow> string" where
  "attemptDeliveryKey attempt = deliveryKey (record_id attempt) (r_delivery_id (at_record attempt))"

definition evidenceBelongs :: "string list \<Rightarrow> evidence_ref list \<Rightarrow> bool" where
  "evidenceBelongs recordIds refs = list_ex (\<lambda>reference. ev_ref reference \<in> set recordIds) refs"

text \<open>
  \<^verbatim>\<open>belongsToCurrent\<close> on each kind of artifact: raw records and deliveries have a record and a
  delivery, logical events a record, attributions a subject and evidence, fraud decisions
  a subject.
\<close>

definition selectCurrent :: "string list \<Rightarrow> string list \<Rightarrow> string \<Rightarrow> string \<Rightarrow> invalid_artifacts list \<Rightarrow> evaluation_output \<Rightarrow> ingestion_result" where
  "selectCurrent recordIds deliveryIds tenantId appId invalid out = \<lparr>
     ir_raw_records = filter (\<lambda>r. rr_record_id r \<in> set recordIds \<or> rr_delivery_id r \<in> set deliveryIds) (o_raw_records out),
     ir_deliveries = filter (\<lambda>d. dl_record_id d \<in> set recordIds \<or> dl_delivery_id d \<in> set deliveryIds) (o_deliveries out) @
       map ia_delivery invalid,
     ir_logical_events = filter (\<lambda>e. le_record_id e \<in> set recordIds) (o_logical_events out),
     ir_rejections = filter (\<lambda>r. rj_record_id r \<in> set recordIds \<or> rj_delivery_id r \<in> set deliveryIds) (o_rejections out) @
       map ia_rejection invalid,
     ir_attributions = filter (\<lambda>a. (case a_subject_ref a of Some s \<Rightarrow> s \<in> set recordIds | None \<Rightarrow> False) \<or>
       evidenceBelongs recordIds (a_evidence_refs a)) (o_attributions out),
     ir_fraud_decisions = filter (\<lambda>f. f_subject_ref f \<in> set recordIds) (o_fraud_decisions out),
     ir_reconciliation = filter (\<lambda>r. rs_tenant_id r = tenantId \<and> rs_app_id r = appId) (o_reconciliation out),
     ir_validation_failures = map ia_failure invalid\<rparr>"

definition planIngestion ::
  "ingest_env \<Rightarrow> active_revision option \<Rightarrow> ledger_db \<Rightarrow> attempt list \<Rightarrow> attempt list \<Rightarrow> ingestion_plan res" where
  "planIngestion env activeRevision db values historical =
     (let H = ie_H env;
          boundAttempts = map (bindAttempt H activeRevision) values;
          boundHistory = map (bindAttempt H activeRevision) historical;
          invalid = List.map_filter (schemaInvalidArtifacts env) boundAttempts;
          invalidAttempts = map (\<lambda>i. deliveryKey (vl_record_id (ia_failure i)) (vl_delivery_id (ia_failure i))) invalid;
          validAttempts = filter (\<lambda>attempt. attemptDeliveryKey attempt \<notin> set invalidAttempts) boundAttempts;
          validHistory = filter (\<lambda>attempt. schemaInvalidArtifacts env attempt = None) boundHistory;
          allAttempts = sortCandidateAttempts H (resolveDeepLinkAttempts db (validHistory @ validAttempts));
          input = runtimeInput allAttempts in
      bindR (evaluate H createIndexedCandidateProvider input) (\<lambda>out.
        Inr \<lparr>pl_input = input,
             pl_selected = selectCurrent (map (\<lambda>a. record_id a) validAttempts)
               (map (\<lambda>a. r_delivery_id (at_record a)) validAttempts)
               (tenant_id (hd values)) (app_id (hd values)) invalid out\<rparr>))"

section \<open>Writing row by row\<close>

definition availableState :: "raw_record \<Rightarrow> ledger_row" where
  "availableState raw = PayloadStateRow \<lparr>ps_tenant_id = rr_tenant_id raw, ps_app_id = rr_app_id raw,
     ps_record_id = rr_record_id raw, ps_lifecycle_status = Available, ps_changed_at = rr_received_at raw\<rparr>"

definition persistRaw :: "ingest_env \<Rightarrow> string \<Rightarrow> evaluation_input \<Rightarrow> raw_record \<Rightarrow> ledger_db \<Rightarrow> ledger_db res" where
  "persistRaw env tenantId input raw db =
     bindR (policyDigestForRecord input (rr_record_id raw)) (\<lambda>policyDigest.
     bindR (storedArtifact (ie_refused env) tenantId (RawRow policyDigest raw) db)
       (insertRow (ie_refused env) (availableState raw)))"

definition persistDelivery :: "ingest_env \<Rightarrow> delivery \<Rightarrow> ledger_db \<Rightarrow> ledger_db res" where
  "persistDelivery env delivery db =
     insertRow (ie_refused env) (DeliveryRow (ie_deliveryAttemptId env (length (db_rows db))) delivery) db"

definition persistLogical :: "ingest_env \<Rightarrow> string \<Rightarrow> evaluation_input \<Rightarrow> logical_event \<Rightarrow> ledger_db \<Rightarrow> ledger_db res" where
  "persistLogical env tenantId input logical db =
     bindR (storedArtifact (ie_refused env) tenantId (LogicalRow logical) db)
       (persistProjection (ie_refused env) (inputAttempts input) logical)"

definition ifSome :: "'a option \<Rightarrow> ('a \<Rightarrow> ledger_db \<Rightarrow> ledger_db res) \<Rightarrow> ledger_db \<Rightarrow> ledger_db res" where
  "ifSome v f db = (case v of None \<Rightarrow> Inr db | Some a \<Rightarrow> f a db)"

text \<open>A \<^verbatim>\<open>Map\<close> built from a list keeps the last entry of a key.\<close>

definition lastWith :: "('a \<Rightarrow> string) \<Rightarrow> 'a list \<Rightarrow> string \<Rightarrow> 'a option" where
  "lastWith key xs k = List.find (\<lambda>x. key x = k) (rev xs)"

definition persistAttempt :: "ingest_env \<Rightarrow> ingestion_plan \<Rightarrow> attempt \<Rightarrow> ledger_db \<Rightarrow> ledger_db res" where
  "persistAttempt env plan attempt db =
     (let selected = pl_selected plan; input = pl_input plan;
          raw = lastWith rr_record_id (ir_raw_records selected) (record_id attempt);
          delivery = lastWith (\<lambda>d. deliveryKey (dl_record_id d) (dl_delivery_id d)) (ir_deliveries selected) (attemptDeliveryKey attempt);
          logical = lastWith le_record_id (ir_logical_events selected) (record_id attempt);
          rejection = lastWith (\<lambda>r. deliveryKey (rj_record_id r) (rj_delivery_id r)) (ir_rejections selected) (attemptDeliveryKey attempt) in
      bindR (ifSome raw (persistRaw env (tenant_id attempt) input) db) (\<lambda>db1.
      bindR (ifSome delivery (persistDelivery env) db1) (\<lambda>db2.
      bindR (ifSome logical (persistLogical env (tenant_id attempt) input) db2) (\<lambda>db3.
        ifSome rejection (\<lambda>r. insertRow (ie_refused env) (RejectionRow r)) db3))))"

definition persistAttribution :: "ingest_env \<Rightarrow> attribution \<Rightarrow> ledger_db \<Rightarrow> ledger_db res" where
  "persistAttribution env a db = storedArtifact (ie_refused env) (a_tenant_id a) (AttributionRow a) db"

definition persistReconciliation :: "ingest_env \<Rightarrow> reconciliation \<Rightarrow> ledger_db \<Rightarrow> ledger_db res" where
  "persistReconciliation env r db = storedArtifact (ie_refused env) (rs_tenant_id r) (ReconciliationRow r) db"

section \<open>Fraud decisions\<close>

definition boundRevisions :: "ledger_db \<Rightarrow> string \<times> string \<Rightarrow> string option \<Rightarrow> fraud_decision \<Rightarrow> revision_row list" where
  "boundRevisions db scope expectedRevisionId fraud =
     filter (\<lambda>r. br_tenant_id r = fst scope \<and> br_app_id r = snd scope \<and>
        (expectedRevisionId = None \<or> expectedRevisionId = Some (br_rule_bundle_revision_id r)) \<and>
        br_rule_bundle_id r = f_rule_bundle_id fraud \<and> br_rule_bundle_version r = f_rule_bundle_version fraud \<and>
        br_rule_bundle_hash r = f_rule_bundle_hash fraud) (db_revisions db)"

definition assertBoundDefinition :: "digest \<Rightarrow> revision_row \<Rightarrow> unit res" where
  "assertBoundDefinition H revision =
     (let mismatch = JsError ''fraud_rule_bundle_definition_mismatch'' in
      case (br_definition revision, keepTruthy (br_definition_digest revision)) of
        (Some bundle, Some stored) \<Rightarrow>
          if H (HFraudBundle bundle) \<noteq> stored then Inl mismatch
          else bindR (fraudBundleHash H bundle) (\<lambda>hash. throwIf (hash \<noteq> br_rule_bundle_hash revision) mismatch)
      | _ \<Rightarrow> Inl mismatch)"

definition fraudRow :: "string \<times> string \<Rightarrow> fraud_decision \<Rightarrow> ledger_row" where
  "fraudRow scope fraud = FraudRow \<lparr>fw_tenant_id = fst scope, fw_app_id = snd scope, fw_supersedes = None, fw_artifact = fraud\<rparr>"

definition quarantineRow :: "string \<times> string \<Rightarrow> fraud_decision \<Rightarrow> ledger_row" where
  "quarantineRow scope fraud = QuarantineRow \<lparr>qr_fraud_decision_id = f_fraud_decision_id fraud, qr_tenant_id = fst scope,
     qr_app_id = snd scope, qr_subject_ref = f_subject_ref fraud, qr_resolve_after = f_resolution_deadline_at fraud\<rparr>"

definition persistFraud ::
  "ingest_env \<Rightarrow> fraud_decision \<Rightarrow> string \<times> string \<Rightarrow> string option \<Rightarrow> ledger_db \<Rightarrow> ledger_db res" where
  "persistFraud env fraud scope expectedRevisionId db =
     (case boundRevisions db scope expectedRevisionId fraud of
        [revision] \<Rightarrow>
          bindR (assertBoundDefinition (ie_H env) revision) (\<lambda>_.
          bindR (storedArtifact (ie_refused env) (fst scope) (fraudRow scope fraud) db) (\<lambda>db'.
            if f_action fraud = Quarantine then insertRow (ie_refused env) (quarantineRow scope fraud) db' else Inr db'))
      | _ \<Rightarrow> Inl (JsError ''fraud_rule_bundle_revision_mismatch''))"

text \<open>
  The scope of a decision is that of the attempts it concerns. The evidence of a decision
  names no record, so only the subject counts.
\<close>

definition fraudConcerns :: "fraud_decision \<Rightarrow> attempt \<Rightarrow> bool" where
  "fraudConcerns fraud attempt =
     (Some (f_subject_ref fraud) \<in> {Some (record_id attempt), Some (r_event_id (at_record attempt)),
        p_installation_id (at_payload attempt), p_click_id (at_payload attempt)})"

definition fraudScopes :: "fraud_decision \<Rightarrow> attempt list \<Rightarrow> (string \<times> string) list" where
  "fraudScopes fraud values =
     map snd (mapFromPairs (map (\<lambda>attempt. (scopeText attempt, (tenant_id attempt, app_id attempt)))
       (filter (fraudConcerns fraud) values)))"

definition persistFraudDecision ::
  "ingest_env \<Rightarrow> active_revision option \<Rightarrow> attempt list \<Rightarrow> fraud_decision \<Rightarrow> ledger_db \<Rightarrow> unit res \<times> ledger_db" where
  "persistFraudDecision env activeRevision values fraud db =
     (case fraudScopes fraud values of
        [scope] \<Rightarrow> withTenantTx (persistFraud env fraud scope (map_option ar_ruleBundleRevisionId activeRevision)) db
      | _ \<Rightarrow> (Inl (JsError (''fraud_scope_ambiguous:'' @ f_fraud_decision_id fraud)), db))"

definition persistSequential ::
  "ingest_env \<Rightarrow> active_revision option \<Rightarrow> attempt list \<Rightarrow> ingestion_plan \<Rightarrow> ledger_db \<Rightarrow> unit res \<times> ledger_db" where
  "persistSequential env activeRevision values plan db =
     (let selected = pl_selected plan in
      thenDo (forEachTx (\<lambda>attempt. withTenantTx (persistAttempt env plan attempt)) values db) (\<lambda>_ db1.
      thenDo (forEachTx (\<lambda>a. withTenantTx (persistAttribution env a)) (ir_attributions selected) db1) (\<lambda>_ db2.
      thenDo (forEachTx (persistFraudDecision env activeRevision values) (ir_fraud_decisions selected) db2) (\<lambda>_.
        forEachTx (\<lambda>r. withTenantTx (persistReconciliation env r)) (ir_reconciliation selected)))))"

section \<open>Writing in bulk\<close>

definition bulkRawRows :: "evaluation_input \<Rightarrow> raw_record list \<Rightarrow> ledger_row list res" where
  "bulkRawRows input raws =
     mapR (\<lambda>raw. bindR (policyDigestForRecord input (rr_record_id raw)) (\<lambda>digest. Inr (RawRow digest raw))) raws"

definition bulkDeliveryRows :: "ingest_env \<Rightarrow> ledger_db \<Rightarrow> delivery list \<Rightarrow> ledger_row list" where
  "bulkDeliveryRows env db deliveries =
     map (\<lambda>p. DeliveryRow (ie_deliveryAttemptId env (length (db_rows db) + fst p)) (snd p)) (enumerate 0 deliveries)"

definition bulkFraud :: "ingest_env \<Rightarrow> active_revision option \<Rightarrow> string \<times> string \<Rightarrow> fraud_decision list \<Rightarrow> ledger_db \<Rightarrow> ledger_db res" where
  "bulkFraud env activeRevision scope frauds db =
     (if frauds = [] then Inr db
      else (case activeRevision of
        None \<Rightarrow> Inl (JsError ''fraud_rule_bundle_revision_mismatch'')
      | Some revision \<Rightarrow>
          bindR (forR (\<lambda>f. throwIf (f_rule_bundle_id f \<noteq> ar_ruleBundleId revision \<or>
                    f_rule_bundle_version f \<noteq> ar_ruleBundleVersion revision \<or> f_rule_bundle_hash f \<noteq> ar_ruleBundleHash revision)
                  (JsError ''fraud_rule_bundle_revision_mismatch'')) frauds) (\<lambda>_.
          bindR (insertJsonRows (ie_refused env) (map (fraudRow scope) frauds) db)
            (insertJsonRows (ie_refused env) (map (quarantineRow scope) (filter (\<lambda>f. f_action f = Quarantine) frauds))))))"

definition persistBulk ::
  "ingest_env \<Rightarrow> active_revision option \<Rightarrow> attempt list \<Rightarrow> ingestion_plan \<Rightarrow> ledger_db \<Rightarrow> unit res \<times> ledger_db" where
  "persistBulk env activeRevision values plan db =
     (let selected = pl_selected plan; input = pl_input plan; refused = ie_refused env;
          scope = (tenant_id (hd values), app_id (hd values)) in
      case bindR (bulkRawRows input (ir_raw_records selected)) (\<lambda>rawRows.
           bindR (bulkProjectionRows (inputAttempts input) (ir_logical_events selected)) (\<lambda>projections.
             Inr (rawRows, projections))) of
        Inl e \<Rightarrow> (Inl e, db)
      | Inr (rawRows, projections) \<Rightarrow>
          withTenantTx (\<lambda>db0.
            bindR (insertJsonRows refused rawRows db0) (\<lambda>db1.
            bindR (insertJsonRows refused (map availableState (ir_raw_records selected)) db1) (\<lambda>db2.
            bindR (insertJsonRows refused (bulkDeliveryRows env db2 (ir_deliveries selected)) db2) (\<lambda>db3.
            bindR (insertJsonRows refused (map LogicalRow (ir_logical_events selected)) db3) (\<lambda>db4.
            bindR (foldR (\<lambda>d table. insertJsonRows refused (snd table) d) db4 (bp_byTable projections)) (\<lambda>db5.
            bindR (foldR (\<lambda>d logical. persistProjection refused (inputAttempts input) logical d) db5 (bp_fallback projections)) (\<lambda>db6.
            bindR (insertJsonRows refused (map RejectionRow (ir_rejections selected)) db6) (\<lambda>db7.
            bindR (insertJsonRows refused (map AttributionRow (ir_attributions selected)) db7) (\<lambda>db8.
            bindR (bulkFraud env activeRevision scope (ir_fraud_decisions selected) db8)
              (insertJsonRows refused (map ReconciliationRow (ir_reconciliation selected))))))))))) ) db)"

section \<open>A batch\<close>

definition ingestScope ::
  "ingest_env \<Rightarrow> bool \<Rightarrow> attempt list \<Rightarrow> attempt list \<Rightarrow> ledger_db \<Rightarrow> ingestion_result res \<times> ledger_db" where
  "ingestScope env bulkPersistence values historical db =
     (if values = [] then (Inr emptyResult, db)
      else thenDo (ensureApps (ie_refused env) (runtimeInput values) db) (\<lambda>_ db1.
        case case_prod (resolveActiveFraudBundle (ie_H env) (db_revisions db1)) (scopePair (scopeText (hd values))) of
          Inl e \<Rightarrow> (Inl e, db1)
        | Inr activeRevision \<Rightarrow>
            (case planIngestion env activeRevision db1 values historical of
               Inl e \<Rightarrow> (Inl e, db1)
             | Inr plan \<Rightarrow>
                 thenDo ((if bulkPersistence then persistBulk else persistSequential) env activeRevision values plan db1)
                   (\<lambda>_ db2. (Inr (pl_selected plan), db2)))))"

text \<open>
  The scopes of a batch in the order of their texts. A scope is split at the zero character
  before its attempts are selected; the attempts selected are of one scope, so the source's
  recursive call is \<open>ingestScope\<close>.
\<close>

definition batchScopes :: "attempt list \<Rightarrow> string list" where
  "batchScopes values = remdups (map scopeText values)"

definition inScope :: "string \<Rightarrow> attempt \<Rightarrow> bool" where
  "inScope scope attempt = ((tenant_id attempt, app_id attempt) = scopePair scope)"

fun ingestScopes ::
  "ingest_env \<Rightarrow> bool \<Rightarrow> attempt list \<Rightarrow> attempt list \<Rightarrow> string list \<Rightarrow> ingestion_result \<Rightarrow> ledger_db \<Rightarrow>
     ingestion_result res \<times> ledger_db" where
  "ingestScopes env bulk values historical [] combined db = (Inr combined, db)"
| "ingestScopes env bulk values historical (scope # scopes) combined db =
     thenDo (ingestScope env bulk (filter (inScope scope) values) (filter (inScope scope) historical) db)
       (\<lambda>result. ingestScopes env bulk values historical scopes (appendResult combined result))"

definition ingestRuntimeBatch ::
  "ingest_env \<Rightarrow> bool \<Rightarrow> attempt list \<Rightarrow> attempt list \<Rightarrow> ledger_db \<Rightarrow> ingestion_result res \<times> ledger_db" where
  "ingestRuntimeBatch env bulk values historical db =
     (let scopes = batchScopes values in
      if length scopes > 1 then ingestScopes env bulk values historical (js_sort compareText scopes) emptyResult db
      else ingestScope env bulk values historical db)"

end
