(* ===== verification/LedgerLaws.thy ===== *)
theory LedgerLaws
  imports RuntimeIngest
begin

text \<open>
  What every write of the ingestion worker keeps: rows are only added, never changed or
  removed, no key is stored twice, and the ledger behaves as the store of \<open>writeOnce\<close>. The
  locale \<open>tenant_writer\<close> states it once for a statement on one item; its lemmas carry it to
  transactions, loops of transactions and folds, and each statement of the worker is an
  interpretation.
\<close>

section \<open>Inserting a row\<close>

lemma conflicting_simps [simp]: "\<not> conflicting [] row"
  by (simp add: conflicting_def)

lemma conflicting_iff: "conflicting rows row \<longleftrightarrow> rowKey row \<noteq> None \<and> rowKey row \<in> rowKey ` set rows"
  by (auto simp: conflicting_def list_ex_iff image_iff) (metis image_eqI)

lemma insertRow_Inr:
  "insertRow refused row db = Inr db' \<longleftrightarrow>
     refused (db_rows db) row = None \<and>
     db' = (if conflicting (db_rows db) row then db else db\<lparr>db_rows := db_rows db @ [row]\<rparr>)"
  by (auto simp: insertRow_def split: option.splits)

lemma distinctKeys_snoc:
  "distinctKeys rows \<Longrightarrow> \<not> conflicting rows row \<Longrightarrow> distinctKeys (rows @ [row])"
  by (auto simp: distinctKeys_def conflicting_iff)

lemma keyedRow_append: "keyedRow (rows @ added) key = (case keyedRow rows key of None \<Rightarrow> keyedRow added key | Some row \<Rightarrow> Some row)"
  by (induction rows) (auto simp: keyedRow_def)

lemma keyedRow_None_iff: "keyedRow rows key = None \<longleftrightarrow> Some key \<notin> rowKey ` set rows"
  by (auto simp: keyedRow_def find_None_iff_all image_iff)

lemma singleton_key: "keyedRow [row] key = (if rowKey row = Some key then Some row else None)"
  by (simp add: keyedRow_def)

text \<open>Appending rows is writing them one after another to the abstract store.\<close>

lemma writeOnce_snoc: "ledgerAbs (rows @ [row]) = writeOnce row (ledgerAbs rows)"
proof (cases "rowKey row")
  case None
  have "keyedRow (rows @ [row]) = keyedRow rows"
  proof (rule ext)
    fix key
    show "keyedRow (rows @ [row]) key = keyedRow rows key"
      using None by (simp add: keyedRow_append singleton_key split: option.splits)
  qed
  with None show ?thesis by (simp add: ledgerAbs_def writeOnce_def unkeyedRows_def)
next
  case (Some key)
  have "keyedRow (rows @ [row]) = (if keyedRow rows key = None then (keyedRow rows)(key \<mapsto> row) else keyedRow rows)"
    by (rule ext) (auto simp: keyedRow_append singleton_key Some split: option.splits)
  with Some show ?thesis by (simp add: ledgerAbs_def writeOnce_def unkeyedRows_def)
qed

lemma ledgerAbs_append: "ledgerAbs (rows @ added) = fold writeOnce added (ledgerAbs rows)"
proof (induction added rule: rev_induct)
  case Nil
  then show ?case by simp
next
  case (snoc row added)
  have "ledgerAbs (rows @ added @ [row]) = writeOnce row (ledgerAbs (rows @ added))"
    using writeOnce_snoc[of "rows @ added" row] by simp
  with snoc show ?case by simp
qed

text \<open>A statement that meets a conflict changes nothing, as the abstract store does.\<close>

lemma insertRow_refines:
  assumes "insertRow refused row db = Inr db'"
  shows "ledgerAbs (db_rows db') = writeOnce row (ledgerAbs (db_rows db))"
proof (cases "conflicting (db_rows db) row")
  case True
  then obtain key where key: "rowKey row = Some key" by (auto simp: conflicting_iff)
  with True have "keyedRow (db_rows db) key \<noteq> None" by (simp add: conflicting_iff keyedRow_None_iff)
  with key assms True show ?thesis by (auto simp: insertRow_Inr ledgerAbs_def writeOnce_def)
next
  case False
  with assms show ?thesis by (simp add: insertRow_Inr writeOnce_snoc)
qed

section \<open>Growth\<close>

definition appends :: "(string \<times> string) set \<Rightarrow> ledger_db \<Rightarrow> ledger_db \<Rightarrow> bool" where
  "appends S db db' \<longleftrightarrow>
     db_revisions db' = db_revisions db \<and> db_links db' = db_links db \<and>
     (\<exists>added. db_rows db' = db_rows db @ added \<and> rowScope ` set added \<subseteq> S) \<and>
     (distinctKeys (db_rows db) \<longrightarrow> distinctKeys (db_rows db'))"

lemma appends_refl [simp, intro]: "appends S db db"
  by (simp add: appends_def)

lemma appends_trans [trans]:
  assumes "appends S db1 db2" "appends S db2 db3"
  shows "appends S db1 db3"
proof -
  obtain a b where "db_rows db2 = db_rows db1 @ a" "rowScope ` set a \<subseteq> S" "db_rows db3 = db_rows db2 @ b" "rowScope ` set b \<subseteq> S"
    using assms by (auto simp: appends_def)
  then have "db_rows db3 = db_rows db1 @ (a @ b)" "rowScope ` set (a @ b) \<subseteq> S" by auto
  then have "\<exists>added. db_rows db3 = db_rows db1 @ added \<and> rowScope ` set added \<subseteq> S" by blast
  with assms show ?thesis by (simp add: appends_def)
qed

lemma appends_mono: "appends S db db' \<Longrightarrow> S \<subseteq> T \<Longrightarrow> appends T db db'"
  unfolding appends_def by blast

lemma appends_single: "appends {s} db db' \<Longrightarrow> s \<in> S \<Longrightarrow> appends S db db'"
  by (erule appends_mono) simp

lemma insertRow_appends:
  assumes "insertRow refused row db = Inr db'" "rowScope row \<in> S"
  shows "appends S db db'"
  using assms distinctKeys_snoc[of "db_rows db" row] by (auto simp: insertRow_Inr appends_def)

lemma storedArtifact_insert: "storedArtifact refused tenantId row db = Inr db' \<Longrightarrow> insertRow refused row db = Inr db'"
  by (auto simp: storedArtifact_def res_simps split: if_splits)

section \<open>Writers\<close>

locale tenant_writer =
  fixes persist :: "'a \<Rightarrow> ledger_db \<Rightarrow> ledger_db res"
    and scopes :: "'a \<Rightarrow> (string \<times> string) set"
  assumes persist_appends: "persist x db = Inr db' \<Longrightarrow> appends (scopes x) db db'"
begin

lemma transaction: "withTenantTx (persist x) db = (r, db') \<Longrightarrow> appends (scopes x) db db'"
  using persist_appends[of x db] by (auto simp: withTenantTx_def split: sum.splits)

lemma transactions:
  "forEachTx (\<lambda>x. withTenantTx (persist x)) xs db = (r, db') \<Longrightarrow> appends (\<Union> (scopes ` set xs)) db db'"
proof (induction xs arbitrary: db)
  case Nil
  then show ?case by simp
next
  case (Cons x xs)
  obtain r1 db1 where first: "withTenantTx (persist x) db = (r1, db1)" by fastforce
  have grown: "appends (\<Union> (scopes ` set (x # xs))) db db1"
    by (rule appends_mono[OF transaction[OF first]]) simp
  show ?case
  proof (cases r1)
    case Inl
    then show ?thesis using Cons.prems first grown by (simp add: thenDo_def)
  next
    case (Inr u)
    then have "forEachTx (\<lambda>x. withTenantTx (persist x)) xs db1 = (r, db')"
      using Cons.prems first by (simp add: thenDo_def)
    from Cons.IH[OF this] have "appends (\<Union> (scopes ` set (x # xs))) db1 db'"
      by (rule appends_mono) simp
    with grown show ?thesis by (rule appends_trans)
  qed
qed

lemma folded: "foldR (\<lambda>d x. persist x d) db xs = Inr db' \<Longrightarrow> appends (\<Union> (scopes ` set xs)) db db'"
proof (induction xs arbitrary: db)
  case Nil
  then show ?case by simp
next
  case (Cons x xs)
  then obtain db1 where steps: "persist x db = Inr db1" "foldR (\<lambda>d x. persist x d) db1 xs = Inr db'"
    by (auto simp: res_simps)
  have "appends (\<Union> (scopes ` set (x # xs))) db db1"
    by (rule appends_mono[OF persist_appends[OF steps(1)]]) simp
  moreover have "appends (\<Union> (scopes ` set (x # xs))) db1 db'"
    by (rule appends_mono[OF Cons.IH[OF steps(2)]]) simp
  ultimately show ?case by (rule appends_trans)
qed

end

section \<open>The statements of the worker\<close>

interpretation row: tenant_writer "insertRow refused" "\<lambda>row. {rowScope row}" for refused
  by unfold_locales (auto intro: insertRow_appends)

interpretation stored: tenant_writer "storedArtifact refused tenantId" "\<lambda>row. {rowScope row}" for refused tenantId
  by unfold_locales (auto dest!: storedArtifact_insert intro: insertRow_appends)

lemma insertRows_appends:
  assumes "insertRows refused rows db = Inr db'" "rowScope ` set rows \<subseteq> S"
  shows "appends S db db'"
  using appends_mono[OF row.folded[of refused db rows db'], of S] assms by (auto simp: insertRows_def)

lemma insertJsonRows_appends:
  "insertJsonRows refused rows db = Inr db' \<Longrightarrow> rowScope ` set rows \<subseteq> S \<Longrightarrow> appends S db db'"
proof (induction refused rows db rule: insertJsonRows.induct)
  case (1 refused rows db)
  show ?case
  proof (cases "rows = []")
    case True
    then show ?thesis using 1 by (simp add: insertJsonRows.simps)
  next
    case False
    then obtain db1 where steps: "insertRows refused (take runtimeBulkChunkSize rows) db = Inr db1"
      "insertJsonRows refused (drop runtimeBulkChunkSize rows) db1 = Inr db'"
      using 1(2) by (subst (asm) insertJsonRows.simps) (auto simp: res_simps)
    have "rowScope ` set (take runtimeBulkChunkSize rows) \<subseteq> S" "rowScope ` set (drop runtimeBulkChunkSize rows) \<subseteq> S"
      using 1(3) set_take_subset[of runtimeBulkChunkSize rows] set_drop_subset[of runtimeBulkChunkSize rows] by auto
    with insertRows_appends[OF steps(1)] 1(1)[OF False steps] show ?thesis by (blast intro: appends_trans)
  qed
qed

interpretation attribution_writer: tenant_writer "persistAttribution env" "\<lambda>a. {(a_tenant_id a, a_app_id a)}" for env
  using stored.persist_appends by unfold_locales (force simp: persistAttribution_def)

interpretation reconciliation_writer: tenant_writer "persistReconciliation env" "\<lambda>r. {(rs_tenant_id r, rs_app_id r)}" for env
  using stored.persist_appends by unfold_locales (force simp: persistReconciliation_def)

interpretation delivery_writer: tenant_writer "persistDelivery env" "\<lambda>d. {(dl_tenant_id d, dl_app_id d)}" for env
  using row.persist_appends by unfold_locales (force simp: persistDelivery_def)

interpretation raw_writer: tenant_writer "persistRaw env tenantId input" "\<lambda>r. {(rr_tenant_id r, rr_app_id r)}" for env tenantId input
proof
  fix r db db'
  assume "persistRaw env tenantId input r db = Inr db'"
  then obtain digest db1 where steps: "storedArtifact (ie_refused env) tenantId (RawRow digest r) db = Inr db1"
    "insertRow (ie_refused env) (availableState r) db1 = Inr db'"
    by (auto simp: persistRaw_def res_simps)
  from stored.persist_appends[OF steps(1)] row.persist_appends[OF steps(2)]
  show "appends {(rr_tenant_id r, rr_app_id r)} db db'" by (simp add: availableState_def) (rule appends_trans)
qed

interpretation projection_writer: tenant_writer "persistProjection refused values" "\<lambda>e. {(le_tenant_id e, le_app_id e)}" for refused "values"
proof
  fix e db db'
  assume "persistProjection refused values e db = Inr db'"
  then have "db' = db \<or> (\<exists>p. insertRow refused (factRow e p) db = Inr db')"
    by (auto simp: persistProjection_def res_simps split: option.splits)
  then show "appends {(le_tenant_id e, le_app_id e)} db db'"
    using row.persist_appends by (force simp: factRow_def)
qed

interpretation logical_writer: tenant_writer "persistLogical env tenantId input" "\<lambda>e. {(le_tenant_id e, le_app_id e)}" for env tenantId input
proof
  fix e db db'
  assume "persistLogical env tenantId input e db = Inr db'"
  then obtain db1 where steps: "storedArtifact (ie_refused env) tenantId (LogicalRow e) db = Inr db1"
    "persistProjection (ie_refused env) (inputAttempts input) e db1 = Inr db'"
    by (auto simp: persistLogical_def res_simps)
  from stored.persist_appends[OF steps(1)] projection_writer.persist_appends[OF steps(2)]
  show "appends {(le_tenant_id e, le_app_id e)} db db'" by simp (rule appends_trans)
qed

interpretation fraud_writer: tenant_writer "\<lambda>f. persistFraud env f scope revision" "\<lambda>f. {scope}" for env scope revision
proof
  fix f db db'
  assume "persistFraud env f scope revision db = Inr db'"
  then obtain db1 where steps: "storedArtifact (ie_refused env) (fst scope) (fraudRow scope f) db = Inr db1"
    "db' = db1 \<or> insertRow (ie_refused env) (quarantineRow scope f) db1 = Inr db'"
    by (auto simp: persistFraud_def res_simps split: list.splits if_splits)
  from stored.persist_appends[OF steps(1)] have first: "appends {scope} db db1" by (simp add: fraudRow_def)
  from steps(2) have "appends {scope} db1 db'"
    using row.persist_appends[of "ie_refused env" "quarantineRow scope f" db1 db'] by (auto simp: quarantineRow_def)
  with first show "appends {scope} db db'" by (rule appends_trans)
qed

section \<open>Sequences\<close>

lemma thenDo_appends:
  assumes "thenDo m f = (r, db')" "m = (r1, db1)" "appends S db db1"
    and "\<And>a r' db''. r1 = Inr a \<Longrightarrow> f a db1 = (r', db'') \<Longrightarrow> appends S db1 db''"
  shows "appends S db db'"
proof (cases r1)
  case Inl
  then show ?thesis using assms by (simp add: thenDo_def)
next
  case (Inr a)
  then have "f a db1 = (r, db')" using assms(1,2) by (simp add: thenDo_def)
  with assms(3) assms(4)[OF Inr] show ?thesis by (blast intro: appends_trans)
qed

lemma ifSome_appends:
  assumes "ifSome v f db = Inr db'" "\<And>x db db'. v = Some x \<Longrightarrow> f x db = Inr db' \<Longrightarrow> appends S db db'"
  shows "appends S db db'"
  using assms by (cases v) (auto simp: ifSome_def)

lemma lastWith_Some: "lastWith key xs k = Some x \<Longrightarrow> x \<in> set xs \<and> key x = k"
  by (auto simp: lastWith_def dest: find_Some_iff_set)

end
