(* ===== verification/IngestLaws.thy ===== *)
theory IngestLaws
  imports LedgerLaws EvaluateLaws
begin

text \<open>
  What an ingestion guarantees: every artifact it selects comes from an attempt of the batch
  or its history whose payload the schema accepts, the rows it writes belong to the scopes
  of those attempts, and a batch written in bulk is stored completely or not at all.
\<close>

section \<open>The attempts of a plan\<close>

lemma inputAttempts_attempts: "inputAttempts input = attempts input"
  by (simp add: inputAttempts_def attempts_def)

lemma runtimeInput_attempts:
  assumes "a \<in> set (attempts (runtimeInput xs))"
  shows "\<exists>x \<in> set xs. at_record a = at_record x \<and> at_server a = at_server x"
  using assms by (auto simp: attempts_def runtimeInput_def runtimeBatch_def in_set_enumerate_eq)

lemma bindAttempt_simps [simp]:
  "at_record (bindAttempt H r a) = at_record a" "tenant_id (bindAttempt H r a) = tenant_id a"
  "app_id (bindAttempt H r a) = app_id a" "s_policy_digest (at_server (bindAttempt H r a)) = s_policy_digest (at_server a)"
  by (simp_all add: bindAttempt_def Let_def split: option.splits)

definition sameOrigin :: "attempt \<Rightarrow> attempt \<Rightarrow> bool" where
  "sameOrigin a b = (at_record a = at_record b \<and> sameScope a b)"

lemma resolve_origin:
  "x \<in> set (resolveDeepLinkAttempts db xs) \<Longrightarrow> \<exists>y \<in> set xs. sameOrigin x y"
  by (auto simp: resolveDeepLinkAttempts_def sameOrigin_def sameScope_def split: if_splits)

lemma schemaInvalid_bind [simp]:
  "schemaInvalidArtifacts env (bindAttempt H r a) = None \<longleftrightarrow> ie_validate env (event_name a) (at_payload a) = None"
  by (auto simp: schemaInvalidArtifacts_def split: option.splits)

lemma attemptDeliveryKey_bind [simp]: "attemptDeliveryKey (bindAttempt H r a) = attemptDeliveryKey a"
  by (simp add: attemptDeliveryKey_def)

text \<open>What a plan is made of.\<close>

definition validAttempts :: "ingest_env \<Rightarrow> active_revision option \<Rightarrow> attempt list \<Rightarrow> attempt list" where
  "validAttempts env revision values =
     (let bound = map (bindAttempt (ie_H env) revision) values;
          refused = map (\<lambda>i. deliveryKey (vl_record_id (ia_failure i)) (vl_delivery_id (ia_failure i)))
            (List.map_filter (schemaInvalidArtifacts env) bound) in
      filter (\<lambda>attempt. attemptDeliveryKey attempt \<notin> set refused) bound)"

lemma validAttempts_origin:
  assumes "x \<in> set (validAttempts env revision values)"
  obtains v where "v \<in> set values" "x = bindAttempt (ie_H env) revision v" "ie_validate env (event_name v) (at_payload v) = None"
proof -
  obtain v where v: "v \<in> set values" "x = bindAttempt (ie_H env) revision v" using assms by (auto simp: validAttempts_def Let_def)
  have "schemaInvalidArtifacts env x = None"
  proof (rule ccontr)
    assume "schemaInvalidArtifacts env x \<noteq> None"
    then obtain i where i: "schemaInvalidArtifacts env x = Some i" by auto
    then have "deliveryKey (vl_record_id (ia_failure i)) (vl_delivery_id (ia_failure i)) = attemptDeliveryKey x"
      by (auto simp: schemaInvalidArtifacts_def attemptDeliveryKey_def split: option.splits)
    with i v show False using assms by (auto simp: validAttempts_def Let_def List.map_filter_def image_iff)
  qed
  with v that show ?thesis by simp
qed

lemma planIngestion_Inr:
  assumes "planIngestion env revision db values historical = Inr plan"
  obtains all out invalid where
    "pl_input plan = runtimeInput all"
    "evaluate (ie_H env) createIndexedCandidateProvider (runtimeInput all) = Inr out"
    "invalid = List.map_filter (schemaInvalidArtifacts env) (map (bindAttempt (ie_H env) revision) values)"
    "pl_selected plan = selectCurrent (map (\<lambda>a. record_id a) (validAttempts env revision values))
       (map (\<lambda>a. r_delivery_id (at_record a)) (validAttempts env revision values))
       (tenant_id (hd values)) (app_id (hd values)) invalid out"
    "\<forall>a \<in> set all. \<exists>v \<in> set (historical @ values). sameOrigin a v \<and> ie_validate env (event_name v) (at_payload v) = None"
proof -
  let ?history = "filter (\<lambda>a. schemaInvalidArtifacts env a = None) (map (bindAttempt (ie_H env) revision) historical)"
  let ?all = "sortCandidateAttempts (ie_H env) (resolveDeepLinkAttempts db (?history @ validAttempts env revision values))"
  obtain out where out: "evaluate (ie_H env) createIndexedCandidateProvider (runtimeInput ?all) = Inr out"
    "plan = \<lparr>pl_input = runtimeInput ?all, pl_selected = selectCurrent
       (map (\<lambda>a. record_id a) (validAttempts env revision values))
       (map (\<lambda>a. r_delivery_id (at_record a)) (validAttempts env revision values))
       (tenant_id (hd values)) (app_id (hd values))
       (List.map_filter (schemaInvalidArtifacts env) (map (bindAttempt (ie_H env) revision) values)) out\<rparr>"
    using assms by (auto simp: planIngestion_def Let_def validAttempts_def res_simps)
  have "\<exists>v \<in> set (historical @ values). sameOrigin a v \<and> ie_validate env (event_name v) (at_payload v) = None"
    if "a \<in> set ?all" for a
  proof -
    obtain y where y: "y \<in> set (?history @ validAttempts env revision values)" "sameOrigin a y"
      using \<open>a \<in> set ?all\<close> resolve_origin by (metis set_sortCandidateAttempts)
    then have "\<exists>v \<in> set (historical @ values). y = bindAttempt (ie_H env) revision v \<and>
      ie_validate env (event_name v) (at_payload v) = None"
      by (auto elim!: validAttempts_origin)
    then obtain v where "v \<in> set (historical @ values)" "y = bindAttempt (ie_H env) revision v"
      "ie_validate env (event_name v) (at_payload v) = None" by blast
    with y(2) show ?thesis by (auto simp: sameOrigin_def sameScope_def)
  qed
  then have "\<forall>a \<in> set ?all. \<exists>v \<in> set (historical @ values). sameOrigin a v \<and> ie_validate env (event_name v) (at_payload v) = None"
    by blast
  from that[OF _ out(1) refl _ this] out(2) show ?thesis by simp
qed

lemma plan_input_origin:
  assumes "a \<in> set (attempts (runtimeInput all))"
    and "\<forall>a \<in> set all. \<exists>v \<in> set (historical @ values). sameOrigin a v \<and> ie_validate env (event_name v) (at_payload v) = None"
  shows "\<exists>v \<in> set (historical @ values). sameOrigin a v \<and> ie_validate env (event_name v) (at_payload v) = None"
proof -
  obtain x where "x \<in> set all" "at_record a = at_record x" "at_server a = at_server x"
    using runtimeInput_attempts[OF assms(1)] by blast
  with assms(2) show ?thesis by (auto simp: sameOrigin_def sameScope_def)
qed

section \<open>The scopes of an evaluation\<close>

abbreviation attemptScope :: "attempt \<Rightarrow> string \<times> string" where
  "attemptScope a \<equiv> (tenant_id a, app_id a)"

context candidate_provider
begin

lemma raw_scope:
  assumes "evaluate H mk input = Inr out" "r \<in> set (o_raw_records out)"
  shows "(rr_tenant_id r, rr_app_id r) \<in> attemptScope ` set (attempts input)"
proof -
  obtain a where "a \<in> set (attempts input)" "makeRawRecord H Available a = Inr r" by (rule raw_record_attempt[OF assms])
  then show ?thesis using makeRawRecord_identity[of H Available a r] by (intro image_eqI[of _ _ a]) simp_all
qed

lemma logical_scope:
  assumes "evaluate H mk input = Inr out" "e \<in> set (o_logical_events out)"
  shows "(le_tenant_id e, le_app_id e) \<in> attemptScope ` set (attempts input)"
proof -
  obtain a where "a \<in> set (attempts input)" "e = makeLogicalEvent a" by (rule logical_event_source[OF assms])
  then show ?thesis by (intro image_eqI[of _ _ a]) simp_all
qed

lemma delivery_scope:
  assumes "evaluate H mk input = Inr out" "d \<in> set (o_deliveries out)" "in_pre_ingestion_rejections input = []"
  shows "(dl_tenant_id d, dl_app_id d) \<in> attemptScope ` set (attempts input)"
proof -
  have "deliveryIdentity ` set (o_deliveries out) = attemptIdentity ` set (attempts input)"
    using arg_cong[OF deliveries_identities[OF assms(1)], of set_mset] assms(3) by simp
  moreover have "deliveryIdentity d \<in> deliveryIdentity ` set (o_deliveries out)" using assms(2) by (rule imageI)
  ultimately obtain a where "a \<in> set (attempts input)" "deliveryIdentity d = attemptIdentity a" by (simp only:) blast
  then show ?thesis by (intro image_eqI[of _ _ a]) simp_all
qed

lemma rejection_scope:
  assumes "evaluate H mk input = Inr out" "r \<in> set (o_rejections out)" "in_pre_ingestion_rejections input = []"
  shows "(rj_tenant_id r, rj_app_id r) \<in> attemptScope ` set (attempts input)"
proof -
  have "rejectionIdentity ` set (o_rejections out) \<subseteq> deliveryIdentity ` set (o_deliveries out)"
    using arg_cong[OF rejections_deliveries[OF assms(1)], of set_mset] by auto
  then obtain d where "d \<in> set (o_deliveries out)" "rejectionIdentity r = deliveryIdentity d"
    using assms(2) by blast
  with delivery_scope[OF assms(1) _ assms(3), of d] show ?thesis by simp
qed

lemma attribution_scope:
  assumes "evaluate H mk input = Inr out" "x \<in> set (o_attributions out)"
  shows "(a_tenant_id x, a_app_id x) \<in> attemptScope ` set (attempts input)"
proof -
  obtain st initial prior where st: "evaluationState H mk input = Inr st"
    "initialAttributions H (es_candidates st) (es_decisions st) (es_lifecycle st) (es_acceptedUnique st) = Inr initial"
    "prior \<in> set initial" "(a_tenant_id x, a_app_id x) = (a_tenant_id prior, a_app_id prior)"
    by (rule attribution_origin[OF assms]) auto
  have "\<exists>a \<in> set (es_acceptedUnique st). (a_tenant_id prior, a_app_id prior) = attemptScope a"
    by (rule initialAttributions_set[OF st(2,3)]) (auto simp: makeAttribution_def res_simps)
  then obtain a where a: "a \<in> set (es_acceptedUnique st)" "(a_tenant_id prior, a_app_id prior) = attemptScope a" by blast
  from accepted_attempts(1)[OF st(1) a(1)] a(2) st(4) show ?thesis by (intro image_eqI[of _ _ a]) simp_all
qed

end


section \<open>The scopes of a plan\<close>

text \<open>The scopes of the artifacts that were selected.\<close>

definition resultScopes :: "ingestion_result \<Rightarrow> (string \<times> string) set" where
  "resultScopes r =
     (\<lambda>x. (rr_tenant_id x, rr_app_id x)) ` set (ir_raw_records r) \<union>
     (\<lambda>x. (dl_tenant_id x, dl_app_id x)) ` set (ir_deliveries r) \<union>
     (\<lambda>x. (le_tenant_id x, le_app_id x)) ` set (ir_logical_events r) \<union>
     (\<lambda>x. (rj_tenant_id x, rj_app_id x)) ` set (ir_rejections r) \<union>
     (\<lambda>x. (a_tenant_id x, a_app_id x)) ` set (ir_attributions r) \<union>
     (\<lambda>x. (rs_tenant_id x, rs_app_id x)) ` set (ir_reconciliation r)"

lemma selectCurrent_simps [simp]:
  "ir_raw_records (selectCurrent rs ds t a invalid out) =
     filter (\<lambda>r. rr_record_id r \<in> set rs \<or> rr_delivery_id r \<in> set ds) (o_raw_records out)"
  "ir_deliveries (selectCurrent rs ds t a invalid out) =
     filter (\<lambda>d. dl_record_id d \<in> set rs \<or> dl_delivery_id d \<in> set ds) (o_deliveries out) @ map ia_delivery invalid"
  "ir_logical_events (selectCurrent rs ds t a invalid out) = filter (\<lambda>e. le_record_id e \<in> set rs) (o_logical_events out)"
  "ir_rejections (selectCurrent rs ds t a invalid out) =
     filter (\<lambda>r. rj_record_id r \<in> set rs \<or> rj_delivery_id r \<in> set ds) (o_rejections out) @ map ia_rejection invalid"
  "ir_attributions (selectCurrent rs ds t a invalid out) =
     filter (\<lambda>x. (case a_subject_ref x of Some s \<Rightarrow> s \<in> set rs | None \<Rightarrow> False) \<or> evidenceBelongs rs (a_evidence_refs x))
       (o_attributions out)"
  "ir_fraud_decisions (selectCurrent rs ds t a invalid out) = filter (\<lambda>f. f_subject_ref f \<in> set rs) (o_fraud_decisions out)"
  "ir_reconciliation (selectCurrent rs ds t a invalid out) =
     filter (\<lambda>r. rs_tenant_id r = t \<and> rs_app_id r = a) (o_reconciliation out)"
  "ir_validation_failures (selectCurrent rs ds t a invalid out) = map ia_failure invalid"
  by (simp_all add: selectCurrent_def)

lemma invalid_scope:
  assumes "i \<in> set (List.map_filter (schemaInvalidArtifacts env) (map (bindAttempt H revision) values))"
  shows "(dl_tenant_id (ia_delivery i), dl_app_id (ia_delivery i)) \<in> attemptScope ` set values"
    "(rj_tenant_id (ia_rejection i), rj_app_id (ia_rejection i)) \<in> attemptScope ` set values"
proof -
  obtain v where "v \<in> set values" "schemaInvalidArtifacts env (bindAttempt H revision v) = Some i"
    using assms by (auto simp: List.map_filter_def)
  then show "(dl_tenant_id (ia_delivery i), dl_app_id (ia_delivery i)) \<in> attemptScope ` set values"
    "(rj_tenant_id (ia_rejection i), rj_app_id (ia_rejection i)) \<in> attemptScope ` set values"
    by (auto simp: schemaInvalidArtifacts_def invalidDelivery_def invalidRejection_def Let_def split: option.splits)
qed

lemma runtimeInput_simps [simp]:
  "in_pre_ingestion_rejections (runtimeInput xs) = []" "in_privacy_requests (runtimeInput xs) = []"
  by (simp_all add: runtimeInput_def)

lemma plan_scopes:
  assumes plan: "planIngestion env revision db values historical = Inr plan" and "values \<noteq> []"
  shows "resultScopes (pl_selected plan) \<subseteq> attemptScope ` set (historical @ values)"
proof -
  let ?S = "attemptScope ` set (historical @ values)"
  obtain all out invalid where input: "pl_input plan = runtimeInput all" and p: "evaluate (ie_H env) createIndexedCandidateProvider (runtimeInput all) = Inr out"
    "invalid = List.map_filter (schemaInvalidArtifacts env) (map (bindAttempt (ie_H env) revision) values)"
    "pl_selected plan = selectCurrent (map (\<lambda>a. record_id a) (validAttempts env revision values))
       (map (\<lambda>a. r_delivery_id (at_record a)) (validAttempts env revision values)) (tenant_id (hd values)) (app_id (hd values)) invalid out"
    "\<forall>a \<in> set all. \<exists>v \<in> set (historical @ values). sameOrigin a v \<and> ie_validate env (event_name v) (at_payload v) = None"
    by (rule planIngestion_Inr[OF plan])
  have S: "attemptScope ` set (attempts (runtimeInput all)) \<subseteq> ?S"
  proof
    fix s assume "s \<in> attemptScope ` set (attempts (runtimeInput all))"
    then obtain a where a: "a \<in> set (attempts (runtimeInput all))" "s = attemptScope a" by blast
    from plan_input_origin[OF a(1) p(4)] obtain v where "v \<in> set (historical @ values)" "sameOrigin a v" by blast
    with a(2) show "s \<in> ?S" by (intro image_eqI[of _ _ v]) (simp_all add: sameOrigin_def sameScope_def)
  qed
  have hd: "attemptScope (hd values) \<in> ?S" using assms(2) by (intro imageI) simp
  have own: "attemptScope ` set values \<subseteq> ?S" by auto
  note inv = invalid_scope[of _ env "ie_H env" revision "values", folded p(2)]
  have "(\<lambda>x. (rr_tenant_id x, rr_app_id x)) ` set (ir_raw_records (pl_selected plan)) \<subseteq> ?S"
    using indexed.raw_scope[OF p(1)] S unfolding p(3) selectCurrent_simps by force
  moreover have "(\<lambda>x. (dl_tenant_id x, dl_app_id x)) ` set (ir_deliveries (pl_selected plan)) \<subseteq> ?S"
  proof (rule image_subsetI)
    fix x assume "x \<in> set (ir_deliveries (pl_selected plan))"
    then consider "x \<in> set (o_deliveries out)" | i where "i \<in> set invalid" "x = ia_delivery i"
      unfolding p(3) selectCurrent_simps by auto
    then show "(dl_tenant_id x, dl_app_id x) \<in> ?S"
    proof cases
      case 1
      from indexed.delivery_scope[OF p(1) this] S show ?thesis by (simp only: runtimeInput_simps) blast
    next
      case 2
      from inv(1)[OF 2(1)] own 2(2) show ?thesis by blast
    qed
  qed
  moreover have "(\<lambda>x. (le_tenant_id x, le_app_id x)) ` set (ir_logical_events (pl_selected plan)) \<subseteq> ?S"
    using indexed.logical_scope[OF p(1)] S unfolding p(3) selectCurrent_simps by force
  moreover have "(\<lambda>x. (rj_tenant_id x, rj_app_id x)) ` set (ir_rejections (pl_selected plan)) \<subseteq> ?S"
  proof (rule image_subsetI)
    fix x assume "x \<in> set (ir_rejections (pl_selected plan))"
    then consider "x \<in> set (o_rejections out)" | i where "i \<in> set invalid" "x = ia_rejection i"
      unfolding p(3) selectCurrent_simps by auto
    then show "(rj_tenant_id x, rj_app_id x) \<in> ?S"
    proof cases
      case 1
      from indexed.rejection_scope[OF p(1) this] S show ?thesis by (simp only: runtimeInput_simps) blast
    next
      case 2
      from inv(2)[OF 2(1)] own 2(2) show ?thesis by blast
    qed
  qed
  moreover have "(\<lambda>x. (a_tenant_id x, a_app_id x)) ` set (ir_attributions (pl_selected plan)) \<subseteq> ?S"
    using indexed.attribution_scope[OF p(1)] S unfolding p(3) selectCurrent_simps by force
  moreover have "(\<lambda>x. (rs_tenant_id x, rs_app_id x)) ` set (ir_reconciliation (pl_selected plan)) \<subseteq> ?S"
    using hd unfolding p(3) selectCurrent_simps by auto
  ultimately show ?thesis unfolding resultScopes_def by (intro Un_least)
qed

end
