(* ===== verification/IngestStore.thy ===== *)
theory IngestStore
  imports IngestLaws
begin

text \<open>
  What an ingestion leaves in the ledger: rows are only added, whatever its outcome; a batch
  written in bulk that fails has added nothing but its apps, and one that succeeds has every
  artifact that was selected.
\<close>

section \<open>Rows are only added\<close>

lemma persistAttempt_appends:
  assumes "persistAttempt env plan attempt db = Inr db'" "resultScopes (pl_selected plan) \<subseteq> S"
  shows "appends S db db'"
proof -
  let ?sel = "pl_selected plan"
  let ?key = "attemptDeliveryKey attempt"
  obtain db1 db2 db3 where steps:
    "ifSome (lastWith rr_record_id (ir_raw_records ?sel) (record_id attempt)) (persistRaw env (tenant_id attempt) (pl_input plan)) db = Inr db1"
    "ifSome (lastWith (\<lambda>d. deliveryKey (dl_record_id d) (dl_delivery_id d)) (ir_deliveries ?sel) ?key) (persistDelivery env) db1 = Inr db2"
    "ifSome (lastWith le_record_id (ir_logical_events ?sel) (record_id attempt)) (persistLogical env (tenant_id attempt) (pl_input plan)) db2 = Inr db3"
    "ifSome (lastWith (\<lambda>r. deliveryKey (rj_record_id r) (rj_delivery_id r)) (ir_rejections ?sel) ?key)
       (\<lambda>r. insertRow (ie_refused env) (RejectionRow r)) db3 = Inr db'"
    using assms(1) by (auto simp: persistAttempt_def Let_def res_simps)
  note scopes = assms(2)[unfolded resultScopes_def]
  have "appends S db db1"
  proof (rule ifSome_appends[OF steps(1)])
    fix x db db' assume "lastWith rr_record_id (ir_raw_records ?sel) (record_id attempt) = Some x"
      and w: "persistRaw env (tenant_id attempt) (pl_input plan) x db = Inr db'"
    then have "(rr_tenant_id x, rr_app_id x) \<in> S" using scopes by (auto dest!: lastWith_Some)
    then show "appends S db db'" by (rule appends_single[OF raw_writer.persist_appends[OF w]])
  qed
  moreover have "appends S db1 db2"
  proof (rule ifSome_appends[OF steps(2)])
    fix x db db' assume "lastWith (\<lambda>d. deliveryKey (dl_record_id d) (dl_delivery_id d)) (ir_deliveries ?sel) ?key = Some x"
      and w: "persistDelivery env x db = Inr db'"
    then have "(dl_tenant_id x, dl_app_id x) \<in> S" using scopes by (auto dest!: lastWith_Some)
    then show "appends S db db'" by (rule appends_single[OF delivery_writer.persist_appends[OF w]])
  qed
  moreover have "appends S db2 db3"
  proof (rule ifSome_appends[OF steps(3)])
    fix x db db' assume "lastWith le_record_id (ir_logical_events ?sel) (record_id attempt) = Some x"
      and w: "persistLogical env (tenant_id attempt) (pl_input plan) x db = Inr db'"
    then have "(le_tenant_id x, le_app_id x) \<in> S" using scopes by (auto dest!: lastWith_Some)
    then show "appends S db db'" by (rule appends_single[OF logical_writer.persist_appends[OF w]])
  qed
  moreover have "appends S db3 db'"
  proof (rule ifSome_appends[OF steps(4)])
    fix x db db' assume "lastWith (\<lambda>r. deliveryKey (rj_record_id r) (rj_delivery_id r)) (ir_rejections ?sel) ?key = Some x"
      and w: "insertRow (ie_refused env) (RejectionRow x) db = Inr db'"
    then have "rowScope (RejectionRow x) \<in> S" using scopes by (auto dest!: lastWith_Some)
    then show "appends S db db'" by (rule appends_single[OF row.persist_appends[OF w]])
  qed
  ultimately show ?thesis by (blast intro: appends_trans)
qed

text \<open>The attempts of a batch are written by \<open>persistAttempt\<close>, each in its transaction.\<close>

interpretation attempt_writer: tenant_writer "persistAttempt env plan" "\<lambda>a. resultScopes (pl_selected plan)" for env plan
  by unfold_locales (rule persistAttempt_appends[OF _ subset_refl])

lemma mapFromPairs_set: "set (mapFromPairs ps) \<subseteq> set ps"
proof -
  have "set (AList.update k v m) \<subseteq> insert (k, v) (set m)" for k :: 'a and v :: 'b and m
    by (induction m) auto
  then have "set (foldl (\<lambda>m p. AList.update (fst p) (snd p) m) m ps) \<subseteq> set m \<union> set ps" for m :: "('a \<times> 'b) list"
    by (induction ps arbitrary: m) (fastforce)+
  from this[of "[]"] show ?thesis by (simp add: mapFromPairs_def)
qed

lemma fraudScopes_subset: "set (fraudScopes fraud values) \<subseteq> attemptScope ` set values"
  using mapFromPairs_set[of "map (\<lambda>a. (scopeText a, attemptScope a)) (filter (fraudConcerns fraud) values)"]
  by (fastforce simp: fraudScopes_def)

lemma persistFraudDecision_appends:
  assumes "persistFraudDecision env revision values fraud db = (r, db')"
  shows "appends (attemptScope ` set values) db db'"
proof (cases "\<exists>scope. fraudScopes fraud values = [scope]")
  case True
  then obtain scope where scope: "fraudScopes fraud values = [scope]" by blast
  with assms have "withTenantTx (persistFraud env fraud scope (map_option ar_ruleBundleRevisionId revision)) db = (r, db')"
    by (simp add: persistFraudDecision_def)
  then have "appends {scope} db db'" by (rule fraud_writer.transaction)
  then show ?thesis using fraudScopes_subset[of fraud "values"] scope by (auto intro: appends_mono)
next
  case False
  then have "db' = db" using assms by (auto simp: persistFraudDecision_def split: list.splits)
  then show ?thesis by simp
qed

lemma forEachTx_appends:
  assumes "forEachTx f xs db = (r, db')" "\<And>x db r db'. f x db = (r, db') \<Longrightarrow> appends S db db'"
  shows "appends S db db'"
  using assms(1)
proof (induction xs arbitrary: db r db')
  case Nil
  then show ?case by simp
next
  case (Cons x xs)
  obtain r1 db1 where first: "f x db = (r1, db1)" by fastforce
  show ?case
    by (rule thenDo_appends[OF Cons.prems[unfolded forEachTx.simps] first assms(2)[OF first]]) (rule Cons.IH)
qed

lemma ensureApps_appends:
  assumes "ensureApps refused input db = (r, db')"
  shows "appends (attemptScope ` set (inputAttempts input)) db db'"
proof -
  let ?pairs = "mapFromPairs (map (\<lambda>a. (scopeText a, attemptScope a)) (inputAttempts input))"
  have "forEachTx (\<lambda>row. withTenantTx (insertRow refused row))
      (map (\<lambda>p. AppRow (fst (snd p)) (snd (snd p)) (defaultTimestamp input)) ?pairs) db = (r, db')"
  proof -
    have "forEachTx (\<lambda>row. withTenantTx (insertRow refused row)) (map g xs) db = forEachTx (\<lambda>x. withTenantTx (insertRow refused (g x))) xs db"
      for g :: "string \<times> string \<times> string \<Rightarrow> ledger_row" and xs db
      by (induction xs arbitrary: db) (simp_all add: thenDo_def split: prod.splits sum.splits)
    then show ?thesis using assms by (simp add: ensureApps_def)
  qed
  from row.transactions[OF this] show ?thesis
    by (rule appends_mono) (use mapFromPairs_set[of "map (\<lambda>a. (scopeText a, attemptScope a)) (inputAttempts input)"] in force)
qed

lemma persistSequential_appends:
  assumes "persistSequential env revision values plan db = (r, db')"
    and S: "resultScopes (pl_selected plan) \<subseteq> S" "attemptScope ` set values \<subseteq> S"
  shows "appends S db db'"
proof -
  let ?sel = "pl_selected plan"
  have parts: "\<And>a. a \<in> set (ir_attributions ?sel) \<Longrightarrow> (a_tenant_id a, a_app_id a) \<in> S"
    "\<And>x. x \<in> set (ir_reconciliation ?sel) \<Longrightarrow> (rs_tenant_id x, rs_app_id x) \<in> S"
    using S(1) by (auto simp: resultScopes_def)
  obtain r1 db1 where first: "forEachTx (\<lambda>a. withTenantTx (persistAttempt env plan a)) values db = (r1, db1)" by fastforce
  have grown1: "appends S db db1"
    by (rule appends_mono[OF attempt_writer.transactions[OF first]]) (use S(1) in auto)
  show ?thesis
  proof (rule thenDo_appends[OF assms(1)[unfolded persistSequential_def Let_def] first grown1])
    fix a r' db'' assume rest: "thenDo (forEachTx (\<lambda>a. withTenantTx (persistAttribution env a)) (ir_attributions ?sel) db1)
      (\<lambda>_ db2. thenDo (forEachTx (persistFraudDecision env revision values) (ir_fraud_decisions ?sel) db2)
        (\<lambda>_. forEachTx (\<lambda>r. withTenantTx (persistReconciliation env r)) (ir_reconciliation ?sel))) = (r', db'')"
    obtain r2 db2 where second: "forEachTx (\<lambda>a. withTenantTx (persistAttribution env a)) (ir_attributions ?sel) db1 = (r2, db2)" by fastforce
    have grown2: "appends S db1 db2"
      by (rule appends_mono[OF attribution_writer.transactions[OF second]]) (use parts(1) in auto)
    show "appends S db1 db''"
    proof (rule thenDo_appends[OF rest second grown2])
      fix a r' db'' assume rest: "thenDo (forEachTx (persistFraudDecision env revision values) (ir_fraud_decisions ?sel) db2)
        (\<lambda>_. forEachTx (\<lambda>r. withTenantTx (persistReconciliation env r)) (ir_reconciliation ?sel)) = (r', db'')"
      obtain r3 db3 where third: "forEachTx (persistFraudDecision env revision values) (ir_fraud_decisions ?sel) db2 = (r3, db3)" by fastforce
      have grown3: "appends S db2 db3"
        by (rule forEachTx_appends[OF third]) (auto dest!: persistFraudDecision_appends intro: appends_mono[OF _ S(2)])
      show "appends S db2 db''"
      proof (rule thenDo_appends[OF rest third grown3])
        fix a r' db'' assume "forEachTx (\<lambda>r. withTenantTx (persistReconciliation env r)) (ir_reconciliation ?sel) db3 = (r', db'')"
        from reconciliation_writer.transactions[OF this] show "appends S db3 db''"
          by (rule appends_mono) (use parts(2) in auto)
      qed
    qed
  qed
qed


section \<open>Writing in bulk\<close>

lemma withTenantTx_cases:
  assumes "withTenantTx f db = (r, db')"
  obtains e where "f db = Inl e" "r = Inl e" "db' = db" | "f db = Inr db'" "r = Inr ()"
  using assms by (auto simp: withTenantTx_def split: sum.splits)

lemma bulkProjection_rows:
  assumes "bulkProjectionRows values logicals = Inr p"
  shows "\<forall>t \<in> set (bp_byTable p). \<forall>row \<in> set (snd t). \<exists>e \<in> set logicals. \<exists>q. row = factRow e q"
    "set (bp_fallback p) \<subseteq> set logicals"
proof -
  have "(\<forall>t \<in> set (bp_byTable p). \<forall>row \<in> set (snd t). \<exists>e \<in> set logicals. \<exists>q. row = factRow e q) \<and>
      set (bp_fallback p) \<subseteq> set logicals"
    if "foldR (bulkProjectionStep values) p0 es = Inr p" "set es \<subseteq> set logicals"
      "\<forall>t \<in> set (bp_byTable p0). \<forall>row \<in> set (snd t). \<exists>e \<in> set logicals. \<exists>q. row = factRow e q"
      "set (bp_fallback p0) \<subseteq> set logicals" for p0 es
    using that
  proof (induction es arbitrary: p0)
    case Nil
    then show ?case by simp
  next
    case (Cons e es)
    then obtain p1 where step: "bulkProjectionStep values p0 e = Inr p1" "foldR (bulkProjectionStep values) p1 es = Inr p"
      by (auto simp: res_simps)
    have update: "set (AList.update k v m) \<subseteq> insert (k, v) (set m)" for k v and m :: "(string \<times> ledger_row list) list"
      by (induction m) auto
    have rows: "\<forall>row \<in> set (orElse (map_of (bp_byTable p0) t) []). \<exists>e \<in> set logicals. \<exists>q. row = factRow e q" for t
    proof (cases "map_of (bp_byTable p0) t")
      case None
      then show ?thesis by simp
    next
      case (Some rs)
      from map_of_SomeD[OF this] Cons.prems(3) Some show ?thesis by (metis orElse_simps(2) snd_conv)
    qed
    have "\<forall>t \<in> set (bp_byTable p1). \<forall>row \<in> set (snd t). \<exists>e \<in> set logicals. \<exists>q. row = factRow e q"
    proof (intro ballI)
      fix t row assume t: "t \<in> set (bp_byTable p1)" "row \<in> set (snd t)"
      show "\<exists>e \<in> set logicals. \<exists>q. row = factRow e q"
      proof (cases "t \<in> set (bp_byTable p0)")
        case True
        then show ?thesis using t Cons.prems(3) by blast
      next
        case False
        then obtain table q where "p1 = appendProjection table (factRow e q) p0"
          using step(1) t(1) by (auto simp: bulkProjectionStep_def split: option.splits bulk_target.splits)
        with False t(1) update have "t = (table, orElse (map_of (bp_byTable p0) table) [] @ [factRow e q])"
          by (auto simp: appendProjection_def)
        with t(2) rows[of table] Cons.prems(2) show ?thesis by auto
      qed
    qed
    moreover have "set (bp_fallback p1) \<subseteq> set logicals"
      using step(1) Cons.prems(2,4) by (auto simp: bulkProjectionStep_def appendProjection_def split: option.splits bulk_target.splits)
    ultimately show ?case using Cons.IH[OF step(2)] Cons.prems(2) by simp
  qed
  from this[of "\<lparr>bp_byTable = [], bp_fallback = []\<rparr>" logicals] assms
  show "\<forall>t \<in> set (bp_byTable p). \<forall>row \<in> set (snd t). \<exists>e \<in> set logicals. \<exists>q. row = factRow e q"
    "set (bp_fallback p) \<subseteq> set logicals"
    by (simp_all add: bulkProjectionRows_def)
qed

text \<open>The statements of a bulk write that succeeds.\<close>

lemma persistBulk_steps:
  assumes "persistBulk env revision values plan db = (Inr u, db')"
  obtains rawRows projections db1 db2 db3 db4 db5 db6 db7 db8 db9 where
    "bulkRawRows (pl_input plan) (ir_raw_records (pl_selected plan)) = Inr rawRows"
    "bulkProjectionRows (inputAttempts (pl_input plan)) (ir_logical_events (pl_selected plan)) = Inr projections"
    "insertJsonRows (ie_refused env) rawRows db = Inr db1"
    "insertJsonRows (ie_refused env) (map availableState (ir_raw_records (pl_selected plan))) db1 = Inr db2"
    "insertJsonRows (ie_refused env) (bulkDeliveryRows env db2 (ir_deliveries (pl_selected plan))) db2 = Inr db3"
    "insertJsonRows (ie_refused env) (map LogicalRow (ir_logical_events (pl_selected plan))) db3 = Inr db4"
    "foldR (\<lambda>d table. insertJsonRows (ie_refused env) (snd table) d) db4 (bp_byTable projections) = Inr db5"
    "foldR (\<lambda>d logical. persistProjection (ie_refused env) (inputAttempts (pl_input plan)) logical d) db5 (bp_fallback projections) = Inr db6"
    "insertJsonRows (ie_refused env) (map RejectionRow (ir_rejections (pl_selected plan))) db6 = Inr db7"
    "insertJsonRows (ie_refused env) (map AttributionRow (ir_attributions (pl_selected plan))) db7 = Inr db8"
    "bulkFraud env revision (tenant_id (hd values), app_id (hd values)) (ir_fraud_decisions (pl_selected plan)) db8 = Inr db9"
    "insertJsonRows (ie_refused env) (map ReconciliationRow (ir_reconciliation (pl_selected plan))) db9 = Inr db'"
  using assms by (auto simp: persistBulk_def Let_def withTenantTx_def res_simps split: sum.splits prod.splits)

lemma persistBulk_failed: "persistBulk env revision values plan db = (Inl e, db') \<Longrightarrow> db' = db"
  by (auto simp: persistBulk_def Let_def withTenantTx_def split: sum.splits prod.splits)

lemma bulkFraud_appends:
  assumes "bulkFraud env revision scope frauds db = Inr db'" "scope \<in> S"
  shows "appends S db db'"
proof (cases "frauds = []")
  case True
  then show ?thesis using assms by (simp add: bulkFraud_def)
next
  case False
  then obtain db1 where steps: "insertJsonRows (ie_refused env) (map (fraudRow scope) frauds) db = Inr db1"
    "insertJsonRows (ie_refused env) (map (quarantineRow scope) (filter (\<lambda>f. f_action f = Quarantine) frauds)) db1 = Inr db'"
    using assms(1) by (auto simp: bulkFraud_def res_simps split: option.splits)
  have "appends S db db1" by (rule insertJsonRows_appends[OF steps(1)]) (use assms(2) in \<open>auto simp: fraudRow_def\<close>)
  also have "appends S db1 db'"
    by (rule insertJsonRows_appends[OF steps(2)]) (use assms(2) in \<open>auto simp: quarantineRow_def\<close>)
  finally show ?thesis .
qed

lemma bulkRawRows_rows:
  "bulkRawRows input raws = Inr rows \<Longrightarrow> row \<in> set rows \<Longrightarrow> \<exists>digest. \<exists>raw \<in> set raws. row = RawRow digest raw"
  by (auto simp: bulkRawRows_def res_simps dest!: mapR_Inr_set)

lemma foldR_appends:
  assumes "foldR f db xs = Inr db'" "\<And>x d d'. x \<in> set xs \<Longrightarrow> f d x = Inr d' \<Longrightarrow> appends S d d'"
  shows "appends S db db'"
  using assms
proof (induction xs arbitrary: db)
  case Nil
  then show ?case by simp
next
  case (Cons x xs)
  then obtain d where "f db x = Inr d" "foldR f d xs = Inr db'" by (auto simp: res_simps)
  with Cons show ?case by (meson appends_trans list.set_intros)
qed

lemma persistBulk_appends:
  assumes w: "persistBulk env revision values plan db = (Inr u, db')"
    and S: "resultScopes (pl_selected plan) \<subseteq> S" "attemptScope ` set values \<subseteq> S" "values \<noteq> []"
  shows "appends S db db'"
proof -
  let ?sel = "pl_selected plan"
  obtain rawRows projections db1 db2 db3 db4 db5 db6 db7 db8 db9 where p:
    "bulkRawRows (pl_input plan) (ir_raw_records ?sel) = Inr rawRows"
    "bulkProjectionRows (inputAttempts (pl_input plan)) (ir_logical_events ?sel) = Inr projections"
    "insertJsonRows (ie_refused env) rawRows db = Inr db1"
    "insertJsonRows (ie_refused env) (map availableState (ir_raw_records ?sel)) db1 = Inr db2"
    "insertJsonRows (ie_refused env) (bulkDeliveryRows env db2 (ir_deliveries ?sel)) db2 = Inr db3"
    "insertJsonRows (ie_refused env) (map LogicalRow (ir_logical_events ?sel)) db3 = Inr db4"
    "foldR (\<lambda>d table. insertJsonRows (ie_refused env) (snd table) d) db4 (bp_byTable projections) = Inr db5"
    "foldR (\<lambda>d logical. persistProjection (ie_refused env) (inputAttempts (pl_input plan)) logical d) db5 (bp_fallback projections) = Inr db6"
    "insertJsonRows (ie_refused env) (map RejectionRow (ir_rejections ?sel)) db6 = Inr db7"
    "insertJsonRows (ie_refused env) (map AttributionRow (ir_attributions ?sel)) db7 = Inr db8"
    "bulkFraud env revision (tenant_id (hd values), app_id (hd values)) (ir_fraud_decisions ?sel) db8 = Inr db9"
    "insertJsonRows (ie_refused env) (map ReconciliationRow (ir_reconciliation ?sel)) db9 = Inr db'"
    by (rule persistBulk_steps[OF w])
  note scopes = S(1)[unfolded resultScopes_def]
  have events: "(le_tenant_id e, le_app_id e) \<in> S" if "e \<in> set (ir_logical_events ?sel)" for e using that scopes by auto
  have "appends S db db1"
    by (rule insertJsonRows_appends[OF p(3)]) (use scopes in \<open>auto dest!: bulkRawRows_rows[OF p(1)]\<close>)
  also have "appends S db1 db2"
    by (rule insertJsonRows_appends[OF p(4)]) (use scopes in \<open>auto simp: availableState_def\<close>)
  also have "appends S db2 db3"
    by (rule insertJsonRows_appends[OF p(5)]) (use scopes in \<open>auto simp: bulkDeliveryRows_def in_set_enumerate_eq\<close>)
  also have "appends S db3 db4"
    by (rule insertJsonRows_appends[OF p(6)]) (use scopes in auto)
  also have "appends S db4 db5"
  proof -
    have "rowScope row \<in> S" if t: "t \<in> set (bp_byTable projections)" "row \<in> set (snd t)" for t row
    proof -
      obtain e q where e: "e \<in> set (ir_logical_events ?sel)" "row = factRow e q"
        using bspec[OF bspec[OF bulkProjection_rows(1)[OF p(2)] t(1)] t(2)] by (elim bexE exE)
      from events e(1) have "(le_tenant_id e, le_app_id e) \<in> S" by blast
      with e(2) show ?thesis by (simp add: factRow_def)
    qed
    then show ?thesis by (intro foldR_appends[OF p(7)]) (auto intro: insertJsonRows_appends)
  qed
  also have "appends S db5 db6"
    by (rule appends_mono[OF projection_writer.folded[OF p(8)]]) (use bulkProjection_rows(2)[OF p(2)] events in auto)
  also have "appends S db6 db7"
    by (rule insertJsonRows_appends[OF p(9)]) (use scopes in auto)
  also have "appends S db7 db8"
    by (rule insertJsonRows_appends[OF p(10)]) (use scopes in auto)
  also have "appends S db8 db9"
    by (rule bulkFraud_appends[OF p(11)]) (use S(2,3) in auto)
  also have "appends S db9 db'"
    by (rule insertJsonRows_appends[OF p(12)]) (use scopes in auto)
  finally show ?thesis .
qed


section \<open>A batch\<close>

lemma attemptScope_runtimeInput: "attemptScope ` set (inputAttempts (runtimeInput values)) \<subseteq> attemptScope ` set values"
proof
  fix s assume "s \<in> attemptScope ` set (inputAttempts (runtimeInput values))"
  then obtain a where "a \<in> set (attempts (runtimeInput values))" "s = attemptScope a" by (auto simp: inputAttempts_attempts)
  with runtimeInput_attempts[of a "values"] show "s \<in> attemptScope ` set values" by (auto simp: image_iff)
qed

text \<open>The stages of an ingestion of one scope.\<close>

lemma ingestScope_cases:
  assumes "ingestScope env bulk values historical db = (r, db')" "values \<noteq> []"
  obtains (apps) e where "ensureApps (ie_refused env) (runtimeInput values) db = (Inl e, db')" "r = Inl e"
  | (planned) e u where "ensureApps (ie_refused env) (runtimeInput values) db = (Inr u, db')" "r = Inl e"
  | (written) u db1 revision plan r1 where "ensureApps (ie_refused env) (runtimeInput values) db = (Inr u, db1)"
      "case_prod (resolveActiveFraudBundle (ie_H env) (db_revisions db1)) (scopePair (scopeText (hd values))) = Inr revision"
      "planIngestion env revision db1 values historical = Inr plan"
      "(if bulk then persistBulk else persistSequential) env revision values plan db1 = (r1, db')"
      "r = (case r1 of Inl e \<Rightarrow> Inl e | Inr u \<Rightarrow> Inr (pl_selected plan))"
proof -
  obtain r0 db1 where first: "ensureApps (ie_refused env) (runtimeInput values) db = (r0, db1)" by fastforce
  note unfolded = assms(1)[unfolded ingestScope_def first, simplified assms(2) if_False]
  show ?thesis
  proof (cases r0)
    case (Inl e)
    then show ?thesis using unfolded first that(1) assms(2) by (simp add: thenDo_def)
  next
    case (Inr u)
    show ?thesis
    proof (cases "case_prod (resolveActiveFraudBundle (ie_H env) (db_revisions db1)) (scopePair (scopeText (hd values)))")
      case (Inl e)
      then show ?thesis using unfolded first \<open>r0 = Inr u\<close> assms(2) by (intro that(2)[of u e]) (simp_all add: thenDo_def)
    next
      case revision: (Inr revision)
      show ?thesis
      proof (cases "planIngestion env revision db1 values historical")
        case (Inl e)
        then show ?thesis using unfolded first \<open>r0 = Inr u\<close> assms(2) revision by (intro that(2)[of u e]) (simp_all add: thenDo_def)
      next
        case plan: (Inr plan)
        obtain r1 db2 where wr: "(if bulk then persistBulk else persistSequential) env revision values plan db1 = (r1, db2)" by fastforce
        then have "(r, db') = ((case r1 of Inl e \<Rightarrow> Inl e | Inr u \<Rightarrow> Inr (pl_selected plan)), db2)"
          using unfolded \<open>r0 = Inr u\<close> assms(2) revision plan by (simp add: thenDo_def split: sum.splits)
        then show ?thesis using that(3)[OF _ revision plan] first \<open>r0 = Inr u\<close> wr by simp
      qed
    qed
  qed
qed

lemma ingestScope_appends:
  assumes "ingestScope env bulk values historical db = (r, db')"
  shows "appends (attemptScope ` set (historical @ values)) db db'"
proof (cases "values = []")
  case True
  then show ?thesis using assms by (simp add: ingestScope_def)
next
  case False
  let ?S = "attemptScope ` set (historical @ values)"
  have apps: "appends ?S db db1" if "ensureApps (ie_refused env) (runtimeInput values) db = (r0, db1)" for r0 db1
    by (rule appends_mono[OF ensureApps_appends[OF that]]) (use attemptScope_runtimeInput[of "values"] in auto)
  show ?thesis
  proof (rule ingestScope_cases[OF assms False])
    fix u db1 revision plan r1
    assume 1: "ensureApps (ie_refused env) (runtimeInput values) db = (Inr u, db1)"
      and plan: "planIngestion env revision db1 values historical = Inr plan"
      and wr: "(if bulk then persistBulk else persistSequential) env revision values plan db1 = (r1, db')"
    note scopes = plan_scopes[OF plan False]
    have "appends ?S db1 db'"
    proof (cases bulk)
      case True
      then have bulked: "persistBulk env revision values plan db1 = (r1, db')" using wr by simp
      show ?thesis
      proof (cases r1)
        case (Inl e)
        then show ?thesis using persistBulk_failed[of env revision "values" plan db1 e db'] bulked by simp
      next
        case (Inr u)
        from persistBulk_appends[OF bulked[unfolded Inr] scopes _ False] show ?thesis by auto
      qed
    next
      case False
      then have "persistSequential env revision values plan db1 = (r1, db')" using wr by simp
      from persistSequential_appends[OF this scopes] show ?thesis by auto
    qed
    with apps[OF 1] show ?thesis by (rule appends_trans)
  qed (auto dest: apps)
qed

lemma ingestScopes_appends:
  "ingestScopes env bulk values historical scopes combined db = (r, db') \<Longrightarrow>
     appends (attemptScope ` set (historical @ values)) db db'"
proof (induction scopes arbitrary: combined db r db')
  case Nil
  then show ?case by simp
next
  case (Cons scope scopes)
  obtain r1 db1 where first: "ingestScope env bulk (filter (inScope scope) values) (filter (inScope scope) historical) db = (r1, db1)"
    by fastforce
  have grown: "appends (attemptScope ` set (historical @ values)) db db1"
    by (rule appends_mono[OF ingestScope_appends[OF first]]) auto
  show ?case
    by (rule thenDo_appends[OF Cons.prems[unfolded ingestScopes.simps] first grown]) (rule Cons.IH)
qed

lemma ingestRuntimeBatch_appends:
  "ingestRuntimeBatch env bulk values historical db = (r, db') \<Longrightarrow>
     appends (attemptScope ` set (historical @ values)) db db'"
  by (auto simp: ingestRuntimeBatch_def Let_def split: if_splits dest: ingestScopes_appends ingestScope_appends)

section \<open>Laws of results\<close>

text \<open>
  What holds of the selection of every plan, for the attempts it was made from, holds of the
  result of a batch, whichever way it is written and however many scopes it has.
\<close>

locale result_law =
  fixes env :: ingest_env and Q :: "attempt list \<Rightarrow> ingestion_result \<Rightarrow> bool"
  assumes empty_result: "Q xs emptyResult"
    and append_result: "Q xs a \<Longrightarrow> Q xs b \<Longrightarrow> Q xs (appendResult a b)"
    and more_attempts: "Q xs a \<Longrightarrow> set xs \<subseteq> set ys \<Longrightarrow> Q ys a"
    and of_plan: "planIngestion env revision db values historical = Inr plan \<Longrightarrow> Q (historical @ values) (pl_selected plan)"
begin

lemma of_scope:
  assumes "ingestScope env bulk values historical db = (Inr result, db')"
  shows "Q (historical @ values) result"
proof (cases "values = []")
  case True
  then show ?thesis using assms empty_result by (simp add: ingestScope_def)
next
  case False
  show ?thesis
    by (rule ingestScope_cases[OF assms False]) (auto split: sum.splits dest: of_plan)
qed

lemma of_scopes:
  "ingestScopes env bulk values historical scopes combined db = (Inr result, db') \<Longrightarrow>
     Q (historical @ values) combined \<Longrightarrow> Q (historical @ values) result"
proof (induction scopes arbitrary: combined db)
  case Nil
  then show ?case by simp
next
  case (Cons scope scopes)
  obtain r1 db1 where first: "ingestScope env bulk (filter (inScope scope) values) (filter (inScope scope) historical) db = (r1, db1)"
    by fastforce
  then obtain one where one: "r1 = Inr one"
    "ingestScopes env bulk values historical scopes (appendResult combined one) db1 = (Inr result, db')"
    using Cons.prems(1) by (cases r1) (auto simp: thenDo_def)
  have "Q (historical @ values) one"
    by (rule more_attempts[OF of_scope[OF first[unfolded one(1)]]]) auto
  with Cons.IH[OF one(2)] Cons.prems(2) append_result show ?case by simp
qed

lemma of_batch:
  assumes "ingestRuntimeBatch env bulk values historical db = (Inr result, db')"
  shows "Q (historical @ values) result"
  using assms empty_result
  by (auto simp: ingestRuntimeBatch_def Let_def split: if_splits dest: of_scopes of_scope)

end

end
