(* ===== verification/IngestOutcome.thy ===== *)
theory IngestOutcome
  imports IngestStore
begin

text \<open>
  The outcome of an ingestion: a bulk write is complete or adds nothing but apps, what is
  stored passed the schema, and the rows collected for a bulk write are those written one
  event at a time.
\<close>

section \<open>Complete or nothing\<close>

definition holdsRow :: "ledger_row list \<Rightarrow> ledger_row \<Rightarrow> bool" where
  "holdsRow rows row = (case rowKey row of None \<Rightarrow> row \<in> set rows | Some key \<Rightarrow> keyedRow rows key \<noteq> None)"

lemma holdsRow_mono:
  assumes "appends S db db'" "holdsRow (db_rows db) row"
  shows "holdsRow (db_rows db') row"
  using assms by (auto simp: appends_def holdsRow_def keyedRow_append split: option.splits)

lemma insertRow_holds:
  assumes "insertRow refused row db = Inr db'"
  shows "holdsRow (db_rows db') row"
proof (cases "rowKey row")
  case None
  then show ?thesis using assms by (simp add: insertRow_Inr holdsRow_def conflicting_iff)
next
  case (Some key)
  then show ?thesis using assms
    by (auto simp: insertRow_Inr holdsRow_def conflicting_iff keyedRow_None_iff[of _ key] simp del: not_None_eq)
qed

lemma insertRows_holds:
  "insertRows refused rows db = Inr db' \<Longrightarrow> row \<in> set rows \<Longrightarrow> holdsRow (db_rows db') row"
proof (induction rows arbitrary: db)
  case (Cons r rows)
  then obtain db1 where steps: "insertRow refused r db = Inr db1" "insertRows refused rows db1 = Inr db'"
    by (auto simp: insertRows_def res_simps)
  show ?case
  proof (cases "row = r")
    case True
    from insertRows_appends[OF steps(2) subset_UNIV] insertRow_holds[OF steps(1)] True
    show ?thesis by (auto intro: holdsRow_mono)
  qed (use Cons steps in auto)
qed simp

lemma insertJsonRows_holds:
  "insertJsonRows refused rows db = Inr db' \<Longrightarrow> row \<in> set rows \<Longrightarrow> holdsRow (db_rows db') row"
proof (induction refused rows db rule: insertJsonRows.induct)
  case (1 refused rows db)
  then have "rows \<noteq> []" by auto
  then obtain db1 where steps: "insertRows refused (take runtimeBulkChunkSize rows) db = Inr db1"
    "insertJsonRows refused (drop runtimeBulkChunkSize rows) db1 = Inr db'"
    using 1(2) by (subst (asm) insertJsonRows.simps) (auto simp: res_simps)
  have "row \<in> set (take runtimeBulkChunkSize rows) \<or> row \<in> set (drop runtimeBulkChunkSize rows)"
    using 1(3) by (metis append_take_drop_id Un_iff set_append)
  then show ?case
  proof
    assume "row \<in> set (take runtimeBulkChunkSize rows)"
    from insertRows_holds[OF steps(1) this] insertJsonRows_appends[OF steps(2) subset_UNIV]
    show ?thesis by (auto intro: holdsRow_mono)
  next
    assume "row \<in> set (drop runtimeBulkChunkSize rows)"
    with 1(1)[OF \<open>rows \<noteq> []\<close> steps] show ?thesis by simp
  qed
qed

definition storedResult :: "ledger_row list \<Rightarrow> ingestion_result \<Rightarrow> bool" where
  "storedResult rows r \<longleftrightarrow>
     (\<forall>x \<in> set (ir_raw_records r). keyedRow rows (''raw_records'', [rr_record_id x]) \<noteq> None) \<and>
     (\<forall>d \<in> set (ir_deliveries r). \<exists>i. DeliveryRow i d \<in> set rows) \<and>
     (\<forall>e \<in> set (ir_logical_events r). keyedRow rows (''logical_events'', [le_logical_event_id e]) \<noteq> None) \<and>
     (\<forall>x \<in> set (ir_rejections r). RejectionRow x \<in> set rows) \<and>
     (\<forall>a \<in> set (ir_attributions r). keyedRow rows (''attribution_results'', [a_attribution_id a]) \<noteq> None)"

lemma persistBulk_stored:
  assumes w: "persistBulk env revision values plan db = (Inr u, db')"
  shows "storedResult (db_rows db') (pl_selected plan)"
proof -
  let ?sel = "pl_selected plan" and ?U = "UNIV :: (string \<times> string) set"
  obtain rawRows projections db1 db2 db3 db4 db5 db6 db7 db8 db9 where p:
    "bulkRawRows (pl_input plan) (ir_raw_records ?sel) = Inr rawRows"
    "bulkProjectionRows (inputAttempts (pl_input plan)) (ir_logical_events ?sel) = Inr projections"
    "insertJsonRows (ie_refused env) rawRows db = Inr db1"
    "insertJsonRows (ie_refused env) (map availableState (ir_raw_records ?sel)) db1 = Inr db2"
    "insertJsonRows (ie_refused env) (bulkDeliveryRows env db2 (ir_deliveries ?sel)) db2 = Inr db3"
    "insertJsonRows (ie_refused env) (map LogicalRow (ir_logical_events ?sel)) db3 = Inr db4"
    "foldR (\<lambda>d table. insertJsonRows (ie_refused env) (snd table) d) db4 (bp_byTable projections) = Inr db5"
    "foldR (\<lambda>d logical. persistProjection (ie_refused env) (inputAttempts (pl_input plan)) logical d) db5 (bp_fallback projections) = Inr db6"
    "insertJsonRows (ie_refused env) (map RejectionRow (ir_rejections ?sel)) db6 = Inr db7"
    "insertJsonRows (ie_refused env) (map AttributionRow (ir_attributions ?sel)) db7 = Inr db8"
    "bulkFraud env revision (tenant_id (hd values), app_id (hd values)) (ir_fraud_decisions ?sel) db8 = Inr db9"
    "insertJsonRows (ie_refused env) (map ReconciliationRow (ir_reconciliation ?sel)) db9 = Inr db'"
    by (rule persistBulk_steps[OF w])
  have last: "appends ?U db9 db'" by (rule insertJsonRows_appends[OF p(12)]) simp
  have from8: "appends ?U db8 db'" by (rule appends_trans[OF bulkFraud_appends[OF p(11)] last]) simp
  have from7: "appends ?U db7 db'" by (rule appends_trans[OF insertJsonRows_appends[OF p(10)] from8]) simp
  have from6: "appends ?U db6 db'" by (rule appends_trans[OF insertJsonRows_appends[OF p(9)] from7]) simp
  have from5: "appends ?U db5 db'"
    by (rule appends_trans[OF appends_mono[OF projection_writer.folded[OF p(8)]] from6]) simp
  have from4: "appends ?U db4 db'"
    by (rule appends_trans[OF foldR_appends[OF p(7)] from5]) (auto intro: insertJsonRows_appends)
  have from3: "appends ?U db3 db'" by (rule appends_trans[OF insertJsonRows_appends[OF p(6)] from4]) simp
  have from2: "appends ?U db2 db'" by (rule appends_trans[OF insertJsonRows_appends[OF p(5)] from3]) simp
  have from1: "appends ?U db1 db'" by (rule appends_trans[OF insertJsonRows_appends[OF p(4)] from2]) simp
  have raws: "keyedRow (db_rows db') (''raw_records'', [rr_record_id x]) \<noteq> None" if "x \<in> set (ir_raw_records ?sel)" for x
  proof -
    have "mapR (\<lambda>raw. bindR (policyDigestForRecord (pl_input plan) (rr_record_id raw)) (\<lambda>digest. Inr (RawRow digest raw)))
        (ir_raw_records ?sel) = Inr rawRows" using p(1) by (simp add: bulkRawRows_def)
    from mapR_Inr_set'[OF this that] obtain digest where "RawRow digest x \<in> set rawRows" by (auto simp: res_simps)
    from holdsRow_mono[OF from1 insertJsonRows_holds[OF p(3) this]] show ?thesis by (simp add: holdsRow_def)
  qed
  have deliveries: "\<exists>i. DeliveryRow i d \<in> set (db_rows db')" if d: "d \<in> set (ir_deliveries ?sel)" for d
  proof -
    obtain n where "n < length (ir_deliveries ?sel)" "ir_deliveries ?sel ! n = d" using d by (auto simp: in_set_conv_nth)
    then have "(n, d) \<in> set (enumerate 0 (ir_deliveries ?sel))" by (simp add: in_set_enumerate_eq)
    then obtain i where "DeliveryRow i d \<in> set (bulkDeliveryRows env db2 (ir_deliveries ?sel))"
      by (force simp: bulkDeliveryRows_def)
    from holdsRow_mono[OF from3 insertJsonRows_holds[OF p(5) this]] show ?thesis by (auto simp: holdsRow_def)
  qed
  have logicals: "keyedRow (db_rows db') (''logical_events'', [le_logical_event_id e]) \<noteq> None"
    if "e \<in> set (ir_logical_events ?sel)" for e
    using holdsRow_mono[OF from4 insertJsonRows_holds[OF p(6)], of "LogicalRow e"] that by (simp add: holdsRow_def)
  have rejections: "RejectionRow x \<in> set (db_rows db')" if "x \<in> set (ir_rejections ?sel)" for x
    using holdsRow_mono[OF from7 insertJsonRows_holds[OF p(9)], of "RejectionRow x"] that by (simp add: holdsRow_def)
  have attributions: "keyedRow (db_rows db') (''attribution_results'', [a_attribution_id a]) \<noteq> None"
    if "a \<in> set (ir_attributions ?sel)" for a
    using holdsRow_mono[OF from8 insertJsonRows_holds[OF p(10)], of "AttributionRow a"] that by (simp add: holdsRow_def)
  from raws deliveries logicals rejections attributions show ?thesis by (simp add: storedResult_def)
qed

text \<open>Registering the apps adds nothing but apps.\<close>

definition addsApps :: "ledger_db \<Rightarrow> ledger_db \<Rightarrow> bool" where
  "addsApps db db' \<longleftrightarrow> (\<exists>added. db_rows db' = db_rows db @ added \<and> (\<forall>row \<in> set added. \<exists>t a c. row = AppRow t a c))"

lemma addsApps_refl [simp]: "addsApps db db"
  by (simp add: addsApps_def)

lemma addsApps_trans: "addsApps db1 db2 \<Longrightarrow> addsApps db2 db3 \<Longrightarrow> addsApps db1 db3"
  unfolding addsApps_def by (elim exE conjE) (rule exI[where x = "_ @ _"], auto)

lemma ensureApps_addsApps:
  assumes "ensureApps refused input db = (r, db')"
  shows "addsApps db db'"
proof -
  have "addsApps db db'" if "forEachTx (\<lambda>s. withTenantTx (insertRow refused (AppRow (f s) (g s) c))) xs db = (r, db')"
    for f g c and xs :: "(string \<times> string \<times> string) list"
    using that
  proof (induction xs arbitrary: db)
    case Nil
    then show ?case by simp
  next
    case (Cons x xs)
    obtain r1 db1 where first: "withTenantTx (insertRow refused (AppRow (f x) (g x) c)) db = (r1, db1)" by fastforce
    have "addsApps db db1"
      using first by (auto simp: withTenantTx_def insertRow_def addsApps_def split: sum.splits option.splits if_splits)
    moreover have "addsApps db1 db'"
      using Cons first by (cases r1) (auto simp: thenDo_def)
    ultimately show ?case by (rule addsApps_trans)
  qed
  from this[of "\<lambda>s. fst (snd s)" "\<lambda>s. snd (snd s)" "defaultTimestamp input"] assms
  show ?thesis by (simp add: ensureApps_def)
qed

lemma bulk_outcome:
  assumes "ingestScope env True values historical db = (r, db')"
  shows "case r of Inl e \<Rightarrow> addsApps db db' | Inr result \<Rightarrow> storedResult (db_rows db') result"
proof (cases "values = []")
  case True
  then show ?thesis using assms by (auto simp: ingestScope_def emptyResult_def storedResult_def)
next
  case False
  show ?thesis
  proof (rule ingestScope_cases[OF assms False])
    fix u db1 revision plan r1
    assume apps: "ensureApps (ie_refused env) (runtimeInput values) db = (Inr u, db1)"
      and wr: "(if True then persistBulk else persistSequential) env revision values plan db1 = (r1, db')"
      and r: "r = (case r1 of Inl e \<Rightarrow> Inl e | Inr u \<Rightarrow> Inr (pl_selected plan))"
    show ?thesis
    proof (cases r1)
      case (Inl e)
      then show ?thesis using persistBulk_failed[of env revision "values" plan db1 e db'] wr r ensureApps_addsApps[OF apps] by simp
    next
      case (Inr u)
      then show ?thesis using persistBulk_stored[of env revision "values" plan db1 u db'] wr r by simp
    qed
  qed (use ensureApps_addsApps in auto)
qed

section \<open>What is stored passed the schema\<close>

definition fromValid :: "ingest_env \<Rightarrow> attempt list \<Rightarrow> ingestion_result \<Rightarrow> bool" where
  "fromValid env values r \<longleftrightarrow>
     (\<forall>x \<in> set (ir_raw_records r). \<exists>v \<in> set values. record_id v = rr_record_id x \<and>
        attemptScope v = (rr_tenant_id x, rr_app_id x) \<and> ie_validate env (event_name v) (at_payload v) = None) \<and>
     (\<forall>e \<in> set (ir_logical_events r). \<exists>v \<in> set values. record_id v = le_record_id e \<and>
        attemptScope v = (le_tenant_id e, le_app_id e) \<and> ie_validate env (event_name v) (at_payload v) = None)"

lemma fromValid_append: "fromValid env values (appendResult a b) \<longleftrightarrow> fromValid env values a \<and> fromValid env values b"
  by (auto simp: fromValid_def appendResult_def)

lemma fromValid_mono: "fromValid env xs r \<Longrightarrow> set xs \<subseteq> set ys \<Longrightarrow> fromValid env ys r"
  unfolding fromValid_def by (meson subsetD)

lemma plan_fromValid:
  assumes "planIngestion env revision db values historical = Inr plan"
  shows "fromValid env (historical @ values) (pl_selected plan)"
proof -
  obtain all out invalid where input: "pl_input plan = runtimeInput all" and p:
    "evaluate (ie_H env) createIndexedCandidateProvider (runtimeInput all) = Inr out"
    "invalid = List.map_filter (schemaInvalidArtifacts env) (map (bindAttempt (ie_H env) revision) values)"
    "pl_selected plan = selectCurrent (map (\<lambda>a. record_id a) (validAttempts env revision values))
       (map (\<lambda>a. r_delivery_id (at_record a)) (validAttempts env revision values)) (tenant_id (hd values)) (app_id (hd values)) invalid out"
    "\<forall>a \<in> set all. \<exists>v \<in> set (historical @ values). sameOrigin a v \<and> ie_validate env (event_name v) (at_payload v) = None"
    by (rule planIngestion_Inr[OF assms])
  let ?valid = "\<lambda>v. ie_validate env (event_name v) (at_payload v) = None"
  have raw: "\<exists>v \<in> set (historical @ values). record_id v = rr_record_id x \<and> attemptScope v = (rr_tenant_id x, rr_app_id x) \<and> ?valid v"
    if x: "x \<in> set (o_raw_records out)" for x
  proof -
    obtain a where a: "a \<in> set (attempts (runtimeInput all))" "makeRawRecord (ie_H env) Available a = Inr x"
      by (rule indexed.raw_record_attempt[OF p(1) x])
    from plan_input_origin[OF a(1) p(4)] obtain v where v: "v \<in> set (historical @ values)" "sameOrigin a v" "?valid v" by blast
    with makeRawRecord_identity[OF a(2)] show ?thesis by (intro bexI[of _ v]) (simp_all add: sameOrigin_def sameScope_def)
  qed
  have logical: "\<exists>v \<in> set (historical @ values). record_id v = le_record_id x \<and> attemptScope v = (le_tenant_id x, le_app_id x) \<and> ?valid v"
    if x: "x \<in> set (o_logical_events out)" for x
  proof -
    obtain a where a: "a \<in> set (attempts (runtimeInput all))" "x = makeLogicalEvent a"
      by (rule indexed.logical_event_source[OF p(1) x])
    from plan_input_origin[OF a(1) p(4)] obtain v where v: "v \<in> set (historical @ values)" "sameOrigin a v" "?valid v" by blast
    with a(2) show ?thesis by (intro bexI[of _ v]) (simp_all add: sameOrigin_def sameScope_def)
  qed
  show ?thesis unfolding fromValid_def p(3) selectCurrent_simps using raw logical by simp
qed

interpretation from_valid: result_law env "fromValid env" for env
proof
  show "fromValid env xs emptyResult" for xs by (simp add: fromValid_def emptyResult_def)
qed (auto simp: fromValid_append dest: fromValid_mono plan_fromValid)

end
