(* ===== verification/IngestTotal.thy ===== *)
theory IngestTotal
  imports IngestOutcome
begin

text \<open>
  A bulk ingestion ends: when the database refuses no row, the rows of a plan can be built,
  the times of the deep link opens can be compared and the fraud decisions carry the bundle in
  force, so that only the bundle or the evaluation can end it with an error.
\<close>

section \<open>Accepted events\<close>

text \<open>An event was accepted: its times are canonical and its record identifier occurs once.\<close>

definition soleRecord :: "attempt list \<Rightarrow> attempt \<Rightarrow> bool" where
  "soleRecord values a \<longleftrightarrow> a \<in> set values \<and> (\<forall>b \<in> set values. record_id b = record_id a \<longrightarrow> b = a) \<and>
     canonicalTime (r_occurred_at (at_record a)) \<noteq> None"

lemma sole_filter:
  assumes "length (filter P xs) \<le> 1" "x \<in> set xs" "P x" "y \<in> set xs" "P y"
  shows "x = y"
proof -
  have "x \<in> set (filter P xs)" "y \<in> set (filter P xs)" using assms by simp_all
  then show ?thesis using assms(1) by (cases "filter P xs") auto
qed

context candidate_provider
begin

lemma accepted_sole:
  assumes st: "evaluationState H mk input = Inr st" and a: "a \<in> set (es_acceptedUnique st)"
  shows "soleRecord (attempts input) a"
proof -
  note accepted = accepted_attempts[OF st a]
  obtain d where d: "decide H (mk (es_all st)) a = Inr d" "d_ingestion_status d = Accepted"
    using accepted(2) by (rule acceptsE)
  have sole: "length (filter (\<lambda>c. record_id c = record_id a) (es_all st)) \<le> 1"
    using decide_accepted(3)[OF d] by (simp add: byRecordId_mk)
  have all: "set (es_all st) = set (attempts input)" by (simp add: evaluationState_Inr(1)[OF st])
  have "b = a" if "b \<in> set (attempts input)" "record_id b = record_id a" for b
    by (rule sole_filter[OF sole]) (use that accepted all in auto)
  moreover have "canonicalTime (r_occurred_at (at_record a)) \<noteq> None"
    using decide_accepted(8)[OF d] by (auto simp: time_def split: if_splits option.splits)
  ultimately show ?thesis using accepted(1) by (simp add: soleRecord_def)
qed

lemma logical_event_sole:
  assumes out: "evaluate H mk input = Inr out" and "e \<in> set (o_logical_events out)"
  obtains a where "soleRecord (attempts input) a" "e = makeLogicalEvent a"
proof -
  obtain st where st: "evaluationState H mk input = Inr st"
    "o_logical_events out = logicalEvents H (es_lifecycle st) (es_acceptedUnique st)"
    by (rule evaluate_Inr[OF out])
  then obtain a where "a \<in> set (es_acceptedUnique st)" "e = makeLogicalEvent a"
    using assms(2) by (auto simp: logicalEvents_def)
  with accepted_sole[OF st(1)] that show ?thesis by blast
qed

end

section \<open>The rows of a plan\<close>

lemma mapR_total: "(\<And>x. x \<in> set xs \<Longrightarrow> \<exists>y. f x = Inr y) \<Longrightarrow> \<exists>ys. mapR f xs = Inr ys"
  by (induction xs) (auto, metis bindR_simps)

lemma foldR_total: "(\<And>x d. x \<in> set xs \<Longrightarrow> \<exists>d'. f d x = Inr d') \<Longrightarrow> \<exists>d'. foldR f d xs = Inr d'"
proof (induction xs arbitrary: d)
  case (Cons x xs)
  then obtain d1 where "f d x = Inr d1" by fastforce
  moreover have "\<exists>d'. foldR f d1 xs = Inr d'" by (rule Cons.IH) (use Cons.prems in simp)
  ultimately show ?case by simp
qed simp

lemma policyDigest_total:
  assumes "a \<in> set (attempts input)" "record_id a = r"
  shows "\<exists>d. policyDigestForRecord input r = Inr d"
  using assms by (auto simp: policyDigestForRecord_def inputAttempts_attempts find_None_iff split: option.splits)

lemma bulkAttempt_total:
  assumes "a \<in> set values" "le_tenant_id e = tenant_id a" "le_app_id e = app_id a" "le_record_id e = record_id a"
  shows "bulkAttempt values e \<noteq> None"
proof -
  let ?key = "\<lambda>a. scopedRecordKey (tenant_id a) (app_id a) (record_id a)"
  have "?key a \<in> ?key ` set values" using assms(1) by (rule imageI)
  then show ?thesis using assms(2-) by (simp add: bulkAttempt_def map_of_eq_None_iff image_image)
qed

lemma projectionAttempt_sole:
  assumes "soleRecord values a"
  shows "projectionAttempt values (makeLogicalEvent a) = Some a"
proof (cases "projectionAttempt values (makeLogicalEvent a)")
  case None
  then show ?thesis using assms by (auto simp: projectionAttempt_def find_None_iff soleRecord_def)
next
  case (Some b)
  then have "b \<in> set values" "record_id b = record_id a" by (auto simp: projectionAttempt_def find_Some_iff)
  with assms Some show ?thesis by (simp add: soleRecord_def)
qed

lemma daysSinceLastSession_total:
  "canonicalTime (r_occurred_at (at_record a)) \<noteq> None \<Longrightarrow> \<exists>days. daysSinceLastSession rows e a = Inr days"
  by (auto simp: daysSinceLastSession_def split: option.splits list.splits)

lemma projectedFact_total:
  "canonicalTime (r_occurred_at (at_record a)) \<noteq> None \<Longrightarrow> \<exists>p. projectedFact db e a = Inr p"
  using daysSinceLastSession_total[of a "db_rows db" e] by (auto simp: projectedFact_def Let_def)

section \<open>The bundle of a decision\<close>

definition boundTo :: "active_revision option \<Rightarrow> server_context \<Rightarrow> bool" where
  "boundTo revision server \<longleftrightarrow>
     s_fraud_enabled server = Some False \<or>
     (\<exists>r. revision = Some r \<and> s_fraud_rule_bundle server = Some (serverBundleContext r))"

lemma bindAttempt_bound: "boundTo revision (at_server (bindAttempt H revision a))"
  by (auto simp: boundTo_def bindAttempt_def Let_def split: option.splits)

lemma plan_bound:
  assumes "planIngestion env revision db values historical = Inr plan" "a \<in> set (attempts (pl_input plan))"
  shows "boundTo revision (at_server a)"
proof -
  let ?bound = "\<lambda>xs. \<forall>x \<in> set xs. boundTo revision (at_server x)"
  have resolve: "?bound xs \<Longrightarrow> ?bound (resolveDeepLinkAttempts db xs)" for xs
    by (auto simp: resolveDeepLinkAttempts_def boundTo_def)
  let ?xs = "filter (\<lambda>a. schemaInvalidArtifacts env a = None) (map (bindAttempt (ie_H env) revision) historical) @
    validAttempts env revision values"
  have xs: "pl_input plan = runtimeInput (sortCandidateAttempts (ie_H env) (resolveDeepLinkAttempts db ?xs))"
    using assms(1) by (auto simp: planIngestion_def Let_def validAttempts_def res_simps)
  have "?bound ?xs" by (auto simp: validAttempts_def Let_def bindAttempt_bound)
  with xs runtimeInput_attempts[of a] resolve[of ?xs] assms(2) show ?thesis by fastforce
qed

lemma boundFraudBundle_revision:
  assumes "boundFraudBundle H server = Inr (Some b)" "boundTo revision server"
  obtains r where "revision = Some r" "fb_id (fst b) = ar_ruleBundleId r" "fb_version (fst b) = ar_ruleBundleVersion r"
    "snd b = ar_ruleBundleHash r"
  using assms by (auto simp: boundFraudBundle_def boundTo_def serverBundleContext_def Let_def res_simps split: if_splits)

lemma decision_bound:
  assumes "fraudDecisions H input xs = Inr fs" "in_source_day_aggregates input = []" "f \<in> set fs"
  obtains a b where "a \<in> set xs" "boundFraudBundle H (at_server a) = Inr (Some b)" "f_rule_bundle_id f = fb_id (fst b)"
    "f_rule_bundle_version f = fb_version (fst b)" "f_rule_bundle_hash f = snd b"
proof -
  obtain transport install where p: "flatMapR (transportFraud H) xs = Inr transport"
    "flatMapR (installFraud H xs) xs = Inr install" "f \<in> set transport \<or> f \<in> set install"
    using assms by (auto simp: fraudDecisions_def res_simps)
  then consider a ds where "a \<in> set xs" "transportFraud H a = Inr ds" "f \<in> set ds"
    | a ds where "a \<in> set xs" "installFraud H xs a = Inr ds" "f \<in> set ds"
    by (auto dest!: flatMapR_Inr_set)
  then show ?thesis
  proof cases
    case 1
    then show ?thesis
      by (auto simp: transportFraud_def transportDecision_def Let_def res_simps split: if_splits option.splits intro!: that)
  next
    case 2
    then show ?thesis
      by (auto simp: installFraud_def Let_def res_simps split: if_splits option.splits dest!: mapR_Inr_set)
        (auto simp: installDecision_def Let_def res_simps intro!: that)
  qed
qed

section \<open>Writing to a database that refuses nothing\<close>

definition refuseNone :: refusal where
  "refuseNone = (\<lambda>_ _. None)"

lemma insertRow_total: "\<exists>db'. insertRow refuseNone row db = Inr db'"
  by (simp add: insertRow_def refuseNone_def)

lemma insertRows_total: "\<exists>db'. insertRows refuseNone rows db = Inr db'"
  unfolding insertRows_def by (rule foldR_total) (rule insertRow_total)

lemma insertJsonRows_total: "\<exists>db'. insertJsonRows refuseNone rows db = Inr db'"
proof (induction "refuseNone" rows db rule: insertJsonRows.induct)
  case (1 rows db)
  obtain db1 where "insertRows refuseNone (take runtimeBulkChunkSize rows) db = Inr db1" using insertRows_total by blast
  then show ?case using 1[of db1] by (cases "rows = []") (simp_all add: insertJsonRows.simps[of _ rows] insertJsonRows.simps[of _ "[]"])
qed

lemma persistProjection_total:
  assumes "soleRecord values a"
  shows "\<exists>db'. persistProjection refuseNone values (makeLogicalEvent a) db = Inr db'"
proof -
  obtain p where p: "projectedFact db (makeLogicalEvent a) a = Inr p"
    using projectedFact_total[of a db "makeLogicalEvent a"] assms unfolding soleRecord_def by blast
  then show ?thesis using insertRow_total
    by (cases p) (simp_all add: persistProjection_def projectionAttempt_sole[OF assms])
qed

lemma bulkFraud_total:
  assumes "\<And>f. f \<in> set frauds \<Longrightarrow> \<exists>r. revision = Some r \<and> f_rule_bundle_id f = ar_ruleBundleId r \<and>
      f_rule_bundle_version f = ar_ruleBundleVersion r \<and> f_rule_bundle_hash f = ar_ruleBundleHash r"
    and "ie_refused env = refuseNone"
  shows "\<exists>db'. bulkFraud env revision scope frauds db = Inr db'"
proof (cases frauds)
  case (Cons f fs)
  then obtain r where r: "revision = Some r" using assms(1)[of f] by auto
  obtain db1 where db1: "insertJsonRows refuseNone (map (fraudRow scope) frauds) db = Inr db1" using insertJsonRows_total by blast
  have "forR (\<lambda>f. throwIf (f_rule_bundle_id f \<noteq> ar_ruleBundleId r \<or> f_rule_bundle_version f \<noteq> ar_ruleBundleVersion r \<or>
      f_rule_bundle_hash f \<noteq> ar_ruleBundleHash r) (JsError ''fraud_rule_bundle_revision_mismatch'')) frauds = Inr ()"
    unfolding forR_Inr_iff using assms(1) r by (auto simp: res_simps)
  with r db1 Cons show ?thesis using insertJsonRows_total by (simp add: bulkFraud_def assms(2))
qed (simp add: bulkFraud_def)

text \<open>A plan can be written.\<close>

definition writable :: "active_revision option \<Rightarrow> ingestion_plan \<Rightarrow> bool" where
  "writable revision plan \<longleftrightarrow>
     (\<forall>r \<in> set (ir_raw_records (pl_selected plan)). \<exists>a \<in> set (attempts (pl_input plan)). record_id a = rr_record_id r) \<and>
     (\<forall>e \<in> set (ir_logical_events (pl_selected plan)). \<exists>a. soleRecord (attempts (pl_input plan)) a \<and> e = makeLogicalEvent a) \<and>
     (\<forall>f \<in> set (ir_fraud_decisions (pl_selected plan)). \<exists>r. revision = Some r \<and> f_rule_bundle_id f = ar_ruleBundleId r \<and>
        f_rule_bundle_version f = ar_ruleBundleVersion r \<and> f_rule_bundle_hash f = ar_ruleBundleHash r)"

lemma bulkProjectionRows_total:
  assumes "\<forall>e \<in> set es. \<exists>a. soleRecord values a \<and> e = makeLogicalEvent a"
  shows "\<exists>p. bulkProjectionRows values es = Inr p \<and> set (bp_fallback p) \<subseteq> set es"
proof -
  have step: "\<exists>p'. bulkProjectionStep values p e = Inr p'" if "e \<in> set es" for e p
  proof -
    from assms that obtain a where a: "soleRecord values a" "e = makeLogicalEvent a" by blast
    then have "bulkAttempt values e \<noteq> None" by (intro bulkAttempt_total[of a]) (simp_all add: soleRecord_def)
    then show ?thesis by (auto simp: bulkProjectionStep_def split: bulk_target.splits)
  qed
  have "\<exists>p. bulkProjectionRows values es = Inr p"
    unfolding bulkProjectionRows_def by (rule foldR_total) (rule step)
  then obtain p where p: "bulkProjectionRows values es = Inr p" by blast
  have "set (bp_fallback p) \<subseteq> set (bp_fallback q) \<union> set es" if "foldR (bulkProjectionStep values) q es = Inr p" for q
    using that
  proof (induction es arbitrary: q)
    case (Cons e es)
    then obtain q1 where q1: "bulkProjectionStep values q e = Inr q1" "foldR (bulkProjectionStep values) q1 es = Inr p"
      by (auto simp: res_simps)
    from q1(1) have "set (bp_fallback q1) \<subseteq> insert e (set (bp_fallback q))"
      unfolding bulkProjectionStep_def
      by (cases "bulkAttempt values e"; simp add: appendProjection_def split: bulk_target.splits) auto
    with Cons.IH[OF q1(2)] show ?case by auto
  qed simp
  from this[of "\<lparr>bp_byTable = [], bp_fallback = []\<rparr>"] p show ?thesis by (auto simp: bulkProjectionRows_def)
qed

lemma persistBulk_total:
  assumes "writable revision plan" "ie_refused env = refuseNone"
  shows "\<exists>db'. persistBulk env revision values plan db = (Inr (), db')"
proof -
  let ?sel = "pl_selected plan" and ?attempts0 = "inputAttempts (pl_input plan)"
  note w = assms(1)[unfolded writable_def]
  have digests: "\<exists>d. policyDigestForRecord (pl_input plan) (rr_record_id r) = Inr d" if r: "r \<in> set (ir_raw_records ?sel)" for r
  proof -
    have "\<exists>a \<in> set (attempts (pl_input plan)). record_id a = rr_record_id r" using w r by simp
    then show ?thesis using policyDigest_total by auto
  qed
  then have "\<exists>rows. bulkRawRows (pl_input plan) (ir_raw_records ?sel) = Inr rows"
    unfolding bulkRawRows_def by (intro mapR_total) (auto dest: digests)
  then obtain rawRows where raw: "bulkRawRows (pl_input plan) (ir_raw_records ?sel) = Inr rawRows" by blast
  have events: "\<forall>e \<in> set (ir_logical_events ?sel). \<exists>a. soleRecord ?attempts0 a \<and> e = makeLogicalEvent a"
    using w by (simp add: inputAttempts_attempts)
  from bulkProjectionRows_total[OF events] obtain p where
    p: "bulkProjectionRows ?attempts0 (ir_logical_events ?sel) = Inr p" "set (bp_fallback p) \<subseteq> set (ir_logical_events ?sel)" by blast
  have tables: "\<exists>d'. foldR (\<lambda>d table. insertJsonRows refuseNone (snd table) d) d (bp_byTable p) = Inr d'" for d
    by (rule foldR_total) (rule insertJsonRows_total)
  have fallback: "\<exists>d'. foldR (\<lambda>d e. persistProjection refuseNone ?attempts0 e d) d (bp_fallback p) = Inr d'" for d
  proof (rule foldR_total)
    fix e d assume "e \<in> set (bp_fallback p)"
    with p(2) events obtain a where "soleRecord ?attempts0 a" "e = makeLogicalEvent a" by blast
    then show "\<exists>d'. persistProjection refuseNone ?attempts0 e d = Inr d'" using persistProjection_total by simp
  qed
  have fraud: "\<exists>d'. bulkFraud env revision s (ir_fraud_decisions ?sel) d = Inr d'" for s d
    by (rule bulkFraud_total) (use w assms(2) in auto)
  have step: "\<exists>d'. bindR m k = Inr d'" if "\<exists>d. m = Inr d" "\<And>d. \<exists>d'. k d = Inr d'" for m k
    using that by auto
  have "\<exists>db'. bindR (insertJsonRows refuseNone rawRows db) (\<lambda>db1.
      bindR (insertJsonRows refuseNone (map availableState (ir_raw_records ?sel)) db1) (\<lambda>db2.
      bindR (insertJsonRows refuseNone (bulkDeliveryRows env db2 (ir_deliveries ?sel)) db2) (\<lambda>db3.
      bindR (insertJsonRows refuseNone (map LogicalRow (ir_logical_events ?sel)) db3) (\<lambda>db4.
      bindR (foldR (\<lambda>d table. insertJsonRows refuseNone (snd table) d) db4 (bp_byTable p)) (\<lambda>db5.
      bindR (foldR (\<lambda>d e. persistProjection refuseNone ?attempts0 e d) db5 (bp_fallback p)) (\<lambda>db6.
      bindR (insertJsonRows refuseNone (map RejectionRow (ir_rejections ?sel)) db6) (\<lambda>db7.
      bindR (insertJsonRows refuseNone (map AttributionRow (ir_attributions ?sel)) db7) (\<lambda>db8.
      bindR (bulkFraud env revision (tenant_id (hd values), app_id (hd values)) (ir_fraud_decisions ?sel) db8)
        (insertJsonRows refuseNone (map ReconciliationRow (ir_reconciliation ?sel))))))))))) = Inr db'"
    by (intro step insertJsonRows_total tables fallback fraud)
  then show ?thesis by (auto simp: persistBulk_def Let_def raw p(1) assms(2) withTenantTx_def)
qed

lemma plan_writable:
  assumes "planIngestion env revision db values historical = Inr plan"
  shows "writable revision plan"
proof -
  obtain all out invalid where input: "pl_input plan = runtimeInput all" and p:
    "evaluate (ie_H env) createIndexedCandidateProvider (runtimeInput all) = Inr out"
    "pl_selected plan = selectCurrent (map (\<lambda>a. record_id a) (validAttempts env revision values))
       (map (\<lambda>a. r_delivery_id (at_record a)) (validAttempts env revision values)) (tenant_id (hd values)) (app_id (hd values)) invalid out"
    using planIngestion_Inr[OF assms] by metis
  obtain st where st: "evaluationState (ie_H env) createIndexedCandidateProvider (runtimeInput all) = Inr st"
    "fraudDecisions (ie_H env) (runtimeInput all) (es_acceptedUnique st) = Inr (o_fraud_decisions out)"
    by (rule evaluate_Inr[OF p(1)])
  have raw: "\<exists>a \<in> set (attempts (runtimeInput all)). record_id a = rr_record_id r" if r: "r \<in> set (o_raw_records out)" for r
  proof -
    obtain a where "a \<in> set (attempts (runtimeInput all))" "makeRawRecord (ie_H env) Available a = Inr r"
      by (rule indexed.raw_record_attempt[OF p(1) r])
    then show ?thesis using makeRawRecord_identity[of "ie_H env" Available a r] by (intro bexI[of _ a]) simp_all
  qed
  have logical: "\<exists>a. soleRecord (attempts (runtimeInput all)) a \<and> e = makeLogicalEvent a" if "e \<in> set (o_logical_events out)" for e
    by (rule indexed.logical_event_sole[OF p(1) that]) blast
  have fraud: "\<exists>r. revision = Some r \<and> f_rule_bundle_id f = ar_ruleBundleId r \<and>
      f_rule_bundle_version f = ar_ruleBundleVersion r \<and> f_rule_bundle_hash f = ar_ruleBundleHash r"
    if f: "f \<in> set (o_fraud_decisions out)" for f
  proof -
    obtain a b where ab: "a \<in> set (es_acceptedUnique st)" "boundFraudBundle (ie_H env) (at_server a) = Inr (Some b)"
      "f_rule_bundle_id f = fb_id (fst b)" "f_rule_bundle_version f = fb_version (fst b)" "f_rule_bundle_hash f = snd b"
      by (rule decision_bound[OF st(2) _ f]) (simp add: runtimeInput_def)
    have "a \<in> set (attempts (pl_input plan))" using indexed.accepted_attempts(1)[OF st(1) ab(1)] input by simp
    from boundFraudBundle_revision[OF ab(2) plan_bound[OF assms this]] obtain r where "revision = Some r"
      "fb_id (fst b) = ar_ruleBundleId r" "fb_version (fst b) = ar_ruleBundleVersion r" "snd b = ar_ruleBundleHash r" .
    with ab show ?thesis by simp
  qed
  show ?thesis unfolding writable_def p(2) input selectCurrent_simps using raw logical fraud by simp
qed

text \<open>Only the bundle and the evaluation can end a bulk ingestion.\<close>

lemma forEachTx_total:
  assumes "\<And>x d. \<exists>d'. f x d = (Inr (), d')"
  shows "\<exists>d'. forEachTx f xs d = (Inr (), d')"
proof (induction xs arbitrary: d)
  case (Cons x xs)
  obtain d1 where "f x d = (Inr (), d1)" using assms by blast
  then show ?case using Cons.IH[of d1] by (simp add: thenDo_def)
qed simp

lemma ensureApps_total: "\<exists>db'. ensureApps refuseNone input db = (Inr (), db')"
  unfolding ensureApps_def
proof (rule forEachTx_total)
  fix s :: "string \<times> string \<times> string" and d
  obtain d' where "insertRow refuseNone (AppRow (fst (snd s)) (snd (snd s)) (defaultTimestamp input)) d = Inr d'"
    using insertRow_total by blast
  then show "\<exists>d'. withTenantTx (insertRow refuseNone (AppRow (fst (snd s)) (snd (snd s)) (defaultTimestamp input))) d = (Inr (), d')"
    by (simp add: withTenantTx_def)
qed

lemma bulk_failure:
  assumes failed: "ingestScope env True values historical db = (Inl e, db')" and refused: "ie_refused env = refuseNone"
  shows "case_prod (resolveActiveFraudBundle (ie_H env) (db_revisions db)) (scopePair (scopeText (hd values))) = Inl e \<or>
    (\<exists>revision. case_prod (resolveActiveFraudBundle (ie_H env) (db_revisions db)) (scopePair (scopeText (hd values))) = Inr revision \<and>
       planIngestion env revision db' values historical = Inl e)"
proof (cases "values = []")
  case True
  then show ?thesis using failed by (simp add: ingestScope_def)
next
  case False
  let ?resolved = "\<lambda>d. case_prod (resolveActiveFraudBundle (ie_H env) (db_revisions d)) (scopePair (scopeText (hd values)))"
  obtain db1 where apps: "ensureApps refuseNone (runtimeInput values) db = (Inr (), db1)" using ensureApps_total by blast
  have revisions: "db_revisions db1 = db_revisions db" using ensureApps_appends[OF apps[folded refused]] by (simp add: appends_def)
  note unfolded = failed[unfolded ingestScope_def refused apps, simplified False if_False thenDo_def, simplified]
  show ?thesis
  proof (cases "?resolved db1")
    case (Inl e')
    then show ?thesis using unfolded revisions by simp
  next
    case resolved: (Inr revision)
    show ?thesis
    proof (cases "planIngestion env revision db1 values historical")
      case (Inl e')
      then show ?thesis using unfolded revisions resolved by simp
    next
      case (Inr plan)
      obtain d where "persistBulk env revision values plan db1 = (Inr (), d)"
        using persistBulk_total[OF plan_writable[OF Inr] refused] by blast
      then show ?thesis using unfolded resolved Inr by simp
    qed
  qed
qed

end
