(* ===== verification/ProjectionLaws.thy ===== *)
theory ProjectionLaws
  imports LedgerLaws
begin

text \<open>
  Writing the facts of a batch by table and writing them one event at a time store the same
  rows, apart from the events left to the second way.
\<close>

section \<open>One event\<close>

lemma bulkTarget_append:
  assumes "bulkTarget logical attempt = BulkAppend table p"
  shows "projectedFact db logical attempt = Inr (Some p)"
  using assms unfolding bulkTarget_def projectedFact_def fact_defs Let_def
  by (auto simp: trackingLinkOf_def textOrNull_def split: if_splits)

lemma bulkTarget_skip:
  "bulkTarget logical attempt = BulkSkip \<Longrightarrow> projectedFact db logical attempt = Inr None"
  unfolding bulkTarget_def projectedFact_def Let_def by (auto split: if_splits)

lemma bulkTarget_fallback:
  "bulkTarget logical attempt = BulkFallback \<longleftrightarrow>
     le_event_name logical = ''deep_link_open'' \<or>
     (le_event_name logical = ''click'' \<and> r_producer (at_record attempt) = ''redirector'')"
  unfolding bulkTarget_def Let_def by auto

section \<open>Looking the attempt up\<close>

definition nulFree :: "string \<Rightarrow> bool" where
  "nulFree s = (CHR 0x00 \<notin> set s)"

lemma nul_split:
  assumes "xs @ CHR 0x00 # ys = zs @ CHR 0x00 # ws" "nulFree xs" "nulFree zs"
  shows "xs = zs \<and> ys = ws"
  using assms
proof (induction xs arbitrary: zs)
  case Nil
  then show ?case by (cases zs) (auto simp: nulFree_def)
next
  case (Cons x xs)
  then show ?case by (cases zs) (auto simp: nulFree_def)
qed

lemma scopedRecordKey_eq:
  assumes "nulFree t" "nulFree a" "nulFree t'" "nulFree a'"
  shows "scopedRecordKey t a r = scopedRecordKey t' a' r' \<longleftrightarrow> t = t' \<and> a = a' \<and> r = r'"
proof
  assume "scopedRecordKey t a r = scopedRecordKey t' a' r'"
  then have "t @ CHR 0x00 # (a @ CHR 0x00 # r) = t' @ CHR 0x00 # (a' @ CHR 0x00 # r')"
    by (simp add: scopedRecordKey_def)
  from nul_split[OF this assms(1,3)] have "t = t'" "a @ CHR 0x00 # r = a' @ CHR 0x00 # r'" by simp_all
  with nul_split[OF this(2) assms(2,4)] show "t = t' \<and> a = a' \<and> r = r'" by simp
qed simp

abbreviation attemptRecordKey :: "attempt \<Rightarrow> string \<times> string \<times> string" where
  "attemptRecordKey a \<equiv> (tenant_id a, app_id a, record_id a)"

definition nulFreeScope :: "attempt \<Rightarrow> bool" where
  "nulFreeScope a = (nulFree (tenant_id a) \<and> nulFree (app_id a))"

lemma bulkAttempt_projection:
  assumes "list_all nulFreeScope values" "distinct (map attemptRecordKey values)"
    and "nulFree (le_tenant_id e)" "nulFree (le_app_id e)"
  shows "bulkAttempt values e = projectionAttempt values e"
proof -
  let ?key = "\<lambda>a. scopedRecordKey (tenant_id a) (app_id a) (record_id a)"
  have inj: "?key a = ?key b \<longleftrightarrow> attemptRecordKey a = attemptRecordKey b"
    if "a \<in> set values" "b \<in> set values" for a b
    using assms(1) that by (simp add: scopedRecordKey_eq nulFreeScope_def list_all_iff)
  have "distinct (map ?key values)"
    by (rule distinct_map_finer[OF assms(2)]) (simp only: inj)
  then have "bulkAttempt values e = map_of (map (\<lambda>a. (?key a, a)) values)
      (scopedRecordKey (le_tenant_id e) (le_app_id e) (le_record_id e))"
    unfolding bulkAttempt_def
    by (subst map_of_inject_set[THEN iffD2, of "rev (map (\<lambda>a. (?key a, a)) values)" "map (\<lambda>a. (?key a, a)) values"])
       (simp_all add: rev_map[symmetric] o_def)
  also have "\<dots> = projectionAttempt values e"
    using assms(1) unfolding projectionAttempt_def
    by (induction "values") (auto simp: scopedRecordKey_eq nulFreeScope_def assms(3,4))
  finally show ?thesis .
qed

section \<open>A batch\<close>

text \<open>The row of an event that is not left to the fallback.\<close>

definition directRows :: "attempt list \<Rightarrow> logical_event \<Rightarrow> ledger_row list" where
  "directRows values e =
     (case bulkAttempt values e of
        None \<Rightarrow> []
      | Some attempt \<Rightarrow> (case bulkTarget e attempt of BulkAppend table p \<Rightarrow> [factRow e p] | _ \<Rightarrow> []))"

definition isFallback :: "attempt list \<Rightarrow> logical_event \<Rightarrow> bool" where
  "isFallback values e = (case bulkAttempt values e of None \<Rightarrow> False | Some attempt \<Rightarrow> bulkTarget e attempt = BulkFallback)"

lemma mset_update_append:
  "mset (concat (map snd (AList.update t (orElse (map_of m t) [] @ [r]) m))) = mset (concat (map snd m)) + {#r#}"
  by (induction m) auto

lemma bulkProjection_contents:
  assumes "bulkProjectionRows values logicals = Inr p"
  shows "mset (concat (map snd (bp_byTable p))) = mset (concat (map (directRows values) logicals)) \<and>
    bp_fallback p = filter (isFallback values) logicals \<and> (\<forall>e \<in> set logicals. bulkAttempt values e \<noteq> None)"
proof -
  have "mset (concat (map snd (bp_byTable p))) =
      mset (concat (map snd (bp_byTable p0))) + mset (concat (map (directRows values) logicals)) \<and>
    bp_fallback p = bp_fallback p0 @ filter (isFallback values) logicals \<and> (\<forall>e \<in> set logicals. bulkAttempt values e \<noteq> None)"
    if "foldR (bulkProjectionStep values) p0 logicals = Inr p" for p0
    using that
  proof (induction logicals arbitrary: p0)
    case Nil
    then show ?case by simp
  next
    case (Cons e es)
    then obtain p1 where step: "bulkProjectionStep values p0 e = Inr p1" "foldR (bulkProjectionStep values) p1 es = Inr p"
      by (auto simp: res_simps)
    have "mset (concat (map snd (bp_byTable p1))) = mset (concat (map snd (bp_byTable p0))) + mset (directRows values e) \<and>
        bp_fallback p1 = bp_fallback p0 @ (if isFallback values e then [e] else []) \<and> bulkAttempt values e \<noteq> None"
      using step(1) mset_update_append[where m = "bp_byTable p0"]
      by (auto simp: bulkProjectionStep_def directRows_def isFallback_def appendProjection_def
          split: option.splits bulk_target.splits)
    with Cons.IH[OF step(2)] show ?case by simp
  qed
  from this[of "\<lparr>bp_byTable = [], bp_fallback = []\<rparr>"] assms show ?thesis by (simp add: bulkProjectionRows_def)
qed

lemma persistProjection_direct:
  assumes "bulkAttempt values e = projectionAttempt values e" "projectionAttempt values e \<noteq> None" "\<not> isFallback values e"
  shows "persistProjection refused values e db = insertRows refused (directRows values e) db"
proof -
  obtain attempt where attempt: "projectionAttempt values e = Some attempt" "bulkAttempt values e = Some attempt"
    using assms(1,2) by auto
  show ?thesis
  proof (cases "bulkTarget e attempt")
    case BulkFallback
    then show ?thesis using assms(3) attempt by (simp add: isFallback_def)
  next
    case (BulkAppend table p)
    then show ?thesis using attempt bulkTarget_append[OF BulkAppend]
      by (simp add: persistProjection_def directRows_def insertRows_def)
  next
    case BulkSkip
    then show ?thesis using attempt bulkTarget_skip[OF BulkSkip]
      by (simp add: persistProjection_def directRows_def insertRows_def)
  qed
qed

lemma insertRows_append: "insertRows refused (xs @ ys) db = bindR (insertRows refused xs db) (insertRows refused ys)"
  by (induction xs arbitrary: db) (simp_all add: insertRows_def bindR_assoc)

lemma projections_direct:
  assumes "\<forall>e \<in> set es. bulkAttempt values e = projectionAttempt values e \<and> projectionAttempt values e \<noteq> None \<and> \<not> isFallback values e"
  shows "foldR (\<lambda>d e. persistProjection refused values e d) db es = insertRows refused (concat (map (directRows values) es)) db"
  using assms
proof (induction es arbitrary: db)
  case Nil
  then show ?case by (simp add: insertRows_def)
next
  case (Cons e es)
  then have "persistProjection refused values e db = insertRows refused (directRows values e) db"
    by (intro persistProjection_direct) simp_all
  with Cons show ?case by (simp add: insertRows_append)
qed

lemma directRows_fallback: "isFallback values e \<Longrightarrow> directRows values e = []"
  by (auto simp: isFallback_def directRows_def split: option.splits)

lemma concat_filter_direct:
  "concat (map (directRows values) (filter (\<lambda>e. \<not> isFallback values e) es)) = concat (map (directRows values) es)"
  by (induction es) (simp_all add: directRows_fallback)

lemma bulk_projections_equal:
  assumes "bulkProjectionRows values logicals = Inr p"
    and "list_all nulFreeScope values" "distinct (map attemptRecordKey values)"
    and "list_all (\<lambda>e. nulFree (le_tenant_id e) \<and> nulFree (le_app_id e)) logicals"
  shows "\<exists>rows. mset rows = mset (concat (map snd (bp_byTable p))) \<and>
    (\<forall>db. foldR (\<lambda>d e. persistProjection refused values e d) db (filter (\<lambda>e. \<not> isFallback values e) logicals) =
       insertRows refused rows db) \<and>
    bp_fallback p = filter (isFallback values) logicals"
proof -
  note contents = bulkProjection_contents[OF assms(1)]
  have same: "bulkAttempt values e = projectionAttempt values e" if "e \<in> set logicals" for e
    using assms(2-4) that by (intro bulkAttempt_projection) (auto simp: list_all_iff)
  let ?rows = "concat (map (directRows values) logicals)"
  have "foldR (\<lambda>d e. persistProjection refused values e d) db (filter (\<lambda>e. \<not> isFallback values e) logicals) =
      insertRows refused ?rows db" for db
    using projections_direct[of "filter (\<lambda>e. \<not> isFallback values e) logicals" "values" refused db] same contents
    by (simp add: concat_filter_direct)
  with contents show ?thesis by (intro exI[of _ ?rows]) simp
qed

end
