(* ===== verification/SampleIngest.thy ===== *)
theory SampleIngest
  imports Samples IngestTotal ProjectionLaws
begin

text \<open>
  A concrete ingestion: the sample click and install written in bulk to an empty ledger by a
  database that refuses nothing.
\<close>

definition sampleIngest :: "refusal \<Rightarrow> ingest_env" where
  "sampleIngest refused = \<lparr>ie_H = sampleDigest, ie_validate = (\<lambda>_ _. None), ie_refused = refused,
     ie_deliveryAttemptId = showNat\<rparr>"

definition blankLedger :: ledger_db where
  "blankLedger = \<lparr>db_rows = [], db_revisions = [], db_links = []\<rparr>"

lemma ingest_scope: "tenant_id clickAttempt = ''t''" "app_id clickAttempt = ''a''"
  "tenant_id installAttempt = ''t''" "app_id installAttempt = ''a''"
  by (simp_all add: sample_fields sample_defs)

lemma runtime_quiet: "quietRun (runtimeInput [clickAttempt, installAttempt])"
  by (simp add: quietRun_def attempts_def runtimeInput_def runtimeBatch_def)
    (simp add: clickAttempt_def installAttempt_def)

lemma sample_bind: "bindAttempt H None clickAttempt = clickAttempt" "bindAttempt H None installAttempt = installAttempt"
  by (simp_all add: bindAttempt_def clickAttempt_def installAttempt_def sampleServer_def)

lemma sample_deep_links: "resolveDeepLinkAttempts db [clickAttempt, installAttempt] = [clickAttempt, installAttempt]"
  by (simp add: resolveDeepLinkAttempts_def sample_events)

lemma sampleIngest_fields: "ie_H (sampleIngest refused) = sampleDigest" "ie_refused (sampleIngest refused) = refused"
  by (simp_all add: sampleIngest_def)

lemma sample_valid: "schemaInvalidArtifacts (sampleIngest refused) a = None"
  by (simp add: schemaInvalidArtifacts_def sampleIngest_def)

lemma sample_plan:
  obtains plan where "planIngestion (sampleIngest refused) None db [clickAttempt, installAttempt] [] = Inr plan"
    "pl_input plan = runtimeInput [clickAttempt, installAttempt]"
    "set (ir_logical_events (pl_selected plan)) \<subseteq> {makeLogicalEvent clickAttempt, makeLogicalEvent installAttempt}"
    "ir_fraud_decisions (pl_selected plan) = []" "ir_reconciliation (pl_selected plan) = []"
    "ir_attributions (pl_selected plan) = [sampleAttribution]"
proof -
  let ?input = "runtimeInput [clickAttempt, installAttempt]"
  obtain out where out: "evaluate sampleDigest createFixtureCandidateProvider ?input = Inr out"
    "o_attributions out = [sampleAttribution]"
    "set (o_logical_events out) = {makeLogicalEvent clickAttempt, makeLogicalEvent installAttempt}"
    "o_fraud_decisions out = []" "o_reconciliation out = []"
    by (rule quiet_evaluation[OF runtime_quiet])
  have indexed: "evaluate sampleDigest createIndexedCandidateProvider ?input = Inr out"
    using out(1) by (simp add: indexed.evaluate_determined)
  have "a_evidence_refs sampleAttribution = [evidenceRef [] installAttempt ''c1'', evidenceRef [] installAttempt ''i1'']"
    by (simp add: sampleAttribution_def attributionResult_def Let_def)
  then have subject: "evidenceBelongs [''c1'', ''i1''] (a_evidence_refs sampleAttribution)"
    by (simp add: evidenceBelongs_def evidenceRef_def)
  show ?thesis
    by (rule that, simp add: planIngestion_def sample_bind sample_valid sample_deep_links map_filter_simps Let_def
        sampleIngest_fields sample_sorted indexed)
      (use out subject in \<open>auto simp: selectCurrent_def sample_keys\<close>)
qed

lemma sample_ingested:
  obtains result db' where
    "ingestScope (sampleIngest refuseNone) True [clickAttempt, installAttempt] [] blankLedger = (Inr result, db')"
    "ir_attributions result = [sampleAttribution]"
proof -
  obtain db1 where apps: "ensureApps refuseNone (runtimeInput [clickAttempt, installAttempt]) blankLedger = (Inr (), db1)"
    using ensureApps_total by blast
  have "db_revisions db1 = []" using ensureApps_appends[OF apps] by (simp add: appends_def blankLedger_def)
  then have resolved: "case_prod (resolveActiveFraudBundle sampleDigest (db_revisions db1)) p = Inr None" for p
    by (simp add: resolveActiveFraudBundle_def currentRevisions_def split: prod.splits)
  obtain plan where plan: "planIngestion (sampleIngest refuseNone) None db1 [clickAttempt, installAttempt] [] = Inr plan"
    "ir_attributions (pl_selected plan) = [sampleAttribution]"
    by (rule sample_plan[of refuseNone db1])
  obtain db2 where "persistBulk (sampleIngest refuseNone) None [clickAttempt, installAttempt] plan db1 = (Inr (), db2)"
    using persistBulk_total[OF plan_writable[OF plan(1)] sampleIngest_fields(2)] by blast
  with that plan show ?thesis
    by (simp add: ingestScope_def sampleIngest_fields apps resolved thenDo_def)
qed

lemma sample_batch: "batchScopes [clickAttempt, installAttempt] = [scopeText clickAttempt]"
  by (simp add: batchScopes_def scopeText_def ingest_scope)

lemma sample_batch_ingested:
  obtains result db' where
    "ingestRuntimeBatch (sampleIngest refuseNone) True [clickAttempt, installAttempt] [] blankLedger = (Inr result, db')"
    "ir_attributions result = [sampleAttribution]"
  by (rule sample_ingested) (rule that, simp_all add: ingestRuntimeBatch_def sample_batch)

section \<open>An app with two bundles in force\<close>

definition sampleRevision :: "string \<Rightarrow> revision_row" where
  "sampleRevision i = \<lparr>br_rule_bundle_revision_id = i, br_tenant_id = ''t'', br_app_id = ''a'',
     br_rule_bundle_id = ''fraud-default'', br_rule_bundle_version = ''1'', br_rule_bundle_hash = ''h'',
     br_definition_digest = Some ''h'', br_definition = Some DEFAULT_FRAUD_BUNDLE, br_activated_at = sampleTime,
     br_supersedes = None\<rparr>"

definition ambiguousLedger :: ledger_db where
  "ambiguousLedger = blankLedger\<lparr>db_revisions := [sampleRevision ''r1'', sampleRevision ''r2'']\<rparr>"

lemma ambiguous_resolved:
  "resolveActiveFraudBundle H (db_revisions ambiguousLedger) ''t'' ''a'' = Inl (JsError ''active_fraud_rule_bundle_ambiguous'')"
  by (simp add: resolveActiveFraudBundle_def currentRevisions_def ambiguousLedger_def sampleRevision_def supersededIn_def
      startsWith_def)

lemma sample_scopePair: "scopePair (scopeText clickAttempt) = (''t'', ''a'')"
  by (simp add: scopePair_def scopeText_def ingest_scope)

lemma ambiguous_ingested:
  obtains db' where
    "ingestScope (sampleIngest refuseNone) True [clickAttempt, installAttempt] [] ambiguousLedger =
       (Inl (JsError ''active_fraud_rule_bundle_ambiguous''), db')"
proof -
  obtain db1 where apps: "ensureApps refuseNone (runtimeInput [clickAttempt, installAttempt]) ambiguousLedger = (Inr (), db1)"
    using ensureApps_total by blast
  then have "db_revisions db1 = db_revisions ambiguousLedger" using ensureApps_appends[OF apps] by (simp add: appends_def)
  with that show ?thesis
    by (simp add: ingestScope_def sampleIngest_fields apps thenDo_def sample_scopePair ambiguous_resolved)
qed

section \<open>Projections and the default bundle\<close>

lemma sample_sole: "soleRecord [clickAttempt, installAttempt] clickAttempt" "soleRecord [clickAttempt, installAttempt] installAttempt"
proof -
  have "canonicalTime sampleTime = Some 1767312000000" by (simp add: canonicalTime_Some_iff sample_iso timeClip_def)
  then have "canonicalTime (r_occurred_at (at_record clickAttempt)) \<noteq> None" "canonicalTime (r_occurred_at (at_record installAttempt)) \<noteq> None"
    by (simp_all add: sample_fields sample_defs)
  then show "soleRecord [clickAttempt, installAttempt] clickAttempt" "soleRecord [clickAttempt, installAttempt] installAttempt"
    by (simp_all add: soleRecord_def sample_keys)
qed

lemma sample_projections:
  obtains p where "bulkProjectionRows [clickAttempt, installAttempt]
    [makeLogicalEvent clickAttempt, makeLogicalEvent installAttempt] = Inr p"
proof -
  have "\<forall>e \<in> set [makeLogicalEvent clickAttempt, makeLogicalEvent installAttempt].
      \<exists>a. soleRecord [clickAttempt, installAttempt] a \<and> e = makeLogicalEvent a"
    using sample_sole by auto
  from bulkProjectionRows_total[OF this] that show ?thesis by blast
qed

lemma sample_default_active:
  obtains r where
    "resolveActiveFraudBundle sampleDigest [defaultRevision sampleDigest ''t'' ''a'' ''h'' ''h'' sampleTime] ''t'' ''a'' = Inr (Some r)"
    "ar_definition r = DEFAULT_FRAUD_BUNDLE"
proof -
  have "fb_id DEFAULT_FRAUD_BUNDLE = ''fraud-conservative''" by (simp add: DEFAULT_FRAUD_BUNDLE_def)
  with that show ?thesis
    by (simp add: resolveActiveFraudBundle_def currentRevisions_def supersededIn_def defaultRevision_def startsWith_def
      validatedRevision_def fraudBundleHash_def DEFAULT_FRAUD_BUNDLE_valid sampleDigest_def keepTruthy_def Let_def)
qed

end
