(* ===== verification/DeliveryLaws.thy ===== *)
theory DeliveryLaws
  imports IngestStore
begin

text \<open>
  The shape of a delivery: which fields go with an accepted one and which with each reason of
  a rejection, for the deliveries the evaluator makes and those an ingestion adds to them.
\<close>

definition wellFormedDelivery :: "delivery \<Rightarrow> bool" where
  "wellFormedDelivery d \<longleftrightarrow>
     (dl_ingestion_status d = Accepted \<longleftrightarrow> dl_reason_code d = None) \<and>
     (dl_payload_disposition d = ProtectedPayload \<longleftrightarrow> dl_reason_code d \<in> {None, Some EventIdConflictReject}) \<and>
     (dl_ingestion_status d = Accepted \<longrightarrow> dl_duplicate_resolution d \<in> {UniqueDelivery, DuplicateDelivery}) \<and>
     (dl_reason_code d = Some RecordIdCollisionReject \<longrightarrow> dl_duplicate_resolution d = RecordIdCollision) \<and>
     (dl_reason_code d = Some EventIdConflictReject \<longrightarrow> dl_duplicate_resolution d = EventIdConflict) \<and>
     (dl_reason_code d = Some TimestampStale \<longleftrightarrow> dl_staleness_policy_version d \<noteq> None) \<and>
     (dl_alternative_legal_basis_policy_version d \<noteq> None \<longrightarrow> dl_alternative_legal_basis_id d \<noteq> None)"

text \<open>The rejections of a decision that were made on its attempt.\<close>

lemma decideCatching_well_formed:
  assumes "decideCatching H pv b = Inr d"
  shows "wellFormedDelivery (attemptDelivery a d)"
proof -
  consider "d = timestampInvalidDecision b" | "decide H pv b = Inr d"
    using assms by (auto simp: decideCatching_def split: sum.splits js_error.splits)
  then show ?thesis
  proof cases
    case 1
    then show ?thesis
      by (simp add: wellFormedDelivery_def attemptDelivery_def timestampInvalidDecision_def keepTruthy_def whenTruthy_def)
  next
    case 2
    then obtain dup k reason skew where parts: "rejectReason b dup k = Inr reason"
      "d = makeDecision b (pv_byLogicalScope pv b) dup k reason skew" by (auto simp: decide_Inr_iff)
    have dup: "reason = Some RecordIdCollisionReject \<Longrightarrow> dup = RecordIdCollision"
      "reason = Some EventIdConflictReject \<Longrightarrow> dup = EventIdConflict"
      "reason = None \<Longrightarrow> dup \<in> {UniqueDelivery, DuplicateDelivery}"
      "reason = Some TimestampStale \<Longrightarrow> s_timestamp_stale_policy (at_server b) \<noteq> None"
      using parts(1)
      by (cases dup; auto simp: rejectReason_def staleAttempt_def Let_def res_simps split: if_splits option.splits)+
    have basis: "truthy x \<Longrightarrow> \<exists>y. x = Some y" for x by (cases x) simp_all
    have "wellFormedDelivery (attemptDelivery a (makeDecision b xs dup k reason skew))" for xs
      using dup by (auto simp: wellFormedDelivery_def attemptDelivery_def makeDecision_def Let_def keepTruthy_def
          whenTruthy_def dest: basis split: option.splits if_splits)
    with parts(2) show ?thesis by simp
  qed
qed

context candidate_provider
begin

lemma evaluated_well_formed:
  assumes out: "evaluate H mk input = Inr out" and pre: "in_pre_ingestion_rejections input = []"
    and d: "d \<in> set (o_deliveries out)"
  shows "wellFormedDelivery d"
proof -
  obtain st where st: "evaluationState H mk input = Inr st"
    and dl: "makeDeliveries H (es_decisions st) (es_all st) (es_preIngestion st) = Inr (o_deliveries out)"
    by (rule evaluate_Inr[OF out])
  note state = evaluationState_Inr[OF st]
  obtain xs where xs: "mapR (\<lambda>a. bindR (decisionFor H (es_decisions st) a) (\<lambda>d. Inr (attemptDelivery a d))) (es_all st) = Inr xs"
    "mset (o_deliveries out) = mset (xs @ map preIngestionDelivery (es_preIngestion st))"
    by (rule makeDeliveries_Inr[OF dl])
  have "es_preIngestion st = []" using state(5) pre by simp
  then have "set (o_deliveries out) = set xs" using xs(2) by (metis append_Nil2 list.map(1) set_mset_mset)
  with d have "d \<in> set xs" by simp
  then obtain a where a: "a \<in> set (es_all st)" "bindR (decisionFor H (es_decisions st) a) (\<lambda>d. Inr (attemptDelivery a d)) = Inr d"
    using mapR_Inr_set[OF xs(1)] by blast
  then obtain e where e: "decisionFor H (es_decisions st) a = Inr e" "d = attemptDelivery a e" by (auto simp: res_simps)
  obtain e' b where "decisionFor H (decisionMap H (es_all st) (es_decisionsList st)) a = Inr e'"
    "decideCatching H (mk (es_all st)) b = Inr e'"
    by (rule decisionFor_total[OF state(3) a(1)])
  with e state(4) decideCatching_well_formed show ?thesis by simp
qed

end

lemma invalid_well_formed: "wellFormedDelivery (invalidDelivery a)"
  by (simp add: wellFormedDelivery_def invalidDelivery_def Let_def)

lemma plan_well_formed:
  assumes "planIngestion env revision db values historical = Inr plan"
  shows "list_all wellFormedDelivery (ir_deliveries (pl_selected plan))"
proof -
  obtain all out invalid where p:
    "evaluate (ie_H env) createIndexedCandidateProvider (runtimeInput all) = Inr out"
    "invalid = List.map_filter (schemaInvalidArtifacts env) (map (bindAttempt (ie_H env) revision) values)"
    "pl_selected plan = selectCurrent (map (\<lambda>a. record_id a) (validAttempts env revision values))
       (map (\<lambda>a. r_delivery_id (at_record a)) (validAttempts env revision values)) (tenant_id (hd values)) (app_id (hd values)) invalid out"
    using planIngestion_Inr[OF assms] by metis
  have "wellFormedDelivery d" if "d \<in> set (o_deliveries out)" for d
    using indexed.evaluated_well_formed[OF p(1) _ that] by simp
  moreover have "wellFormedDelivery (ia_delivery i)" if "i \<in> set invalid" for i
    using that p(2) invalid_well_formed
    by (auto simp: List.map_filter_def schemaInvalidArtifacts_def split: option.splits)
  ultimately show ?thesis unfolding p(3) selectCurrent_simps by (auto simp: list_all_iff)
qed

interpretation well_formed: result_law env "\<lambda>_ r. list_all wellFormedDelivery (ir_deliveries r)" for env
  by unfold_locales (simp_all add: emptyResult_def appendResult_def plan_well_formed)

end
