(* ===== verification/MetaReferrer.thy ===== *)
theory MetaReferrer
  imports PayloadStore Json Money
begin

text \<open>
  The package \<^verbatim>\<open>packages/meta-install-referrer\<close>: the encrypted install referrer of Meta is
  opened with the first key that authenticates it, and only the campaign fields of its
  plaintext are kept. AES-256-GCM and \<^verbatim>\<open>JSON.parse\<close> of a text are parameters.
\<close>

section \<open>Keys and results\<close>

record meta_key =
  mk_key_id :: string
  mk_key_hex :: string

record meta_context =
  mc_context :: "(string \<times> json) list"
  mc_is_ct :: "number option"
  mc_actual_timestamp :: "number option"

datatype meta_result =
    MetaAbsent
  | MetaMalformed
  | MetaAuthFailed "string list"
  | MetaDecrypted string meta_context

record meta_source =
  ms_data_hex :: "string option"
  ms_nonce_hex :: "string option"

record meta_api =
  ma_aead :: aead
  ma_parseJson :: "bytes \<Rightarrow> json res"

definition allowedFields :: "string list" where
  "allowedFields =
     [''campaign_group_id'', ''campaign_id'', ''adgroup_id'', ''ad_id'', ''account_id'',
      ''ad_objective_name'', ''is_instagram'', ''publisher_platform'', ''platform_position'']"

section \<open>Hexadecimal text\<close>

fun hexBytes :: "string \<Rightarrow> bytes" where
  "hexBytes (a # b # cs) = word_of_nat (16 * hexValue (lowerChar a) + hexValue (lowerChar b)) # hexBytes cs"
| "hexBytes cs = []"

definition keyBytes :: "meta_key \<Rightarrow> bytes option" where
  "keyBytes key =
     (if length (mk_key_hex key) = 64 \<and> list_all isHexChar (mk_key_hex key) then Some (hexBytes (mk_key_hex key)) else None)"

section \<open>The plaintext\<close>

text \<open>\<^verbatim>\<open>Number.isSafeInteger\<close>\<close>

definition safeInteger :: "number \<Rightarrow> bool" where
  "safeInteger n = (case n of Fin x \<Rightarrow> of_int \<lfloor>x\<rfloor> = x \<and> \<bar>x\<bar> \<le> 2 ^ 53 - 1 | _ \<Rightarrow> False)"

fun isTextOrBool :: "json \<Rightarrow> bool" where
  "isTextOrBool (JStr s) = True"
| "isTextOrBool (JBool b) = True"
| "isTextOrBool _ = False"

text \<open>The allowed properties in their order; one that is neither text nor a boolean spoils all.\<close>

fun contextFields :: "(string \<times> json) list \<Rightarrow> (string \<times> json) list option" where
  "contextFields [] = Some []"
| "contextFields ((name, field) # ps) =
     (if name \<notin> set allowedFields then contextFields ps
      else if \<not> isTextOrBool field then None
      else map_option (\<lambda>rest. (name, field) # rest) (contextFields ps))"

definition sourceFlag :: "json option \<Rightarrow> number option" where
  "sourceFlag v = (case v of Some (JNum n) \<Rightarrow> if n = Fin 0 \<or> n = Fin 1 then Some n else None | _ \<Rightarrow> None)"

definition sourceTimestamp :: "json option \<Rightarrow> number option" where
  "sourceTimestamp v = (case v of Some (JNum n) \<Rightarrow> if safeInteger n \<and> leN (Fin 0) n then Some n else None | _ \<Rightarrow> None)"

definition parsePlaintext :: "meta_api \<Rightarrow> bytes \<Rightarrow> meta_context option" where
  "parsePlaintext api value =
     (case ma_parseJson api value of
        Inr (JObj source) \<Rightarrow>
          (case contextFields source of
             None \<Rightarrow> None
           | Some result \<Rightarrow>
               if result = [] then None
               else Some \<lparr>mc_context = result, mc_is_ct = sourceFlag (map_of source ''is_ct''),
                          mc_actual_timestamp = sourceTimestamp (map_of source ''actual_timestamp'')\<rparr>)
      | _ \<Rightarrow> None)"

section \<open>Decryption\<close>

text \<open>
  One key after another: a key that is not 64 hexadecimal digits is skipped, one that does not
  authenticate is recorded, and the first that does decides.
\<close>

fun tryKeys :: "meta_api \<Rightarrow> bytes \<Rightarrow> bytes \<Rightarrow> bytes \<Rightarrow> meta_key list \<Rightarrow> string list \<Rightarrow> meta_result" where
  "tryKeys api nonce tag ciphertext [] attempted = (if attempted = [] then MetaMalformed else MetaAuthFailed attempted)"
| "tryKeys api nonce tag ciphertext (candidate # keys) attempted =
     (case keyBytes candidate of
        None \<Rightarrow> tryKeys api nonce tag ciphertext keys attempted
      | Some key \<Rightarrow>
          (case ae_open (ma_aead api) key nonce [] tag ciphertext of
             None \<Rightarrow> tryKeys api nonce tag ciphertext keys (attempted @ [mk_key_id candidate])
           | Some plaintext \<Rightarrow>
               (case parsePlaintext api plaintext of
                  Some parsed \<Rightarrow> MetaDecrypted (mk_key_id candidate) parsed
                | None \<Rightarrow> MetaMalformed)))"

definition wellFormedSource :: "string \<Rightarrow> string \<Rightarrow> bool" where
  "wellFormedSource dataHex nonceHex \<longleftrightarrow>
     list_all isHexChar dataHex \<and> length nonceHex = 24 \<and> list_all isHexChar nonceHex \<and>
     34 \<le> length dataHex \<and> even (length dataHex)"

definition decryptMetaInstallReferrer :: "meta_api \<Rightarrow> meta_source option \<Rightarrow> meta_key list \<Rightarrow> meta_result" where
  "decryptMetaInstallReferrer api source keys =
     (case source of
        None \<Rightarrow> MetaAbsent
      | Some s \<Rightarrow>
          (case (keepTruthy (ms_data_hex s), keepTruthy (ms_nonce_hex s)) of
             (None, None) \<Rightarrow> MetaAbsent
           | (Some dataHex, Some nonceHex) \<Rightarrow>
               if \<not> wellFormedSource dataHex nonceHex then MetaMalformed
               else (let encrypted = hexBytes dataHex; split = length encrypted - 16 in
                 tryKeys api (hexBytes nonceHex) (drop split encrypted) (take split encrypted) keys [])
           | _ \<Rightarrow> MetaMalformed))"

section \<open>What a decryption says\<close>

lemma contextFields_Some:
  "contextFields ps = Some r \<longleftrightarrow> r = filter (\<lambda>p. fst p \<in> set allowedFields) ps \<and> (\<forall>p \<in> set r. isTextOrBool (snd p))"
proof (induction ps arbitrary: r)
  case Nil
  then show ?case by auto
next
  case (Cons p ps)
  then show ?case by (cases p) (auto simp del: isTextOrBool.simps)
qed

lemma tryKeys_decrypted:
  assumes "tryKeys api nonce tag ciphertext keys attempted = MetaDecrypted i parsed"
  shows "\<exists>before candidate after key plaintext. keys = before @ candidate # after \<and> mk_key_id candidate = i \<and>
    keyBytes candidate = Some key \<and> ae_open (ma_aead api) key nonce [] tag ciphertext = Some plaintext \<and>
    parsePlaintext api plaintext = Some parsed \<and>
    (\<forall>k \<in> set before. \<forall>b. keyBytes k = Some b \<longrightarrow> ae_open (ma_aead api) b nonce [] tag ciphertext = None)"
  using assms
proof (induction keys arbitrary: attempted)
  case Nil
  then show ?case by (simp split: if_splits)
next
  case (Cons candidate keys)
  show ?case
  proof (cases "\<exists>key plaintext. keyBytes candidate = Some key \<and> ae_open (ma_aead api) key nonce [] tag ciphertext = Some plaintext")
    case True
    then obtain key plaintext where "keyBytes candidate = Some key" "ae_open (ma_aead api) key nonce [] tag ciphertext = Some plaintext"
      by blast
    then show ?thesis using Cons.prems
      by (intro exI[of _ "[]"] exI[of _ candidate] exI[of _ keys] exI[of _ key] exI[of _ plaintext]) (auto split: option.splits)
  next
    case False
    then obtain attempted' where "tryKeys api nonce tag ciphertext keys attempted' = MetaDecrypted i parsed"
      using Cons.prems by (auto split: option.splits)
    from Cons.IH[OF this] obtain before c after key plaintext where ih: "keys = before @ c # after" "mk_key_id c = i"
      "keyBytes c = Some key" "ae_open (ma_aead api) key nonce [] tag ciphertext = Some plaintext"
      "parsePlaintext api plaintext = Some parsed"
      "\<forall>k \<in> set before. \<forall>b. keyBytes k = Some b \<longrightarrow> ae_open (ma_aead api) b nonce [] tag ciphertext = None"
      by blast
    with False show ?thesis
      by (intro exI[of _ "candidate # before"] exI[of _ c] exI[of _ after] exI[of _ key] exI[of _ plaintext]) auto
  qed
qed

lemma parsePlaintext_Some:
  assumes "parsePlaintext api plaintext = Some parsed"
  obtains source where "ma_parseJson api plaintext = Inr (JObj source)" "mc_context parsed \<noteq> []"
    "mc_context parsed = filter (\<lambda>p. fst p \<in> set allowedFields) source"
    "\<forall>p \<in> set (mc_context parsed). isTextOrBool (snd p)"
  using assms by (auto simp: parsePlaintext_def contextFields_Some split: sum.splits json.splits option.splits if_splits)

text \<open>A sealed referrer is opened again, after keys that do not open it.\<close>

lemma tryKeys_opens:
  assumes "\<forall>k \<in> set before. \<forall>b. keyBytes k = Some b \<longrightarrow> ae_open (ma_aead api) b nonce [] tag ciphertext = None"
    and "keyBytes candidate = Some key" "ae_open (ma_aead api) key nonce [] tag ciphertext = Some plaintext"
    and "parsePlaintext api plaintext = Some parsed"
  shows "tryKeys api nonce tag ciphertext (before @ candidate # after) attempted = MetaDecrypted (mk_key_id candidate) parsed"
  using assms by (induction before arbitrary: attempted) (auto split: option.splits)

section \<open>Reading hexadecimal text back\<close>

lemma hexDigit_value:
  assumes "n < 16"
  shows "hexValue (lowerChar (hexDigit n)) = n" "isHexChar (hexDigit n)"
proof -
  have "\<forall>n \<in> set [0..<16]. lowerChar (hexDigit n) = hexDigit n \<and> isHexChar (hexDigit n)"
    by (simp add: upt_rec hexDigit_def lowerChar_def isHexChar_def isDigit_def)
  with assms hexValue_hexDigit[OF assms] show "hexValue (lowerChar (hexDigit n)) = n" "isHexChar (hexDigit n)" by auto
qed

lemma unat_lt_256: "unat (b :: 8 word) < 256"
  using unsigned_less[of b, where 'a = nat] by simp

lemma hexText_Nil: "hexText bs = [] \<longleftrightarrow> bs = []"
  by (cases bs) (simp_all add: hexText_def byteHex_def)

lemma hexBytes_hexText: "hexBytes (hexText bs) = bs"
proof (induction bs)
  case (Cons b bs)
  have "unat b < 256" using unat_lt_256 .
  then have "16 * hexValue (lowerChar (hexDigit (unat b div 16))) + hexValue (lowerChar (hexDigit (unat b mod 16))) = unat b"
    by (simp add: hexDigit_value)
  with Cons show ?case by (simp add: hexText_def byteHex_def)
qed (simp add: hexText_def)

lemma hexText_hex: "list_all isHexChar (hexText bs)"
proof -
  have "unat b < 256" for b :: "8 word" using unat_lt_256 .
  then show ?thesis by (auto simp: list_all_iff hexText_def byteHex_def intro!: hexDigit_value(2) div_less_iff_less_mult[THEN iffD2])
qed

text \<open>The source of a sealed referrer.\<close>

definition sealedSource :: "aead \<Rightarrow> bytes \<Rightarrow> bytes \<Rightarrow> bytes \<Rightarrow> meta_source" where
  "sealedSource ae key nonce plaintext =
     (case ae_seal ae key nonce [] plaintext of (ciphertext, tag) \<Rightarrow>
        \<lparr>ms_data_hex = Some (hexText (ciphertext @ tag)), ms_nonce_hex = Some (hexText nonce)\<rparr>)"

lemma decrypt_sealed:
  assumes ok: "aead_ok (ma_aead api)"
    and sizes: "length key = 32" "length nonce = 12" "ae_seal (ma_aead api) key nonce [] plaintext = (ciphertext, tag)"
      "length tag = 16" "ciphertext \<noteq> []"
    and key: "mk_key_hex candidate = hexText key"
    and before: "\<forall>k \<in> set before. \<forall>b. keyBytes k = Some b \<longrightarrow> ae_open (ma_aead api) b nonce [] tag ciphertext = None"
    and parsed: "parsePlaintext api plaintext = Some parsed"
  shows "decryptMetaInstallReferrer api (Some (sealedSource (ma_aead api) key nonce plaintext)) (before @ candidate # after) =
    MetaDecrypted (mk_key_id candidate) parsed"
proof -
  have opened: "ae_open (ma_aead api) key nonce [] tag ciphertext = Some plaintext"
    using ok sizes(3) unfolding aead_ok_def by (metis fst_conv snd_conv)
  have "keyBytes candidate = Some key"
    by (simp add: keyBytes_def key hexText_hex hexBytes_hexText length_hexText sizes(1))
  note tried = tryKeys_opens[OF before this opened parsed]
  have long: "17 \<le> length ciphertext + length tag" using sizes(4,5) by (cases ciphertext) simp_all
  have "hexText (ciphertext @ tag) \<noteq> []" "hexText nonce \<noteq> []"
    using sizes(2,5) by (auto simp: hexText_Nil)
  then have "keepTruthy (Some (hexText (ciphertext @ tag))) = Some (hexText (ciphertext @ tag))"
    "keepTruthy (Some (hexText nonce)) = Some (hexText nonce)" by (simp_all add: keepTruthy_def)
  moreover have "wellFormedSource (hexText (ciphertext @ tag)) (hexText nonce)"
    using long sizes(2) by (simp add: wellFormedSource_def hexText_hex length_hexText)
  ultimately show ?thesis
    using tried sizes(4) by (simp add: decryptMetaInstallReferrer_def sealedSource_def sizes(3) hexBytes_hexText Let_def
        del: hexText_append)
qed

end
