(* ===== verification/AdServicesResponse.thy ===== *)
theory AdServicesResponse
  imports MetaReferrer RateLimit FraudRules
begin

text \<open>
  The answers of the AdServices interface, of \<^verbatim>\<open>apps/worker/src/adservices-worker.ts\<close>: the
  checks and names of a response, the limiter of the lookups, the token in a stored batch.
\<close>

section \<open>Responses\<close>

text \<open>A response body that is an object; the limit is 64 KiB.\<close>

definition parseObject :: "string \<Rightarrow> (bytes \<Rightarrow> json res) \<Rightarrow> bytes \<Rightarrow> (string \<times> json) list res" where
  "parseObject name parse body =
     (if length body > 65536 then Inl (JsError (name @ ''_response_too_large''))
      else bindR (parse body) (\<lambda>parsed. case parsed of
        JObj ps \<Rightarrow> Inr ps
      | _ \<Rightarrow> Inl (JsError (name @ ''_response_invalid''))))"

definition digitsText :: "string \<Rightarrow> bool" where
  "digitsText s = (s \<noteq> [] \<and> list_all isDigit s)"

definition invalidField :: "string \<Rightarrow> js_error" where
  "invalidField name = JsError (''adservices_'' @ name @ ''_invalid'')"

definition optionalId :: "json option \<Rightarrow> string \<Rightarrow> string option res" where
  "optionalId value name =
     (case value of
        None \<Rightarrow> Inr None
      | Some (JNum (Fin x)) \<Rightarrow>
          if safeInteger (Fin x) \<and> 0 \<le> x then Inr (Some (showInt \<lfloor>x\<rfloor>)) else Inl (invalidField name)
      | Some (JStr s) \<Rightarrow> if digitsText s then Inr (Some s) else Inl (invalidField name)
      | _ \<Rightarrow> Inl (invalidField name))"

definition optionalEnum :: "json option \<Rightarrow> string \<Rightarrow> string list \<Rightarrow> string option res" where
  "optionalEnum value name allowed =
     (case value of
        None \<Rightarrow> Inr None
      | Some (JStr s) \<Rightarrow> if s \<in> set allowed then Inr (Some s) else Inl (invalidField name)
      | _ \<Rightarrow> Inl (invalidField name))"

definition checkedText :: "json option \<Rightarrow> string \<Rightarrow> (string \<Rightarrow> bool) \<Rightarrow> string option res" where
  "checkedText value name pattern =
     (case value of
        None \<Rightarrow> Inr None
      | Some (JStr s) \<Rightarrow>
          if s = [] \<or> 128 < length s \<or> \<not> pattern s then Inl (invalidField name) else Inr (Some s)
      | _ \<Rightarrow> Inl (invalidField name))"

text \<open>\<^verbatim>\<open>/^[A-Z]{2}$/\<close>\<close>

definition countryPattern :: "string \<Rightarrow> bool" where
  "countryPattern s = (length s = 2 \<and> list_all (\<lambda>c. codeIn 65 90 c) s)"

record adservices_context =
  ac_status :: string
  ac_attribution :: bool
  ac_fields :: "(string \<times> string) list"

definition definedFields :: "(string \<times> string option) list \<Rightarrow> (string \<times> string) list" where
  "definedFields entries = concat (map (\<lambda>(name, v). case v of None \<Rightarrow> [] | Some s \<Rightarrow> [(name, s)]) entries)"

definition contextEntries :: "(string \<times> json) list \<Rightarrow> (string \<times> string option) list res" where
  "contextEntries value =
     mapR (\<lambda>(name, entry). bindR entry (\<lambda>v. Inr (name, v)))
       [(''org_id'', optionalId (map_of value ''orgId'') ''org_id''),
        (''campaign_id'', optionalId (map_of value ''campaignId'') ''campaign_id''),
        (''ad_group_id'', optionalId (map_of value ''adGroupId'') ''ad_group_id''),
        (''keyword_id'', optionalId (map_of value ''keywordId'') ''keyword_id''),
        (''ad_id'', optionalId (map_of value ''adId'') ''ad_id''),
        (''conversion_type'', optionalEnum (map_of value ''conversionType'') ''conversion_type''
           [''Download'', ''Redownload'', ''PreOrder'']),
        (''claim_type'', optionalEnum (map_of value ''claimType'') ''claim_type'' [''Click'', ''Impression'']),
        (''country_or_region'', checkedText (map_of value ''countryOrRegion'') ''country_or_region'' countryPattern),
        (''supply_placement'', checkedText (map_of value ''supplyPlacement'') ''supply_placement'' (\<lambda>_. True)),
        (''click_date'', checkedText (map_of value ''clickDate'') ''click_date'' (\<lambda>_. True)),
        (''impression_date'', checkedText (map_of value ''impressionDate'') ''impression_date'' (\<lambda>_. True))]"

definition normalizeAdServicesResponse :: "(bytes \<Rightarrow> json res) \<Rightarrow> bytes \<Rightarrow> adservices_context res" where
  "normalizeAdServicesResponse parse body =
     bindR (parseObject ''adservices'' parse body) (\<lambda>value.
       case map_of value ''attribution'' of
         Some (JBool attribution) \<Rightarrow>
           if \<not> attribution then Inr \<lparr>ac_status = ''not_attributed'', ac_attribution = False, ac_fields = []\<rparr>
           else bindR (contextEntries value) (\<lambda>entries.
             Inr \<lparr>ac_status = ''attributed'', ac_attribution = True, ac_fields = definedFields entries\<rparr>)
       | _ \<Rightarrow> Inl (invalidField ''attribution''))"

definition terminalContext :: "string \<Rightarrow> adservices_context" where
  "terminalContext status = \<lparr>ac_status = status, ac_attribution = False, ac_fields = []\<rparr>"

section \<open>The limiter of lookups\<close>

record lookup_limiter =
  ll_ratePerSecond :: number
  ll_burst :: number
  ll_entries :: "(string \<times> (number \<times> number)) list"

definition newLookupLimiter :: "number \<Rightarrow> number \<Rightarrow> lookup_limiter res" where
  "newLookupLimiter ratePerSecond burst =
     (if \<not> lessN (numN 0) ratePerSecond \<or> \<not> leN (numN 1) burst then Inl (JsError ''invalid AdServices rate limit'')
      else Inr \<lparr>ll_ratePerSecond = ratePerSecond, ll_burst = burst, ll_entries = []\<rparr>)"

definition lookupAllow :: "number \<Rightarrow> string \<Rightarrow> lookup_limiter \<Rightarrow> lookup_limiter \<times> bool" where
  "lookupAllow now key limiter =
     (let prior = (case map_of (ll_entries limiter) key of Some entry \<Rightarrow> entry | None \<Rightarrow> (ll_burst limiter, now));
          tokens = minN (ll_burst limiter)
            (addN (fst prior) (mulN (divN (subN now (snd prior)) (numN 1000)) (ll_ratePerSecond limiter)))
      in if lessN tokens (numN 1) then (limiter\<lparr>ll_entries := AList.update key (tokens, now) (ll_entries limiter)\<rparr>, False)
         else (limiter\<lparr>ll_entries := AList.update key (subN tokens (numN 1), now) (ll_entries limiter)\<rparr>, True))"

section \<open>Endpoints\<close>

record endpoint_url =
  eu_protocol :: string
  eu_hostname :: string
  eu_username :: string
  eu_password :: string
  eu_search :: string
  eu_hash :: string
  eu_text :: string

text \<open>The two workers check their endpoints alike; \<open>name\<close> is the prefix of the errors.\<close>

definition checkedEndpoint :: "string \<Rightarrow> (string \<Rightarrow> endpoint_url option) \<Rightarrow> string \<Rightarrow> string res" where
  "checkedEndpoint name parse value =
     (case parse value of
        None \<Rightarrow> Inl TypeError
      | Some u \<Rightarrow>
          let loopback = (eu_hostname u \<in> {''127.0.0.1'', ''localhost'', ''::1''}) in
          if eu_protocol u \<noteq> ''https:'' \<and> \<not> (eu_protocol u = ''http:'' \<and> loopback)
          then Inl (JsError (name @ ''_endpoint_must_be_https_or_loopback''))
          else if eu_username u \<noteq> [] \<or> eu_password u \<noteq> [] \<or> eu_search u \<noteq> [] \<or> eu_hash u \<noteq> []
          then Inl (JsError (name @ ''_endpoint_invalid''))
          else Inr (eu_text u))"

section \<open>Properties of values\<close>

text \<open>\<^verbatim>\<open>value.name\<close>, which throws on \<^verbatim>\<open>null\<close>, and \<^verbatim>\<open>value?.name\<close>, which does not.\<close>

definition propertyOf :: "json \<Rightarrow> string \<Rightarrow> json option res" where
  "propertyOf value name = (case value of JNull \<Rightarrow> Inl TypeError | JObj ps \<Rightarrow> Inr (map_of ps name) | _ \<Rightarrow> Inr None)"

definition optionalProperty :: "json option \<Rightarrow> string \<Rightarrow> json option" where
  "optionalProperty value name = (case value of Some (JObj ps) \<Rightarrow> map_of ps name | _ \<Rightarrow> None)"

text \<open>
  The token of a record in a stored batch: the first object of the records with the record's
  identifier, and a text of its extensions.
\<close>

definition storedToken :: "string \<Rightarrow> string \<Rightarrow> json \<Rightarrow> string \<Rightarrow> string res" where
  "storedToken name field body recordId =
     bindR (propertyOf body ''records'') (\<lambda>records. case records of
       Some (JArr xs) \<Rightarrow>
         (let record = List.find (\<lambda>candidate. case candidate of
                JObj ps \<Rightarrow> map_of ps ''record_id'' = Some (JStr recordId) | _ \<Rightarrow> False) xs;
              extensions = optionalProperty (optionalProperty record ''payload'') ''extensions'' in
          case optionalProperty extensions field of
            Some (JStr token) \<Rightarrow>
              if token = [] \<or> 65536 < length (utf8Bytes token) then Inl (JsError (name @ ''_token_missing''))
              else Inr token
          | _ \<Rightarrow> Inl (JsError (name @ ''_token_missing'')))
     | _ \<Rightarrow> Inl (JsError (name @ ''_token_batch_invalid'')))"

section \<open>What a normalized response holds\<close>

lemma mapR_fst:
  "mapR (\<lambda>(name, entry). bindR entry (\<lambda>v. Inr (name, v))) es = Inr vs \<Longrightarrow>
     map fst vs = map fst es \<and> (\<forall>name v. (name, v) \<in> set vs \<longrightarrow> (name, Inr v) \<in> set es)"
  by (induction es arbitrary: vs) (auto simp: res_simps)

lemma parseObject_Inr: "parseObject name parse body = Inr ps \<longleftrightarrow> length body \<le> 65536 \<and> parse body = Inr (JObj ps)"
proof (cases "parse body")
  case (Inr v)
  then show ?thesis by (cases v) (auto simp: parseObject_def not_less)
qed (simp add: parseObject_def)

lemma definedFields_set: "(name, s) \<in> set (definedFields entries) \<longleftrightarrow> (name, Some s) \<in> set entries"
  by (auto simp: definedFields_def split: option.splits)

lemma optionalId_Some: "optionalId v name = Inr (Some s) \<Longrightarrow> digitsText s"
  unfolding optionalId_def digitsText_def
  by (auto simp: list_all_iff showInt_def showNat_digits showNat_not_Nil split: option.splits json.splits number.splits if_splits)

lemma optionalEnum_Some: "optionalEnum v name allowed = Inr (Some s) \<Longrightarrow> s \<in> set allowed"
  by (auto simp: optionalEnum_def split: option.splits json.splits if_splits)

lemma checkedText_Some: "checkedText v name pattern = Inr (Some s) \<Longrightarrow> s \<noteq> [] \<and> length s \<le> 128 \<and> pattern s"
  by (auto simp: checkedText_def split: option.splits json.splits if_splits)

end
