(* ===== verification/LookupQueue.thy ===== *)
theory LookupQueue
  imports Prelude
begin

text \<open>
  The loop of a worker over the rows of a queue, as in the two lookup workers: the rows are read
  once, each is processed in turn, and the first that throws ends the tick. The locale
  \<open>queue_tick\<close> states what one row may do to the state; its lemma carries that to a tick.
\<close>

fun forRows :: "('row \<Rightarrow> 'st \<Rightarrow> 'r res \<times> 'st) \<Rightarrow> ('r \<Rightarrow> 'c \<Rightarrow> 'c) \<Rightarrow> 'row list \<Rightarrow> 'c \<Rightarrow> 'st \<Rightarrow> 'c res \<times> 'st" where
  "forRows step tally [] c state = (Inr c, state)"
| "forRows step tally (row # rows) c state =
     (case step row state of
        (Inl e, state') \<Rightarrow> (Inl e, state')
      | (Inr r, state') \<Rightarrow> forRows step tally rows (tally r c) state')"

lemma forRows_throws:
  "step row state = (Inl e, state') \<Longrightarrow> forRows step tally (row # rows) c state = (Inl e, state')"
  by simp

locale queue_tick =
  fixes step :: "'row \<Rightarrow> 'st \<Rightarrow> 'r res \<times> 'st"
    and good :: "'row \<Rightarrow> bool"
    and keeps :: "'st \<Rightarrow> 'st \<Rightarrow> bool"
  assumes keeps_refl: "keeps s s"
    and keeps_trans: "keeps s1 s2 \<Longrightarrow> keeps s2 s3 \<Longrightarrow> keeps s1 s3"
    and keeps_step: "good row \<Longrightarrow> step row s = (r, s') \<Longrightarrow> keeps s s'"
begin

lemma tick: "list_all good rows \<Longrightarrow> forRows step tally rows c s = (r, s') \<Longrightarrow> keeps s s'"
proof (induction rows arbitrary: c s)
  case Nil
  then show ?case by (simp add: keeps_refl)
next
  case (Cons row rows)
  obtain r1 s1 where first: "step row s = (r1, s1)" by fastforce
  then have kept: "keeps s s1" using keeps_step[of row s r1 s1] Cons.prems(1) by simp
  show ?case
  proof (cases r1)
    case Inl
    then show ?thesis using kept Cons.prems(2) first by simp
  next
    case (Inr v)
    then have "keeps s1 s'" using Cons.IH[of "tally v c" s1] Cons.prems first by simp
    with kept show ?thesis by (rule keeps_trans)
  qed
qed

end

text \<open>A goal that processing a row reaches and no later row undoes holds for all rows of a tick.\<close>

locale queue_goal = queue_tick +
  fixes reached :: "'row \<Rightarrow> 'st \<Rightarrow> bool"
  assumes reached_step: "good row \<Longrightarrow> step row s = (Inr v, s') \<Longrightarrow> reached row s'"
    and reached_keeps: "good row \<Longrightarrow> keeps s s' \<Longrightarrow> reached row s \<Longrightarrow> reached row s'"
begin

lemma all_reached:
  "list_all good rows \<Longrightarrow> forRows step tally rows c s = (Inr c', s') \<Longrightarrow> list_all (\<lambda>row. reached row s') rows"
proof (induction rows arbitrary: c s)
  case Nil
  then show ?case by simp
next
  case (Cons row rows)
  obtain v s1 where first: "step row s = (Inr v, s1)" and rest: "forRows step tally rows (tally v c) s1 = (Inr c', s')"
    using Cons.prems(2) by (auto split: prod.splits sum.splits)
  have "keeps s1 s'" using tick[of rows tally "tally v c" s1] Cons.prems(1) rest by simp
  moreover have "reached row s1" using reached_step[of row s v s1] first Cons.prems(1) by simp
  ultimately have "reached row s'" using reached_keeps[of row s1 s'] Cons.prems(1) by simp
  then show ?case using Cons.IH[OF _ rest] Cons.prems(1) by simp
qed

end

text \<open>A tick over rows that none throws counts every row once.\<close>

lemma forRows_count:
  assumes "forRows step tally rows c s = (Inr c', s')" and "\<And>r c. f (tally r c) = Suc (f c)"
  shows "f c' = f c + length rows"
  using assms(1)
proof (induction rows arbitrary: c s)
  case (Cons row rows)
  then show ?case using assms(2) by (auto split: prod.splits sum.splits)
qed simp

end
