(* ===== verification/AdServices.thy ===== *)
theory AdServices
  imports AdServicesResponse LookupQueue RuntimeIngest IngestBatch
begin

text \<open>
  The lookup queue of \<^verbatim>\<open>apps/worker/src/adservices-worker.ts\<close>: queuing a token, the tick over
  the lookups that are due, and the replacement of an install's attribution. Instants of the
  queue are milliseconds. The client of the interface, cryptography, random bytes, the text
  order of the database and its refusals are parameters.
\<close>

section \<open>State\<close>

record pending_lookup =
  pl_tenantId :: string
  pl_appId :: string
  pl_installRecordId :: string
  pl_tokenRef :: string
  pl_tokenCreatedAt :: string

record lookup_row =
  lu_lookup_id :: string
  lu_tenant_id :: string
  lu_app_id :: string
  lu_install_record_id :: string
  lu_token_ref :: string
  lu_token_created_at :: int
  lu_attempts :: nat
  lu_next_attempt_at :: int
  lu_last_outcome :: "string option"

record lookup_result =
  lr_lookup_result_id :: string
  lr_tenant_id :: string
  lr_app_id :: string
  lr_install_record_id :: string
  lr_attribution_id :: string
  lr_response_ref :: string
  lr_response_digest :: string
  lr_context :: adservices_context
  lr_decided_at :: string

record ads_state =
  ad_db :: ledger_db
  ad_lookups :: "lookup_row list"
  ad_results :: "lookup_result list"
  ad_store :: payload_store
  ad_limiter :: "lookup_limiter option"

record ads_env =
  ae_aead :: aead
  ae_sha256 :: "bytes \<Rightarrow> bytes"
  ae_parseJson :: "bytes \<Rightarrow> json res"
  ae_dateParse :: "string \<Rightarrow> int option"
  ae_uuidRandom :: "string \<Rightarrow> bytes"
  ae_writeRandom :: "string \<Rightarrow> write_random"
  ae_keyRefused :: "string \<Rightarrow> bool"
  ae_objectRefused :: "string \<Rightarrow> bool"
  ae_collate :: "string \<Rightarrow> string \<Rightarrow> int"
  ae_refused :: refusal
  ae_database :: database
  ae_client :: "string \<Rightarrow> string \<Rightarrow> (nat \<times> bytes) option"

definition sha256Hex :: "ads_env \<Rightarrow> bytes \<Rightarrow> string" where
  "sha256Hex env value = hexText (ae_sha256 env value)"

text \<open>A transaction of a tenant on the tables; the store and the limiter are not part of it.\<close>

definition adsTx :: "ads_env \<Rightarrow> (ads_state \<Rightarrow> ads_state res) \<Rightarrow> ads_state \<Rightarrow> unit res \<times> ads_state" where
  "adsTx env f state = (case f state of Inl e \<Rightarrow> (Inl e, state) | Inr state' \<Rightarrow> (Inr (), state'))"

definition adsStatement :: "ads_env \<Rightarrow> string \<Rightarrow> (ads_state \<Rightarrow> ads_state) \<Rightarrow> ads_state \<Rightarrow> ads_state res" where
  "adsStatement env name f state = (case ae_database env name of Some e \<Rightarrow> Inl e | None \<Rightarrow> Inr (f state))"

section \<open>Queuing\<close>

definition queuedLookup :: "ads_env \<Rightarrow> int \<Rightarrow> pending_lookup \<Rightarrow> lookup_row" where
  "queuedLookup env created input =
     \<lparr>lu_lookup_id = uuidV7 (ae_uuidRandom env (pl_installRecordId input)) created,
      lu_tenant_id = pl_tenantId input, lu_app_id = pl_appId input, lu_install_record_id = pl_installRecordId input,
      lu_token_ref = pl_tokenRef input, lu_token_created_at = created, lu_attempts = 0, lu_next_attempt_at = created,
      lu_last_outcome = None\<rparr>"

definition sameInstall :: "lookup_row \<Rightarrow> lookup_row \<Rightarrow> bool" where
  "sameInstall a b = (lu_tenant_id a = lu_tenant_id b \<and> lu_app_id a = lu_app_id b \<and>
     lu_install_record_id a = lu_install_record_id b)"

definition queueAdServicesLookup :: "ads_env \<Rightarrow> pending_lookup \<Rightarrow> ads_state \<Rightarrow> unit res \<times> ads_state" where
  "queueAdServicesLookup env input state =
     (case ae_dateParse env (pl_tokenCreatedAt input) of
        None \<Rightarrow> (Inl RangeError, state)
      | Some created \<Rightarrow>
          adsTx env (adsStatement env ''ephemeral.adservices_lookups'' (\<lambda>s.
            let row = queuedLookup env created input in
            if list_ex (sameInstall row) (ad_lookups s) then s else s\<lparr>ad_lookups := ad_lookups s @ [row]\<rparr>)) state)"

section \<open>The attribution of an install\<close>

definition logicalIdsOf :: "ledger_row list \<Rightarrow> lookup_row \<Rightarrow> string list" where
  "logicalIdsOf rows row = concat (map (\<lambda>r. case r of
     LogicalRow e \<Rightarrow> if le_tenant_id e = lu_tenant_id row \<and> le_app_id e = lu_app_id row \<and>
         le_record_id e = lu_install_record_id row then [le_logical_event_id e] else []
   | _ \<Rightarrow> []) rows)"

definition installationsOf :: "ledger_row list \<Rightarrow> lookup_row \<Rightarrow> string list" where
  "installationsOf rows row = concat (map (\<lambda>(f, i).
     if fa_tenant_id f = lu_tenant_id row \<and> fa_app_id f = lu_app_id row \<and>
        fa_logical_event_id f \<in> set (logicalIdsOf rows row)
     then (case nf_installation_id i of None \<Rightarrow> [] | Some s \<Rightarrow> [s]) else []) (installFactRows rows))"

definition candidateAttributions :: "ledger_row list \<Rightarrow> lookup_row \<Rightarrow> string \<Rightarrow> attribution list" where
  "candidateAttributions rows row installation = concat (map (\<lambda>r. case r of
     AttributionRow a \<Rightarrow> if a_tenant_id a = lu_tenant_id row \<and> a_app_id a = lu_app_id row \<and>
         a_subject_scope a = InstallationLevel \<and> a_subject_ref a = Some installation then [a] else []
   | _ \<Rightarrow> []) rows)"

text \<open>\<^verbatim>\<open>ORDER BY decided_at DESC, attribution_id DESC LIMIT 1\<close>\<close>

fun latestDecided :: "(string \<Rightarrow> string \<Rightarrow> int) \<Rightarrow> attribution list \<Rightarrow> attribution option" where
  "latestDecided collate [] = None"
| "latestDecided collate (a # as) =
     (case latestDecided collate as of
        None \<Rightarrow> Some a
      | Some b \<Rightarrow>
          let c = collate (a_decided_at a) (a_decided_at b) in
          if 0 < c \<or> (c = 0 \<and> 0 \<le> collate (a_attribution_id a) (a_attribution_id b)) then Some a else Some b)"

definition hasRawRecord :: "ledger_row list \<Rightarrow> lookup_row \<Rightarrow> bool" where
  "hasRawRecord rows row = list_ex (\<lambda>r. case r of
     RawRow d raw \<Rightarrow> rr_tenant_id raw = lu_tenant_id row \<and> rr_app_id raw = lu_app_id row \<and>
       rr_record_id raw = lu_install_record_id row
   | _ \<Rightarrow> False) rows"

definition installAttribution :: "ads_env \<Rightarrow> ledger_row list \<Rightarrow> lookup_row \<Rightarrow> attribution res" where
  "installAttribution env rows row =
     (if \<not> hasRawRecord rows row then Inl (JsError ''adservices_install_attribution_missing'')
      else case List.map_filter (\<lambda>i. latestDecided (ae_collate env) (candidateAttributions rows row i)) (installationsOf rows row) of
        [] \<Rightarrow> Inl (JsError ''adservices_install_attribution_missing'')
      | a # _ \<Rightarrow> Inr a)"

section \<open>Completing a lookup\<close>

definition contextReason :: "adservices_context \<Rightarrow> attribution_reason" where
  "contextReason context =
     (if ac_status context = ''attributed'' then AdServicesAttributed
      else if ac_status context = ''not_attributed'' then AdServicesNotAttributed
      else if ac_status context = ''token_expired'' then AdServicesTokenExpired
      else AdServicesLookupUnavailable)"

definition contextReasonText :: "adservices_context \<Rightarrow> string" where
  "contextReasonText context =
     (if ac_status context = ''attributed'' then ''adservices_attributed''
      else if ac_status context = ''not_attributed'' then ''adservices_not_attributed''
      else if ac_status context = ''token_expired'' then ''adservices_token_expired''
      else ''adservices_lookup_unavailable'')"

definition replacementIdOf :: "ads_env \<Rightarrow> lookup_row \<Rightarrow> adservices_context \<Rightarrow> string \<Rightarrow> string" where
  "replacementIdOf env row context responseDigest =
     ''attr:adservices:'' @ take 48 (sha256Hex env (utf8Bytes (joinWith [CHR 0x00]
       [lu_tenant_id row, lu_app_id row, lu_install_record_id row, responseDigest, contextReasonText context])))"

definition adservicesReplacement ::
  "ads_env \<Rightarrow> lookup_row \<Rightarrow> adservices_context \<Rightarrow> string \<Rightarrow> string \<Rightarrow> string \<Rightarrow> attribution \<Rightarrow> attribution" where
  "adservicesReplacement env row context responseDigest responseRef now prior =
     prior\<lparr>a_attribution_id := replacementIdOf env row context responseDigest,
       a_status := (if ac_status context = ''attributed'' then NonOrganic else Unattributed),
       a_method := AppleAdServices,
       a_model := LastClick,
       a_reason_code := contextReason context,
       a_evidence_refs := a_evidence_refs prior @ [\<lparr>ev_tenant_id = lu_tenant_id row, ev_app_id = lu_app_id row,
         ev_ref = responseRef, ev_lifecycle_status = Available, ev_access_class = ProtectedAccess\<rparr>],
       a_decided_at := now,
       a_input_cutoff_at := now,
       a_finality := Final,
       a_supersedes_attribution_id := Some (a_attribution_id prior)\<rparr>"

text \<open>An insert without \<^verbatim>\<open>ON CONFLICT\<close> throws when the key is there.\<close>

definition insertStrict :: "refusal \<Rightarrow> ledger_row \<Rightarrow> ledger_db \<Rightarrow> ledger_db res" where
  "insertStrict refused row db =
     (if conflicting (db_rows db) row then Inl (JsError ''duplicate key value violates unique constraint'')
      else insertRow refused row db)"

definition sameLookup :: "lookup_row \<Rightarrow> lookup_row \<Rightarrow> bool" where
  "sameLookup a b = (lu_tenant_id a = lu_tenant_id b \<and> lu_app_id a = lu_app_id b \<and> lu_lookup_id a = lu_lookup_id b)"

definition deleteLookup :: "lookup_row \<Rightarrow> ads_state \<Rightarrow> ads_state" where
  "deleteLookup row s = s\<lparr>ad_lookups := filter (\<lambda>other. \<not> sameLookup row other) (ad_lookups s)\<rparr>"

definition completeLookupRows ::
  "ads_env \<Rightarrow> lookup_row \<Rightarrow> adservices_context \<Rightarrow> string \<Rightarrow> string \<Rightarrow> int \<Rightarrow> ads_state \<Rightarrow> ads_state res" where
  "completeLookupRows env row context responseDigest responseRef now s =
     bindR (installAttribution env (db_rows (ad_db s)) row) (\<lambda>prior.
     bindR (toISOString now) (\<lambda>decidedAt.
       let replacement = adservicesReplacement env row context responseDigest responseRef decidedAt prior in
     bindR (insertStrict (ae_refused env) (AttributionRow replacement) (ad_db s)) (\<lambda>db.
     bindR (adsStatement env ''ledger.adservices_lookup_results'' (\<lambda>s. s\<lparr>ad_results := ad_results s @
         [\<lparr>lr_lookup_result_id = uuidV7 (ae_uuidRandom env (lu_lookup_id row)) now, lr_tenant_id = lu_tenant_id row,
           lr_app_id = lu_app_id row, lr_install_record_id = lu_install_record_id row,
           lr_attribution_id = a_attribution_id replacement, lr_response_ref = responseRef,
           lr_response_digest = responseDigest, lr_context = context, lr_decided_at = decidedAt\<rparr>]\<rparr>) (s\<lparr>ad_db := db\<rparr>)) (\<lambda>s.
       adsStatement env ''DELETE adservices_lookups'' (deleteLookup row) s))))"

definition resultScope :: "lookup_row \<Rightarrow> payload_scope" where
  "resultScope row = \<lparr>sc_tenantId = lu_tenant_id row, sc_appId = lu_app_id row,
     sc_objectId = ''adservices-result-'' @ lu_lookup_id row\<rparr>"

text \<open>The response is written first; when the transaction throws it is purged again.\<close>

definition completeLookup ::
  "ads_env \<Rightarrow> lookup_row \<Rightarrow> adservices_context \<Rightarrow> bytes \<Rightarrow> int \<Rightarrow> ads_state \<Rightarrow> unit res \<times> ads_state" where
  "completeLookup env row context responseBody now state =
     (case payloadWrite (ae_aead env) (ae_keyRefused env (lu_lookup_id row)) (ae_objectRefused env (lu_lookup_id row))
             (ae_writeRandom env (lu_lookup_id row)) (resultScope row) responseBody (ad_store state) of
        (store, Inl e) \<Rightarrow> (Inl e, state\<lparr>ad_store := store\<rparr>)
      | (store, Inr responseRef) \<Rightarrow>
          (case adsTx env (completeLookupRows env row context (sha256Hex env responseBody) responseRef now)
                  (state\<lparr>ad_store := store\<rparr>) of
             (Inr u, state') \<Rightarrow> (Inr u, state')
           | (Inl e, state') \<Rightarrow>
               (case payloadPurge responseRef (ad_store state') of
                  (store', Inl purgeError) \<Rightarrow> (Inl purgeError, state'\<lparr>ad_store := store'\<rparr>)
                | (store', Inr _) \<Rightarrow> (Inl e, state'\<lparr>ad_store := store'\<rparr>))))"

section \<open>Later and never\<close>

definition reschedule :: "ads_env \<Rightarrow> lookup_row \<Rightarrow> nat \<Rightarrow> int \<Rightarrow> string \<Rightarrow> ads_state \<Rightarrow> unit res \<times> ads_state" where
  "reschedule env row attempts0 nextAttemptAt reason =
     adsTx env (adsStatement env ''UPDATE adservices_lookups'' (\<lambda>s. s\<lparr>ad_lookups := map (\<lambda>other.
       if sameLookup row other
       then other\<lparr>lu_attempts := attempts0, lu_next_attempt_at := nextAttemptAt, lu_last_outcome := Some reason\<rparr>
       else other) (ad_lookups s)\<rparr>))"

definition dropUnavailableToken :: "ads_env \<Rightarrow> lookup_row \<Rightarrow> ads_state \<Rightarrow> unit res \<times> ads_state" where
  "dropUnavailableToken env row = adsTx env (adsStatement env ''DELETE adservices_lookups'' (deleteLookup row))"

definition tokenFor :: "ads_env \<Rightarrow> payload_store \<Rightarrow> lookup_row \<Rightarrow> string res" where
  "tokenFor env store row =
     bindR (payloadRead (ae_aead env) (lu_token_ref row) store) (\<lambda>content.
     bindR (ae_parseJson env content) (\<lambda>body.
       storedToken ''adservices'' ''adservices_attribution_token_protected'' body (lu_install_record_id row)))"

section \<open>A tick\<close>

definition TOKEN_LIFETIME :: int where
  "TOKEN_LIFETIME = 23 * 60 * 60 * 1000"

text \<open>\<^verbatim>\<open>ORDER BY next_attempt_at, lookup_id LIMIT 100\<close>\<close>

definition dueLookups :: "ads_env \<Rightarrow> string \<Rightarrow> int \<Rightarrow> lookup_row list \<Rightarrow> lookup_row list" where
  "dueLookups env tenantId now rows =
     take 100 (js_sort (\<lambda>a b. if lu_next_attempt_at a < lu_next_attempt_at b then -1
         else if lu_next_attempt_at b < lu_next_attempt_at a then 1 else compareText (lu_lookup_id a) (lu_lookup_id b))
       (filter (\<lambda>r. lu_tenant_id r = tenantId \<and>
          (lu_next_attempt_at r \<le> now \<or> lu_token_created_at r \<le> now - TOKEN_LIFETIME)) rows))"

definition allowLookup :: "int \<Rightarrow> lookup_row \<Rightarrow> ads_state \<Rightarrow> bool \<times> ads_state" where
  "allowLookup now row state =
     (case ad_limiter state of
        None \<Rightarrow> (True, state)
      | Some limiter \<Rightarrow>
          (case lookupAllow (numN now) (joinWith [CHR 0x00] [lu_tenant_id row, lu_app_id row]) limiter of
             (limiter', ok) \<Rightarrow> (ok, state\<lparr>ad_limiter := Some limiter'\<rparr>)))"

definition networkFailure :: "nat \<times> bytes" where
  "networkFailure = (500, utf8Bytes (CHR 0x7B # ''\"error\":\"network_failure\"'' @ [CHR 0x7D]))"

definition backoffMs :: "nat \<Rightarrow> int" where
  "backoffMs attempts0 = min 3600000 (60000 * 2 ^ min attempts0 3)"

text \<open>What a response leads to: \<open>True\<close> when the lookup is completed, \<open>False\<close> when it is tried again.\<close>

definition handleResponse ::
  "ads_env \<Rightarrow> lookup_row \<Rightarrow> nat \<times> bytes \<Rightarrow> int \<Rightarrow> ads_state \<Rightarrow> bool res \<times> ads_state" where
  "handleResponse env row response now state =
     (let complete = (\<lambda>context. case completeLookup env row context (snd response) now state of
            (Inl e, s) \<Rightarrow> (Inl e, s) | (Inr _, s) \<Rightarrow> (Inr True, s));
          retry = (\<lambda>n instant reason. case reschedule env row n instant reason state of
            (Inl e, s) \<Rightarrow> (Inl e, s) | (Inr _, s) \<Rightarrow> (Inr False, s)) in
      if fst response = 200 then
        (case normalizeAdServicesResponse (ae_parseJson env) (snd response) of
           Inl e \<Rightarrow> (Inl e, state)
         | Inr context \<Rightarrow> complete context)
      else if fst response = 400 then complete (terminalContext ''lookup_unavailable'')
      else if fst response = 404 then
        (if 3 \<le> lu_attempts row + 1 then complete (terminalContext ''lookup_unavailable'')
         else retry (lu_attempts row + 1) (now + 5000) ''not_found'')
      else (let n = min 3 (lu_attempts row + 1) in
        retry n (now + backoffMs n) (''http_'' @ showNat (fst response))))"

definition expiredBody :: bytes where
  "expiredBody = utf8Bytes (CHR 0x7B # ''\"status\":\"token_expired\"'' @ [CHR 0x7D])"

definition processLookup :: "ads_env \<Rightarrow> string \<Rightarrow> int \<Rightarrow> lookup_row \<Rightarrow> ads_state \<Rightarrow> bool res \<times> ads_state" where
  "processLookup env endpoint now row state =
     (if TOKEN_LIFETIME \<le> now - lu_token_created_at row then
        (case completeLookup env row (terminalContext ''token_expired'') expiredBody now state of
           (Inl e, s) \<Rightarrow> (Inl e, s) | (Inr _, s) \<Rightarrow> (Inr True, s))
      else (case allowLookup now row state of
        (False, s) \<Rightarrow>
          (case reschedule env row (lu_attempts row) (now + 1000) ''rate_limited'' s of
             (Inl e, s') \<Rightarrow> (Inl e, s') | (Inr _, s') \<Rightarrow> (Inr False, s'))
      | (True, s) \<Rightarrow>
          (case tokenFor env (ad_store s) row of
             Inl e \<Rightarrow>
               if e \<noteq> JsError ''adservices_token_missing'' then (Inl e, s)
               else (case dropUnavailableToken env row s of
                 (Inl e', s') \<Rightarrow> (Inl e', s') | (Inr _, s') \<Rightarrow> (Inr True, s'))
           | Inr token \<Rightarrow> handleResponse env row (orElse (ae_client env endpoint token) networkFailure) now s)))"

definition processLookups ::
  "ads_env \<Rightarrow> string \<Rightarrow> int \<Rightarrow> lookup_row list \<Rightarrow> nat \<times> nat \<Rightarrow> ads_state \<Rightarrow> (nat \<times> nat) res \<times> ads_state" where
  "processLookups env endpoint now =
     forRows (processLookup env endpoint now)
       (\<lambda>completed (c, r). if completed then (Suc c, r) else (c, Suc r))"

definition processAdServicesLookups ::
  "ads_env \<Rightarrow> bool \<Rightarrow> string res \<Rightarrow> string \<Rightarrow> int \<Rightarrow> ads_state \<Rightarrow> (nat \<times> nat) res \<times> ads_state" where
  "processAdServicesLookups env enabled endpoint tenantId now state =
     (if \<not> enabled then (Inr (0, 0), state)
      else case endpoint of
        Inl e \<Rightarrow> (Inl e, state)
      | Inr url \<Rightarrow> processLookups env url now (dueLookups env tenantId now (ad_lookups state)) (0, 0) state)"

end
