(* ===== verification/AdServicesLaws.thy ===== *)
theory AdServicesLaws
  imports AdServices LedgerLaws "HOL-Library.Sublist"
begin

text \<open>
  What the lookup worker keeps: completing a lookup is atomic on the tables and the store, a tick
  of a tenant only supersedes attributions of that tenant and only removes or postpones its
  lookups, and a lookup that throws ends the tick with nothing changed.
\<close>

section \<open>The latest attribution of an install\<close>

lemma latestDecided_mem: "latestDecided collate as = Some a \<Longrightarrow> a \<in> set as"
  by (induction as arbitrary: a) (auto simp: Let_def split: option.splits if_splits)

lemma candidateAttributions_mem:
  "a \<in> set (candidateAttributions rows row i) \<longleftrightarrow> AttributionRow a \<in> set rows \<and> a_tenant_id a = lu_tenant_id row \<and>
     a_app_id a = lu_app_id row \<and> a_subject_scope a = InstallationLevel \<and> a_subject_ref a = Some i"
  by (auto simp: candidateAttributions_def split: ledger_row.splits if_splits)

lemma installAttribution_Inr:
  assumes "installAttribution env rows row = Inr a"
  obtains i where "i \<in> set (installationsOf rows row)"
    "latestDecided (ae_collate env) (candidateAttributions rows row i) = Some a"
proof -
  from assms obtain as where "List.map_filter (\<lambda>i. latestDecided (ae_collate env) (candidateAttributions rows row i)) (installationsOf rows row) = a # as"
    by (auto simp: installAttribution_def split: if_splits list.splits)
  then have "a \<in> set (List.map_filter (\<lambda>i. latestDecided (ae_collate env) (candidateAttributions rows row i)) (installationsOf rows row))"
    by simp
  then show thesis using that by (auto simp: List.map_filter_def)
qed

lemma installAttribution_mem:
  assumes "installAttribution env rows row = Inr a"
  shows "AttributionRow a \<in> set rows" "a_tenant_id a = lu_tenant_id row" "a_app_id a = lu_app_id row"
proof -
  obtain i where "latestDecided (ae_collate env) (candidateAttributions rows row i) = Some a"
    using installAttribution_Inr[OF assms] .
  from latestDecided_mem[OF this] show "AttributionRow a \<in> set rows" "a_tenant_id a = lu_tenant_id row" "a_app_id a = lu_app_id row"
    by (simp_all add: candidateAttributions_mem)
qed

section \<open>Completing a lookup\<close>

lemma adsStatement_Inr: "adsStatement env name f s = Inr s' \<longleftrightarrow> ae_database env name = None \<and> s' = f s"
  by (auto simp: adsStatement_def split: option.splits)

lemma insertStrict_Inr:
  "insertStrict refused row db = Inr db' \<longleftrightarrow>
     refused (db_rows db) row = None \<and> \<not> conflicting (db_rows db) row \<and> db' = db\<lparr>db_rows := db_rows db @ [row]\<rparr>"
  by (auto simp: insertStrict_def insertRow_Inr)

definition completedState ::
  "ads_env \<Rightarrow> lookup_row \<Rightarrow> adservices_context \<Rightarrow> bytes \<Rightarrow> string \<Rightarrow> int \<Rightarrow> string \<Rightarrow> attribution \<Rightarrow> ads_state \<Rightarrow> ads_state" where
  "completedState env row context body responseRef now decidedAt prior s =
     (let replacement = adservicesReplacement env row context (sha256Hex env body) responseRef decidedAt prior in
      s\<lparr>ad_db := (ad_db s)\<lparr>db_rows := db_rows (ad_db s) @ [AttributionRow replacement]\<rparr>,
        ad_results := ad_results s @
          [\<lparr>lr_lookup_result_id = uuidV7 (ae_uuidRandom env (lu_lookup_id row)) now, lr_tenant_id = lu_tenant_id row,
            lr_app_id = lu_app_id row, lr_install_record_id = lu_install_record_id row,
            lr_attribution_id = a_attribution_id replacement, lr_response_ref = responseRef,
            lr_response_digest = sha256Hex env body, lr_context = context, lr_decided_at = decidedAt\<rparr>],
        ad_lookups := filter (\<lambda>other. \<not> sameLookup row other) (ad_lookups s)\<rparr>)"

lemma completeLookupRows_Inr:
  assumes "completeLookupRows env row context (sha256Hex env body) responseRef now s = Inr s'"
  obtains prior decidedAt where "installAttribution env (db_rows (ad_db s)) row = Inr prior" "toISOString now = Inr decidedAt"
    "s' = completedState env row context body responseRef now decidedAt prior s"
    "\<not> conflicting (db_rows (ad_db s))
       (AttributionRow (adservicesReplacement env row context (sha256Hex env body) responseRef decidedAt prior))"
  using assms
  by (auto simp: completeLookupRows_def res_simps Let_def insertStrict_Inr adsStatement_Inr completedState_def deleteLookup_def)

text \<open>A payload that was just written is removed again without a trace.\<close>

lemma purge_unrecorded:
  assumes "payloadWrite ae keyRefused objectRefused random scope plaintext store = (store', Inr reference)"
    and "length (objectKeyId scope random) \<le> 512" "\<not> includesText (objectKeyId scope random) ''..''"
  shows "payloadPurge reference store' = (store, Inr ())"
proof (cases rule: payloadWrite_cases[of ae keyRefused objectRefused random scope plaintext store])
  case (failed e)
  then show ?thesis using assms by simp
next
  case (written wrapped object)
  then show ?thesis using assms
    by (auto simp: payloadPurge_def referenceKeyId_objectKeyId delete_fresh)
qed

definition shortResult :: "ads_env \<Rightarrow> lookup_row \<Rightarrow> bool" where
  "shortResult env row \<longleftrightarrow>
     length (objectKeyId (resultScope row) (ae_writeRandom env (lu_lookup_id row))) \<le> 512 \<and>
     \<not> includesText (objectKeyId (resultScope row) (ae_writeRandom env (lu_lookup_id row))) ''..''"

lemma completeLookup_throws:
  assumes "completeLookup env row context body now s = (Inl e, s')" and "shortResult env row"
  shows "s' = s"
proof (cases rule: payloadWrite_cases[of "ae_aead env" "ae_keyRefused env (lu_lookup_id row)" "ae_objectRefused env (lu_lookup_id row)"
      "ae_writeRandom env (lu_lookup_id row)" "resultScope row" body "ad_store s"])
  case (failed x)
  then show ?thesis using assms(1) by (simp add: completeLookup_def)
next
  case (written wrapped object)
  obtain store' reference where wrote: "payloadWrite (ae_aead env) (ae_keyRefused env (lu_lookup_id row)) (ae_objectRefused env (lu_lookup_id row))
      (ae_writeRandom env (lu_lookup_id row)) (resultScope row) body (ad_store s) = (store', Inr reference)"
    using written(1) by blast
  have "payloadPurge reference store' = (ad_store s, Inr ())"
    using purge_unrecorded[OF wrote] assms(2) by (simp add: shortResult_def)
  then show ?thesis using assms(1) wrote
    by (auto simp: completeLookup_def adsTx_def split: sum.splits prod.splits)
qed

lemma completeLookup_returns:
  assumes "completeLookup env row context body now s = (Inr u, s')"
  obtains store' responseRef prior decidedAt where
    "payloadWrite (ae_aead env) (ae_keyRefused env (lu_lookup_id row)) (ae_objectRefused env (lu_lookup_id row))
       (ae_writeRandom env (lu_lookup_id row)) (resultScope row) body (ad_store s) = (store', Inr responseRef)"
    "installAttribution env (db_rows (ad_db s)) row = Inr prior" "toISOString now = Inr decidedAt"
    "s' = completedState env row context body responseRef now decidedAt prior (s\<lparr>ad_store := store'\<rparr>)"
    "\<not> conflicting (db_rows (ad_db s))
       (AttributionRow (adservicesReplacement env row context (sha256Hex env body) responseRef decidedAt prior))"
proof -
  from assms obtain store' responseRef where wrote:
    "payloadWrite (ae_aead env) (ae_keyRefused env (lu_lookup_id row)) (ae_objectRefused env (lu_lookup_id row))
       (ae_writeRandom env (lu_lookup_id row)) (resultScope row) body (ad_store s) = (store', Inr responseRef)"
    by (auto simp: completeLookup_def split: prod.splits sum.splits)
  with assms have "completeLookupRows env row context (sha256Hex env body) responseRef now (s\<lparr>ad_store := store'\<rparr>) = Inr s'"
    by (auto simp: completeLookup_def adsTx_def split: prod.splits sum.splits)
  then show thesis using that wrote by (elim completeLookupRows_Inr) simp
qed

section \<open>What a tick keeps\<close>

definition lookupIdentity :: "lookup_row \<Rightarrow> string \<times> string \<times> string \<times> string \<times> string \<times> int" where
  "lookupIdentity r = (lu_lookup_id r, lu_tenant_id r, lu_app_id r, lu_install_record_id r, lu_token_ref r, lu_token_created_at r)"

text \<open>An attribution a tick may add: final, of the interface, in place of a stored one.\<close>

definition lookupDecision :: "string \<Rightarrow> ledger_row list \<Rightarrow> attribution \<Rightarrow> bool" where
  "lookupDecision tenantId rows a \<longleftrightarrow>
     a_tenant_id a = tenantId \<and> a_method a = AppleAdServices \<and> a_finality a = Final \<and>
     (\<exists>prior. AttributionRow prior \<in> set rows \<and> a_app_id prior = a_app_id a \<and>
        a_supersedes_attribution_id a = Some (a_attribution_id prior))"

definition fewAttempts :: "lookup_row list \<Rightarrow> bool" where
  "fewAttempts = list_all (\<lambda>r. lu_attempts r \<le> 3)"

definition adsKeeps :: "string \<Rightarrow> ads_state \<Rightarrow> ads_state \<Rightarrow> bool" where
  "adsKeeps tenantId s s' \<longleftrightarrow>
     db_revisions (ad_db s') = db_revisions (ad_db s) \<and> db_links (ad_db s') = db_links (ad_db s) \<and>
     (\<exists>added. db_rows (ad_db s') = db_rows (ad_db s) @ map AttributionRow added \<and>
        list_all (lookupDecision tenantId (db_rows (ad_db s'))) added) \<and>
     (\<exists>added. ad_results s' = ad_results s @ added \<and> list_all (\<lambda>r. lr_tenant_id r = tenantId) added) \<and>
     filter (\<lambda>r. lu_tenant_id r \<noteq> tenantId) (ad_lookups s') = filter (\<lambda>r. lu_tenant_id r \<noteq> tenantId) (ad_lookups s) \<and>
     subseq (map lookupIdentity (ad_lookups s')) (map lookupIdentity (ad_lookups s)) \<and>
     (fewAttempts (ad_lookups s) \<longrightarrow> fewAttempts (ad_lookups s'))"

lemma lookupDecision_more: "lookupDecision t rows a \<Longrightarrow> set rows \<subseteq> set rows' \<Longrightarrow> lookupDecision t rows' a"
  unfolding lookupDecision_def by blast

lemma adsKeeps_refl: "adsKeeps t s s"
  by (simp add: adsKeeps_def)

lemma adsKeeps_trans:
  assumes "adsKeeps t s1 s2" "adsKeeps t s2 s3"
  shows "adsKeeps t s1 s3"
proof -
  obtain a b where a: "db_rows (ad_db s2) = db_rows (ad_db s1) @ map AttributionRow a" "list_all (lookupDecision t (db_rows (ad_db s2))) a"
    and b: "db_rows (ad_db s3) = db_rows (ad_db s2) @ map AttributionRow b" "list_all (lookupDecision t (db_rows (ad_db s3))) b"
    using assms by (auto simp: adsKeeps_def)
  have "set (db_rows (ad_db s2)) \<subseteq> set (db_rows (ad_db s3))" using b(1) by simp
  then have "list_all (lookupDecision t (db_rows (ad_db s3))) a"
    using a(2) lookupDecision_more[of t "db_rows (ad_db s2)" _ "db_rows (ad_db s3)"] by (auto simp: list_all_iff)
  with a b have rows: "\<exists>added. db_rows (ad_db s3) = db_rows (ad_db s1) @ map AttributionRow added \<and>
      list_all (lookupDecision t (db_rows (ad_db s3))) added"
    by (intro exI[of _ "a @ b"]) simp
  obtain c d where "ad_results s2 = ad_results s1 @ c" "list_all (\<lambda>r. lr_tenant_id r = t) c"
    "ad_results s3 = ad_results s2 @ d" "list_all (\<lambda>r. lr_tenant_id r = t) d"
    using assms by (auto simp: adsKeeps_def)
  then have results: "\<exists>added. ad_results s3 = ad_results s1 @ added \<and> list_all (\<lambda>r. lr_tenant_id r = t) added"
    by (intro exI[of _ "c @ d"]) simp
  have "subseq (map lookupIdentity (ad_lookups s3)) (map lookupIdentity (ad_lookups s1))"
    using assms subseq_order.trans[of "map lookupIdentity (ad_lookups s3)" "map lookupIdentity (ad_lookups s2)"]
    by (simp add: adsKeeps_def)
  with assms rows results show ?thesis by (simp add: adsKeeps_def)
qed

lemma adsKeeps_lookups:
  assumes "ad_db s' = ad_db s" "ad_results s' = ad_results s"
    and "filter (\<lambda>r. lu_tenant_id r \<noteq> t) (ad_lookups s') = filter (\<lambda>r. lu_tenant_id r \<noteq> t) (ad_lookups s)"
    and "subseq (map lookupIdentity (ad_lookups s')) (map lookupIdentity (ad_lookups s))"
    and "fewAttempts (ad_lookups s) \<Longrightarrow> fewAttempts (ad_lookups s')"
  shows "adsKeeps t s s'"
  using assms by (simp add: adsKeeps_def)

lemma adsKeeps_same: "ad_db s' = ad_db s \<Longrightarrow> ad_results s' = ad_results s \<Longrightarrow> ad_lookups s' = ad_lookups s \<Longrightarrow> adsKeeps t s s'"
  by (rule adsKeeps_lookups) simp_all

text \<open>Removing a lookup of the tenant, and postponing one.\<close>

lemma without_lookup:
  assumes "lu_tenant_id row = t"
  shows "filter (\<lambda>r. lu_tenant_id r \<noteq> t) (filter (\<lambda>other. \<not> sameLookup row other) ls) = filter (\<lambda>r. lu_tenant_id r \<noteq> t) ls"
    and "subseq (map lookupIdentity (filter (\<lambda>other. \<not> sameLookup row other) ls)) (map lookupIdentity ls)"
    and "fewAttempts ls \<Longrightarrow> fewAttempts (filter (\<lambda>other. \<not> sameLookup row other) ls)"
proof -
  show "filter (\<lambda>r. lu_tenant_id r \<noteq> t) (filter (\<lambda>other. \<not> sameLookup row other) ls) = filter (\<lambda>r. lu_tenant_id r \<noteq> t) ls"
    unfolding filter_filter by (rule filter_cong) (use assms in \<open>auto simp: sameLookup_def\<close>)
  show "subseq (map lookupIdentity (filter (\<lambda>other. \<not> sameLookup row other) ls)) (map lookupIdentity ls)"
    by (rule subseq_map) (rule subseq_filter_left)
  show "fewAttempts ls \<Longrightarrow> fewAttempts (filter (\<lambda>other. \<not> sameLookup row other) ls)"
    by (auto simp: fewAttempts_def list_all_iff)
qed

lemma reschedule_keeps:
  assumes "reschedule env row n at0 reason s = (r, s')" "lu_tenant_id row = t" "n \<le> 3"
  shows "adsKeeps t s s'"
proof (cases "ae_database env ''UPDATE adservices_lookups''")
  case None
  let ?f = "\<lambda>other. if sameLookup row other
       then other\<lparr>lu_attempts := n, lu_next_attempt_at := at0, lu_last_outcome := Some reason\<rparr> else other"
  have s': "s' = s\<lparr>ad_lookups := map ?f (ad_lookups s)\<rparr>"
    using assms(1) None by (auto simp: reschedule_def adsTx_def adsStatement_def)
  show ?thesis
  proof (rule adsKeeps_lookups)
    have "filter (\<lambda>r. lu_tenant_id r \<noteq> t) (map ?f ls) = filter (\<lambda>r. lu_tenant_id r \<noteq> t) ls" for ls
      by (induction ls) (use assms(2) in \<open>auto simp: sameLookup_def\<close>)
    then show "filter (\<lambda>r. lu_tenant_id r \<noteq> t) (ad_lookups s') = filter (\<lambda>r. lu_tenant_id r \<noteq> t) (ad_lookups s)"
      by (simp add: s')
    have "map lookupIdentity (map ?f ls) = map lookupIdentity ls" for ls
      by (induction ls) (simp_all add: lookupIdentity_def)
    then have "map lookupIdentity (ad_lookups s') = map lookupIdentity (ad_lookups s)"
      unfolding s' by (simp del: map_map)
    then show "subseq (map lookupIdentity (ad_lookups s')) (map lookupIdentity (ad_lookups s))" by simp
    show "fewAttempts (ad_lookups s')" if "fewAttempts (ad_lookups s)"
      using that assms(3) by (auto simp: s' fewAttempts_def list_all_iff)
  qed (simp_all add: s')
next
  case (Some e)
  then have "s' = s" using assms(1) by (auto simp: reschedule_def adsTx_def adsStatement_def)
  then show ?thesis by (simp add: adsKeeps_refl)
qed

lemma dropUnavailableToken_keeps:
  assumes "dropUnavailableToken env row s = (r, s')" "lu_tenant_id row = t"
  shows "adsKeeps t s s'"
proof (cases "ae_database env ''DELETE adservices_lookups''")
  case None
  then have "s' = deleteLookup row s"
    using assms(1) by (auto simp: dropUnavailableToken_def adsTx_def adsStatement_def)
  then show ?thesis using without_lookup[OF assms(2)] by (intro adsKeeps_lookups) (simp_all add: deleteLookup_def)
next
  case (Some e)
  then have "s' = s" using assms(1) by (auto simp: dropUnavailableToken_def adsTx_def adsStatement_def)
  then show ?thesis by (simp add: adsKeeps_refl)
qed

lemma completedState_keeps:
  assumes prior: "installAttribution env (db_rows (ad_db s)) row = Inr prior" and t: "lu_tenant_id row = t"
  shows "adsKeeps t s (completedState env row context body responseRef now decidedAt prior (s\<lparr>ad_store := store'\<rparr>))"
proof -
  let ?new = "adservicesReplacement env row context (sha256Hex env body) responseRef decidedAt prior"
  let ?s' = "completedState env row context body responseRef now decidedAt prior (s\<lparr>ad_store := store'\<rparr>)"
  have rows: "db_rows (ad_db ?s') = db_rows (ad_db s) @ map AttributionRow [?new]"
    by (simp add: completedState_def Let_def)
  have "lookupDecision t (db_rows (ad_db ?s')) ?new"
    unfolding lookupDecision_def rows
    by (intro conjI exI[of _ prior])
      (use installAttribution_mem[OF prior] t in \<open>simp_all add: adservicesReplacement_def\<close>)
  then have added: "\<exists>added. db_rows (ad_db ?s') = db_rows (ad_db s) @ map AttributionRow added \<and>
      list_all (lookupDecision t (db_rows (ad_db ?s'))) added"
    using rows by (intro exI[of _ "[?new]"]) simp
  have results: "\<exists>added. ad_results ?s' = ad_results s @ added \<and> list_all (\<lambda>r. lr_tenant_id r = t) added"
    by (simp add: completedState_def Let_def t)
  have lookups: "ad_lookups ?s' = filter (\<lambda>other. \<not> sameLookup row other) (ad_lookups s)"
    by (simp add: completedState_def Let_def)
  have others: "db_revisions (ad_db ?s') = db_revisions (ad_db s)" "db_links (ad_db ?s') = db_links (ad_db s)"
    by (simp_all add: completedState_def Let_def)
  show ?thesis unfolding adsKeeps_def using added results without_lookup[OF t, of "ad_lookups s"]
    by (simp add: lookups others)
qed

lemma completeLookup_store:
  assumes "completeLookup env row context body now s = (Inl e, s')"
  shows "ad_db s' = ad_db s \<and> ad_results s' = ad_results s \<and> ad_lookups s' = ad_lookups s \<and> ad_limiter s' = ad_limiter s"
  using assms by (auto simp: completeLookup_def adsTx_def split: prod.splits sum.splits)

lemma completeLookup_keeps:
  assumes "completeLookup env row context body now s = (r, s')" "lu_tenant_id row = t"
  shows "adsKeeps t s s'"
proof (cases r)
  case (Inl e)
  then have "completeLookup env row context body now s = (Inl e, s')" using assms(1) by simp
  from completeLookup_store[OF this] show ?thesis by (intro adsKeeps_same) simp_all
next
  case (Inr u)
  then have "completeLookup env row context body now s = (Inr u, s')" using assms(1) by simp
  then obtain store' responseRef prior decidedAt where
    "installAttribution env (db_rows (ad_db s)) row = Inr prior"
    "s' = completedState env row context body responseRef now decidedAt prior (s\<lparr>ad_store := store'\<rparr>)"
    by (rule completeLookup_returns)
  then show ?thesis using completedState_keeps assms(2) by simp
qed

lemma allowLookup_keeps: "allowLookup now row s = (ok, s') \<Longrightarrow> s' = s\<lparr>ad_limiter := ad_limiter s'\<rparr>"
  by (auto simp: allowLookup_def split: option.splits prod.splits)

text \<open>The ways a lookup goes.\<close>

lemma handleResponse_cases:
  assumes "handleResponse env row response now s = (r, s')"
  obtains (completed) answer u where "completeLookup env row answer (snd response) now s = (u, s')"
      "r = (case u of Inl e \<Rightarrow> Inl e | Inr _ \<Rightarrow> Inr True)"
  | (postponed) n instant reason u where "reschedule env row n instant reason s = (u, s')"
      "n \<le> 3" "lu_attempts row \<le> n \<or> n = 3" "r = (case u of Inl e \<Rightarrow> Inl e | Inr _ \<Rightarrow> Inr False)"
  | (malformed) e where "fst response = 200" "normalizeAdServicesResponse (ae_parseJson env) (snd response) = Inl e"
      "r = Inl e" "s' = s"
proof -
  consider "fst response = 200" | "fst response \<noteq> 200" "fst response = 400"
    | "fst response \<noteq> 200" "fst response \<noteq> 400" "fst response = 404" "3 \<le> lu_attempts row + 1"
    | "fst response \<noteq> 200" "fst response \<noteq> 400" "fst response = 404" "\<not> 3 \<le> lu_attempts row + 1"
    | "fst response \<noteq> 200" "fst response \<noteq> 400" "fst response \<noteq> 404"
    by blast
  then show thesis
  proof cases
    case 1
    then show ?thesis using assms
      by (cases "normalizeAdServicesResponse (ae_parseJson env) (snd response)")
        (auto simp: handleResponse_def split: prod.splits sum.splits intro: completed malformed)
  next
    case 2
    then show ?thesis using assms
      by (auto simp: handleResponse_def split: prod.splits sum.splits intro: completed)
  next
    case 3
    then show ?thesis using assms
      by (auto simp: handleResponse_def split: prod.splits sum.splits intro: completed)
  next
    case 4
    obtain u where "reschedule env row (lu_attempts row + 1) (now + 5000) ''not_found'' s = (u, s')"
      "r = (case u of Inl e \<Rightarrow> Inl e | Inr _ \<Rightarrow> Inr False)"
      using assms 4 by (auto simp: handleResponse_def split: prod.splits sum.splits)
    then show ?thesis using 4 by (intro postponed[of "lu_attempts row + 1"]) simp_all
  next
    case 5
    obtain u where "reschedule env row (min 3 (lu_attempts row + 1)) (now + backoffMs (min 3 (lu_attempts row + 1)))
        (''http_'' @ showNat (fst response)) s = (u, s')" "r = (case u of Inl e \<Rightarrow> Inl e | Inr _ \<Rightarrow> Inr False)"
      using assms 5 by (auto simp: handleResponse_def Let_def split: prod.splits sum.splits)
    then show ?thesis by (intro postponed[of "min 3 (lu_attempts row + 1)"]) auto
  qed
qed

lemma handleResponse_keeps:
  assumes "handleResponse env row response now s = (r, s')" "lu_tenant_id row = t"
  shows "adsKeeps t s s'"
  using assms(1)
proof (cases rule: handleResponse_cases)
  case (completed answer u)
  then show ?thesis using completeLookup_keeps assms(2) by blast
next
  case (postponed n instant reason u)
  then show ?thesis using reschedule_keeps assms(2) by blast
next
  case (malformed e)
  then show ?thesis by (simp add: adsKeeps_refl)
qed

lemma processLookup_cases:
  assumes "processLookup env endpoint now row s = (r, s')"
  obtains (expired) u where "TOKEN_LIFETIME \<le> now - lu_token_created_at row"
      "completeLookup env row (terminalContext ''token_expired'') expiredBody now s = (u, s')"
      "r = (case u of Inl e \<Rightarrow> Inl e | Inr _ \<Rightarrow> Inr True)"
  | (limited) s1 u where "allowLookup now row s = (False, s1)"
      "reschedule env row (lu_attempts row) (now + 1000) ''rate_limited'' s1 = (u, s')"
      "r = (case u of Inl e \<Rightarrow> Inl e | Inr _ \<Rightarrow> Inr False)"
  | (unreadable) e where "allowLookup now row s = (True, s')" "tokenFor env (ad_store s') row = Inl e"
      "e \<noteq> JsError ''adservices_token_missing''" "r = Inl e"
  | (dropped) s1 u where "allowLookup now row s = (True, s1)" "dropUnavailableToken env row s1 = (u, s')"
      "r = (case u of Inl e \<Rightarrow> Inl e | Inr _ \<Rightarrow> Inr True)"
  | (answered) s1 token where "allowLookup now row s = (True, s1)" "tokenFor env (ad_store s1) row = Inr token"
      "handleResponse env row (orElse (ae_client env endpoint token) networkFailure) now s1 = (r, s')"
proof (cases "TOKEN_LIFETIME \<le> now - lu_token_created_at row")
  case True
  obtain u where "completeLookup env row (terminalContext ''token_expired'') expiredBody now s = (u, s')"
    "r = (case u of Inl e \<Rightarrow> Inl e | Inr _ \<Rightarrow> Inr True)"
    using assms True by (auto simp: processLookup_def split: prod.splits sum.splits)
  with True show thesis by (rule expired)
next
  case False
  obtain ok s1 where allowed: "allowLookup now row s = (ok, s1)" by fastforce
  show thesis
  proof (cases ok)
    case True
    show ?thesis
    proof (cases "tokenFor env (ad_store s1) row")
      case (Inl e)
      show ?thesis
      proof (cases "e = JsError ''adservices_token_missing''")
        case True
        obtain u where "dropUnavailableToken env row s1 = (u, s')" "r = (case u of Inl e \<Rightarrow> Inl e | Inr _ \<Rightarrow> Inr True)"
          using assms False allowed \<open>ok\<close> Inl True by (auto simp: processLookup_def split: prod.splits sum.splits)
        then show ?thesis using dropped[of s1 u] allowed \<open>ok\<close> by simp
      next
        case other: False
        then have "r = Inl e" "s' = s1" using assms False allowed \<open>ok\<close> Inl by (simp_all add: processLookup_def)
        then show ?thesis using unreadable[of e] allowed \<open>ok\<close> Inl other by simp
      qed
    next
      case (Inr token)
      then show ?thesis using assms False allowed \<open>ok\<close> answered[of s1 token] by (simp add: processLookup_def)
    qed
  next
    case refused: False
    obtain u where "reschedule env row (lu_attempts row) (now + 1000) ''rate_limited'' s1 = (u, s')"
      "r = (case u of Inl e \<Rightarrow> Inl e | Inr _ \<Rightarrow> Inr False)"
      using assms False allowed refused by (auto simp: processLookup_def split: prod.splits sum.splits)
    then show ?thesis using limited[of s1 u] allowed refused by simp
  qed
qed

lemma allowLookup_adsKeeps: "allowLookup now row s = (ok, s') \<Longrightarrow> adsKeeps t s s'"
  by (rule adsKeeps_same) (auto simp: allowLookup_def split: option.splits prod.splits)

lemma processLookup_keeps:
  assumes run: "processLookup env endpoint now row s = (r, s')" and t: "lu_tenant_id row = t" and few: "lu_attempts row \<le> 3"
  shows "adsKeeps t s s'"
  using run
proof (cases rule: processLookup_cases)
  case (expired u)
  then show ?thesis using completeLookup_keeps t by blast
next
  case (limited s1 u)
  then show ?thesis using adsKeeps_trans[OF allowLookup_adsKeeps reschedule_keeps[OF _ t few]] by blast
next
  case (unreadable e)
  then show ?thesis using allowLookup_adsKeeps by blast
next
  case (dropped s1 u)
  then show ?thesis using adsKeeps_trans[OF allowLookup_adsKeeps dropUnavailableToken_keeps[OF _ t]] by blast
next
  case (answered s1 token)
  then show ?thesis using adsKeeps_trans[OF allowLookup_adsKeeps handleResponse_keeps[OF _ t]] by blast
qed

interpretation lookups: queue_tick "processLookup env endpoint now" "\<lambda>row. lu_tenant_id row = t \<and> lu_attempts row \<le> 3" "adsKeeps t"
  for env endpoint now t
  by unfold_locales (auto intro: adsKeeps_refl adsKeeps_trans processLookup_keeps)

lemma set_dueLookups: "set (dueLookups env t now rows) \<subseteq> {r \<in> set rows. lu_tenant_id r = t}"
  by (auto simp: dueLookups_def dest!: in_set_takeD)

lemma processAdServicesLookups_keeps:
  assumes "processAdServicesLookups env enabled endpoint t now s = (r, s')" "fewAttempts (ad_lookups s)"
  shows "adsKeeps t s s'"
proof (cases "enabled \<and> (\<exists>url. endpoint = Inr url)")
  case True
  then obtain url where "processLookups env url now (dueLookups env t now (ad_lookups s)) (0, 0) s = (r, s')"
    using assms(1) by (auto simp: processAdServicesLookups_def)
  moreover have "list_all (\<lambda>row. lu_tenant_id row = t \<and> lu_attempts row \<le> 3) (dueLookups env t now (ad_lookups s))"
    using set_dueLookups[of env t now "ad_lookups s"] assms(2) by (auto simp: list_all_iff fewAttempts_def)
  ultimately show ?thesis unfolding processLookups_def by (rule lookups.tick[rotated])
next
  case False
  then have "s' = s" using assms(1) by (auto simp: processAdServicesLookups_def split: sum.splits if_splits)
  then show ?thesis by (simp add: adsKeeps_refl)
qed

section \<open>A lookup that throws\<close>

lemma processLookup_throws:
  assumes "processLookup env endpoint now row s = (Inl e, s')" and short: "shortResult env row"
  shows "s' = s\<lparr>ad_limiter := ad_limiter s'\<rparr>"
  using assms(1)
proof (cases rule: processLookup_cases)
  case (expired u)
  then have "s' = s" by (cases u) (auto dest: completeLookup_throws[OF _ short])
  then show ?thesis by simp
next
  case (limited s1 u)
  then have "s' = s1" by (cases u) (auto simp: reschedule_def adsTx_def adsStatement_def split: sum.splits option.splits)
  with limited show ?thesis using allowLookup_keeps by blast
next
  case (unreadable e')
  then show ?thesis using allowLookup_keeps by blast
next
  case (dropped s1 u)
  then have "s' = s1" by (cases u) (auto simp: dropUnavailableToken_def adsTx_def adsStatement_def split: sum.splits option.splits)
  with dropped show ?thesis using allowLookup_keeps by blast
next
  case (answered s1 token)
  have "s' = s1"
    using answered(3)
  proof (cases rule: handleResponse_cases)
    case (completed answer u)
    then show ?thesis by (cases u) (auto dest: completeLookup_throws[OF _ short])
  next
    case (postponed n instant reason u)
    then show ?thesis by (cases u) (auto simp: reschedule_def adsTx_def adsStatement_def split: sum.splits option.splits)
  qed simp
  with answered(1) show ?thesis using allowLookup_keeps by blast
qed

text \<open>
  A 200 answer that does not normalize ends the tick with nothing done for any lookup: the row
  keeps its place in the order, so the next tick starts with it again.
\<close>

lemma malformed_answer_blocks:
  assumes "dueLookups env t now (ad_lookups s) = row # rest" "now - lu_token_created_at row < TOKEN_LIFETIME"
    and "ad_limiter s = None" "tokenFor env (ad_store s) row = Inr token"
    and "ae_client env url token = Some (200, body)" "normalizeAdServicesResponse (ae_parseJson env) body = Inl e"
  shows "processAdServicesLookups env True (Inr url) t now s = (Inl e, s)"
  using assms by (simp add: processAdServicesLookups_def processLookups_def processLookup_def allowLookup_def handleResponse_def)

end
