(* ===== verification/Integrity.thy ===== *)
theory Integrity
  imports AdServicesResponse LookupQueue IngestBatch
begin

text \<open>
  The verifier of \<^verbatim>\<open>apps/worker/src/integrity-verifier.ts\<close>: a queue of device integrity tokens, the
  providers that check them, and one verdict for each binding. The providers, cryptography, random
  bytes and the refusals of the database are parameters.
\<close>

section \<open>State\<close>

datatype integrity_provider = PlayIntegrity | AppAttest

datatype verifier_verdict = VerifiedVerdict | FailedVerdict | UnavailableVerdict

fun providerText :: "integrity_provider \<Rightarrow> string" where
  "providerText PlayIntegrity = ''play_integrity''"
| "providerText AppAttest = ''app_attest''"

record pending_integrity =
  pi_tenantId :: string
  pi_appId :: string
  pi_subjectRecordId :: string
  pi_provider :: integrity_provider
  pi_tokenRef :: string
  pi_bindingDigest :: string
  pi_requestedAt :: string

record verification_row =
  vf_verification_id :: string
  vf_tenant_id :: string
  vf_app_id :: string
  vf_provider :: integrity_provider
  vf_token_ref :: string
  vf_subject_record_id :: string
  vf_next_attempt_at :: int
  vf_challenge_digest :: string

record integrity_result =
  vt_verification_result_id :: string
  vt_tenant_id :: string
  vt_app_id :: string
  vt_subject_record_id :: string
  vt_provider :: integrity_provider
  vt_verdict :: verifier_verdict
  vt_evidence_ref :: "string option"
  vt_response_digest :: "string option"
  vt_binding_digest :: string
  vt_decided_at :: string

record integrity_state =
  is_pending :: "verification_row list"
  is_results :: "integrity_result list"
  is_store :: payload_store

record integrity_env =
  ge_aead :: aead
  ge_sha256 :: "bytes \<Rightarrow> bytes"
  ge_parseJson :: "bytes \<Rightarrow> json res"
  ge_dateParse :: "string \<Rightarrow> int option"
  ge_parseUrl :: "string \<Rightarrow> endpoint_url option"
  ge_uuidRandom :: "string \<Rightarrow> bytes"
  ge_writeRandom :: "string \<Rightarrow> write_random"
  ge_keyRefused :: "string \<Rightarrow> bool"
  ge_objectRefused :: "string \<Rightarrow> bool"
  ge_database :: database
  ge_client :: "integrity_provider \<Rightarrow> string \<Rightarrow> string \<Rightarrow> string \<Rightarrow> (nat \<times> bytes) option"

section \<open>The answer of a provider\<close>

datatype integrity_details =
    PlayDetails bool bool bool
  | AttestDetails bool bool bool bool

text \<open>\<^verbatim>\<open>a ?? b\<close>\<close>

definition nullishJson :: "json option \<Rightarrow> json option \<Rightarrow> json option" where
  "nullishJson a b = (case a of None \<Rightarrow> b | Some JNull \<Rightarrow> b | _ \<Rightarrow> a)"

definition normalizeIntegrityResponse ::
  "(bytes \<Rightarrow> json res) \<Rightarrow> integrity_provider \<Rightarrow> bytes \<Rightarrow> string \<Rightarrow> (verifier_verdict \<times> integrity_details) res" where
  "normalizeIntegrityResponse parse provider body bindingDigest =
     bindR (parseObject ''integrity'' parse body) (\<lambda>value.
       case provider of
         PlayIntegrity \<Rightarrow>
           (let requestDetails = map_of value ''requestDetails'';
                binding = nullishJson (optionalProperty requestDetails ''requestHash'') (optionalProperty requestDetails ''nonce'');
                matched = (binding = Some (JStr bindingDigest));
                recognized = (optionalProperty (map_of value ''appIntegrity'') ''appRecognitionVerdict'' = Some (JStr ''PLAY_RECOGNIZED''));
                met = (case optionalProperty (map_of value ''deviceIntegrity'') ''deviceRecognitionVerdict'' of
                  Some (JArr xs) \<Rightarrow> JStr ''MEETS_DEVICE_INTEGRITY'' \<in> set xs | _ \<Rightarrow> False)
            in Inr (if matched \<and> recognized \<and> met then VerifiedVerdict else FailedVerdict, PlayDetails matched recognized met))
       | AppAttest \<Rightarrow>
           (let matched = (map_of value ''binding_digest'' = Some (JStr bindingDigest));
                appId = (map_of value ''app_id_valid'' = Some (JBool True));
                signature = (map_of value ''signature_valid'' = Some (JBool True));
                counter = (map_of value ''counter_valid'' = Some (JBool True))
            in Inr (if matched \<and> appId \<and> signature \<and> counter then VerifiedVerdict else FailedVerdict,
                 AttestDetails matched appId signature counter)))"

text \<open>The verdict, and whether the answer is kept as evidence.\<close>

definition classifyIntegrityProviderResponse ::
  "(bytes \<Rightarrow> json res) \<Rightarrow> integrity_provider \<Rightarrow> nat \<times> bytes \<Rightarrow> string \<Rightarrow> verifier_verdict \<times> bool" where
  "classifyIntegrityProviderResponse parse provider response bindingDigest =
     (if fst response = 429 \<or> 500 \<le> fst response then (UnavailableVerdict, False)
      else if fst response \<noteq> 200 then (FailedVerdict, True)
      else case normalizeIntegrityResponse parse provider (snd response) bindingDigest of
        Inl e \<Rightarrow> (FailedVerdict, True)
      | Inr v \<Rightarrow> (fst v, True))"

section \<open>Queuing\<close>

definition integrityTx :: "integrity_env \<Rightarrow> (integrity_state \<Rightarrow> integrity_state res) \<Rightarrow> integrity_state \<Rightarrow> unit res \<times> integrity_state" where
  "integrityTx env f state = (case f state of Inl e \<Rightarrow> (Inl e, state) | Inr state' \<Rightarrow> (Inr (), state'))"

definition integrityStatement ::
  "integrity_env \<Rightarrow> string \<Rightarrow> (integrity_state \<Rightarrow> integrity_state) \<Rightarrow> integrity_state \<Rightarrow> integrity_state res" where
  "integrityStatement env name f state = (case ge_database env name of Some e \<Rightarrow> Inl e | None \<Rightarrow> Inr (f state))"

text \<open>The unique keys of the two tables.\<close>

definition verificationKey :: "verification_row \<Rightarrow> string \<times> string \<times> integrity_provider \<times> string" where
  "verificationKey r = (vf_tenant_id r, vf_app_id r, vf_provider r, vf_challenge_digest r)"

definition resultKey :: "integrity_result \<Rightarrow> string \<times> string \<times> integrity_provider \<times> string" where
  "resultKey r = (vt_tenant_id r, vt_app_id r, vt_provider r, vt_binding_digest r)"

definition isLowerHex :: "char \<Rightarrow> bool" where
  "isLowerHex c = (isDigit c \<or> codeIn 97 102 c)"

definition bindingDigestValid :: "string \<Rightarrow> bool" where
  "bindingDigestValid s = (length s = 64 \<and> list_all isLowerHex s)"

definition queuedVerification :: "integrity_env \<Rightarrow> int \<Rightarrow> pending_integrity \<Rightarrow> verification_row" where
  "queuedVerification env requested input =
     \<lparr>vf_verification_id = uuidV7 (ge_uuidRandom env (pi_bindingDigest input)) requested,
      vf_tenant_id = pi_tenantId input, vf_app_id = pi_appId input, vf_provider = pi_provider input,
      vf_token_ref = pi_tokenRef input, vf_subject_record_id = pi_subjectRecordId input,
      vf_next_attempt_at = requested, vf_challenge_digest = pi_bindingDigest input\<rparr>"

definition insertVerification :: "verification_row \<Rightarrow> integrity_state \<Rightarrow> integrity_state" where
  "insertVerification row s =
     (if list_ex (\<lambda>r. resultKey r = verificationKey row) (is_results s) \<or>
         list_ex (\<lambda>r. verificationKey r = verificationKey row) (is_pending s)
      then s else s\<lparr>is_pending := is_pending s @ [row]\<rparr>)"

definition queueIntegrityVerification :: "integrity_env \<Rightarrow> pending_integrity \<Rightarrow> integrity_state \<Rightarrow> unit res \<times> integrity_state" where
  "queueIntegrityVerification env input state =
     (if \<not> bindingDigestValid (pi_bindingDigest input) then (Inl (JsError ''integrity_binding_digest_invalid''), state)
      else case ge_dateParse env (pi_requestedAt input) of
        None \<Rightarrow> (Inl RangeError, state)
      | Some requested \<Rightarrow>
          integrityTx env (integrityStatement env ''ephemeral.integrity_verifications''
            (insertVerification (queuedVerification env requested input))) state)"

section \<open>A verdict\<close>

definition integrityTokenFor :: "integrity_env \<Rightarrow> payload_store \<Rightarrow> verification_row \<Rightarrow> string res" where
  "integrityTokenFor env store row =
     bindR (payloadRead (ge_aead env) (vf_token_ref row) store) (\<lambda>content.
     bindR (ge_parseJson env content) (\<lambda>body.
       storedToken ''integrity'' ''integrity_token_protected'' body (vf_subject_record_id row)))"

definition integrityScope :: "verification_row \<Rightarrow> payload_scope" where
  "integrityScope row = \<lparr>sc_tenantId = vf_tenant_id row, sc_appId = vf_app_id row,
     sc_objectId = ''integrity-result-'' @ vf_verification_id row\<rparr>"

definition insertResult :: "integrity_result \<Rightarrow> integrity_state \<Rightarrow> integrity_state" where
  "insertResult result s =
     (if list_ex (\<lambda>r. resultKey r = resultKey result) (is_results s) then s
      else s\<lparr>is_results := is_results s @ [result]\<rparr>)"

definition sameVerification :: "verification_row \<Rightarrow> verification_row \<Rightarrow> bool" where
  "sameVerification a b = (vf_tenant_id a = vf_tenant_id b \<and> vf_app_id a = vf_app_id b \<and>
     vf_verification_id a = vf_verification_id b)"

definition deleteVerification :: "verification_row \<Rightarrow> integrity_state \<Rightarrow> integrity_state" where
  "deleteVerification row s = s\<lparr>is_pending := filter (\<lambda>other. \<not> sameVerification row other) (is_pending s)\<rparr>"

definition verificationResult ::
  "integrity_env \<Rightarrow> verification_row \<Rightarrow> verifier_verdict \<Rightarrow> string option \<Rightarrow> string option \<Rightarrow> int \<Rightarrow> string \<Rightarrow> integrity_result" where
  "verificationResult env row verdict evidenceRef responseDigest now decidedAt =
     \<lparr>vt_verification_result_id = uuidV7 (ge_uuidRandom env (vf_verification_id row)) now,
      vt_tenant_id = vf_tenant_id row, vt_app_id = vf_app_id row,
      vt_subject_record_id = vf_subject_record_id row, vt_provider = vf_provider row, vt_verdict = verdict,
      vt_evidence_ref = evidenceRef, vt_response_digest = responseDigest,
      vt_binding_digest = vf_challenge_digest row, vt_decided_at = decidedAt\<rparr>"

definition completeRows ::
  "integrity_env \<Rightarrow> verification_row \<Rightarrow> verifier_verdict \<Rightarrow> string option \<Rightarrow> string option \<Rightarrow> int \<Rightarrow> integrity_state \<Rightarrow> integrity_state res" where
  "completeRows env row verdict evidenceRef responseDigest now s =
     bindR (toISOString now) (\<lambda>decidedAt.
     bindR (integrityStatement env ''ledger.integrity_verification_results''
              (insertResult (verificationResult env row verdict evidenceRef responseDigest now decidedAt)) s) (\<lambda>s.
       integrityStatement env ''DELETE integrity_verifications'' (deleteVerification row) s))"

text \<open>The evidence to write: none for an unavailable provider.\<close>

definition writeEvidence ::
  "integrity_env \<Rightarrow> verification_row \<Rightarrow> verifier_verdict \<Rightarrow> bytes option \<Rightarrow> payload_store \<Rightarrow> payload_store \<times> string option res" where
  "writeEvidence env row verdict responseBody store =
     (case responseBody of
        Some body \<Rightarrow>
          if verdict = UnavailableVerdict then (store, Inr None)
          else (case payloadWrite (ge_aead env) (ge_keyRefused env (vf_verification_id row)) (ge_objectRefused env (vf_verification_id row))
                  (ge_writeRandom env (vf_verification_id row)) (integrityScope row) body store of
                  (store', Inl e) \<Rightarrow> (store', Inl e)
                | (store', Inr reference) \<Rightarrow> (store', Inr (Some reference)))
      | None \<Rightarrow> (store, Inr None))"

definition completeVerification ::
  "integrity_env \<Rightarrow> verification_row \<Rightarrow> verifier_verdict \<Rightarrow> bytes option \<Rightarrow> int \<Rightarrow> integrity_state \<Rightarrow> unit res \<times> integrity_state" where
  "completeVerification env row verdict responseBody now state =
     (let responseDigest = (case responseBody of
            Some body \<Rightarrow> if verdict = UnavailableVerdict then None else Some (hexText (ge_sha256 env body))
          | None \<Rightarrow> None) in
      case writeEvidence env row verdict responseBody (is_store state) of
        (store, Inl e) \<Rightarrow> (Inl e, state\<lparr>is_store := store\<rparr>)
      | (store, Inr evidenceRef) \<Rightarrow>
          (case integrityTx env (completeRows env row verdict evidenceRef responseDigest now) (state\<lparr>is_store := store\<rparr>) of
             (Inr u, state') \<Rightarrow> (Inr u, state')
           | (Inl e, state') \<Rightarrow>
               (case evidenceRef of
                  None \<Rightarrow> (Inl e, state')
                | Some reference \<Rightarrow>
                    (case payloadPurge reference (is_store state') of
                       (store', Inl purgeError) \<Rightarrow> (Inl purgeError, state'\<lparr>is_store := store'\<rparr>)
                     | (store', Inr _) \<Rightarrow> (Inl e, state'\<lparr>is_store := store'\<rparr>)))))"

section \<open>A tick\<close>

datatype provider_mode = ModeOff | ModeOne integrity_provider | ModeBoth

record verifier_options =
  vo_providerMode :: provider_mode
  vo_playEndpoint :: "string option"
  vo_appAttestEndpoint :: "string option"

definition modeServes :: "provider_mode \<Rightarrow> integrity_provider \<Rightarrow> bool" where
  "modeServes mode provider = (mode = ModeBoth \<or> mode = ModeOne provider)"

text \<open>\<^verbatim>\<open>ORDER BY next_attempt_at, verification_id LIMIT 100\<close>\<close>

definition dueVerifications :: "provider_mode \<Rightarrow> string \<Rightarrow> int \<Rightarrow> verification_row list \<Rightarrow> verification_row list" where
  "dueVerifications mode tenantId now rows =
     take 100 (js_sort (\<lambda>a b. if vf_next_attempt_at a < vf_next_attempt_at b then -1
         else if vf_next_attempt_at b < vf_next_attempt_at a then 1
         else compareText (vf_verification_id a) (vf_verification_id b))
       (filter (\<lambda>r. vf_tenant_id r = tenantId \<and> vf_next_attempt_at r \<le> now \<and> modeServes mode (vf_provider r)) rows))"

definition endpointOf :: "verifier_options \<Rightarrow> verification_row \<Rightarrow> string option" where
  "endpointOf options row =
     keepTruthy (case vf_provider row of PlayIntegrity \<Rightarrow> vo_playEndpoint options | AppAttest \<Rightarrow> vo_appAttestEndpoint options)"

text \<open>What the provider answers: 503 when the endpoint is refused or the request fails.\<close>

definition providerResponse :: "integrity_env \<Rightarrow> verification_row \<Rightarrow> string \<Rightarrow> string \<Rightarrow> nat \<times> bytes" where
  "providerResponse env row endpointValue token =
     (case checkedEndpoint ''integrity'' (ge_parseUrl env) endpointValue of
        Inl e \<Rightarrow> (503, [])
      | Inr endpoint \<Rightarrow> orElse (ge_client env (vf_provider row) endpoint token (vf_challenge_digest row)) (503, []))"

text \<open>A row's verdict, and the answer to keep.\<close>

definition verdictOf :: "integrity_env \<Rightarrow> verifier_options \<Rightarrow> payload_store \<Rightarrow> verification_row \<Rightarrow> verifier_verdict \<times> bytes option" where
  "verdictOf env options store row =
     (case endpointOf options row of
        None \<Rightarrow> (UnavailableVerdict, None)
      | Some endpointValue \<Rightarrow>
          (case integrityTokenFor env store row of
             Inl e \<Rightarrow> (UnavailableVerdict, None)
           | Inr token \<Rightarrow>
               (let response = providerResponse env row endpointValue token;
                    outcome = classifyIntegrityProviderResponse (ge_parseJson env) (vf_provider row) response (vf_challenge_digest row)
                in (fst outcome, if snd outcome then Some (snd response) else None))))"

text \<open>\<open>True\<close> for a row whose provider was unavailable.\<close>

definition processVerification ::
  "integrity_env \<Rightarrow> verifier_options \<Rightarrow> int \<Rightarrow> verification_row \<Rightarrow> integrity_state \<Rightarrow> bool res \<times> integrity_state" where
  "processVerification env options now row state =
     (case verdictOf env options (is_store state) row of
        (verdict, responseBody) \<Rightarrow>
          (case completeVerification env row verdict responseBody now state of
             (Inl e, s) \<Rightarrow> (Inl e, s)
           | (Inr _, s) \<Rightarrow> (Inr (verdict = UnavailableVerdict), s)))"

definition processIntegrityVerifications ::
  "integrity_env \<Rightarrow> verifier_options \<Rightarrow> string \<Rightarrow> int \<Rightarrow> integrity_state \<Rightarrow> (nat \<times> nat) res \<times> integrity_state" where
  "processIntegrityVerifications env options tenantId now state =
     (if vo_providerMode options = ModeOff then (Inr (0, 0), state)
      else forRows (processVerification env options now)
        (\<lambda>unavailable (completed, n). (Suc completed, if unavailable then Suc n else n))
        (dueVerifications (vo_providerMode options) tenantId now (is_pending state)) (0, 0) state)"

end
