(* ===== verification/IntegrityLaws.thy ===== *)
theory IntegrityLaws
  imports Integrity "HOL-Library.Sublist"
begin

text \<open>
  What the integrity verifier keeps: a binding is pending or decided, never both and never twice;
  a verdict of verified rests on an answer of the provider; a tick that returns has decided every
  row that was due.
\<close>

section \<open>Pending or decided\<close>

definition decidedOnce :: "integrity_state \<Rightarrow> bool" where
  "decidedOnce s \<longleftrightarrow>
     distinct (map verificationKey (is_pending s)) \<and> distinct (map resultKey (is_results s)) \<and>
     verificationKey ` set (is_pending s) \<inter> resultKey ` set (is_results s) = {}"

lemma insertVerification_once: "decidedOnce s \<Longrightarrow> decidedOnce (insertVerification row s)"
  by (auto simp: decidedOnce_def insertVerification_def list_ex_iff image_iff)

lemma queueIntegrityVerification_once:
  assumes "queueIntegrityVerification env input s = (r, s')" "decidedOnce s"
  shows "decidedOnce s'"
  using assms insertVerification_once
  by (auto simp: queueIntegrityVerification_def integrityTx_def integrityStatement_def
      split: if_splits option.splits sum.splits)

lemma insertResult_pending: "is_pending (insertResult result s) = is_pending s" "is_store (insertResult result s) = is_store s"
  by (simp_all add: insertResult_def)

lemma insertResult_keys: "resultKey ` set (is_results (insertResult result s)) = insert (resultKey result) (resultKey ` set (is_results s))"
proof (cases "list_ex (\<lambda>r. resultKey r = resultKey result) (is_results s)")
  case True
  then obtain r where "r \<in> set (is_results s)" "resultKey r = resultKey result" by (auto simp: list_ex_iff)
  then have "resultKey result \<in> resultKey ` set (is_results s)" using image_eqI[of "resultKey result" resultKey r] by simp
  with True show ?thesis by (simp add: insertResult_def insert_absorb)
qed (simp add: insertResult_def)

lemma insertResult_distinct: "distinct (map resultKey (is_results s)) \<Longrightarrow> distinct (map resultKey (is_results (insertResult result s)))"
  by (auto simp: insertResult_def list_ex_iff)

section \<open>A verdict of the provider\<close>

definition soundResult :: "integrity_env \<Rightarrow> string \<Rightarrow> integrity_result \<Rightarrow> bool" where
  "soundResult env t r \<longleftrightarrow>
     vt_tenant_id r = t \<and>
     (vt_verdict r = VerifiedVerdict \<longrightarrow> (\<exists>endpoint token body details.
        ge_client env (vt_provider r) endpoint token (vt_binding_digest r) = Some (200, body) \<and>
        normalizeIntegrityResponse (ge_parseJson env) (vt_provider r) body (vt_binding_digest r) = Inr (VerifiedVerdict, details)))"

lemma classify_verified:
  assumes "fst (classifyIntegrityProviderResponse parse provider response binding) = VerifiedVerdict"
  shows "fst response = 200" "\<exists>details. normalizeIntegrityResponse parse provider (snd response) binding = Inr (VerifiedVerdict, details)"
  using assms by (auto simp: classifyIntegrityProviderResponse_def split: if_splits sum.splits)

lemma verdictOf_verified:
  assumes "fst (verdictOf env options store row) = VerifiedVerdict"
  obtains endpoint token body details where
    "ge_client env (vf_provider row) endpoint token (vf_challenge_digest row) = Some (200, body)"
    "normalizeIntegrityResponse (ge_parseJson env) (vf_provider row) body (vf_challenge_digest row) = Inr (VerifiedVerdict, details)"
proof -
  from assms obtain endpointValue token where
    "fst (classifyIntegrityProviderResponse (ge_parseJson env) (vf_provider row)
       (providerResponse env row endpointValue token) (vf_challenge_digest row)) = VerifiedVerdict"
    by (auto simp: verdictOf_def Let_def split: option.splits sum.splits)
  note verified = classify_verified[OF this]
  from verified(1) obtain endpoint body where
    "ge_client env (vf_provider row) endpoint token (vf_challenge_digest row) = Some (200, body)"
    "providerResponse env row endpointValue token = (200, body)"
    by (auto simp: providerResponse_def orElse_def split: sum.splits option.splits)
  with verified(2) that show thesis by auto
qed

text \<open>What the answers of the two providers say when they verify a binding.\<close>

lemma normalize_verified_play:
  assumes "normalizeIntegrityResponse parse PlayIntegrity body binding = Inr (VerifiedVerdict, details)"
  obtains answer xs where "parse body = Inr (JObj answer)"
    "nullishJson (optionalProperty (map_of answer ''requestDetails'') ''requestHash'')
       (optionalProperty (map_of answer ''requestDetails'') ''nonce'') = Some (JStr binding)"
    "optionalProperty (map_of answer ''appIntegrity'') ''appRecognitionVerdict'' = Some (JStr ''PLAY_RECOGNIZED'')"
    "optionalProperty (map_of answer ''deviceIntegrity'') ''deviceRecognitionVerdict'' = Some (JArr xs)"
    "JStr ''MEETS_DEVICE_INTEGRITY'' \<in> set xs"
  using assms
  by (auto simp: normalizeIntegrityResponse_def parseObject_Inr Let_def res_simps
      split: if_splits json.splits option.splits)

lemma normalize_verified_attest:
  assumes "normalizeIntegrityResponse parse AppAttest body binding = Inr (VerifiedVerdict, details)"
  obtains answer where "parse body = Inr (JObj answer)" "map_of answer ''binding_digest'' = Some (JStr binding)"
    "map_of answer ''app_id_valid'' = Some (JBool True)" "map_of answer ''signature_valid'' = Some (JBool True)"
    "map_of answer ''counter_valid'' = Some (JBool True)"
  using assms
  by (auto simp: normalizeIntegrityResponse_def parseObject_Inr Let_def res_simps split: if_splits)

section \<open>One row\<close>

lemma integrityStatement_Inr: "integrityStatement env name f s = Inr s' \<longleftrightarrow> ge_database env name = None \<and> s' = f s"
  by (auto simp: integrityStatement_def split: option.splits)

lemma completeRows_Inr:
  assumes "completeRows env row verdict evidenceRef responseDigest now s = Inr s'"
  obtains decidedAt where "toISOString now = Inr decidedAt"
    "s' = deleteVerification row (insertResult (verificationResult env row verdict evidenceRef responseDigest now decidedAt) s)"
  using assms by (auto simp: completeRows_def res_simps integrityStatement_Inr)

lemma completeVerification_cases:
  assumes "completeVerification env row verdict responseBody now s = (r, s')"
  obtains (threw) e where "r = Inl e" "is_pending s' = is_pending s" "is_results s' = is_results s"
  | (decided) store evidenceRef responseDigest decidedAt where "r = Inr ()"
      "s' = deleteVerification row (insertResult
         (verificationResult env row verdict evidenceRef responseDigest now decidedAt) (s\<lparr>is_store := store\<rparr>))"
proof -
  obtain responseDigest where digest: "responseDigest = (case responseBody of
      Some body \<Rightarrow> if verdict = UnavailableVerdict then None else Some (hexText (ge_sha256 env body)) | None \<Rightarrow> None)" by simp
  obtain store written where evidence: "writeEvidence env row verdict responseBody (is_store s) = (store, written)" by fastforce
  note run = assms[unfolded completeVerification_def digest[symmetric] evidence Let_def prod.case]
  show thesis
  proof (cases written)
    case (Inl e)
    then have "r = Inl e" "s' = s\<lparr>is_store := store\<rparr>" using run by auto
    then show ?thesis using threw[of e] by simp
  next
    case (Inr evidenceRef)
    show ?thesis
    proof (cases "completeRows env row verdict evidenceRef responseDigest now (s\<lparr>is_store := store\<rparr>)")
      case (Inl e)
      then have kept: "integrityTx env (completeRows env row verdict evidenceRef responseDigest now) (s\<lparr>is_store := store\<rparr>) =
          (Inl e, s\<lparr>is_store := store\<rparr>)" by (simp add: integrityTx_def)
      show ?thesis
      proof (cases evidenceRef)
        case None
        then have "r = Inl e" "s' = s\<lparr>is_store := store\<rparr>" using run \<open>written = _\<close> kept by auto
        then show ?thesis using threw[of e] by simp
      next
        case (Some reference)
        obtain store' p where "payloadPurge reference store = (store', p)" by fastforce
        then show ?thesis using run \<open>written = _\<close> kept Some threw by (cases p) auto
      qed
    next
      case (Inr s2)
      then have "r = Inr ()" "s' = s2" using run \<open>written = _\<close> by (simp_all add: integrityTx_def)
      moreover obtain decidedAt where
        "s2 = deleteVerification row (insertResult (verificationResult env row verdict evidenceRef responseDigest now decidedAt) (s\<lparr>is_store := store\<rparr>))"
        using completeRows_Inr[OF Inr] .
      ultimately show ?thesis using decided by simp
    qed
  qed
qed

text \<open>What a row of the tenant may do, when the rows of the tick are \<open>due\<close>.\<close>

definition integrityKeeps :: "integrity_env \<Rightarrow> string \<Rightarrow> verification_row set \<Rightarrow> integrity_state \<Rightarrow> integrity_state \<Rightarrow> bool" where
  "integrityKeeps env t due s s' \<longleftrightarrow>
     (\<exists>added. is_results s' = is_results s @ added \<and> list_all (soundResult env t) added) \<and>
     subseq (is_pending s') (is_pending s) \<and>
     filter (\<lambda>r. vf_tenant_id r \<noteq> t) (is_pending s') = filter (\<lambda>r. vf_tenant_id r \<noteq> t) (is_pending s) \<and>
     (set (is_pending s) \<subseteq> due \<longrightarrow> decidedOnce s \<longrightarrow> decidedOnce s')"

lemma integrityKeeps_refl: "integrityKeeps env t due s s"
  by (simp add: integrityKeeps_def)

lemma integrityKeeps_trans:
  assumes "integrityKeeps env t due s1 s2" "integrityKeeps env t due s2 s3"
  shows "integrityKeeps env t due s1 s3"
proof -
  obtain a where "is_results s2 = is_results s1 @ a" "list_all (soundResult env t) a"
    using assms(1) unfolding integrityKeeps_def by blast
  moreover obtain b where "is_results s3 = is_results s2 @ b" "list_all (soundResult env t) b"
    using assms(2) unfolding integrityKeeps_def by blast
  ultimately have "\<exists>added. is_results s3 = is_results s1 @ added \<and> list_all (soundResult env t) added"
    by (intro exI[of _ "a @ b"]) simp
  moreover have "subseq (is_pending s3) (is_pending s1)"
    using assms subseq_order.trans[of "is_pending s3" "is_pending s2"] by (simp add: integrityKeeps_def)
  moreover have "set xs \<subseteq> set ys" if "subseq xs ys" for xs ys :: "verification_row list"
    using list_emb_set[OF that] by blast
  then have "set (is_pending s2) \<subseteq> set (is_pending s1)"
    using assms(1) by (simp add: integrityKeeps_def)
  ultimately show ?thesis using assms by (simp add: integrityKeeps_def)
qed

lemma soundResult_row:
  assumes "verdict = fst (verdictOf env options store row)" "vf_tenant_id row = t"
  shows "soundResult env t (verificationResult env row verdict evidenceRef responseDigest now decidedAt)"
proof (cases "verdict = VerifiedVerdict")
  case True
  then obtain endpoint token body details where
    "ge_client env (vf_provider row) endpoint token (vf_challenge_digest row) = Some (200, body)"
    "normalizeIntegrityResponse (ge_parseJson env) (vf_provider row) body (vf_challenge_digest row) = Inr (VerifiedVerdict, details)"
    using verdictOf_verified assms(1) by metis
  then show ?thesis using assms(2) by (auto simp: soundResult_def verificationResult_def)
next
  case False
  then show ?thesis using assms(2) by (simp add: soundResult_def verificationResult_def)
qed

lemma resultKey_row: "resultKey (verificationResult env row verdict evidenceRef responseDigest now decidedAt) = verificationKey row"
  by (simp add: resultKey_def verificationResult_def verificationKey_def)

lemma decide_once:
  assumes once: "decidedOnce s" and due: "set (is_pending s) \<subseteq> due" "row \<in> due" "inj_on verificationKey due"
    and key: "resultKey result = verificationKey row"
  shows "decidedOnce (deleteVerification row (insertResult result s))"
proof -
  let ?left = "filter (\<lambda>other. \<not> sameVerification row other) (is_pending s)"
  have "verificationKey row \<notin> verificationKey ` set ?left"
  proof
    assume "verificationKey row \<in> verificationKey ` set ?left"
    then obtain other where other: "verificationKey row = verificationKey other" "other \<in> set (is_pending s)" "\<not> sameVerification row other"
      by auto
    then have "other = row" using due inj_onD[of verificationKey due other row] by (simp add: subset_iff)
    then show False using other(3) by (simp add: sameVerification_def)
  qed
  moreover have "verificationKey ` set ?left \<subseteq> verificationKey ` set (is_pending s)" by (rule image_mono) auto
  moreover have "distinct (map verificationKey ?left)" using once by (simp add: decidedOnce_def distinct_map_filter)
  ultimately show ?thesis using once insertResult_distinct[of s result] insertResult_keys[of result s] key
    unfolding decidedOnce_def deleteVerification_def by (auto simp: insertResult_pending)
qed

lemma deleteVerification_pending:
  assumes "vf_tenant_id row = t"
  shows "subseq (is_pending (deleteVerification row s)) (is_pending s)"
    and "filter (\<lambda>r. vf_tenant_id r \<noteq> t) (is_pending (deleteVerification row s)) = filter (\<lambda>r. vf_tenant_id r \<noteq> t) (is_pending s)"
proof -
  show "subseq (is_pending (deleteVerification row s)) (is_pending s)"
    by (simp add: deleteVerification_def subseq_filter_left)
  show "filter (\<lambda>r. vf_tenant_id r \<noteq> t) (is_pending (deleteVerification row s)) = filter (\<lambda>r. vf_tenant_id r \<noteq> t) (is_pending s)"
    unfolding deleteVerification_def using assms
    by (auto simp: sameVerification_def intro: filter_cong)
qed

lemma processVerification_keeps:
  assumes run: "processVerification env options now row s = (r, s')"
    and row: "vf_tenant_id row = t" "row \<in> due" "inj_on verificationKey due"
  shows "integrityKeeps env t due s s'"
proof -
  obtain verdict responseBody where verdict: "verdictOf env options (is_store s) row = (verdict, responseBody)" by fastforce
  obtain u where finished: "completeVerification env row verdict responseBody now s = (u, s')"
    using run verdict by (auto simp: processVerification_def split: prod.splits sum.splits)
  from finished show ?thesis
  proof (cases rule: completeVerification_cases)
    case (threw e)
    then show ?thesis by (simp add: integrityKeeps_def decidedOnce_def)
  next
    case (decided store evidenceRef responseDigest decidedAt)
    let ?result = "verificationResult env row verdict evidenceRef responseDigest now decidedAt"
    have sound: "soundResult env t ?result" using soundResult_row[of verdict env options "is_store s" row t] verdict row(1) by simp
    have "is_results s' = is_results (insertResult ?result (s\<lparr>is_store := store\<rparr>))"
      by (simp add: decided deleteVerification_def)
    then have results: "\<exists>added. is_results s' = is_results s @ added \<and> list_all (soundResult env t) added"
      using sound by (auto simp: insertResult_def)
    have "decidedOnce s'" if "set (is_pending s) \<subseteq> due" "decidedOnce s"
      unfolding decided(2) using that decide_once[OF _ _ row(2,3) resultKey_row, of "s\<lparr>is_store := store\<rparr>"]
      by (simp add: decidedOnce_def)
    with results deleteVerification_pending[OF row(1), of "insertResult ?result (s\<lparr>is_store := store\<rparr>)"] show ?thesis
      by (simp add: integrityKeeps_def decided(2) insertResult_pending)
  qed
qed

section \<open>A tick\<close>

definition decidedRow :: "verification_row \<Rightarrow> integrity_state \<Rightarrow> bool" where
  "decidedRow row s \<longleftrightarrow> list_ex (\<lambda>r. resultKey r = verificationKey row) (is_results s) \<and> row \<notin> set (is_pending s)"

lemma decidedRow_keeps:
  assumes "integrityKeeps env t due s s'" "decidedRow row s"
  shows "decidedRow row s'"
proof -
  have "set (is_pending s') \<subseteq> set (is_pending s)"
    using assms(1) list_emb_set[of "(=)" "is_pending s'" "is_pending s"] unfolding integrityKeeps_def by blast
  moreover obtain added where "is_results s' = is_results s @ added"
    using assms(1) unfolding integrityKeeps_def by blast
  ultimately show ?thesis using assms(2) by (auto simp: decidedRow_def)
qed

lemma processVerification_decides:
  assumes "processVerification env options now row s = (Inr v, s')"
  shows "decidedRow row s'"
proof -
  obtain verdict responseBody where verdict: "verdictOf env options (is_store s) row = (verdict, responseBody)" by fastforce
  obtain u where "completeVerification env row verdict responseBody now s = (Inr u, s')"
    using assms verdict by (auto simp: processVerification_def split: prod.splits sum.splits)
  then show ?thesis
  proof (cases rule: completeVerification_cases)
    case (decided store evidenceRef responseDigest decidedAt)
    let ?result = "verificationResult env row verdict evidenceRef responseDigest now decidedAt"
    have "list_ex (\<lambda>r. resultKey r = verificationKey row) (is_results s')"
      unfolding decided(2) by (auto simp: deleteVerification_def insertResult_def resultKey_row)
    moreover have "row \<notin> set (is_pending s')"
      unfolding decided(2) by (simp add: deleteVerification_def sameVerification_def)
    ultimately show ?thesis by (simp add: decidedRow_def)
  qed simp
qed

interpretation verifications: queue_goal "processVerification env options now"
    "\<lambda>row. vf_tenant_id row = t \<and> row \<in> due \<and> inj_on verificationKey due" "integrityKeeps env t due" decidedRow
  for env options now t due
  by unfold_locales
    (auto intro: integrityKeeps_refl integrityKeeps_trans processVerification_keeps processVerification_decides decidedRow_keeps)

lemma set_dueVerifications:
  "set (dueVerifications mode t now rows) \<subseteq> {r \<in> set rows. vf_tenant_id r = t \<and> vf_next_attempt_at r \<le> now \<and> modeServes mode (vf_provider r)}"
  by (auto simp: dueVerifications_def dest!: in_set_takeD)

lemma due_good:
  assumes "decidedOnce s"
  shows "list_all (\<lambda>row. vf_tenant_id row = t \<and> row \<in> set (is_pending s) \<and> inj_on verificationKey (set (is_pending s)))
    (dueVerifications mode t now (is_pending s))"
  using set_dueVerifications[of mode t now "is_pending s"] assms
  by (auto simp: list_all_iff decidedOnce_def distinct_map)

lemma processIntegrityVerifications_keeps:
  assumes run: "processIntegrityVerifications env options t now s = (r, s')" and once: "decidedOnce s"
  shows "integrityKeeps env t (set (is_pending s)) s s'"
proof (cases "vo_providerMode options = ModeOff")
  case True
  then show ?thesis using run by (simp add: processIntegrityVerifications_def integrityKeeps_refl)
next
  case False
  then show ?thesis using run unfolding processIntegrityVerifications_def
    by (simp only: if_False) (rule verifications.tick[OF due_good[OF once]])
qed

lemma processIntegrityVerifications_decides:
  assumes run: "processIntegrityVerifications env options t now s = (Inr (completed, unavailable), s')" and once: "decidedOnce s"
    and on: "vo_providerMode options \<noteq> ModeOff"
  shows "list_all (\<lambda>row. decidedRow row s') (dueVerifications (vo_providerMode options) t now (is_pending s))"
    and "completed = length (dueVerifications (vo_providerMode options) t now (is_pending s))"
proof -
  let ?tally = "\<lambda>unavailable (completed, n). (Suc completed, if unavailable then Suc n else n)"
  have loop: "forRows (processVerification env options now) ?tally
      (dueVerifications (vo_providerMode options) t now (is_pending s)) (0, 0) s = (Inr (completed, unavailable), s')"
    using run on by (simp add: processIntegrityVerifications_def)
  show "list_all (\<lambda>row. decidedRow row s') (dueVerifications (vo_providerMode options) t now (is_pending s))"
    by (rule verifications.all_reached[OF due_good[OF once] loop])
  show "completed = length (dueVerifications (vo_providerMode options) t now (is_pending s))"
    using forRows_count[OF loop, of fst] by (simp add: split_beta)
qed

end
