(* ===== verification/SampleLookup.thy ===== *)
theory SampleLookup
  imports SampleIngest SampleRedirect AdServicesLaws IntegrityLaws
begin

text \<open>
  Concrete queues on which the theorems of the lookup workers are applied: an encrypted referrer
  of Meta, an install whose token the interface answers, and a token that a provider verifies.
\<close>

section \<open>A sealed referrer\<close>

definition keyedAead :: aead where
  "keyedAead = \<lparr>ae_seal = (\<lambda>key nonce aad plaintext. (plaintext, take 16 key)),
     ae_open = (\<lambda>key nonce aad tag ciphertext. if tag = take 16 key then Some ciphertext else None)\<rparr>"

definition sampleMetaApi :: meta_api where
  "sampleMetaApi = \<lparr>ma_aead = keyedAead,
     ma_parseJson = (\<lambda>_. Inr (JObj [(''campaign_id'', JStr ''c''), (''user_id'', JStr ''u'')]))\<rparr>"

definition metaKeyOf :: "string \<Rightarrow> bytes \<Rightarrow> meta_key" where
  "metaKeyOf i key = \<lparr>mk_key_id = i, mk_key_hex = hexText key\<rparr>"

definition sampleMetaSource :: meta_source where
  "sampleMetaSource = sealedSource keyedAead (replicate 32 2) (replicate 12 0) [7]"

lemma sample_meta_opened:
  "decryptMetaInstallReferrer sampleMetaApi (Some sampleMetaSource) [metaKeyOf ''old'' (replicate 32 1), metaKeyOf ''new'' (replicate 32 2)] =
     MetaDecrypted ''new'' \<lparr>mc_context = [(''campaign_id'', JStr ''c'')], mc_is_ct = None, mc_actual_timestamp = None\<rparr>"
proof -
  have parsed: "parsePlaintext sampleMetaApi [7] =
      Some \<lparr>mc_context = [(''campaign_id'', JStr ''c'')], mc_is_ct = None, mc_actual_timestamp = None\<rparr>"
    by (simp add: parsePlaintext_def sampleMetaApi_def allowedFields_def sourceFlag_def sourceTimestamp_def)
  have aead: "ma_aead sampleMetaApi = keyedAead" by (simp add: sampleMetaApi_def)
  have ok: "aead_ok (ma_aead sampleMetaApi)" by (simp add: aead aead_ok_def keyedAead_def)
  have sealed: "ae_seal (ma_aead sampleMetaApi) (replicate 32 2) (replicate 12 0) [] [7] = ([7], replicate 16 2)"
    by (simp add: aead keyedAead_def)
  have old: "keyBytes (metaKeyOf ''old'' (replicate 32 1)) = Some (replicate 32 1)"
    by (simp add: keyBytes_def metaKeyOf_def hexText_hex hexBytes_hexText length_hexText)
  have "\<forall>k \<in> set [metaKeyOf ''old'' (replicate 32 1)]. \<forall>b. keyBytes k = Some b \<longrightarrow>
      ae_open (ma_aead sampleMetaApi) b (replicate 12 0) [] (replicate 16 2) [7] = None"
    by (simp add: old aead keyedAead_def)
  from decrypt_sealed[OF ok _ _ sealed _ _ _ this parsed, of "metaKeyOf ''new'' (replicate 32 2)" "[]"] show ?thesis
    by (simp add: sampleMetaSource_def aead metaKeyOf_def)
qed

section \<open>A lookup that is answered\<close>

definition sampleRaw :: raw_record where
  "sampleRaw = \<lparr>rr_contract_version = CONTRACT_VERSION, rr_record_id = ''i1'', rr_tenant_id = ''t'', rr_app_id = ''a'',
     rr_producer = ''sdk-ios'', rr_producer_version = ''1'', rr_producer_variant = None, rr_wrapper_version = None,
     rr_event_id = ''e'', rr_delivery_id = ''d'', rr_event_name = ''install'', rr_schema_version = ''1'',
     rr_payload_sha256 = ''h'', rr_occurred_at = sampleTime, rr_occurred_at_source = ''device'',
     rr_received_at = sampleTime, rr_payload_lifecycle_status = Available, rr_raw_payload_ref = ''protected:i1'',
     rr_integrity_verdict = None, rr_processing_purpose_id = None, rr_consent_evaluation_policy_version = ''1'',
     rr_consent_decision_reason_code = ConsentNotRequired, rr_withdrawal_recognized_at = None,
     rr_alternative_legal_basis_id = None, rr_alternative_legal_basis_policy_version = None\<rparr>"

definition sampleInstallFact :: install_fact where
  "sampleInstallFact = \<lparr>nf_installation_id = Some ''u1'', nf_prior_installation_id = None, nf_install_type = None,
     nf_click_id = None, nf_install_begin_at_server = None, nf_occurred_at = sampleTime, nf_campaign_id = None,
     nf_network = None, nf_country = None, nf_artifact = JNull\<rparr>"

definition sampleInstallLogical :: logical_event where
  "sampleInstallLogical = makeLogicalEvent installAttempt"

definition sampleInstallRows :: "ledger_row list" where
  "sampleInstallRows = [RawRow ''p'' sampleRaw, LogicalRow sampleInstallLogical,
     FactRow \<lparr>fa_logical_event_id = le_logical_event_id sampleInstallLogical, fa_tenant_id = ''t'', fa_app_id = ''a'',
       fa_fact = InstallFact sampleInstallFact\<rparr>,
     AttributionRow sampleAttribution]"

definition protectedToken :: "string \<Rightarrow> json" where
  "protectedToken field = JObj [(''records'', JArr [JObj [(''record_id'', JStr ''i1''),
     (''payload'', JObj [(''extensions'', JObj [(field, JStr ''tok'')])])]])]"

definition tokenStore :: payload_store where
  "tokenStore = emptyStore\<lparr>
     st_objects := [(''k'', \<lparr>eo_key_id = ''k'', eo_tenant_id = ''t'', eo_app_id = ''a'',
       eo_sealed = \<lparr>sl_nonce = [], sl_tag = [], sl_ciphertext = [1]\<rparr>\<rparr>)],
     st_keys := [(''k'', \<lparr>sl_nonce = [], sl_tag = [], sl_ciphertext = []\<rparr>)]\<rparr>"

definition sampleAdsEnv :: ads_env where
  "sampleAdsEnv = \<lparr>ae_aead = sampleAead, ae_sha256 = (\<lambda>_. [0]),
     ae_parseJson = (\<lambda>body. if body = [1] then Inr (protectedToken ''adservices_attribution_token_protected'')
       else if body = [2] then Inr (JObj [(''attribution'', JBool False)]) else Inl SyntaxError),
     ae_dateParse = (\<lambda>_. None), ae_uuidRandom = (\<lambda>_. replicate 16 0), ae_writeRandom = (\<lambda>_. sampleWriteRandom),
     ae_keyRefused = (\<lambda>_. False), ae_objectRefused = (\<lambda>_. False), ae_collate = compareText,
     ae_refused = (\<lambda>_ _. None), ae_database = (\<lambda>_. None),
     ae_client = (\<lambda>endpoint token. if token = ''tok'' then Some (200, [2]) else None)\<rparr>"

definition sampleLookup :: lookup_row where
  "sampleLookup = \<lparr>lu_lookup_id = ''q'', lu_tenant_id = ''t'', lu_app_id = ''a'', lu_install_record_id = ''i1'',
     lu_token_ref = ''encrypted:k'', lu_token_created_at = 0, lu_attempts = 0, lu_next_attempt_at = 0, lu_last_outcome = None\<rparr>"

definition sampleAdsState :: ads_state where
  "sampleAdsState = \<lparr>ad_db = \<lparr>db_rows = sampleInstallRows, db_revisions = [], db_links = []\<rparr>, ad_lookups = [sampleLookup],
     ad_results = [], ad_store = tokenStore, ad_limiter = None\<rparr>"

lemma token_stored: "payloadRead sampleAead ''encrypted:k'' tokenStore = Inr [1]"
  by (simp add: payloadRead_def referenceKeyId_def encryptedPrefix_def throwIf_def startsWith_def isReferenceChar_def
      isAlphaNum_def readFile_def tokenStore_def emptyStore_def decrypt_def sampleAead_def)

lemma sample_token: "tokenFor sampleAdsEnv tokenStore sampleLookup = Inr ''tok''"
  by (simp add: tokenFor_def sampleAdsEnv_def sampleLookup_def token_stored storedToken_def protectedToken_def
      propertyOf_def optionalProperty_def utf8Bytes_def utf8Char_def)

lemma sample_prior: "installAttribution sampleAdsEnv sampleInstallRows sampleLookup = Inr sampleAttribution"
  by (simp add: ingest_scope sample_fields sample_defs makeLogicalEvent_def latestDecided.simps map_filter_simps installAttribution_def hasRawRecord_def sampleInstallRows_def sampleLookup_def sampleRaw_def
      installationsOf_def installFactRows_def logicalIdsOf_def sampleInstallFact_def sampleInstallLogical_def
      candidateAttributions_def sampleAttribution_def attributionResult_def Let_def)

lemma sample_written:
  "payloadWrite sampleAead False False sampleWriteRandom (resultScope sampleLookup) body tokenStore =
     (fst (payloadWrite sampleAead False False sampleWriteRandom (resultScope sampleLookup) body tokenStore),
      Inr ''encrypted:t-a-adservices-result-q.'')"
  by (simp add: payloadWrite_def Let_def writeNew_def objectKeyId_def safeName_def resultScope_def sampleLookup_def
      sampleWriteRandom_def isReferenceChar_def isAlphaNum_def hexText_def tokenStore_def emptyStore_def encryptedPrefix_def)

lemma sample_digest: "sha256Hex sampleAdsEnv body = ''00''"
  by (simp add: sha256Hex_def sampleAdsEnv_def hexText_def byteHex_def hexDigit_def)

lemma sample_no_conflict:
  "\<not> conflicting sampleInstallRows (AttributionRow (adservicesReplacement sampleAdsEnv sampleLookup answer d ref now prior))"
  by (simp add: conflicting_def sampleInstallRows_def adservicesReplacement_def replacementIdOf_def
      sampleAttribution_def attributionResult_def Let_def sample_fields sample_defs)

lemma sample_env_fields: "ae_aead sampleAdsEnv = sampleAead" "ae_keyRefused sampleAdsEnv i = False"
  "ae_objectRefused sampleAdsEnv i = False" "ae_writeRandom sampleAdsEnv i = sampleWriteRandom"
  "ae_refused sampleAdsEnv = (\<lambda>_ _. None)" "ae_database sampleAdsEnv = (\<lambda>_. None)"
  by (simp_all add: sampleAdsEnv_def)

lemma sample_completed:
  "\<exists>s'. completeLookup sampleAdsEnv sampleLookup answer body 1000 sampleAdsState = (Inr (), s') \<and> ad_lookups s' = []"
proof -
  obtain store where wrote: "payloadWrite sampleAead False False sampleWriteRandom (resultScope sampleLookup) body tokenStore =
      (store, Inr ''encrypted:t-a-adservices-result-q.'')"
    using sample_written by blast
  have iso: "toISOString 1000 = Inr (toISOText 1000)" by (simp add: toISOString_def timeClip_def)
  have rows: "ad_store sampleAdsState = tokenStore" "db_rows (ad_db sampleAdsState) = sampleInstallRows"
    "ad_lookups sampleAdsState = [sampleLookup]" by (simp_all add: sampleAdsState_def)
  have "\<exists>s'. completeLookupRows sampleAdsEnv sampleLookup answer (sha256Hex sampleAdsEnv body)
      ''encrypted:t-a-adservices-result-q.'' 1000 (sampleAdsState\<lparr>ad_store := store\<rparr>) = Inr s' \<and> ad_lookups s' = []"
    by (simp add: completeLookupRows_def rows sample_prior iso insertStrict_def sample_no_conflict insertRow_def
        sample_env_fields adsStatement_def Let_def deleteLookup_def sameLookup_def)
  then show ?thesis by (auto simp: completeLookup_def sample_env_fields rows wrote adsTx_def)
qed

lemma sample_due: "dueLookups env ''t'' 1000 [sampleLookup] = [sampleLookup]"
  by (simp add: dueLookups_def sampleLookup_def)

lemma sample_processed:
  "\<exists>s'. processAdServicesLookups sampleAdsEnv True (Inr ''https://ads.example/'') ''t'' 1000 sampleAdsState = (Inr (1, 0), s') \<and>
     ad_lookups s' = []"
proof -
  have context_read: "normalizeAdServicesResponse (ae_parseJson sampleAdsEnv) [2] =
      Inr \<lparr>ac_status = ''not_attributed'', ac_attribution = False, ac_fields = []\<rparr>"
    by (simp add: normalizeAdServicesResponse_def parseObject_def sampleAdsEnv_def)
  obtain s' where finished: "completeLookup sampleAdsEnv sampleLookup \<lparr>ac_status = ''not_attributed'', ac_attribution = False, ac_fields = []\<rparr>
      [2] 1000 sampleAdsState = (Inr (), s')" "ad_lookups s' = []"
    using sample_completed by blast
  have "ae_client sampleAdsEnv endpoint ''tok'' = Some (200, [2])" for endpoint by (simp add: sampleAdsEnv_def)
  moreover have "allowLookup 1000 sampleLookup sampleAdsState = (True, sampleAdsState)"
    by (simp add: allowLookup_def sampleAdsState_def)
  moreover have "tokenFor sampleAdsEnv (ad_store sampleAdsState) sampleLookup = Inr ''tok''"
    using sample_token by (simp add: sampleAdsState_def)
  moreover have "\<not> TOKEN_LIFETIME \<le> 1000 - lu_token_created_at sampleLookup" by (simp add: TOKEN_LIFETIME_def sampleLookup_def)
  ultimately have "processLookup sampleAdsEnv endpoint 1000 sampleLookup sampleAdsState = (Inr True, s')" for endpoint
    using finished(1) context_read by (simp add: processLookup_def handleResponse_def Let_def)
  then have "processAdServicesLookups sampleAdsEnv True (Inr ''https://ads.example/'') ''t'' 1000 sampleAdsState = (Inr (1, 0), s')"
    using sample_due by (simp add: processAdServicesLookups_def processLookups_def sampleAdsState_def)
  with finished(2) show ?thesis by blast
qed

section \<open>A token that a provider verifies\<close>

definition sampleBinding :: string where
  "sampleBinding = replicate 64 (CHR ''a'')"

definition sampleIntegrityEnv :: integrity_env where
  "sampleIntegrityEnv = \<lparr>ge_aead = sampleAead, ge_sha256 = (\<lambda>_. [0]),
     ge_parseJson = (\<lambda>body. if body = [1] then Inr (protectedToken ''integrity_token_protected'')
       else Inr (JObj [(''requestDetails'', JObj [(''requestHash'', JStr sampleBinding)]),
         (''appIntegrity'', JObj [(''appRecognitionVerdict'', JStr ''PLAY_RECOGNIZED'')]),
         (''deviceIntegrity'', JObj [(''deviceRecognitionVerdict'', JArr [JStr ''MEETS_DEVICE_INTEGRITY''])])])),
     ge_dateParse = (\<lambda>_. None),
     ge_parseUrl = (\<lambda>s. Some \<lparr>eu_protocol = ''https:'', eu_hostname = ''play.example'', eu_username = [], eu_password = [],
       eu_search = [], eu_hash = [], eu_text = s\<rparr>),
     ge_uuidRandom = (\<lambda>_. replicate 16 0), ge_writeRandom = (\<lambda>_. sampleWriteRandom),
     ge_keyRefused = (\<lambda>_. False), ge_objectRefused = (\<lambda>_. False), ge_database = (\<lambda>_. None),
     ge_client = (\<lambda>provider endpoint token binding. if token = ''tok'' then Some (200, [2]) else None)\<rparr>"

definition sampleVerification :: verification_row where
  "sampleVerification = \<lparr>vf_verification_id = ''v'', vf_tenant_id = ''t'', vf_app_id = ''a'', vf_provider = PlayIntegrity,
     vf_token_ref = ''encrypted:k'', vf_subject_record_id = ''i1'', vf_next_attempt_at = 0, vf_challenge_digest = sampleBinding\<rparr>"

definition sampleIntegrityState :: integrity_state where
  "sampleIntegrityState = \<lparr>is_pending = [sampleVerification], is_results = [], is_store = tokenStore\<rparr>"

definition sampleVerifier :: verifier_options where
  "sampleVerifier = \<lparr>vo_providerMode = ModeBoth, vo_playEndpoint = Some ''https://play.example/'', vo_appAttestEndpoint = None\<rparr>"

lemma sample_integrity_token: "integrityTokenFor sampleIntegrityEnv tokenStore sampleVerification = Inr ''tok''"
  by (simp add: integrityTokenFor_def sampleIntegrityEnv_def sampleVerification_def token_stored storedToken_def
      protectedToken_def propertyOf_def optionalProperty_def utf8Bytes_def utf8Char_def)

lemma sample_verdict: "verdictOf sampleIntegrityEnv sampleVerifier tokenStore sampleVerification = (VerifiedVerdict, Some [2])"
proof -
  have "endpointOf sampleVerifier sampleVerification = Some ''https://play.example/''"
    by (simp add: endpointOf_def sampleVerifier_def sampleVerification_def keepTruthy_def)
  moreover have "providerResponse sampleIntegrityEnv sampleVerification ''https://play.example/'' ''tok'' = (200, [2])"
    by (simp add: providerResponse_def checkedEndpoint_def sampleIntegrityEnv_def sampleVerification_def Let_def)
  moreover have "classifyIntegrityProviderResponse (ge_parseJson sampleIntegrityEnv) PlayIntegrity (200, [2]) sampleBinding =
      (VerifiedVerdict, True)"
    by (simp add: classifyIntegrityProviderResponse_def normalizeIntegrityResponse_def parseObject_def
        sampleIntegrityEnv_def optionalProperty_def nullishJson_def Let_def)
  ultimately show ?thesis
    using sample_integrity_token by (simp add: verdictOf_def sampleVerification_def Let_def)
qed

lemma sample_integrity_tick:
  "\<exists>s'. processIntegrityVerifications sampleIntegrityEnv sampleVerifier ''t'' 1000 sampleIntegrityState = (Inr (1, 0), s') \<and>
     map vt_verdict (is_results s') = [VerifiedVerdict]"
proof -
  have iso: "toISOString 1000 = Inr (toISOText 1000)" by (simp add: toISOString_def timeClip_def)
  have due: "dueVerifications ModeBoth ''t'' 1000 [sampleVerification] = [sampleVerification]"
    by (simp add: dueVerifications_def sampleVerification_def modeServes_def)
  obtain store reference where evidence: "writeEvidence sampleIntegrityEnv sampleVerification VerifiedVerdict (Some [2]) tokenStore =
      (store, Inr (Some reference))"
    by (simp add: writeEvidence_def sampleIntegrityEnv_def payloadWrite_def Let_def writeNew_def objectKeyId_def safeName_def
        integrityScope_def sampleVerification_def sampleWriteRandom_def isReferenceChar_def isAlphaNum_def hexText_def
        tokenStore_def emptyStore_def encryptedPrefix_def)
  have rows: "\<exists>s'. completeRows sampleIntegrityEnv sampleVerification VerifiedVerdict ref digest 1000
      (sampleIntegrityState\<lparr>is_store := store\<rparr>) = Inr s' \<and> map vt_verdict (is_results s') = [VerifiedVerdict]" for ref digest
    by (simp add: completeRows_def iso integrityStatement_def insertResult_def deleteVerification_def sampleIntegrityState_def
        verificationResult_def) (simp add: sampleIntegrityEnv_def insertResult_def deleteVerification_def)
  have "\<exists>s'. completeVerification sampleIntegrityEnv sampleVerification VerifiedVerdict (Some [2]) 1000 sampleIntegrityState =
      (Inr (), s') \<and> map vt_verdict (is_results s') = [VerifiedVerdict]"
    using evidence rows[of "Some reference" "Some (hexText (ge_sha256 sampleIntegrityEnv [2]))"] by (auto simp: completeVerification_def integrityTx_def sampleIntegrityState_def Let_def)
  then obtain s' where "processVerification sampleIntegrityEnv sampleVerifier 1000 sampleVerification sampleIntegrityState = (Inr False, s')"
    "map vt_verdict (is_results s') = [VerifiedVerdict]"
    using sample_verdict by (auto simp: processVerification_def sampleIntegrityState_def)
  then show ?thesis using due
    by (simp add: processIntegrityVerifications_def sampleIntegrityState_def sampleVerifier_def)
qed

end
