(* ===== verification/Spec2Isabelle.thy ===== *)
theory Spec2Isabelle
  imports SampleViews EvaluateLaws SampleRedirect SampleApple SampleImport SampleReport SampleIngest DeliveryLaws SampleLookup
begin

text \<open>
  A verification development for the attribution system of this repository: the evaluator that
  turns deliveries into a ledger, the packages it is built from, the redirector that records
  clicks, the workers that import, ingest, look up and verify, and the queries that report.

  \<^bold>\<open>The program.\<close> Events reach the system as deliveries in batches (\<^verbatim>\<open>packages/runtime\<close>), as
  redirected clicks (\<^verbatim>\<open>apps/redirector\<close>), as postbacks (\<^verbatim>\<open>packages/apple-postback\<close>,
  \<^verbatim>\<open>apps/api/src/max-receiver.ts\<close>) and as imported files (\<^verbatim>\<open>apps/worker/src/import\<close>). The
  ingestion worker (\<^verbatim>\<open>apps/worker/src/ingestion.ts\<close>) binds the fraud bundle in force, runs the
  evaluator (\<^verbatim>\<open>packages/attribution-core/src/evaluator.ts\<close>) on the batch and its history, and
  writes the artifacts to an append-only ledger and its fact tables. Two workers ask other
  services about stored records and replace or add a decision (\<^verbatim>\<open>adservices-worker.ts\<close>,
  \<^verbatim>\<open>integrity-verifier.ts\<close>). Reports read the ledger (\<^verbatim>\<open>apps/api/src/report-query.ts\<close>).

  \<^bold>\<open>The theories.\<close>
  \<^item> The language: \<open>Prelude\<close> (results, options, sorting), \<open>JsText\<close>, \<open>JsTime\<close>, \<open>JsNumber\<close> and
    \<open>JsNumberBounds\<close> (doubles with their rounding), \<open>Json\<close>, \<open>FormUrl\<close>, \<open>Uuid\<close> (bytes).
  \<^item> The evaluator: \<open>Inputs\<close>, \<open>Outputs\<close> (the contract), \<open>Candidates\<close> (attempts, keys, the locale
    of candidate providers and both providers), \<open>Decide\<close>, \<open>References\<close>, \<open>Ledger\<close>, \<open>Attribution\<close>,
    \<open>Money\<close>, \<open>MetricDefinitions\<close>, \<open>Metrics\<close>, \<open>FraudRules\<close>, \<open>FraudDecisions\<close>, \<open>Reconciliation\<close>,
    \<open>Evaluate\<close> (all of them in the order of the source). Laws: \<open>Decisions\<close>, \<open>MetricLaws\<close>,
    \<open>EvaluateFacts\<close>, \<open>EvaluateLaws\<close>, \<open>DeliveryLaws\<close>.
  \<^item> The redirector: \<open>Redirector\<close>, \<open>RedirectHandler\<close>, \<open>IpBucket\<close>, \<open>InstallReferrer\<close>,
    \<open>AppAssociation\<close>; laws in \<open>RedirectLaws\<close>. The limiter of the API is \<open>RateLimit\<close>.
  \<^item> Storage: \<open>PayloadStore\<close> (encrypted objects), \<open>IngestBatch\<close> (the durable inbox).
  \<^item> Ingestion: \<open>BundleRuntime\<close>, \<open>LedgerRows\<close> (the tables and their statements), \<open>Projections\<close>,
    \<open>RuntimeIngest\<close>. Laws: \<open>LedgerLaws\<close> (growth, the locale of writers, refinement of the store
    that is written once), \<open>IngestLaws\<close>, \<open>IngestStore\<close>, \<open>IngestOutcome\<close>, \<open>IngestTotal\<close>,
    \<open>ProjectionLaws\<close>.
  \<^item> Imports: \<open>Csv\<close>, \<open>ImportMapping\<close>, \<open>ImportRows\<close>, \<open>ImportCost\<close>, \<open>MaxInbox\<close>; laws in
    \<open>ImportLaws\<close>, \<open>ImportCostLaws\<close>, \<open>MaxInboxLaws\<close>.
  \<^item> Lookups: \<open>MetaReferrer\<close> (\<^verbatim>\<open>packages/meta-install-referrer\<close>), \<open>AdServicesResponse\<close> and
    \<open>AdServices\<close>, \<open>Integrity\<close>, with the loop both workers share and its locales in
    \<open>LookupQueue\<close>; laws in \<open>AdServicesLaws\<close> and \<open>IntegrityLaws\<close>.
  \<^item> Postbacks and reports: \<open>ApplePostback\<close>, \<open>ReportQuery\<close>, \<open>ReportPages\<close>, \<open>ReportQueryLaws\<close>.
  \<^item> The theories \<open>Sample...\<close> hold concrete runs on which the theorems below are applied.

  \<^bold>\<open>How the code is modelled.\<close> An object type is a record, a union a datatype, a property that may
  be missing an option. A function that may throw returns \<open>'a res\<close>, the error on the left; code
  that changes tables, the store or shared objects takes the state and returns the new one, and
  with an error the state in which it was thrown. A transaction that throws leaves the tables as
  they were; a payload store and an in-memory limiter are not part of it. A table is a list in the
  order of insertion; \<^verbatim>\<open>ON CONFLICT DO NOTHING\<close> keeps the row that is there; where \<^verbatim>\<open>ORDER BY\<close>
  leaves a tie the first stored row comes first. A sort of the language is stable.

  \<^bold>\<open>Parameters.\<close> What is not under \<^verbatim>\<open>src\<close> is an argument: digests, AES-GCM (the hypothesis
  \<open>aead_ok\<close> says that what is sealed opens again), random bytes, the clock, \<^verbatim>\<open>URL\<close>, \<^verbatim>\<open>JSON.parse\<close>
  of bytes, \<^verbatim>\<open>Date.parse\<close> and the text of a fraction, the collation of the database, the rows and
  statements the database refuses, HTTP clients and the schema validator. Each theorem with a
  hypothesis on such a parameter is applied on a concrete one in its witness.

  \<^bold>\<open>Bounds.\<close> Texts are lists of code units below 256; identifiers and times of the contract are
  ASCII. Integers of the language are unbounded where the code uses \<^verbatim>\<open>BigInt\<close>, and doubles with
  their rounding where it uses numbers. Instants are integers in milliseconds, with the range
  of \<^verbatim>\<open>Date\<close> checked where the code would throw. Every recursion is total; no definition needs
  fuel. Properties inherited from \<^verbatim>\<open>Object.prototype\<close> are not modelled.

  \<^bold>\<open>What is shown.\<close> The providers of candidates are interchangeable and the order of records does
  not matter; each event is accepted once; a delivery is accepted only with consent, and
  erased evidence reaches no output; money is rounded half to even and windows are half open;
  the redirector redirects only after the click is stored and only within its tenant; payloads
  read back; the ledger only grows and refines a store that is written once; a bulk ingestion is
  stored completely or not at all, ends when the database refuses nothing, and equals the
  ingestion of one event at a time; lookups replace only attributions of their tenant, atomically;
  a binding is verified once and only on the word of the provider; report queries stay within
  their tenant and pages are complete.

  \<^bold>\<open>Not modelled.\<close> The contract validator, the API's routing, sessions and authorization, the SDK
  inbox worker, the privacy reapplication and the fraud worker (SQL over the whole schema), the
  SQL metrics, scripts and dashboards. The ingestion worker's test entry points and the sources of
  an import other than a file are left out; so are default HTTP clients.
\<close>

text \<open>
  C1: The evaluation gives the same result, output or error, with the indexed candidate provider
  as with the array scan of the fixtures.
\<close>

theorem evaluate_provider_equivalence:
  "evaluate H createIndexedCandidateProvider input = evaluate H createFixtureCandidateProvider input"
  by (rule indexed.evaluate_determined)

text \<open>
  C2: Two inputs that carry the same attempts in any order and any batching evaluate to the same
  result, provided the sort keys of the attempts (which end in the record digest) are distinct.
\<close>

theorem evaluate_order_independent:
  assumes "mset (attempts input) = mset (attempts (input\<lparr>in_batches := b, in_single := s\<rparr>))"
    and "inj_on (candidateAttemptSortKey H) (set (attempts input))"
  shows "evaluate H createFixtureCandidateProvider (input\<lparr>in_batches := b, in_single := s\<rparr>) =
    evaluate H createFixtureCandidateProvider input"
  by (rule evaluate_attempts) (rule sortCandidateAttempts_mset[OF assms])

lemma evaluate_order_independent_witness:
  "evaluate sampleDigest createFixtureCandidateProvider
     (sampleRun\<lparr>in_batches := None, in_single := Some (sampleServer, [sampleInstall, sampleClick])\<rparr>) =
   evaluate sampleDigest createFixtureCandidateProvider sampleRun"
proof (rule evaluate_order_independent)
  show "mset (attempts sampleRun) =
      mset (attempts (sampleRun\<lparr>in_batches := None, in_single := Some (sampleServer, [sampleInstall, sampleClick])\<rparr>))"
    by (simp add: sample_attempts) (simp add: attempts_def clickAttempt_def installAttempt_def)
  have "candidateAttemptSortKey sampleDigest clickAttempt \<noteq> candidateAttemptSortKey sampleDigest installAttempt"
    by (simp add: candidateAttemptSortKey_def sample_keys)
  then show "inj_on (candidateAttemptSortKey sampleDigest) (set (attempts sampleRun))"
    by (auto simp: sample_attempts inj_on_def)
qed

text \<open>
  C3: A run produces at most one logical event for each tenant, app, producer and event id, and at
  most one for each record id, whatever duplicates and collisions were delivered.
\<close>

theorem logical_events_unique:
  assumes "evaluate H createFixtureCandidateProvider input = Inr out"
  shows "distinct (map (\<lambda>e. (le_tenant_id e, le_app_id e, le_producer e, le_event_id e)) (o_logical_events out)) \<and>
    distinct (map le_record_id (o_logical_events out))"
proof -
  obtain xs where xs: "mset (o_logical_events out) = image_mset makeLogicalEvent (mset xs)"
    "distinct (map scopeKey xs)" "distinct (map record_id xs)"
    using fixture.logical_event_attempt[OF assms] by blast
  have scopes: "distinct (map (\<lambda>a. (tenant_id a, app_id a, r_producer (at_record a), r_event_id (at_record a))) xs)"
    using xs(2) by (rule distinct_map_finer) (auto simp: scopeKey_eq_iff sameScope_def)
  show ?thesis using scopes xs(3) by (simp add: distinct_map_mset[OF xs(1)])
qed

lemma logical_events_unique_witness:
  "\<exists>out. evaluate sampleDigest createFixtureCandidateProvider sampleRun = Inr out \<and>
     distinct (map le_record_id (o_logical_events out)) \<and>
     set (o_logical_events out) = {makeLogicalEvent clickAttempt, makeLogicalEvent installAttempt}"
proof -
  obtain out where "evaluate sampleDigest createFixtureCandidateProvider sampleRun = Inr out"
    "set (o_logical_events out) = {makeLogicalEvent clickAttempt, makeLogicalEvent installAttempt}"
    by (rule sample_evaluation)
  then show ?thesis using logical_events_unique by blast
qed

text \<open>
  C4: No raw record and no logical event of a run belongs to evidence that a completed privacy
  request redacted or purged, or that a retention expiration purged, in the same tenant and app.
\<close>

theorem erased_evidence_absent:
  assumes "evaluate H createFixtureCandidateProvider input = Inr out"
    and "(\<exists>e \<in> set (in_retention_expirations input). (t, p, r) = (re_tenant_id e, re_app_id e, re_record_id e)) \<or>
      (\<exists>q \<in> set (in_privacy_requests input). pr_status q = ''completed'' \<and> t = pr_tenant_id q \<and> p = pr_app_id q \<and>
         (\<exists>af \<in> set (pr_affected_records q). r = af_record_id af))"
  shows "(\<forall>x \<in> set (o_raw_records out). (rr_tenant_id x, rr_app_id x, rr_record_id x) \<noteq> (t, p, r)) \<and>
    (\<forall>x \<in> set (o_logical_events out). (le_tenant_id x, le_app_id x, le_record_id x) \<noteq> (t, p, r))"
proof -
  have erased: "hidden (privacyIndex input) a" if "(tenant_id a, app_id a, record_id a) = (t, p, r)" for a
    using assms(2) that by (auto simp: hidden_iff)
  have "(rr_tenant_id x, rr_app_id x, rr_record_id x) \<noteq> (t, p, r)" if "x \<in> set (o_raw_records out)" for x
    using fixture.raw_record_attempt[OF assms(1) that] makeRawRecord_identity erased by metis
  moreover have "(le_tenant_id x, le_app_id x, le_record_id x) \<noteq> (t, p, r)" if "x \<in> set (o_logical_events out)" for x
    using fixture.logical_event_source[OF assms(1) that] makeLogicalEvent_identity erased by metis
  ultimately show ?thesis by blast
qed

lemma erased_evidence_absent_witness:
  "\<exists>out. evaluate sampleDigest createFixtureCandidateProvider expiredRun = Inr out \<and> length (o_raw_records out) = 1 \<and>
     (\<forall>x \<in> set (o_raw_records out). (rr_tenant_id x, rr_app_id x, rr_record_id x) \<noteq> (''t'', ''a'', ''c1''))"
proof -
  obtain out where "evaluate sampleDigest createFixtureCandidateProvider expiredRun = Inr out" "length (o_raw_records out) = 1"
    by (rule expired_evaluation)
  moreover have "\<exists>e \<in> set (in_retention_expirations expiredRun).
      (''t'', ''a'', ''c1'') = (re_tenant_id e, re_app_id e, re_record_id e)"
    by (simp add: expiredRun_def sampleExpiration_def)
  ultimately show ?thesis using erased_evidence_absent by blast
qed

text \<open>
  C5: Every attempt and every pre-ingestion rejection of the input is reported by exactly one
  delivery, with its delivery id, record id, tenant and app; no delivery is invented or lost.
\<close>

theorem deliveries_complete:
  assumes "evaluate H createFixtureCandidateProvider input = Inr out"
  shows "image_mset deliveryIdentity (mset (o_deliveries out)) =
    image_mset attemptIdentity (mset (attempts input)) + image_mset preIdentity (mset (in_pre_ingestion_rejections input))"
  by (rule deliveries_identities[OF assms])

lemma deliveries_complete_witness:
  "\<exists>out. evaluate sampleDigest createFixtureCandidateProvider sampleRun = Inr out \<and> size (o_deliveries out) = 2"
proof -
  obtain out where out: "evaluate sampleDigest createFixtureCandidateProvider sampleRun = Inr out" by (rule sample_evaluation)
  have "image_mset deliveryIdentity (mset (o_deliveries out)) = image_mset attemptIdentity {#clickAttempt, installAttempt#}"
    using deliveries_complete[OF out] by (simp add: sample_attempts) (simp add: sampleRun_def sampleInput_def)
  then have "size (image_mset deliveryIdentity (mset (o_deliveries out))) = 2" by simp
  then show ?thesis using out by simp
qed

text \<open>
  C6: The rejections of a run are exactly its deliveries with status rejected: each rejected
  delivery has one rejection and nothing else has one.
\<close>

theorem rejections_complete:
  assumes "evaluate H createFixtureCandidateProvider input = Inr out"
  shows "image_mset rejectionIdentity (mset (o_rejections out)) =
    image_mset deliveryIdentity (filter_mset (\<lambda>d. dl_ingestion_status d = Rejected) (mset (o_deliveries out)))"
  by (rule fixture.rejections_deliveries[OF assms])

lemma rejections_complete_witness:
  "\<exists>out. evaluate sampleDigest createFixtureCandidateProvider expiredRun = Inr out \<and>
     size (o_rejections out) = size (filter (\<lambda>d. dl_ingestion_status d = Rejected) (o_deliveries out))"
proof -
  obtain out where out: "evaluate sampleDigest createFixtureCandidateProvider expiredRun = Inr out" by (rule expired_evaluation)
  have "size (image_mset rejectionIdentity (mset (o_rejections out))) =
      size (image_mset deliveryIdentity (mset (filter (\<lambda>d. dl_ingestion_status d = Rejected) (o_deliveries out))))"
    by (simp only: rejections_complete[OF out] mset_filter)
  then show ?thesis using out by (simp add: size_mset[symmetric] mset_filter del: size_mset)
qed

text \<open>
  C7: Every raw record of a run comes from an attempt of the input whose consent decision allows
  processing and whose client-declared tenant and app are those of its server context.
\<close>

theorem raw_records_consented:
  assumes "evaluate H createFixtureCandidateProvider input = Inr out" "x \<in> set (o_raw_records out)"
  shows "\<exists>a \<in> set (attempts input). makeRawRecord H Available a = Inr x \<and>
    (\<exists>k. consentDecision a = Inr k \<and> k_allowed k) \<and>
    r_tenant_id (at_record a) = tenant_id a \<and> r_app_id (at_record a) = app_id a"
  using fixture.raw_record_attempt[OF assms] by metis

lemma raw_records_consented_witness:
  "\<exists>out x. evaluate sampleDigest createFixtureCandidateProvider sampleRun = Inr out \<and> x \<in> set (o_raw_records out) \<and>
     (\<exists>a \<in> set (attempts sampleRun). makeRawRecord sampleDigest Available a = Inr x)"
proof -
  obtain out where out: "evaluate sampleDigest createFixtureCandidateProvider sampleRun = Inr out" "length (o_raw_records out) = 2"
    by (rule sample_evaluation)
  then obtain x where "x \<in> set (o_raw_records out)" by (cases "o_raw_records out") auto
  then show ?thesis using out(1) raw_records_consented[OF out(1)] by blast
qed

text \<open>
  C8: An attribution with reason valid_install_referrer comes from an install and a click of the
  same tenant, app and click id that is not a bot prefetch, with both authoritative times valid
  and the install at most seven days after the click; its evidence names exactly the two records.
\<close>

theorem valid_referrer_sound:
  assumes "evaluate H createFixtureCandidateProvider input = Inr out" "x \<in> set (o_attributions out)"
    and "a_reason_code x = ValidInstallReferrer"
  shows "\<exists>a \<in> set (attempts input). \<exists>c \<in> set (attempts input).
    event_name a = ''install'' \<and> isClickOf (tenant_id a) (app_id a) (p_click_id (at_payload a)) c \<and>
    p_bot_prefetch (at_payload c) \<noteq> Some True \<and>
    (\<exists>installed clicked. p_install_begin_at_server (at_payload a) = Some (toISOText installed) \<and>
       p_redirector_click_at (at_payload c) = Some (toISOText clicked) \<and>
       clicked \<le> installed \<and> installed < clicked + 7 * DAY_MS) \<and>
    a_evidence_refs x = [evidenceRef (privacyIndex input) a (record_id c), evidenceRef (privacyIndex input) a (record_id a)] \<and>
    a_subject_ref x = p_installation_id (at_payload a) \<and> a_status x = NonOrganic"
  by (rule fixture.valid_attribution[OF assms]) (fastforce simp: time_Inr_iff)

lemma valid_referrer_sound_witness:
  "\<exists>out x. evaluate sampleDigest createFixtureCandidateProvider sampleRun = Inr out \<and> o_attributions out = [x] \<and>
     (\<exists>a \<in> set (attempts sampleRun). a_subject_ref x = p_installation_id (at_payload a) \<and> event_name a = ''install'')"
proof -
  obtain out where out: "evaluate sampleDigest createFixtureCandidateProvider sampleRun = Inr out"
    "o_attributions out = [sampleAttribution]"
    by (rule sample_evaluation)
  have "sampleAttribution \<in> set (o_attributions out)" "a_reason_code sampleAttribution = ValidInstallReferrer"
    by (simp_all add: out(2) sampleAttribution_def)
  from valid_referrer_sound[OF out(1) this] show ?thesis using out by blast
qed

text \<open>
  C9: A delivery is accepted only if its declared scope is the server's, its record id occurs
  once, consent allows it, it is not stale, it does not join an aggregate with an installation,
  and its duplicate class is unique or an identical re-delivery.
\<close>

theorem decide_accepted_sound:
  assumes "decide H (createFixtureCandidateProvider xs) a = Inr d" "d_ingestion_status d = Accepted"
  shows "r_tenant_id (at_record a) = tenant_id a \<and> r_app_id (at_record a) = app_id a \<and>
    length (filter (\<lambda>c. record_id c = record_id a) xs) \<le> 1 \<and>
    (\<exists>k. consentDecision a = Inr k \<and> k_allowed k) \<and> staleAttempt a = Inr False \<and>
    \<not> (r_subject_scope (at_record a) = Some ''aggregate'' \<and> truthy (p_installation_id (at_payload a))) \<and>
    d_duplicate_resolution d \<in> {UniqueDelivery, DuplicateDelivery}"
  using decide_accepted[OF assms] by (simp add: fixture.byRecordId_mk)

lemma decide_accepted_sound_witness:
  "length (filter (\<lambda>c. record_id c = record_id clickAttempt) [clickAttempt, installAttempt]) \<le> 1 \<and>
   staleAttempt clickAttempt = Inr False"
proof -
  have "d_ingestion_status (sampleDecision clickAttempt) = Accepted" by (simp add: sampleDecision_def)
  from decide_accepted_sound[OF sample_decide(1) this] show ?thesis by blast
qed



text \<open>
  C11: Rounding returns the integer nearest to the quotient, the even one of two equally near, for
  every numerator of either sign, and fails exactly on a denominator that is not positive.
\<close>

theorem round_half_even_spec:
  "roundHalfEven n d = Inr r \<longleftrightarrow> 0 < d \<and> 2 * \<bar>n - r * d\<bar> \<le> d \<and> (2 * \<bar>n - r * d\<bar> = d \<longrightarrow> even r)"
  by (simp add: roundHalfEven_Inr_iff isHalfEven_def)

lemma round_half_even_spec_witness:
  "roundHalfEven (- 7) 2 = Inr (- 4) \<and> roundHalfEven 5 2 = Inr 2"
  using round_half_even_spec[of "- 7" 2 "- 4"] round_half_even_spec[of 5 2 2] by simp

text \<open>
  C12: In an elapsed window revenue counts exactly when it occurred at or after the install and
  less than window day plus one days later.
\<close>

theorem revenue_elapsed_window:
  assumes "md_window_type d \<noteq> CalendarDay" "r_occurred_at earned = toISOText e" "r_occurred_at inst = toISOText i"
    and "timeClip e" "timeClip i"
  shows "eligibleRevenue d inst earned = Inr (i \<le> e \<and> e < i + (md_window_day d + 1) * DAY_MS)"
  by (rule eligible_elapsed[OF assms])

lemma revenue_elapsed_window_witness:
  "eligibleRevenue (baseDefinition ''m'' UTC Elapsed) sampleInstall sampleInstall = Inr True"
proof -
  have "eligibleRevenue (baseDefinition ''m'' UTC Elapsed) sampleInstall sampleInstall =
      Inr ((1767312000000::int) \<le> 1767312000000 \<and> 1767312000000 < 1767312000000 + (0 + 1) * DAY_MS)"
    using revenue_elapsed_window[of "baseDefinition ''m'' UTC Elapsed" sampleInstall 1767312000000 sampleInstall 1767312000000]
    by (simp add: baseDefinition_def sample_iso sampleInstall_def sampleRecord_def timeClip_def)
  then show ?thesis by (simp add: DAY_MS_def)
qed

text \<open>
  C13: Everything a metric run counts was accepted as unique, was received no later than the run's
  watermark, and, for a run after privacy processing, is not erased.
\<close>

theorem run_sees_accepted_only:
  assumes "runView H ds lc st costs all ev = Inr v" "a \<in> set (v_visible v) \<union> set (v_installs v) \<union> set (v_revenue v)"
  shows "a \<in> set all \<and> isAcceptedUnique H ds a = Inr True \<and>
    r_received_at (at_record a) \<le> me_input_received_at_watermark ev \<and>
    \<not> (me_privacy_state ev = ''after'' \<and> hidden lc a)"
proof -
  have "a \<in> set (v_visible v)" using runView_subsets(1,2)[OF assms(1)] assms(2) by blast
  then show ?thesis using runView_visible[OF assms(1)] by blast
qed

lemma run_sees_accepted_only_witness:
  "\<exists>v. runView sampleDigest (es_decisions sampleState) [] [] [] [clickAttempt, installAttempt] sampleEvaluation = Inr v \<and>
     installAttempt \<in> set (v_installs v) \<and> r_received_at (at_record installAttempt) \<le> sampleTime"
proof -
  obtain v where v: "runView sampleDigest (es_decisions sampleState) [] [] [] [clickAttempt, installAttempt] sampleEvaluation = Inr v"
    "installAttempt \<in> set (v_installs v)" by (rule sample_view)
  then show ?thesis using run_sees_accepted_only[OF v(1), of installAttempt] by (auto simp: sampleEvaluation_def)
qed










text \<open>
  C19: A written object reads back as it was written, every other readable object stays readable,
  and after a purge the reference reads nothing; unless the sanitized name of its tenant, app and
  object holds two dots in a row, in which case the reference just returned is refused by the
  reader and by the purge.
\<close>

theorem payload_roundtrip:
  assumes "aead_ok ae"
    and "payloadWrite ae keyRefused objectRefused random scope plaintext store = (store', Inr reference)"
    and "length (objectKeyId scope random) \<le> 512"
  shows "(if includesText (objectKeyId scope random) ''..''
      then payloadRead ae reference store' = Inl (JsError ''invalid payload reference'') \<and>
        payloadPurge reference store' = (store', Inl (JsError ''invalid payload reference''))
      else payloadRead ae reference store' = Inr plaintext \<and> payloadPurge reference store' = (store, Inr ()) \<and>
        payloadRead ae reference (fst (payloadPurge reference store')) = Inl (JsError ''ENOENT'')) \<and>
    (\<forall>other text. payloadRead ae other store = Inr text \<longrightarrow> payloadRead ae other store' = Inr text)"
proof -
  have reference: "reference = encryptedPrefix @ objectKeyId scope random"
    using assms(2) by (cases rule: payloadWrite_cases[of ae keyRefused objectRefused random scope plaintext store]) simp_all
  show ?thesis
    using payloadRead_written[OF assms] payloadRead_other[of ae _ store _ keyRefused objectRefused random scope plaintext] assms(2)
      purge_written[OF assms(2,3)] payloadRead_purged[of reference store' _ _ ae]
    by (auto simp: payloadPurge_def reference referenceKeyId_objectKeyId[OF assms(3)])
qed

lemma payload_roundtrip_witness:
  "\<exists>store' reference. payloadWrite sampleAead False False sampleWriteRandom sampleScope [1, 2] emptyStore = (store', Inr reference) \<and>
     payloadRead sampleAead reference store' = Inr [1, 2]"
proof -
  obtain store' where w: "payloadWrite sampleAead False False sampleWriteRandom sampleScope [1, 2] emptyStore =
      (store', Inr (encryptedPrefix @ objectKeyId sampleScope sampleWriteRandom))"
    using payloadWrite_succeeds[of False False sampleScope sampleWriteRandom emptyStore] by (auto simp: emptyStore_def)
  then show ?thesis using payload_roundtrip[OF sampleAead_ok w] sample_scope_key by auto
qed

text \<open>
  C20: After any calls the redirector's limiter holds at most its maximum of buckets, one per
  address, and every bucket has between zero tokens and the burst; an address that was not called
  has no bucket it did not have before.
\<close>

theorem ip_limiter_bounded:
  assumes "0 < rate" "1 \<le> burst" "burst \<le> 2 ^ 52"
    and "s = foldl (\<lambda>s c. fst (ipAllow (fst c) (Fin (snd c)) s)) (newIpBucket (Fin rate) (Fin burst) maximum) calls"
  shows "length (ib_buckets s) \<le> maximum \<and> distinct (map fst (ib_buckets s)) \<and>
    (\<forall>e \<in> set (ib_buckets s). bucket_ok (ipTokenBucket s (snd e)) \<and> fst e \<in> fst ` set calls)"
proof -
  let ?start = "newIpBucket (Fin rate) (Fin burst) maximum"
  have ok: "ip_ok ?start" by (rule newIpBucket_ok[OF assms(1-3)])
  have s: "s = ip.run calls ?start" using assms(4) by (simp add: ip.run_def)
  have "ip_ok s" "ib_maximum s = maximum" using ip.run_ok[OF ok, of calls] by (simp_all add: s newIpBucket_def)
  moreover have "k \<in> fst ` set calls" if "(k, e) \<in> set (ib_buckets s)" for k e
    using ip.run_isolated[OF ok, of k calls "ipTokenBucket s e"] that by (force simp: s ipTokenBuckets_def newIpBucket_def)
  ultimately show ?thesis by (auto simp: ip_ok_def list_all_iff)
qed

lemma ip_limiter_bounded_witness:
  "\<exists>s. s = foldl (\<lambda>s c. fst (ipAllow (fst c) (Fin (snd c)) s)) (newIpBucket (Fin 20) (Fin 50) 1) [(''a'', 0), (''b'', 1)] \<and>
     length (ib_buckets s) \<le> 1"
  using ip_limiter_bounded[of 20 50 _ 1 "[(''a'', 0), (''b'', 1)]"] by auto

text \<open>
  C21: The fields a verified SKAdNetwork postback reports as authenticated are all its fields but
  the signature and three named ones, and the signature does not cover all of these: a field under
  a name the signed message does not read can be added to a verified postback, which stays
  verified and reports the added field as authenticated.
\<close>

theorem skan_extra_field_authenticated:
  assumes "verifySkAdNetworkPostback api key body = Verified authenticated observed environment"
    and "name \<notin> set signedNames" "name \<noteq> ''attribution-signature''" "name \<notin> set skanUnsignedFields"
  shows "verifySkAdNetworkPostback api key (body @ [(name, v)]) = Verified (authenticated @ [(name, v)]) observed environment \<and>
    authenticated = filter (\<lambda>p. fst p \<noteq> ''attribution-signature'' \<and> fst p \<notin> set skanUnsignedFields) body \<and>
    (\<exists>signature message. skanSignedMessage api body = Inr message \<and>
       ap_verify api key (joinedBytes message) signature = Inr True)"
  using assms skan_extra_field[OF assms] by (auto simp: skan_verified)

lemma skan_extra_field_authenticated_witness:
  "\<exists>authenticated observed environment.
     verifySkAdNetworkPostback sampleAppleApi ''k'' (samplePostback @ [(''ad-interaction-type'', JStr ''click'')]) =
       Verified (authenticated @ [(''ad-interaction-type'', JStr ''click'')]) observed environment"
  using skan_extra_field_authenticated[OF sample_verified, of "''ad-interaction-type''" "JStr ''click''"]
  by (simp add: signedNames_def skanUnsignedFields_def)

text \<open>
  C22: What the reporting endpoints write as CSV the CSV reader of the import reads back: the
  metric report, with one-character line ends, and the fraud report, with two-character ones, give
  their rows by column name, whatever quotes, commas and line breaks the cells hold; only a row
  whose cells are all empty is lost.
\<close>

theorem csv_report_roundtrip:
  "parseCsv (encodeCsv digits rows metricColumns) =
     Inr (map (\<lambda>row. map (\<lambda>column. (column, JStr (cellText digits (map_of row column)))) metricColumns)
       (filter (\<lambda>row. list_ex (\<lambda>column. cellText digits (map_of row column) \<noteq> []) metricColumns) rows)) \<and>
   parseCsv (encodeFraudCsv digits rows fraudAuditColumns) =
     Inr (map (\<lambda>row. map (\<lambda>column. (column, JStr (auditCellText digits (map_of row column)))) fraudAuditColumns)
       (filter (\<lambda>row. list_ex (\<lambda>column. auditCellText digits (map_of row column) \<noteq> []) fraudAuditColumns) rows))"
  using report_reads_back[of metricColumns digits rows] report_reads_back[of fraudAuditColumns digits rows]
  by (simp add: readBack_def)

text \<open>
  C23: Where no constant and no default of a mapping is an object and the cells of the rows are
  scalars, mapping only adds objects to the store: the attempts and failures of the first rows,
  and every object they are made of, are the same after any later rows have been mapped, and the
  payload of an attempt is an object of its own row.
\<close>

theorem import_rows_isolated:
  assumes "list_all (flatRow h) (rs @ rs2)" "scalarMapping mapping"
    and "mapRows env mapping digest now n0 (rs @ rs2) h = ((as0, fs0), h')"
  shows "\<exists>as1 fs1 h1. mapRows env mapping digest now n0 rs h = ((as1, fs1), h1) \<and>
    prefix as1 as0 \<and> prefix fs1 fs0 \<and> prefix h h1 \<and> prefix h1 h' \<and>
    list_all (\<lambda>(i, a). length h \<le> ir_payload a \<and> ir_payload a < length h1) as1"
proof -
  obtain as1 fs1 h1 where first: "mapRows env mapping digest now n0 rs h = ((as1, fs1), h1)"
    "prefix as1 as0" "prefix fs1 fs0" "prefix h1 h'"
    using mapRows_append[OF assms] by blast
  then show ?thesis using mapRows_grows[OF _ assms(2) first(1)] assms(1) by auto
qed

lemma import_rows_isolated_witness:
  "\<exists>as1 fs1 h1. mapRows sampleImport (clickMapping ownPayload) ''f'' ''n'' 0 [Ref 1] (sampleStore ''x'' ''y'') =
     ((as1, fs1), h1) \<and> prefix (sampleStore ''x'' ''y'') h1 \<and>
     prefix h1 (snd (mapRows sampleImport (clickMapping ownPayload) ''f'' ''n'' 0 [Ref 1, Ref 2] (sampleStore ''x'' ''y'')))"
proof -
  obtain r h' where all: "mapRows sampleImport (clickMapping ownPayload) ''f'' ''n'' 0 ([Ref 1] @ [Ref 2]) (sampleStore ''x'' ''y'') = (r, h')"
    by fastforce
  show ?thesis
    using import_rows_isolated[of "sampleStore ''x'' ''y''" "[Ref 1]" "[Ref 2]" "clickMapping ownPayload" sampleImport "''f''" "''n''" 0
        "fst r" "snd r" h'] own_payload_flat all by auto
qed


text \<open>
  C25: When every pending postback of the tenant can be read and converted, under references that
  are all different, and ingestion does not throw, one pass over the inbox processes all of them,
  counts them, and leaves none pending, whether ingestion accepts or refuses each.
\<close>

theorem max_inbox_drained:
  assumes "\<forall>item \<in> set (pendingItems tenant (ms_tables state)). \<not> blockedItem env (ms_store state) item"
    and "distinct (map mi_raw_query_ref (pendingItems tenant (ms_tables state)))" "ingestReturns env"
  shows "\<exists>state'. processMaxInbox env tenant state = (Inr (length (pendingItems tenant (ms_tables state))), state') \<and>
    pendingItems tenant (ms_tables state') = []"
  using inbox_drained[OF assms] .

lemma max_inbox_drained_witness:
  "\<exists>state state'. processMaxInbox (sampleMaxEnv ''0.12'') ''t'' state = (Inr 1, state') \<and> pendingItems ''t'' (ms_tables state') = []"
proof -
  obtain store where w: "payloadWrite sampleAead False False sampleWriteRandom sampleScope (utf8Bytes (formText (fineQuery ''0.12''))) emptyStore
       = (store, Inr (mi_raw_query_ref sampleItem))"
    using sample_received by blast
  let ?state = "workerState \<lparr>rs_inbox = [sampleItem], rs_audits = [], rs_store = store\<rparr>"
  have store: "ms_store ?state = store" by (simp add: workerState_def)
  have ingest: "ingestReturns (sampleMaxEnv ''0.12'')" by (simp add: ingestReturns_def sampleMaxEnv_def)
  have "\<exists>state'. processMaxInbox (sampleMaxEnv ''0.12'') ''t'' ?state = (Inr (length (pendingItems ''t'' (ms_tables ?state))), state') \<and>
      pendingItems ''t'' (ms_tables state') = []"
    by (rule max_inbox_drained) (use sample_convertible[OF w] ingest in \<open>simp_all add: sample_pending store\<close>)
  then show ?thesis unfolding sample_pending by (metis One_nat_def length_Cons list.size(3))
qed

text \<open>
  C26: One pending postback whose stored query cannot be converted, such as one with a revenue of
  seven decimals, which the receiver lets in, makes every tick of the worker fail: the tables stay
  as they are, so nothing of the inbox is ever processed, and no other job of the worker runs,
  whatever jobs there are.
\<close>

theorem max_inbox_blocked:
  assumes "item \<in> set (pendingItems tenant (ms_tables state))" "blockedItem env (ms_store state) item"
  shows "ms_tables (ticks env tenant jobs n state) = ms_tables state \<and>
    ticks env tenant jobs n state = ticks env tenant jobs' n state \<and>
    (\<exists>e. fst (workerTick env tenant jobs (ticks env tenant jobs n state)) = Inl e)"
proof -
  note kept = blocked_ticks[OF assms, of jobs n jobs']
  then show ?thesis using blocked_tick[of item tenant "ticks env tenant jobs n state" env jobs] assms(1) by auto
qed

lemma max_inbox_blocked_witness:
  "\<exists>state'. receiveMax (sampleReceive ''0.1234567'') sampleMaxConfig ''/max?q'' emptyReceiver = (state', Inr 204) \<and>
     (\<forall>jobs n. pendingItems ''t'' (ms_tables (ticks (sampleMaxEnv ''0.1234567'') ''t'' jobs n (workerState state'))) \<noteq> [])"
proof -
  obtain store where r: "receiveMax (sampleReceive ''0.1234567'') sampleMaxConfig ''/max?q'' emptyReceiver =
      (\<lparr>rs_inbox = [sampleItem], rs_audits = [], rs_store = store\<rparr>, Inr 204)"
    using sample_received by blast
  have "sampleItem \<in> set (pendingItems ''t'' (ms_tables (workerState \<lparr>rs_inbox = [sampleItem], rs_audits = [], rs_store = store\<rparr>)))"
    by (simp add: sample_pending)
  from max_inbox_blocked[OF this sample_blocked] r show ?thesis by (auto simp: sample_pending)
qed

text \<open>
  C27: An accepted report request uses known filters only and a limit between one and the maximum,
  and its statement restricts the runs to the tenant and app of the caller, the first two values
  of the statement, whatever the request says.
\<close>

theorem report_query_scoped:
  assumes "parseMetricQuery api input = Inr r"
  shows "paramKeys input \<subseteq> set transportKeys \<and>
    limitValid (mq_limit (pq_query r))
      (if pq_export r then orElse (ri_maximumExportRows input) (numN 200000) else orElse (ri_maximumRows input) (numN 1000)) \<and>
    (\<exists>vs ps. sq_values (buildMetricQuery (pq_query r)) = TextValue (ri_tenantId input) # TextValue (ri_appId input) # vs \<and>
       snd (metricPredicates (pq_query r)) = ''mr.tenant_id=$1'' # ''mr.app_id=$2'' # ps)"
  using accepted_keys[OF assms] accepted_limit[OF assms] statement_scope[of "pq_query r"] parse_fields(2,3)[OF assms] by auto

lemma report_query_scoped_witness:
  "\<exists>r vs. parseMetricQuery sampleReportApi (reportRequest ''installs'' ''c1'') = Inr r \<and>
     sq_values (buildMetricQuery (pq_query r)) = TextValue ''t'' # TextValue ''a'' # vs"
proof -
  obtain r where r: "parseMetricQuery sampleReportApi (reportRequest ''installs'' ''c1'') = Inr r"
    using sample_accepted[of "''installs''" "''c1''"]
    by (auto simp: metricNamePattern_def isLowerChar_def identifierPattern_def isAlphaNum_def aggregateMetricNames_def)
  from report_query_scoped[OF r] r show ?thesis by (auto simp: reportRequest_def)
qed

text \<open>
  C28: Following the cursors of the pages ends after at most one page more than there are runs,
  and the pages together give every run that matches exactly once, in the order of the statement,
  for every limit of at least one.
\<close>

theorem report_pages_complete:
  assumes "distinct (map runKey (filter (matches query) runs))" "list_all (runOk digits) runs"
    and "\<And>c row. matches (query\<lparr>mq_after := c\<rparr>) row = matches query row"
    and "decodesCursors api base64url runs" "1 \<le> limitCount (mq_limit query)" "mq_after query = None"
  shows "allPages digits base64url api (selectRuns matches runs) (length runs + 1) query =
    Inr (map (reportedRow digits) (sort_key runKey (filter (matches query) runs)))"
  using allPages_complete[OF assms, of "length runs + 1"] by simp

lemma report_pages_complete_witness:
  "allPages (\<lambda>_. []) sampleBase64 samplePages (selectRuns (\<lambda>_ _. True) [sampleMetricRun ''r1'', sampleMetricRun ''r2'']) 3 samplePageQuery =
     Inr (map (reportedRow (\<lambda>_. [])) (sort_key runKey [sampleMetricRun ''r1'', sampleMetricRun ''r2'']))"
  using report_pages_complete[of "\<lambda>_ _. True" samplePageQuery "[sampleMetricRun ''r1'', sampleMetricRun ''r2'']" "\<lambda>_. []" samplePages sampleBase64]
    sample_runs by (simp add: samplePageQuery_def numeral_3_eq_3)



text \<open>
  C30: Whatever the outcome of an ingestion, an error included, and whichever way it writes, the
  ledger has only grown: the rows before it are unchanged and in place, every row added belongs to
  the tenant and app of an attempt of the batch or its history, no key is stored twice, and
  bundles and links are untouched.
\<close>

theorem ingestion_append_only:
  assumes "ingestRuntimeBatch env bulk values historical db = (r, db')"
  shows "(\<exists>added. db_rows db' = db_rows db @ added \<and>
      (\<forall>row \<in> set added. \<exists>a \<in> set (historical @ values). rowScope row = (tenant_id a, app_id a))) \<and>
    (distinctKeys (db_rows db) \<longrightarrow> distinctKeys (db_rows db')) \<and>
    db_revisions db' = db_revisions db \<and> db_links db' = db_links db"
proof -
  have grown: "appends ((\<lambda>a. (tenant_id a, app_id a)) ` set (historical @ values)) db db'"
    by (rule ingestRuntimeBatch_appends[OF assms])
  then obtain added where "db_rows db' = db_rows db @ added"
    "rowScope ` set added \<subseteq> (\<lambda>a. (tenant_id a, app_id a)) ` set (historical @ values)"
    by (auto simp: appends_def)
  moreover from this(2) have "\<forall>row \<in> set added. \<exists>a \<in> set (historical @ values). rowScope row = (tenant_id a, app_id a)"
    by (auto simp: image_subset_iff)
  ultimately show ?thesis using grown by (auto simp: appends_def)
qed

lemma ingestion_append_only_witness:
  "\<exists>r db'. ingestRuntimeBatch (sampleIngest refuseNone) True [clickAttempt, installAttempt] [] blankLedger = (Inr r, db') \<and>
     ir_attributions r = [sampleAttribution] \<and> distinctKeys (db_rows db')"
proof (rule sample_batch_ingested)
  fix result db'
  assume run: "ingestRuntimeBatch (sampleIngest refuseNone) True [clickAttempt, installAttempt] [] blankLedger = (Inr result, db')"
    "ir_attributions result = [sampleAttribution]"
  have "distinctKeys (db_rows blankLedger)" by (simp add: distinctKeys_def blankLedger_def)
  with ingestion_append_only[OF run(1)] run show ?thesis by blast
qed



text \<open>
  C32: When the database refuses no row, a bulk ingestion that ends with an error ends with that
  of the bundle in force or of the evaluation, raised before anything but the apps was written:
  every stored record has its policy digest, every event the attempt it is projected from, every
  deep link open a time that can be compared, and every fraud decision carries the bundle in
  force.
\<close>

theorem bulk_ingestion_completes:
  assumes "ingestScope env True values historical db = (Inl e, db')"
    and "ie_refused env = (\<lambda>_ _. None)"
  shows "\<exists>t a. scopePair (scopeText (hd values)) = (t, a) \<and>
    (resolveActiveFraudBundle (ie_H env) (db_revisions db) t a = Inl e \<or>
     (\<exists>revision. resolveActiveFraudBundle (ie_H env) (db_revisions db) t a = Inr revision \<and>
        planIngestion env revision db' values historical = Inl e))"
  using bulk_failure[OF assms(1)] assms(2)
  by (cases "scopePair (scopeText (hd values))") (simp add: refuseNone_def)

lemma bulk_ingestion_completes_witness:
  "resolveActiveFraudBundle sampleDigest (db_revisions ambiguousLedger) ''t'' ''a'' =
     Inl (JsError ''active_fraud_rule_bundle_ambiguous'')"
proof -
  obtain db' where run: "ingestScope (sampleIngest refuseNone) True [clickAttempt, installAttempt] [] ambiguousLedger =
      (Inl (JsError ''active_fraud_rule_bundle_ambiguous''), db')" by (rule ambiguous_ingested)
  have refused: "ie_refused (sampleIngest refuseNone) = (\<lambda>_ _. None)" by (simp add: sampleIngest_fields refuseNone_def)
  from bulk_ingestion_completes[OF run refused] show ?thesis
    by (auto simp: sample_scopePair ambiguous_resolved sampleIngest_fields)
qed

text \<open>
  C33: Only payloads the event schema accepts reach the ledger: every raw record and every logical
  event an ingestion returns has the record id, tenant and app of an attempt of the batch or its
  history that the validator accepted.
\<close>

theorem ingested_payloads_valid:
  assumes "ingestRuntimeBatch env bulk values historical db = (Inr result, db')"
  shows "(\<forall>x \<in> set (ir_raw_records result). \<exists>v \<in> set (historical @ values).
      record_id v = rr_record_id x \<and> tenant_id v = rr_tenant_id x \<and> app_id v = rr_app_id x \<and>
      ie_validate env (event_name v) (at_payload v) = None) \<and>
    (\<forall>e \<in> set (ir_logical_events result). \<exists>v \<in> set (historical @ values).
      record_id v = le_record_id e \<and> tenant_id v = le_tenant_id e \<and> app_id v = le_app_id e \<and>
      ie_validate env (event_name v) (at_payload v) = None)"
  using from_valid.of_batch[OF assms] unfolding fromValid_def prod.inject by (simp only: conj_assoc)

lemma ingested_payloads_valid_witness:
  "\<exists>result db'. ingestRuntimeBatch (sampleIngest refuseNone) True [clickAttempt, installAttempt] [] blankLedger = (Inr result, db') \<and>
     (\<forall>x \<in> set (ir_raw_records result). rr_record_id x = ''c1'' \<or> rr_record_id x = ''i1'')"
proof (rule sample_batch_ingested)
  fix result db'
  assume run: "ingestRuntimeBatch (sampleIngest refuseNone) True [clickAttempt, installAttempt] [] blankLedger = (Inr result, db')"
  from ingested_payloads_valid[OF run] sample_keys(2,3)
  have "\<forall>x \<in> set (ir_raw_records result). rr_record_id x = ''c1'' \<or> rr_record_id x = ''i1''" by auto
  with run show ?thesis by blast
qed

text \<open>
  C34: Every delivery an ingestion returns is well formed: it is accepted exactly when it has no
  reason code, its payload is kept exactly when it is accepted or an event id conflict, an
  accepted one is unique or an identical re-delivery, collisions and conflicts carry their
  duplicate class, staleness fields go with \<^verbatim>\<open>timestamp_stale\<close> alone, and
  a legal basis version with a legal basis.
\<close>

theorem stored_deliveries_well_formed:
  assumes "ingestRuntimeBatch env bulk values historical db = (Inr result, db')" "d \<in> set (ir_deliveries result)"
  shows "(dl_ingestion_status d = Accepted \<longleftrightarrow> dl_reason_code d = None) \<and>
    (dl_payload_disposition d = ProtectedPayload \<longleftrightarrow> dl_reason_code d \<in> {None, Some EventIdConflictReject}) \<and>
    (dl_ingestion_status d = Accepted \<longrightarrow> dl_duplicate_resolution d \<in> {UniqueDelivery, DuplicateDelivery}) \<and>
    (dl_reason_code d = Some RecordIdCollisionReject \<longrightarrow> dl_duplicate_resolution d = RecordIdCollision) \<and>
    (dl_reason_code d = Some EventIdConflictReject \<longrightarrow> dl_duplicate_resolution d = EventIdConflict) \<and>
    (dl_reason_code d = Some TimestampStale \<longleftrightarrow> dl_staleness_policy_version d \<noteq> None) \<and>
    (dl_alternative_legal_basis_policy_version d \<noteq> None \<longrightarrow> dl_alternative_legal_basis_id d \<noteq> None)"
  using well_formed.of_batch[OF assms(1)] assms(2) by (simp add: list_all_iff wellFormedDelivery_def)

lemma stored_deliveries_well_formed_witness:
  "\<exists>result db'. ingestRuntimeBatch (sampleIngest refuseNone) True [clickAttempt, installAttempt] [] blankLedger = (Inr result, db') \<and>
     (\<forall>d \<in> set (ir_deliveries result). dl_ingestion_status d = Accepted \<longleftrightarrow> dl_reason_code d = None)"
proof (rule sample_batch_ingested)
  fix result db'
  assume run: "ingestRuntimeBatch (sampleIngest refuseNone) True [clickAttempt, installAttempt] [] blankLedger = (Inr result, db')"
  from stored_deliveries_well_formed[OF run] run show ?thesis by blast
qed





text \<open>
  C37: Whatever the interface answers and however a tick ends, an error included, a tick over the
  lookups of a tenant only appends to the ledger final attributions of the interface for that
  tenant, each in place of a stored one; results are only appended; no lookup of another tenant is
  touched; no lookup is added or changes identity; and none has more than three attempts.
\<close>

theorem adservices_tick_scoped:
  assumes "processAdServicesLookups env enabled endpoint t now s = (r, s')"
    and "list_all (\<lambda>l. lu_attempts l \<le> 3) (ad_lookups s)"
  shows "(\<exists>added. db_rows (ad_db s') = db_rows (ad_db s) @ map AttributionRow added \<and>
      (\<forall>a \<in> set added. a_tenant_id a = t \<and> a_method a = AppleAdServices \<and> a_finality a = Final \<and>
        (\<exists>prior. AttributionRow prior \<in> set (db_rows (ad_db s')) \<and> a_app_id prior = a_app_id a \<and>
           a_supersedes_attribution_id a = Some (a_attribution_id prior)))) \<and>
    (\<exists>added. ad_results s' = ad_results s @ added \<and> (\<forall>result \<in> set added. lr_tenant_id result = t)) \<and>
    filter (\<lambda>l. lu_tenant_id l \<noteq> t) (ad_lookups s') = filter (\<lambda>l. lu_tenant_id l \<noteq> t) (ad_lookups s) \<and>
    subseq (map lookupIdentity (ad_lookups s')) (map lookupIdentity (ad_lookups s)) \<and>
    list_all (\<lambda>l. lu_attempts l \<le> 3) (ad_lookups s')"
proof -
  have kept: "adsKeeps t s s'"
    by (rule processAdServicesLookups_keeps[OF assms(1)]) (simp add: fewAttempts_def assms(2))
  then obtain added where rows: "db_rows (ad_db s') = db_rows (ad_db s) @ map AttributionRow added"
      and decided: "list_all (lookupDecision t (db_rows (ad_db s'))) added"
    unfolding adsKeeps_def by blast
  have "\<forall>a \<in> set added. lookupDecision t (db_rows (ad_db s')) a" using decided by (simp add: list_all_iff)
  then show ?thesis using kept rows assms(2) unfolding adsKeeps_def lookupDecision_def fewAttempts_def list_all_iff by blast
qed

lemma adservices_tick_scoped_witness:
  "\<exists>s'. processAdServicesLookups sampleAdsEnv True (Inr ''https://ads.example/'') ''t'' 1000 sampleAdsState = (Inr (1, 0), s') \<and>
     (\<exists>added. db_rows (ad_db s') = sampleInstallRows @ map AttributionRow added \<and> (\<forall>a \<in> set added. a_tenant_id a = ''t''))"
proof -
  obtain s' where s': "processAdServicesLookups sampleAdsEnv True (Inr ''https://ads.example/'') ''t'' 1000 sampleAdsState = (Inr (1, 0), s')"
    using sample_processed by blast
  have "list_all (\<lambda>l. lu_attempts l \<le> 3) (ad_lookups sampleAdsState)"
    by (simp add: sampleAdsState_def sampleLookup_def)
  moreover have "db_rows (ad_db sampleAdsState) = sampleInstallRows" by (simp add: sampleAdsState_def)
  ultimately show ?thesis using adservices_tick_scoped[OF s'] s' by auto
qed

text \<open>
  C38: A verdict of verified is never the worker's own: when a tick records one, the provider was
  asked about that binding and answered 200 with a body that names the same binding and passes
  every check of the provider: for Play the app recognized and the device's integrity met, for App
  Attest a valid app, signature and counter.
\<close>

theorem integrity_verified_sound:
  assumes "processIntegrityVerifications env options t now s = (r, s')" and "decidedOnce s"
    and "result \<in> set (is_results s')" "result \<notin> set (is_results s)" "vt_verdict result = VerifiedVerdict"
  shows "vt_tenant_id result = t \<and> (\<exists>endpoint token body answer.
    ge_client env (vt_provider result) endpoint token (vt_binding_digest result) = Some (200, body) \<and>
    ge_parseJson env body = Inr (JObj answer) \<and>
    (case vt_provider result of
       PlayIntegrity \<Rightarrow>
         nullishJson (optionalProperty (map_of answer ''requestDetails'') ''requestHash'')
           (optionalProperty (map_of answer ''requestDetails'') ''nonce'') = Some (JStr (vt_binding_digest result)) \<and>
         optionalProperty (map_of answer ''appIntegrity'') ''appRecognitionVerdict'' = Some (JStr ''PLAY_RECOGNIZED'') \<and>
         (\<exists>xs. optionalProperty (map_of answer ''deviceIntegrity'') ''deviceRecognitionVerdict'' = Some (JArr xs) \<and>
            JStr ''MEETS_DEVICE_INTEGRITY'' \<in> set xs)
     | AppAttest \<Rightarrow>
         map_of answer ''binding_digest'' = Some (JStr (vt_binding_digest result)) \<and>
         map_of answer ''app_id_valid'' = Some (JBool True) \<and> map_of answer ''signature_valid'' = Some (JBool True) \<and>
         map_of answer ''counter_valid'' = Some (JBool True)))"
proof -
  obtain added where "is_results s' = is_results s @ added" "list_all (soundResult env t) added"
    using processIntegrityVerifications_keeps[OF assms(1,2)] unfolding integrityKeeps_def by blast
  then have "soundResult env t result" using assms(3,4) by (auto simp: list_all_iff)
  then obtain endpoint token body details where sound: "vt_tenant_id result = t"
    "ge_client env (vt_provider result) endpoint token (vt_binding_digest result) = Some (200, body)"
    "normalizeIntegrityResponse (ge_parseJson env) (vt_provider result) body (vt_binding_digest result) = Inr (VerifiedVerdict, details)"
    using assms(5) by (auto simp: soundResult_def)
  show ?thesis
  proof (cases "vt_provider result")
    case PlayIntegrity
    with sound(3) obtain answer xs where "ge_parseJson env body = Inr (JObj answer)"
      "nullishJson (optionalProperty (map_of answer ''requestDetails'') ''requestHash'')
         (optionalProperty (map_of answer ''requestDetails'') ''nonce'') = Some (JStr (vt_binding_digest result))"
      "optionalProperty (map_of answer ''appIntegrity'') ''appRecognitionVerdict'' = Some (JStr ''PLAY_RECOGNIZED'')"
      "optionalProperty (map_of answer ''deviceIntegrity'') ''deviceRecognitionVerdict'' = Some (JArr xs)"
      "JStr ''MEETS_DEVICE_INTEGRITY'' \<in> set xs"
      using normalize_verified_play[of "ge_parseJson env" body "vt_binding_digest result" details] by metis
    then show ?thesis using sound(1,2) PlayIntegrity
      by (intro conjI exI[of _ endpoint] exI[of _ token] exI[of _ body] exI[of _ answer]) simp_all
  next
    case AppAttest
    with sound(3) obtain answer where "ge_parseJson env body = Inr (JObj answer)"
      "map_of answer ''binding_digest'' = Some (JStr (vt_binding_digest result))"
      "map_of answer ''app_id_valid'' = Some (JBool True)" "map_of answer ''signature_valid'' = Some (JBool True)"
      "map_of answer ''counter_valid'' = Some (JBool True)"
      using normalize_verified_attest[of "ge_parseJson env" body "vt_binding_digest result" details] by metis
    then show ?thesis using sound(1,2) AppAttest
      by (intro conjI exI[of _ endpoint] exI[of _ token] exI[of _ body] exI[of _ answer]) simp_all
  qed
qed

lemma integrity_verified_sound_witness:
  "\<exists>s' result. processIntegrityVerifications sampleIntegrityEnv sampleVerifier ''t'' 1000 sampleIntegrityState = (Inr (1, 0), s') \<and>
     result \<in> set (is_results s') \<and> vt_verdict result = VerifiedVerdict \<and> vt_tenant_id result = ''t''"
proof -
  obtain s' where s': "processIntegrityVerifications sampleIntegrityEnv sampleVerifier ''t'' 1000 sampleIntegrityState = (Inr (1, 0), s')"
    "map vt_verdict (is_results s') = [VerifiedVerdict]"
    using sample_integrity_tick by (elim exE conjE) (rule that)
  from s'(2) have "list_all (\<lambda>result. vt_verdict result = VerifiedVerdict) (is_results s') \<and> is_results s' \<noteq> []"
    by (cases "is_results s'") simp_all
  then have result: "hd (is_results s') \<in> set (is_results s')" "vt_verdict (hd (is_results s')) = VerifiedVerdict"
    by (simp_all add: list_all_iff)
  have "decidedOnce sampleIntegrityState" by (simp add: decidedOnce_def sampleIntegrityState_def)
  moreover have "hd (is_results s') \<notin> set (is_results sampleIntegrityState)" by (simp add: sampleIntegrityState_def)
  ultimately have "vt_tenant_id (hd (is_results s')) = ''t''" using integrity_verified_sound[OF s'(1) _ result(1) _ result(2)] by simp
  with s'(1) result show ?thesis by (intro exI[of _ s'] exI[of _ "hd (is_results s')"]) simp
qed





section \<open>Further facts\<close>

text \<open>
  The evaluator reads a timestamp exactly when it is the canonical ISO text of a time value in
  range, and reads back the very value that was printed.
\<close>

theorem time_canonical:
  "time value field = Inr t \<longleftrightarrow> timeClip t \<and> value = Some (toISOText t)"
  by (rule time_Inr_iff)

text \<open>
  On accepted timestamps with four-digit years, comparing the texts gives the sign of the
  difference of the instants, so watermarks and sort keys compared as text are compared as times.
\<close>

theorem text_order_is_time_order:
  assumes "time (Some a) f = Inr t" "time (Some b) g = Inr u" "fourDigitYear t" "fourDigitYear u"
  shows "compareText a b = sgn (t - u)"
  by (rule compareText_time[OF assms])

lemma text_order_is_time_order_witness:
  "compareText ''2026-01-01T00:00:00.000Z'' ''2026-01-01T00:00:01.000Z'' = sgn (1767225600000 - 1767225601000)"
proof (rule text_order_is_time_order)
  show "time (Some ''2026-01-01T00:00:00.000Z'') [] = Inr 1767225600000"
    "time (Some ''2026-01-01T00:00:01.000Z'') [] = Inr 1767225601000" by (rule sample_times)+
  show "fourDigitYear 1767225600000" "fourDigitYear 1767225601000" by code_simp+
qed

text \<open>
  Composite keys never collide: two lists of parts, absent parts included, have the same JSON text
  only if they are equal, whatever quotes, backslashes or control characters the parts hold.
\<close>

theorem composite_key_injective:
  "compositeKey ps = compositeKey qs \<longleftrightarrow> ps = qs"
  by (rule compositeKey_eq_iff)

text \<open>
  Rounding preserves the order of the numerators, so an amount never converts to less than a
  smaller one.
\<close>

theorem round_half_even_monotone:
  assumes "roundHalfEven n d = Inr r" "roundHalfEven m d = Inr s" "n \<le> m"
  shows "r \<le> s"
  by (rule roundHalfEven_mono[OF assms])

lemma round_half_even_monotone_witness: "(2::int) \<le> 4"
  using round_half_even_monotone[of 5 2 2 7 4] by (simp add: roundHalfEven_def)

text \<open>
  The metric definitions of an input are accepted exactly when all names, the built-in ones
  included, are distinct and each definition of the input keeps its series contract; otherwise the
  evaluation throws.
\<close>

theorem metric_definitions_accepted:
  "(\<exists>ds. metricDefinitions H input = Inr ds) \<longleftrightarrow>
     distinct (map md_metric_name (baseMetricDefinitions @ in_metric_definitions input)) \<and>
     list_all seriesMatches (in_metric_definitions input)"
  by (simp add: metricDefinitions_Inr list_all_iff)

text \<open>
  In a calendar-day window revenue counts exactly when its day in the aggregation zone is the
  install's day in that zone plus the window day.
\<close>

theorem revenue_calendar_window:
  assumes "md_window_type d = CalendarDay" "r_occurred_at earned = toISOText e" "r_occurred_at inst = toISOText i"
    and "datable (md_aggregation_time_zone d) e" "timeClip i" "datable (md_aggregation_time_zone d) (i + md_window_day d * dayMs)"
  shows "eligibleRevenue d inst earned =
    Inr (zoneDay (md_aggregation_time_zone d) e = zoneDay (md_aggregation_time_zone d) i + md_window_day d)"
  by (rule eligible_calendar[OF assms])

lemma revenue_calendar_window_witness:
  "eligibleRevenue (baseDefinition ''m'' AsiaTokyo CalendarDay) sampleInstall sampleInstall = Inr True"
proof -
  have "eligibleRevenue (baseDefinition ''m'' AsiaTokyo CalendarDay) sampleInstall sampleInstall =
      Inr (zoneDay AsiaTokyo 1767312000000 = zoneDay AsiaTokyo 1767312000000 + 0)"
    using revenue_calendar_window[of "baseDefinition ''m'' AsiaTokyo CalendarDay" sampleInstall 1767312000000 sampleInstall 1767312000000]
      datable_sample
    by (simp add: baseDefinition_def sample_iso sampleInstall_def sampleRecord_def datable_def)
  then show ?thesis by simp
qed

text \<open>
  The current costs of a run hold, for every tenant, app and cost dimension with a cost inside the
  run, exactly one record of the input: one that no other record of that key follows in as-of time
  and record id.
\<close>

theorem current_costs_latest:
  "distinct_costs (currentCosts ev installs costs) \<and>
   latest_costs (filter (costInRun ev installs) costs) (currentCosts ev installs costs)"
  by (rule conjI[OF currentCosts_distinct currentCosts_latest_all])

text \<open>
  A run is other than fully reproducible exactly when it is evaluated after privacy processing and
  one of its records is redacted or purged.
\<close>

theorem reproducible_iff:
  "reproducibilityOf ev lc included \<noteq> FullyReproducible \<longleftrightarrow>
     me_privacy_state ev = ''after'' \<and>
     filter (\<lambda>a. map_of lc (attemptEvidenceKey a) \<in> {Some Redacted, Some Purged}) included \<noteq> []"
  by (auto simp: reproducibility_full filter_empty_conv)

text \<open>
  A reconciliation is reported as matched exactly when there is no redaction effect, it has keys,
  the first matching candidate is not excluded, not out of window and not stale, and no other
  candidate matches while a key is one-to-one.
\<close>

theorem reconciliation_matched_iff:
  "differenceReason item matched = Matched \<longleftrightarrow>
     ri_privacy_effect item \<noteq> Some ''redaction'' \<and> ri_matching_keys item \<noteq> [] \<and>
     (\<exists>first others. matched = first # others \<and> \<not> rc_excluded first \<and> rc_window_status first \<noteq> ''out_of_window'' \<and>
        rc_freshness first \<noteq> FreshStale \<and>
        \<not> (others \<noteq> [] \<and> list_ex (\<lambda>e. mk_cardinality e = ''one_to_one'') (ri_matching_keys item)))"
  unfolding differenceReason_Matched list_ex_iff by blast

text \<open>
  The checked-in default bundle passes its own validation, so its provenance is always available
  and carries no private layer.
\<close>

theorem default_bundle_valid:
  "assertFraudBundle DEFAULT_FRAUD_BUNDLE = Inr () \<and>
   publicBundleProvenance H DEFAULT_FRAUD_BUNDLE = Inr \<lparr>
     bp_id = ''fraud-conservative'', bp_version = ''1.0.0'', bp_hash = H (HFraudBundle DEFAULT_FRAUD_BUNDLE),
     bp_private_layer_digest = None\<rparr>"
  by (simp add: DEFAULT_FRAUD_BUNDLE_valid publicBundleProvenance_def fraudBundleHash_def) (simp add: DEFAULT_FRAUD_BUNDLE_def)

text \<open>
  A request adds at most one batch to the inbox, under the tenant and app of an active link of the
  tenant the request resolves to; batches already there are never changed or removed.
\<close>

theorem redirector_scope:
  assumes "handleRequest config env request state = (state', out)"
  shows "batches state' = batches state \<or>
    (\<exists>(link :: tracking_link) b. batches state' = batches state @ [b] \<and> ib_tenant_id b = tl_tenant_id link \<and>
       ib_app_id b = tl_app_id link \<and> ib_producer b = ''redirector'' \<and> tl_status link = LinkActive \<and>
       tenantForRequest config (rv_tables env) (normalizedHost request) = Inr (Some (tl_tenant_id link)))"
  by (rule handleRequest_batches[OF assms])

lemma redirector_scope_witness:
  "\<exists>state' out. handleRequest sampleConfig sampleEnv sampleRequest sampleRedirector = (state', out) \<and>
    (batches state' = batches sampleRedirector \<or>
    (\<exists>(link :: tracking_link) b. batches state' = batches sampleRedirector @ [b] \<and> ib_tenant_id b = tl_tenant_id link \<and>
       ib_app_id b = tl_app_id link \<and> ib_producer b = ''redirector'' \<and> tl_status link = LinkActive \<and>
       tenantForRequest sampleConfig (rv_tables sampleEnv) (normalizedHost sampleRequest) = Inr (Some (tl_tenant_id link))))"
  using redirector_scope[of sampleConfig sampleEnv sampleRequest sampleRedirector]
  by (cases "handleRequest sampleConfig sampleEnv sampleRequest sampleRedirector") blast

text \<open>
  An identifier has the 36 characters of a UUID with the version digit 7 and the variant bits, and
  of two identifiers the one of the later millisecond is the greater text, whatever the random
  bytes are, until the 48-bit time overflows.
\<close>

theorem uuid_time_ordered:
  assumes "length r = 16" "length r' = 16" "t < t'" "t' < 2 ^ 48"
  shows "uuidV7 r (int t) < uuidV7 r' (int t') \<and> length (uuidV7 r (int t)) = 36 \<and>
    uuidV7 r (int t) ! 14 = CHR ''7'' \<and> uuidV7 r (int t) ! 19 \<in> set ''89ab''"
  using uuidV7_less[OF assms] uuidV7_marks[OF assms(1)] by blast

lemma uuid_time_ordered_witness:
  "uuidV7 (replicate 16 255) (int 1767225600000) < uuidV7 (replicate 16 0) (int 1767225600001)"
  using uuid_time_ordered[of "replicate 16 255" "replicate 16 0" 1767225600000 1767225600001] by simp

text \<open>
  In every reachable state the API's limiter holds at most its maximum number of principals, each
  once, and a call changes or creates the entry of its own principal only.
\<close>

theorem keyed_limiter_invariant:
  assumes "keyed_reachable limiter" "keyed_call limiter (key, t, answer) limiter'"
  shows "keyed_ok limiter \<and> keyed_ok limiter' \<and>
    (\<forall>k e. (k, e) \<in> set (kb_entries limiter') \<and> k \<noteq> key \<longrightarrow> (k, e) \<in> set (kb_entries limiter))"
proof -
  have call: "keyedAllow key (Fin t) limiter = (limiter', answer)" using assms(2) by (simp add: keyed_call_simps)
  have "keyed_reachable limiter'" using assms by (rule keyed_reachable.step)
  then show ?thesis using reachable_ok assms(1) keyedAllow_isolated[of _ _ key "Fin t" limiter] call by auto
qed

lemma keyed_limiter_invariant_witness:
  "\<exists>limiter limiter' answer. newKeyedTokenBucket (numN 1) (numN 1) (numN 1) (numN 1) = Inr limiter \<and>
     keyedAllow ''k'' (Fin 0) limiter = (limiter', answer) \<and> keyed_ok limiter'"
proof -
  obtain limiter where l: "newKeyedTokenBucket (numN 1) (numN 1) (numN 1) (numN 1) = Inr limiter"
    by (simp add: newKeyedTokenBucket_def numN_def leN_def)
  obtain limiter' answer where c: "keyedAllow ''k'' (Fin 0) limiter = (limiter', answer)" by fastforce
  have "keyed_ok limiter \<and> keyed_ok limiter' \<and>
      (\<forall>k e. (k, e) \<in> set (kb_entries limiter') \<and> k \<noteq> ''k'' \<longrightarrow> (k, e) \<in> set (kb_entries limiter))"
    by (rule keyed_limiter_invariant[OF keyed_reachable.start[OF l] keyed_call.call[OF c]])
  then show ?thesis using l c by blast
qed

text \<open>
  Of any number of calls on a fresh bucket at one instant, the first as many as the burst are
  allowed and all later ones are refused.
\<close>

theorem burst_at_one_instant:
  assumes "newTokenBucket (Fin rate) (numN (int burst)) (Fin t) = Inr bucket" "int burst < 2 ^ 53"
  shows "answersAt n (Fin t) bucket = replicate (min burst n) True @ replicate (n - burst) False"
  using assms
  by (intro answersAt_burst[where rate = rate and burst = "int burst"])
    (auto simp: newTokenBucket_def bindR_Inr_iff throwIf_Inr_iff)

lemma burst_at_one_instant_witness:
  "\<exists>bucket. newTokenBucket (Fin 1) (numN (int 2)) (Fin 0) = Inr bucket \<and> answersAt 3 (Fin 0) bucket = [True, True, False]"
proof -
  obtain bucket where "newTokenBucket (Fin 1) (numN (int 2)) (Fin 0) = Inr bucket"
    by (simp add: newTokenBucket_def numN_def leN_def)
  then show ?thesis using burst_at_one_instant[of 1 2 0 bucket 3] by (simp add: numeral_eq_Suc)
qed

text \<open>
  A destination passes the check only if it parses, names no credentials, and is a Play details
  page, a market details link, or an https URL whose origin is the origin of one of the allowed
  URLs.
\<close>

theorem destination_allowed:
  assumes "assertAllowedDestination urls destination origins = Inr u"
  shows "ua_parse urls destination = Some u \<and> u_username u = [] \<and> u_password u = [] \<and>
    u_protocol u \<in> {''https:'', ''market:''} \<and>
    (u_protocol u = ''market:'' \<and> u_hostname u = ''details'' \<or>
     u_hostname u = ''play.google.com'' \<and> u_pathname u = ''/store/apps/details'' \<or>
     (\<exists>allowed \<in> set origins. \<exists>v. ua_parse urls allowed = Some v \<and> u_origin v = u_origin u))"
  using assertAllowedDestination_Inr[OF assms] by simp

lemma destination_allowed_witness:
  "ua_parse sampleUrls ''https://shop.example/'' = Some (sampleUrl ''/'') \<and>
    (\<exists>allowed \<in> set [''https://shop.example/'']. \<exists>v. ua_parse sampleUrls allowed = Some v \<and> u_origin v = u_origin (sampleUrl ''/''))"
proof -
  have "assertAllowedDestination sampleUrls ''https://shop.example/'' [''https://shop.example/''] = Inr (sampleUrl ''/'')"
    by (simp add: assertAllowedDestination_def sampleUrls_def sampleUrl_def newUrl_def)
  from destination_allowed[OF this] show ?thesis by (simp add: sampleUrl_def)
qed

text \<open>
  Of the parameters of a request only declared names with a prefix and a well-formed value are
  bound, each name once, and every other parameter is counted as dropped.
\<close>

theorem deep_link_parameters_bound:
  "distinct (map fst (fst (bindDeepLinkParameters source declared))) \<and>
   set (fst (bindDeepLinkParameters source declared)) \<subseteq>
     {(name, v). name \<in> set declared \<and> validSegment v \<and> (''dlp_'' @ name, v) \<in> set source} \<and>
   snd (bindDeepLinkParameters source declared) \<le> length source"
  using bindDeepLinkParameters_values[of source declared "fst (bindDeepLinkParameters source declared)"
      "snd (bindDeepLinkParameters source declared)"] by auto

text \<open>
  The Android document is built exactly when every Android app of the tenant has a valid identity,
  and lists these apps and no others; so one Android app that is registered without an Apple
  identity, and therefore has null there in the database, makes the documents of the whole tenant
  fail.
\<close>

theorem association_documents:
  "(assetLinksDocument collate identities = Inr document) =
     ((\<forall>item \<in> set identities. isAndroidApp item \<longrightarrow> validateAppLinkIdentity item = Inr ()) \<and>
      document = JArr (map assetLink (byAppId collate (filter isAndroidApp identities)))) \<and>
   (list_ex (\<lambda>item. isAndroidApp item \<and> al_apple_team_id item = Null \<and> al_apple_bundle_id item = Null) identities \<longrightarrow>
      (\<exists>e. assetLinksDocument collate identities = Inl e))"
  using android_only_fails[of _ identities collate] by (auto simp: assetLinksDocument_Inr list_ex_iff)

lemma association_documents_witness:
  "\<exists>e. assetLinksDocument compareText [sampleAndroidApp] = Inl e"
  using association_documents[of compareText "[sampleAndroidApp]" JNull] by (simp add: sampleAndroidApp_def isAndroidApp_def)

text \<open>
  An AdAttributionKit postback is verified only if its token has three parts, the header names
  ES256 and a known key, the key is a development key only where these are accepted, and the
  signature over the first two parts holds under that key; what it reports as authenticated is
  then the payload of the token and nothing of the body around it.
\<close>

theorem attribution_kit_verified:
  assumes "verifyAdAttributionKitPostback api acceptDevelopment keys body = Verified authenticated observed environment"
  shows "\<exists>jws protected payload signature header kid encodedKey.
     stringField body ''jws-string'' = Inr jws \<and> splitOn (CHR ''.'') jws = [protected, payload, signature] \<and>
     decodeBase64UrlJson api protected = Inr header \<and> map_of header ''alg'' = Some (JStr ''ES256'') \<and>
     map_of header ''kid'' = Some (JStr kid) \<and> keyEnvironment kid = Some environment \<and>
     (environment = Production \<or> acceptDevelopment) \<and> map_of keys kid = Some encodedKey \<and>
     ap_verify api encodedKey (utf8Bytes (protected @ ''.'' @ payload)) signature = Inr True \<and>
     decodeBase64UrlJson api payload = Inr authenticated"
  using assms by (rule aak_verified)

lemma attribution_kit_verified_witness:
  "\<exists>payload. decodeBase64UrlJson sampleAppleApi payload = Inr [(''advertised-item-identifier'', JNum (numN 1))]"
  using attribution_kit_verified[OF sample_aak_verified] by blast

text \<open>
  A decimal amount converts exactly when it is digits with at most as many decimals as the scale,
  and to the text, without leading zeros, of the very number the decimal names times ten to the
  scale; the conversion of a mapped money column accepts the same texts and gives a text of that
  number. Nothing is rounded.
\<close>

theorem import_amounts_exact:
  "(decimalToUnscaled amount scale = Inr unscaled \<longleftrightarrow>
     (\<exists>parts n. decimalParts (trim amount) = Some parts \<and> length (snd parts) \<le> scale \<and>
        of_nat n = decimalValue parts * 10 ^ scale \<and> unscaled = showNat n)) \<and>
   (decimalAmount v scale = Inr converted \<longrightarrow>
     (\<exists>s parts. v = Val (JStr s) \<and> decimalParts (trim s) = Some parts \<and> length (snd parts) \<le> scale \<and>
        allDigits converted \<and> of_nat (readNat converted) = decimalValue parts * 10 ^ scale))"
  using decimalToUnscaled_Inr[of amount scale unscaled] decimalAmount_Inr[of v scale converted] by blast

lemma import_amounts_exact_witness:
  "\<exists>parts. decimalParts (trim ''0.12'') = Some parts \<and> of_nat (readNat ''0120000'') = decimalValue parts * 10 ^ 6"
proof -
  have "decimalAmount (Val (JStr ''0.12'')) 6 = Inr ''0120000''"
    by (simp add: decimalAmount_def sample_parts padEnd_def numeral_eq_Suc)
  then show ?thesis using import_amounts_exact[of "[]" 6 "[]" "Val (JStr ''0.12'')" "''0120000''"] by auto
qed

text \<open>
  Importing the same cost rows once more, whatever identifier the second run gets, adds no cost
  record and leaves the count of the current ones as it was.
\<close>

theorem cost_import_idempotent:
  assumes "persistCostImport env sourceId rows db = Inr (r, db')" "nextId (ci_as_of (hd rows)) = Inr i"
  shows "(\<exists>extra. cd_costs db' = cd_costs db @ extra \<and> cr_inserted r = length extra) \<and>
    (\<exists>r2 db2. persistCostImport (env\<lparr>ce_runId := nextId\<rparr>) sourceId rows db' = Inr (r2, db2) \<and> cr_inserted r2 = 0 \<and>
       cd_costs db2 = cd_costs db' \<and> cr_current r2 = cr_current r)"
  by (rule persistCostImport_again[OF assms(1), where nextId = nextId, OF assms(2)])

lemma cost_import_idempotent_witness:
  "\<exists>r db' r2 db2. persistCostImport sampleCostEnv ''s'' [sampleCost] emptyCosts = Inr (r, db') \<and>
     persistCostImport (sampleCostEnv\<lparr>ce_runId := \<lambda>_. Inr ''r2''\<rparr>) ''s'' [sampleCost] db' = Inr (r2, db2) \<and> cr_inserted r2 = 0"
proof -
  obtain r db' where "persistCostImport sampleCostEnv ''s'' [sampleCost] emptyCosts = Inr (r, db')"
    using sample_cost_imported by blast
  with cost_import_idempotent[OF this, where nextId = "\<lambda>_. Inr ''r2''"] show ?thesis by auto
qed

text \<open>
  The text of the statement depends on which filters a request has, and on whether it asks for the
  latest runs, and on nothing else the request says: two accepted requests with the same filters
  give the same text and the same number of values, so no text of a request reaches the SQL.
\<close>

theorem report_statement_parametric:
  assumes "parseMetricQuery api input = Inr r" "parseMetricQuery api' input' = Inr r'"
    and "paramKeys input = paramKeys input'"
    and "(mq_supersession (pq_query r) = ''latest'') = (mq_supersession (pq_query r') = ''latest'')"
  shows "sq_text (buildMetricQuery (pq_query r)) = sq_text (buildMetricQuery (pq_query r')) \<and>
    length (sq_values (buildMetricQuery (pq_query r))) = length (sq_values (buildMetricQuery (pq_query r')))"
  by (rule buildMetricQuery_shape[OF accepted_shape[OF assms]])

lemma report_statement_parametric_witness:
  "\<exists>r r'. parseMetricQuery sampleReportApi (reportRequest ''installs'' ''c1'') = Inr r \<and>
     parseMetricQuery sampleReportApi (reportRequest ''clicks'' ''c2'') = Inr r' \<and>
     sq_text (buildMetricQuery (pq_query r)) = sq_text (buildMetricQuery (pq_query r'))"
proof -
  have patterns: "metricNamePattern ''installs''" "metricNamePattern ''clicks''" "identifierPattern ''c1''" "identifierPattern ''c2''"
    "''installs'' \<notin> set aggregateMetricNames" "''clicks'' \<notin> set aggregateMetricNames"
    by (simp_all add: metricNamePattern_def isLowerChar_def identifierPattern_def isAlphaNum_def isDigit_def aggregateMetricNames_def)
  obtain r r' where r: "parseMetricQuery sampleReportApi (reportRequest ''installs'' ''c1'') = Inr r"
    "parseMetricQuery sampleReportApi (reportRequest ''clicks'' ''c2'') = Inr r'"
    "mq_supersession (pq_query r) = ''latest''" "mq_supersession (pq_query r') = ''latest''"
    using sample_accepted patterns by meson
  have "paramKeys (reportRequest ''installs'' ''c1'') = paramKeys (reportRequest ''clicks'' ''c2'')"
    by (simp add: paramKeys_def reportRequest_def)
  from report_statement_parametric[OF r(1,2) this] r show ?thesis by auto
qed

text \<open>
  The bundle in force of an app is one its tenant registered and nothing superseded, and it is
  what was registered: its definition passes the rules of bundles, its stored hash and digest are
  the digest of that definition, and its id and version are the definition's.
\<close>

theorem active_bundle_sound:
  assumes "resolveActiveFraudBundle H revisions tenantId appId = Inr (Some r)"
  shows "(\<exists>row \<in> set revisions. br_rule_bundle_revision_id row = ar_ruleBundleRevisionId r \<and>
      br_tenant_id row = tenantId \<and> br_app_id row = appId \<and> \<not> supersededIn revisions row \<and>
      br_definition row = Some (ar_definition r)) \<and>
    assertFraudBundle (ar_definition r) = Inr () \<and> ar_ruleBundleHash r = H (HFraudBundle (ar_definition r)) \<and>
    ar_definitionDigest r = ar_ruleBundleHash r \<and> ar_ruleBundleId r = fb_id (ar_definition r) \<and>
    ar_ruleBundleVersion r = fb_version (ar_definition r)"
proof -
  obtain row where row: "row \<in> set revisions" "br_tenant_id row = tenantId" "br_app_id row = appId"
    "currentRevisions revisions tenantId appId = [row]" "validatedRevision H row = Inr r"
    by (rule resolveActive_Some[OF assms])
  have "row \<in> set (currentRevisions revisions tenantId appId)" by (simp add: row(4))
  then have "\<not> supersededIn revisions row" by (simp add: currentRevisions_def)
  with row have "\<exists>row \<in> set revisions. br_rule_bundle_revision_id row = ar_ruleBundleRevisionId r \<and>
      br_tenant_id row = tenantId \<and> br_app_id row = appId \<and> \<not> supersededIn revisions row \<and>
      br_definition row = Some (ar_definition r)"
    by (intro bexI[of _ row]) (auto simp: validatedRevision_Inr)
  with resolveActive_sound[OF assms] show ?thesis by simp
qed

lemma active_bundle_sound_witness:
  "\<exists>r. resolveActiveFraudBundle sampleDigest [defaultRevision sampleDigest ''t'' ''a'' ''h'' ''h'' sampleTime] ''t'' ''a'' = Inr (Some r) \<and>
     ar_ruleBundleHash r = ''h'' \<and> ar_ruleBundleId r = fb_id DEFAULT_FRAUD_BUNDLE"
proof -
  obtain r where r: "resolveActiveFraudBundle sampleDigest [defaultRevision sampleDigest ''t'' ''a'' ''h'' ''h'' sampleTime] ''t'' ''a'' = Inr (Some r)"
    "ar_definition r = DEFAULT_FRAUD_BUNDLE" by (rule sample_default_active)
  from active_bundle_sound[OF r(1)] r show ?thesis by (simp add: sampleDigest_def)
qed

end
